(* ===== verification/Prelude.thy ===== *)
theory Prelude imports Complex_Main begin

text \<open>
  Shared vocabulary of the development: exceptions as values, the exception-and-state
  functions every service operation is written with, the JavaScript library functions the
  code calls on arrays, strings and numbers, and tables with first-match lookup.
  Theorem collections: \<open>exec_simps\<close> (equations that run an operation), \<open>exec_iff\<close>
  (what a successful run says about its parts), \<open>table_simps\<close> (lookup after an update).
\<close>

named_theorems exec_simps "equations that run an operation"
named_theorems exec_iff "successful runs, decomposed"
named_theorems table_simps "lookup after update in a table"

section \<open>Exceptions and operations\<close>

text \<open>
  \<open>Error m\<close> is \<open>throw new Error(m)\<close>; the other constructors are the exception classes of
  the web framework with their message, and a constraint violation reported by the database.
\<close>

datatype exn =
    Error string
  | BadRequest string
  | NotFound string
  | Unauthorized string
  | Conflict string
  | PgError string

text \<open>
  An operation takes the state and returns its result or its exception together with the
  state it leaves: effects made before a \<open>throw\<close> stay, unless a transaction rolls them back.
\<close>

type_synonym ('s, 'a) exec = "'s \<Rightarrow> (exn + 'a) \<times> 's"

definition return :: "'a \<Rightarrow> ('s, 'a) exec" where
  "return x = (\<lambda>s. (Inr x, s))"

definition raise :: "exn \<Rightarrow> ('s, 'a) exec" where
  "raise e = (\<lambda>s. (Inl e, s))"

definition bindE :: "('s, 'a) exec \<Rightarrow> ('a \<Rightarrow> ('s, 'b) exec) \<Rightarrow> ('s, 'b) exec" where
  "bindE m k = (\<lambda>s. case m s of (Inl e, s') \<Rightarrow> (Inl e, s') | (Inr x, s') \<Rightarrow> k x s')"

definition reads :: "('s \<Rightarrow> 'a) \<Rightarrow> ('s, 'a) exec" where
  "reads f = (\<lambda>s. (Inr (f s), s))"

definition modifies :: "('s \<Rightarrow> 's) \<Rightarrow> ('s, unit) exec" where
  "modifies f = (\<lambda>s. (Inr (), f s))"

text \<open>\<open>if (bad) throw e\<close>\<close>

definition throw_if :: "bool \<Rightarrow> exn \<Rightarrow> ('s, unit) exec" where
  "throw_if bad e = (\<lambda>s. if bad then (Inl e, s) else (Inr (), s))"

text \<open>\<open>if (x === null) throw e\<close>, and the value otherwise\<close>

definition need :: "'a option \<Rightarrow> exn \<Rightarrow> ('s, 'a) exec" where
  "need x e = (\<lambda>s. case x of None \<Rightarrow> (Inl e, s) | Some v \<Rightarrow> (Inr v, s))"

text \<open>A value or an exception that was computed without the state, or came from outside.\<close>

definition lift_sum :: "exn + 'a \<Rightarrow> ('s, 'a) exec" where
  "lift_sum r = (\<lambda>s. (r, s))"

fun for_each :: "('x \<Rightarrow> ('s, unit) exec) \<Rightarrow> 'x list \<Rightarrow> ('s, unit) exec" where
  "for_each f [] = return ()"
| "for_each f (x # xs) = bindE (f x) (\<lambda>_. for_each f xs)"

fun for_fold :: "('x \<Rightarrow> 'acc \<Rightarrow> ('s, 'acc) exec) \<Rightarrow> 'x list \<Rightarrow> 'acc \<Rightarrow> ('s, 'acc) exec" where
  "for_fold f [] acc = return acc"
| "for_fold f (x # xs) acc = bindE (f x acc) (\<lambda>acc'. for_fold f xs acc')"

lemma return_apply [exec_simps, simp]: "return x s = (Inr x, s)"
  by (simp add: return_def)

lemma raise_apply [exec_simps, simp]: "raise e s = (Inl e, s)"
  by (simp add: raise_def)

lemma reads_apply [exec_simps, simp]: "reads f s = (Inr (f s), s)"
  by (simp add: reads_def)

lemma modifies_apply [exec_simps, simp]: "modifies f s = (Inr (), f s)"
  by (simp add: modifies_def)

lemma throw_if_apply [exec_simps]:
  "throw_if bad e s = (if bad then (Inl e, s) else (Inr (), s))"
  by (simp add: throw_if_def)

lemma need_apply [exec_simps, simp]:
  "need (Some v) e s = (Inr v, s)" "need None e s = (Inl e, s)"
  by (simp_all add: need_def)

lemma bindE_Inr_apply [exec_simps]: "m s = (Inr x, s') \<Longrightarrow> bindE m k s = k x s'"
  by (simp add: bindE_def)

lemma bindE_Inl_apply [exec_simps]: "m s = (Inl e, s') \<Longrightarrow> bindE m k s = (Inl e, s')"
  by (simp add: bindE_def)

lemma bindE_simps [exec_simps, simp]:
  "bindE (return x) k = k x"
  "bindE (raise e) k = raise e"
  by (auto simp: bindE_def)

lemma bindE_assoc: "bindE (bindE m k) h = bindE m (\<lambda>x. bindE (k x) h)"
  by (rule ext) (auto simp: bindE_def split: prod.splits sum.splits)

lemma bindE_success [exec_iff]:
  "bindE m k s = (Inr y, t) \<longleftrightarrow> (\<exists>x u. m s = (Inr x, u) \<and> k x u = (Inr y, t))"
  by (auto simp: bindE_def split: prod.splits sum.splits)

lemma bindE_failure:
  "bindE m k s = (Inl e, t) \<longleftrightarrow>
     m s = (Inl e, t) \<or> (\<exists>x u. m s = (Inr x, u) \<and> k x u = (Inl e, t))"
  by (auto simp: bindE_def split: prod.splits sum.splits)

lemma return_success [exec_iff]: "return x s = (Inr y, t) \<longleftrightarrow> y = x \<and> t = s"
  by auto

lemma raise_success [exec_iff]: "raise e s = (Inr y, t) \<longleftrightarrow> False"
  by simp

lemma reads_success [exec_iff]: "reads f s = (Inr y, t) \<longleftrightarrow> y = f s \<and> t = s"
  by auto

lemma modifies_success [exec_iff]: "modifies f s = (Inr y, t) \<longleftrightarrow> t = f s"
  by auto

lemma throw_if_success [exec_iff]: "throw_if bad e s = (Inr y, t) \<longleftrightarrow> \<not> bad \<and> t = s"
  by (auto simp: throw_if_def)

lemma need_success [exec_iff]: "need x e s = (Inr y, t) \<longleftrightarrow> x = Some y \<and> t = s"
  by (auto simp: need_def split: option.splits)

lemma lift_sum_success [exec_iff]: "lift_sum r s = (Inr x, s') \<longleftrightarrow> r = Inr x \<and> s' = s"
  by (auto simp: lift_sum_def)

text \<open>An operation that only reads leaves the state; the combinators keep any state invariant.\<close>

definition preserves :: "('s \<Rightarrow> bool) \<Rightarrow> ('s, 'a) exec \<Rightarrow> bool" where
  "preserves I m \<longleftrightarrow> (\<forall>s r t. I s \<longrightarrow> m s = (r, t) \<longrightarrow> I t)"

lemma preservesD: "preserves I m \<Longrightarrow> I s \<Longrightarrow> m s = (r, t) \<Longrightarrow> I t"
  by (auto simp: preserves_def)

lemma preservesI: "(\<And>s. I s \<Longrightarrow> I (snd (m s))) \<Longrightarrow> preserves I m"
  by (force simp: preserves_def)

lemma preserves_basic [intro]:
  "preserves I (return x)" "preserves I (raise e)" "preserves I (reads f)"
  "preserves I (throw_if b e)" "preserves I (need v e)"
  by (auto simp: preserves_def return_def raise_def reads_def throw_if_def need_def
      split: if_splits option.splits)

lemma preserves_modifies [intro]: "(\<And>s. I s \<Longrightarrow> I (f s)) \<Longrightarrow> preserves I (modifies f)"
  by (auto simp: preserves_def)

lemma preserves_bindE [intro]:
  assumes m: "preserves I m" and k: "\<And>x. preserves I (k x)"
  shows "preserves I (bindE m k)"
proof (rule preservesI)
  fix s
  assume s: "I s"
  obtain r u where mu: "m s = (r, u)" by force
  with m s have u: "I u" by (rule preservesD)
  show "I (snd (bindE m k s))"
  proof (cases r)
    case (Inl e)
    with mu u show ?thesis by (simp add: bindE_def)
  next
    case (Inr x)
    from preservesD [OF k u, of x] have "I (snd (k x u))" by (cases "k x u") simp
    with mu Inr show ?thesis by (simp add: bindE_def)
  qed
qed

lemma preserves_for_each [intro]:
  "(\<And>x. preserves I (f x)) \<Longrightarrow> preserves I (for_each f xs)"
  by (induction xs) auto

section \<open>Array, string and number functions of the language\<close>

text \<open>\<open>[...new Set(xs)]\<close>: one copy of each element, in the order of first occurrence.\<close>

fun uniq :: "'a list \<Rightarrow> 'a list" where
  "uniq [] = []"
| "uniq (x # xs) = x # filter (\<lambda>y. y \<noteq> x) (uniq xs)"

lemma set_uniq [simp]: "set (uniq xs) = set xs"
  by (induction xs) auto

lemma distinct_uniq [simp]: "distinct (uniq xs)"
  by (induction xs) auto

lemma length_uniq: "length (uniq xs) = card (set xs)"
  by (metis distinct_card distinct_uniq set_uniq)

lemma length_uniq_le: "length (uniq xs) \<le> length xs"
  by (simp add: length_uniq card_length)

lemma uniq_distinct: "distinct xs \<Longrightarrow> uniq xs = xs"
proof (induction xs)
  case (Cons x xs)
  then show ?case by (simp add: filter_id_conv) metis
qed simp

text \<open>\<open>Math.round\<close>: ties go up.\<close>

definition js_round :: "rat \<Rightarrow> int" where
  "js_round x = \<lfloor>x + 1 / 2\<rfloor>"

lemma js_round_of_int [simp]: "js_round (of_int k) = k"
  by (simp add: js_round_def floor_eq_iff)

lemma js_round_mono: "x \<le> y \<Longrightarrow> js_round x \<le> js_round y"
  by (simp add: js_round_def floor_mono)

lemma js_round_nonneg: "0 \<le> x \<Longrightarrow> 0 \<le> js_round x"
  using js_round_mono [of 0 x] js_round_of_int [of 0] by simp

definition to_upper_char :: "char \<Rightarrow> char" where
  "to_upper_char c =
     (let n = of_char c :: nat in if 97 \<le> n \<and> n \<le> 122 then char_of (n - 32) else c)"

definition to_lower_char :: "char \<Rightarrow> char" where
  "to_lower_char c =
     (let n = of_char c :: nat in if 65 \<le> n \<and> n \<le> 90 then char_of (n + 32) else c)"

text \<open>\<open>toUpperCase\<close>, \<open>toLowerCase\<close>, \<open>trim\<close> and \<open>startsWith\<close> on ASCII text.\<close>

definition to_upper :: "string \<Rightarrow> string" where
  "to_upper = map to_upper_char"

definition to_lower :: "string \<Rightarrow> string" where
  "to_lower = map to_lower_char"

definition is_blank :: "char \<Rightarrow> bool" where
  "is_blank c \<longleftrightarrow> c = CHR '' '' \<or> (9 \<le> (of_char c :: nat) \<and> (of_char c :: nat) \<le> 13)"

definition trim :: "string \<Rightarrow> string" where
  "trim s = rev (dropWhile is_blank (rev (dropWhile is_blank s)))"

definition starts_with :: "string \<Rightarrow> string \<Rightarrow> bool" where
  "starts_with p s \<longleftrightarrow> take (length p) s = p"

lemma starts_with_iff: "starts_with p s \<longleftrightarrow> (\<exists>r. s = p @ r)"
  unfolding starts_with_def by (metis append_eq_conv_conj append_take_drop_id)

lemma starts_with_append [simp]: "starts_with p (p @ r)"
  by (simp add: starts_with_def)

text \<open>\<open>x ?? d\<close> and the truth value of an optional string (\<open>null\<close>, \<open>undefined\<close>, \<open>""\<close> are false).\<close>

definition coalesce :: "'a option \<Rightarrow> 'a \<Rightarrow> 'a" where
  "coalesce x d = (case x of None \<Rightarrow> d | Some v \<Rightarrow> v)"

definition truthy :: "string option \<Rightarrow> bool" where
  "truthy x = (case x of None \<Rightarrow> False | Some v \<Rightarrow> v \<noteq> [])"

lemma truthy_iff: "truthy x \<longleftrightarrow> (\<exists>v. x = Some v \<and> v \<noteq> [])"
  by (simp add: truthy_def split: option.split)

text \<open>Decimal text of an integer, as template strings print it.\<close>

fun show_nat :: "nat \<Rightarrow> string" where
  "show_nat n = (if n < 10 then [char_of (48 + n)]
                 else show_nat (n div 10) @ [char_of (48 + n mod 10)])"

declare show_nat.simps [simp del]

definition show_int :: "int \<Rightarrow> string" where
  "show_int i = (if i < 0 then CHR ''-'' # show_nat (nat (- i)) else show_nat (nat i))"

section \<open>Tables\<close>

text \<open>
  A table is the list of its rows in insertion order. \<open>SELECT ... WHERE p\<close> is \<open>filter p\<close>,
  its first row is \<open>find p\<close>, \<open>UPDATE ... SET f WHERE p\<close> is \<open>update_where p f\<close>.
\<close>

definition update_where :: "('r \<Rightarrow> bool) \<Rightarrow> ('r \<Rightarrow> 'r) \<Rightarrow> 'r list \<Rightarrow> 'r list" where
  "update_where p f = map (\<lambda>r. if p r then f r else r)"

lemma update_where_simps [simp]:
  "update_where p f [] = []"
  "update_where p f (r # rs) = (if p r then f r else r) # update_where p f rs"
  by (simp_all add: update_where_def)

lemma length_update_where [simp]: "length (update_where p f rs) = length rs"
  by (simp add: update_where_def)

lemma set_update_where:
  "set (update_where p f rs) = f ` {r \<in> set rs. p r} \<union> {r \<in> set rs. \<not> p r}"
  by (auto simp: update_where_def)

lemma update_where_none: "(\<And>r. r \<in> set rs \<Longrightarrow> \<not> p r) \<Longrightarrow> update_where p f rs = rs"
  by (induction rs) auto

lemma map_update_where [table_simps]:
  "(\<And>r. g (f r) = g r) \<Longrightarrow> map g (update_where p f rs) = map g rs"
  by (induction rs) auto

lemma find_update_where [table_simps]:
  "(\<And>r. q (f r) = q r) \<Longrightarrow>
   find q (update_where p f rs) = map_option (\<lambda>r. if p r then f r else r) (find q rs)"
  by (induction rs) auto

lemma find_append [table_simps]:
  "find p (xs @ ys) = (case find p xs of None \<Rightarrow> find p ys | Some x \<Rightarrow> Some x)"
  by (induction xs) auto

lemma find_SomeD: "find p xs = Some x \<Longrightarrow> x \<in> set xs \<and> p x"
  by (induction xs) (auto split: if_splits)

lemma find_None_iff': "find p xs = None \<longleftrightarrow> (\<forall>x \<in> set xs. \<not> p x)"
  by (induction xs) auto

lemma find_exists: "x \<in> set xs \<Longrightarrow> p x \<Longrightarrow> \<exists>y. find p xs = Some y"
  by (metis find_None_iff' not_None_eq)

text \<open>With a unique key the first match is the only match.\<close>

lemma find_unique:
  assumes "distinct (map k xs)" and "x \<in> set xs" and "k x = a"
  shows "find (\<lambda>r. k r = a) xs = Some x"
  using assms by (induction xs) force+

lemma unique_key: "distinct (map k xs) \<Longrightarrow> x \<in> set xs \<Longrightarrow> y \<in> set xs \<Longrightarrow> k x = k y \<Longrightarrow> x = y"
  by (metis distinct_map inj_onD)

lemma filter_update_where_length:
  "(\<And>r. q (f r) = q r) \<Longrightarrow> length (filter q (update_where p f rs)) = length (filter q rs)"
  by (induction rs) auto

end
