(* ===== verification/Pieces.thy ===== *)
theory Pieces imports Prelude begin

text \<open>
  \<open>custody/qr/generator.ts\<close>: minting piece ids from random bytes, the read-aloud check digit and
  the formats the schemas accept. Randomness is an argument: the list of byte blocks that successive
  calls of \<open>randomBytes\<close> return. The lemmas show that minted ids are well formed and distinct
  and what the check digit detects.
\<close>

section \<open>Character classes\<close>

definition in_range :: "nat \<Rightarrow> nat \<Rightarrow> char \<Rightarrow> bool" where
  "in_range lo hi c \<longleftrightarrow> lo \<le> (of_char c :: nat) \<and> (of_char c :: nat) \<le> hi"

text \<open>\<open>[0-9a-f]\<close>, \<open>[0-9a-fA-F]\<close>, \<open>[0-9A-HJ-NP-Z]\<close> and \<open>[0-9A-HJ-NP-TV-Z]\<close>\<close>

definition lower_hex :: "char \<Rightarrow> bool" where
  "lower_hex c \<longleftrightarrow> in_range 48 57 c \<or> in_range 97 102 c"

definition any_hex :: "char \<Rightarrow> bool" where
  "any_hex c \<longleftrightarrow> lower_hex c \<or> in_range 65 70 c"

definition schema_id_char :: "char \<Rightarrow> bool" where
  "schema_id_char c \<longleftrightarrow>
     in_range 48 57 c \<or> in_range 65 72 c \<or> in_range 74 78 c \<or> in_range 80 90 c"

definition strict_id_char :: "char \<Rightarrow> bool" where
  "strict_id_char c \<longleftrightarrow>
     in_range 48 57 c \<or> in_range 65 72 c \<or> in_range 74 78 c \<or> in_range 80 84 c \<or> in_range 86 90 c"

text \<open>\<open>/^prefix[class]{n}$/.test(s)\<close>\<close>

definition matches :: "string \<Rightarrow> (char \<Rightarrow> bool) \<Rightarrow> nat \<Rightarrow> string \<Rightarrow> bool" where
  "matches prefix cls n s \<longleftrightarrow>
     starts_with prefix s \<and> length s = length prefix + n \<and> list_all cls (drop (length prefix) s)"

lemma matches_iff:
  "matches prefix cls n s \<longleftrightarrow> (\<exists>b. s = prefix @ b \<and> length b = n \<and> list_all cls b)"
  by (auto simp: matches_def starts_with_iff)

definition isWellFormedPieceId :: "string \<Rightarrow> bool" where
  "isWellFormedPieceId = matches ''DTD-'' strict_id_char 10"

text \<open>The looser pattern of \<open>PieceSchema\<close> and \<open>ScanEventSchema\<close>.\<close>

definition schema_piece_id :: "string \<Rightarrow> bool" where
  "schema_piece_id = matches ''DTD-'' schema_id_char 10"

definition is_bytes32 :: "string \<Rightarrow> bool" where
  "is_bytes32 = matches ''0x'' lower_hex 64"

definition is_address :: "string \<Rightarrow> bool" where
  "is_address = matches ''0x'' any_hex 40"

lemma strict_schema_char: "strict_id_char c \<Longrightarrow> schema_id_char c"
  by (auto simp: strict_id_char_def schema_id_char_def in_range_def)

lemma well_formed_schema: "isWellFormedPieceId s \<Longrightarrow> schema_piece_id s"
  by (auto simp: isWellFormedPieceId_def schema_piece_id_def matches_iff list_all_iff
      intro: strict_schema_char)

lemma schema_id_char_letters: "schema_id_char (CHR ''L'')" "schema_id_char (CHR ''U'')"
  by (simp_all add: schema_id_char_def in_range_def)

section \<open>Minting\<close>

definition ALPHABET :: string where
  "ALPHABET = ''0123456789ABCDEFGHJKMNPQRSTVWXYZ''"

definition ID_LEN :: nat where
  "ID_LEN = 10"

definition generatePieceId :: "nat list \<Rightarrow> string" where
  "generatePieceId bytes =
     ''DTD-'' @ map (\<lambda>i. ALPHABET ! (bytes ! i mod length ALPHABET)) [0 ..< ID_LEN]"

text \<open>
  The loop \<open>while (set.size < n) set.add(generatePieceId())\<close>. The blocks are what
  \<open>randomBytes\<close> hands out; when they run out before \<open>n\<close> different ids have come up the loop
  has not ended and the result is \<open>None\<close>.
\<close>

fun mint_loop :: "nat \<Rightarrow> string list \<Rightarrow> nat list list \<Rightarrow> string list option" where
  "mint_loop n acc blocks =
     (if n \<le> length acc then Some acc
      else case blocks of
        [] \<Rightarrow> None
      | b # bs \<Rightarrow>
          (let x = generatePieceId b
           in mint_loop n (if x \<in> set acc then acc else acc @ [x]) bs))"

declare mint_loop.simps [simp del]

definition MAX_PIECES :: nat where
  "MAX_PIECES = 10000"

definition generatePieceIds :: "nat \<Rightarrow> nat list list \<Rightarrow> (exn + string list) option" where
  "generatePieceIds n blocks =
     (if n = 0 then Some (Inl (Error ''PIECE_COUNT_MUST_BE_POSITIVE''))
      else if MAX_PIECES < n then Some (Inl (Error ''PIECE_COUNT_TOO_LARGE''))
      else map_option Inr (mint_loop n [] blocks))"

lemma length_ALPHABET [simp]: "length ALPHABET = 32"
  by (simp add: ALPHABET_def)

lemma ALPHABET_strict: "k < 32 \<Longrightarrow> strict_id_char (ALPHABET ! k)"
proof -
  have "list_all strict_id_char ALPHABET"
    by (simp add: ALPHABET_def strict_id_char_def in_range_def)
  then show "k < 32 \<Longrightarrow> strict_id_char (ALPHABET ! k)"
    by (simp add: list_all_length)
qed

lemma distinct_ALPHABET: "distinct ALPHABET"
  by (simp add: ALPHABET_def)

lemma generatePieceId_well_formed: "isWellFormedPieceId (generatePieceId b)"
  unfolding isWellFormedPieceId_def matches_iff generatePieceId_def
  by (intro exI conjI, rule refl) (auto simp: ID_LEN_def list_all_iff ALPHABET_strict)

lemma mint_loop_spec:
  "mint_loop n acc blocks = Some ids \<Longrightarrow> distinct acc \<Longrightarrow> length acc \<le> n \<Longrightarrow>
   list_all isWellFormedPieceId acc \<Longrightarrow>
   distinct ids \<and> length ids = n \<and> list_all isWellFormedPieceId ids"
proof (induction n acc blocks rule: mint_loop.induct)
  case (1 n acc blocks)
  show ?case
  proof (cases "n \<le> length acc \<or> blocks = []")
    case True
    with "1.prems" show ?thesis by (auto simp: mint_loop.simps [of n acc] split: if_splits)
  next
    case False
    then obtain b bs where b: "blocks = b # bs" and n: "\<not> n \<le> length acc" by (cases blocks) auto
    have "mint_loop n (if generatePieceId b \<in> set acc then acc else acc @ [generatePieceId b]) bs
        = Some ids"
      using "1.prems"(1) b n by (simp add: mint_loop.simps [of n acc] Let_def)
    from "1.IH" [OF n b refl this] "1.prems" n generatePieceId_well_formed [of b]
    show ?thesis by auto
  qed
qed

lemma generatePieceIds_spec:
  assumes "generatePieceIds n blocks = Some (Inr ids)"
  shows "0 < n \<and> n \<le> MAX_PIECES \<and> distinct ids \<and> length ids = n \<and>
     list_all isWellFormedPieceId ids"
proof -
  have "0 < n" "n \<le> MAX_PIECES" "mint_loop n [] blocks = Some ids"
    using assms by (auto simp: generatePieceIds_def split: if_splits)
  with mint_loop_spec [of n "[]" blocks ids] show ?thesis by simp
qed

text \<open>As soon as the blocks hold \<open>n\<close> different ids the loop ends.\<close>

lemma mint_loop_returns:
  "n \<le> card (set acc \<union> generatePieceId ` set blocks) \<Longrightarrow> distinct acc \<Longrightarrow>
   \<exists>ids. mint_loop n acc blocks = Some ids"
proof (induction n acc blocks rule: mint_loop.induct)
  case (1 n acc blocks)
  show ?case
  proof (cases "n \<le> length acc")
    case True
    then show ?thesis by (simp add: mint_loop.simps [of n acc])
  next
    case n: False
    with "1.prems" obtain b bs where b: "blocks = b # bs"
      by (cases blocks) (auto simp: distinct_card)
    let ?acc = "if generatePieceId b \<in> set acc then acc else acc @ [generatePieceId b]"
    have "set ?acc \<union> generatePieceId ` set bs = set acc \<union> generatePieceId ` set blocks"
      using b by auto
    with "1.IH" [OF n b refl] "1.prems" have "\<exists>ids. mint_loop n ?acc bs = Some ids"
      by auto
    then show ?thesis using b n by (simp add: mint_loop.simps [of n acc] Let_def)
  qed
qed

lemma generatePieceIds_returns:
  assumes "0 < n" and "n \<le> MAX_PIECES" and "n \<le> card (generatePieceId ` set blocks)"
  shows "\<exists>ids. generatePieceIds n blocks = Some (Inr ids)"
  using mint_loop_returns [of n "[]" blocks] assms by (auto simp: generatePieceIds_def)

definition qrPayload :: "string \<Rightarrow> string \<Rightarrow> string" where
  "qrPayload baseUrl pieceId = baseUrl @ ''/v/'' @ pieceId"

section \<open>The check digit\<close>

text \<open>\<open>ALPHABET.indexOf(c)\<close>, -1 when the character is not in it.\<close>

fun index_of :: "char \<Rightarrow> string \<Rightarrow> int" where
  "index_of c [] = -1"
| "index_of c (x # xs) =
     (if x = c then 0 else let k = index_of c xs in if k = -1 then -1 else k + 1)"

fun weighted :: "int \<Rightarrow> string \<Rightarrow> int" where
  "weighted i [] = 0"
| "weighted i (c # cs) = index_of c ALPHABET * i + weighted (i + 1) cs"

text \<open>\<open>pieceId.replace("DTD-", "")\<close> on an id that starts with the prefix, then the sum.\<close>

definition id_body :: "string \<Rightarrow> string" where
  "id_body pieceId = (if starts_with ''DTD-'' pieceId then drop 4 pieceId else pieceId)"

definition checkDigit :: "string \<Rightarrow> char" where
  "checkDigit pieceId = ALPHABET ! nat (weighted 1 (id_body pieceId) mod 32)"

lemma index_of_nth: "distinct xs \<Longrightarrow> k < length xs \<Longrightarrow> index_of (xs ! k) xs = int k"
proof (induction xs arbitrary: k)
  case (Cons x xs)
  then show ?case by (cases k) (auto simp: Let_def)
qed simp

text \<open>
  \<open>[J-N]\<close> lets the letter \<open>L\<close> through, which is not in the alphabet, so an accepted id need not
  be one that could have been minted.
\<close>

lemma strict_accepts_L: "strict_id_char (CHR ''L'') \<and> CHR ''L'' \<notin> set ALPHABET"
  by (simp add: strict_id_char_def in_range_def ALPHABET_def)

lemma index_of_ALPHABET:
  assumes "c \<in> set ALPHABET"
  shows "0 \<le> index_of c ALPHABET \<and> index_of c ALPHABET < 32 \<and>
     (d \<in> set ALPHABET \<longrightarrow> index_of c ALPHABET = index_of d ALPHABET \<longrightarrow> c = d)"
proof -
  have pos: "\<exists>k < 32. c = ALPHABET ! k \<and> index_of c ALPHABET = int k" if "c \<in> set ALPHABET" for c
    using that index_of_nth [OF distinct_ALPHABET] by (metis in_set_conv_nth length_ALPHABET)
  from pos [OF assms] obtain k where k: "k < 32" "c = ALPHABET ! k" "index_of c ALPHABET = int k"
    by blast
  have "c = d" if "d \<in> set ALPHABET" "index_of c ALPHABET = index_of d ALPHABET"
    using pos [OF that(1)] k that(2) by auto
  with k show ?thesis by auto
qed

lemma weighted_append:
  "weighted i (xs @ ys) = weighted i xs + weighted (i + int (length xs)) ys"
  by (induction xs arbitrary: i) (auto simp: algebra_simps)

lemma id_body_simps [simp]: "id_body (''DTD-'' @ b) = b"
  using starts_with_append [of "''DTD-''" b] by (simp add: id_body_def del: starts_with_append)

lemma checkDigit_eq_iff:
  "checkDigit p = checkDigit q \<longleftrightarrow> weighted 1 (id_body p) mod 32 = weighted 1 (id_body q) mod 32"
proof -
  have r: "nat (w mod 32) < 32" for w :: int
    using pos_mod_bound [of 32 w] by simp
  have "ALPHABET ! nat (v mod 32) = ALPHABET ! nat (w mod 32) \<longleftrightarrow> nat (v mod 32) = nat (w mod 32)"
    for v w :: int
    by (intro nth_eq_iff_index_eq distinct_ALPHABET) (simp_all add: r)
  then show ?thesis
    by (simp add: checkDigit_def eq_nat_nat_iff)
qed

lemma small_not_cong:
  fixes d :: int
  assumes "d \<noteq> 0" and "- 32 < d" and "d < 32"
  shows "(w + d) mod 32 \<noteq> w mod 32"
proof
  assume "(w + d) mod 32 = w mod 32"
  then have "32 dvd d" by (metis add_diff_cancel_left' mod_eq_dvd_iff)
  then obtain k where "d = 32 * k" by (elim dvdE)
  with assms show False by simp
qed

text \<open>Two neighbouring characters swapped while reading an id aloud always change the digit.\<close>

lemma checkDigit_transposition:
  assumes "a \<in> set ALPHABET" and "b \<in> set ALPHABET" and "a \<noteq> b"
  shows "checkDigit (''DTD-'' @ xs @ a # b # ys) \<noteq> checkDigit (''DTD-'' @ xs @ b # a # ys)"
proof -
  define i where "i = 1 + int (length xs)"
  let ?a = "index_of a ALPHABET" and ?b = "index_of b ALPHABET"
  have eq: "weighted 1 (xs @ b # a # ys) = weighted 1 (xs @ a # b # ys) + (?a - ?b)"
    by (simp add: weighted_append i_def [symmetric] algebra_simps)
  have "?a - ?b \<noteq> 0" "- 32 < ?a - ?b" "?a - ?b < 32"
    using index_of_ALPHABET [OF assms(1), of b] index_of_ALPHABET [OF assms(2), of a] assms by auto
  from small_not_cong [OF this] show ?thesis
    unfolding checkDigit_eq_iff id_body_simps eq by metis
qed

text \<open>One wrong character is detected at every even distance from the start of the body.\<close>

lemma checkDigit_substitution:
  assumes "a \<in> set ALPHABET" and "b \<in> set ALPHABET" and "a \<noteq> b" and "even (length xs)"
  shows "checkDigit (''DTD-'' @ xs @ a # ys) \<noteq> checkDigit (''DTD-'' @ xs @ b # ys)"
proof
  define i where "i = 1 + int (length xs)"
  let ?a = "index_of a ALPHABET" and ?b = "index_of b ALPHABET"
  assume "checkDigit (''DTD-'' @ xs @ a # ys) = checkDigit (''DTD-'' @ xs @ b # ys)"
  then have "32 dvd weighted 1 (xs @ a # ys) - weighted 1 (xs @ b # ys)"
    unfolding checkDigit_eq_iff id_body_simps by (simp add: mod_eq_dvd_iff)
  then have "32 dvd (?a - ?b) * i"
    by (simp add: weighted_append i_def algebra_simps)
  moreover have "coprime (32 :: int) i"
  proof -
    have "coprime (2 ^ 5 :: int) i" using assms(4) unfolding i_def by (simp only: coprime_power_left_iff) simp
    then show ?thesis by simp
  qed
  ultimately have "32 dvd ?a - ?b" by (simp add: coprime_dvd_mult_left_iff)
  moreover have "?a - ?b \<noteq> 0" "- 32 < ?a - ?b" "?a - ?b < 32"
    using index_of_ALPHABET [OF assms(1), of b] index_of_ALPHABET [OF assms(2), of a] assms by auto
  ultimately show False by (elim dvdE) simp
qed

end
