(* ===== verification/Json.thy ===== *)
theory Json imports Prelude begin

text \<open>
  The language's \<open>JSON.stringify\<close> and \<open>JSON.parse\<close>, as far as the code uses them: the
  compact text \<open>stringify\<close> emits, and a reader for exactly that grammar. Strings are
  sequences of code units below 256; numbers are kept as their decimal text. The reader
  undoes the writer with any remaining input, so the writer is injective and
  self-delimiting: equal canonical texts have equal contents.
\<close>

datatype json =
    JNull | JBool bool | JNum string | JStr string
  | JArr "json list" | JObj "(string \<times> json) list"

section \<open>Writing\<close>

abbreviation "DQUOTE \<equiv> CHR 0x22"
abbreviation "BACKSLASH \<equiv> CHR 0x5C"

definition hex_digit :: "nat \<Rightarrow> char" where
  "hex_digit n = char_of (if n < 10 then 48 + n else 87 + n)"

definition unhex :: "char \<Rightarrow> nat option" where
  "unhex c = (let n = of_char c :: nat in
     if 48 \<le> n \<and> n \<le> 57 then Some (n - 48)
     else if 97 \<le> n \<and> n \<le> 102 then Some (n - 87)
     else if 65 \<le> n \<and> n \<le> 70 then Some (n - 55) else None)"

definition esc_char :: "char \<Rightarrow> string" where
  "esc_char c = (let n = of_char c :: nat in
     if c = DQUOTE then [BACKSLASH, DQUOTE]
     else if c = BACKSLASH then [BACKSLASH, BACKSLASH]
     else if n = 8 then [BACKSLASH, CHR ''b'']
     else if n = 9 then [BACKSLASH, CHR ''t'']
     else if n = 10 then [BACKSLASH, CHR ''n'']
     else if n = 12 then [BACKSLASH, CHR ''f'']
     else if n = 13 then [BACKSLASH, CHR ''r'']
     else if n < 32 then BACKSLASH # ''u00'' @ [hex_digit (n div 16), hex_digit (n mod 16)]
     else [c])"

definition quoted :: "string \<Rightarrow> string" where
  "quoted s = DQUOTE # concat (map esc_char s) @ [DQUOTE]"

fun stringify :: "json \<Rightarrow> string"
  and stringify_items :: "json list \<Rightarrow> string"
  and stringify_members :: "(string \<times> json) list \<Rightarrow> string"
where
  "stringify JNull = ''null''"
| "stringify (JBool b) = (if b then ''true'' else ''false'')"
| "stringify (JNum n) = n"
| "stringify (JStr s) = quoted s"
| "stringify (JArr js) = ''['' @ (case js of [] \<Rightarrow> '']'' | j # js' \<Rightarrow> stringify j @ stringify_items js')"
| "stringify (JObj ms) =
     CHR 0x7B # (case ms of [] \<Rightarrow> [CHR 0x7D]
       | m # ms' \<Rightarrow> quoted (fst m) @ '':'' @ stringify (snd m) @ stringify_members ms')"
| "stringify_items [] = '']''"
| "stringify_items (j # js) = '','' @ stringify j @ stringify_items js"
| "stringify_members [] = [CHR 0x7D]"
| "stringify_members (m # ms) =
     '','' @ quoted (fst m) @ '':'' @ stringify (snd m) @ stringify_members ms"

section \<open>Reading\<close>

definition escape_of :: "char \<Rightarrow> char option" where
  "escape_of e =
     (if e = DQUOTE \<or> e = BACKSLASH \<or> e = CHR ''/'' then Some e
      else if e = CHR ''b'' then Some (char_of (8 :: nat))
      else if e = CHR ''t'' then Some (char_of (9 :: nat))
      else if e = CHR ''n'' then Some (char_of (10 :: nat))
      else if e = CHR ''f'' then Some (char_of (12 :: nat))
      else if e = CHR ''r'' then Some (char_of (13 :: nat)) else None)"

text \<open>The characters up to the closing quote, and the input after it.\<close>

fun read_chars :: "string \<Rightarrow> (string \<times> string) option" where
  "read_chars [] = None"
| "read_chars (c # r) =
     (if c = DQUOTE then Some ([], r)
      else if c = BACKSLASH then
        (case r of
           [] \<Rightarrow> None
         | e # r' \<Rightarrow>
             if e = CHR ''u'' then
               (case r' of
                  a # b # x # y # r'' \<Rightarrow>
                    (case (unhex a, unhex b, unhex x, unhex y) of
                       (Some 0, Some 0, Some h, Some l) \<Rightarrow>
                         map_option (\<lambda>(s, t). (char_of (16 * h + l) # s, t)) (read_chars r'')
                     | _ \<Rightarrow> None)
                | _ \<Rightarrow> None)
             else
               (case escape_of e of
                  None \<Rightarrow> None
                | Some ch \<Rightarrow> map_option (\<lambda>(s, t). (ch # s, t)) (read_chars r')))
      else if (of_char c :: nat) < 32 then None
      else map_option (\<lambda>(s, t). (c # s, t)) (read_chars r))"

definition num_char :: "char \<Rightarrow> bool" where
  "num_char c \<longleftrightarrow> c \<in> set ''0123456789+-.eE''"

definition strip :: "string \<Rightarrow> string \<Rightarrow> string option" where
  "strip p s = (if starts_with p s then Some (drop (length p) s) else None)"

text \<open>
  Recursive descent; the first argument bounds the depth of calls, \<open>parse\<close> gives it the
  length of the input, and \<open>read_json_stringify\<close> shows that this is enough.
\<close>

fun read_json :: "nat \<Rightarrow> string \<Rightarrow> (json \<times> string) option"
  and read_items :: "nat \<Rightarrow> string \<Rightarrow> (json list \<times> string) option"
  and read_members :: "nat \<Rightarrow> string \<Rightarrow> ((string \<times> json) list \<times> string) option"
  and read_member :: "nat \<Rightarrow> string \<Rightarrow> ((string \<times> json) \<times> string) option"
where
  "read_json 0 s = None"
| "read_json (Suc k) s =
     (case s of
        [] \<Rightarrow> None
      | c # r \<Rightarrow>
          if c = DQUOTE then map_option (\<lambda>(v, t). (JStr v, t)) (read_chars r)
          else if c = CHR ''['' then
            (if r \<noteq> [] \<and> hd r = CHR '']'' then Some (JArr [], tl r)
             else case read_json k r of
                    None \<Rightarrow> None
                  | Some (j, t) \<Rightarrow> map_option (\<lambda>(js, u). (JArr (j # js), u)) (read_items k t))
          else if c = CHR 0x7B then
            (if r \<noteq> [] \<and> hd r = CHR 0x7D then Some (JObj [], tl r)
             else case read_member k r of
                    None \<Rightarrow> None
                  | Some (m, t) \<Rightarrow> map_option (\<lambda>(ms, u). (JObj (m # ms), u)) (read_members k t))
          else if starts_with ''null'' s then Some (JNull, drop 4 s)
          else if starts_with ''true'' s then Some (JBool True, drop 4 s)
          else if starts_with ''false'' s then Some (JBool False, drop 5 s)
          else if num_char c then Some (JNum (takeWhile num_char s), dropWhile num_char s)
          else None)"
| "read_items 0 s = None"
| "read_items (Suc k) s =
     (case s of
        [] \<Rightarrow> None
      | c # r \<Rightarrow>
          if c = CHR '']'' then Some ([], r)
          else if c = CHR '','' then
            (case read_json k r of
               None \<Rightarrow> None
             | Some (j, t) \<Rightarrow> map_option (\<lambda>(js, u). (j # js, u)) (read_items k t))
          else None)"
| "read_members 0 s = None"
| "read_members (Suc k) s =
     (case s of
        [] \<Rightarrow> None
      | c # r \<Rightarrow>
          if c = CHR 0x7D then Some ([], r)
          else if c = CHR '','' then
            (case read_member k r of
               None \<Rightarrow> None
             | Some (m, t) \<Rightarrow> map_option (\<lambda>(ms, u). (m # ms, u)) (read_members k t))
          else None)"
| "read_member 0 s = None"
| "read_member (Suc k) s =
     (case s of
        [] \<Rightarrow> None
      | c # r \<Rightarrow>
          if c = DQUOTE then
            (case read_chars r of
               None \<Rightarrow> None
             | Some (key, t) \<Rightarrow>
                 (case strip '':'' t of
                    None \<Rightarrow> None
                  | Some u \<Rightarrow> map_option (\<lambda>(j, v). ((key, j), v)) (read_json k u)))
          else None)"

definition parse :: "string \<Rightarrow> json option" where
  "parse s = (case read_json (length s) s of Some (j, []) \<Rightarrow> Some j | _ \<Rightarrow> None)"

section \<open>The reader undoes the writer\<close>

text \<open>Numbers are non-empty runs of number characters, at every depth.\<close>

fun wf_json :: "json \<Rightarrow> bool" where
  "wf_json (JNum n) \<longleftrightarrow> n \<noteq> [] \<and> list_all num_char n"
| "wf_json (JArr js) \<longleftrightarrow> list_all wf_json js"
| "wf_json (JObj ms) \<longleftrightarrow> list_all (\<lambda>m. wf_json (snd m)) ms"
| "wf_json _ \<longleftrightarrow> True"

definition delimited :: "string \<Rightarrow> bool" where
  "delimited r \<longleftrightarrow> r = [] \<or> \<not> num_char (hd r)"

lemma unhex_hex_digit: "n < 16 \<Longrightarrow> unhex (hex_digit n) = Some n"
  by (auto simp: unhex_def hex_digit_def Let_def)

lemma escape_of_u: "escape_of (CHR ''u'') = None"
  by (simp add: escape_of_def)

lemma read_chars_esc:
  "read_chars (esc_char c @ t) = map_option (\<lambda>(s, u). (c # s, u)) (read_chars t)"
proof -
  define n where "n = (of_char c :: nat)"
  have c: "c = char_of n" by (simp add: n_def)
  consider "c = DQUOTE" | "c = BACKSLASH" | "c \<noteq> DQUOTE" "c \<noteq> BACKSLASH" "n \<in> {8, 9, 10, 12, 13}"
    | "c \<noteq> DQUOTE" "c \<noteq> BACKSLASH" "n \<notin> {8, 9, 10, 12, 13}" "n < 32"
    | "c \<noteq> DQUOTE" "c \<noteq> BACKSLASH" "32 \<le> n"
    by fastforce
  then show ?thesis
  proof cases
    case 3
    then show ?thesis
      by (auto simp: esc_char_def n_def [symmetric] c escape_of_def)
  next
    case 4
    have "n div 16 < 16" "n mod 16 < 16" using 4 by auto
    then have h: "unhex (hex_digit (n div 16)) = Some (n div 16)"
      "unhex (hex_digit (n mod 16)) = Some (n mod 16)"
      by (simp_all add: unhex_hex_digit)
    have z: "unhex (CHR ''0'') = Some 0" by (simp add: unhex_def)
    have "esc_char c = BACKSLASH # ''u00'' @ [hex_digit (n div 16), hex_digit (n mod 16)]"
      using 4 by (simp add: esc_char_def n_def [symmetric])
    then show ?thesis using c by (simp add: h z)
  qed (auto simp: esc_char_def n_def [symmetric] escape_of_def)
qed

lemma read_chars_quoted:
  "read_chars (concat (map esc_char s) @ DQUOTE # r) = Some (s, r)"
  by (induction s) (simp_all add: read_chars_esc)

lemma takeWhile_number:
  "list_all num_char n \<Longrightarrow> delimited r \<Longrightarrow>
   takeWhile num_char (n @ r) = n \<and> dropWhile num_char (n @ r) = r"
  by (induction n) (cases r; auto simp: delimited_def)+

lemma quoted_append: "quoted s @ r = DQUOTE # (concat (map esc_char s) @ DQUOTE # r)"
  by (simp add: quoted_def)

lemma stringify_nonempty: "wf_json j \<Longrightarrow> stringify j \<noteq> []"
  by (cases j) (auto simp: quoted_def)

lemma stringify_items_nonempty: "stringify_items js \<noteq> []"
  by (cases js) auto

lemma stringify_members_nonempty: "stringify_members ms \<noteq> []"
  by (cases ms) auto

lemma hd_stringify:
  "wf_json j \<Longrightarrow> hd (stringify j) \<noteq> CHR '']'' \<and> hd (stringify j) \<noteq> CHR 0x7D"
  by (cases j) (auto simp: quoted_def num_char_def neq_Nil_conv)

lemma delimited_items: "delimited (stringify_items js @ r)"
  by (cases js) (auto simp: delimited_def num_char_def)

lemma delimited_members: "delimited (stringify_members ms @ r)"
  by (cases ms) (auto simp: delimited_def num_char_def)

lemma read_json_number:
  assumes "n \<noteq> []" "list_all num_char n" "delimited r"
  shows "read_json (Suc k) (n @ r) = Some (JNum n, r)"
proof -
  obtain c n' where n: "n = c # n'" using assms(1) by (cases n) auto
  with assms(2) have c: "num_char c" by simp
  then have nq: "c \<noteq> DQUOTE" "c \<noteq> CHR ''[''" "c \<noteq> CHR 0x7B" "c \<noteq> CHR ''n''" "c \<noteq> CHR ''t''" "c \<noteq> CHR ''f''"
    by (auto simp: num_char_def)
  from takeWhile_number [OF assms(2,3)] have
    "takeWhile num_char (n @ r) = n" "dropWhile num_char (n @ r) = r" by auto
  with n c nq show ?thesis
    by (simp add: starts_with_def)
qed

lemma read_stringify_all:
  "wf_json j \<Longrightarrow> delimited r \<Longrightarrow> length (stringify j) \<le> k \<Longrightarrow>
     read_json k (stringify j @ r) = Some (j, r)"
  "list_all wf_json js \<Longrightarrow> length (stringify_items js) \<le> k \<Longrightarrow>
     read_items k (stringify_items js @ r) = Some (js, r)"
  "list_all (\<lambda>m. wf_json (snd m)) ms \<Longrightarrow> length (stringify_members ms) \<le> k \<Longrightarrow>
     read_members k (stringify_members ms @ r) = Some (ms, r)"
proof (induction j and js and ms arbitrary: k r and k r and k r
    rule: stringify_stringify_items_stringify_members.induct)
  case (3 n)
  then show ?case by (cases k) (simp_all add: read_json_number del: read_json.simps)
next
  case (4 s)
  then show ?case
    by (cases k) (auto simp: quoted_append read_chars_quoted, simp add: quoted_def)
next
  case (5 js)
  then obtain k' where k: "k = Suc k'" by (cases k) auto
  show ?case
  proof (cases js)
    case Nil
    with k show ?thesis by simp
  next
    case (Cons j js')
    with "5.prems" k have b: "length (stringify j) \<le> k'" "length (stringify_items js') \<le> k'"
      and w: "wf_json j" "list_all wf_json js'" by auto
    from stringify_nonempty [OF w(1)] obtain c u where cu: "stringify j = c # u"
      by (cases "stringify j") auto
    with hd_stringify [OF w(1)] have "c \<noteq> CHR '']''" by simp
    moreover have "read_json k' (stringify j @ stringify_items js' @ r) = Some (j, stringify_items js' @ r)"
      using "5.IH"(1) [OF Cons w(1) delimited_items b(1)] .
    moreover have "read_items k' (stringify_items js' @ r) = Some (js', r)"
      using "5.IH"(2) [OF Cons w(2) b(2)] .
    ultimately show ?thesis using k Cons cu by simp
  qed
next
  case (6 ms)
  then obtain k' where k: "k = Suc k'" by (cases k) auto
  show ?case
  proof (cases ms)
    case Nil
    with k show ?thesis by simp
  next
    case (Cons m ms')
    obtain a b where m: "m = (a, b)" by force
    with "6.prems" k Cons obtain k'' where k': "k' = Suc k''" by (cases k') (auto simp: quoted_def)
    from "6.prems" k k' Cons m have l: "length (stringify b) \<le> k''"
      "length (stringify_members ms') \<le> k'" and w: "wf_json b" "list_all (\<lambda>m. wf_json (snd m)) ms'"
      by (auto simp: quoted_def)
    have "read_json k'' (stringify b @ stringify_members ms' @ r) = Some (b, stringify_members ms' @ r)"
      using "6.IH"(1) [OF Cons, unfolded m snd_conv, OF w(1) delimited_members l(1)] .
    moreover have "read_members k' (stringify_members ms' @ r) = Some (ms', r)"
      using "6.IH"(2) [OF Cons w(2) l(2)] .
    ultimately show ?thesis
      using k k' Cons m by (simp add: quoted_append read_chars_quoted strip_def starts_with_def)
  qed
next
  case (7)
  then show ?case by (cases k) auto
next
  case (8 j js)
  then obtain k' where k: "k = Suc k'" by (cases k) auto
  with "8.prems" have "read_json k' (stringify j @ stringify_items js @ r) = Some (j, stringify_items js @ r)"
    by (intro "8.IH"(1)) (auto simp: delimited_items)
  moreover from k "8.prems" have "read_items k' (stringify_items js @ r) = Some (js, r)"
    by (intro "8.IH"(2)) auto
  ultimately show ?case using k by simp
next
  case (9)
  then show ?case by (cases k) auto
next
  case (10 m ms)
  obtain a b where m: "m = (a, b)" by force
  from "10.prems" obtain k' where k: "k = Suc k'" by (cases k) auto
  with "10.prems" m obtain k'' where k': "k' = Suc k''" by (cases k') (auto simp: quoted_def)
  from "10.prems" k k' m have "read_json k'' (stringify b @ stringify_members ms @ r) = Some (b, stringify_members ms @ r)"
    by (intro "10.IH"(1) [unfolded m snd_conv]) (auto simp: delimited_members quoted_def)
  moreover from k "10.prems" have "read_members k' (stringify_members ms @ r) = Some (ms, r)"
    by (intro "10.IH"(2)) auto
  ultimately show ?case
    using k k' m by (simp add: quoted_append read_chars_quoted strip_def starts_with_def)
qed (case_tac k; auto simp: starts_with_def split: if_splits)+

lemmas read_json_stringify = read_stringify_all(1)

lemma parse_stringify: "wf_json j \<Longrightarrow> parse (stringify j) = Some j"
  using read_json_stringify [of j "[]" "length (stringify j)"]
  by (simp add: parse_def delimited_def)

lemma stringify_inject:
  "wf_json j \<Longrightarrow> wf_json j' \<Longrightarrow> stringify j = stringify j' \<longleftrightarrow> j = j'"
  by (metis option.inject parse_stringify)

section \<open>Numbers\<close>

lemma show_nat_digits: "list_all (\<lambda>c. c \<in> set ''0123456789'') (show_nat n)"
proof (induction n rule: show_nat.induct)
  case (1 n)
  have "list_all (\<lambda>k. char_of (48 + k) \<in> set ''0123456789'') [0 ..< 10 :: nat]"
    by code_simp
  then have d: "char_of (48 + k) \<in> set ''0123456789''" if "k < 10" for k :: nat
    using that unfolding list_all_iff by (metis atLeastLessThan_iff le0 set_upt)
  show ?case
  proof (cases "n < 10")
    case True
    with d show ?thesis by (subst show_nat.simps) simp
  next
    case False
    with 1 d [of "n mod 10"] show ?thesis by (subst show_nat.simps) simp
  qed
qed

fun read_nat :: "nat \<Rightarrow> string \<Rightarrow> nat" where
  "read_nat acc [] = acc"
| "read_nat acc (c # cs) = read_nat (acc * 10 + (of_char c - 48)) cs"

lemma read_nat_append: "read_nat acc (xs @ ys) = read_nat (read_nat acc xs) ys"
  by (induction xs arbitrary: acc) auto

lemma read_show_nat: "read_nat 0 (show_nat n) = n"
proof (induction n rule: show_nat.induct)
  case (1 n)
  show ?case
  proof (cases "n < 10")
    case True
    then show ?thesis by (subst show_nat.simps) simp
  next
    case False
    with 1 show ?thesis by (subst show_nat.simps) (simp add: read_nat_append)
  qed
qed

lemma show_nat_nonempty: "show_nat n \<noteq> []"
  by (subst show_nat.simps) simp

definition read_int :: "string \<Rightarrow> int" where
  "read_int s = (case s of
     [] \<Rightarrow> 0 | c # cs \<Rightarrow> if c = CHR ''-'' then - int (read_nat 0 cs) else int (read_nat 0 s))"

lemma read_show_int [simp]: "read_int (show_int i) = i"
proof (cases "i < 0")
  case True
  then show ?thesis by (simp add: read_int_def show_int_def read_show_nat)
next
  case False
  obtain c cs where s: "show_nat (nat i) = c # cs"
    using show_nat_nonempty by (cases "show_nat (nat i)") auto
  with show_nat_digits [of "nat i"] have "c \<noteq> CHR ''-''" by auto
  with False s read_show_nat [of "nat i"] show ?thesis by (simp add: read_int_def show_int_def)
qed

lemma show_nat_inject [simp]: "show_nat m = show_nat n \<longleftrightarrow> m = n"
  by (metis read_show_nat)

lemma show_int_inject [simp]: "show_int i = show_int j \<longleftrightarrow> i = j"
  by (metis read_show_int)

lemma show_int_number [simp]: "show_int i \<noteq> []" "list_all num_char (show_int i)"
proof -
  have digit: "num_char c" if "c \<in> set ''0123456789''" for c
    using that unfolding num_char_def by (elim set_ConsD [elim_format] disjE) simp_all
  have "list_all num_char (show_nat n)" for n
    using show_nat_digits [of n] digit by (simp only: list_all_iff) blast
  moreover have "num_char (CHR ''-'')" by (simp add: num_char_def)
  ultimately show "show_int i \<noteq> []" "list_all num_char (show_int i)"
    by (simp_all add: show_int_def show_nat_nonempty)
qed

end
