(* ===== verification/Manifest.thy ===== *)
theory Manifest imports Pieces Json "HOL-Library.List_Lexorder" "HOL-Library.Multiset" begin

text \<open>
  \<open>shared/manifest.schema.ts\<close> and \<open>shared/scan-event.schema.ts\<close>: the manifest, its canonical
  text and its validation, the custody status and the scan event. Third-party functions the
  code calls are fields of \<open>env\<close>: the validators of the schema library for uuid and date-time
  text, the hash, and the date printer. The lemmas show that the canonical text determines
  everything in the manifest up to the order of its pieces and the case of its addresses.
\<close>

record env =
  zod_uuid :: "string \<Rightarrow> bool"
  zod_datetime :: "string \<Rightarrow> bool"
  keccak :: "string \<Rightarrow> string"
  iso_of_ms :: "int \<Rightarrow> string"

section \<open>Pieces and manifests\<close>

text \<open>A weight is kept as the decimal text the number prints as.\<close>

record piece =
  p_pieceId :: string
  p_sku :: "string option"
  p_weightKg :: "string option"

record manifest =
  m_manifestId :: string
  m_tripId :: string
  m_bookingId :: string
  m_transporterId :: string
  m_pieceCount :: nat
  m_pieces :: "piece list"
  m_loader :: string
  m_driver :: string
  m_receiver :: string
  m_createdAt :: string

definition positive_num :: "string \<Rightarrow> bool" where
  "positive_num t \<longleftrightarrow> t \<noteq> [] \<and> list_all num_char t \<and> hd t \<noteq> CHR ''-'' \<and>
     list_ex (\<lambda>c. c \<in> set ''123456789'')
       (takeWhile (\<lambda>c. c \<noteq> CHR ''e'' \<and> c \<noteq> CHR ''E'') t)"

definition piece_ok :: "piece \<Rightarrow> bool" where
  "piece_ok p \<longleftrightarrow> schema_piece_id (p_pieceId p) \<and>
     (case p_sku p of None \<Rightarrow> True | Some s \<Rightarrow> length s \<le> 64) \<and>
     (case p_weightKg p of None \<Rightarrow> True | Some w \<Rightarrow> positive_num w)"

definition piece_ids :: "manifest \<Rightarrow> string list" where
  "piece_ids m = map p_pieceId (m_pieces m)"

text \<open>
  \<open>ManifestSchema.parse\<close>: every field check and the two refinements. A failure is the
  library's exception.
\<close>

definition manifest_ok :: "('e) env_scheme \<Rightarrow> manifest \<Rightarrow> bool" where
  "manifest_ok E m \<longleftrightarrow>
     is_bytes32 (m_manifestId m) \<and> is_bytes32 (m_tripId m) \<and>
     zod_uuid E (m_bookingId m) \<and> zod_uuid E (m_transporterId m) \<and>
     0 < m_pieceCount m \<and> 1 \<le> length (m_pieces m) \<and> list_all piece_ok (m_pieces m) \<and>
     is_address (m_loader m) \<and> is_address (m_driver m) \<and> is_address (m_receiver m) \<and>
     zod_datetime E (m_createdAt m) \<and>
     length (m_pieces m) = m_pieceCount m \<and>
     length (uniq (piece_ids m)) = length (m_pieces m)"

definition parse_manifest :: "('e) env_scheme \<Rightarrow> manifest \<Rightarrow> exn + manifest" where
  "parse_manifest E m = (if manifest_ok E m then Inr m else Inl (Error ''ZodError''))"

lemma manifest_ok_distinct: "manifest_ok E m \<Longrightarrow> distinct (piece_ids m)"
proof -
  assume "manifest_ok E m"
  then have "length (uniq (piece_ids m)) = length (piece_ids m)"
    by (simp add: manifest_ok_def piece_ids_def)
  then show ?thesis by (simp add: length_uniq card_distinct)
qed

section \<open>The canonical text\<close>

definition opt_json :: "(string \<Rightarrow> json) \<Rightarrow> string option \<Rightarrow> json" where
  "opt_json f x = (case x of None \<Rightarrow> JNull | Some v \<Rightarrow> f v)"

definition piece_json :: "piece \<Rightarrow> json" where
  "piece_json p = JObj
     [(''id'', JStr (p_pieceId p)),
      (''sku'', opt_json JStr (p_sku p)),
      (''kg'', opt_json JNum (p_weightKg p))]"

text \<open>
  \<open>sort((a, b) => a.pieceId.localeCompare(b.pieceId))\<close>; on digits, upper-case letters and
  the dash the order is that of the character codes.
\<close>

definition codes :: "string \<Rightarrow> nat list" where
  "codes s = map of_char s"

definition sort_pieces :: "piece list \<Rightarrow> piece list" where
  "sort_pieces = sort_key (\<lambda>p. codes (p_pieceId p))"

definition canonical_json :: "manifest \<Rightarrow> json" where
  "canonical_json m = JObj
     [(''v'', JNum (show_nat 1)),
      (''trip'', JStr (m_tripId m)),
      (''booking'', JStr (m_bookingId m)),
      (''transporter'', JStr (m_transporterId m)),
      (''count'', JNum (show_nat (m_pieceCount m))),
      (''pieces'', JArr (map piece_json (sort_pieces (m_pieces m)))),
      (''loader'', JStr (to_lower (m_loader m))),
      (''driver'', JStr (to_lower (m_driver m))),
      (''receiver'', JStr (to_lower (m_receiver m))),
      (''at'', JStr (m_createdAt m))]"

definition canonicalManifest :: "manifest \<Rightarrow> string" where
  "canonicalManifest m = stringify (canonical_json m)"

definition computeManifestId :: "('e) env_scheme \<Rightarrow> manifest \<Rightarrow> string" where
  "computeManifestId E m = keccak E (canonicalManifest m)"

lemma codes_inject: "codes s = codes t \<longleftrightarrow> s = t"
proof -
  have "inj (of_char :: char \<Rightarrow> nat)" by (simp add: inj_on_def)
  then show ?thesis unfolding codes_def by (simp add: inj_map_eq_map)
qed

lemma set_sort_pieces [simp]: "set (sort_pieces ps) = set ps"
  by (simp add: sort_pieces_def)

lemma mset_sort_pieces [simp]: "mset (sort_pieces ps) = mset ps"
  by (simp add: sort_pieces_def)

text \<open>With different ids the sorted list does not depend on the order the pieces came in.\<close>

lemma sort_pieces_perm:
  assumes "mset ps = mset qs" and "distinct (map p_pieceId ps)"
  shows "sort_pieces ps = sort_pieces qs"
  unfolding sort_pieces_def
  by (rule sort_key_eq_sort_key)
    (use assms in \<open>auto simp: distinct_map inj_on_def codes_inject\<close>)

lemma piece_json_inject: "piece_json p = piece_json q \<longleftrightarrow> p = q"
  by (cases p; cases q) (auto simp: piece_json_def opt_json_def split: option.splits)

definition numbers_ok :: "manifest \<Rightarrow> bool" where
  "numbers_ok m \<longleftrightarrow>
     (\<forall>p \<in> set (m_pieces m). \<forall>w. p_weightKg p = Some w \<longrightarrow> w \<noteq> [] \<and> list_all num_char w)"

lemma manifest_ok_numbers: "manifest_ok E m \<Longrightarrow> numbers_ok m"
  by (auto simp: manifest_ok_def numbers_ok_def piece_ok_def positive_num_def list_all_iff)

lemma show_nat_number [simp]: "show_nat n \<noteq> []" "list_all num_char (show_nat n)"
  using show_int_number [of "int n"] by (simp_all add: show_int_def)

lemma wf_canonical: "numbers_ok m \<Longrightarrow> wf_json (canonical_json m)"
  using show_nat_number [unfolded list_all_iff]
  by (auto simp: canonical_json_def numbers_ok_def list_all_iff piece_json_def opt_json_def
      split: option.splits)

definition same_goods :: "manifest \<Rightarrow> manifest \<Rightarrow> bool" where
  "same_goods m m' \<longleftrightarrow>
     m_tripId m = m_tripId m' \<and> m_bookingId m = m_bookingId m' \<and>
     m_transporterId m = m_transporterId m' \<and> m_pieceCount m = m_pieceCount m' \<and>
     mset (m_pieces m) = mset (m_pieces m') \<and>
     to_lower (m_loader m) = to_lower (m_loader m') \<and>
     to_lower (m_driver m) = to_lower (m_driver m') \<and>
     to_lower (m_receiver m) = to_lower (m_receiver m') \<and>
     m_createdAt m = m_createdAt m'"

lemma canonical_same_goods:
  assumes "numbers_ok m" and "numbers_ok m'" and "canonicalManifest m = canonicalManifest m'"
  shows "same_goods m m'"
proof -
  have "canonical_json m = canonical_json m'"
    using assms stringify_inject [OF wf_canonical wf_canonical]
    by (simp add: canonicalManifest_def)
  moreover from this have "sort_pieces (m_pieces m) = sort_pieces (m_pieces m')"
    using inj_map_eq_map [of piece_json] piece_json_inject
    by (auto simp: canonical_json_def inj_def)
  then have "mset (m_pieces m) = mset (m_pieces m')" by (metis mset_sort_pieces)
  ultimately show ?thesis by (simp add: canonical_json_def same_goods_def)
qed

lemma same_goods_canonical:
  assumes "same_goods m m'" and "distinct (piece_ids m)"
  shows "canonicalManifest m = canonicalManifest m'"
  using assms sort_pieces_perm [of "m_pieces m" "m_pieces m'"]
  by (simp add: same_goods_def canonicalManifest_def canonical_json_def piece_ids_def)

section \<open>Custody status and scan events\<close>

datatype custody_status = SNone | Created | InCustody | Delivered | Short | Disputed

fun status_number :: "custody_status \<Rightarrow> nat" where
  "status_number SNone = 0"
| "status_number Created = 1"
| "status_number InCustody = 2"
| "status_number Delivered = 3"
| "status_number Short = 4"
| "status_number Disputed = 5"

fun status_name :: "custody_status \<Rightarrow> string" where
  "status_name SNone = ''None''"
| "status_name Created = ''Created''"
| "status_name InCustody = ''InCustody''"
| "status_name Delivered = ''Delivered''"
| "status_name Short = ''Short''"
| "status_name Disputed = ''Disputed''"

datatype scan_context = LOADING | UNLOADING | PUBLIC_VERIFY | PARTNER

text \<open>\<open>scannedAt\<close> is the instant the ISO text denotes, in milliseconds.\<close>

record scan_event =
  e_scanId :: string
  e_pieceId :: string
  e_manifestId :: "string option"
  e_context :: scan_context
  e_scannerId :: "string option"
  e_locationHint :: "string option"
  e_scannedAt :: int
  e_clientNonce :: "string option"

definition short_enough :: "nat \<Rightarrow> string option \<Rightarrow> bool" where
  "short_enough n x = (case x of None \<Rightarrow> True | Some s \<Rightarrow> length s \<le> n)"

definition scan_ok :: "('e) env_scheme \<Rightarrow> scan_event \<Rightarrow> bool" where
  "scan_ok E e \<longleftrightarrow>
     zod_uuid E (e_scanId e) \<and> schema_piece_id (e_pieceId e) \<and>
     (case e_manifestId e of None \<Rightarrow> True | Some m \<Rightarrow> is_bytes32 m) \<and>
     short_enough 120 (e_locationHint e) \<and> short_enough 64 (e_clientNonce e)"

datatype fork_verdict =
  CLEAN | DUPLICATE_LIFE | POST_CLOSURE_SIGHTING | UNKNOWN_PIECE | NOT_ON_MANIFEST

fun verdict_name :: "fork_verdict \<Rightarrow> string" where
  "verdict_name CLEAN = ''CLEAN''"
| "verdict_name DUPLICATE_LIFE = ''DUPLICATE_LIFE''"
| "verdict_name POST_CLOSURE_SIGHTING = ''POST_CLOSURE_SIGHTING''"
| "verdict_name UNKNOWN_PIECE = ''UNKNOWN_PIECE''"
| "verdict_name NOT_ON_MANIFEST = ''NOT_ON_MANIFEST''"

end
