(* ===== verification/Custody_Chain.thy ===== *)
theory Custody_Chain imports Manifest "HOL-Library.Word" begin

text \<open>
  \<open>chain/contracts/CustodyManifest.sol\<close> and the functions of \<open>chain/sdk/anchor.ts\<close> and
  \<open>chain/sdk/verify.ts\<close> that call it. A hash or an id is its lower-case hexadecimal text, an
  address likewise; counts and times keep the widths of the contract. A call that reverts
  leaves the chain as it is. \<open>chain_step\<close> is one mined transaction; the invariant of every
  reachable chain ties the status of a manifest to its signatures and counts.
\<close>

record chain_env = env +
  checksum_ok :: "string \<Rightarrow> bool"
  ecrecover :: "string \<Rightarrow> nat \<Rightarrow> string \<Rightarrow> string \<Rightarrow> string"
  chain_id :: string
  this_address :: string
  platform_account :: string

section \<open>State\<close>

record chain_manifest =
  cm_tripId :: string
  cm_manifestHash :: string
  cm_pieceCount :: "32 word"
  cm_deliveredCount :: "32 word"
  cm_loader :: string
  cm_driver :: string
  cm_receiver :: string
  cm_loaderSigned :: bool
  cm_driverSigned :: bool
  cm_receiverSigned :: bool
  cm_createdAt :: "64 word"
  cm_custodyStartAt :: "64 word"
  cm_deliveredAt :: "64 word"
  cm_status :: custody_status

datatype chain_event =
    PlatformSet string bool
  | ManifestCreated string string "32 word" string string string
  | LoaderSigned string
  | DriverSigned string
  | CustodyStarted string "64 word"
  | DeliveryConfirmed string "32 word" custody_status
  | ManifestDisputed string
  | OwnershipTransferred string string

record chain =
  ch_owner :: string
  ch_isPlatform :: "string \<Rightarrow> bool"
  ch_manifests :: "string \<Rightarrow> chain_manifest"
  ch_events :: "chain_event list"

datatype chain_error =
  NotOwner | NotPlatform | AlreadyExists | DoesNotExist | WrongStatus | ZeroAddress | ZeroCount
| BadSignature | CountExceedsManifest

record msg =
  msg_sender :: string
  block_timestamp :: nat

definition zero_address :: string where
  "zero_address = ''0x'' @ replicate 40 (CHR ''0'')"

definition zero_bytes32 :: string where
  "zero_bytes32 = ''0x'' @ replicate 64 (CHR ''0'')"

text \<open>What a mapping holds at a key that was never written.\<close>

definition zero_manifest :: chain_manifest where
  "zero_manifest =
     \<lparr>cm_tripId = zero_bytes32, cm_manifestHash = zero_bytes32, cm_pieceCount = 0,
      cm_deliveredCount = 0, cm_loader = zero_address, cm_driver = zero_address,
      cm_receiver = zero_address, cm_loaderSigned = False, cm_driverSigned = False,
      cm_receiverSigned = False, cm_createdAt = 0, cm_custodyStartAt = 0, cm_deliveredAt = 0,
      cm_status = SNone\<rparr>"

definition deployed :: "string \<Rightarrow> chain" where
  "deployed creator =
     \<lparr>ch_owner = creator, ch_isPlatform = (\<lambda>_. False), ch_manifests = (\<lambda>_. zero_manifest),
      ch_events = [OwnershipTransferred zero_address creator]\<rparr>"

definition emit :: "chain_event \<Rightarrow> chain \<Rightarrow> chain" where
  "emit e c = c\<lparr>ch_events := ch_events c @ [e]\<rparr>"

definition put_manifest :: "string \<Rightarrow> chain_manifest \<Rightarrow> chain \<Rightarrow> chain" where
  "put_manifest k m c = c\<lparr>ch_manifests := (ch_manifests c)(k := m)\<rparr>"

section \<open>Digests and signatures\<close>

text \<open>The bytes a hexadecimal text stands for.\<close>

definition hex_value :: "char \<Rightarrow> nat" where
  "hex_value c = (case unhex c of Some n \<Rightarrow> n | None \<Rightarrow> 0)"

fun hex_bytes :: "string \<Rightarrow> string" where
  "hex_bytes (a # b # r) = char_of (16 * hex_value a + hex_value b) # hex_bytes r"
| "hex_bytes _ = []"

definition raw :: "string \<Rightarrow> string" where
  "raw h = hex_bytes (drop 2 h)"

definition uint32_bytes :: "32 word \<Rightarrow> string" where
  "uint32_bytes w = map (\<lambda>i. char_of (unat w div 256 ^ (3 - i) mod 256)) [0 ..< 4]"

definition loading_preimage :: "('e) chain_env_scheme \<Rightarrow> string \<Rightarrow> string" where
  "loading_preimage E k = ''DTD_LOADING'' @ chain_id E @ this_address E @ raw k"

definition delivery_preimage :: "('e) chain_env_scheme \<Rightarrow> string \<Rightarrow> 32 word \<Rightarrow> string" where
  "delivery_preimage E k n =
     ''DTD_DELIVERY'' @ chain_id E @ this_address E @ raw k @ uint32_bytes n"

definition loadingDigest :: "('e) chain_env_scheme \<Rightarrow> string \<Rightarrow> string" where
  "loadingDigest E k = keccak E (loading_preimage E k)"

definition deliveryDigest :: "('e) chain_env_scheme \<Rightarrow> string \<Rightarrow> 32 word \<Rightarrow> string" where
  "deliveryDigest E k n = keccak E (delivery_preimage E k n)"

definition ethSigned :: "('e) chain_env_scheme \<Rightarrow> string \<Rightarrow> string" where
  "ethSigned E h =
     keccak E (char_of (25 :: nat) # ''Ethereum Signed Message:'' @ char_of (10 :: nat) # ''32'' @ raw h)"

text \<open>\<open>_recover\<close>: 65 bytes, the recovery byte normalised, the zero address refused.\<close>

definition recover ::
  "('e) chain_env_scheme \<Rightarrow> string \<Rightarrow> string \<Rightarrow> chain_error + string"
where
  "recover E h sig =
     (if length sig \<noteq> 65 then Inl BadSignature
      else
        let r = take 32 sig; s = take 32 (drop 32 sig);
            v0 = of_char (sig ! 64) :: nat;
            v = (if v0 < 27 then v0 + 27 else v0);
            signer = ecrecover E (ethSigned E h) v r s
        in if signer = zero_address then Inl BadSignature else Inr signer)"

definition signed_by :: "('e) chain_env_scheme \<Rightarrow> string \<Rightarrow> string \<Rightarrow> bool" where
  "signed_by E h a \<longleftrightarrow> (\<exists>sig. recover E h sig = Inr a)"

section \<open>Transactions\<close>

definition transferOwnership :: "msg \<Rightarrow> string \<Rightarrow> chain \<Rightarrow> chain_error + chain" where
  "transferOwnership g newOwner c =
     (if msg_sender g \<noteq> ch_owner c then Inl NotOwner
      else Inr ((emit (OwnershipTransferred (ch_owner c) newOwner) c)\<lparr>ch_owner := newOwner\<rparr>))"

definition setPlatform :: "msg \<Rightarrow> string \<Rightarrow> bool \<Rightarrow> chain \<Rightarrow> chain_error + chain" where
  "setPlatform g p allowed c =
     (if msg_sender g \<noteq> ch_owner c then Inl NotOwner
      else Inr (emit (PlatformSet p allowed)
                  (c\<lparr>ch_isPlatform := (ch_isPlatform c)(p := allowed)\<rparr>)))"

definition ch_createManifest ::
  "msg \<Rightarrow> string \<Rightarrow> string \<Rightarrow> 32 word \<Rightarrow> string \<Rightarrow> string \<Rightarrow> string \<Rightarrow> chain \<Rightarrow> chain_error + chain"
where
  "ch_createManifest g k trip n loader driver receiver c =
     (if \<not> ch_isPlatform c (msg_sender g) then Inl NotPlatform
      else if cm_status (ch_manifests c k) \<noteq> SNone then Inl AlreadyExists
      else if n = 0 then Inl ZeroCount
      else if loader = zero_address \<or> driver = zero_address \<or> receiver = zero_address
        then Inl ZeroAddress
      else Inr (emit (ManifestCreated k trip n loader driver receiver)
        (put_manifest k
          \<lparr>cm_tripId = trip, cm_manifestHash = k, cm_pieceCount = n, cm_deliveredCount = 0,
           cm_loader = loader, cm_driver = driver, cm_receiver = receiver,
           cm_loaderSigned = False, cm_driverSigned = False, cm_receiverSigned = False,
           cm_createdAt = of_nat (block_timestamp g), cm_custodyStartAt = 0,
           cm_deliveredAt = 0, cm_status = Created\<rparr> c)))"

definition maybeStartCustody :: "msg \<Rightarrow> string \<Rightarrow> chain_manifest \<Rightarrow> chain \<Rightarrow> chain" where
  "maybeStartCustody g k m c =
     (if cm_loaderSigned m \<and> cm_driverSigned m
      then (let t0 = of_nat (block_timestamp g)
            in emit (CustodyStarted k t0)
                 (put_manifest k (m\<lparr>cm_status := InCustody, cm_custodyStartAt := t0\<rparr>) c))
      else put_manifest k m c)"

definition submitLoaderSignature ::
  "('e) chain_env_scheme \<Rightarrow> msg \<Rightarrow> string \<Rightarrow> string \<Rightarrow> chain \<Rightarrow> chain_error + chain"
where
  "submitLoaderSignature E g k sig c =
     (let m = ch_manifests c k in
      if \<not> ch_isPlatform c (msg_sender g) then Inl NotPlatform
      else if cm_status m \<noteq> Created then Inl WrongStatus
      else case recover E (loadingDigest E k) sig of
        Inl e \<Rightarrow> Inl e
      | Inr a \<Rightarrow>
          if a \<noteq> cm_loader m then Inl BadSignature
          else Inr (maybeStartCustody g k (m\<lparr>cm_loaderSigned := True\<rparr>) (emit (LoaderSigned k) c)))"

definition submitDriverSignature ::
  "('e) chain_env_scheme \<Rightarrow> msg \<Rightarrow> string \<Rightarrow> string \<Rightarrow> chain \<Rightarrow> chain_error + chain"
where
  "submitDriverSignature E g k sig c =
     (let m = ch_manifests c k in
      if \<not> ch_isPlatform c (msg_sender g) then Inl NotPlatform
      else if cm_status m \<noteq> Created then Inl WrongStatus
      else case recover E (loadingDigest E k) sig of
        Inl e \<Rightarrow> Inl e
      | Inr a \<Rightarrow>
          if a \<noteq> cm_driver m then Inl BadSignature
          else Inr (maybeStartCustody g k (m\<lparr>cm_driverSigned := True\<rparr>) (emit (DriverSigned k) c)))"

definition ch_confirmDelivery ::
  "('e) chain_env_scheme \<Rightarrow> msg \<Rightarrow> string \<Rightarrow> 32 word \<Rightarrow> string \<Rightarrow> chain \<Rightarrow> chain_error + chain"
where
  "ch_confirmDelivery E g k n sig c =
     (let m = ch_manifests c k in
      if \<not> ch_isPlatform c (msg_sender g) then Inl NotPlatform
      else if cm_status m \<noteq> InCustody then Inl WrongStatus
      else if cm_pieceCount m < n then Inl CountExceedsManifest
      else case recover E (deliveryDigest E k n) sig of
        Inl e \<Rightarrow> Inl e
      | Inr a \<Rightarrow>
          if a \<noteq> cm_receiver m then Inl BadSignature
          else
            (let st = (if n = cm_pieceCount m then Delivered else Short)
             in Inr (emit (DeliveryConfirmed k n st)
                  (put_manifest k
                    (m\<lparr>cm_receiverSigned := True, cm_deliveredCount := n,
                       cm_deliveredAt := of_nat (block_timestamp g), cm_status := st\<rparr>) c))))"

definition markDisputed :: "msg \<Rightarrow> string \<Rightarrow> chain \<Rightarrow> chain_error + chain" where
  "markDisputed g k c =
     (let m = ch_manifests c k in
      if \<not> ch_isPlatform c (msg_sender g) then Inl NotPlatform
      else if cm_status m = SNone then Inl DoesNotExist
      else Inr (emit (ManifestDisputed k) (put_manifest k (m\<lparr>cm_status := Disputed\<rparr>) c)))"

definition ch_isReleasable :: "string \<Rightarrow> chain \<Rightarrow> bool" where
  "ch_isReleasable k c \<longleftrightarrow>
     (let m = ch_manifests c k
      in cm_status m = Delivered \<and> cm_deliveredCount m = cm_pieceCount m)"

section \<open>Reachable chains\<close>

inductive chain_step :: "('e) chain_env_scheme \<Rightarrow> chain \<Rightarrow> chain \<Rightarrow> bool" for E where
  "transferOwnership g a c = Inr c' \<Longrightarrow> chain_step E c c'"
| "setPlatform g a b c = Inr c' \<Longrightarrow> chain_step E c c'"
| "ch_createManifest g k t n l d r c = Inr c' \<Longrightarrow> chain_step E c c'"
| "submitLoaderSignature E g k sig c = Inr c' \<Longrightarrow> chain_step E c c'"
| "submitDriverSignature E g k sig c = Inr c' \<Longrightarrow> chain_step E c c'"
| "ch_confirmDelivery E g k n sig c = Inr c' \<Longrightarrow> chain_step E c c'"
| "markDisputed g k c = Inr c' \<Longrightarrow> chain_step E c c'"

inductive reachable_chain :: "('e) chain_env_scheme \<Rightarrow> chain \<Rightarrow> bool" for E where
  start: "reachable_chain E (deployed a)"
| step: "reachable_chain E c \<Longrightarrow> chain_step E c c' \<Longrightarrow> reachable_chain E c'"

definition created_ok :: "string \<Rightarrow> chain_manifest \<Rightarrow> bool" where
  "created_ok k m \<longleftrightarrow> cm_manifestHash m = k \<and> cm_pieceCount m \<noteq> 0 \<and>
     cm_loader m \<noteq> zero_address \<and> cm_driver m \<noteq> zero_address \<and> cm_receiver m \<noteq> zero_address"

definition status_ok :: "chain_manifest \<Rightarrow> bool" where
  "status_ok m \<longleftrightarrow>
     (case cm_status m of
        SNone \<Rightarrow> m = zero_manifest
      | Created \<Rightarrow> \<not> (cm_loaderSigned m \<and> cm_driverSigned m) \<and> \<not> cm_receiverSigned m \<and>
                    cm_deliveredCount m = 0
      | InCustody \<Rightarrow> cm_loaderSigned m \<and> cm_driverSigned m \<and> \<not> cm_receiverSigned m \<and>
                    cm_deliveredCount m = 0
      | Delivered \<Rightarrow> cm_loaderSigned m \<and> cm_driverSigned m \<and> cm_receiverSigned m \<and>
                    cm_deliveredCount m = cm_pieceCount m
      | Short \<Rightarrow> cm_loaderSigned m \<and> cm_driverSigned m \<and> cm_receiverSigned m \<and>
                    cm_deliveredCount m < cm_pieceCount m
      | Disputed \<Rightarrow> cm_deliveredCount m \<le> cm_pieceCount m \<and>
                    (cm_receiverSigned m \<longrightarrow> cm_loaderSigned m \<and> cm_driverSigned m))"

text \<open>Every signature flag stands for a signature that verified against the declared party.\<close>

definition signatures_ok :: "('e) chain_env_scheme \<Rightarrow> string \<Rightarrow> chain_manifest \<Rightarrow> bool" where
  "signatures_ok E k m \<longleftrightarrow>
     (cm_loaderSigned m \<longrightarrow> signed_by E (loadingDigest E k) (cm_loader m)) \<and>
     (cm_driverSigned m \<longrightarrow> signed_by E (loadingDigest E k) (cm_driver m)) \<and>
     (cm_receiverSigned m \<longrightarrow>
        signed_by E (deliveryDigest E k (cm_deliveredCount m)) (cm_receiver m))"

definition manifest_inv :: "('e) chain_env_scheme \<Rightarrow> string \<Rightarrow> chain_manifest \<Rightarrow> bool" where
  "manifest_inv E k m \<longleftrightarrow>
     (cm_status m \<noteq> SNone \<longrightarrow> created_ok k m) \<and> status_ok m \<and> signatures_ok E k m"

definition chain_inv :: "('e) chain_env_scheme \<Rightarrow> chain \<Rightarrow> bool" where
  "chain_inv E c \<longleftrightarrow> (\<forall>k. manifest_inv E k (ch_manifests c k))"

lemma manifests_emit [simp]: "ch_manifests (emit e c) = ch_manifests c"
  by (simp add: emit_def)

lemma manifests_put [simp]: "ch_manifests (put_manifest k m c) = (ch_manifests c)(k := m)"
  by (simp add: put_manifest_def)

lemma manifests_start:
  "ch_manifests (maybeStartCustody g k m c) = (ch_manifests c)(k :=
     if cm_loaderSigned m \<and> cm_driverSigned m
     then m\<lparr>cm_status := InCustody, cm_custodyStartAt := of_nat (block_timestamp g)\<rparr> else m)"
  by (simp add: maybeStartCustody_def Let_def)

lemma manifest_inv_zero: "manifest_inv E k zero_manifest"
  by (simp add: manifest_inv_def status_ok_def signatures_ok_def zero_manifest_def)

text \<open>One transaction, as seen by the manifest stored at one key.\<close>

inductive manifest_step ::
  "('e) chain_env_scheme \<Rightarrow> string \<Rightarrow> chain_manifest \<Rightarrow> chain_manifest \<Rightarrow> bool" for E k where
  same: "manifest_step E k m m"
| create: "cm_status m = SNone \<Longrightarrow> created_ok k m' \<Longrightarrow> cm_status m' = Created \<Longrightarrow>
    \<not> cm_loaderSigned m' \<Longrightarrow> \<not> cm_driverSigned m' \<Longrightarrow> \<not> cm_receiverSigned m' \<Longrightarrow>
    cm_deliveredCount m' = 0 \<Longrightarrow> manifest_step E k m m'"
| load: "cm_status m = Created \<Longrightarrow> signed_by E (loadingDigest E k) (cm_loader m) \<Longrightarrow>
    m1 = m\<lparr>cm_loaderSigned := True\<rparr> \<Longrightarrow>
    m' = (if cm_driverSigned m then m1\<lparr>cm_status := InCustody, cm_custodyStartAt := ts\<rparr> else m1) \<Longrightarrow>
    manifest_step E k m m'"
| drive: "cm_status m = Created \<Longrightarrow> signed_by E (loadingDigest E k) (cm_driver m) \<Longrightarrow>
    m1 = m\<lparr>cm_driverSigned := True\<rparr> \<Longrightarrow>
    m' = (if cm_loaderSigned m then m1\<lparr>cm_status := InCustody, cm_custodyStartAt := ts\<rparr> else m1) \<Longrightarrow>
    manifest_step E k m m'"
| confirm: "cm_status m = InCustody \<Longrightarrow> n \<le> cm_pieceCount m \<Longrightarrow>
    signed_by E (deliveryDigest E k n) (cm_receiver m) \<Longrightarrow>
    m' = m\<lparr>cm_receiverSigned := True, cm_deliveredCount := n, cm_deliveredAt := ts,
          cm_status := (if n = cm_pieceCount m then Delivered else Short)\<rparr> \<Longrightarrow>
    manifest_step E k m m'"
| dispute: "cm_status m \<noteq> SNone \<Longrightarrow> m' = m\<lparr>cm_status := Disputed\<rparr> \<Longrightarrow> manifest_step E k m m'"

lemma transfer_manifests: "transferOwnership g a c = Inr c' \<Longrightarrow> ch_manifests c' = ch_manifests c"
  by (auto simp: transferOwnership_def split: if_splits)

lemma setPlatform_manifests: "setPlatform g a b c = Inr c' \<Longrightarrow> ch_manifests c' = ch_manifests c"
  by (auto simp: setPlatform_def split: if_splits)

lemma create_manifests:
  assumes "ch_createManifest g k t n l d r c = Inr c'"
  shows "manifest_step E j (ch_manifests c j) (ch_manifests c' j)"
proof (cases "j = k")
  case True
  with assms show ?thesis
    by (intro create) (auto simp: ch_createManifest_def created_ok_def split: if_splits)
next
  case False
  with assms have "ch_manifests c' j = ch_manifests c j"
    by (auto simp: ch_createManifest_def split: if_splits)
  then show ?thesis by (simp add: same)
qed

lemma load_manifests:
  assumes "submitLoaderSignature E g k sig c = Inr c'"
  shows "manifest_step E j (ch_manifests c j) (ch_manifests c' j)"
proof (cases "j = k")
  case True
  with assms show ?thesis
    by (intro load [OF _ _ refl, where ts = "of_nat (block_timestamp g)"])
      (auto simp: submitLoaderSignature_def Let_def manifests_start signed_by_def
        split: if_splits sum.splits)
next
  case False
  with assms have "ch_manifests c' j = ch_manifests c j"
    by (auto simp: submitLoaderSignature_def Let_def manifests_start split: if_splits sum.splits)
  then show ?thesis by (simp add: same)
qed

lemma drive_manifests:
  assumes "submitDriverSignature E g k sig c = Inr c'"
  shows "manifest_step E j (ch_manifests c j) (ch_manifests c' j)"
proof (cases "j = k")
  case True
  with assms show ?thesis
    by (intro drive [OF _ _ refl, where ts = "of_nat (block_timestamp g)"])
      (auto simp: submitDriverSignature_def Let_def manifests_start signed_by_def
        split: if_splits sum.splits)
next
  case False
  with assms have "ch_manifests c' j = ch_manifests c j"
    by (auto simp: submitDriverSignature_def Let_def manifests_start split: if_splits sum.splits)
  then show ?thesis by (simp add: same)
qed

lemma confirm_manifests:
  assumes "ch_confirmDelivery E g k n sig c = Inr c'"
  shows "manifest_step E j (ch_manifests c j) (ch_manifests c' j)"
proof (cases "j = k")
  case True
  with assms show ?thesis
    by (intro confirm [where n = n and ts = "of_nat (block_timestamp g)"])
      (auto simp: ch_confirmDelivery_def Let_def signed_by_def not_less split: if_splits sum.splits)
next
  case False
  with assms have "ch_manifests c' j = ch_manifests c j"
    by (auto simp: ch_confirmDelivery_def Let_def split: if_splits sum.splits)
  then show ?thesis by (simp add: same)
qed

lemma dispute_manifests:
  assumes "markDisputed g k c = Inr c'"
  shows "manifest_step E j (ch_manifests c j) (ch_manifests c' j)"
proof (cases "j = k")
  case True
  with assms show ?thesis
    by (intro dispute) (auto simp: markDisputed_def Let_def split: if_splits)
next
  case False
  with assms have "ch_manifests c' j = ch_manifests c j"
    by (auto simp: markDisputed_def Let_def split: if_splits)
  then show ?thesis by (simp add: same)
qed

lemma chain_step_manifest:
  assumes "chain_step E c c'"
  shows "manifest_step E j (ch_manifests c j) (ch_manifests c' j)"
  using assms
proof cases
  case 1
  then show ?thesis by (simp add: transfer_manifests same)
next
  case 2
  then show ?thesis by (simp add: setPlatform_manifests same)
qed (blast intro: create_manifests load_manifests drive_manifests confirm_manifests
      dispute_manifests)+

lemma status_ok_le: "status_ok m \<Longrightarrow> cm_deliveredCount m \<le> cm_pieceCount m"
  by (auto simp: status_ok_def zero_manifest_def split: custody_status.splits)

lemma manifest_step_inv:
  "manifest_step E k m m' \<Longrightarrow> manifest_inv E k m \<Longrightarrow> manifest_inv E k m'"
proof (induction rule: manifest_step.induct)
  case (create m m')
  then show ?case by (auto simp: manifest_inv_def status_ok_def signatures_ok_def)
next
  case (load m m1 m' ts)
  then show ?case
    by (auto simp: manifest_inv_def status_ok_def signatures_ok_def created_ok_def)
next
  case (drive m m1 m' ts)
  then show ?case
    by (auto simp: manifest_inv_def status_ok_def signatures_ok_def created_ok_def)
next
  case (confirm m n m' ts)
  then show ?case
    by (auto simp: manifest_inv_def status_ok_def signatures_ok_def created_ok_def)
next
  case (dispute m m')
  then have "cm_deliveredCount m \<le> cm_pieceCount m"
    by (auto simp: manifest_inv_def intro: status_ok_le)
  with dispute show ?case
    by (auto simp: manifest_inv_def status_ok_def signatures_ok_def created_ok_def
        split: custody_status.splits)
qed

lemma chain_step_inv: "chain_step E c c' \<Longrightarrow> chain_inv E c \<Longrightarrow> chain_inv E c'"
  using chain_step_manifest manifest_step_inv by (fastforce simp: chain_inv_def)

lemma reachable_chain_inv: "reachable_chain E c \<Longrightarrow> chain_inv E c"
proof (induction rule: reachable_chain.induct)
  case (start a)
  then show ?case by (simp add: chain_inv_def deployed_def manifest_inv_zero)
next
  case (step c c')
  then show ?case by (blast intro: chain_step_inv)
qed

text \<open>What was declared at creation never changes; a dispute is final.\<close>

definition same_declaration :: "chain_manifest \<Rightarrow> chain_manifest \<Rightarrow> bool" where
  "same_declaration m m' \<longleftrightarrow>
     cm_tripId m = cm_tripId m' \<and> cm_manifestHash m = cm_manifestHash m' \<and>
     cm_pieceCount m = cm_pieceCount m' \<and> cm_loader m = cm_loader m' \<and>
     cm_driver m = cm_driver m' \<and> cm_receiver m = cm_receiver m' \<and>
     cm_createdAt m = cm_createdAt m'"

fun stage :: "custody_status \<Rightarrow> nat" where
  "stage SNone = 0"
| "stage Created = 1"
| "stage InCustody = 2"
| "stage Delivered = 3"
| "stage Short = 3"
| "stage Disputed = 4"

definition forward :: "chain_manifest \<Rightarrow> chain_manifest \<Rightarrow> bool" where
  "forward m m' \<longleftrightarrow> cm_status m' \<noteq> SNone \<and> same_declaration m m' \<and>
     stage (cm_status m) \<le> stage (cm_status m') \<and>
     (stage (cm_status m) = stage (cm_status m') \<longrightarrow> cm_status m = cm_status m')"

lemma stage_max: "stage s \<le> 4" "stage s = 4 \<longleftrightarrow> s = Disputed"
  by (cases s; simp)+

lemma forward_trans: "forward m m1 \<Longrightarrow> forward m1 m2 \<Longrightarrow> forward m m2"
  unfolding forward_def same_declaration_def by auto

lemma manifest_step_forward:
  "manifest_step E k m m' \<Longrightarrow> cm_status m \<noteq> SNone \<Longrightarrow> forward m m'"
  by (induction rule: manifest_step.induct)
    (auto simp: forward_def same_declaration_def stage_max)

lemma chain_run_forward:
  "(chain_step E)\<^sup>*\<^sup>* c c' \<Longrightarrow> cm_status (ch_manifests c k) \<noteq> SNone \<Longrightarrow>
   forward (ch_manifests c k) (ch_manifests c' k)"
proof (induction rule: rtranclp_induct)
  case base
  then show ?case by (simp add: forward_def same_declaration_def)
next
  case (step c1 c2)
  then have f: "forward (ch_manifests c k) (ch_manifests c1 k)" by simp
  then have "cm_status (ch_manifests c1 k) \<noteq> SNone" by (simp add: forward_def)
  from manifest_step_forward [OF chain_step_manifest [OF step.hyps(2)] this] f
  show ?case by (rule forward_trans [rotated])
qed

section \<open>The calls the services make\<close>

text \<open>Argument encoding: 32-byte and address text, and a count that fits 32 bits.\<close>

definition abi_bytes32 :: "string \<Rightarrow> string option" where
  "abi_bytes32 s = (if matches ''0x'' any_hex 64 s then Some (to_lower s) else None)"

definition abi_address :: "('e) chain_env_scheme \<Rightarrow> string \<Rightarrow> string option" where
  "abi_address E s = (if is_address s \<and> checksum_ok E s then Some (to_lower s) else None)"

definition abi_uint32 :: "nat \<Rightarrow> 32 word option" where
  "abi_uint32 n = (if n < 2 ^ 32 then Some (of_nat n) else None)"

definition abi_error :: exn where
  "abi_error = Error ''InvalidArgument''"

definition reverted :: exn where
  "reverted = Error ''ContractFunctionExecutionError''"

text \<open>
  \<open>send(walletClient.writeContract(...))\<close>: a call that would revert is refused when its gas is
  estimated; otherwise it is mined and the transaction hash comes back.
\<close>

definition send :: "string \<Rightarrow> (chain \<Rightarrow> chain_error + chain) \<Rightarrow> (chain, string) exec" where
  "send txHash f = (\<lambda>c. case f c of Inl _ \<Rightarrow> (Inl reverted, c) | Inr c' \<Rightarrow> (Inr txHash, c'))"

definition platform_msg :: "('e) chain_env_scheme \<Rightarrow> nat \<Rightarrow> msg" where
  "platform_msg E t0 = \<lparr>msg_sender = platform_account E, block_timestamp = t0\<rparr>"

definition anchorCreateManifest ::
  "('e) chain_env_scheme \<Rightarrow> nat \<Rightarrow> string \<Rightarrow> string \<Rightarrow> string \<Rightarrow> nat \<Rightarrow> string \<Rightarrow> string \<Rightarrow> string \<Rightarrow>
   (chain, string) exec"
where
  "anchorCreateManifest E t0 txHash k trip n loader driver receiver =
     bindE (need (abi_bytes32 k) abi_error) (\<lambda>k'.
     bindE (need (abi_bytes32 trip) abi_error) (\<lambda>trip'.
     bindE (need (abi_uint32 n) abi_error) (\<lambda>n'.
     bindE (need (abi_address E loader) abi_error) (\<lambda>l.
     bindE (need (abi_address E driver) abi_error) (\<lambda>d.
     bindE (need (abi_address E receiver) abi_error) (\<lambda>r.
     send txHash (ch_createManifest (platform_msg E t0) k' trip' n' l d r)))))))"

datatype cosign_role = loader | driver

definition submitSignature ::
  "('e) chain_env_scheme \<Rightarrow> nat \<Rightarrow> string \<Rightarrow> cosign_role \<Rightarrow> string \<Rightarrow> string \<Rightarrow> (chain, string) exec"
where
  "submitSignature E t0 txHash role k sig =
     bindE (need (abi_bytes32 k) abi_error) (\<lambda>k'.
     send txHash (case role of
         loader \<Rightarrow> submitLoaderSignature E (platform_msg E t0) k' sig
       | driver \<Rightarrow> submitDriverSignature E (platform_msg E t0) k' sig))"

definition confirmDelivery ::
  "('e) chain_env_scheme \<Rightarrow> nat \<Rightarrow> string \<Rightarrow> string \<Rightarrow> nat \<Rightarrow> string \<Rightarrow> (chain, string) exec"
where
  "confirmDelivery E t0 txHash k n sig =
     bindE (need (abi_bytes32 k) abi_error) (\<lambda>k'.
     bindE (need (abi_uint32 n) abi_error) (\<lambda>n'.
     send txHash (ch_confirmDelivery E (platform_msg E t0) k' n' sig)))"

definition getLoadingDigest :: "('e) chain_env_scheme \<Rightarrow> string \<Rightarrow> (chain, string) exec" where
  "getLoadingDigest E k =
     bindE (need (abi_bytes32 k) abi_error) (\<lambda>k'. return (loadingDigest E k'))"

definition getDeliveryDigest ::
  "('e) chain_env_scheme \<Rightarrow> string \<Rightarrow> nat \<Rightarrow> (chain, string) exec"
where
  "getDeliveryDigest E k n =
     bindE (need (abi_bytes32 k) abi_error) (\<lambda>k'.
     bindE (need (abi_uint32 n) abi_error) (\<lambda>n'.
     return (deliveryDigest E k' n')))"

definition readManifest :: "string \<Rightarrow> (chain, chain_manifest) exec" where
  "readManifest k =
     bindE (need (abi_bytes32 k) abi_error) (\<lambda>k'. reads (\<lambda>c. ch_manifests c k'))"

definition isReleasable :: "string \<Rightarrow> (chain, bool) exec" where
  "isReleasable k =
     bindE (need (abi_bytes32 k) abi_error) (\<lambda>k'. reads (ch_isReleasable k'))"

lemma send_step:
  assumes "\<And>c c'. f c = Inr c' \<Longrightarrow> chain_step E c c'" and "send tx f c = (r, c')"
  shows "c' = c \<or> chain_step E c c'"
  using assms by (auto simp: send_def split: sum.splits)

end
