(* ===== verification/Database.thy ===== *)
theory Database imports Custody_Chain begin

text \<open>
  The database and the world around it: the rows of \<open>custody/db/schema.sql\<close> and of the key
  tables, the row-level security predicate, and the transactions of
  \<open>platform/api/common/database.service.ts\<close>. A transaction that throws puts the tables back;
  the chain and the audit log (written through a connection of its own) are outside it.
\<close>

section \<open>Rows\<close>

record manifest_row =
  mf_manifest_id :: string
  mf_company_id :: string
  mf_booking_id :: string
  mf_trip_id :: string
  mf_piece_count :: nat
  mf_loader :: string
  mf_driver :: string
  mf_receiver :: string
  mf_canonical_json :: string
  mf_chain_tx :: string
  mf_created_at :: string

record piece_row =
  pc_piece_id :: string
  pc_manifest_id :: string
  pc_company_id :: string
  pc_sku :: "string option"
  pc_weight_kg :: "string option"
  pc_seq :: nat

record scan_row =
  sc_event :: scan_event
  sc_company_id :: "string option"
  sc_recorded_at :: int

record state_row =
  st_manifest_id :: string
  st_company_id :: string
  st_status :: custody_status
  st_piece_count :: nat
  st_delivered_count :: nat
  st_loader_signed :: bool
  st_driver_signed :: bool
  st_receiver_signed :: bool
  st_custody_start_at :: "nat option"
  st_delivered_at :: "nat option"
  st_synced_at :: int

record alert_row =
  al_id :: nat
  al_piece_id :: string
  al_verdict :: string
  al_severity :: string
  al_manifest_id :: "string option"
  al_company_id :: "string option"
  al_narrative :: "string option"
  al_resolved_at :: "int option"
  al_resolved_by :: "string option"
  al_created_at :: int

record key_record =
  k_phone :: string
  k_address :: string
  k_encKey :: string
  k_iv :: string
  k_authTag :: string
  k_createdAt :: int
  k_exportedAt :: "int option"

record otp_row =
  otp_id :: nat
  otp_phone :: string
  otp_code_hash :: string
  otp_attempts :: nat
  otp_expires_at :: int
  otp_consumed_at :: "int option"

datatype signer_action = KEY_CREATED | SIGNED | EXPORTED

record signer_row =
  sg_phone :: string
  sg_address :: "string option"
  sg_digest :: "string option"
  sg_action :: signer_action
  sg_at :: int

record db =
  db_companies :: "string list"
  db_bookings :: "string list"
  db_manifests :: "manifest_row list"
  db_pieces :: "piece_row list"
  db_scans :: "scan_row list"
  db_states :: "state_row list"
  db_alerts :: "alert_row list"
  db_keys :: "key_record list"
  db_otps :: "otp_row list"
  db_signer_audit :: "signer_row list"

record audit_entry =
  au_companyId :: string
  au_userId :: "string option"
  au_action :: string
  au_entity :: string
  au_entityId :: string

record world =
  w_db :: db
  w_chain :: chain
  w_audit :: "audit_entry list"

section \<open>Tenancy\<close>

text \<open>
  Who a transaction runs as. \<open>withTenant\<close> always runs with the role of a company
  administrator, so the super-admin branch of the policy does not arise.
\<close>

datatype db_ctx = System | Tenant string

definition tenant_ok :: "db_ctx \<Rightarrow> string option \<Rightarrow> bool" where
  "tenant_ok ctx row = (case ctx of System \<Rightarrow> True | Tenant c \<Rightarrow> row = Some c)"

lemma tenant_ok_simps [simp]:
  "tenant_ok System r" "tenant_ok (Tenant c) r \<longleftrightarrow> r = Some c"
  by (simp_all add: tenant_ok_def)

definition rls_violation :: exn where
  "rls_violation = PgError ''row violates row-level security policy''"

definition constraint :: "string \<Rightarrow> exn" where
  "constraint name = PgError name"

section \<open>Transactions\<close>

definition rollback_on_error :: "(world, 'a) exec \<Rightarrow> (world, 'a) exec" where
  "rollback_on_error m = (\<lambda>w.
     case m w of
       (Inl e, w') \<Rightarrow> (Inl e, w'\<lparr>w_db := w_db w\<rparr>)
     | (Inr x, w') \<Rightarrow> (Inr x, w'))"

definition withTenant :: "string \<Rightarrow> (db_ctx \<Rightarrow> (world, 'a) exec) \<Rightarrow> (world, 'a) exec" where
  "withTenant companyId fn = rollback_on_error (fn (Tenant companyId))"

definition asSystem :: "(db_ctx \<Rightarrow> (world, 'a) exec) \<Rightarrow> (world, 'a) exec" where
  "asSystem fn = rollback_on_error (fn System)"

text \<open>\<open>withTenantOn\<close>: join the transaction of the caller when there is one.\<close>

definition withTenantOn ::
  "string \<Rightarrow> db_ctx option \<Rightarrow> (db_ctx \<Rightarrow> (world, 'a) exec) \<Rightarrow> (world, 'a) exec"
where
  "withTenantOn companyId existing fn =
     (case existing of Some ctx \<Rightarrow> fn ctx | None \<Rightarrow> withTenant companyId fn)"

definition on_db :: "(db, 'a) exec \<Rightarrow> (world, 'a) exec" where
  "on_db m = (\<lambda>w. case m (w_db w) of (r, d) \<Rightarrow> (r, w\<lparr>w_db := d\<rparr>))"

definition on_chain :: "(chain, 'a) exec \<Rightarrow> (world, 'a) exec" where
  "on_chain m = (\<lambda>w. case m (w_chain w) of (r, c) \<Rightarrow> (r, w\<lparr>w_chain := c\<rparr>))"

text \<open>\<open>AuditService.record\<close> opens a system transaction of its own.\<close>

definition audit_record :: "audit_entry \<Rightarrow> (world, unit) exec" where
  "audit_record e = modifies (\<lambda>w. w\<lparr>w_audit := w_audit w @ [e]\<rparr>)"

lemma rollback_success [exec_iff]:
  "rollback_on_error m w = (Inr x, w') \<longleftrightarrow> m w = (Inr x, w')"
  by (auto simp: rollback_on_error_def split: prod.splits sum.splits)

lemma rollback_failure:
  "rollback_on_error m w = (Inl e, w') \<longleftrightarrow> (\<exists>w1. m w = (Inl e, w1) \<and> w' = w1\<lparr>w_db := w_db w\<rparr>)"
  by (auto simp: rollback_on_error_def split: prod.splits sum.splits)

lemma withTenant_success [exec_iff]:
  "withTenant c fn w = (Inr x, w') \<longleftrightarrow> fn (Tenant c) w = (Inr x, w')"
  by (simp add: withTenant_def rollback_success)

lemma asSystem_success [exec_iff]: "asSystem fn w = (Inr x, w') \<longleftrightarrow> fn System w = (Inr x, w')"
  by (simp add: asSystem_def rollback_success)

lemma withTenant_failure_db: "withTenant c fn w = (Inl e, w') \<Longrightarrow> w_db w' = w_db w"
  by (auto simp: withTenant_def rollback_failure)

lemma asSystem_failure_db: "asSystem fn w = (Inl e, w') \<Longrightarrow> w_db w' = w_db w"
  by (auto simp: asSystem_def rollback_failure)

lemma on_db_success [exec_iff]:
  "on_db m w = (Inr x, w') \<longleftrightarrow> (\<exists>d. m (w_db w) = (Inr x, d) \<and> w' = w\<lparr>w_db := d\<rparr>)"
  by (auto simp: on_db_def split: prod.splits)

lemma on_chain_success [exec_iff]:
  "on_chain m w = (Inr x, w') \<longleftrightarrow> (\<exists>c. m (w_chain w) = (Inr x, c) \<and> w' = w\<lparr>w_chain := c\<rparr>)"
  by (auto simp: on_chain_def split: prod.splits)

lemma on_db_frame: "on_db m w = (r, w') \<Longrightarrow> w_chain w' = w_chain w \<and> w_audit w' = w_audit w"
  by (auto simp: on_db_def split: prod.splits)

lemma on_chain_frame: "on_chain m w = (r, w') \<Longrightarrow> w_db w' = w_db w \<and> w_audit w' = w_audit w"
  by (auto simp: on_chain_def split: prod.splits)

lemma w_db_same [simp]: "w\<lparr>w_db := w_db w\<rparr> = w"
  by simp

lemma w_chain_same [simp]: "w\<lparr>w_chain := w_chain w\<rparr> = w"
  by simp

text \<open>An operation that writes nothing: what it returns depends on the state, which it keeps.\<close>

definition read_only :: "('s, 'a) exec \<Rightarrow> bool" where
  "read_only m \<longleftrightarrow> (\<forall>s. snd (m s) = s)"

lemma read_onlyD: "read_only m \<Longrightarrow> m s = (r, s') \<Longrightarrow> s' = s"
  by (metis read_only_def snd_conv)

lemma read_only_basic [intro]:
  "read_only (return x)" "read_only (raise e)" "read_only (reads f)"
  "read_only (throw_if b e)" "read_only (need v e)"
  by (auto simp: read_only_def throw_if_def need_def split: option.split)

lemma read_only_bindE [intro]:
  assumes "read_only m" and "\<And>x. read_only (k x)"
  shows "read_only (bindE m k)"
  using assms by (auto simp: read_only_def bindE_def split: prod.splits sum.splits) (metis snd_conv)+

lemma read_only_on_db [intro]: "read_only m \<Longrightarrow> read_only (on_db m)"
  by (auto simp: read_only_def on_db_def split: prod.splits) (metis snd_conv w_db_same)

lemma read_only_on_chain [intro]: "read_only m \<Longrightarrow> read_only (on_chain m)"
  by (auto simp: read_only_def on_chain_def split: prod.splits) (metis snd_conv w_chain_same)

lemma read_only_rollback [intro]: "read_only m \<Longrightarrow> read_only (rollback_on_error m)"
  by (auto simp: read_only_def rollback_on_error_def split: prod.splits sum.splits)
    (metis snd_conv w_db_same)+

lemma read_only_withTenant [intro]: "(\<And>x. read_only (fn x)) \<Longrightarrow> read_only (withTenant c fn)"
  by (auto simp: withTenant_def)

end
