(* ===== verification/Manifest_Store.thy ===== *)
theory Manifest_Store imports Database begin

text \<open>
  \<open>custody/db/manifest.store.pg.ts\<close> and \<open>custody/manifest/builder.ts\<close>: the manifest tables
  and the pipeline that resolves the pieces, hashes the manifest, anchors it and stores it.
  The lemmas show what a successful build leaves on the chain and in the tables, that reading
  it back gives the manifest without the descriptions of its pieces, and what the two
  integrity checks say about it.
\<close>

section \<open>The store\<close>

definition manifest_checks :: "manifest_row \<Rightarrow> bool" where
  "manifest_checks r \<longleftrightarrow>
     is_bytes32 (mf_manifest_id r) \<and> is_bytes32 (mf_trip_id r) \<and> 0 < mf_piece_count r \<and>
     is_address (mf_loader r) \<and> is_address (mf_driver r) \<and> is_address (mf_receiver r)"

definition put_row :: "string \<Rightarrow> manifest \<Rightarrow> string \<Rightarrow> manifest_row" where
  "put_row company m chainTx =
     \<lparr>mf_manifest_id = m_manifestId m, mf_company_id = company, mf_booking_id = m_bookingId m,
      mf_trip_id = m_tripId m, mf_piece_count = m_pieceCount m, mf_loader = m_loader m,
      mf_driver = m_driver m, mf_receiver = m_receiver m,
      mf_canonical_json = canonicalManifest m, mf_chain_tx = chainTx,
      mf_created_at = m_createdAt m\<rparr>"

definition put_manifest_row ::
  "db_ctx \<Rightarrow> string \<Rightarrow> manifest \<Rightarrow> string \<Rightarrow> (db, unit) exec"
where
  "put_manifest_row ctx company m chainTx = (let row = put_row company m chainTx in
     (\<lambda>d.
       bindE (throw_if (\<not> tenant_ok ctx (Some company)) rls_violation) (\<lambda>_.
       bindE (throw_if (\<not> manifest_checks row) (constraint ''manifests_check'')) (\<lambda>_.
       bindE (throw_if (list_ex (\<lambda>r. mf_manifest_id r = m_manifestId m) (db_manifests d))
                (constraint ''manifests_pkey'')) (\<lambda>_.
       bindE (throw_if (list_ex (\<lambda>r. mf_booking_id r = m_bookingId m) (db_manifests d))
                (constraint ''manifests_booking_unique'')) (\<lambda>_.
       bindE (throw_if (company \<notin> set (db_companies d) \<or> m_bookingId m \<notin> set (db_bookings d))
                (constraint ''manifests_fkey'')) (\<lambda>_.
       modifies (\<lambda>d. d\<lparr>db_manifests := db_manifests d @ [row]\<rparr>)))))) d))"

fun piece_rows :: "string \<Rightarrow> string \<Rightarrow> nat \<Rightarrow> string list \<Rightarrow> piece_row list" where
  "piece_rows k company n [] = []"
| "piece_rows k company n (p # ps) =
     \<lparr>pc_piece_id = p, pc_manifest_id = k, pc_company_id = company, pc_sku = None,
      pc_weight_kg = None, pc_seq = n\<rparr> # piece_rows k company (Suc n) ps"

text \<open>The bulk insert numbers the pieces from 1 and writes no description.\<close>

definition indexPieces :: "db_ctx \<Rightarrow> string \<Rightarrow> string \<Rightarrow> string list \<Rightarrow> (db, unit) exec" where
  "indexPieces ctx company k ids = (\<lambda>d.
     bindE (throw_if (\<not> tenant_ok ctx (Some company)) rls_violation) (\<lambda>_.
     bindE (throw_if (\<not> list_all isWellFormedPieceId ids)
              (constraint ''manifest_pieces_piece_id_check'')) (\<lambda>_.
     bindE (throw_if (\<not> distinct ids \<or> list_ex (\<lambda>r. pc_piece_id r \<in> set ids) (db_pieces d))
              (constraint ''manifest_pieces_pkey'')) (\<lambda>_.
     bindE (throw_if (\<not> list_ex (\<lambda>r. mf_manifest_id r = k) (db_manifests d))
              (constraint ''manifest_pieces_manifest_id_fkey'')) (\<lambda>_.
     modifies (\<lambda>d. d\<lparr>db_pieces := db_pieces d @ piece_rows k company 1 ids\<rparr>))))) d)"

definition piecesFor :: "db_ctx \<Rightarrow> string \<Rightarrow> db \<Rightarrow> piece list" where
  "piecesFor ctx k d =
     map (\<lambda>r. \<lparr>p_pieceId = pc_piece_id r, p_sku = pc_sku r, p_weightKg = pc_weight_kg r\<rparr>)
       (sort_key pc_seq
         (filter (\<lambda>r. pc_manifest_id r = k \<and> tenant_ok ctx (Some (pc_company_id r))) (db_pieces d)))"

definition row_manifest :: "db_ctx \<Rightarrow> db \<Rightarrow> manifest_row \<Rightarrow> manifest" where
  "row_manifest ctx d r =
     \<lparr>m_manifestId = mf_manifest_id r, m_tripId = mf_trip_id r, m_bookingId = mf_booking_id r,
      m_transporterId = mf_company_id r, m_pieceCount = mf_piece_count r,
      m_pieces = piecesFor ctx (mf_manifest_id r) d, m_loader = mf_loader r,
      m_driver = mf_driver r, m_receiver = mf_receiver r, m_createdAt = mf_created_at r\<rparr>"

text \<open>\<open>get\<close> and \<open>getByBooking\<close>: first visible row, hydrated and validated.\<close>

definition select_manifest ::
  "('e) chain_env_scheme \<Rightarrow> db_ctx \<Rightarrow> (manifest_row \<Rightarrow> bool) \<Rightarrow> (db, manifest option) exec"
where
  "select_manifest E ctx q = (\<lambda>d.
     case find (\<lambda>r. q r \<and> tenant_ok ctx (Some (mf_company_id r))) (db_manifests d) of
       None \<Rightarrow> (Inr None, d)
     | Some r \<Rightarrow> (map_sum id Some (parse_manifest E (row_manifest ctx d r)), d))"

definition get_manifest ::
  "('e) chain_env_scheme \<Rightarrow> db_ctx \<Rightarrow> string \<Rightarrow> (db, manifest option) exec"
where
  "get_manifest E ctx k = select_manifest E ctx (\<lambda>r. mf_manifest_id r = k)"

definition getByBooking ::
  "('e) chain_env_scheme \<Rightarrow> db_ctx \<Rightarrow> string \<Rightarrow> (db, manifest option) exec"
where
  "getByBooking E ctx b = select_manifest E ctx (\<lambda>r. mf_booking_id r = b)"

definition findManifestByPiece :: "db_ctx \<Rightarrow> string \<Rightarrow> db \<Rightarrow> string option" where
  "findManifestByPiece ctx pid d =
     map_option pc_manifest_id
       (find (\<lambda>r. pc_piece_id r = pid \<and> tenant_ok ctx (Some (pc_company_id r))) (db_pieces d))"

text \<open>\<open>PgManifestStore.verifyIntegrity\<close> hashes the stored text.\<close>

definition pg_verifyIntegrity ::
  "('e) chain_env_scheme \<Rightarrow> db_ctx \<Rightarrow> string \<Rightarrow> db \<Rightarrow> bool"
where
  "pg_verifyIntegrity E ctx k d =
     (case find (\<lambda>r. mf_manifest_id r = k \<and> tenant_ok ctx (Some (mf_company_id r))) (db_manifests d) of
        None \<Rightarrow> False
      | Some r \<Rightarrow> keccak E (mf_canonical_json r) = k)"

section \<open>The builder\<close>

record piece_input =
  pi_pieceId :: "string option"
  pi_sku :: "string option"
  pi_weightKg :: "string option"

record build_input =
  b_bookingId :: string
  b_transporterId :: string
  b_tripId :: string
  b_pieces :: "piece_input list option"
  b_pieceCount :: "nat option"
  b_loader :: string
  b_driver :: string
  b_receiver :: string

text \<open>
  \<open>generatePieceIds\<close> on the random blocks of this call; running out of blocks, which the real
  random source does not do, is an error of the model.
\<close>

definition mint_ids :: "nat list list \<Rightarrow> nat \<Rightarrow> exn + string list" where
  "mint_ids blocks n =
     (case generatePieceIds n blocks of
        None \<Rightarrow> Inl (Error ''random blocks exhausted'') | Some r \<Rightarrow> r)"

text \<open>\<open>p.pieceId ?? generated[g++]\<close> along the input.\<close>

fun fill_ids :: "piece_input list \<Rightarrow> string list \<Rightarrow> piece list" where
  "fill_ids [] gen = []"
| "fill_ids (p # ps) gen =
     (case pi_pieceId p of
        Some i \<Rightarrow> \<lparr>p_pieceId = i, p_sku = pi_sku p, p_weightKg = pi_weightKg p\<rparr> # fill_ids ps gen
      | None \<Rightarrow> \<lparr>p_pieceId = hd (gen @ [[]]), p_sku = pi_sku p, p_weightKg = pi_weightKg p\<rparr>
                 # fill_ids ps (tl gen))"

definition resolvePieces :: "nat list list \<Rightarrow> build_input \<Rightarrow> exn + piece list" where
  "resolvePieces blocks input =
     (case b_pieces input of
        Some (p # ps) \<Rightarrow>
          map_sum id (fill_ids (p # ps))
            (mint_ids blocks (length (filter (\<lambda>q. \<not> truthy (pi_pieceId q)) (p # ps))))
      | _ \<Rightarrow>
          (case b_pieceCount input of
             None \<Rightarrow> Inl (Error ''NEED_PIECES_OR_PIECE_COUNT'')
           | Some 0 \<Rightarrow> Inl (Error ''NEED_PIECES_OR_PIECE_COUNT'')
           | Some n \<Rightarrow> map_sum id
               (map (\<lambda>i. \<lparr>p_pieceId = i, p_sku = None, p_weightKg = None\<rparr>)) (mint_ids blocks n)))"

definition from_sum :: "exn + 'a \<Rightarrow> ('s, 'a) exec" where
  "from_sum r = (\<lambda>s. (r, s))"

definition draft :: "('e) chain_env_scheme \<Rightarrow> build_input \<Rightarrow> piece list \<Rightarrow> int \<Rightarrow> manifest" where
  "draft E input ps now =
     \<lparr>m_manifestId = [], m_tripId = b_tripId input, m_bookingId = b_bookingId input,
      m_transporterId = b_transporterId input, m_pieceCount = length ps, m_pieces = ps,
      m_loader = b_loader input, m_driver = b_driver input, m_receiver = b_receiver input,
      m_createdAt = iso_of_ms E now\<rparr>"

definition exists_for_booking :: "string \<Rightarrow> exn" where
  "exists_for_booking b = Error (''MANIFEST_EXISTS_FOR_BOOKING:'' @ b)"

definition build ::
  "('e) chain_env_scheme \<Rightarrow> db_ctx \<Rightarrow> string \<Rightarrow> int \<Rightarrow> string \<Rightarrow> nat list list \<Rightarrow> build_input \<Rightarrow>
   (world, manifest \<times> string) exec"
where
  "build E ctx company now txHash blocks input =
     bindE (on_db (getByBooking E ctx (b_bookingId input))) (\<lambda>existing.
     bindE (throw_if (existing \<noteq> None) (exists_for_booking (b_bookingId input))) (\<lambda>_.
     bindE (from_sum (resolvePieces blocks input)) (\<lambda>ps.
     bindE (throw_if (ps = []) (Error ''MANIFEST_NEEDS_AT_LEAST_ONE_PIECE'')) (\<lambda>_.
     let dr = draft E input ps now; k = computeManifestId E dr in
     bindE (from_sum (parse_manifest E (dr\<lparr>m_manifestId := k\<rparr>))) (\<lambda>m.
     bindE (on_chain (anchorCreateManifest E (nat (now div 1000)) txHash k (b_tripId input)
              (m_pieceCount m) (b_loader input) (b_driver input) (b_receiver input))) (\<lambda>tx.
     bindE (on_db (put_manifest_row ctx company m tx)) (\<lambda>_.
     bindE (on_db (indexPieces ctx company k (map p_pieceId ps))) (\<lambda>_.
     return (m, tx)))))))))"

text \<open>\<open>ManifestBuilder.verifyIntegrity\<close> hashes what the store reads back.\<close>

definition verifyIntegrity :: "('e) chain_env_scheme \<Rightarrow> db_ctx \<Rightarrow> string \<Rightarrow> (db, bool) exec" where
  "verifyIntegrity E ctx k =
     bindE (get_manifest E ctx k) (\<lambda>m.
       return (case m of None \<Rightarrow> False | Some m \<Rightarrow> computeManifestId E m = k))"

section \<open>Reading\<close>

locale manifest_reader =
  fixes get :: "'s \<Rightarrow> string \<Rightarrow> exn + manifest option"
    and valid :: "manifest \<Rightarrow> bool"
  assumes get_valid: "get s k = Inr (Some m) \<Longrightarrow> valid m"
    and get_key: "get s k = Inr (Some m) \<Longrightarrow> m_manifestId m = k"
    and valid_ids: "valid m \<Longrightarrow> distinct (piece_ids m) \<and> m_pieceCount m = length (m_pieces m)"
begin

lemma get_ids:
  "get s k = Inr (Some m) \<Longrightarrow> distinct (piece_ids m) \<and> card (set (piece_ids m)) = m_pieceCount m"
  using valid_ids [OF get_valid, of s k m] distinct_card [of "piece_ids m"]
  by (auto simp: piece_ids_def)

end

lemma select_read_only [intro]: "read_only (select_manifest E ctx q)"
  by (auto simp: read_only_def select_manifest_def split: option.split)

lemma get_read_only [intro]: "read_only (get_manifest E ctx k)" "read_only (getByBooking E ctx b)"
  by (auto simp: get_manifest_def getByBooking_def)

lemma select_success:
  "select_manifest E ctx q d = (Inr (Some m), d') \<longleftrightarrow>
     d' = d \<and> manifest_ok E m \<and>
     (\<exists>r. find (\<lambda>r. q r \<and> tenant_ok ctx (Some (mf_company_id r))) (db_manifests d) = Some r \<and>
          m = row_manifest ctx d r)"
  by (auto simp: select_manifest_def parse_manifest_def split: option.splits if_splits)

lemma get_success:
  "get_manifest E ctx k d = (Inr (Some m), d') \<Longrightarrow>
     d' = d \<and> manifest_ok E m \<and> m_manifestId m = k \<and>
     (\<exists>r \<in> set (db_manifests d). mf_manifest_id r = k \<and> tenant_ok ctx (Some (mf_company_id r)) \<and>
        m = row_manifest ctx d r)"
  by (auto simp: get_manifest_def select_success row_manifest_def dest!: find_SomeD)

lemma manifest_ok_ids:
  "manifest_ok E m \<Longrightarrow> distinct (piece_ids m) \<and> m_pieceCount m = length (m_pieces m)"
  using manifest_ok_distinct by (auto simp: manifest_ok_def)

interpretation ms: manifest_reader "\<lambda>d k. fst (get_manifest E ctx k d)" "manifest_ok E" for E ctx
proof (unfold_locales, goal_cases)
  case (1 d k m)
  then show ?case using get_success [of E ctx k d m] by (metis prod.collapse)
next
  case (2 d k m)
  then show ?case using get_success [of E ctx k d m] by (metis prod.collapse)
next
  case (3 m)
  then show ?case by (rule manifest_ok_ids)
qed

section \<open>What a build leaves behind\<close>

text \<open>The keys of the tables.\<close>

definition manifest_tables_ok :: "db \<Rightarrow> bool" where
  "manifest_tables_ok d \<longleftrightarrow>
     distinct (map mf_manifest_id (db_manifests d)) \<and>
     distinct (map mf_booking_id (db_manifests d)) \<and>
     distinct (map pc_piece_id (db_pieces d)) \<and>
     pc_manifest_id ` set (db_pieces d) \<subseteq> mf_manifest_id ` set (db_manifests d)"

lemma map_piece_rows [simp]: "map pc_piece_id (piece_rows k c n ids) = ids"
  by (induction ids arbitrary: n) auto

lemma piece_rows_fields:
  "r \<in> set (piece_rows k c n ids) \<Longrightarrow>
     pc_manifest_id r = k \<and> pc_company_id r = c \<and> pc_sku r = None \<and> pc_weight_kg r = None \<and>
     pc_piece_id r \<in> set ids \<and> n \<le> pc_seq r"
  by (induction ids arbitrary: n) (auto dest: Suc_leD)

lemma sorted_piece_rows: "sorted (map pc_seq (piece_rows k c n ids))"
  by (induction ids arbitrary: n) (auto dest!: piece_rows_fields)

lemma sort_piece_rows: "sort_key pc_seq (piece_rows k c n ids) = piece_rows k c n ids"
  by (rule properties_for_sort_key) (simp_all add: sorted_piece_rows)

lemma to_lower_hex: "lower_hex c \<Longrightarrow> to_lower_char c = c"
  by (auto simp: lower_hex_def in_range_def to_lower_char_def Let_def)

lemma lower_bytes32: "is_bytes32 k \<Longrightarrow> to_lower k = k \<and> abi_bytes32 k = Some k"
proof -
  assume "is_bytes32 k"
  then obtain b where b: "k = ''0x'' @ b" "length b = 64" "list_all lower_hex b"
    by (auto simp: is_bytes32_def matches_iff)
  have "map to_lower_char b = b" using b(3) by (induction b) (auto simp: to_lower_hex)
  moreover have "to_lower ''0x'' = ''0x''" by (simp add: to_lower_def to_lower_char_def Let_def)
  ultimately have low: "to_lower k = k" by (simp add: b(1) to_lower_def)
  have "list_all any_hex b" using b(3) by (auto simp: list_all_iff any_hex_def)
  with b low show ?thesis by (auto simp: abi_bytes32_def matches_iff)
qed

definition erase :: "manifest \<Rightarrow> manifest" where
  "erase m = m\<lparr>m_pieces := map (\<lambda>i. \<lparr>p_pieceId = i, p_sku = None, p_weightKg = None\<rparr>) (piece_ids m)\<rparr>"

definition stored :: "string \<Rightarrow> manifest \<Rightarrow> string \<Rightarrow> db \<Rightarrow> db" where
  "stored company m tx d =
     d\<lparr>db_manifests := db_manifests d @ [put_row company m tx],
       db_pieces := db_pieces d @ piece_rows (m_manifestId m) company 1 (piece_ids m)\<rparr>"

definition created_manifest :: "manifest \<Rightarrow> nat \<Rightarrow> chain_manifest" where
  "created_manifest m t0 =
     \<lparr>cm_tripId = m_tripId m, cm_manifestHash = m_manifestId m,
      cm_pieceCount = of_nat (m_pieceCount m), cm_deliveredCount = 0,
      cm_loader = to_lower (m_loader m), cm_driver = to_lower (m_driver m),
      cm_receiver = to_lower (m_receiver m), cm_loaderSigned = False, cm_driverSigned = False,
      cm_receiverSigned = False, cm_createdAt = of_nat t0, cm_custodyStartAt = 0,
      cm_deliveredAt = 0, cm_status = Created\<rparr>"

lemma anchorCreate_success:
  assumes "anchorCreateManifest E t0 tx k trip n l d r c = (Inr tx', c')"
    and "is_bytes32 k" and "is_bytes32 trip"
  shows "tx' = tx \<and> n < 2 ^ 32 \<and> cm_status (ch_manifests c k) = SNone \<and>
    chain_step E c c' \<and>
    ch_manifests c' = (ch_manifests c)(k :=
      \<lparr>cm_tripId = trip, cm_manifestHash = k, cm_pieceCount = of_nat n, cm_deliveredCount = 0,
       cm_loader = to_lower l, cm_driver = to_lower d, cm_receiver = to_lower r,
       cm_loaderSigned = False, cm_driverSigned = False, cm_receiverSigned = False,
       cm_createdAt = of_nat t0, cm_custodyStartAt = 0, cm_deliveredAt = 0, cm_status = Created\<rparr>)"
proof -
  from assms have run: "send tx (ch_createManifest (platform_msg E t0) k trip (of_nat n) (to_lower l)
      (to_lower d) (to_lower r)) c = (Inr tx', c')" and n: "n < 2 ^ 32"
    by (auto simp: anchorCreateManifest_def exec_iff lower_bytes32 abi_uint32_def abi_address_def
        split: if_splits)
  then have cr: "ch_createManifest (platform_msg E t0) k trip (of_nat n) (to_lower l)
      (to_lower d) (to_lower r) c = Inr c'" and tx: "tx' = tx"
    by (auto simp: send_def split: sum.splits)
  from cr have "chain_step E c c'" by (rule chain_step.intros)
  with cr tx n show ?thesis
    by (auto simp: ch_createManifest_def platform_msg_def split: if_splits)
qed

lemma canonical_ignores_id [simp]: "canonicalManifest (m\<lparr>m_manifestId := k\<rparr>) = canonicalManifest m"
  by (simp add: canonicalManifest_def canonical_json_def)

lemma computeManifestId_ignores_id [simp]:
  "computeManifestId E (m\<lparr>m_manifestId := k\<rparr>) = computeManifestId E m"
  by (simp add: computeManifestId_def)

lemma from_sum_success [exec_iff]: "from_sum r s = (Inr x, s') \<longleftrightarrow> r = Inr x \<and> s' = s"
  by (auto simp: from_sum_def)

lemma put_success:
  "put_manifest_row ctx company m tx d = (Inr u, d') \<Longrightarrow>
     tenant_ok ctx (Some company) \<and> d' = d\<lparr>db_manifests := db_manifests d @ [put_row company m tx]\<rparr> \<and>
     m_manifestId m \<notin> mf_manifest_id ` set (db_manifests d) \<and>
     m_bookingId m \<notin> mf_booking_id ` set (db_manifests d)"
  by (auto simp: put_manifest_row_def Let_def exec_iff list_ex_iff)

lemma index_success:
  "indexPieces ctx company k ids d = (Inr u, d') \<Longrightarrow>
     d' = d\<lparr>db_pieces := db_pieces d @ piece_rows k company 1 ids\<rparr> \<and>
     list_all isWellFormedPieceId ids \<and> distinct ids \<and>
     set ids \<inter> pc_piece_id ` set (db_pieces d) = {} \<and> k \<in> mf_manifest_id ` set (db_manifests d)"
  by (auto simp: indexPieces_def exec_iff list_ex_iff)

lemma build_success:
  assumes "build E ctx company now txHash blocks input w = (Inr (m, tx), w')"
  shows "manifest_ok E m \<and> m_manifestId m = computeManifestId E m \<and> tx = txHash \<and>
    m_bookingId m = b_bookingId input \<and> tenant_ok ctx (Some company) \<and>
    m_pieceCount m < 2 ^ 32 \<and>
    cm_status (ch_manifests (w_chain w) (m_manifestId m)) = SNone \<and>
    chain_step E (w_chain w) (w_chain w') \<and>
    ch_manifests (w_chain w') = (ch_manifests (w_chain w))
      (m_manifestId m := created_manifest m (nat (now div 1000))) \<and>
    w_db w' = stored company m tx (w_db w) \<and> w_audit w' = w_audit w \<and>
    m_transporterId m = b_transporterId input \<and>
    m_manifestId m \<notin> mf_manifest_id ` set (db_manifests (w_db w)) \<and>
    set (piece_ids m) \<inter> pc_piece_id ` set (db_pieces (w_db w)) = {} \<and>
    (manifest_tables_ok (w_db w) \<longrightarrow> manifest_tables_ok (w_db w'))"
proof -
  from assms obtain ps d1 d2 c1 where
    m: "manifest_ok E m" "m = (draft E input ps now)\<lparr>m_manifestId := computeManifestId E (draft E input ps now)\<rparr>"
    and anch: "anchorCreateManifest E (nat (now div 1000)) txHash (computeManifestId E (draft E input ps now))
       (b_tripId input) (m_pieceCount m) (b_loader input) (b_driver input) (b_receiver input)
       (w_chain w) = (Inr tx, c1)"
    and put: "put_manifest_row ctx company m tx (w_db w) = (Inr (), d1)"
    and idx: "indexPieces ctx company (computeManifestId E (draft E input ps now)) (map p_pieceId ps) d1
       = (Inr (), d2)"
    and w': "w' = w\<lparr>w_chain := c1, w_db := d2\<rparr>"
    by (auto simp: build_def exec_iff Let_def parse_manifest_def split: if_splits
        dest!: read_onlyD [OF get_read_only(2)])
  have f: "m_manifestId m = computeManifestId E (draft E input ps now)" "m_pieces m = ps"
    "m_tripId m = b_tripId input" "m_loader m = b_loader input" "m_driver m = b_driver input"
    "m_receiver m = b_receiver input" "m_bookingId m = b_bookingId input"
    "m_transporterId m = b_transporterId input"
    by (simp_all add: m(2) draft_def)
  have id: "m_manifestId m = computeManifestId E m" by (simp add: m(2))
  have b: "is_bytes32 (m_manifestId m)" "is_bytes32 (m_tripId m)"
    using m(1) by (auto simp: manifest_ok_def)
  note ch = anchorCreate_success [OF anch [folded f(1)], unfolded f(3) [symmetric], OF b]
  note p = put_success [OF put] and i = index_success [OF idx]
  have st: "w_db w' = stored company m tx (w_db w)"
    using p i by (simp add: w' stored_def f(1,2) piece_ids_def)
  have "manifest_tables_ok (w_db w')" if "manifest_tables_ok (w_db w)"
    using that p i unfolding st
    by (auto simp: manifest_tables_ok_def stored_def put_row_def piece_ids_def f(2)
        dest: piece_rows_fields)
  moreover have "set (piece_ids m) \<inter> pc_piece_id ` set (db_pieces (w_db w)) = {}"
    using p i by (simp add: piece_ids_def f(2))
  ultimately show ?thesis
    using ch p m(1) id st f by (simp add: w' created_manifest_def)
qed

text \<open>Reading a fresh manifest back.\<close>

lemma row_of_stored:
  assumes "manifest_tables_ok d" and "m_manifestId m \<notin> mf_manifest_id ` set (db_manifests d)"
    and "tenant_ok ctx (Some company)" and "m_transporterId m = company"
  shows "row_manifest ctx (stored company m tx d) (put_row company m tx) = erase m"
proof -
  have old: "filter (\<lambda>r. pc_manifest_id r = m_manifestId m \<and> tenant_ok ctx (Some (pc_company_id r)))
      (db_pieces d) = []"
    using assms(1,2) unfolding manifest_tables_ok_def filter_empty_conv
    by (metis image_subset_iff)
  have new: "filter (\<lambda>r. pc_manifest_id r = m_manifestId m \<and> tenant_ok ctx (Some (pc_company_id r)))
      (piece_rows (m_manifestId m) company n ids) = piece_rows (m_manifestId m) company n ids" for n ids
    using assms(3) by (auto simp: filter_id_conv dest: piece_rows_fields)
  have rows: "map (\<lambda>r. \<lparr>p_pieceId = pc_piece_id r, p_sku = pc_sku r, p_weightKg = pc_weight_kg r\<rparr>)
      (piece_rows k c n ids) = map (\<lambda>i. \<lparr>p_pieceId = i, p_sku = None, p_weightKg = None\<rparr>) ids" for k c n ids
    by (induction ids arbitrary: n) auto
  have "piecesFor ctx (m_manifestId m) (stored company m tx d)
      = map (\<lambda>i. \<lparr>p_pieceId = i, p_sku = None, p_weightKg = None\<rparr>) (piece_ids m)"
    unfolding piecesFor_def by (simp add: stored_def old new sort_piece_rows rows)
  with assms(4) show ?thesis by (simp add: row_manifest_def put_row_def erase_def)
qed

lemma erase_ok: "manifest_ok E m \<Longrightarrow> manifest_ok E (erase m)"
  by (auto simp: manifest_ok_def erase_def piece_ids_def piece_ok_def list_all_iff o_def)

lemma erase_id [simp]: "erase m = m \<longleftrightarrow> (\<forall>p \<in> set (m_pieces m). p_sku p = None \<and> p_weightKg p = None)"
proof -
  have "map (\<lambda>p. \<lparr>p_pieceId = p_pieceId p, p_sku = None, p_weightKg = None\<rparr>) ps = ps \<longleftrightarrow>
      (\<forall>p \<in> set ps. p_sku p = None \<and> p_weightKg p = None)" for ps :: "piece list"
  proof (induction ps)
    case (Cons a ps)
    have "\<lparr>p_pieceId = p_pieceId a, p_sku = None, p_weightKg = None\<rparr> = a \<longleftrightarrow>
        p_sku a = None \<and> p_weightKg a = None"
      by (cases a) auto
    with Cons show ?case by simp
  qed simp
  then show ?thesis by (cases m) (simp add: erase_def piece_ids_def o_def)
qed

lemma get_after_store:
  assumes ok: "manifest_ok E m" and t: "manifest_tables_ok d"
    and fresh: "m_manifestId m \<notin> mf_manifest_id ` set (db_manifests d)"
    and ctx: "tenant_ok ctx (Some company)" and tr: "m_transporterId m = company"
  shows "get_manifest E ctx (m_manifestId m) (stored company m tx d) =
    (Inr (Some (erase m)), stored company m tx d)"
proof -
  have "find (\<lambda>r. mf_manifest_id r = m_manifestId m \<and> tenant_ok ctx (Some (mf_company_id r)))
      (db_manifests (stored company m tx d)) = Some (put_row company m tx)"
    using fresh ctx
    by (auto simp: stored_def find_append put_row_def image_iff split: option.split
        dest!: find_SomeD)
  then show ?thesis
    using row_of_stored [OF t fresh ctx tr, of tx] erase_ok [OF ok]
    by (simp add: get_manifest_def select_manifest_def parse_manifest_def)
qed

lemma find_piece_after_store:
  assumes "set (piece_ids m) \<inter> pc_piece_id ` set (db_pieces d) = {}"
    and "tenant_ok ctx (Some company)" and "p \<in> set (piece_ids m)"
  shows "findManifestByPiece ctx p (stored company m tx d) = Some (m_manifestId m)"
proof -
  have "find (\<lambda>r. pc_piece_id r = p \<and> tenant_ok ctx (Some (pc_company_id r))) (db_pieces d) = None"
    using assms by (auto simp: find_None_iff')
  moreover have "\<exists>r. find (\<lambda>r. pc_piece_id r = p \<and> tenant_ok ctx (Some (pc_company_id r)))
      (piece_rows k company n ids) = Some r \<and> pc_manifest_id r = k" if "p \<in> set ids" for k n ids
    using that assms(2) by (induction ids arbitrary: n) auto
  ultimately show ?thesis
    using assms(3) by (force simp: findManifestByPiece_def stored_def find_append)
qed

end
