(* ===== verification/Handoff.thy ===== *)
theory Handoff imports Manifest_Store begin

text \<open>
  \<open>custody/manifest/handoff.ts\<close> and \<open>custody/db/custody.store.pg.ts\<close>: the read model of the
  custody windows, refreshed from the chain, the attribution of a loss, and the alert table.
  The lemmas show that a refresh makes the read model equal to the chain, that a shortage is
  attributed to the driver exactly when the chain records one, and which alerts are kept.
\<close>

section \<open>Alerts\<close>

record alert =
  a_kind :: string
  a_manifestId :: string
  a_pieceId :: "string option"
  a_narrative :: "string option"
  a_severity :: string

definition fork_verdicts :: "string list" where
  "fork_verdicts =
     [''DUPLICATE_LIFE'', ''POST_CLOSURE_SIGHTING'', ''UNKNOWN_PIECE'', ''NOT_ON_MANIFEST'']"

definition FORK_PREFIX :: string where
  "FORK_PREFIX = ''FORK_''"

definition UNKNOWN :: string where
  "UNKNOWN = ''unknown''"

definition alert_row_of :: "string option \<Rightarrow> int \<Rightarrow> alert \<Rightarrow> string \<Rightarrow> nat \<Rightarrow> alert_row" where
  "alert_row_of company now a verdict n =
     \<lparr>al_id = n, al_piece_id = coalesce (a_pieceId a) UNKNOWN, al_verdict = verdict,
      al_severity = a_severity a,
      al_manifest_id = (if a_manifestId a = UNKNOWN then None else Some (a_manifestId a)),
      al_company_id = company, al_narrative = a_narrative a, al_resolved_at = None,
      al_resolved_by = None, al_created_at = now\<rparr>"

text \<open>\<open>PgAlertSink.raise\<close>: only the kinds that start with \<open>FORK_\<close> are written, the others are dropped.\<close>

definition raise_alert :: "db_ctx \<Rightarrow> string option \<Rightarrow> int \<Rightarrow> alert \<Rightarrow> (db, unit) exec" where
  "raise_alert ctx company now a = (\<lambda>d.
     let verdict = (if starts_with FORK_PREFIX (a_kind a) then drop 5 (a_kind a) else []) in
     if verdict = [] then (Inr (), d)
     else
       bindE (throw_if (\<not> tenant_ok ctx company) rls_violation) (\<lambda>_.
       bindE (throw_if (verdict \<notin> set fork_verdicts) (constraint ''fork_alerts_verdict_check'')) (\<lambda>_.
       bindE (throw_if (case company of None \<Rightarrow> False | Some c \<Rightarrow> c \<notin> set (db_companies d))
                (constraint ''fork_alerts_company_id_fkey'')) (\<lambda>_.
       modifies (\<lambda>d. d\<lparr>db_alerts := db_alerts d @
         [alert_row_of company now a verdict (Suc (length (db_alerts d)))]\<rparr>)))) d)"

definition listOpen :: "db_ctx \<Rightarrow> nat \<Rightarrow> db \<Rightarrow> alert_row list" where
  "listOpen ctx limit d =
     take limit (rev (sort_key al_created_at
       (filter (\<lambda>r. al_resolved_at r = None \<and> tenant_ok ctx (al_company_id r)) (db_alerts d))))"

definition resolve_alert :: "db_ctx \<Rightarrow> int \<Rightarrow> nat \<Rightarrow> string \<Rightarrow> (db, unit) exec" where
  "resolve_alert ctx now n userId = modifies (\<lambda>d. d\<lparr>db_alerts :=
     update_where (\<lambda>r. al_id r = n \<and> tenant_ok ctx (al_company_id r))
       (\<lambda>r. r\<lparr>al_resolved_at := Some now, al_resolved_by := Some userId\<rparr>) (db_alerts d)\<rparr>)"

section \<open>Windows and the read model\<close>

datatype custody_window = W_LOADING | W_TRANSIT | W_UNLOADING | W_CLOSED | W_DISPUTED

fun windowFor :: "custody_status \<Rightarrow> custody_window" where
  "windowFor Created = W_LOADING"
| "windowFor InCustody = W_TRANSIT"
| "windowFor Delivered = W_CLOSED"
| "windowFor Short = W_UNLOADING"
| "windowFor Disputed = W_DISPUTED"
| "windowFor SNone = W_CLOSED"

record custody_record =
  cr_manifestId :: string
  cr_status :: custody_status
  cr_window :: custody_window
  cr_pieceCount :: nat
  cr_deliveredCount :: nat
  cr_custodyStartAt :: "nat option"
  cr_deliveredAt :: "nat option"
  cr_loaderSigned :: bool
  cr_driverSigned :: bool
  cr_receiverSigned :: bool

text \<open>\<open>Number(x) || null\<close>\<close>

definition nonzero :: "64 word \<Rightarrow> nat option" where
  "nonzero x = (if x = 0 then None else Some (unat x))"

definition record_of :: "string \<Rightarrow> chain_manifest \<Rightarrow> custody_record" where
  "record_of k m =
     \<lparr>cr_manifestId = k, cr_status = cm_status m, cr_window = windowFor (cm_status m),
      cr_pieceCount = unat (cm_pieceCount m), cr_deliveredCount = unat (cm_deliveredCount m),
      cr_custodyStartAt = nonzero (cm_custodyStartAt m),
      cr_deliveredAt = nonzero (cm_deliveredAt m), cr_loaderSigned = cm_loaderSigned m,
      cr_driverSigned = cm_driverSigned m, cr_receiverSigned = cm_receiverSigned m\<rparr>"

definition new_state :: "string \<Rightarrow> int \<Rightarrow> custody_record \<Rightarrow> state_row" where
  "new_state company now r =
     \<lparr>st_manifest_id = cr_manifestId r, st_company_id = company, st_status = cr_status r,
      st_piece_count = cr_pieceCount r, st_delivered_count = cr_deliveredCount r,
      st_loader_signed = cr_loaderSigned r, st_driver_signed = cr_driverSigned r,
      st_receiver_signed = cr_receiverSigned r, st_custody_start_at = cr_custodyStartAt r,
      st_delivered_at = cr_deliveredAt r, st_synced_at = now\<rparr>"

text \<open>\<open>ON CONFLICT (manifest_id) DO UPDATE\<close>: the company and the piece count stay.\<close>

definition update_state :: "int \<Rightarrow> custody_record \<Rightarrow> state_row \<Rightarrow> state_row" where
  "update_state now r s =
     s\<lparr>st_status := cr_status r, st_delivered_count := cr_deliveredCount r,
       st_loader_signed := cr_loaderSigned r, st_driver_signed := cr_driverSigned r,
       st_receiver_signed := cr_receiverSigned r, st_custody_start_at := cr_custodyStartAt r,
       st_delivered_at := cr_deliveredAt r, st_synced_at := now\<rparr>"

definition upsert_state ::
  "db_ctx \<Rightarrow> string \<Rightarrow> int \<Rightarrow> custody_record \<Rightarrow> (db, unit) exec"
where
  "upsert_state ctx company now r = (\<lambda>d.
     bindE (throw_if (\<not> tenant_ok ctx (Some company)) rls_violation) (\<lambda>_.
     bindE (throw_if (cr_pieceCount r < cr_deliveredCount r)
              (constraint ''delivered_never_exceeds_manifest'')) (\<lambda>_.
     case find (\<lambda>s. st_manifest_id s = cr_manifestId r) (db_states d) of
       Some s \<Rightarrow>
         bindE (throw_if (\<not> tenant_ok ctx (Some (st_company_id s))) rls_violation) (\<lambda>_.
         bindE (throw_if (st_piece_count s < cr_deliveredCount r)
                  (constraint ''delivered_never_exceeds_manifest'')) (\<lambda>_.
         modifies (\<lambda>d. d\<lparr>db_states :=
           update_where (\<lambda>s. st_manifest_id s = cr_manifestId r) (update_state now r) (db_states d)\<rparr>)))
     | None \<Rightarrow>
         bindE (throw_if (\<not> list_ex (\<lambda>f. mf_manifest_id f = cr_manifestId r) (db_manifests d)
                   \<or> company \<notin> set (db_companies d)) (constraint ''custody_states_fkey'')) (\<lambda>_.
         modifies (\<lambda>d. d\<lparr>db_states := db_states d @ [new_state company now r]\<rparr>)))) d)"

definition state_record :: "state_row \<Rightarrow> custody_record" where
  "state_record s =
     \<lparr>cr_manifestId = st_manifest_id s, cr_status = st_status s,
      cr_window = windowFor (st_status s), cr_pieceCount = st_piece_count s,
      cr_deliveredCount = st_delivered_count s, cr_custodyStartAt = st_custody_start_at s,
      cr_deliveredAt = st_delivered_at s, cr_loaderSigned = st_loader_signed s,
      cr_driverSigned = st_driver_signed s, cr_receiverSigned = st_receiver_signed s\<rparr>"

definition get_state :: "db_ctx \<Rightarrow> string \<Rightarrow> db \<Rightarrow> custody_record option" where
  "get_state ctx k d =
     map_option state_record
       (find (\<lambda>s. st_manifest_id s = k \<and> tenant_ok ctx (Some (st_company_id s))) (db_states d))"

definition listNeedingAttention :: "db_ctx \<Rightarrow> db \<Rightarrow> custody_record list" where
  "listNeedingAttention ctx d =
     take 200 (map state_record (rev (sort_key st_synced_at
       (filter (\<lambda>s. (st_status s = Short \<or> st_status s = Disputed) \<and>
          tenant_ok ctx (Some (st_company_id s))) (db_states d)))))"

section \<open>The service\<close>

text \<open>The company a handoff service, and its alert sink, write for.\<close>

record scope =
  sp_ctx :: db_ctx
  sp_company :: string
  sp_alert_company :: "string option"

definition transition_alert :: "string \<Rightarrow> custody_status \<Rightarrow> alert" where
  "transition_alert k st =
     \<lparr>a_kind = ''CUSTODY_TRANSITION'', a_manifestId = k, a_pieceId = None, a_narrative = None,
      a_severity = (if st = Short then ''CRITICAL'' else ''INFO'')\<rparr>"

definition sync :: "scope \<Rightarrow> int \<Rightarrow> string \<Rightarrow> (world, custody_record) exec" where
  "sync S now k =
     bindE (on_chain (readManifest k)) (\<lambda>m.
     let record = record_of k m; st = cm_status m in
     bindE (on_db (reads (get_state (sp_ctx S) k))) (\<lambda>previous.
     bindE (case previous of
              None \<Rightarrow> return ()
            | Some p \<Rightarrow>
                if cr_status p \<noteq> st
                then on_db (raise_alert (sp_ctx S) (sp_alert_company S) now (transition_alert k st))
                else return ()) (\<lambda>_.
     bindE (on_db (upsert_state (sp_ctx S) (sp_company S) now record)) (\<lambda>_.
     return record))))"

datatype liable_role = L_LOADER | L_DRIVER | L_RECEIVER | L_UNDETERMINED

record loss =
  l_lost :: int
  l_window :: custody_window
  l_liableRole :: liable_role
  l_narrative :: string

definition iso_or_unknown :: "('e) chain_env_scheme \<Rightarrow> nat option \<Rightarrow> string" where
  "iso_or_unknown E t0 = (case t0 of None \<Rightarrow> UNKNOWN | Some s \<Rightarrow> iso_of_ms E (int s * 1000))"

definition loss_narrative ::
  "('e) chain_env_scheme \<Rightarrow> custody_record \<Rightarrow> manifest option \<Rightarrow> string"
where
  "loss_narrative E rec m =
     show_int (int (cr_pieceCount rec) - int (cr_deliveredCount rec)) @ '' of '' @
     show_nat (cr_pieceCount rec) @ '' pieces unaccounted for on booking '' @
     (case m of None \<Rightarrow> ''?'' | Some m \<Rightarrow> m_bookingId m) @
     ''. Loader and driver both signed for '' @ show_nat (cr_pieceCount rec) @
     '' pieces at loading ('' @ iso_or_unknown E (cr_custodyStartAt rec) @
     ''); receiver signed for '' @ show_nat (cr_deliveredCount rec) @ '' at unloading ('' @
     iso_or_unknown E (cr_deliveredAt rec) @
     ''). Loss therefore occurred inside the driver's custody window. '' @
     ''Cross-reference the anchored GPS batches for that interval to identify unexplained stops.''"

definition loss_of ::
  "('e) chain_env_scheme \<Rightarrow> custody_record \<Rightarrow> manifest option \<Rightarrow> loss"
where
  "loss_of E rec m =
     (if cr_status rec \<noteq> Short then
        \<lparr>l_lost = 0, l_window = cr_window rec, l_liableRole = L_UNDETERMINED,
         l_narrative = ''No shortage recorded for this manifest.''\<rparr>
      else
        \<lparr>l_lost = int (cr_pieceCount rec) - int (cr_deliveredCount rec), l_window = W_TRANSIT,
         l_liableRole =
           (if cr_loaderSigned rec \<and> cr_driverSigned rec \<and> cr_receiverSigned rec
            then L_DRIVER else L_UNDETERMINED),
         l_narrative = loss_narrative E rec m\<rparr>)"

definition attributeLoss ::
  "('e) chain_env_scheme \<Rightarrow> scope \<Rightarrow> int \<Rightarrow> string \<Rightarrow> (world, loss) exec"
where
  "attributeLoss E S now k =
     bindE (sync S now k) (\<lambda>rec.
     bindE (on_db (get_manifest E (sp_ctx S) k)) (\<lambda>m.
     return (loss_of E rec m)))"

definition not_in_transit :: "custody_status \<Rightarrow> exn" where
  "not_in_transit st = Error (''NOT_IN_TRANSIT:status='' @ status_name st)"

definition assertScannable :: "scope \<Rightarrow> int \<Rightarrow> string \<Rightarrow> (world, custody_record) exec" where
  "assertScannable S now k =
     bindE (sync S now k) (\<lambda>rec.
     bindE (throw_if (cr_status rec \<noteq> InCustody) (not_in_transit (cr_status rec))) (\<lambda>_.
     return rec))"

section \<open>What the alert table keeps\<close>

lemma not_fork_kind: "starts_with ''FORK_'' s \<longleftrightarrow> (\<exists>r. s = ''FORK_'' @ r)"
  by (rule starts_with_iff)

lemma raise_dropped:
  "\<not> starts_with FORK_PREFIX (a_kind a) \<Longrightarrow> raise_alert ctx company now a d = (Inr (), d)"
  by (simp add: raise_alert_def)

lemma raise_fork:
  assumes "v \<in> set fork_verdicts" and "a_kind a = FORK_PREFIX @ v"
    and "tenant_ok ctx company" and "\<And>c. company = Some c \<Longrightarrow> c \<in> set (db_companies d)"
  shows "raise_alert ctx company now a d = (Inr (), d\<lparr>db_alerts := db_alerts d @
    [alert_row_of company now a v (Suc (length (db_alerts d)))]\<rparr>)"
proof -
  have "v \<noteq> []" using assms(1) by (auto simp: fork_verdicts_def)
  moreover have "drop 5 (a_kind a) = v" by (simp add: assms(2) FORK_PREFIX_def)
  moreover have "starts_with FORK_PREFIX (a_kind a)" unfolding assms(2) by simp
  moreover have "\<not> (case company of None \<Rightarrow> False | Some c \<Rightarrow> c \<notin> set (db_companies d))"
    using assms(4) by (simp split: option.split)
  ultimately show ?thesis
    using assms(1,3) by (simp add: raise_alert_def bindE_def throw_if_def)
qed

lemma raise_transition: "raise_alert ctx company now (transition_alert k st) d = (Inr (), d)"
  by (rule raise_dropped) (simp add: transition_alert_def starts_with_def FORK_PREFIX_def)

lemma raise_alert_writes:
  "raise_alert ctx company now a d = (r, d') \<Longrightarrow> \<exists>rows. d' = d\<lparr>db_alerts := db_alerts d @ rows\<rparr>"
  by (auto simp: raise_alert_def Let_def bindE_def throw_if_def
      split: if_splits option.splits intro: exI [of _ "[]"])

section \<open>The read model equals the chain\<close>

lemma readManifest_run:
  "is_bytes32 k \<Longrightarrow> readManifest k c = (Inr (ch_manifests c k), c)"
  by (simp add: readManifest_def lower_bytes32 bindE_def)

lemma readManifest_success:
  "readManifest k c = (Inr m, c') \<longleftrightarrow> c' = c \<and> (\<exists>k'. abi_bytes32 k = Some k' \<and> m = ch_manifests c k')"
  by (auto simp: readManifest_def exec_iff)

text \<open>\<open>sync\<close> is a read of the chain followed by the upsert: its alert is dropped by the sink.\<close>

lemma sync_eq:
  assumes "is_bytes32 k"
  shows "sync S now k w =
    (case upsert_state (sp_ctx S) (sp_company S) now (record_of k (ch_manifests (w_chain w) k)) (w_db w) of
       (Inl e, d) \<Rightarrow> (Inl e, w\<lparr>w_db := d\<rparr>)
     | (Inr _, d) \<Rightarrow> (Inr (record_of k (ch_manifests (w_chain w) k)), w\<lparr>w_db := d\<rparr>))"
  by (simp add: sync_def bindE_def on_chain_def on_db_def readManifest_run [OF assms] Let_def
      raise_transition split: option.split prod.split sum.split)

text \<open>Rows of the read model were written for manifests that exist on the chain.\<close>

definition states_ok :: "world \<Rightarrow> bool" where
  "states_ok w \<longleftrightarrow>
     distinct (map st_manifest_id (db_states (w_db w))) \<and>
     (\<forall>s \<in> set (db_states (w_db w)).
        cm_status (ch_manifests (w_chain w) (st_manifest_id s)) \<noteq> SNone \<and>
        st_piece_count s = unat (cm_pieceCount (ch_manifests (w_chain w) (st_manifest_id s))))"

lemma upsert_success:
  assumes "upsert_state ctx company now r d = (Inr u, d')"
  shows "tenant_ok ctx (Some company) \<and>
    ((\<exists>s. find (\<lambda>s. st_manifest_id s = cr_manifestId r) (db_states d) = Some s \<and>
        tenant_ok ctx (Some (st_company_id s)) \<and>
        d' = d\<lparr>db_states := update_where (\<lambda>s. st_manifest_id s = cr_manifestId r)
                 (update_state now r) (db_states d)\<rparr>) \<or>
     (find (\<lambda>s. st_manifest_id s = cr_manifestId r) (db_states d) = None \<and>
        d' = d\<lparr>db_states := db_states d @ [new_state company now r]\<rparr>))"
  using assms by (auto simp: upsert_state_def exec_iff split: option.splits)

lemma upsert_failure: "upsert_state ctx company now r d = (Inl e, d') \<Longrightarrow> d' = d"
  by (auto simp: upsert_state_def bindE_def throw_if_def split: option.splits if_splits)

lemma sync_success:
  assumes "sync S now k w = (Inr rec, w')" and "is_bytes32 k"
  shows "rec = record_of k (ch_manifests (w_chain w) k) \<and>
    (\<exists>d. upsert_state (sp_ctx S) (sp_company S) now rec (w_db w) = (Inr (), d) \<and> w' = w\<lparr>w_db := d\<rparr>)"
  using assms by (auto simp: sync_eq split: prod.splits sum.splits)

lemma sync_frame:
  assumes "sync S now k w = (r, w')" and "is_bytes32 k"
  shows "w_chain w' = w_chain w \<and> w_audit w' = w_audit w \<and>
    (\<exists>rows. w_db w' = (w_db w)\<lparr>db_states := rows\<rparr>)"
proof -
  obtain ru d where u: "upsert_state (sp_ctx S) (sp_company S) now
      (record_of k (ch_manifests (w_chain w) k)) (w_db w) = (ru, d)" by force
  have "\<exists>rows. d = (w_db w)\<lparr>db_states := rows\<rparr>"
  proof (cases ru)
    case (Inl e)
    with u have "d = w_db w" by (auto dest: upsert_failure)
    then show ?thesis by (intro exI [of _ "db_states (w_db w)"]) simp
  next
    case (Inr x)
    with u show ?thesis by (auto dest!: upsert_success)
  qed
  then show ?thesis
    using assms u by (auto simp: sync_eq split: sum.splits)
qed

lemma find_weaken:
  "find p xs = Some x \<Longrightarrow> q x \<Longrightarrow> find (\<lambda>y. p y \<and> q y) xs = Some x"
  by (induction xs) (auto split: if_splits)

lemma sync_reads_back:
  assumes run: "sync S now k w = (Inr rec, w')" and k: "is_bytes32 k" and ok: "states_ok w"
  shows "get_state (sp_ctx S) k (w_db w') = Some rec \<and>
    rec = record_of k (ch_manifests (w_chain w') k)"
proof -
  from sync_success [OF run k] obtain d where
    rec: "rec = record_of k (ch_manifests (w_chain w) k)" and
    up: "upsert_state (sp_ctx S) (sp_company S) now rec (w_db w) = (Inr (), d)" and
    w': "w' = w\<lparr>w_db := d\<rparr>" by blast
  have id: "cr_manifestId rec = k" by (simp add: rec record_of_def)
  from upsert_success [OF up] have t: "tenant_ok (sp_ctx S) (Some (sp_company S))" by simp
  from upsert_success [OF up] show ?thesis
  proof (elim conjE disjE exE)
    fix s
    assume s: "find (\<lambda>s. st_manifest_id s = cr_manifestId rec) (db_states (w_db w)) = Some s"
      and ts: "tenant_ok (sp_ctx S) (Some (st_company_id s))"
      and d: "d = (w_db w)\<lparr>db_states := update_where (\<lambda>s. st_manifest_id s = cr_manifestId rec)
                (update_state now rec) (db_states (w_db w))\<rparr>"
    from s have sin: "s \<in> set (db_states (w_db w))" "st_manifest_id s = k"
      by (auto dest: find_SomeD simp: id)
    have "find (\<lambda>s. st_manifest_id s = k \<and> tenant_ok (sp_ctx S) (Some (st_company_id s)))
        (db_states d) = Some (update_state now rec s)"
      using find_weaken [OF s, of "\<lambda>s. tenant_ok (sp_ctx S) (Some (st_company_id s))"] ts sin
      by (simp add: d id find_update_where update_state_def)
    moreover have "st_piece_count s = cr_pieceCount rec"
      using ok sin by (auto simp: states_ok_def rec record_of_def)
    ultimately show ?thesis
      using sin id
      by (simp add: w' get_state_def state_record_def update_state_def rec record_of_def)
  next
    assume none: "find (\<lambda>s. st_manifest_id s = cr_manifestId rec) (db_states (w_db w)) = None"
      and d: "d = (w_db w)\<lparr>db_states := db_states (w_db w) @ [new_state (sp_company S) now rec]\<rparr>"
    have "find (\<lambda>s. st_manifest_id s = k \<and> tenant_ok (sp_ctx S) (Some (st_company_id s)))
        (db_states (w_db w)) = None"
      using none by (auto simp: find_None_iff' id)
    then have "find (\<lambda>s. st_manifest_id s = k \<and> tenant_ok (sp_ctx S) (Some (st_company_id s)))
        (db_states d) = Some (new_state (sp_company S) now rec)"
      using t by (simp add: d find_append new_state_def id)
    then show ?thesis
      by (simp add: w' get_state_def state_record_def new_state_def rec record_of_def)
  qed
qed

lemma sync_states_ok:
  assumes run: "sync S now k w = (r, w')" and k: "is_bytes32 k" and ok: "states_ok w"
    and ex: "cm_status (ch_manifests (w_chain w) k) \<noteq> SNone"
  shows "states_ok w'"
proof (cases r)
  case (Inl e)
  with run k have "w_db w' = w_db w" "w_chain w' = w_chain w"
    by (auto simp: sync_eq split: prod.splits sum.splits dest: upsert_failure)
  with ok show ?thesis by (simp add: states_ok_def)
next
  case (Inr rec)
  from sync_success [OF run [unfolded Inr] k] obtain d where
    rec: "rec = record_of k (ch_manifests (w_chain w) k)" and
    up: "upsert_state (sp_ctx S) (sp_company S) now rec (w_db w) = (Inr (), d)" and
    w': "w' = w\<lparr>w_db := d\<rparr>" by blast
  have f: "st_manifest_id (update_state n c s) = st_manifest_id s"
    "st_piece_count (update_state n c s) = st_piece_count s" for n c s
    by (simp_all add: update_state_def)
  from upsert_success [OF up] show ?thesis
  proof (elim conjE disjE exE)
    fix s
    assume d: "d = (w_db w)\<lparr>db_states := update_where (\<lambda>s. st_manifest_id s = cr_manifestId rec)
                (update_state now rec) (db_states (w_db w))\<rparr>"
    show ?thesis using ok by (auto simp: states_ok_def w' d set_update_where map_update_where f)
  next
    assume none: "find (\<lambda>s. st_manifest_id s = cr_manifestId rec) (db_states (w_db w)) = None"
      and d: "d = (w_db w)\<lparr>db_states := db_states (w_db w) @ [new_state (sp_company S) now rec]\<rparr>"
    from none have "k \<notin> st_manifest_id ` set (db_states (w_db w))"
      by (auto simp: find_None_iff' rec record_of_def)
    then show ?thesis
      using ok ex by (auto simp: states_ok_def w' d new_state_def rec record_of_def)
  qed
qed

lemma states_ok_chain_step:
  assumes "states_ok w" and "chain_step E (w_chain w) c"
  shows "states_ok (w\<lparr>w_chain := c\<rparr>)"
proof -
  have "cm_status (ch_manifests c k) \<noteq> SNone \<and>
      cm_pieceCount (ch_manifests c k) = cm_pieceCount (ch_manifests (w_chain w) k)"
    if "cm_status (ch_manifests (w_chain w) k) \<noteq> SNone" for k
    using manifest_step_forward [OF chain_step_manifest [OF assms(2), of k] that]
    by (simp add: forward_def same_declaration_def)
  with assms(1) show ?thesis by (simp add: states_ok_def)
qed

section \<open>Attribution\<close>

lemma attributeLoss_success:
  assumes "attributeLoss E S now k w = (Inr l, w')" and "is_bytes32 k"
  shows "\<exists>m. l = loss_of E (record_of k (ch_manifests (w_chain w) k)) m \<and> w_chain w' = w_chain w"
proof -
  from assms obtain rec w1 m where
    s: "sync S now k w = (Inr rec, w1)" and g: "on_db (get_manifest E (sp_ctx S) k) w1 = (Inr m, w')"
    and l: "l = loss_of E rec m"
    by (auto simp: attributeLoss_def exec_iff)
  from g have "w_chain w' = w_chain w1" by (rule on_db_frame [THEN conjunct1])
  with sync_success [OF s assms(2)] sync_frame [OF s assms(2)] l show ?thesis by auto
qed

lemma loss_of_spec:
  assumes "manifest_inv E k m"
  shows "if cm_status m = Short
    then l_lost (loss_of E (record_of k m) f) = int (unat (cm_pieceCount m)) - int (unat (cm_deliveredCount m)) \<and>
      0 < l_lost (loss_of E (record_of k m) f) \<and>
      l_window (loss_of E (record_of k m) f) = W_TRANSIT \<and>
      l_liableRole (loss_of E (record_of k m) f) = L_DRIVER
    else l_lost (loss_of E (record_of k m) f) = 0 \<and>
      l_liableRole (loss_of E (record_of k m) f) = L_UNDETERMINED"
  using assms
  by (auto simp: manifest_inv_def status_ok_def loss_of_def record_of_def word_less_def)

end
