(* ===== verification/Scan_Log.thy ===== *)
theory Scan_Log imports Database begin

text \<open>
  \<open>custody/db/lifecycle.store.pg.ts\<close> and \<open>custody/doublescan/lifecycle-index.ts\<close>: the
  append-only log of scans, idempotent on piece and client nonce. The lemmas show that a scan
  is never lost or changed, that a replay of a flush is counted as duplicates only and leaves
  the log alone, and that the two ways of counting scanned pieces agree.
\<close>

section \<open>The store\<close>

definition same_nonce :: "scan_event \<Rightarrow> scan_row \<Rightarrow> bool" where
  "same_nonce e r \<longleftrightarrow> e_clientNonce e \<noteq> None \<and>
     e_pieceId (sc_event r) = e_pieceId e \<and> e_clientNonce (sc_event r) = e_clientNonce e"

text \<open>
  \<open>append\<close>: \<open>INSERT ... ON CONFLICT (piece_id, client_nonce) DO NOTHING\<close> with the write policy,
  the foreign keys and the primary key of the table.
\<close>

definition scan_append ::
  "db_ctx \<Rightarrow> string option \<Rightarrow> int \<Rightarrow> scan_event \<Rightarrow> (db, bool) exec"
where
  "scan_append ctx company now e =
     bindE (throw_if (\<not> tenant_ok ctx company) rls_violation) (\<lambda>_ d.
       if list_ex (same_nonce e) (db_scans d) then (Inr False, d)
       else
         bindE (throw_if (list_ex (\<lambda>r. e_scanId (sc_event r) = e_scanId e) (db_scans d))
                  (constraint ''scan_events_pkey'')) (\<lambda>_.
         bindE (throw_if (case e_manifestId e of None \<Rightarrow> False
                   | Some k \<Rightarrow> \<not> list_ex (\<lambda>r. mf_manifest_id r = k) (db_manifests d))
                  (constraint ''scan_events_manifest_id_fkey'')) (\<lambda>_.
         bindE (throw_if (case company of None \<Rightarrow> False | Some c \<Rightarrow> c \<notin> set (db_companies d))
                  (constraint ''scan_events_company_id_fkey'')) (\<lambda>_.
         bindE (modifies (\<lambda>d. d\<lparr>db_scans := db_scans d @
                  [\<lparr>sc_event = e, sc_company_id = company, sc_recorded_at = now\<rparr>]\<rparr>)) (\<lambda>_.
         return True)))) d)"

definition visible_scans :: "db_ctx \<Rightarrow> db \<Rightarrow> scan_event list" where
  "visible_scans ctx d = map sc_event (filter (\<lambda>r. tenant_ok ctx (sc_company_id r)) (db_scans d))"

text \<open>\<open>byPiece\<close>, \<open>byManifest\<close> and \<open>distinctPieces\<close>; ties in \<open>scanned_at\<close> keep insertion order.\<close>

definition byPiece :: "db_ctx \<Rightarrow> string \<Rightarrow> db \<Rightarrow> scan_event list" where
  "byPiece ctx pid d =
     sort_key e_scannedAt (filter (\<lambda>e. e_pieceId e = pid) (visible_scans ctx d))"

definition byManifest ::
  "db_ctx \<Rightarrow> string \<Rightarrow> scan_context option \<Rightarrow> db \<Rightarrow> scan_event list"
where
  "byManifest ctx k context d =
     sort_key e_scannedAt
       (filter (\<lambda>e. e_manifestId e = Some k \<and>
          (case context of None \<Rightarrow> True | Some x \<Rightarrow> e_context e = x)) (visible_scans ctx d))"

definition distinctPieces :: "db_ctx \<Rightarrow> string \<Rightarrow> scan_context \<Rightarrow> db \<Rightarrow> string list" where
  "distinctPieces ctx k context d =
     uniq (map e_pieceId
       (filter (\<lambda>e. e_manifestId e = Some k \<and> e_context e = context) (visible_scans ctx d)))"

definition recentlyActivePieces :: "db_ctx \<Rightarrow> int \<Rightarrow> int \<Rightarrow> db \<Rightarrow> string list" where
  "recentlyActivePieces ctx now sinceHours d =
     uniq (map (e_pieceId \<circ> sc_event)
       (filter (\<lambda>r. tenant_ok ctx (sc_company_id r) \<and>
          now - sinceHours * 3600000 < sc_recorded_at r) (db_scans d)))"

section \<open>The index\<close>

record scan_input =
  in_pieceId :: string
  in_manifestId :: "string option"
  in_context :: scan_context
  in_scannerId :: "string option"
  in_locationHint :: "string option"
  in_clientNonce :: "string option"
  in_scannedAt :: "int option"

definition event_of :: "scan_input \<Rightarrow> string \<Rightarrow> int \<Rightarrow> scan_event" where
  "event_of i uuid now =
     \<lparr>e_scanId = uuid, e_pieceId = in_pieceId i, e_manifestId = in_manifestId i,
      e_context = in_context i, e_scannerId = in_scannerId i,
      e_locationHint = in_locationHint i, e_scannedAt = coalesce (in_scannedAt i) now,
      e_clientNonce = in_clientNonce i\<rparr>"

definition zod_error :: exn where
  "zod_error = Error ''ZodError''"

definition record_scan ::
  "('e) chain_env_scheme \<Rightarrow> db_ctx \<Rightarrow> string option \<Rightarrow> scan_input \<Rightarrow> string \<Rightarrow> int \<Rightarrow>
   (db, scan_event \<times> scan_event list \<times> bool) exec"
where
  "record_scan E ctx company i uuid now =
     (let e = event_of i uuid now in
      bindE (throw_if (\<not> scan_ok E e) zod_error) (\<lambda>_.
      bindE (scan_append ctx company now e) (\<lambda>inserted.
      bindE (reads (byPiece ctx (in_pieceId i))) (\<lambda>history.
      return (e, history, inserted)))))"

text \<open>\<open>recordBatch\<close>; the random id and the clock reading of each call come with its item.\<close>

fun recordBatch ::
  "('e) chain_env_scheme \<Rightarrow> db_ctx \<Rightarrow> string option \<Rightarrow> (scan_input \<times> string \<times> int) list \<Rightarrow>
   nat \<Rightarrow> nat \<Rightarrow> (db, nat \<times> nat) exec"
where
  "recordBatch E ctx company [] accepted duplicates = return (accepted, duplicates)"
| "recordBatch E ctx company ((i, uuid, now) # items) accepted duplicates =
     bindE (record_scan E ctx company i uuid now) (\<lambda>(_, _, isNew).
       if isNew then recordBatch E ctx company items (Suc accepted) duplicates
       else recordBatch E ctx company items accepted (Suc duplicates))"

section \<open>Append-only and idempotent\<close>

text \<open>The log only grows, and nothing but the log changes.\<close>

definition log_grows :: "db \<Rightarrow> db \<Rightarrow> bool" where
  "log_grows d d' \<longleftrightarrow> (\<exists>rows. d' = d\<lparr>db_scans := db_scans d @ rows\<rparr>)"

lemma log_grows_refl [simp]: "log_grows d d"
  unfolding log_grows_def by (rule exI [of _ "[]"]) simp

lemma log_grows_trans: "log_grows d d1 \<Longrightarrow> log_grows d1 d2 \<Longrightarrow> log_grows d d2"
  by (auto simp: log_grows_def)

lemma scan_append_grows: "scan_append ctx company now e d = (r, d') \<Longrightarrow> log_grows d d'"
  by (auto simp: scan_append_def bindE_def throw_if_def log_grows_def
      split: if_splits option.splits intro: exI [of _ "[]"])

lemma record_scan_grows: "record_scan E ctx company i u now d = (r, d') \<Longrightarrow> log_grows d d'"
proof -
  assume run: "record_scan E ctx company i u now d = (r, d')"
  obtain ra da where a: "scan_append ctx company now (event_of i u now) d = (ra, da)" by force
  have "d' = d \<or> d' = da"
    using run a by (auto simp: record_scan_def Let_def bindE_def throw_if_def split: if_splits sum.splits)
  then show ?thesis using scan_append_grows [OF a] by auto
qed

lemma recordBatch_grows: "recordBatch E ctx company items a b d = (r, d') \<Longrightarrow> log_grows d d'"
proof (induction items arbitrary: a b d)
  case Nil
  then show ?case by simp
next
  case (Cons it items)
  obtain i u now where it: "it = (i, u, now)" by (cases it)
  obtain r1 d1 where r1: "record_scan E ctx company i u now d = (r1, d1)" by force
  show ?case
  proof (cases r1)
    case (Inl e)
    with Cons.prems r1 it record_scan_grows [OF r1] show ?thesis by (simp add: bindE_def)
  next
    case (Inr x)
    then obtain e h n where x: "x = (e, h, n)" by (cases x)
    from Cons.prems r1 it Inr x have
      "recordBatch E ctx company items (if n then Suc a else a) (if n then b else Suc b) d1 = (r, d')"
      by (simp add: bindE_def split: if_splits)
    from Cons.IH [OF this] record_scan_grows [OF r1] show ?thesis
      by (blast intro: log_grows_trans)
  qed
qed

definition has_nonce :: "db \<Rightarrow> scan_input \<Rightarrow> bool" where
  "has_nonce d i \<longleftrightarrow> in_clientNonce i \<noteq> None \<and>
     (\<exists>r \<in> set (db_scans d). e_pieceId (sc_event r) = in_pieceId i \<and>
        e_clientNonce (sc_event r) = in_clientNonce i)"

lemma has_nonce_same: "list_ex (same_nonce (event_of i u now)) (db_scans d) \<longleftrightarrow> has_nonce d i"
  by (auto simp: list_ex_iff same_nonce_def has_nonce_def event_of_def)

lemma has_nonce_grows: "has_nonce d i \<Longrightarrow> log_grows d d' \<Longrightarrow> has_nonce d' i"
  by (auto simp: has_nonce_def log_grows_def)

lemma record_scan_outcome:
  "record_scan E ctx company i u now d = (Inr (e, h, isNew), d') \<Longrightarrow>
     e = event_of i u now \<and> scan_ok E e \<and> tenant_ok ctx company \<and>
     isNew = (\<not> has_nonce d i) \<and> h = byPiece ctx (in_pieceId i) d' \<and>
     d' = (if isNew then d\<lparr>db_scans := db_scans d @
             [\<lparr>sc_event = e, sc_company_id = company, sc_recorded_at = now\<rparr>]\<rparr> else d)"
  by (auto simp: record_scan_def scan_append_def Let_def exec_iff has_nonce_same
      split: if_splits option.splits)

lemma record_scan_has_nonce:
  "record_scan E ctx company i u now d = (Inr r, d') \<Longrightarrow> in_clientNonce i \<noteq> None \<Longrightarrow> has_nonce d' i"
  using record_scan_outcome [of E ctx company i u now d "fst r" "fst (snd r)" "snd (snd r)" d']
  by (cases "has_nonce d i") (auto simp: has_nonce_def event_of_def)

lemma recordBatch_has_nonces:
  "recordBatch E ctx company items a b d = (Inr r, d') \<Longrightarrow> (i, u, now) \<in> set items \<Longrightarrow>
   in_clientNonce i \<noteq> None \<Longrightarrow> has_nonce d' i"
proof (induction items arbitrary: a b d)
  case (Cons it items)
  obtain i1 u1 n1 where it: "it = (i1, u1, n1)" by (cases it)
  from Cons.prems(1) obtain x d1 a1 b1 where
    r1: "record_scan E ctx company i1 u1 n1 d = (Inr x, d1)" and
    rest: "recordBatch E ctx company items a1 b1 d1 = (Inr r, d')"
    by (auto simp: it exec_iff split: if_splits)
  show ?case
  proof (cases "(i, u, now) = it")
    case True
    with r1 it Cons.prems(3) have "has_nonce d1 i" by (auto intro: record_scan_has_nonce)
    then show ?thesis using recordBatch_grows [OF rest] by (rule has_nonce_grows)
  next
    case False
    with Cons.prems rest Cons.IH show ?thesis by auto
  qed
qed simp

lemma recordBatch_counts:
  "recordBatch E ctx company items a b d = (Inr (a', b'), d') \<Longrightarrow>
   a' + b' = a + b + length items \<and>
   length (db_scans d') = length (db_scans d) + (a' - a) \<and> a \<le> a'"
proof (induction items arbitrary: a b d)
  case (Cons it items)
  obtain i u now where it: "it = (i, u, now)" by (cases it)
  from Cons.prems obtain e h n d1 where
    r1: "record_scan E ctx company i u now d = (Inr (e, h, n), d1)" and
    rest: "recordBatch E ctx company items (if n then Suc a else a) (if n then b else Suc b) d1
       = (Inr (a', b'), d')"
    by (auto simp: it exec_iff split: if_splits)
  from record_scan_outcome [OF r1] Cons.IH [OF rest] show ?case
    by (auto split: if_splits)
qed auto

text \<open>A second flush of items that are all in the log: no rows, duplicates only.\<close>

lemma recordBatch_replay:
  "\<forall>(i, u, now) \<in> set items. has_nonce d i \<and> scan_ok E (event_of i u now) \<Longrightarrow>
   tenant_ok ctx company \<Longrightarrow>
   recordBatch E ctx company items a b d = (Inr (a, b + length items), d)"
proof (induction items arbitrary: b)
  case (Cons it items)
  obtain i u now where it: "it = (i, u, now)" by (cases it)
  with Cons.prems have "record_scan E ctx company i u now d =
      (Inr (event_of i u now, byPiece ctx (in_pieceId i) d, False), d)"
    by (simp add: record_scan_def scan_append_def bindE_def throw_if_def has_nonce_same Let_def)
  with Cons it show ?case by (simp add: bindE_def)
qed simp

section \<open>Counting\<close>

locale scan_reader =
  fixes events :: "'s \<Rightarrow> string \<Rightarrow> scan_context \<Rightarrow> scan_event list"
    and pieces :: "'s \<Rightarrow> string \<Rightarrow> scan_context \<Rightarrow> string list"
  assumes events_of: "e \<in> set (events s k x) \<Longrightarrow> e_manifestId e = Some k \<and> e_context e = x"
    and pieces_distinct: "distinct (pieces s k x)"
    and pieces_events: "set (pieces s k x) = e_pieceId ` set (events s k x)"
begin

lemma pieces_count: "length (pieces s k x) = card (e_pieceId ` set (events s k x))"
  by (metis distinct_card pieces_distinct pieces_events)

end

interpretation sl: scan_reader "\<lambda>d k x. byManifest ctx k (Some x) d"
  "\<lambda>d k x. distinctPieces ctx k x d" for ctx
  by unfold_locales (auto simp: byManifest_def distinctPieces_def)

end
