(* ===== verification/Reconcile.thy ===== *)
theory Reconcile imports Scan_Log Manifest_Store begin

text \<open>
  \<open>custody/reconcile/counter.ts\<close>: the set of scanned pieces against the set of pieces of the
  manifest. The lemmas give every field of the result as a cardinality of these sets; they are
  proved once from the contracts of the manifest reader and the scan reader and hold for the
  two Postgres stores by interpretation.
\<close>

record reconcile_result =
  rr_manifestId :: string
  rr_expected :: nat
  rr_scanned :: nat
  rr_missing :: nat
  rr_extra :: nat
  rr_complete :: bool
  rr_missingPieceIds :: "string list"
  rr_offManifestPieceIds :: "string list"
  rr_duplicateScans :: nat

text \<open>The loop over the events: the set of ids in order of first sight, and the repeats.\<close>

fun count_scans :: "scan_event list \<Rightarrow> string list \<Rightarrow> nat \<Rightarrow> string list \<times> nat" where
  "count_scans [] ids dup = (ids, dup)"
| "count_scans (e # es) ids dup =
     (if e_pieceId e \<in> set ids then count_scans es ids (Suc dup)
      else count_scans es (ids @ [e_pieceId e]) dup)"

definition result_of :: "string \<Rightarrow> manifest \<Rightarrow> scan_event list \<Rightarrow> reconcile_result" where
  "result_of k m events =
     (let expectedIds = uniq (piece_ids m);
          (scannedIds, dup) = count_scans events [] 0;
          missing = filter (\<lambda>i. i \<notin> set scannedIds) expectedIds;
          off = filter (\<lambda>i. i \<notin> set expectedIds) scannedIds
      in \<lparr>rr_manifestId = k, rr_expected = m_pieceCount m,
          rr_scanned = length scannedIds - length off, rr_missing = length missing,
          rr_extra = length off, rr_complete = (length missing = 0 \<and> length off = 0),
          rr_missingPieceIds = missing, rr_offManifestPieceIds = off, rr_duplicateScans = dup\<rparr>)"

definition reconcile ::
  "('e) chain_env_scheme \<Rightarrow> db_ctx \<Rightarrow> string \<Rightarrow> (db, reconcile_result) exec"
where
  "reconcile E ctx k =
     bindE (get_manifest E ctx k) (\<lambda>m.
     bindE (need m (Error ''MANIFEST_NOT_FOUND'')) (\<lambda>m.
     bindE (reads (byManifest ctx k (Some UNLOADING))) (\<lambda>events.
     return (result_of k m events))))"

definition progress ::
  "('e) chain_env_scheme \<Rightarrow> db_ctx \<Rightarrow> string \<Rightarrow> (db, nat \<times> nat) exec"
where
  "progress E ctx k =
     bindE (get_manifest E ctx k) (\<lambda>m.
     bindE (need m (Error ''MANIFEST_NOT_FOUND'')) (\<lambda>m.
     bindE (reads (distinctPieces ctx k UNLOADING)) (\<lambda>ids.
     return (length ids, m_pieceCount m))))"

text \<open>\<open>summarize\<close>; the signs outside ASCII are their UTF-8 bytes.\<close>

definition CHECK_MARK :: string where "CHECK_MARK = [CHR 0xE2, CHR 0x9C, CHR 0x85]"
definition WARNING_SIGN :: string where "WARNING_SIGN = [CHR 0xE2, CHR 0x9A, CHR 0xA0]"
definition EM_DASH :: string where "EM_DASH = [CHR 0xE2, CHR 0x80, CHR 0x94]"
definition MID_DOT :: string where "MID_DOT = [CHR 0xC2, CHR 0xB7]"

fun join_with :: "string \<Rightarrow> string list \<Rightarrow> string" where
  "join_with sep [] = []"
| "join_with sep [x] = x"
| "join_with sep (x # y # r) = x @ sep @ join_with sep (y # r)"

definition summarize :: "reconcile_result \<Rightarrow> string" where
  "summarize r =
     (let frac = show_nat (rr_scanned r) @ ''/'' @ show_nat (rr_expected r) in
      if rr_complete r then CHECK_MARK @ '' '' @ frac @ '' '' @ EM_DASH @ '' complete.''
      else join_with ('' '' @ MID_DOT @ '' '')
        ([WARNING_SIGN @ '' '' @ frac @ '' scanned'']
         @ (if rr_missing r \<noteq> 0 then [show_nat (rr_missing r) @ '' MISSING''] else [])
         @ (if rr_extra r \<noteq> 0 then [show_nat (rr_extra r) @ '' off-manifest''] else [])))"

section \<open>The loop\<close>

lemma count_scans_spec:
  "distinct ids \<Longrightarrow> count_scans es ids dup = (ids', dup') \<Longrightarrow>
     distinct ids' \<and> set ids' = set ids \<union> e_pieceId ` set es \<and>
     dup' + length ids' = dup + length ids + length es"
proof (induction es arbitrary: ids dup)
  case (Cons e es)
  show ?case
  proof (cases "e_pieceId e \<in> set ids")
    case True
    with Cons.prems Cons.IH [of ids "Suc dup"] show ?thesis by auto
  next
    case False
    with Cons.prems Cons.IH [of "ids @ [e_pieceId e]" dup] show ?thesis by auto
  qed
qed auto

text \<open>The specification: \<open>P\<close> the pieces of the manifest, \<open>S\<close> the pieces scanned.\<close>

definition reconciles :: "reconcile_result \<Rightarrow> nat \<Rightarrow> string set \<Rightarrow> string set \<Rightarrow> nat \<Rightarrow> bool" where
  "reconciles r n P S scans \<longleftrightarrow>
     rr_expected r = n \<and>
     rr_scanned r = card (S \<inter> P) \<and> rr_missing r = card (P - S) \<and> rr_extra r = card (S - P) \<and>
     set (rr_missingPieceIds r) = P - S \<and> distinct (rr_missingPieceIds r) \<and>
     set (rr_offManifestPieceIds r) = S - P \<and> distinct (rr_offManifestPieceIds r) \<and>
     rr_duplicateScans r + card S = scans \<and>
     (rr_complete r \<longleftrightarrow> S = P)"

lemma distinct_length_card: "distinct xs \<Longrightarrow> length xs = card (set xs)"
  by (simp add: distinct_card)

lemma result_of_reconciles:
  "reconciles (result_of k m es) (m_pieceCount m) (set (piece_ids m)) (e_pieceId ` set es) (length es)"
proof -
  obtain ids dup where c: "count_scans es [] 0 = (ids, dup)" by force
  let ?P = "set (piece_ids m)" and ?S = "e_pieceId ` set es"
  from count_scans_spec [OF _ c] have ids: "distinct ids" "set ids = ?S" "dup + length ids = length es"
    by simp_all
  define miss where "miss = filter (\<lambda>i. i \<notin> set ids) (uniq (piece_ids m))"
  define off where "off = filter (\<lambda>i. i \<notin> set (uniq (piece_ids m))) ids"
  have miss: "distinct miss" "set miss = ?P - ?S" by (auto simp: miss_def ids(2))
  have off: "distinct off" "set off = ?S - ?P" using ids by (auto simp: off_def)
  have len: "length ids = card ?S" "length miss = card (?P - ?S)" "length off = card (?S - ?P)"
    using ids miss off by (metis distinct_length_card)+
  have "card ?S - card (?S - ?P) = card (?S \<inter> ?P)"
    by (metis add_diff_cancel_right' card_Int_Diff finite_imageI finite_set inf.commute)
  moreover have "length miss = 0 \<and> length off = 0 \<longleftrightarrow> ?S = ?P"
    using miss(2) off(2) by auto
  moreover have "result_of k m es =
      \<lparr>rr_manifestId = k, rr_expected = m_pieceCount m, rr_scanned = length ids - length off,
       rr_missing = length miss, rr_extra = length off,
       rr_complete = (length miss = 0 \<and> length off = 0), rr_missingPieceIds = miss,
       rr_offManifestPieceIds = off, rr_duplicateScans = dup\<rparr>"
    by (simp add: result_of_def c miss_def off_def Let_def)
  ultimately show ?thesis
    using miss off ids len by (simp add: reconciles_def)
qed

lemma result_of_id [simp]: "rr_manifestId (result_of k m es) = k"
  by (simp add: result_of_def Let_def split: prod.split)

section \<open>From the contracts of the two readers\<close>

locale reconciler = manifest_reader get valid + scan_reader events pieces
  for get :: "'s \<Rightarrow> string \<Rightarrow> exn + manifest option"
  and valid :: "manifest \<Rightarrow> bool"
  and events :: "'s \<Rightarrow> string \<Rightarrow> scan_context \<Rightarrow> scan_event list"
  and pieces :: "'s \<Rightarrow> string \<Rightarrow> scan_context \<Rightarrow> string list"
begin

abbreviation result :: "'s \<Rightarrow> string \<Rightarrow> manifest \<Rightarrow> reconcile_result" where
  "result s k m \<equiv> result_of k m (events s k UNLOADING)"

lemma scanned_plus_missing:
  assumes "get s k = Inr (Some m)"
  shows "rr_scanned (result s k m) + rr_missing (result s k m) = m_pieceCount m"
proof -
  let ?P = "set (piece_ids m)" and ?S = "e_pieceId ` set (events s k UNLOADING)"
  have "card ?P = card (?P \<inter> ?S) + card (?P - ?S)" by (rule card_Int_Diff) simp
  with get_ids [OF assms] result_of_reconciles [of k m "events s k UNLOADING"] show ?thesis
    by (simp add: reconciles_def inf.commute)
qed

lemma complete_iff:
  assumes "get s k = Inr (Some m)"
  shows "rr_complete (result s k m) \<longleftrightarrow>
    rr_scanned (result s k m) = m_pieceCount m \<and> rr_extra (result s k m) = 0"
proof -
  let ?P = "set (piece_ids m)" and ?S = "e_pieceId ` set (events s k UNLOADING)"
  note r = result_of_reconciles [of k m "events s k UNLOADING"]
  have "rr_scanned (result s k m) = m_pieceCount m \<longleftrightarrow> rr_missing (result s k m) = 0"
    using scanned_plus_missing [OF assms] by auto
  moreover have "card (?P - ?S) = 0 \<longleftrightarrow> ?P \<subseteq> ?S" "card (?S - ?P) = 0 \<longleftrightarrow> ?S \<subseteq> ?P" by auto
  ultimately show ?thesis using r by (auto simp: reconciles_def)
qed

lemma progress_count:
  "length (pieces s k UNLOADING) = rr_scanned (result s k m) + rr_extra (result s k m)"
proof -
  let ?P = "set (piece_ids m)" and ?S = "e_pieceId ` set (events s k UNLOADING)"
  have "card ?S = card (?S \<inter> ?P) + card (?S - ?P)" by (rule card_Int_Diff) simp
  with pieces_count result_of_reconciles [of k m "events s k UNLOADING"] show ?thesis
    by (simp add: reconciles_def)
qed

end

interpretation rc: reconciler "\<lambda>d k. fst (get_manifest E ctx k d)" "manifest_ok E"
  "\<lambda>d k x. byManifest ctx k (Some x) d" "\<lambda>d k x. distinctPieces ctx k x d" for E ctx
  by unfold_locales

lemma reconcile_read_only [intro]: "read_only (reconcile E ctx k)"
  unfolding reconcile_def by blast

lemma reconcile_success:
  "reconcile E ctx k d = (Inr r, d') \<longleftrightarrow>
     d' = d \<and> (\<exists>m. get_manifest E ctx k d = (Inr (Some m), d) \<and>
       r = result_of k m (byManifest ctx k (Some UNLOADING) d))"
  by (auto simp: reconcile_def exec_iff dest: get_success)

lemma reconcile_spec:
  assumes "reconcile E ctx k d = (Inr r, d')"
  shows "\<exists>m. get_manifest E ctx k d = (Inr (Some m), d) \<and>
    reconciles r (m_pieceCount m) (set (piece_ids m))
      (set (distinctPieces ctx k UNLOADING d)) (length (byManifest ctx k (Some UNLOADING) d)) \<and>
    rr_scanned r + rr_missing r = rr_expected r \<and>
    (rr_complete r \<longleftrightarrow> rr_scanned r = rr_expected r \<and> rr_extra r = 0)"
proof -
  from assms obtain m where m: "get_manifest E ctx k d = (Inr (Some m), d)"
    and r: "r = result_of k m (byManifest ctx k (Some UNLOADING) d)"
    by (auto simp: reconcile_success)
  have g: "fst (get_manifest E ctx k d) = Inr (Some m)" by (simp add: m)
  show ?thesis
    using m rc.scanned_plus_missing [OF g] rc.complete_iff [OF g]
      result_of_reconciles [of k m "byManifest ctx k (Some UNLOADING) d"]
    unfolding r sl.pieces_events [symmetric] by (auto simp: reconciles_def)
qed

lemma reconcile_manifestId: "reconcile E ctx k d = (Inr r, d') \<Longrightarrow> rr_manifestId r = k"
  by (auto simp: reconcile_success)

lemma progress_spec:
  assumes "progress E ctx k d = (Inr (n, tot), d')"
  shows "\<exists>r. reconcile E ctx k d = (Inr r, d) \<and> n = rr_scanned r + rr_extra r \<and> tot = rr_expected r"
proof -
  from assms obtain m where m: "get_manifest E ctx k d = (Inr (Some m), d)"
    and n: "n = length (distinctPieces ctx k UNLOADING d)" "tot = m_pieceCount m"
    by (auto simp: progress_def exec_iff dest: get_success)
  let ?r = "result_of k m (byManifest ctx k (Some UNLOADING) d)"
  have "rr_expected ?r = m_pieceCount m"
    using result_of_reconciles by (auto simp: reconciles_def)
  with m n rc.progress_count [of ctx k d m] show ?thesis
    by (intro exI [of _ ?r]) (simp add: reconcile_success)
qed

end
