(* ===== verification/Otp.thy ===== *)
theory Otp imports Database begin

text \<open>
  \<open>chain/keys/otp.ts\<close>: one-time codes. The code table is readable and writable by the system
  context only. The lemmas show that at most one code per phone is ever live, that a code is
  accepted at most once, and that a code cannot be accepted after five wrong guesses as long
  as the guesses are committed.
\<close>

definition OTP_TTL_MS :: int where
  "OTP_TTL_MS = 5 * 60 * 1000"

definition OTP_MAX_ATTEMPTS :: nat where
  "OTP_MAX_ATTEMPTS = 5"

definition OTP_DIGITS :: nat where
  "OTP_DIGITS = 6"

type_synonym hash_fun = "string \<Rightarrow> string"

definition hashCode :: "hash_fun \<Rightarrow> string \<Rightarrow> string \<Rightarrow> string" where
  "hashCode sha256 phone code = sha256 (phone @ CHR '':'' # code)"

definition constantTimeEqual :: "string \<Rightarrow> string \<Rightarrow> bool" where
  "constantTimeEqual a b \<longleftrightarrow> length a = length b \<and> list_all2 (=) a b"

text \<open>\<open>String(randomInt(0, 10 ** 6)).padStart(6, "0")\<close>\<close>

definition otp_code :: "nat \<Rightarrow> string" where
  "otp_code r = replicate (OTP_DIGITS - length (show_nat r)) (CHR ''0'') @ show_nat r"

definition live :: "string \<Rightarrow> otp_row \<Rightarrow> bool" where
  "live phone r \<longleftrightarrow> otp_phone r = phone \<and> otp_consumed_at r = None"

definition consume :: "int \<Rightarrow> otp_row \<Rightarrow> otp_row" where
  "consume now r = r\<lparr>otp_consumed_at := Some now\<rparr>"

definition update_otps :: "(otp_row list \<Rightarrow> otp_row list) \<Rightarrow> (db, unit) exec" where
  "update_otps f = modifies (\<lambda>d. d\<lparr>db_otps := f (db_otps d)\<rparr>)"

text \<open>\<open>ConsoleOtpSender.send\<close>: refuses in production, otherwise writes a log line.\<close>

definition console_send :: "bool \<Rightarrow> (db, unit) exec" where
  "console_send production = throw_if production (Error ''OTP_SENDER_NOT_CONFIGURED'')"

definition otp_issue ::
  "hash_fun \<Rightarrow> bool \<Rightarrow> db_ctx \<Rightarrow> int \<Rightarrow> nat \<Rightarrow> string \<Rightarrow> (db, int) exec"
where
  "otp_issue sha256 production ctx now rnd phone =
     bindE (update_otps (update_where (\<lambda>r. live phone r \<and> ctx = System) (consume now))) (\<lambda>_.
     bindE (throw_if (ctx \<noteq> System) rls_violation) (\<lambda>_.
     bindE (\<lambda>d. throw_if (list_ex (live phone) (db_otps d)) (constraint ''otp_challenges_live_idx'') d) (\<lambda>_.
     bindE (modifies (\<lambda>d. d\<lparr>db_otps := db_otps d @
              [\<lparr>otp_id = length (db_otps d), otp_phone = phone,
                otp_code_hash = hashCode sha256 phone (otp_code rnd), otp_attempts = 0,
                otp_expires_at = now + OTP_TTL_MS, otp_consumed_at = None\<rparr>]\<rparr>)) (\<lambda>_.
     bindE (console_send production) (\<lambda>_.
     return (now + OTP_TTL_MS))))))"

definition otp_verify ::
  "hash_fun \<Rightarrow> db_ctx \<Rightarrow> int \<Rightarrow> string \<Rightarrow> string \<Rightarrow> (db, bool) exec"
where
  "otp_verify sha256 ctx now phone otpToken = (\<lambda>d.
     case find (\<lambda>r. live phone r \<and> ctx = System) (db_otps d) of
       None \<Rightarrow> (Inr False, d)
     | Some row \<Rightarrow>
         (let on_row = (\<lambda>f. update_otps (update_where (\<lambda>r. otp_id r = otp_id row) f)) in
          if otp_expires_at row < now then
            bindE (on_row (consume now)) (\<lambda>_. return False) d
          else if OTP_MAX_ATTEMPTS \<le> otp_attempts row then
            bindE (on_row (consume now)) (\<lambda>_. return False) d
          else if \<not> constantTimeEqual (otp_code_hash row) (hashCode sha256 phone otpToken) then
            bindE (on_row (\<lambda>r. r\<lparr>otp_attempts := Suc (otp_attempts r)\<rparr>)) (\<lambda>_. return False) d
          else
            bindE (on_row (consume now)) (\<lambda>_. return True) d))"

section \<open>The stand-in for an already verified code\<close>

record preverified =
  pv_phone :: string
  pv_used :: bool

definition pre_verify :: "string \<Rightarrow> string \<Rightarrow> (preverified, bool) exec" where
  "pre_verify phone otpToken = (\<lambda>s.
     if pv_used s then (Inr False, s)
     else if phone \<noteq> pv_phone s then (Inr False, s)
     else (Inr True, s\<lparr>pv_used := True\<rparr>))"

section \<open>One live code\<close>

text \<open>The ids are row numbers; the partial unique index allows one live row per phone.\<close>

definition otps_ok :: "db \<Rightarrow> bool" where
  "otps_ok d \<longleftrightarrow> map otp_id (db_otps d) = [0 ..< length (db_otps d)] \<and>
     distinct (map otp_phone (filter (\<lambda>r. otp_consumed_at r = None) (db_otps d)))"

lemma constantTimeEqual_iff [simp]: "constantTimeEqual a b \<longleftrightarrow> a = b"
  by (auto simp: constantTimeEqual_def list_all2_eq [symmetric] list.rel_eq)

lemma live_unique:
  "otps_ok d \<Longrightarrow> r \<in> set (db_otps d) \<Longrightarrow> r' \<in> set (db_otps d) \<Longrightarrow> live p r \<Longrightarrow> live p r' \<Longrightarrow> r = r'"
  unfolding otps_ok_def live_def
  by (rule unique_key [of otp_phone "filter (\<lambda>r. otp_consumed_at r = None) (db_otps d)"]) auto

lemma live_after_consume:
  "filter (\<lambda>r. otp_consumed_at r = None) (update_where q (consume now) rows) =
   filter (\<lambda>r. \<not> q r) (filter (\<lambda>r. otp_consumed_at r = None) rows)"
  by (induction rows) (auto simp: consume_def)

lemma consume_ids [simp]: "otp_id (consume now r) = otp_id r" "otp_phone (consume now r) = otp_phone r"
  by (simp_all add: consume_def)

lemma otps_ok_consume:
  "otps_ok d \<Longrightarrow> otps_ok (d\<lparr>db_otps := update_where q (consume now) (db_otps d)\<rparr>)"
  by (simp add: otps_ok_def map_update_where live_after_consume distinct_map_filter del: filter_filter)

lemma otps_ok_attempt:
  "otps_ok d \<Longrightarrow>
   otps_ok (d\<lparr>db_otps := update_where q (\<lambda>r. r\<lparr>otp_attempts := Suc (otp_attempts r)\<rparr>) (db_otps d)\<rparr>)"
proof -
  have "map otp_phone (filter (\<lambda>r. otp_consumed_at r = None)
      (update_where q (\<lambda>r. r\<lparr>otp_attempts := Suc (otp_attempts r)\<rparr>) rows))
    = map otp_phone (filter (\<lambda>r. otp_consumed_at r = None) rows)" for rows :: "otp_row list"
    by (induction rows) auto
  then show "otps_ok d \<Longrightarrow> ?thesis" by (simp add: otps_ok_def map_update_where)
qed

lemma otp_verify_run:
  "otp_verify sha256 ctx now phone tok d =
    (case find (\<lambda>r. live phone r \<and> ctx = System) (db_otps d) of
       None \<Rightarrow> (Inr False, d)
     | Some row \<Rightarrow>
         if otp_expires_at row < now \<or> OTP_MAX_ATTEMPTS \<le> otp_attempts row then
           (Inr False, d\<lparr>db_otps := update_where (\<lambda>r. otp_id r = otp_id row) (consume now) (db_otps d)\<rparr>)
         else if otp_code_hash row \<noteq> hashCode sha256 phone tok then
           (Inr False, d\<lparr>db_otps := update_where (\<lambda>r. otp_id r = otp_id row)
              (\<lambda>r. r\<lparr>otp_attempts := Suc (otp_attempts r)\<rparr>) (db_otps d)\<rparr>)
         else
           (Inr True, d\<lparr>db_otps := update_where (\<lambda>r. otp_id r = otp_id row) (consume now) (db_otps d)\<rparr>))"
  by (auto simp: otp_verify_def update_otps_def bindE_def Let_def split: option.split)

lemma otp_verify_ok: "otps_ok d \<Longrightarrow> otp_verify h ctx now phone tok d = (r, d') \<Longrightarrow> otps_ok d'"
  by (auto simp: otp_verify_run intro: otps_ok_consume otps_ok_attempt
      split: option.splits if_splits)

lemma ids_distinct: "otps_ok d \<Longrightarrow> distinct (map otp_id (db_otps d))"
  by (simp add: otps_ok_def)

text \<open>Consuming the live row of a phone leaves it with no live row.\<close>

lemma no_live_after_consume:
  assumes ok: "otps_ok d" and row: "row \<in> set (db_otps d)" "live phone row"
  shows "\<not> list_ex (live phone)
    (update_where (\<lambda>r. otp_id r = otp_id row) (consume now) (db_otps d))"
proof
  assume "list_ex (live phone) (update_where (\<lambda>r. otp_id r = otp_id row) (consume now) (db_otps d))"
  then obtain r where r: "r \<in> set (db_otps d)" "otp_id r \<noteq> otp_id row" "live phone r"
    by (auto simp: list_ex_iff set_update_where live_def consume_def)
  with live_unique [OF ok r(1) row(1) r(3) row(2)] show False by simp
qed

lemma otp_verify_true:
  assumes ok: "otps_ok d" and run: "otp_verify h ctx now phone tok d = (Inr True, d')"
  shows "ctx = System \<and> \<not> list_ex (live phone) (db_otps d') \<and>
    (\<exists>row \<in> set (db_otps d). live phone row \<and> now \<le> otp_expires_at row \<and>
       otp_attempts row < OTP_MAX_ATTEMPTS \<and> otp_code_hash row = hashCode h phone tok)"
proof -
  from run obtain row where f: "find (\<lambda>r. live phone r \<and> ctx = System) (db_otps d) = Some row"
    by (auto simp: otp_verify_run split: option.splits)
  note s = find_SomeD [OF f]
  from run f s no_live_after_consume [OF ok, of row phone now] show ?thesis
    by (auto simp: otp_verify_run not_less not_le split: if_splits)
qed

lemma otp_verify_dead:
  "\<not> list_ex (live phone) (db_otps d) \<Longrightarrow> otp_verify h ctx now phone tok d = (Inr False, d)"
proof -
  assume "\<not> list_ex (live phone) (db_otps d)"
  then have "find (\<lambda>r. live phone r \<and> ctx = System) (db_otps d) = None"
    by (auto simp: find_None_iff' list_ex_iff)
  then show ?thesis by (simp add: otp_verify_run)
qed

lemma otp_issue_success:
  assumes ok: "otps_ok d" and run: "otp_issue h production ctx now rnd phone d = (Inr t, d')"
  shows "ctx = System \<and> \<not> production \<and> t = now + OTP_TTL_MS \<and> otps_ok d' \<and>
    filter (live phone) (db_otps d') =
      [\<lparr>otp_id = length (db_otps d), otp_phone = phone,
        otp_code_hash = hashCode h phone (otp_code rnd), otp_attempts = 0,
        otp_expires_at = now + OTP_TTL_MS, otp_consumed_at = None\<rparr>]"
proof -
  let ?up = "update_where (\<lambda>r. live phone r) (consume now) (db_otps d)"
  let ?new = "\<lparr>otp_id = length (db_otps d), otp_phone = phone,
        otp_code_hash = hashCode h phone (otp_code rnd), otp_attempts = 0,
        otp_expires_at = now + OTP_TTL_MS, otp_consumed_at = None\<rparr>"
  from run have r: "ctx = System" "\<not> production" "t = now + OTP_TTL_MS"
      "d' = d\<lparr>db_otps := ?up @ [?new]\<rparr>" "\<not> list_ex (live phone) ?up"
    by (auto simp: otp_issue_def exec_iff update_otps_def console_send_def throw_if_def
        split: if_splits)
  define rows where "rows = ?up"
  have len: "length rows = length (db_otps d)" by (simp add: rows_def)
  have "otps_ok (d\<lparr>db_otps := rows\<rparr>)" unfolding rows_def using ok by (rule otps_ok_consume)
  with r(5) have "otps_ok d'" unfolding r(4) rows_def [symmetric]
    by (auto simp: otps_ok_def list_ex_iff live_def len)
  moreover have "filter (live phone) (db_otps d') = [?new]"
    using r(5) unfolding r(4) rows_def [symmetric]
    by (auto simp: filter_empty_conv list_ex_iff live_def)
  ultimately show ?thesis using r by simp
qed

text \<open>A run of guesses, each committed before the next.\<close>

fun guesses :: "hash_fun \<Rightarrow> int \<Rightarrow> string \<Rightarrow> string list \<Rightarrow> db \<Rightarrow> db" where
  "guesses h now phone [] d = d"
| "guesses h now phone (g # gs) d = guesses h now phone gs (snd (otp_verify h System now phone g d))"

lemma guesses_ok: "otps_ok d \<Longrightarrow> otps_ok (guesses h now phone gs d)"
proof (induction gs arbitrary: d)
  case (Cons g gs)
  obtain r d1 where "otp_verify h System now phone g d = (r, d1)" by force
  with Cons otp_verify_ok [OF Cons.prems this] show ?case by simp
qed simp

text \<open>What the table says of a phone: no live code, or one with the number of wrong guesses.\<close>

definition spent :: "string \<Rightarrow> nat \<Rightarrow> string \<Rightarrow> db \<Rightarrow> bool" where
  "spent phone n code_hash d \<longleftrightarrow>
     (\<forall>r \<in> set (db_otps d). live phone r \<longrightarrow> otp_code_hash r = code_hash \<and> n \<le> otp_attempts r)"

lemma wrong_guess_spends:
  assumes ok: "otps_ok d" and s: "spent phone n ch d" and wrong: "hashCode h phone g \<noteq> ch"
  shows "spent phone (Suc n) ch (snd (otp_verify h System now phone g d))"
proof (cases "find (live phone) (db_otps d)")
  case None
  then have "\<not> list_ex (live phone) (db_otps d)" by (auto simp: find_None_iff' list_ex_iff)
  then show ?thesis by (auto simp: otp_verify_dead spent_def list_ex_iff)
next
  case (Some row)
  note m = find_SomeD [OF Some]
  have row: "row \<in> set (db_otps d)" "live phone row" using m by simp_all
  have hash: "otp_code_hash row = ch" and n: "n \<le> otp_attempts row"
    using s row by (auto simp: spent_def)
  let ?add = "update_where (\<lambda>r. otp_id r = otp_id row) (\<lambda>r. r\<lparr>otp_attempts := Suc (otp_attempts r)\<rparr>) (db_otps d)"
  have "spent phone (Suc n) ch (d\<lparr>db_otps := ?add\<rparr>)"
    unfolding spent_def
  proof (intro ballI impI)
    fix r
    assume "r \<in> set (db_otps (d\<lparr>db_otps := ?add\<rparr>))" and lr: "live phone r"
    then obtain q where q: "q \<in> set (db_otps d)"
      "r = (if otp_id q = otp_id row then q\<lparr>otp_attempts := Suc (otp_attempts q)\<rparr> else q)"
      by (auto simp: update_where_def)
    have "live phone q" using lr q by (auto simp: live_def split: if_splits)
    with live_unique [OF ok q(1) row(1) _ row(2)] have "q = row" by simp
    with q hash n show "otp_code_hash r = ch \<and> Suc n \<le> otp_attempts r" by simp
  qed
  moreover have "spent phone (Suc n) ch
      (d\<lparr>db_otps := update_where (\<lambda>r. otp_id r = otp_id row) (consume now) (db_otps d)\<rparr>)"
    using no_live_after_consume [OF ok row, of now] by (auto simp: spent_def list_ex_iff)
  ultimately show ?thesis using Some hash wrong by (auto simp: otp_verify_run)
qed

lemma guesses_spend:
  "otps_ok d \<Longrightarrow> spent phone n ch d \<Longrightarrow> \<forall>g \<in> set gs. hashCode h phone g \<noteq> ch \<Longrightarrow>
   spent phone (n + length gs) ch (guesses h now phone gs d)"
proof (induction gs arbitrary: d n)
  case (Cons g gs)
  obtain r d1 where v: "otp_verify h System now phone g d = (r, d1)" by force
  have "spent phone (Suc n) ch d1"
    using wrong_guess_spends [OF Cons.prems(1,2), of h g now] Cons.prems(3) v by simp
  with Cons.IH [OF otp_verify_ok [OF Cons.prems(1) v], of "Suc n"] Cons.prems(3) v show ?case by simp
qed simp

lemma spent_out:
  assumes "otps_ok d" and "spent phone OTP_MAX_ATTEMPTS ch d"
  shows "fst (otp_verify h ctx now phone tok d) = Inr False"
proof (cases "find (\<lambda>r. live phone r \<and> ctx = System) (db_otps d)")
  case None
  then show ?thesis by (simp add: otp_verify_run)
next
  case (Some row)
  with assms(2) find_SomeD [OF Some] have "OTP_MAX_ATTEMPTS \<le> otp_attempts row"
    by (auto simp: spent_def)
  then show ?thesis by (simp add: otp_verify_run Some)
qed

lemma spent_mono: "spent phone n ch d \<Longrightarrow> m \<le> n \<Longrightarrow> spent phone m ch d"
  by (fastforce simp: spent_def)

lemma attempts_capped:
  assumes ok: "otps_ok d" and iss: "otp_issue h production System now rnd phone d = (Inr t, d1)"
    and wrong: "\<forall>g \<in> set gs. hashCode h phone g \<noteq> hashCode h phone (otp_code rnd)"
    and many: "OTP_MAX_ATTEMPTS \<le> length gs"
  shows "fst (otp_verify h System now' phone tok (guesses h now' phone gs d1)) = Inr False"
proof -
  note i = otp_issue_success [OF ok iss]
  have "spent phone 0 (hashCode h phone (otp_code rnd)) d1"
    unfolding spent_def
  proof (intro ballI impI)
    fix r
    assume "r \<in> set (db_otps d1)" "live phone r"
    then have "r \<in> set (filter (live phone) (db_otps d1))" by simp
    with i show "otp_code_hash r = hashCode h phone (otp_code rnd) \<and> 0 \<le> otp_attempts r" by simp
  qed
  from guesses_spend [OF _ this wrong, of now'] i many
  have "spent phone OTP_MAX_ATTEMPTS (hashCode h phone (otp_code rnd)) (guesses h now' phone gs d1)"
    by (auto intro: spent_mono)
  with i show ?thesis by (intro spent_out [OF guesses_ok]) auto
qed

lemma pre_verify_once:
  "pre_verify phone tok s = (Inr True, s') \<Longrightarrow> pv_used s' \<and> phone = pv_phone s"
  by (auto simp: pre_verify_def split: if_splits)

lemma pre_verify_used: "pv_used s \<Longrightarrow> pre_verify phone tok s = (Inr False, s)"
  by (simp add: pre_verify_def)

end
