(* ===== verification/Tokens.thy ===== *)
theory Tokens imports Json begin

text \<open>
  Signed text tokens, \<open>payload.signature\<close>: the base64url codec of the standard library,
  splitting at dots, and the sealing and opening that the co-sign links, the invitations
  and the access tokens share. The keyed hash (\<open>createHmac("sha256", secret)\<close> with a
  base64url or hex digest) is a parameter \<open>mac secret text\<close>; \<open>mac_shape\<close> is what is used of
  its digest text: it is not empty and has no dot. Text is its UTF-8 bytes.
\<close>

section \<open>base64url\<close>

text \<open>The alphabet: upper case, lower case, digits, \<open>-\<close>, \<open>_\<close>.\<close>

definition b64_char :: "nat \<Rightarrow> char" where
  "b64_char n = char_of
     (if n < 26 then 65 + n else if n < 52 then 71 + n else if n < 62 then n - 4
      else if n = 62 then 45 else (95 :: nat))"

definition b64_value :: "char \<Rightarrow> nat option" where
  "b64_value c = (let n = of_char c :: nat in
     if 65 \<le> n \<and> n \<le> 90 then Some (n - 65)
     else if 97 \<le> n \<and> n \<le> 122 then Some (n - 71)
     else if 48 \<le> n \<and> n \<le> 57 then Some (n + 4)
     else if n = 45 \<or> n = 43 then Some 62
     else if n = 95 \<or> n = 47 then Some 63 else None)"

fun b64_groups :: "nat list \<Rightarrow> nat list" where
  "b64_groups (a # b # c # r) =
     [a div 4, a mod 4 * 16 + b div 16, b mod 16 * 4 + c div 64, c mod 64] @ b64_groups r"
| "b64_groups [a, b] = [a div 4, a mod 4 * 16 + b div 16, b mod 16 * 4]"
| "b64_groups [a] = [a div 4, a mod 4 * 16]"
| "b64_groups [] = []"

fun b64_bytes :: "nat list \<Rightarrow> nat list" where
  "b64_bytes (p # q # r # s # t) =
     [p * 4 + q div 16, q mod 16 * 16 + r div 4, r mod 4 * 64 + s] @ b64_bytes t"
| "b64_bytes [p, q, r] = [p * 4 + q div 16, q mod 16 * 16 + r div 4]"
| "b64_bytes [p, q] = [p * 4 + q div 16]"
| "b64_bytes _ = []"

definition b64url :: "string \<Rightarrow> string" where
  "b64url s = map b64_char (b64_groups (map of_char s))"

text \<open>The decoder skips characters outside the alphabet, as \<open>Buffer.from\<close> does.\<close>

definition b64url_decode :: "string \<Rightarrow> string" where
  "b64url_decode s = map char_of (b64_bytes (List.map_filter b64_value s))"

lemma byte_parts:
  fixes a b :: nat
  assumes "a < 256" "b < 256"
  shows "a div 4 < 64" "b div 16 < 16" "b div 64 < 4"
    "a mod 4 * 16 + b div 16 < 64" "a mod 16 * 4 + b div 64 < 64"
    "(a mod 4 * 16 + b div 16) div 16 = a mod 4" "(a mod 4 * 16 + b div 16) mod 16 = b div 16"
    "(a mod 16 * 4 + b div 64) div 4 = a mod 16" "(a mod 16 * 4 + b div 64) mod 4 = b div 64"
proof -
  show 1: "a div 4 < 64" "b div 16 < 16" "b div 64 < 4"
    using assms by (simp_all add: less_mult_imp_div_less)
  have 2: "a mod 4 < 4" "a mod 16 < 16" by simp_all
  show "a mod 4 * 16 + b div 16 < 64" "a mod 16 * 4 + b div 64 < 64"
    using 1 2 by linarith+
  show "(a mod 4 * 16 + b div 16) div 16 = a mod 4" "(a mod 4 * 16 + b div 16) mod 16 = b div 16"
    "(a mod 16 * 4 + b div 64) div 4 = a mod 16" "(a mod 16 * 4 + b div 64) mod 4 = b div 64"
    using 1 by simp_all
qed

lemma b64_groups_range: "\<forall>a \<in> set as. a < 256 \<Longrightarrow> \<forall>n \<in> set (b64_groups as). n < 64"
proof (induction as rule: b64_groups.induct)
  case (1 a b c r)
  then show ?case using byte_parts [of a b] byte_parts [of b c] by simp
next
  case (2 a b)
  then show ?case using byte_parts [of a b] byte_parts [of b 0] by simp
next
  case (3 a)
  then show ?case using byte_parts [of a 0] by simp
qed simp

lemma b64_bytes_groups: "\<forall>a \<in> set as. a < 256 \<Longrightarrow> b64_bytes (b64_groups as) = as"
proof (induction as rule: b64_groups.induct)
  case (1 a b c r)
  then show ?case using byte_parts [of a b] byte_parts [of b c] by simp
next
  case (2 a b)
  then show ?case using byte_parts [of a b] byte_parts [of b 0] by simp
next
  case (3 a)
  then show ?case using byte_parts [of a 0] by simp
qed simp

lemma b64_code: "n < 64 \<Longrightarrow> (of_char (b64_char n) :: nat) =
     (if n < 26 then 65 + n else if n < 52 then 71 + n else if n < 62 then n - 4
      else if n = 62 then 45 else 95)"
  by (simp add: b64_char_def)

lemma b64_value_char: "n < 64 \<Longrightarrow> b64_value (b64_char n) = Some n"
  unfolding b64_value_def Let_def b64_code by auto

lemma b64_char_dot:
  assumes "n < 64"
  shows "b64_char n \<noteq> CHR ''.''"
proof
  assume "b64_char n = CHR ''.''"
  then have "(of_char (b64_char n) :: nat) = 46" by simp
  with b64_code [OF assms] show False by (auto split: if_splits)
qed

lemma b64url_roundtrip [simp]: "b64url_decode (b64url s) = s"
proof -
  let ?as = "map of_char s :: nat list"
  have as: "\<forall>a \<in> set ?as. a < 256"
    by auto
  have "List.map_filter b64_value (map b64_char ns) = ns" if "\<forall>n \<in> set ns. n < 64" for ns
    using that by (induction ns) (auto simp: List.map_filter_simps b64_value_char)
  from this [OF b64_groups_range [OF as]] show ?thesis
    by (simp add: b64url_decode_def b64url_def b64_bytes_groups [OF as] o_def)
qed

lemma b64url_no_dot: "CHR ''.'' \<notin> set (b64url s)"
proof -
  have "\<forall>a \<in> set (map of_char s :: nat list). a < 256" by auto
  from b64_groups_range [OF this] show ?thesis
    by (fastforce simp: b64url_def dest: b64_char_dot)
qed

lemma b64url_Nil [simp]: "b64url s = [] \<longleftrightarrow> s = []"
  by (metis b64url_roundtrip b64_groups.simps(4) b64url_def list.simps(8))

section \<open>Splitting at dots\<close>

fun split_dot :: "string \<Rightarrow> string list" where
  "split_dot [] = [[]]"
| "split_dot (c # cs) =
     (if c = CHR ''.'' then [] # split_dot cs
      else case split_dot cs of [] \<Rightarrow> [[c]] | p # ps \<Rightarrow> (c # p) # ps)"

fun join_dot :: "string list \<Rightarrow> string" where
  "join_dot [] = []"
| "join_dot [p] = p"
| "join_dot (p # q # ps) = p @ CHR ''.'' # join_dot (q # ps)"

lemma split_dot_nonempty [simp]: "split_dot s \<noteq> []"
  by (induction s) (auto split: list.splits)

lemma split_dot_plain [simp]: "CHR ''.'' \<notin> set p \<Longrightarrow> split_dot p = [p]"
  by (induction p) auto

lemma split_dot_append [simp]:
  "CHR ''.'' \<notin> set p \<Longrightarrow> split_dot (p @ CHR ''.'' # r) = p # split_dot r"
  by (induction p) auto

lemma join_split_dot: "join_dot (split_dot s) = s"
proof (induction s)
  case (Cons c cs)
  then show ?case
    by (cases "split_dot cs"; cases "tl (split_dot cs)") auto
qed simp

section \<open>Sealing and opening\<close>

type_synonym mac_fun = "string \<Rightarrow> string \<Rightarrow> string"

definition mac_shape :: "mac_fun \<Rightarrow> bool" where
  "mac_shape mac \<longleftrightarrow> (\<forall>k t. mac k t \<noteq> [] \<and> CHR ''.'' \<notin> set (mac k t))"

definition seal :: "mac_fun \<Rightarrow> string \<Rightarrow> string \<Rightarrow> string" where
  "seal mac secret payload = payload @ CHR ''.'' # mac secret payload"

text \<open>
  \<open>const [payload, sig] = encoded.split(".")\<close> with the two checks that follow it; parts
  after the second are ignored, as the destructuring ignores them.
\<close>

definition unseal :: "mac_fun \<Rightarrow> string \<Rightarrow> exn \<Rightarrow> exn \<Rightarrow> string \<Rightarrow> exn + string" where
  "unseal mac secret malformed bad encoded =
     (case split_dot encoded of
        payload # sig # _ \<Rightarrow>
          if payload = [] \<or> sig = [] then Inl malformed
          else if sig \<noteq> mac secret payload then Inl bad
          else Inr payload
      | _ \<Rightarrow> Inl malformed)"

lemma unseal_seal:
  "mac_shape mac \<Longrightarrow> p \<noteq> [] \<Longrightarrow> CHR ''.'' \<notin> set p \<Longrightarrow> unseal mac k m b (seal mac k p) = Inr p"
  by (simp add: unseal_def seal_def mac_shape_def)

lemma unseal_sound:
  assumes "unseal mac k m b tok = Inr p"
  shows "p \<noteq> [] \<and> (\<exists>rest. split_dot tok = p # mac k p # rest)"
  using assms by (auto simp: unseal_def split: list.splits if_splits)

lemma unseal_forged:
  "sig \<noteq> mac k p \<Longrightarrow> CHR ''.'' \<notin> set p \<Longrightarrow> CHR ''.'' \<notin> set sig \<Longrightarrow> p \<noteq> [] \<Longrightarrow> sig \<noteq> [] \<Longrightarrow>
   unseal mac k m b (p @ CHR ''.'' # sig) = Inl b"
  by (simp add: unseal_def)

end
