(* ===== verification/Signer.thy ===== *)
theory Signer imports Otp Tokens begin

text \<open>
  \<open>chain/keys/signer-service.ts\<close>, \<open>chain/keys/key-store.pg.ts\<close> and
  \<open>chain/keys/signer-audit.pg.ts\<close>: keys bound to phone numbers, kept encrypted, and the
  service that signs a digest once a code was verified. The service is written over its three
  interfaces (\<open>signer_deps\<close>); the locale \<open>signer_stores\<close> states what it needs of them, and the
  Postgres stores and the in-memory stand-ins of one request are interpretations. Ciphers,
  hashes and signatures are fields of the environment.
\<close>

record key_env = chain_env +
  sha256_hex :: hash_fun
  sha256_bytes :: hash_fun
  master_raw :: "string option"
  production :: bool
  gcm_encrypt :: "string \<Rightarrow> string \<Rightarrow> string \<Rightarrow> string \<times> string"
  gcm_decrypt :: "string \<Rightarrow> string \<Rightarrow> string \<Rightarrow> string \<Rightarrow> string option"
  account_address :: "string \<Rightarrow> string"
  sign_message :: "string \<Rightarrow> string \<Rightarrow> string"

section \<open>Base64 and the key cipher\<close>

definition to_std :: "char \<Rightarrow> char" where
  "to_std c = (if c = CHR ''-'' then CHR ''+'' else if c = CHR ''_'' then CHR ''/'' else c)"

definition of_std :: "char \<Rightarrow> char" where
  "of_std c = (if c = CHR ''+'' then CHR ''-'' else if c = CHR ''/'' then CHR ''_'' else c)"

definition base64 :: "string \<Rightarrow> string" where
  "base64 s = map to_std (b64url s) @ replicate ((3 - length s mod 3) mod 3) (CHR ''='')"

definition of_base64 :: "string \<Rightarrow> string" where
  "of_base64 t = b64url_decode (map of_std (filter (\<lambda>c. c \<noteq> CHR ''='') t))"

lemma b64_char_std:
  assumes "n < 64"
  shows "b64_char n \<noteq> CHR ''+'' \<and> b64_char n \<noteq> CHR ''/'' \<and> b64_char n \<noteq> CHR ''=''"
proof -
  have "b64_char n \<noteq> c" if "(of_char c :: nat) \<in> {43, 47, 61}" for c
    using b64_code [OF assms] that by (auto split: if_splits)
  then show ?thesis by simp
qed

lemma b64url_std: "c \<in> set (b64url s) \<Longrightarrow> c \<noteq> CHR ''+'' \<and> c \<noteq> CHR ''/'' \<and> c \<noteq> CHR ''=''"
proof -
  assume c: "c \<in> set (b64url s)"
  have "\<forall>a \<in> set (map of_char s :: nat list). a < 256" by auto
  from b64_groups_range [OF this] c show ?thesis
    by (auto simp: b64url_def dest: b64_char_std)
qed

lemma base64_roundtrip [simp]: "of_base64 (base64 s) = s"
proof -
  have id: "to_std c \<noteq> CHR ''='' \<and> of_std (to_std c) = c" if "c \<in> set (b64url s)" for c
    using b64url_std [OF that] by (auto simp: to_std_def of_std_def)
  have "filter (\<lambda>c. c \<noteq> CHR ''='') (map to_std (b64url s)) = map to_std (b64url s)"
    using id by (auto simp: filter_id_conv)
  moreover have "map of_std (map to_std (b64url s)) = b64url s"
    using id by (simp add: map_idI)
  moreover have "filter (\<lambda>c. c \<noteq> CHR ''='') (replicate n (CHR ''='')) = []" for n
    by (induction n) auto
  ultimately show ?thesis by (simp add: of_base64_def base64_def)
qed

text \<open>\<open>masterKey()\<close>\<close>

definition masterKey :: "('e) key_env_scheme \<Rightarrow> exn + string" where
  "masterKey E =
     (case master_raw E of
        None \<Rightarrow> Inl (Error ''DTD_KEYS_MASTER_KEY is not set'')
      | Some mk \<Rightarrow>
          if mk = [] then Inl (Error ''DTD_KEYS_MASTER_KEY is not set'')
          else if production E \<and> starts_with ''test-'' mk
            then Inl (Error ''REFUSING_TEST_MASTER_KEY_IN_PRODUCTION'')
          else Inr (sha256_bytes E mk))"

text \<open>\<open>encrypt\<close> with the initialisation vector it draws, and \<open>decrypt\<close>.\<close>

definition encrypt ::
  "('e) key_env_scheme \<Rightarrow> string \<Rightarrow> string \<Rightarrow> exn + (string \<times> string \<times> string)"
where
  "encrypt E iv plain =
     (case masterKey E of
        Inl e \<Rightarrow> Inl e
      | Inr key \<Rightarrow>
          (case gcm_encrypt E key iv plain of
             (enc, tag) \<Rightarrow> Inr (base64 enc, base64 iv, base64 tag)))"

definition decrypt :: "('e) key_env_scheme \<Rightarrow> key_record \<Rightarrow> exn + string" where
  "decrypt E rec =
     (case masterKey E of
        Inl e \<Rightarrow> Inl e
      | Inr key \<Rightarrow>
          (case gcm_decrypt E key (of_base64 (k_iv rec)) (of_base64 (k_encKey rec))
                  (of_base64 (k_authTag rec)) of
             None \<Rightarrow> Inl (Error ''Unsupported state or unable to authenticate data'')
           | Some p \<Rightarrow> Inr p))"

section \<open>The service over its interfaces\<close>

record signer_event =
  se_phone :: string
  se_address :: string
  se_digest :: string
  se_action :: signer_action
  se_at :: int

record 's signer_deps =
  dep_get :: "string \<Rightarrow> ('s, key_record option) exec"
  dep_put :: "key_record \<Rightarrow> ('s, unit) exec"
  dep_markExported :: "string \<Rightarrow> ('s, unit) exec"
  dep_verify :: "string \<Rightarrow> string \<Rightarrow> ('s, bool) exec"
  dep_audit :: "signer_event \<Rightarrow> ('s, unit) exec"

text \<open>\<open>ensureKey\<close>; \<open>priv\<close> and \<open>iv\<close> are the random values of a call that mints.\<close>

definition ensureKey ::
  "('e) key_env_scheme \<Rightarrow> 's signer_deps \<Rightarrow> string \<Rightarrow> string \<Rightarrow> int \<Rightarrow> string \<Rightarrow> ('s, string) exec"
where
  "ensureKey E D priv iv now phone =
     bindE (dep_get D phone) (\<lambda>existing.
     case existing of
       Some rec \<Rightarrow> return (k_address rec)
     | None \<Rightarrow>
         bindE (lift_sum (encrypt E iv priv)) (\<lambda>(enc, iv', tag).
         bindE (dep_put D \<lparr>k_phone = phone, k_address = account_address E priv, k_encKey = enc,
                  k_iv = iv', k_authTag = tag, k_createdAt = now, k_exportedAt = None\<rparr>) (\<lambda>_.
         bindE (dep_audit D \<lparr>se_phone = phone, se_address = account_address E priv,
                  se_digest = ''0x'', se_action = KEY_CREATED, se_at = now\<rparr>) (\<lambda>_.
         return (account_address E priv)))))"

definition signDigest ::
  "('e) key_env_scheme \<Rightarrow> 's signer_deps \<Rightarrow> int \<Rightarrow> string \<Rightarrow> string \<Rightarrow> string \<Rightarrow> ('s, string) exec"
where
  "signDigest E D now phone otpToken digest =
     bindE (dep_verify D phone otpToken) (\<lambda>ok.
     bindE (throw_if (\<not> ok) (Error ''OTP_INVALID'')) (\<lambda>_.
     bindE (dep_get D phone) (\<lambda>rec.
     bindE (need rec (Error ''KEY_NOT_FOUND'')) (\<lambda>rec.
     bindE (lift_sum (decrypt E rec)) (\<lambda>priv.
     let sig = sign_message E priv digest in
     bindE (dep_audit D \<lparr>se_phone = phone, se_address = k_address rec, se_digest = digest,
              se_action = SIGNED, se_at = now\<rparr>) (\<lambda>_.
     return sig))))))"

definition exportKey ::
  "('e) key_env_scheme \<Rightarrow> 's signer_deps \<Rightarrow> int \<Rightarrow> string \<Rightarrow> string \<Rightarrow> ('s, string) exec"
where
  "exportKey E D now phone otpToken =
     bindE (dep_verify D phone otpToken) (\<lambda>ok.
     bindE (throw_if (\<not> ok) (Error ''OTP_INVALID'')) (\<lambda>_.
     bindE (dep_get D phone) (\<lambda>rec.
     bindE (need rec (Error ''KEY_NOT_FOUND'')) (\<lambda>rec.
     bindE (dep_markExported D phone) (\<lambda>_.
     bindE (dep_audit D \<lparr>se_phone = phone, se_address = k_address rec, se_digest = ''0x'',
              se_action = EXPORTED, se_at = now\<rparr>) (\<lambda>_.
     lift_sum (decrypt E rec)))))))"

section \<open>The Postgres stores\<close>

definition is_e164 :: "string \<Rightarrow> bool" where
  "is_e164 s \<longleftrightarrow> (case s of
     p # d # ds \<Rightarrow> p = CHR ''+'' \<and> in_range 49 57 d \<and> 7 \<le> length ds \<and> length ds \<le> 14 \<and>
       list_all (in_range 48 57) ds
   | _ \<Rightarrow> False)"

definition pg_get_key :: "db_ctx \<Rightarrow> string \<Rightarrow> (db, key_record option) exec" where
  "pg_get_key ctx phone = reads (\<lambda>d. find (\<lambda>r. k_phone r = phone \<and> ctx = System) (db_keys d))"

definition pg_put_key :: "db_ctx \<Rightarrow> int \<Rightarrow> key_record \<Rightarrow> (db, unit) exec" where
  "pg_put_key ctx now rec = (\<lambda>d.
     bindE (throw_if (ctx \<noteq> System) rls_violation) (\<lambda>_.
     bindE (throw_if (\<not> is_e164 (k_phone rec) \<or> \<not> is_address (k_address rec))
              (constraint ''participant_keys_check'')) (\<lambda>_.
     if list_ex (\<lambda>r. k_phone r = k_phone rec) (db_keys d) then return ()
     else
       bindE (throw_if (list_ex (\<lambda>r. k_address r = k_address rec) (db_keys d))
                (constraint ''participant_keys_address_key'')) (\<lambda>_.
       modifies (\<lambda>d. d\<lparr>db_keys := db_keys d @
         [rec\<lparr>k_createdAt := now, k_exportedAt := None\<rparr>]\<rparr>)))) d)"

definition pg_markExported :: "db_ctx \<Rightarrow> int \<Rightarrow> string \<Rightarrow> (db, unit) exec" where
  "pg_markExported ctx now phone = modifies (\<lambda>d. d\<lparr>db_keys :=
     update_where (\<lambda>r. k_phone r = phone \<and> ctx = System)
       (\<lambda>r. r\<lparr>k_exportedAt := Some now\<rparr>) (db_keys d)\<rparr>)"

text \<open>\<open>PgSignerAudit.record\<close>: an empty address and the digest \<open>0x\<close> are stored as null.\<close>

definition pg_audit :: "db_ctx \<Rightarrow> signer_event \<Rightarrow> (db, unit) exec" where
  "pg_audit ctx e =
     bindE (throw_if (ctx \<noteq> System) rls_violation) (\<lambda>_.
     modifies (\<lambda>d. d\<lparr>db_signer_audit := db_signer_audit d @
       [\<lparr>sg_phone = se_phone e, sg_address = (if se_address e = [] then None else Some (se_address e)),
         sg_digest = (if se_digest e = [] \<or> se_digest e = ''0x'' then None else Some (se_digest e)),
         sg_action = se_action e, sg_at = se_at e\<rparr>]\<rparr>))"

definition pg_deps :: "('e) key_env_scheme \<Rightarrow> db_ctx \<Rightarrow> int \<Rightarrow> db signer_deps" where
  "pg_deps E ctx now =
     \<lparr>dep_get = pg_get_key ctx, dep_put = pg_put_key ctx now,
      dep_markExported = pg_markExported ctx now,
      dep_verify = otp_verify (sha256_hex E) ctx now, dep_audit = pg_audit ctx\<rparr>"

section \<open>The stand-ins of one request\<close>

record preloaded =
  pk_record :: "key_record option"
  pk_pendingPut :: "key_record option"
  pk_pendingExport :: bool

record signer_mem =
  mem_keys :: preloaded
  mem_otp :: preverified
  mem_audit :: "signer_event list"

definition pre_get :: "string \<Rightarrow> (signer_mem, key_record option) exec" where
  "pre_get phone = reads (\<lambda>s.
     case pk_record (mem_keys s) of
       Some r \<Rightarrow> if k_phone r = phone then Some r else None
     | None \<Rightarrow> None)"

definition pre_put :: "key_record \<Rightarrow> (signer_mem, unit) exec" where
  "pre_put rec = modifies (\<lambda>s. s\<lparr>mem_keys := (mem_keys s)\<lparr>pk_record := Some rec, pk_pendingPut := Some rec\<rparr>\<rparr>)"

definition pre_markExported :: "string \<Rightarrow> (signer_mem, unit) exec" where
  "pre_markExported phone = modifies (\<lambda>s. s\<lparr>mem_keys := (mem_keys s)\<lparr>pk_pendingExport := True\<rparr>\<rparr>)"

definition mem_verify :: "string \<Rightarrow> string \<Rightarrow> (signer_mem, bool) exec" where
  "mem_verify phone tok = (\<lambda>s. case pre_verify phone tok (mem_otp s) of
     (r, o') \<Rightarrow> (r, s\<lparr>mem_otp := o'\<rparr>))"

definition buffer_audit :: "signer_event \<Rightarrow> (signer_mem, unit) exec" where
  "buffer_audit e = modifies (\<lambda>s. s\<lparr>mem_audit := mem_audit s @ [e]\<rparr>)"

definition mem_deps :: "signer_mem signer_deps" where
  "mem_deps = \<lparr>dep_get = pre_get, dep_put = pre_put, dep_markExported = pre_markExported,
     dep_verify = mem_verify, dep_audit = buffer_audit\<rparr>"

definition preload :: "key_record option \<Rightarrow> string \<Rightarrow> signer_mem" where
  "preload rec phone =
     \<lparr>mem_keys = \<lparr>pk_record = rec, pk_pendingPut = None, pk_pendingExport = False\<rparr>,
      mem_otp = \<lparr>pv_phone = phone, pv_used = False\<rparr>, mem_audit = []\<rparr>"

definition flush_audit :: "db_ctx \<Rightarrow> signer_mem \<Rightarrow> (db, signer_mem) exec" where
  "flush_audit ctx s =
     bindE (for_each (pg_audit ctx) (mem_audit s)) (\<lambda>_. return (s\<lparr>mem_audit := []\<rparr>))"

definition flush_keys :: "db_ctx \<Rightarrow> int \<Rightarrow> signer_mem \<Rightarrow> (db, signer_mem) exec" where
  "flush_keys ctx now s =
     bindE (case pk_pendingPut (mem_keys s) of
              None \<Rightarrow> return s
            | Some r \<Rightarrow> bindE (pg_put_key ctx now r) (\<lambda>_.
                return (s\<lparr>mem_keys := (mem_keys s)\<lparr>pk_pendingPut := None\<rparr>\<rparr>))) (\<lambda>s.
     case pk_record (mem_keys s) of
       Some r \<Rightarrow>
         if pk_pendingExport (mem_keys s) then
           bindE (pg_markExported ctx now (k_phone r)) (\<lambda>_.
             return (s\<lparr>mem_keys := (mem_keys s)\<lparr>pk_pendingExport := False\<rparr>\<rparr>))
         else return s
     | None \<Rightarrow> return s)"

definition hasPendingWrites :: "signer_mem \<Rightarrow> bool" where
  "hasPendingWrites s \<longleftrightarrow> pk_pendingPut (mem_keys s) \<noteq> None \<or> pk_pendingExport (mem_keys s)"

section \<open>What the service needs of its stores\<close>

locale signer_stores =
  fixes D :: "'s signer_deps"
    and keys :: "'s \<Rightarrow> string \<Rightarrow> key_record option"
  assumes get: "dep_get D p s = (Inr (keys s p), s)"
    and put: "keys s (k_phone r) = None \<Longrightarrow> dep_put D r s = (Inr (), s') \<Longrightarrow>
      \<exists>r'. keys s' (k_phone r) = Some r' \<and> k_address r' = k_address r \<and>
        k_encKey r' = k_encKey r \<and> k_iv r' = k_iv r \<and> k_authTag r' = k_authTag r"
    and audit: "dep_audit D e s = (x, s') \<Longrightarrow> keys s' = keys s"
    and verify: "dep_verify D p t s = (b, s') \<Longrightarrow> keys s' = keys s"
begin

lemma ensureKey_stored:
  assumes "ensureKey E D priv iv now p s = (Inr a, s')"
  shows "\<exists>r. keys s' p = Some r \<and> k_address r = a \<and>
    (keys s p = None \<longrightarrow> a = account_address E priv \<and>
       (\<exists>enc tag. gcm_encrypt E (projr (masterKey E)) iv priv = (enc, tag) \<and> isl (masterKey E) = False \<and>
          k_encKey r = base64 enc \<and> k_iv r = base64 iv \<and> k_authTag r = base64 tag)) \<and>
    (keys s p \<noteq> None \<longrightarrow> s' = s)"
proof (cases "keys s p")
  case (Some r)
  with assms show ?thesis by (simp add: ensureKey_def bindE_def get)
next
  case None
  with assms obtain enc iv' tag s1 where
    e: "encrypt E iv priv = Inr (enc, iv', tag)" and
    p: "dep_put D \<lparr>k_phone = p, k_address = account_address E priv, k_encKey = enc,
                  k_iv = iv', k_authTag = tag, k_createdAt = now, k_exportedAt = None\<rparr> s = (Inr (), s1)" and
    a: "dep_audit D \<lparr>se_phone = p, se_address = account_address E priv,
                  se_digest = ''0x'', se_action = KEY_CREATED, se_at = now\<rparr> s1 = (Inr (), s')" and
    ad: "a = account_address E priv"
    by (auto simp: ensureKey_def exec_iff get)
  from put [OF _ p] None obtain r' where r': "keys s1 p = Some r'" "k_address r' = account_address E priv"
    "k_encKey r' = enc" "k_iv r' = iv'" "k_authTag r' = tag" by auto
  from e obtain k en tg where "masterKey E = Inr k" "gcm_encrypt E k iv priv = (en, tg)"
    "enc = base64 en" "iv' = base64 iv" "tag = base64 tg"
    by (auto simp: encrypt_def split: sum.splits prod.splits)
  with r' audit [OF a] ad None show ?thesis by auto
qed

lemma ensureKey_idempotent:
  assumes "ensureKey E D priv iv now p s = (Inr a, s')"
  shows "ensureKey E D priv' iv' now' p s' = (Inr a, s')"
  using ensureKey_stored [OF assms] by (auto simp: ensureKey_def bindE_def get)

lemma signDigest_success:
  assumes "signDigest E D now p t h s = (Inr sig, s')"
  shows "\<exists>s1 r priv. dep_verify D p t s = (Inr True, s1) \<and> keys s p = Some r \<and>
    decrypt E r = Inr priv \<and> sig = sign_message E priv h \<and>
    dep_audit D \<lparr>se_phone = p, se_address = k_address r, se_digest = h, se_action = SIGNED,
      se_at = now\<rparr> s1 = (Inr (), s')"
proof -
  from assms obtain s1 r priv where v: "dep_verify D p t s = (Inr True, s1)"
    and "keys s1 p = Some r" "decrypt E r = Inr priv" "sig = sign_message E priv h"
      "dep_audit D \<lparr>se_phone = p, se_address = k_address r, se_digest = h, se_action = SIGNED,
        se_at = now\<rparr> s1 = (Inr (), s')"
    by (auto simp: signDigest_def exec_iff get Let_def)
  with verify [OF v] show ?thesis by auto
qed

lemma signDigest_refused:
  "dep_verify D p t s = (Inr False, s1) \<Longrightarrow>
   signDigest E D now p t h s = (Inl (Error ''OTP_INVALID''), s1)"
  by (simp add: signDigest_def bindE_def throw_if_def)

end

definition keys_in_db :: "db_ctx \<Rightarrow> db \<Rightarrow> string \<Rightarrow> key_record option" where
  "keys_in_db ctx d p = find (\<lambda>r. k_phone r = p \<and> ctx = System) (db_keys d)"

definition keys_in_mem :: "signer_mem \<Rightarrow> string \<Rightarrow> key_record option" where
  "keys_in_mem s p = (case pk_record (mem_keys s) of
     Some r \<Rightarrow> if k_phone r = p then Some r else None | None \<Rightarrow> None)"

lemma otp_verify_keys: "otp_verify h ctx now p t d = (x, d') \<Longrightarrow> db_keys d' = db_keys d"
  by (auto simp: otp_verify_run split: option.splits if_splits)

interpretation pgs: signer_stores "pg_deps E ctx now" "keys_in_db ctx" for E ctx now
proof (unfold_locales, goal_cases)
  case (1 p s)
  then show ?case by (simp add: pg_deps_def pg_get_key_def keys_in_db_def)
next
  case (2 s r s')
  then have n: "find (\<lambda>q. k_phone q = k_phone r \<and> ctx = System) (db_keys s) = None"
    and run: "pg_put_key ctx now r s = (Inr (), s')"
    by (simp_all add: pg_deps_def keys_in_db_def)
  from run have sys: "ctx = System" by (auto simp: pg_put_key_def exec_iff)
  with n have "\<not> list_ex (\<lambda>q. k_phone q = k_phone r) (db_keys s)"
    by (auto simp: find_None_iff' list_ex_iff)
  with run have "s' = s\<lparr>db_keys := db_keys s @ [r\<lparr>k_createdAt := now, k_exportedAt := None\<rparr>]\<rparr>"
    by (auto simp: pg_put_key_def exec_iff)
  with n sys show ?case by (simp add: keys_in_db_def find_append)
next
  case (3 e s x s')
  then have "db_keys s' = db_keys s"
    by (auto simp: pg_deps_def pg_audit_def bindE_def throw_if_def split: if_splits)
  then show ?case by (simp add: keys_in_db_def [abs_def])
next
  case (4 p t s x s')
  then have "db_keys s' = db_keys s" by (auto simp: pg_deps_def dest: otp_verify_keys)
  then show ?case by (simp add: keys_in_db_def [abs_def])
qed

interpretation mems: signer_stores mem_deps keys_in_mem
proof (unfold_locales, goal_cases)
  case (1 p s)
  then show ?case by (simp add: mem_deps_def pre_get_def keys_in_mem_def)
next
  case (2 s r s')
  then show ?case by (auto simp: mem_deps_def pre_put_def keys_in_mem_def)
next
  case (3 e s x s')
  then show ?case by (auto simp: mem_deps_def buffer_audit_def keys_in_mem_def [abs_def])
next
  case (4 p t s x s')
  then show ?case
    by (auto simp: mem_deps_def mem_verify_def keys_in_mem_def [abs_def] split: prod.splits)
qed

section \<open>Signatures verify against the stored address\<close>

text \<open>Documented behaviour of the cipher and of the signature scheme.\<close>

definition cipher_ok :: "('e) key_env_scheme \<Rightarrow> bool" where
  "cipher_ok E \<longleftrightarrow> (\<forall>k iv p c t. gcm_encrypt E k iv p = (c, t) \<longrightarrow> gcm_decrypt E k iv c t = Some p)"

definition signatures_recover :: "('e) key_env_scheme \<Rightarrow> bool" where
  "signatures_recover E \<longleftrightarrow>
     (\<forall>p h. recover E h (sign_message E p h) = Inr (to_lower (account_address E p)))"

definition key_ok :: "('e) key_env_scheme \<Rightarrow> key_record \<Rightarrow> bool" where
  "key_ok E r \<longleftrightarrow> (\<exists>p. decrypt E r = Inr p \<and> account_address E p = k_address r)"

lemma fresh_key_ok:
  assumes "cipher_ok E" and "ensureKey E (pg_deps E ctx now) priv iv now p d = (Inr a, d')"
    and "keys_in_db ctx d p = None"
  shows "\<exists>r. keys_in_db ctx d' p = Some r \<and> key_ok E r \<and> k_address r = a"
proof -
  from pgs.ensureKey_stored [OF assms(2)] assms(3) obtain r enc tag where
    r: "keys_in_db ctx d' p = Some r" "k_address r = a" "a = account_address E priv"
    "gcm_encrypt E (projr (masterKey E)) iv priv = (enc, tag)" "\<not> isl (masterKey E)"
    "k_encKey r = base64 enc" "k_iv r = base64 iv" "k_authTag r = base64 tag" by auto
  then obtain k where k: "masterKey E = Inr k" by (cases "masterKey E") auto
  with r assms(1) have "decrypt E r = Inr priv"
    by (simp add: decrypt_def cipher_ok_def)
  with r show ?thesis by (auto simp: key_ok_def)
qed

lemma signature_recovers:
  assumes "signatures_recover E" and "key_ok E r" and "decrypt E r = Inr priv"
  shows "recover E h (sign_message E priv h) = Inr (to_lower (k_address r))"
  using assms by (auto simp: signatures_recover_def key_ok_def)

lemma mem_signs_once:
  assumes "signDigest E mem_deps now p t h (preload rec phone) = (Inr sig, s')"
  shows "p = phone \<and> (\<exists>r priv. rec = Some r \<and> k_phone r = p \<and> decrypt E r = Inr priv \<and>
    sig = sign_message E priv h) \<and>
    mem_audit s' = [\<lparr>se_phone = p, se_address = k_address (the rec), se_digest = h,
      se_action = SIGNED, se_at = now\<rparr>] \<and>
    \<not> hasPendingWrites s' \<and>
    signDigest E mem_deps now' p' t' h' s' = (Inl (Error ''OTP_INVALID''), s')"
proof -
  from mems.signDigest_success [OF assms] obtain s1 r priv where
    v: "mem_verify p t (preload rec phone) = (Inr True, s1)" and
    r: "keys_in_mem (preload rec phone) p = Some r" "decrypt E r = Inr priv"
      "sig = sign_message E priv h" and
    a: "buffer_audit \<lparr>se_phone = p, se_address = k_address r, se_digest = h, se_action = SIGNED,
      se_at = now\<rparr> s1 = (Inr (), s')"
    by (auto simp: mem_deps_def)
  from v have s1: "p = phone" "s1 = (preload rec phone)\<lparr>mem_otp := \<lparr>pv_phone = phone, pv_used = True\<rparr>\<rparr>"
    by (auto simp: mem_verify_def pre_verify_def preload_def split: if_splits)
  with a have s': "s' = s1\<lparr>mem_audit := mem_audit s1 @ [\<lparr>se_phone = p, se_address = k_address r,
      se_digest = h, se_action = SIGNED, se_at = now\<rparr>]\<rparr>"
    by (auto simp: buffer_audit_def)
  have "dep_verify mem_deps p' t' s' = (Inr False, s')"
    by (simp add: mem_deps_def mem_verify_def pre_verify_def s' s1)
  from mems.signDigest_refused [OF this] r s1 show ?thesis
    by (auto simp: s' keys_in_mem_def preload_def hasPendingWrites_def split: option.splits if_splits)
qed

end
