(* ===== verification/Release_Gate.thy ===== *)
theory Release_Gate imports Handoff Reconcile Signer begin

text \<open>
  \<open>custody/reconcile/release-gate.ts\<close>: the receiver signs the count that was scanned, the
  decision whether money may move, and the payout request. The lemmas show that the decision
  is positive exactly when the scans match the manifest and the chain says delivered, and that
  the count put on the chain is the scanned one.
\<close>

text \<open>One request: the world, and the in-memory stand-ins its signer works on.\<close>

type_synonym request = "world \<times> signer_mem"

definition on_world :: "(world, 'a) exec \<Rightarrow> (request, 'a) exec" where
  "on_world m = (\<lambda>(w, s). case m w of (r, w') \<Rightarrow> (r, (w', s)))"

definition on_signer :: "(signer_mem, 'a) exec \<Rightarrow> (request, 'a) exec" where
  "on_signer m = (\<lambda>(w, s). case m s of (r, s') \<Rightarrow> (r, (w, s')))"

lemma on_world_success [exec_iff]:
  "on_world m q = (Inr x, q') \<longleftrightarrow> (\<exists>w. m (fst q) = (Inr x, w) \<and> q' = (w, snd q))"
  by (cases q) (auto simp: on_world_def split: prod.splits)

lemma on_signer_success [exec_iff]:
  "on_signer m q = (Inr x, q') \<longleftrightarrow> (\<exists>s. m (snd q) = (Inr x, s) \<and> q' = (fst q, s))"
  by (cases q) (auto simp: on_signer_def split: prod.splits)

section \<open>The decision\<close>

datatype release_reason =
  COMPLETE_SCAN_MATCH | SHORT_DELIVERY | OFF_MANIFEST_PIECES | NOT_YET_CONFIRMED | DISPUTED
| CHAIN_DISAGREES

fun reason_name :: "release_reason \<Rightarrow> string" where
  "reason_name COMPLETE_SCAN_MATCH = ''COMPLETE_SCAN_MATCH''"
| "reason_name SHORT_DELIVERY = ''SHORT_DELIVERY''"
| "reason_name OFF_MANIFEST_PIECES = ''OFF_MANIFEST_PIECES''"
| "reason_name NOT_YET_CONFIRMED = ''NOT_YET_CONFIRMED''"
| "reason_name DISPUTED = ''DISPUTED''"
| "reason_name CHAIN_DISAGREES = ''CHAIN_DISAGREES''"

record decision =
  de_manifestId :: string
  de_releasable :: bool
  de_reason :: release_reason
  de_reconcile :: reconcile_result
  de_chainStatus :: custody_status

definition reason_of :: "reconcile_result \<Rightarrow> custody_status \<Rightarrow> bool \<Rightarrow> release_reason" where
  "reason_of rec st chainSaysOk =
     (if st = Disputed then DISPUTED
      else if st = InCustody then NOT_YET_CONFIRMED
      else if 0 < rr_extra rec then OFF_MANIFEST_PIECES
      else if 0 < rr_missing rec then SHORT_DELIVERY
      else if \<not> chainSaysOk then CHAIN_DISAGREES
      else COMPLETE_SCAN_MATCH)"

definition critical_alert :: "string \<Rightarrow> string \<Rightarrow> string option \<Rightarrow> alert" where
  "critical_alert kind k narrative =
     \<lparr>a_kind = kind, a_manifestId = k, a_pieceId = None, a_narrative = narrative,
      a_severity = ''CRITICAL''\<rparr>"

definition gate_alert :: "scope \<Rightarrow> int \<Rightarrow> alert \<Rightarrow> (world, unit) exec" where
  "gate_alert S now a = on_db (raise_alert (sp_ctx S) (sp_alert_company S) now a)"

definition decide :: "string \<Rightarrow> reconcile_result \<Rightarrow> custody_status \<Rightarrow> bool \<Rightarrow> decision" where
  "decide k rec st chainSaysOk =
     \<lparr>de_manifestId = k,
      de_releasable = (chainSaysOk \<and> rr_complete rec \<and> st = Delivered),
      de_reason = reason_of rec st chainSaysOk, de_reconcile = rec, de_chainStatus = st\<rparr>"

definition evaluate ::
  "('e) chain_env_scheme \<Rightarrow> scope \<Rightarrow> int \<Rightarrow> string \<Rightarrow> (world, decision) exec"
where
  "evaluate E S now k =
     bindE (on_db (reconcile E (sp_ctx S) k)) (\<lambda>rec.
     bindE (sync S now k) (\<lambda>custody.
     bindE (on_chain (isReleasable k)) (\<lambda>chainSaysOk.
     let offChainSaysOk = (rr_complete rec \<and> cr_status custody = Delivered) in
     bindE (if offChainSaysOk \<noteq> chainSaysOk
            then gate_alert S now (critical_alert ''RELEASE_GATE_DIVERGENCE'' k None)
            else return ()) (\<lambda>_.
     return (decide k rec (cr_status custody) chainSaysOk)))))"

section \<open>Confirming a delivery\<close>

text \<open>\<open>confirmAndSign\<close>: every effect in the order of the code, then the decision.\<close>

definition confirmAndSign ::
  "('e) key_env_scheme \<Rightarrow> scope \<Rightarrow> int \<Rightarrow> string \<Rightarrow> string \<Rightarrow> string \<Rightarrow> string \<Rightarrow> (request, decision) exec"
where
  "confirmAndSign E S now txHash k receiverPhone otpToken =
     bindE (on_world (on_db (reconcile E (sp_ctx S) k))) (\<lambda>rec.
     bindE (on_world (on_chain (getDeliveryDigest E k (rr_scanned rec)))) (\<lambda>digest.
     bindE (on_signer (signDigest E mem_deps now receiverPhone otpToken digest)) (\<lambda>sig.
     bindE (on_world (on_chain
              (confirmDelivery E (nat (now div 1000)) txHash k (rr_scanned rec) sig))) (\<lambda>_.
     bindE (if rr_offManifestPieceIds rec \<noteq> []
            then on_world (gate_alert S now
                   (critical_alert ''OFF_MANIFEST_PIECES_AT_UNLOADING'' k None))
            else return ()) (\<lambda>_.
     bindE (if 0 < rr_missing rec
            then bindE (on_world (attributeLoss E S now k)) (\<lambda>attribution.
                 on_world (gate_alert S now
                   (critical_alert ''SHORT_DELIVERY'' k (Some (l_narrative attribution)))))
            else return ()) (\<lambda>_.
     on_world (evaluate E S now k)))))))"

section \<open>Requesting the payout\<close>

text \<open>
  The body that is signed and posted; \<open>post\<close> stands for the platform's answer to a body and
  its signature, an HTTP status.
\<close>

definition payout_body :: "manifest \<Rightarrow> string" where
  "payout_body m = stringify (JObj
     [(''manifestId'', JStr (m_manifestId m)), (''bookingId'', JStr (m_bookingId m)),
      (''transporterId'', JStr (m_transporterId m))])"

definition requestPayout ::
  "('e) chain_env_scheme \<Rightarrow> mac_fun \<Rightarrow> string \<Rightarrow> (string \<Rightarrow> string \<Rightarrow> nat) \<Rightarrow> scope \<Rightarrow> int \<Rightarrow>
   string \<Rightarrow> (world, bool \<times> string) exec"
where
  "requestPayout E hmac internalSecret post S now k =
     bindE (evaluate E S now k) (\<lambda>dec.
     if \<not> de_releasable dec then return (False, reason_name (de_reason dec))
     else
       bindE (on_db (get_manifest E (sp_ctx S) k)) (\<lambda>m.
       bindE (need m (Error ''MANIFEST_NOT_FOUND'')) (\<lambda>m.
       let body = payout_body m; status = post body (hmac internalSecret body) in
       if \<not> (200 \<le> status \<and> status < 300)
       then return (False, ''PLATFORM_REJECTED_'' @ show_nat status)
       else return (True, reason_name (de_reason dec)))))"

section \<open>When money may move\<close>

lemma gate_alert_dropped:
  "\<not> starts_with FORK_PREFIX (a_kind a) \<Longrightarrow> gate_alert S now a w = (Inr (), w)"
  by (simp add: gate_alert_def on_db_def raise_dropped)

lemma critical_not_fork:
  "\<not> starts_with FORK_PREFIX (a_kind (critical_alert ''RELEASE_GATE_DIVERGENCE'' k n))"
  "\<not> starts_with FORK_PREFIX (a_kind (critical_alert ''OFF_MANIFEST_PIECES_AT_UNLOADING'' k n))"
  "\<not> starts_with FORK_PREFIX (a_kind (critical_alert ''SHORT_DELIVERY'' k n))"
  by (simp_all add: critical_alert_def FORK_PREFIX_def starts_with_def)

lemma isReleasable_success:
  "isReleasable k c = (Inr b, c') \<longleftrightarrow>
     c' = c \<and> (\<exists>k'. abi_bytes32 k = Some k' \<and> b = ch_isReleasable k' c)"
  by (auto simp: isReleasable_def exec_iff)

lemma reconcile_key_bytes32: "reconcile E ctx k d = (Inr r, d') \<Longrightarrow> is_bytes32 k"
  by (auto simp: reconcile_success manifest_ok_def dest!: get_success)

lemma evaluate_success:
  assumes "evaluate E S now k w = (Inr dec, w')"
  shows "\<exists>rec custody. is_bytes32 k \<and> reconcile E (sp_ctx S) k (w_db w) = (Inr rec, w_db w) \<and>
    sync S now k w = (Inr custody, w') \<and>
    dec = decide k rec (cm_status (ch_manifests (w_chain w) k)) (ch_isReleasable k (w_chain w))"
proof -
  from assms obtain rec d custody w1 b c where
    r: "reconcile E (sp_ctx S) k (w_db w) = (Inr rec, d)" and
    s: "sync S now k (w\<lparr>w_db := d\<rparr>) = (Inr custody, w1)" and
    b: "isReleasable k (w_chain w1) = (Inr b, c)" and
    al: "(if (rr_complete rec \<and> cr_status custody = Delivered) \<noteq> b
          then gate_alert S now (critical_alert ''RELEASE_GATE_DIVERGENCE'' k None)
          else return ()) (w1\<lparr>w_chain := c\<rparr>) = (Inr (), w')" and
    dec: "dec = decide k rec (cr_status custody) b"
    by (auto simp: evaluate_def exec_iff Let_def)
  have d: "d = w_db w" using read_onlyD [OF reconcile_read_only r] .
  have k: "is_bytes32 k" using r by (rule reconcile_key_bytes32)
  have w1: "w_chain w1 = w_chain w" using sync_frame [OF s k] by simp
  from b k have "c = w_chain w1" "b = ch_isReleasable k (w_chain w)"
    by (auto simp: isReleasable_success lower_bytes32 w1)
  moreover from this al have "w' = w1"
    by (auto simp: gate_alert_dropped critical_not_fork split: if_splits)
  moreover have "cr_status custody = cm_status (ch_manifests (w_chain w) k)"
    using sync_success [OF s k] by (auto simp: record_of_def)
  ultimately show ?thesis using k r s d dec by auto
qed

lemma chain_releasable:
  "chain_inv E c \<Longrightarrow> ch_isReleasable k c \<longleftrightarrow> cm_status (ch_manifests c k) = Delivered"
  by (auto simp: chain_inv_def manifest_inv_def status_ok_def ch_isReleasable_def Let_def
      dest: spec [of _ k])

lemma decide_releasable:
  assumes "chain_inv E c"
    and "reconcile E ctx k d = (Inr rec, d)"
  shows "de_releasable (decide k rec (cm_status (ch_manifests c k)) (ch_isReleasable k c)) \<longleftrightarrow>
      de_reason (decide k rec (cm_status (ch_manifests c k)) (ch_isReleasable k c)) = COMPLETE_SCAN_MATCH"
proof -
  from reconcile_spec [OF assms(2)] have "rr_complete rec \<longleftrightarrow> rr_missing rec = 0 \<and> rr_extra rec = 0"
    by auto
  then show ?thesis
    using chain_releasable [OF assms(1), of k] by (auto simp: decide_def reason_of_def)
qed

lemma requestPayout_released:
  assumes "requestPayout E hmac sec post S now k w = (Inr (True, r), w')"
  shows "\<exists>dec w1. evaluate E S now k w = (Inr dec, w1) \<and> de_releasable dec"
  using assms by (auto simp: requestPayout_def exec_iff split: if_splits)

section \<open>The count on the chain is the scanned count\<close>

lemma send_success: "send tx f c = (Inr r, c') \<longleftrightarrow> f c = Inr c' \<and> r = tx"
  by (auto simp: send_def split: sum.splits)

lemma confirmDelivery_success:
  assumes "confirmDelivery E t0 tx k n sig c = (Inr r, c')" and "is_bytes32 k"
  shows "n < 2 ^ 32 \<and> cm_status (ch_manifests c k) = InCustody \<and> chain_step E c c' \<and>
    n \<le> unat (cm_pieceCount (ch_manifests c k)) \<and>
    recover E (deliveryDigest E k (of_nat n)) sig = Inr (cm_receiver (ch_manifests c k)) \<and>
    ch_manifests c' = (ch_manifests c)(k := (ch_manifests c k)
      \<lparr>cm_receiverSigned := True, cm_deliveredCount := of_nat n, cm_deliveredAt := of_nat t0,
       cm_status := (if n = unat (cm_pieceCount (ch_manifests c k)) then Delivered else Short)\<rparr>)"
proof -
  from assms have n: "n < 2 ^ 32"
    and run: "ch_confirmDelivery E (platform_msg E t0) k (of_nat n) sig c = Inr c'"
    by (auto simp: confirmDelivery_def exec_iff lower_bytes32 abi_uint32_def send_success
        split: if_splits)
  from run have step: "chain_step E c c'" by (rule chain_step.intros)
  have un: "unat (of_nat n :: 32 word) = n"
    using n by (simp add: unat_of_nat take_bit_nat_eq_self)
  have eq: "(of_nat n :: 32 word) = p \<longleftrightarrow> n = unat p" for p :: "32 word"
    using un by (metis of_nat_unat ucast_id)
  show ?thesis
    using run step n un
    by (auto simp: ch_confirmDelivery_def Let_def platform_msg_def eq not_less word_le_nat_alt
        split: if_splits sum.splits)
qed

lemma getDeliveryDigest_success:
  "getDeliveryDigest E k n c = (Inr h, c') \<Longrightarrow> is_bytes32 k \<Longrightarrow>
     c' = c \<and> h = deliveryDigest E k (of_nat n)"
  by (auto simp: getDeliveryDigest_def exec_iff lower_bytes32 abi_uint32_def split: if_splits)

lemma attributeLoss_chain:
  assumes "attributeLoss E S now k w = (r, w')" and "is_bytes32 k"
  shows "w_chain w' = w_chain w \<and> (\<exists>rows. w_db w' = (w_db w)\<lparr>db_states := rows\<rparr>)"
proof -
  obtain rs w1 where s: "sync S now k w = (rs, w1)" by force
  have "w' = w1"
  proof (cases rs)
    case (Inl e)
    with assms s show ?thesis by (simp add: attributeLoss_def bindE_def)
  next
    case (Inr rec)
    have "read_only (bindE (on_db (get_manifest E (sp_ctx S) k)) (\<lambda>m. return (loss_of E rec m)))"
      by blast
    with assms s Inr show ?thesis
      by (simp add: attributeLoss_def bindE_Inr_apply read_only_def) (metis snd_conv)
  qed
  with sync_frame [OF s assms(2)] show ?thesis by simp
qed

text \<open>
  What a successful confirmation did: the scanned count of the reconciliation went on the
  chain, signed by the receiver of the manifest, and decided between delivered and short.
\<close>

lemma confirmAndSign_success:
  assumes run: "confirmAndSign E S now tx k phone tok (w, s) = (Inr dec, (w', s'))"
  shows "\<exists>rec m r. reconcile E (sp_ctx S) k (w_db w) = (Inr rec, w_db w) \<and> is_bytes32 k \<and>
    keys_in_mem s phone = Some r \<and>
    m = ch_manifests (w_chain w) k \<and> cm_status m = InCustody \<and>
    rr_scanned rec \<le> unat (cm_pieceCount m) \<and>
    signed_by E (deliveryDigest E k (of_nat (rr_scanned rec))) (cm_receiver m) \<and>
    chain_step E (w_chain w) (w_chain w') \<and>
    ch_manifests (w_chain w') k = m\<lparr>cm_receiverSigned := True,
      cm_deliveredCount := of_nat (rr_scanned rec), cm_deliveredAt := of_nat (nat (now div 1000)),
      cm_status := (if rr_scanned rec = unat (cm_pieceCount m) then Delivered else Short)\<rparr> \<and>
    dec = decide k rec (cm_status (ch_manifests (w_chain w') k)) (ch_isReleasable k (w_chain w'))"
proof -
  from run obtain rec d h c1 sig s1 tx' c2 w1 w2 s2 where
    rec: "reconcile E (sp_ctx S) k (w_db w) = (Inr rec, d)" and
    h: "getDeliveryDigest E k (rr_scanned rec) (w_chain w) = (Inr h, c1)" and
    sg: "signDigest E mem_deps now phone tok h s = (Inr sig, s1)" and
    cf: "confirmDelivery E (nat (now div 1000)) tx k (rr_scanned rec) sig c1 = (Inr tx', c2)" and
    a1: "(if rr_offManifestPieceIds rec \<noteq> []
            then on_world (gate_alert S now (critical_alert ''OFF_MANIFEST_PIECES_AT_UNLOADING'' k None))
            else return ()) (w\<lparr>w_db := d, w_chain := c2\<rparr>, s1) = (Inr (), w1)" and
    a2: "(if 0 < rr_missing rec
            then bindE (on_world (attributeLoss E S now k)) (\<lambda>attribution.
                 on_world (gate_alert S now
                   (critical_alert ''SHORT_DELIVERY'' k (Some (l_narrative attribution)))))
            else return ()) w1 = (Inr (), (w2, s2))" and
    ev: "evaluate E S now k w2 = (Inr dec, w')"
    by (auto simp: confirmAndSign_def exec_iff)
  have d: "d = w_db w" using read_onlyD [OF reconcile_read_only rec] .
  have k: "is_bytes32 k" using rec by (rule reconcile_key_bytes32)
  from getDeliveryDigest_success [OF h k] have h': "c1 = w_chain w"
    "h = deliveryDigest E k (of_nat (rr_scanned rec))" by simp_all
  note cc = confirmDelivery_success [OF cf [unfolded h'(1)] k]
  have w1: "fst w1 = w\<lparr>w_chain := c2\<rparr>"
    using a1 by (auto simp: d on_world_def gate_alert_dropped critical_not_fork split: if_splits)
  have w2: "w_chain w2 = c2 \<and> (\<exists>rows. w_db w2 = (w_db w)\<lparr>db_states := rows\<rparr>)"
  proof (cases "0 < rr_missing rec")
    case True
    with a2 obtain l w3 where al: "attributeLoss E S now k (fst w1) = (Inr l, w3)"
      and "gate_alert S now (critical_alert ''SHORT_DELIVERY'' k (Some (l_narrative l))) w3 = (Inr (), w2)"
      by (auto simp: exec_iff)
    then have "w2 = w3" by (simp add: gate_alert_dropped critical_not_fork)
    with attributeLoss_chain [OF al k] w1 show ?thesis by simp
  next
    case False
    with a2 w1 show ?thesis by (auto intro: exI [of _ "db_states (w_db w)"])
  qed
  from evaluate_success [OF ev] obtain rec' cu where
    e: "reconcile E (sp_ctx S) k (w_db w2) = (Inr rec', w_db w2)" "sync S now k w2 = (Inr cu, w')"
    "dec = decide k rec' (cm_status (ch_manifests (w_chain w2) k)) (ch_isReleasable k (w_chain w2))"
    by blast
  have same: "fst (reconcile E (sp_ctx S) k (dd\<lparr>db_states := rows\<rparr>)) = fst (reconcile E (sp_ctx S) k dd)"
    for dd rows
    by (simp add: reconcile_def bindE_def get_manifest_def select_manifest_def row_manifest_def
        piecesFor_def byManifest_def visible_scans_def need_def split: option.split sum.split)
  have "rec' = rec" using e(1) rec w2 same by (metis Pair_inject fst_conv sum.inject(2))
  moreover have "w_chain w' = c2" using sync_frame [OF e(2) k] w2 by simp
  moreover from mems.signDigest_success [OF sg] obtain r where "keys_in_mem s phone = Some r" by blast
  moreover have "signed_by E (deliveryDigest E k (of_nat (rr_scanned rec))) (cm_receiver (ch_manifests (w_chain w) k))"
    using cc by (auto simp: signed_by_def)
  ultimately show ?thesis
    using rec d k cc e(3) w2 by auto
qed

end
