(* ===== verification/Custody_Service.thy ===== *)
theory Custody_Service imports Release_Gate Scan_Log begin

text \<open>
  \<open>platform/api/custody/custody.service.ts\<close> with the patterns of \<open>custody.dto.ts\<close>: each
  operation opens its transaction, builds the domain objects on that client and writes the
  audit log, which is outside the transaction. \<open>confirmDelivery\<close> runs three transactions:
  code and key in the system context, the delivery in the tenant's, the flush of the signer's
  buffers in the system context again. The lemmas show what each leaves behind, on success
  and on failure.
\<close>

section \<open>Requests\<close>

record scan_dto =
  sd_pieceId :: string
  sd_manifestId :: "string option"
  sd_locationHint :: "string option"
  sd_clientNonce :: "string option"

definition scan_dto_ok :: "scan_dto \<Rightarrow> bool" where
  "scan_dto_ok s \<longleftrightarrow> isWellFormedPieceId (sd_pieceId s) \<and>
     (case sd_manifestId s of None \<Rightarrow> True | Some k \<Rightarrow> is_bytes32 k)"

record create_dto =
  cd_bookingId :: string
  cd_tripId :: string
  cd_pieces :: "piece_input list option"
  cd_pieceCount :: "nat option"
  cd_loader :: string
  cd_driver :: string
  cd_receiver :: string

definition create_dto_ok :: "('e) env_scheme \<Rightarrow> create_dto \<Rightarrow> bool" where
  "create_dto_ok E c \<longleftrightarrow> zod_uuid E (cd_bookingId c) \<and> is_bytes32 (cd_tripId c) \<and>
     (case cd_pieces c of None \<Rightarrow> True
      | Some ps \<Rightarrow> list_all (\<lambda>p. case pi_pieceId p of None \<Rightarrow> True | Some i \<Rightarrow> isWellFormedPieceId i) ps) \<and>
     (case cd_pieceCount c of None \<Rightarrow> True | Some n \<Rightarrow> 1 \<le> n) \<and>
     is_address (cd_loader c) \<and> is_address (cd_driver c) \<and> is_address (cd_receiver c)"

definition audit :: "string \<Rightarrow> string \<Rightarrow> string \<Rightarrow> string \<Rightarrow> string \<Rightarrow> (world, unit) exec" where
  "audit companyId userId action entity entityId = audit_record
     \<lparr>au_companyId = companyId, au_userId = Some userId, au_action = action, au_entity = entity,
      au_entityId = entityId\<rparr>"

text \<open>The scope \<open>this.handoff(c, companyId)\<close> works in.\<close>

definition tenant_scope :: "db_ctx \<Rightarrow> string \<Rightarrow> scope" where
  "tenant_scope ctx companyId =
     \<lparr>sp_ctx = ctx, sp_company = companyId, sp_alert_company = Some companyId\<rparr>"

section \<open>Manifests\<close>

definition build_input_of :: "string \<Rightarrow> create_dto \<Rightarrow> build_input" where
  "build_input_of companyId dto =
     \<lparr>b_bookingId = cd_bookingId dto, b_transporterId = companyId, b_tripId = cd_tripId dto,
      b_pieces = cd_pieces dto, b_pieceCount = cd_pieceCount dto, b_loader = cd_loader dto,
      b_driver = cd_driver dto, b_receiver = cd_receiver dto\<rparr>"

text \<open>The \<open>catch\<close>: an existing manifest becomes a bad request, the rest is thrown on.\<close>

definition EXISTS_PREFIX :: string where
  "EXISTS_PREFIX = ''MANIFEST_EXISTS_FOR_BOOKING''"

fun create_exn :: "exn \<Rightarrow> exn" where
  "create_exn (Error m) = (if starts_with EXISTS_PREFIX m then BadRequest m else Error m)"
| "create_exn e = e"

definition map_exn :: "(exn \<Rightarrow> exn) \<Rightarrow> ('s, 'a) exec \<Rightarrow> ('s, 'a) exec" where
  "map_exn f m = (\<lambda>s. case m s of (Inl e, s') \<Rightarrow> (Inl (f e), s') | (Inr x, s') \<Rightarrow> (Inr x, s'))"

lemma map_exn_success [exec_iff]: "map_exn f m s = (Inr x, s') \<longleftrightarrow> m s = (Inr x, s')"
  by (auto simp: map_exn_def split: prod.splits sum.splits)

lemma map_exn_failure:
  "map_exn f m s = (Inl e, s') \<longleftrightarrow> (\<exists>e'. m s = (Inl e', s') \<and> e = f e')"
  by (auto simp: map_exn_def split: prod.splits sum.splits)

definition createManifest ::
  "('e) chain_env_scheme \<Rightarrow> string \<Rightarrow> string \<Rightarrow> int \<Rightarrow> string \<Rightarrow> nat list list \<Rightarrow> create_dto \<Rightarrow>
   (world, manifest \<times> string) exec"
where
  "createManifest E companyId userId now txHash blocks dto =
     withTenant companyId (\<lambda>c. map_exn create_exn (
       bindE (build E c companyId now txHash blocks (build_input_of companyId dto)) (\<lambda>(m, tx).
       bindE (audit companyId userId ''MANIFEST_CREATED'' ''manifest'' (m_manifestId m)) (\<lambda>_.
       return (m, tx)))))"

definition getManifest ::
  "('e) chain_env_scheme \<Rightarrow> string \<Rightarrow> string \<Rightarrow> (world, manifest) exec"
where
  "getManifest E companyId k = withTenant companyId (\<lambda>c.
     bindE (on_db (get_manifest E c k)) (\<lambda>m. need m (NotFound ''Not Found'')))"

definition getCustodyStatus :: "string \<Rightarrow> int \<Rightarrow> string \<Rightarrow> (world, custody_record) exec" where
  "getCustodyStatus companyId now k = withTenant companyId (\<lambda>c. sync (tenant_scope c companyId) now k)"

definition getAttribution ::
  "('e) chain_env_scheme \<Rightarrow> string \<Rightarrow> int \<Rightarrow> string \<Rightarrow> (world, loss) exec"
where
  "getAttribution E companyId now k =
     withTenant companyId (\<lambda>c. attributeLoss E (tenant_scope c companyId) now k)"

definition reconcileManifest ::
  "('e) chain_env_scheme \<Rightarrow> string \<Rightarrow> string \<Rightarrow> (world, reconcile_result \<times> string) exec"
where
  "reconcileManifest E companyId k = withTenant companyId (\<lambda>c.
     bindE (on_db (get_manifest E c k)) (\<lambda>m.
     bindE (need m (NotFound ''Not Found'')) (\<lambda>_.
     bindE (on_db (reconcile E c k)) (\<lambda>r. return (r, summarize r)))))"

definition evaluateRelease ::
  "('e) chain_env_scheme \<Rightarrow> string \<Rightarrow> int \<Rightarrow> string \<Rightarrow> (world, decision) exec"
where
  "evaluateRelease E companyId now k = withTenant companyId (\<lambda>c.
     bindE (on_db (get_manifest E c k)) (\<lambda>m.
     bindE (need m (NotFound ''Not Found'')) (\<lambda>_.
     evaluate E (tenant_scope c companyId) now k)))"

section \<open>Confirming a delivery\<close>

record otp_response =
  or_expiresAt :: int
  or_signingAddress :: string
  or_matchesManifest :: bool

definition requestDeliveryOtp ::
  "('e) key_env_scheme \<Rightarrow> string \<Rightarrow> int \<Rightarrow> string \<Rightarrow> string \<Rightarrow> nat \<Rightarrow> string \<Rightarrow> string \<Rightarrow>
   (world, otp_response) exec"
where
  "requestDeliveryOtp E companyId now priv iv rnd k receiverPhone =
     bindE (withTenant companyId (\<lambda>c. on_db (get_manifest E c k))) (\<lambda>m.
     bindE (need m (NotFound ''Not Found'')) (\<lambda>m.
     asSystem (\<lambda>c.
       bindE (on_db (ensureKey E (pg_deps E c now) priv iv now receiverPhone)) (\<lambda>address.
       bindE (on_db (otp_issue (sha256_hex E) (production E) c now rnd receiverPhone)) (\<lambda>expiresAt.
       return \<lparr>or_expiresAt = expiresAt, or_signingAddress = address,
         or_matchesManifest = (to_lower address = to_lower (m_receiver m))\<rparr>)))))"

text \<open>Phase 1: verify the code and load the key, in one system transaction.\<close>

definition verify_and_load ::
  "('e) key_env_scheme \<Rightarrow> int \<Rightarrow> string \<Rightarrow> string \<Rightarrow> (world, key_record) exec"
where
  "verify_and_load E now receiverPhone otpToken =
     asSystem (\<lambda>c.
       bindE (on_db (otp_verify (sha256_hex E) c now receiverPhone otpToken)) (\<lambda>ok.
       bindE (throw_if (\<not> ok) (Unauthorized ''OTP_INVALID'')) (\<lambda>_.
       bindE (on_db (pg_get_key c receiverPhone)) (\<lambda>rec.
       need rec (BadRequest ''RECEIVER_HAS_NO_SIGNING_KEY'')))))"

text \<open>
  The transaction of a tenant over the request's state: the tables are put back on an error,
  the buffers of the signer are not.
\<close>

definition requestTenant :: "string \<Rightarrow> (db_ctx \<Rightarrow> (request, 'a) exec) \<Rightarrow> (request, 'a) exec" where
  "requestTenant companyId fn = (\<lambda>(w, s).
     case fn (Tenant companyId) (w, s) of
       (Inl e, (w', s')) \<Rightarrow> (Inl e, (w'\<lparr>w_db := w_db w\<rparr>, s'))
     | (Inr x, q) \<Rightarrow> (Inr x, q))"

definition deliver ::
  "('e) key_env_scheme \<Rightarrow> string \<Rightarrow> int \<Rightarrow> string \<Rightarrow> string \<Rightarrow> string \<Rightarrow> string \<Rightarrow> string \<Rightarrow>
   (request, decision) exec"
where
  "deliver E companyId now txHash k receiverPhone otpToken signingAddress =
     requestTenant companyId (\<lambda>c.
       bindE (on_world (on_db (get_manifest E c k))) (\<lambda>m.
       bindE (need m (NotFound ''Not Found'')) (\<lambda>m.
       bindE (throw_if (to_lower (m_receiver m) \<noteq> to_lower signingAddress)
                (BadRequest ''SIGNER_IS_NOT_THE_MANIFEST_RECEIVER'')) (\<lambda>_.
       confirmAndSign E (tenant_scope c companyId) now txHash k receiverPhone otpToken))))"

text \<open>The \<open>finally\<close> block.\<close>

definition flush_signer :: "int \<Rightarrow> signer_mem \<Rightarrow> (world, unit) exec" where
  "flush_signer now s =
     (if mem_audit s \<noteq> [] \<or> hasPendingWrites s
      then asSystem (\<lambda>c. on_db (
        bindE (flush_audit c s) (\<lambda>s. bindE (flush_keys c now s) (\<lambda>_. return ()))))
      else return ())"

definition with_flush :: "int \<Rightarrow> (request, 'a) exec \<Rightarrow> signer_mem \<Rightarrow> (world, 'a) exec" where
  "with_flush now m s = (\<lambda>w.
     case m (w, s) of
       (r, (w1, s1)) \<Rightarrow>
         (case flush_signer now s1 w1 of
            (Inl e, w2) \<Rightarrow> (Inl e, w2)
          | (Inr _, w2) \<Rightarrow> (r, w2)))"

lemma with_flush_success [exec_iff]:
  "with_flush now m s w = (Inr x, w') \<longleftrightarrow>
     (\<exists>w1 s1. m (w, s) = (Inr x, (w1, s1)) \<and> flush_signer now s1 w1 = (Inr (), w'))"
  by (auto simp: with_flush_def split: prod.splits sum.splits)

definition confirmDeliveryService ::
  "('e) key_env_scheme \<Rightarrow> string \<Rightarrow> string \<Rightarrow> int \<Rightarrow> string \<Rightarrow> string \<Rightarrow> string \<Rightarrow> string \<Rightarrow>
   (world, decision) exec"
where
  "confirmDeliveryService E companyId userId now txHash k receiverPhone otpToken =
     bindE (verify_and_load E now receiverPhone otpToken) (\<lambda>rec.
     bindE (with_flush now
              (deliver E companyId now txHash k receiverPhone otpToken (k_address rec))
              (preload (Some rec) receiverPhone)) (\<lambda>dec.
     bindE (audit companyId userId ''DELIVERY_CONFIRMED'' ''manifest'' k) (\<lambda>_.
     return dec)))"

section \<open>Scans\<close>

definition scan_input_of :: "string \<Rightarrow> scan_context \<Rightarrow> scan_dto \<Rightarrow> scan_input" where
  "scan_input_of userId context dto =
     \<lparr>in_pieceId = sd_pieceId dto, in_manifestId = sd_manifestId dto, in_context = context,
      in_scannerId = Some userId, in_locationHint = sd_locationHint dto,
      in_clientNonce = sd_clientNonce dto, in_scannedAt = None\<rparr>"

definition recordScan ::
  "('e) chain_env_scheme \<Rightarrow> string \<Rightarrow> string \<Rightarrow> scan_context \<Rightarrow> scan_dto \<Rightarrow> string \<Rightarrow> int \<Rightarrow>
   (world, scan_event \<times> scan_event list \<times> bool) exec"
where
  "recordScan E companyId userId context dto uuid now =
     withTenant companyId (\<lambda>c.
       bindE (on_db (record_scan E c (Some companyId) (scan_input_of userId context dto) uuid now)) (\<lambda>r.
       bindE (audit companyId userId ''SCAN_RECORDED'' ''piece'' (sd_pieceId dto)) (\<lambda>_.
       return r)))"

definition batch_entity :: "(scan_dto \<times> string \<times> int) list \<Rightarrow> string" where
  "batch_entity scans =
     (case scans of
        [] \<Rightarrow> UNKNOWN
      | (s, _) # _ \<Rightarrow> (case sd_manifestId s of None \<Rightarrow> UNKNOWN | Some k \<Rightarrow> k))"

definition recordScanBatch ::
  "('e) chain_env_scheme \<Rightarrow> string \<Rightarrow> string \<Rightarrow> scan_context \<Rightarrow> (scan_dto \<times> string \<times> int) list \<Rightarrow>
   (world, nat \<times> nat \<times> nat) exec"
where
  "recordScanBatch E companyId userId context scans =
     withTenant companyId (\<lambda>c.
       bindE (on_db (recordBatch E c (Some companyId)
                (map (\<lambda>(s, uuid, now). (scan_input_of userId context s, uuid, now)) scans) 0 0))
         (\<lambda>(accepted, duplicates).
       bindE (audit companyId userId ''SCAN_BATCH_RECORDED'' ''manifest'' (batch_entity scans)) (\<lambda>_.
       return (accepted, duplicates, length scans))))"

definition getPieceHistory :: "string \<Rightarrow> string \<Rightarrow> (world, scan_event list) exec" where
  "getPieceHistory companyId pieceId = withTenant companyId (\<lambda>c. on_db (reads (byPiece c pieceId)))"

section \<open>What the operations leave behind\<close>

lemma audit_run: "audit c u a e i w = (Inr (), w\<lparr>w_audit := w_audit w @
   [\<lparr>au_companyId = c, au_userId = Some u, au_action = a, au_entity = e, au_entityId = i\<rparr>]\<rparr>)"
  by (simp add: audit_def audit_record_def)

text \<open>
  A wrong code is rolled back with the transaction it was checked in: the tables, and with
  them the number of attempts, are those from before the request.
\<close>

lemma wrong_code_leaves_tables:
  assumes "otp_verify (sha256_hex E) System now phone tok (w_db w) = (Inr False, d)"
  shows "\<exists>w'. confirmDeliveryService E c u now tx k phone tok w = (Inl (Unauthorized ''OTP_INVALID''), w') \<and>
    w_db w' = w_db w \<and> w_chain w' = w_chain w"
  by (simp add: confirmDeliveryService_def verify_and_load_def bindE_def asSystem_def
      rollback_on_error_def on_db_def assms throw_if_def)

lemma createManifest_failure:
  assumes "createManifest E c u now tx blocks dto w = (Inl e, w')"
  shows "w_db w' = w_db w"
  using assms by (auto simp: createManifest_def dest: withTenant_failure_db)

lemma createManifest_success:
  assumes "createManifest E c u now tx blocks dto w = (Inr (m, tx'), w')"
  shows "manifest_ok E m \<and> m_manifestId m = computeManifestId E m \<and> tx' = tx \<and>
    m_bookingId m = cd_bookingId dto \<and> m_pieceCount m < 2 ^ 32 \<and>
    cm_status (ch_manifests (w_chain w) (m_manifestId m)) = SNone \<and>
    chain_step E (w_chain w) (w_chain w') \<and>
    ch_manifests (w_chain w') = (ch_manifests (w_chain w))
      (m_manifestId m := created_manifest m (nat (now div 1000))) \<and>
    w_db w' = stored c m tx (w_db w) \<and>
    (manifest_tables_ok (w_db w) \<longrightarrow> manifest_tables_ok (w_db w')) \<and>
    w_audit w' = w_audit w @ [\<lparr>au_companyId = c, au_userId = Some u, au_action = ''MANIFEST_CREATED'',
      au_entity = ''manifest'', au_entityId = m_manifestId m\<rparr>]"
proof -
  from assms obtain w1 where b: "build E (Tenant c) c now tx blocks (build_input_of c dto) w = (Inr (m, tx'), w1)"
    and a: "audit c u ''MANIFEST_CREATED'' ''manifest'' (m_manifestId m) w1 = (Inr (), w')"
    by (auto simp: createManifest_def exec_iff)
  from a have w': "w' = w1\<lparr>w_audit := w_audit w1 @ [\<lparr>au_companyId = c, au_userId = Some u,
      au_action = ''MANIFEST_CREATED'', au_entity = ''manifest'', au_entityId = m_manifestId m\<rparr>]\<rparr>"
    by (auto simp: audit_run)
  from build_success [OF b] show ?thesis unfolding w' by (auto simp: build_input_of_def)
qed

text \<open>What the tenant reads back of a manifest just created, and where its pieces lead.\<close>

lemma createManifest_reads_back:
  assumes run: "createManifest E c u now tx blocks dto w = (Inr (m, tx'), w')"
    and ok: "manifest_tables_ok (w_db w)"
  shows "getManifest E c (m_manifestId m) w' = (Inr (erase m), w') \<and>
    (\<forall>p \<in> set (piece_ids m). findManifestByPiece (Tenant c) p (w_db w') = Some (m_manifestId m))"
proof -
  from run obtain w1 where b: "build E (Tenant c) c now tx blocks (build_input_of c dto) w = (Inr (m, tx'), w1)"
    by (auto simp: createManifest_def exec_iff)
  note f = build_success [OF b]
  have db: "w_db w' = stored c m tx' (w_db w)" using createManifest_success [OF run] by simp
  have "get_manifest E (Tenant c) (m_manifestId m) (stored c m tx' (w_db w)) =
      (Inr (Some (erase m)), stored c m tx' (w_db w))"
    using f ok by (intro get_after_store) (auto simp: build_input_of_def)
  then have "getManifest E c (m_manifestId m) w' = (Inr (erase m), w')"
    by (simp add: getManifest_def withTenant_def rollback_on_error_def on_db_def bindE_def db [symmetric])
  moreover have "findManifestByPiece (Tenant c) p (w_db w') = Some (m_manifestId m)"
    if "p \<in> set (piece_ids m)" for p
    unfolding db using f that by (intro find_piece_after_store) simp_all
  ultimately show ?thesis by simp
qed

lemma recordScanBatch_success:
  assumes "recordScanBatch E c u x scans w = (Inr (acc, dup, n), w')"
  shows "acc + dup = n \<and> n = length scans \<and>
    length (db_scans (w_db w')) = length (db_scans (w_db w)) + acc \<and>
    log_grows (w_db w) (w_db w') \<and> w_chain w' = w_chain w"
proof -
  let ?items = "map (\<lambda>(s, uuid, now). (scan_input_of u x s, uuid, now)) scans"
  from assms obtain d where
    r: "recordBatch E (Tenant c) (Some c) ?items 0 0 (w_db w) = (Inr (acc, dup), d)" and
    w': "w' = (w\<lparr>w_db := d\<rparr>)\<lparr>w_audit := w_audit w @ [\<lparr>au_companyId = c, au_userId = Some u,
      au_action = ''SCAN_BATCH_RECORDED'', au_entity = ''manifest'', au_entityId = batch_entity scans\<rparr>]\<rparr>"
    and n: "n = length scans"
    by (auto simp: recordScanBatch_def exec_iff audit_run)
  from recordBatch_counts [OF r] recordBatch_grows [OF r] w' n show ?thesis by simp
qed

lemma requestTenant_success [exec_iff]:
  "requestTenant c fn q = (Inr x, q') \<longleftrightarrow> fn (Tenant c) q = (Inr x, q')"
  by (cases q) (auto simp: requestTenant_def split: prod.splits sum.splits)

lemma requestTenant_failure_db:
  "requestTenant c fn (w, s) = (Inl e, (w', s')) \<Longrightarrow> w_db w' = w_db w"
  by (auto simp: requestTenant_def split: prod.splits sum.splits)

lemma flush_chain:
  assumes "flush_signer now s w = (r, w')"
  shows "w_chain w' = w_chain w \<and> w_audit w' = w_audit w"
proof -
  have "w_chain w1 = w_chain w0 \<and> w_audit w1 = w_audit w0"
    if "asSystem (\<lambda>c. on_db (m c)) w0 = (q, w1)" for m :: "db_ctx \<Rightarrow> (db, unit) exec" and w0 q w1
    using that by (auto simp: asSystem_def rollback_on_error_def on_db_def split: prod.splits sum.splits)
  with assms show ?thesis by (auto simp: flush_signer_def split: if_splits)
qed

text \<open>
  A confirmed delivery: a live code was consumed, the phone's key is the receiver's, the
  scanned count is on the chain under the receiver's signature, and the decision is the one
  the reconciliation and the chain give.
\<close>

lemma confirmDelivery_service_success:
  assumes run: "confirmDeliveryService E c u now tx k phone tok w = (Inr dec, w')"
    and ok: "otps_ok (w_db w)"
  shows "\<exists>rec recon m d0. is_bytes32 k \<and>
    keys_in_db System (w_db w) phone = Some rec \<and>
    otp_verify (sha256_hex E) System now phone tok (w_db w) = (Inr True, d0) \<and>
    \<not> list_ex (live phone) (db_otps d0) \<and>
    get_manifest E (Tenant c) k d0 = (Inr (Some m), d0) \<and>
    to_lower (m_receiver m) = to_lower (k_address rec) \<and>
    reconcile E (Tenant c) k d0 = (Inr recon, d0) \<and>
    (let cm = ch_manifests (w_chain w) k in
       cm_status cm = InCustody \<and> rr_scanned recon \<le> unat (cm_pieceCount cm) \<and>
       signed_by E (deliveryDigest E k (of_nat (rr_scanned recon))) (cm_receiver cm) \<and>
       chain_step E (w_chain w) (w_chain w') \<and>
       cm_deliveredCount (ch_manifests (w_chain w') k) = of_nat (rr_scanned recon) \<and>
       cm_status (ch_manifests (w_chain w') k) =
         (if rr_scanned recon = unat (cm_pieceCount cm) then Delivered else Short) \<and>
       dec = decide k recon (cm_status (ch_manifests (w_chain w') k)) (ch_isReleasable k (w_chain w')))"
proof -
  from run obtain rec w0 w1 s1 w2 where
    v: "verify_and_load E now phone tok w = (Inr rec, w0)" and
    dl: "deliver E c now tx k phone tok (k_address rec) (w0, preload (Some rec) phone) = (Inr dec, (w1, s1))" and
    fl: "flush_signer now s1 w1 = (Inr (), w2)" and
    w': "w_chain w' = w_chain w2"
    by (auto simp: confirmDeliveryService_def exec_iff audit_run)
  from v obtain d0 where
    ov: "otp_verify (sha256_hex E) System now phone tok (w_db w) = (Inr True, d0)" and
    kk: "keys_in_db System d0 phone = Some rec" and w0: "w0 = w\<lparr>w_db := d0\<rparr>"
    by (auto simp: verify_and_load_def exec_iff pg_get_key_def keys_in_db_def)
  have keys: "keys_in_db System (w_db w) phone = Some rec"
    using kk otp_verify_keys [OF ov] by (simp add: keys_in_db_def)
  from dl obtain m d1 where
    g: "get_manifest E (Tenant c) k d0 = (Inr (Some m), d1)" and
    addr: "to_lower (m_receiver m) = to_lower (k_address rec)" and
    cs: "confirmAndSign E (tenant_scope (Tenant c) c) now tx k phone tok
      (w0\<lparr>w_db := d1\<rparr>, preload (Some rec) phone) = (Inr dec, (w1, s1))"
    by (auto simp: deliver_def exec_iff w0)
  have d1: "d1 = d0" using read_onlyD [OF get_read_only(1) g] .
  have sc: "sp_ctx (tenant_scope (Tenant c) c) = Tenant c" by (simp add: tenant_scope_def)
  from confirmAndSign_success [OF cs] obtain recon r where
    rc: "reconcile E (Tenant c) k d0 = (Inr recon, d0)" "is_bytes32 k" and
    ch: "cm_status (ch_manifests (w_chain w) k) = InCustody"
      "rr_scanned recon \<le> unat (cm_pieceCount (ch_manifests (w_chain w) k))"
      "signed_by E (deliveryDigest E k (of_nat (rr_scanned recon))) (cm_receiver (ch_manifests (w_chain w) k))"
      "chain_step E (w_chain w) (w_chain w1)" and
    m1: "ch_manifests (w_chain w1) k = (ch_manifests (w_chain w) k)\<lparr>cm_receiverSigned := True,
      cm_deliveredCount := of_nat (rr_scanned recon), cm_deliveredAt := of_nat (nat (now div 1000)),
      cm_status := (if rr_scanned recon = unat (cm_pieceCount (ch_manifests (w_chain w) k)) then Delivered else Short)\<rparr>" and
    dec: "dec = decide k recon (cm_status (ch_manifests (w_chain w1) k)) (ch_isReleasable k (w_chain w1))"
    by (auto simp: sc d1 w0)
  have same: "w_chain w' = w_chain w1" using flush_chain [OF fl] w' by simp
  have dead: "\<not> list_ex (live phone) (db_otps d0)" using otp_verify_true [OF ok ov] by simp
  have g': "get_manifest E (Tenant c) k d0 = (Inr (Some m), d0)" using g d1 by simp
  show ?thesis
    using rc keys ov dead g' addr ch m1 dec unfolding same Let_def
    by (intro exI [of _ rec] exI [of _ recon] exI [of _ m] exI [of _ d0]) simp
qed

end
