(* ===== verification/Plan_Modules.thy ===== *)
theory Plan_Modules imports Prelude begin

text \<open>
  The commercial contract, \<open>shared/modules.schema.ts\<close>: the sellable modules, the plans
  with their module lists and prices, the prerequisite relation, and the check for missing
  prerequisites. The lemmas say that plans are cumulative and coherent, that the check is
  exact, and that the prerequisite relation is well founded (it has a rank).
\<close>

section \<open>Modules and plans\<close>

datatype platform_module =
    CORE | FLEET | TRIPS | GPS_TRACKING | TRIP_HISTORY | REPORTS | ANALYTICS | DOCUMENTS
  | PAYMENTS | SUPPORT
  | QR_GOODS | GOODS_VERIFICATION | CUSTODY_TRACKING | THEFT_DETECTION | GPS_ANCHORING
  | REPUTATION | CLAIMS_EVIDENCE | FINANCING_RAILS

datatype plan = STARTER | STANDARD | PROFESSIONAL | ENTERPRISE

definition STARTER_MODULES :: "platform_module list" where
  "STARTER_MODULES = [CORE, FLEET, TRIPS, GPS_TRACKING, SUPPORT]"

definition STANDARD_MODULES :: "platform_module list" where
  "STANDARD_MODULES =
     STARTER_MODULES @ [TRIP_HISTORY, REPORTS, ANALYTICS, DOCUMENTS, PAYMENTS]"

definition PROFESSIONAL_MODULES :: "platform_module list" where
  "PROFESSIONAL_MODULES =
     STANDARD_MODULES @ [QR_GOODS, GOODS_VERIFICATION, CUSTODY_TRACKING]"

definition ENTERPRISE_MODULES :: "platform_module list" where
  "ENTERPRISE_MODULES =
     PROFESSIONAL_MODULES @
     [THEFT_DETECTION, GPS_ANCHORING, REPUTATION, CLAIMS_EVIDENCE, FINANCING_RAILS]"

text \<open>\<open>PLAN_MODULES\<close>; the lookup \<open>?? []\<close> never takes its default, every plan has an entry.\<close>

fun modulesForPlan :: "plan \<Rightarrow> platform_module list" where
  "modulesForPlan STARTER = STARTER_MODULES"
| "modulesForPlan STANDARD = STANDARD_MODULES"
| "modulesForPlan PROFESSIONAL = PROFESSIONAL_MODULES"
| "modulesForPlan ENTERPRISE = ENTERPRISE_MODULES"

fun PLAN_PRICE_PAISE :: "plan \<Rightarrow> int" where
  "PLAN_PRICE_PAISE STARTER = 149900"
| "PLAN_PRICE_PAISE STANDARD = 399900"
| "PLAN_PRICE_PAISE PROFESSIONAL = 899900"
| "PLAN_PRICE_PAISE ENTERPRISE = 1999900"

lemmas plan_module_defs =
  STARTER_MODULES_def STANDARD_MODULES_def PROFESSIONAL_MODULES_def ENTERPRISE_MODULES_def

text \<open>The enum values, as tokens and messages carry them, and their reading.\<close>

fun module_text :: "platform_module \<Rightarrow> string" where
  "module_text CORE = ''CORE''"
| "module_text FLEET = ''FLEET''"
| "module_text TRIPS = ''TRIPS''"
| "module_text GPS_TRACKING = ''GPS_TRACKING''"
| "module_text TRIP_HISTORY = ''TRIP_HISTORY''"
| "module_text REPORTS = ''REPORTS''"
| "module_text ANALYTICS = ''ANALYTICS''"
| "module_text DOCUMENTS = ''DOCUMENTS''"
| "module_text PAYMENTS = ''PAYMENTS''"
| "module_text SUPPORT = ''SUPPORT''"
| "module_text QR_GOODS = ''QR_GOODS''"
| "module_text GOODS_VERIFICATION = ''GOODS_VERIFICATION''"
| "module_text CUSTODY_TRACKING = ''CUSTODY_TRACKING''"
| "module_text THEFT_DETECTION = ''THEFT_DETECTION''"
| "module_text GPS_ANCHORING = ''GPS_ANCHORING''"
| "module_text REPUTATION = ''REPUTATION''"
| "module_text CLAIMS_EVIDENCE = ''CLAIMS_EVIDENCE''"
| "module_text FINANCING_RAILS = ''FINANCING_RAILS''"

definition all_modules :: "platform_module list" where
  "all_modules = ENTERPRISE_MODULES"

definition module_of_text :: "string \<Rightarrow> platform_module option" where
  "module_of_text t = find (\<lambda>m. module_text m = t) all_modules"

lemma all_modules_complete: "m \<in> set all_modules"
  by (cases m) (simp_all add: all_modules_def plan_module_defs)

lemma module_of_text_text [simp]: "module_of_text (module_text m) = Some m"
  by (cases m) (simp_all add: module_of_text_def all_modules_def plan_module_defs)

fun plan_text :: "plan \<Rightarrow> string" where
  "plan_text STARTER = ''STARTER''"
| "plan_text STANDARD = ''STANDARD''"
| "plan_text PROFESSIONAL = ''PROFESSIONAL''"
| "plan_text ENTERPRISE = ''ENTERPRISE''"

section \<open>Prerequisites\<close>

text \<open>\<open>MODULE_REQUIRES[m] ?? []\<close>\<close>

fun MODULE_REQUIRES :: "platform_module \<Rightarrow> platform_module list" where
  "MODULE_REQUIRES GOODS_VERIFICATION = [QR_GOODS]"
| "MODULE_REQUIRES CUSTODY_TRACKING = [QR_GOODS]"
| "MODULE_REQUIRES THEFT_DETECTION = [QR_GOODS, CUSTODY_TRACKING]"
| "MODULE_REQUIRES GPS_ANCHORING = [GPS_TRACKING]"
| "MODULE_REQUIRES CLAIMS_EVIDENCE = [CUSTODY_TRACKING, DOCUMENTS]"
| "MODULE_REQUIRES FINANCING_RAILS = [DOCUMENTS, CUSTODY_TRACKING]"
| "MODULE_REQUIRES REPUTATION = [CUSTODY_TRACKING]"
| "MODULE_REQUIRES ANALYTICS = [TRIP_HISTORY]"
| "MODULE_REQUIRES _ = []"

text \<open>
  \<open>missingPrerequisites\<close>: the loop over \<open>enabled\<close> pushes one problem per module that lacks
  a prerequisite, with the prerequisites it lacks.
\<close>

fun problems_of ::
  "platform_module set \<Rightarrow> platform_module list \<Rightarrow> (platform_module \<times> platform_module list) list"
where
  "problems_of have_set [] = []"
| "problems_of have_set (m # ms) =
     (let missing = filter (\<lambda>n. n \<notin> have_set) (MODULE_REQUIRES m)
      in if missing \<noteq> [] then (m, missing) # problems_of have_set ms
         else problems_of have_set ms)"

definition missingPrerequisites ::
  "platform_module list \<Rightarrow> (platform_module \<times> platform_module list) list" where
  "missingPrerequisites enabled = problems_of (set enabled) enabled"

text \<open>The reading of the check: a module set is coherent when it is closed under requirements.\<close>

definition coherent :: "platform_module set \<Rightarrow> bool" where
  "coherent M \<longleftrightarrow> (\<forall>m \<in> M. set (MODULE_REQUIRES m) \<subseteq> M)"

lemma set_problems_of:
  "set (problems_of S ms) =
     {(m, filter (\<lambda>n. n \<notin> S) (MODULE_REQUIRES m)) | m.
        m \<in> set ms \<and> \<not> set (MODULE_REQUIRES m) \<subseteq> S}"
proof (induction ms)
  case (Cons m ms)
  have "filter (\<lambda>n. n \<notin> S) (MODULE_REQUIRES m) = [] \<longleftrightarrow> set (MODULE_REQUIRES m) \<subseteq> S"
    by (auto simp: filter_empty_conv)
  with Cons show ?case by (auto simp: Let_def)
qed simp

lemma missingPrerequisites_iff:
  "(m, ns) \<in> set (missingPrerequisites ms) \<longleftrightarrow>
     m \<in> set ms \<and> ns = filter (\<lambda>n. n \<notin> set ms) (MODULE_REQUIRES m) \<and> ns \<noteq> []"
  by (auto simp: missingPrerequisites_def set_problems_of filter_empty_conv)

lemma missingPrerequisites_Nil: "missingPrerequisites ms = [] \<longleftrightarrow> coherent (set ms)"
proof -
  have "missingPrerequisites ms = [] \<longleftrightarrow> set (missingPrerequisites ms) = {}" by simp
  also have "\<dots> \<longleftrightarrow> coherent (set ms)"
    by (auto simp: missingPrerequisites_def set_problems_of coherent_def)
  finally show ?thesis .
qed

lemma fst_missingPrerequisites:
  "m \<in> fst ` set (missingPrerequisites ms) \<longleftrightarrow>
     m \<in> set ms \<and> \<not> set (MODULE_REQUIRES m) \<subseteq> set ms"
  by (force simp: missingPrerequisites_def set_problems_of)

lemma coherent_insert:
  "coherent M \<Longrightarrow> set (MODULE_REQUIRES m) \<subseteq> insert m M \<Longrightarrow> coherent (insert m M)"
  by (auto simp: coherent_def)

text \<open>Every chain of requirements is at most two steps long: the relation has a rank.\<close>

fun module_rank :: "platform_module \<Rightarrow> nat" where
  "module_rank THEFT_DETECTION = 2"
| "module_rank CLAIMS_EVIDENCE = 2"
| "module_rank FINANCING_RAILS = 2"
| "module_rank REPUTATION = 2"
| "module_rank GOODS_VERIFICATION = 1"
| "module_rank CUSTODY_TRACKING = 1"
| "module_rank GPS_ANCHORING = 1"
| "module_rank ANALYTICS = 1"
| "module_rank _ = 0"

lemma requires_rank: "n \<in> set (MODULE_REQUIRES m) \<Longrightarrow> module_rank n < module_rank m"
  by (cases m) auto

lemma plans_coherent: "coherent (set (modulesForPlan p))"
  by (cases p) (auto simp: coherent_def plan_module_defs)

lemma plans_distinct: "distinct (modulesForPlan p)"
  by (cases p) (simp_all add: plan_module_defs)

section \<open>The order of plans\<close>

text \<open>\<open>rank\<close> of \<open>identity/subscriptions/plans.ts\<close>: the position in \<open>ORDER\<close>.\<close>

fun rank :: "plan \<Rightarrow> int" where
  "rank STARTER = 0"
| "rank STANDARD = 1"
| "rank PROFESSIONAL = 2"
| "rank ENTERPRISE = 3"

lemma rank_inject: "rank p = rank q \<longleftrightarrow> p = q"
  by (cases p; cases q) auto

instantiation plan :: linorder
begin

definition less_eq_plan :: "plan \<Rightarrow> plan \<Rightarrow> bool" where
  "less_eq_plan p q \<longleftrightarrow> rank p \<le> rank q"

definition less_plan :: "plan \<Rightarrow> plan \<Rightarrow> bool" where
  "less_plan p q \<longleftrightarrow> rank p < rank q"

instance
proof
  fix x y z :: plan
  show "x < y \<longleftrightarrow> x \<le> y \<and> \<not> y \<le> x"
    by (auto simp: less_plan_def less_eq_plan_def)
  show "x \<le> x"
    by (simp add: less_eq_plan_def)
  show "x \<le> y \<Longrightarrow> y \<le> z \<Longrightarrow> x \<le> z"
    by (simp add: less_eq_plan_def)
  show "x \<le> y \<Longrightarrow> y \<le> x \<Longrightarrow> x = y"
    by (simp add: less_eq_plan_def rank_inject [symmetric])
  show "x \<le> y \<or> y \<le> x"
    by (auto simp: less_eq_plan_def)
qed

end

lemma price_strict_mono: "p < q \<Longrightarrow> PLAN_PRICE_PAISE p < PLAN_PRICE_PAISE q"
  by (cases p; cases q) (auto simp: less_plan_def)

lemma price_mono_iff: "PLAN_PRICE_PAISE p < PLAN_PRICE_PAISE q \<longleftrightarrow> p < q"
  by (cases p; cases q) (auto simp: less_plan_def)

lemma modules_mono: "p \<le> q \<Longrightarrow> set (modulesForPlan p) \<subseteq> set (modulesForPlan q)"
  by (cases p; cases q) (auto simp: less_eq_plan_def plan_module_defs)

end
