(* ===== verification/Role_Matrix.thy ===== *)
theory Role_Matrix imports Plan_Modules begin

text \<open>
  The authorization contract, \<open>shared/roles.schema.ts\<close>, and the service that answers
  questions about it, \<open>identity/rbac/permissions.ts\<close>: the roles, the permissions, the
  matrix, and the checks on an actor with the error each of them throws.
\<close>

section \<open>Roles and permissions\<close>

datatype role = SUPER_ADMIN | COMPANY_ADMIN | DISPATCHER | DRIVER | RECEIVER

datatype permission =
    COMPANY_CREATE | COMPANY_MANAGE_ALL | SUBSCRIPTION_MANAGE | MODULE_TOGGLE
  | PLATFORM_ANALYTICS_VIEW
  | STAFF_INVITE | STAFF_REMOVE | FLEET_WRITE | FLEET_READ | COMPANY_SETTINGS | BILLING_VIEW
  | TRIP_CREATE | TRIP_ASSIGN | TRIP_CANCEL | TRIP_READ_ALL | TRIP_READ_OWN | TRACKING_VIEW
  | REPORTS_VIEW | REPORTS_EXPORT
  | TRIP_ACCEPT | CUSTODY_SIGN | DELIVERY_MARK
  | SCAN_SUBMIT | DELIVERY_CONFIRM | POD_SIGN | SHORTAGE_REPORT
  | DOCUMENT_GENERATE | DOCUMENT_READ | PAYMENT_COLLECT | PAYMENT_READ
  | MANIFEST_CREATE | FORK_ALERTS_VIEW | CLAIMS_PACKET_BUILD | REPUTATION_VIEW

text \<open>\<open>ROLE_PERMISSIONS\<close>; \<open>permissionsFor\<close> is the lookup in it.\<close>

fun permissionsFor :: "role \<Rightarrow> permission list" where
  "permissionsFor SUPER_ADMIN =
     [COMPANY_CREATE, COMPANY_MANAGE_ALL, SUBSCRIPTION_MANAGE, MODULE_TOGGLE,
      PLATFORM_ANALYTICS_VIEW, BILLING_VIEW]"
| "permissionsFor COMPANY_ADMIN =
     [STAFF_INVITE, STAFF_REMOVE, FLEET_WRITE, FLEET_READ, COMPANY_SETTINGS, BILLING_VIEW,
      TRIP_CREATE, TRIP_ASSIGN, TRIP_CANCEL, TRIP_READ_ALL, TRACKING_VIEW, REPORTS_VIEW,
      REPORTS_EXPORT, DOCUMENT_GENERATE, DOCUMENT_READ, PAYMENT_COLLECT, PAYMENT_READ,
      MANIFEST_CREATE, FORK_ALERTS_VIEW, CLAIMS_PACKET_BUILD, REPUTATION_VIEW]"
| "permissionsFor DISPATCHER =
     [FLEET_READ, TRIP_CREATE, TRIP_ASSIGN, TRIP_CANCEL, TRIP_READ_ALL, TRACKING_VIEW,
      REPORTS_VIEW, DOCUMENT_GENERATE, DOCUMENT_READ, MANIFEST_CREATE]"
| "permissionsFor DRIVER =
     [TRIP_ACCEPT, TRIP_READ_OWN, CUSTODY_SIGN, DELIVERY_MARK, DOCUMENT_READ]"
| "permissionsFor RECEIVER =
     [SCAN_SUBMIT, DELIVERY_CONFIRM, POD_SIGN, SHORTAGE_REPORT]"

definition roleHas :: "role \<Rightarrow> permission \<Rightarrow> bool" where
  "roleHas r p \<longleftrightarrow> p \<in> set (permissionsFor r)"

definition CROSS_TENANT_ROLES :: "role list" where
  "CROSS_TENANT_ROLES = [SUPER_ADMIN]"

text \<open>The enum values, as error messages print them.\<close>

fun role_text :: "role \<Rightarrow> string" where
  "role_text SUPER_ADMIN = ''SUPER_ADMIN''"
| "role_text COMPANY_ADMIN = ''COMPANY_ADMIN''"
| "role_text DISPATCHER = ''DISPATCHER''"
| "role_text DRIVER = ''DRIVER''"
| "role_text RECEIVER = ''RECEIVER''"

fun permission_text :: "permission \<Rightarrow> string" where
  "permission_text COMPANY_CREATE = ''company:create''"
| "permission_text COMPANY_MANAGE_ALL = ''company:manage_all''"
| "permission_text SUBSCRIPTION_MANAGE = ''subscription:manage''"
| "permission_text MODULE_TOGGLE = ''module:toggle''"
| "permission_text PLATFORM_ANALYTICS_VIEW = ''platform:analytics''"
| "permission_text STAFF_INVITE = ''staff:invite''"
| "permission_text STAFF_REMOVE = ''staff:remove''"
| "permission_text FLEET_WRITE = ''fleet:write''"
| "permission_text FLEET_READ = ''fleet:read''"
| "permission_text COMPANY_SETTINGS = ''company:settings''"
| "permission_text BILLING_VIEW = ''billing:view''"
| "permission_text TRIP_CREATE = ''trip:create''"
| "permission_text TRIP_ASSIGN = ''trip:assign''"
| "permission_text TRIP_CANCEL = ''trip:cancel''"
| "permission_text TRIP_READ_ALL = ''trip:read_all''"
| "permission_text TRIP_READ_OWN = ''trip:read_own''"
| "permission_text TRACKING_VIEW = ''tracking:view''"
| "permission_text REPORTS_VIEW = ''reports:view''"
| "permission_text REPORTS_EXPORT = ''reports:export''"
| "permission_text TRIP_ACCEPT = ''trip:accept''"
| "permission_text CUSTODY_SIGN = ''custody:sign''"
| "permission_text DELIVERY_MARK = ''delivery:mark''"
| "permission_text SCAN_SUBMIT = ''scan:submit''"
| "permission_text DELIVERY_CONFIRM = ''delivery:confirm''"
| "permission_text POD_SIGN = ''pod:sign''"
| "permission_text SHORTAGE_REPORT = ''shortage:report''"
| "permission_text DOCUMENT_GENERATE = ''document:generate''"
| "permission_text DOCUMENT_READ = ''document:read''"
| "permission_text PAYMENT_COLLECT = ''payment:collect''"
| "permission_text PAYMENT_READ = ''payment:read''"
| "permission_text MANIFEST_CREATE = ''manifest:create''"
| "permission_text FORK_ALERTS_VIEW = ''fork:alerts''"
| "permission_text CLAIMS_PACKET_BUILD = ''claims:build''"
| "permission_text REPUTATION_VIEW = ''reputation:view''"

text \<open>Duty separation read off the matrix.\<close>

lemma super_admin_no_operations:
  "roleHas SUPER_ADMIN p \<Longrightarrow> roleHas r p \<Longrightarrow> r = SUPER_ADMIN \<or> p = BILLING_VIEW"
  by (cases r) (auto simp: roleHas_def)

lemma dispatcher_below_admin: "roleHas DISPATCHER p \<Longrightarrow> roleHas COMPANY_ADMIN p"
  by (auto simp: roleHas_def)

lemma receiver_driver_disjoint: "roleHas RECEIVER p \<Longrightarrow> \<not> roleHas DRIVER p"
  by (auto simp: roleHas_def)

definition role_of_text :: "string \<Rightarrow> role option" where
  "role_of_text t =
     find (\<lambda>r. role_text r = t) [SUPER_ADMIN, COMPANY_ADMIN, DISPATCHER, DRIVER, RECEIVER]"

lemma role_of_text_text [simp]: "role_of_text (role_text r) = Some r"
  by (cases r) (simp_all add: role_of_text_def)

lemma role_text_inject: "role_text r = role_text r' \<longleftrightarrow> r = r'"
  by (cases r; cases r') auto

section \<open>The permission service\<close>

record actor =
  actor_userId :: string
  actor_companyId :: "string option"
  actor_role :: role
  actor_modules :: "platform_module list"

datatype auth_error = ForbiddenError string | PaymentRequiredError platform_module

definition can :: "actor \<Rightarrow> permission \<Rightarrow> bool" where
  "can a p = roleHas (actor_role a) p"

definition assert_permission :: "actor \<Rightarrow> permission \<Rightarrow> auth_error + unit" where
  "assert_permission a p =
     (if \<not> can a p
      then Inl (ForbiddenError (role_text (actor_role a) @ '' lacks '' @ permission_text p))
      else Inr ())"

definition hasModule :: "actor \<Rightarrow> platform_module \<Rightarrow> bool" where
  "hasModule a m \<longleftrightarrow> m \<in> set (actor_modules a)"

definition assertModule :: "actor \<Rightarrow> platform_module \<Rightarrow> auth_error + unit" where
  "assertModule a m = (if \<not> hasModule a m then Inl (PaymentRequiredError m) else Inr ())"

definition assertSameCompany :: "actor \<Rightarrow> string \<Rightarrow> auth_error + unit" where
  "assertSameCompany a cid =
     (if actor_role a \<in> set CROSS_TENANT_ROLES then Inr ()
      else if actor_companyId a \<noteq> Some cid then Inl (ForbiddenError ''cross-company access'')
      else Inr ())"

text \<open>Sequencing of checks: the first one that throws decides.\<close>

definition and_then :: "auth_error + unit \<Rightarrow> auth_error + unit \<Rightarrow> auth_error + unit" where
  "and_then x y = (case x of Inl e \<Rightarrow> Inl e | Inr _ \<Rightarrow> y)"

definition when_given :: "'a option \<Rightarrow> ('a \<Rightarrow> auth_error + unit) \<Rightarrow> auth_error + unit" where
  "when_given x f = (case x of None \<Rightarrow> Inr () | Some v \<Rightarrow> f v)"

definition assertAll ::
  "actor \<Rightarrow> permission option \<Rightarrow> platform_module option \<Rightarrow> string option \<Rightarrow> auth_error + unit"
where
  "assertAll a perm modl companyId =
     and_then (when_given modl (assertModule a))
       (and_then (when_given perm (assert_permission a))
         (if truthy companyId then when_given companyId (assertSameCompany a) else Inr ()))"

datatype trip_scope = ScopeAll | ScopeOwn string

definition tripScope :: "actor \<Rightarrow> auth_error + trip_scope" where
  "tripScope a =
     (if can a TRIP_READ_ALL then Inr ScopeAll
      else if can a TRIP_READ_OWN then Inr (ScopeOwn (actor_userId a))
      else Inl (ForbiddenError ''no trip read permission''))"

lemmas check_defs =
  assert_permission_def assertModule_def assertSameCompany_def and_then_def when_given_def

lemma and_then_ok [exec_iff]: "and_then x y = Inr u \<longleftrightarrow> x = Inr () \<and> y = Inr ()"
  by (cases x) (auto simp: and_then_def)

lemma when_given_ok [exec_iff]: "when_given x f = Inr u \<longleftrightarrow> (\<forall>v. x = Some v \<longrightarrow> f v = Inr ())"
  by (cases x) (auto simp: when_given_def)

lemma assert_permission_ok [exec_iff]: "assert_permission a p = Inr u \<longleftrightarrow> can a p"
  by (simp add: assert_permission_def)

lemma assertModule_ok [exec_iff]: "assertModule a m = Inr u \<longleftrightarrow> hasModule a m"
  by (simp add: assertModule_def)

lemma assertSameCompany_ok [exec_iff]:
  "assertSameCompany a c = Inr u \<longleftrightarrow> actor_role a = SUPER_ADMIN \<or> actor_companyId a = Some c"
  by (simp add: assertSameCompany_def CROSS_TENANT_ROLES_def)

lemma tripScope_driver:
  "actor_role a = DRIVER \<Longrightarrow> tripScope a = Inr (ScopeOwn (actor_userId a))"
  by (simp add: tripScope_def can_def roleHas_def)

lemma tripScope_all: "tripScope a = Inr ScopeAll \<longleftrightarrow> roleHas (actor_role a) TRIP_READ_ALL"
  by (simp add: tripScope_def can_def)

end
