(* ===== verification/Access_Tokens.thy ===== *)
theory Access_Tokens imports Role_Matrix Tokens begin

text \<open>
  \<open>identity/auth/jwt.ts\<close>: the claims of an access token, issuing and checking it.
  The keyed hash is the parameter \<open>mac\<close>; times are milliseconds of the clock, read once per
  call. Payloads under a valid signature are those \<open>signAccessToken\<close> wrote; one that is not
  JSON, or not of that shape, is reported as \<open>SyntaxError\<close>.
\<close>

record claims =
  cl_sub :: string
  cl_companyId :: "string option"
  cl_role :: role
  cl_modules :: "platform_module list"
  cl_tokenVersion :: int
  cl_iat :: int
  cl_exp :: int

datatype jwt_error = TokenError string | SyntaxError

definition ACCESS_TTL_S :: int where "ACCESS_TTL_S = 15 * 60"
definition REFRESH_TTL_S :: int where "REFRESH_TTL_S = 30 * 24 * 3600"

section \<open>Claims as JSON\<close>

definition json_opt :: "string option \<Rightarrow> json" where
  "json_opt x = (case x of None \<Rightarrow> JNull | Some s \<Rightarrow> JStr s)"

definition claims_json :: "claims \<Rightarrow> json" where
  "claims_json c = JObj
     [(''sub'', JStr (cl_sub c)),
      (''companyId'', json_opt (cl_companyId c)),
      (''role'', JStr (role_text (cl_role c))),
      (''modules'', JArr (map (JStr \<circ> module_text) (cl_modules c))),
      (''tokenVersion'', JNum (show_int (cl_tokenVersion c))),
      (''iat'', JNum (show_int (cl_iat c))),
      (''exp'', JNum (show_int (cl_exp c)))]"

fun field :: "string \<Rightarrow> json \<Rightarrow> json option" where
  "field k (JObj ms) = map_of (rev ms) k"
| "field k _ = None"

fun as_text :: "json \<Rightarrow> string option" where
  "as_text (JStr s) = Some s" | "as_text _ = None"

fun as_int :: "json \<Rightarrow> int option" where
  "as_int (JNum n) = Some (read_int n)" | "as_int _ = None"

fun as_nullable :: "json \<Rightarrow> string option option" where
  "as_nullable JNull = Some None" | "as_nullable (JStr s) = Some (Some s)" | "as_nullable _ = None"

fun as_modules :: "json \<Rightarrow> platform_module list option" where
  "as_modules (JArr js) = those (map (\<lambda>j. Option.bind (as_text j) module_of_text) js)"
| "as_modules _ = None"

definition claims_of_json :: "json \<Rightarrow> claims option" where
  "claims_of_json j =
     (case (Option.bind (field ''sub'' j) as_text,
            Option.bind (field ''companyId'' j) as_nullable,
            Option.bind (Option.bind (field ''role'' j) as_text) role_of_text,
            Option.bind (field ''modules'' j) as_modules,
            Option.bind (field ''tokenVersion'' j) as_int,
            Option.bind (field ''iat'' j) as_int,
            Option.bind (field ''exp'' j) as_int) of
        (Some s, Some c, Some r, Some ms, Some v, Some i, Some e) \<Rightarrow>
          Some \<lparr>cl_sub = s, cl_companyId = c, cl_role = r, cl_modules = ms,
                cl_tokenVersion = v, cl_iat = i, cl_exp = e\<rparr>
      | _ \<Rightarrow> None)"

lemma those_module_texts:
  "those (map (\<lambda>j. Option.bind (as_text j) module_of_text) (map (JStr \<circ> module_text) ms)) = Some ms"
  by (induction ms) auto

lemma claims_of_json_json [simp]: "claims_of_json (claims_json c) = Some c"
proof -
  have "as_nullable (json_opt (cl_companyId c)) = Some (cl_companyId c)"
    by (cases "cl_companyId c") (simp_all add: json_opt_def)
  moreover have "as_modules (JArr (map (JStr \<circ> module_text) (cl_modules c))) = Some (cl_modules c)"
    by (simp only: as_modules.simps those_module_texts)
  ultimately show ?thesis
    by (simp add: claims_of_json_def claims_json_def del: as_modules.simps)
qed

lemma wf_claims_json [simp]: "wf_json (claims_json c)"
  by (cases "cl_companyId c") (simp_all add: claims_json_def json_opt_def list.pred_map o_def list.pred_True)

section \<open>Signing and verifying\<close>

definition jwt_header :: string where
  "jwt_header = b64url (stringify (JObj [(''alg'', JStr ''HS256''), (''typ'', JStr ''JWT'')]))"

definition stamped :: "int \<Rightarrow> claims \<Rightarrow> claims" where
  "stamped now_ms c =
     (let now = now_ms div 1000 in c\<lparr>cl_iat := now, cl_exp := now + ACCESS_TTL_S\<rparr>)"

definition signAccessToken :: "mac_fun \<Rightarrow> string \<Rightarrow> int \<Rightarrow> claims \<Rightarrow> string" where
  "signAccessToken mac secret now_ms c =
     (let body = b64url (stringify (claims_json (stamped now_ms c)));
          signed = jwt_header @ CHR ''.'' # body
      in signed @ CHR ''.'' # mac secret signed)"

definition verifyAccessToken :: "mac_fun \<Rightarrow> string \<Rightarrow> int \<Rightarrow> string \<Rightarrow> jwt_error + claims" where
  "verifyAccessToken mac secret now_ms token =
     (case split_dot token of
        [header, body, sig] \<Rightarrow>
          if sig \<noteq> mac secret (header @ CHR ''.'' # body) then Inl (TokenError ''BAD_SIGNATURE'')
          else (case Option.bind (parse (b64url_decode body)) claims_of_json of
            None \<Rightarrow> Inl SyntaxError
          | Some c \<Rightarrow>
              if cl_exp c < now_ms div 1000 then Inl (TokenError ''EXPIRED'')
              else if cl_companyId c = None \<and> cl_role c \<noteq> SUPER_ADMIN
                then Inl (TokenError ''MISSING_COMPANY_SCOPE'')
              else Inr c)
      | _ \<Rightarrow> Inl (TokenError ''MALFORMED_TOKEN''))"

definition scope_ok :: "claims \<Rightarrow> bool" where
  "scope_ok c \<longleftrightarrow> (cl_companyId c = None \<longrightarrow> cl_role c = SUPER_ADMIN)"

lemma split_signed_token:
  assumes "mac_shape mac"
  shows "split_dot (signAccessToken mac k t c) =
    [jwt_header, b64url (stringify (claims_json (stamped t c))),
     mac k (jwt_header @ CHR ''.'' # b64url (stringify (claims_json (stamped t c))))]"
proof -
  have "CHR ''.'' \<notin> set jwt_header" by (simp add: jwt_header_def b64url_no_dot)
  with assms show ?thesis
    by (simp add: signAccessToken_def Let_def mac_shape_def b64url_no_dot)
qed

lemma verify_signed:
  assumes "mac_shape mac"
  shows "verifyAccessToken mac k now (signAccessToken mac k t c) =
    (if cl_exp (stamped t c) < now div 1000 then Inl (TokenError ''EXPIRED'')
     else if \<not> scope_ok c then Inl (TokenError ''MISSING_COMPANY_SCOPE'')
     else Inr (stamped t c))"
  using assms
  by (auto simp: verifyAccessToken_def split_signed_token parse_stringify scope_ok_def stamped_def Let_def)

lemma verify_sound:
  assumes "verifyAccessToken mac k now tok = Inr c"
  shows "scope_ok c \<and> now div 1000 \<le> cl_exp c \<and>
    (\<exists>h b. split_dot tok = [h, b, mac k (h @ CHR ''.'' # b)] \<and>
           Option.bind (parse (b64url_decode b)) claims_of_json = Some c)"
  using assms
  by (auto simp: verifyAccessToken_def scope_ok_def split: list.splits if_splits option.splits)

end
