(* ===== verification/Cosign.thy ===== *)
theory Cosign imports Manifest_Store Signer Access_Tokens begin

text \<open>
  \<open>custody/manifest/cosign-links.ts\<close>: loader and driver sign over a link. A link carries a
  sealed token; opening checks seal and expiry, and the confirmation signs the digest the
  contract gives for the token's manifest. The lemmas show that an issued link opens as the
  token it was made of until it expires, that a token with another seal never opens, and what
  a confirmation leaves on the chain and in the audit log.
\<close>

record cosign_token =
  ct_manifestId :: string
  ct_role :: cosign_role
  ct_phone :: string
  ct_nonce :: string
  ct_expiresAt :: int

datatype cosign_action = LINK_ISSUED | LINK_OPENED | CS_SIGNED | CS_REJECTED

record cosign_entry =
  ce_manifestId :: string
  ce_role :: cosign_role
  ce_phone :: string
  ce_action :: cosign_action
  ce_reason :: "exn option"
  ce_at :: int

record cosign_world =
  cw_world :: world
  cw_outbox :: "(string \<times> string) list"
  cw_log :: "cosign_entry list"

record cosign_conf =
  cc_mac :: mac_fun
  cc_secret :: string
  cc_baseUrl :: string

definition TOKEN_TTL_MS :: int where
  "TOKEN_TTL_MS = 6 * 60 * 60 * 1000"

section \<open>The token codec\<close>

fun cosign_role_text :: "cosign_role \<Rightarrow> string" where
  "cosign_role_text loader = ''loader''"
| "cosign_role_text driver = ''driver''"

definition cosign_role_of_text :: "string \<Rightarrow> cosign_role option" where
  "cosign_role_of_text s =
     (if s = ''loader'' then Some loader else if s = ''driver'' then Some driver else None)"

definition token_json :: "cosign_token \<Rightarrow> json" where
  "token_json t = JObj
     [(''manifestId'', JStr (ct_manifestId t)), (''role'', JStr (cosign_role_text (ct_role t))),
      (''phone'', JStr (ct_phone t)), (''nonce'', JStr (ct_nonce t)),
      (''expiresAt'', JNum (show_int (ct_expiresAt t)))]"

definition token_of_json :: "json \<Rightarrow> cosign_token option" where
  "token_of_json j =
     (case (Option.bind (field ''manifestId'' j) as_text,
            Option.bind (Option.bind (field ''role'' j) as_text) cosign_role_of_text,
            Option.bind (field ''phone'' j) as_text,
            Option.bind (field ''nonce'' j) as_text,
            Option.bind (field ''expiresAt'' j) as_int) of
        (Some m, Some r, Some p, Some n, Some e) \<Rightarrow>
          Some \<lparr>ct_manifestId = m, ct_role = r, ct_phone = p, ct_nonce = n, ct_expiresAt = e\<rparr>
      | _ \<Rightarrow> None)"

lemma token_of_json_json [simp]: "token_of_json (token_json t) = Some t"
  by (cases "ct_role t") (simp_all add: token_of_json_def token_json_def cosign_role_of_text_def)

lemma wf_token_json [simp]: "wf_json (token_json t)"
  by (simp add: token_json_def)

definition encode :: "cosign_conf \<Rightarrow> cosign_token \<Rightarrow> string" where
  "encode C t = seal (cc_mac C) (cc_secret C) (b64url (stringify (token_json t)))"

text \<open>
  \<open>decode\<close>. A payload under a valid seal is one \<open>encode\<close> wrote; the cast of the parsed value
  is modelled as reading the five fields.
\<close>

definition decode :: "cosign_conf \<Rightarrow> int \<Rightarrow> string \<Rightarrow> exn + cosign_token" where
  "decode C now encoded =
     (case unseal (cc_mac C) (cc_secret C) (Error ''MALFORMED_TOKEN'') (Error ''BAD_TOKEN_SIGNATURE'') encoded of
        Inl e \<Rightarrow> Inl e
      | Inr payload \<Rightarrow>
          (case Option.bind (parse (b64url_decode payload)) token_of_json of
             None \<Rightarrow> Inl (Error ''SyntaxError'')
           | Some t \<Rightarrow> if ct_expiresAt t < now then Inl (Error ''TOKEN_EXPIRED'') else Inr t))"

lemma decode_encode:
  assumes "mac_shape (cc_mac C)"
  shows "decode C now (encode C t) =
    (if ct_expiresAt t < now then Inl (Error ''TOKEN_EXPIRED'') else Inr t)"
proof -
  have "stringify (token_json t) \<noteq> []" by (simp add: stringify_nonempty)
  then have "unseal (cc_mac C) (cc_secret C) m b (encode C t) = Inr (b64url (stringify (token_json t)))"
    for m b
    using assms by (simp add: encode_def unseal_seal b64url_no_dot)
  then show ?thesis by (simp add: decode_def parse_stringify)
qed

lemma decode_sound:
  "decode C now enc = Inr t \<Longrightarrow> now \<le> ct_expiresAt t \<and>
     (\<exists>p rest. split_dot enc = p # cc_mac C (cc_secret C) p # rest \<and>
        Option.bind (parse (b64url_decode p)) token_of_json = Some t)"
  by (auto simp: decode_def not_less split: sum.splits option.splits if_splits dest!: unseal_sound)

section \<open>The service\<close>

definition lift_world :: "(world, 'a) exec \<Rightarrow> (cosign_world, 'a) exec" where
  "lift_world m = (\<lambda>s. case m (cw_world s) of (r, w) \<Rightarrow> (r, s\<lparr>cw_world := w\<rparr>))"

lemma lift_world_success [exec_iff]:
  "lift_world m s = (Inr x, s') \<longleftrightarrow> (\<exists>w. m (cw_world s) = (Inr x, w) \<and> s' = s\<lparr>cw_world := w\<rparr>)"
  by (auto simp: lift_world_def split: prod.splits)

definition cosign_log :: "cosign_token \<Rightarrow> cosign_action \<Rightarrow> exn option \<Rightarrow> int \<Rightarrow> (cosign_world, unit) exec" where
  "cosign_log t a reason now = modifies (\<lambda>s. s\<lparr>cw_log := cw_log s @
     [\<lparr>ce_manifestId = ct_manifestId t, ce_role = ct_role t, ce_phone = ct_phone t,
       ce_action = a, ce_reason = reason, ce_at = now\<rparr>]\<rparr>)"

definition whatsapp_send :: "string \<Rightarrow> string \<Rightarrow> (cosign_world, unit) exec" where
  "whatsapp_send phone body = modifies (\<lambda>s. s\<lparr>cw_outbox := cw_outbox s @ [(phone, body)]\<rparr>)"

text \<open>\<open>issueLink\<close>; \<open>nonce\<close> is the random text of the call.\<close>

definition NEWLINE :: char where
  "NEWLINE = char_of (10 :: nat)"

definition issueLink ::
  "('e) key_env_scheme \<Rightarrow> cosign_conf \<Rightarrow> db_ctx \<Rightarrow> int \<Rightarrow> string \<Rightarrow> string \<Rightarrow> cosign_role \<Rightarrow> string \<Rightarrow>
   (cosign_world, string \<times> int) exec"
where
  "issueLink E C ctx now nonce k role phone =
     bindE (lift_world (on_db (get_manifest E ctx k))) (\<lambda>m.
     bindE (need m (Error ''MANIFEST_NOT_FOUND'')) (\<lambda>m.
     let token = \<lparr>ct_manifestId = k, ct_role = role, ct_phone = phone, ct_nonce = nonce,
                  ct_expiresAt = now + TOKEN_TTL_MS\<rparr>;
         url = cc_baseUrl C @ ''/cosign/'' @ encode C token;
         roleWord = (case role of loader \<Rightarrow> ''loading'' | driver \<Rightarrow> ''pickup'')
     in bindE (whatsapp_send phone
          (''DTD: confirm '' @ show_nat (m_pieceCount m) @ '' pieces at '' @ roleWord @ ''.'' @
           NEWLINE # ''Tap to confirm (expires in 6 hours):'' @ NEWLINE # url)) (\<lambda>_.
     bindE (cosign_log token LINK_ISSUED None now) (\<lambda>_.
     return (url, ct_expiresAt token)))))"

text \<open>\<open>phone.replace(/^(\+\d{2})\d{6}(\d{4})$/, "$1XXXXXX$2")\<close>\<close>

definition mask_phone :: "string \<Rightarrow> string" where
  "mask_phone p =
     (if length p = 13 \<and> hd p = CHR ''+'' \<and> list_all (in_range 48 57) (tl p)
      then take 3 p @ ''XXXXXX'' @ drop 9 p else p)"

record link_view =
  lv_role :: cosign_role
  lv_manifestId :: string
  lv_pieceCount :: nat
  lv_bookingId :: string
  lv_phoneMasked :: string
  lv_expiresAt :: int

definition openLink ::
  "('e) key_env_scheme \<Rightarrow> cosign_conf \<Rightarrow> db_ctx \<Rightarrow> int \<Rightarrow> string \<Rightarrow> (cosign_world, link_view) exec"
where
  "openLink E C ctx now encoded =
     bindE (lift_sum (decode C now encoded)) (\<lambda>t.
     bindE (lift_world (on_db (get_manifest E ctx (ct_manifestId t)))) (\<lambda>m.
     bindE (need m (Error ''MANIFEST_NOT_FOUND'')) (\<lambda>m.
     bindE (cosign_log t LINK_OPENED None now) (\<lambda>_.
     return \<lparr>lv_role = ct_role t, lv_manifestId = m_manifestId m, lv_pieceCount = m_pieceCount m,
       lv_bookingId = m_bookingId m, lv_phoneMasked = mask_phone (ct_phone t),
       lv_expiresAt = ct_expiresAt t\<rparr>))))"

text \<open>The signer works on the key tables in the system context.\<close>

definition signer :: "('e) key_env_scheme \<Rightarrow> int \<Rightarrow> db signer_deps" where
  "signer E now = pg_deps E System now"

definition requestOtp ::
  "('e) key_env_scheme \<Rightarrow> cosign_conf \<Rightarrow> (string \<Rightarrow> exn + string) \<Rightarrow> int \<Rightarrow> string \<Rightarrow> string \<Rightarrow> string \<Rightarrow>
   (cosign_world, string) exec"
where
  "requestOtp E C start now priv iv encoded =
     bindE (lift_sum (decode C now encoded)) (\<lambda>t.
     bindE (lift_world (on_db (ensureKey E (signer E now) priv iv now (ct_phone t)))) (\<lambda>_.
     lift_sum (start (ct_phone t))))"

text \<open>\<open>try { m } catch (err) { handle(err); throw err; }\<close>\<close>

definition rethrowing :: "('s, 'a) exec \<Rightarrow> (exn \<Rightarrow> ('s, unit) exec) \<Rightarrow> ('s, 'a) exec" where
  "rethrowing m handle = (\<lambda>s. case m s of
     (Inl e, s') \<Rightarrow> bindE (handle e) (\<lambda>_. raise e) s'
   | (Inr x, s') \<Rightarrow> (Inr x, s'))"

lemma rethrowing_success [exec_iff]: "rethrowing m h s = (Inr x, s') \<longleftrightarrow> m s = (Inr x, s')"
  by (auto simp: rethrowing_def bindE_def split: prod.splits sum.splits)

definition submitConfirmation ::
  "('e) key_env_scheme \<Rightarrow> cosign_conf \<Rightarrow> int \<Rightarrow> string \<Rightarrow> string \<Rightarrow> string \<Rightarrow>
   (cosign_world, string \<times> cosign_role \<times> string) exec"
where
  "submitConfirmation E C now txHash encoded otpToken =
     bindE (lift_sum (decode C now encoded)) (\<lambda>t.
     bindE (lift_world (on_chain (getLoadingDigest E (ct_manifestId t)))) (\<lambda>digest.
     bindE (rethrowing
              (lift_world (on_db (signDigest E (signer E now) now (ct_phone t) otpToken digest)))
              (\<lambda>e. cosign_log t CS_REJECTED (Some e) now)) (\<lambda>sig.
     bindE (lift_world (on_chain (submitSignature E (nat (now div 1000)) txHash (ct_role t)
              (ct_manifestId t) sig))) (\<lambda>tx.
     bindE (cosign_log t CS_SIGNED None now) (\<lambda>_.
     return (ct_manifestId t, ct_role t, tx))))))"

section \<open>What a confirmation does\<close>

definition party :: "cosign_role \<Rightarrow> chain_manifest \<Rightarrow> string" where
  "party role m = (case role of loader \<Rightarrow> cm_loader m | driver \<Rightarrow> cm_driver m)"

definition party_signed :: "cosign_role \<Rightarrow> chain_manifest \<Rightarrow> bool" where
  "party_signed role m = (case role of loader \<Rightarrow> cm_loaderSigned m | driver \<Rightarrow> cm_driverSigned m)"

lemma submitSignature_success:
  assumes "submitSignature E t0 tx role k sig c = (Inr r, c')"
  shows "r = tx \<and> chain_step E c c' \<and> (\<exists>k'. abi_bytes32 k = Some k' \<and>
    cm_status (ch_manifests c k') = Created \<and>
    recover E (loadingDigest E k') sig = Inr (party role (ch_manifests c k')) \<and>
    party_signed role (ch_manifests c' k'))"
proof -
  from assms obtain k' where k: "abi_bytes32 k = Some k'" and
    s: "send tx (case role of
         loader \<Rightarrow> submitLoaderSignature E (platform_msg E t0) k' sig
       | driver \<Rightarrow> submitDriverSignature E (platform_msg E t0) k' sig) c = (Inr r, c')"
    by (auto simp: submitSignature_def exec_iff)
  then have tx: "r = tx" by (auto simp: send_def split: sum.splits)
  show ?thesis
  proof (cases role)
    case loader
    with s have run: "submitLoaderSignature E (platform_msg E t0) k' sig c = Inr c'"
      by (auto simp: send_def split: sum.splits)
    then have "chain_step E c c'" by (rule chain_step.intros)
    with run k tx loader show ?thesis
      by (auto simp: submitLoaderSignature_def Let_def party_def party_signed_def manifests_start
          split: if_splits sum.splits)
  next
    case driver
    with s have run: "submitDriverSignature E (platform_msg E t0) k' sig c = Inr c'"
      by (auto simp: send_def split: sum.splits)
    then have "chain_step E c c'" by (rule chain_step.intros)
    with run k tx driver show ?thesis
      by (auto simp: submitDriverSignature_def Let_def party_def party_signed_def manifests_start
          split: if_splits sum.splits)
  qed
qed

lemma submitConfirmation_success:
  assumes "submitConfirmation E C now tx enc otp s = (Inr (k, role, r), s')"
  shows "\<exists>t k'. decode C now enc = Inr t \<and> k = ct_manifestId t \<and> role = ct_role t \<and> r = tx \<and>
    abi_bytes32 k = Some k' \<and>
    chain_step E (w_chain (cw_world s)) (w_chain (cw_world s')) \<and>
    cm_status (ch_manifests (w_chain (cw_world s)) k') = Created \<and>
    party_signed role (ch_manifests (w_chain (cw_world s')) k') \<and>
    (\<exists>rec priv. keys_in_db System (w_db (cw_world s)) (ct_phone t) = Some rec \<and>
       decrypt E rec = Inr priv \<and>
       recover E (loadingDigest E k') (sign_message E priv (loadingDigest E k')) =
         Inr (party role (ch_manifests (w_chain (cw_world s)) k'))) \<and>
    cw_log s' = cw_log s @ [\<lparr>ce_manifestId = k, ce_role = role, ce_phone = ct_phone t,
      ce_action = CS_SIGNED, ce_reason = None, ce_at = now\<rparr>]"
proof -
  from assms obtain t h c1 sig d2 c3 where
    t: "decode C now enc = Inr t" and
    h: "getLoadingDigest E (ct_manifestId t) (w_chain (cw_world s)) = (Inr h, c1)" and
    sg: "signDigest E (signer E now) now (ct_phone t) otp h (w_db (cw_world s)) = (Inr sig, d2)" and
    sub: "submitSignature E (nat (now div 1000)) tx (ct_role t) (ct_manifestId t) sig c1 = (Inr r, c3)" and
    s': "s' = s\<lparr>cw_world := (cw_world s)\<lparr>w_chain := c3, w_db := d2\<rparr>,
      cw_log := cw_log s @ [\<lparr>ce_manifestId = ct_manifestId t, ce_role = ct_role t,
        ce_phone = ct_phone t, ce_action = CS_SIGNED, ce_reason = None, ce_at = now\<rparr>]\<rparr>" and
    kr: "k = ct_manifestId t" "role = ct_role t"
    by (auto simp: submitConfirmation_def exec_iff cosign_log_def)
  from h obtain k' where k': "abi_bytes32 k = Some k'" "c1 = w_chain (cw_world s)" "h = loadingDigest E k'"
    by (auto simp: getLoadingDigest_def exec_iff kr)
  note ss = submitSignature_success [OF sub]
  from pgs.signDigest_success [OF sg [unfolded signer_def]] obtain rec priv where
    "keys_in_db System (w_db (cw_world s)) (ct_phone t) = Some rec" "decrypt E rec = Inr priv"
    "sig = sign_message E priv h" by blast
  with t s' kr k' ss show ?thesis by auto
qed

lemma submitConfirmation_refused:
  assumes "decode C now enc = Inr t" and "abi_bytes32 (ct_manifestId t) \<noteq> None"
    and "fst (otp_verify (sha256_hex E) System now (ct_phone t) otp (w_db (cw_world s))) = Inr False"
  shows "\<exists>s'. submitConfirmation E C now tx enc otp s = (Inl (Error ''OTP_INVALID''), s') \<and>
    w_chain (cw_world s') = w_chain (cw_world s) \<and>
    cw_log s' = cw_log s @ [\<lparr>ce_manifestId = ct_manifestId t, ce_role = ct_role t,
      ce_phone = ct_phone t, ce_action = CS_REJECTED, ce_reason = Some (Error ''OTP_INVALID''),
      ce_at = now\<rparr>]"
proof -
  obtain k' where k: "abi_bytes32 (ct_manifestId t) = Some k'" using assms(2) by auto
  obtain d' where v: "otp_verify (sha256_hex E) System now (ct_phone t) otp (w_db (cw_world s)) = (Inr False, d')"
    using assms(3) by (metis prod.collapse)
  have "signDigest E (signer E now) now (ct_phone t) otp h (w_db (cw_world s)) =
      (Inl (Error ''OTP_INVALID''), d')" for h
    unfolding signer_def by (rule pgs.signDigest_refused) (simp add: pg_deps_def v)
  then show ?thesis
    by (simp add: submitConfirmation_def bindE_def lift_sum_def assms(1) lift_world_def on_chain_def
        on_db_def getLoadingDigest_def k cosign_log_def rethrowing_def)
qed

end
