(* ===== verification/Fork_Detector.thy ===== *)
theory Fork_Detector imports Handoff Scan_Log begin

text \<open>
  \<open>custody/doublescan/fork-detector.ts\<close>: the verdict on a piece from its scan history, its
  home manifest and the chain. The lemmas characterise each verdict, show that every verdict
  but \<open>CLEAN\<close> leaves exactly one alert, and that \<open>DUPLICATE_LIFE\<close> cannot arise from the scans
  the services write.
\<close>

record timeline_entry =
  t_at :: int
  t_context :: scan_context
  t_manifestId :: "string option"
  t_where :: "string option"

record attribution =
  at_forkedInside :: string
  at_window :: custody_window
  at_liableRole :: liable_role
  at_narrative :: string

record fork_analysis =
  fa_pieceId :: string
  fa_verdict :: fork_verdict
  fa_severity :: string
  fa_manifestIds :: "string list"
  fa_timeline :: "timeline_entry list"
  fa_attribution :: "attribution option"

definition timeline_of :: "scan_event list \<Rightarrow> timeline_entry list" where
  "timeline_of history =
     map (\<lambda>e. \<lparr>t_at = e_scannedAt e, t_context = e_context e, t_manifestId = e_manifestId e,
                 t_where = e_locationHint e\<rparr>) (sort_key e_scannedAt history)"

definition manifests_seen :: "scan_event list \<Rightarrow> string list" where
  "manifests_seen history =
     uniq (List.map_filter (\<lambda>e. if truthy (e_manifestId e) then e_manifestId e else None) history)"

definition foreign_scans :: "string \<Rightarrow> scan_event list \<Rightarrow> scan_event list" where
  "foreign_scans home history =
     filter (\<lambda>e. e_manifestId e \<noteq> None \<and> e_manifestId e \<noteq> Some home \<and>
               (e_context e = UNLOADING \<or> e_context e = LOADING)) history"

definition after_closure :: "nat \<Rightarrow> scan_event list \<Rightarrow> scan_event list" where
  "after_closure deliveredAt history =
     filter (\<lambda>e. int deliveredAt * 1000 + 60000 < e_scannedAt e \<and>
               (e_context e = PUBLIC_VERIFY \<or> e_context e = PARTNER)) history"

section \<open>The parts that read the chain\<close>

fun activeAmong :: "scope \<Rightarrow> int \<Rightarrow> string list \<Rightarrow> string list \<Rightarrow> (world, string list) exec" where
  "activeAmong S now [] active = return active"
| "activeAmong S now (k # ks) active =
     bindE (sync S now k) (\<lambda>rec.
       activeAmong S now ks (if cr_status rec = InCustody then active @ [k] else active))"

definition wasMissingAtDelivery :: "db_ctx \<Rightarrow> string \<Rightarrow> string \<Rightarrow> db \<Rightarrow> bool" where
  "wasMissingAtDelivery ctx k pieceId d \<longleftrightarrow> pieceId \<notin> set (distinctPieces ctx k UNLOADING d)"

definition attribute ::
  "('e) chain_env_scheme \<Rightarrow> scope \<Rightarrow> int \<Rightarrow> string \<Rightarrow> string \<Rightarrow> (world, attribution) exec"
where
  "attribute E S now k pieceId =
     bindE (attributeLoss E S now k) (\<lambda>l.
     bindE (on_db (get_manifest E (sp_ctx S) k)) (\<lambda>m.
     return \<lparr>at_forkedInside = k, at_window = l_window l, at_liableRole = l_liableRole l,
       at_narrative = ''Piece '' @ pieceId @ '' (booking '' @
         (case m of None \<Rightarrow> ''?'' | Some m \<Rightarrow> m_bookingId m) @
         '') shows an impossible timeline. '' @ l_narrative l\<rparr>))"

definition fork_alert :: "fork_analysis \<Rightarrow> alert" where
  "fork_alert a =
     \<lparr>a_kind = FORK_PREFIX @ verdict_name (fa_verdict a),
      a_manifestId = (case fa_attribution a of None \<Rightarrow> UNKNOWN | Some t \<Rightarrow> at_forkedInside t),
      a_pieceId = Some (fa_pieceId a),
      a_narrative = map_option at_narrative (fa_attribution a), a_severity = fa_severity a\<rparr>"

definition finish :: "scope \<Rightarrow> int \<Rightarrow> fork_analysis \<Rightarrow> (world, fork_analysis) exec" where
  "finish S now a =
     bindE (if fa_verdict a \<noteq> CLEAN
            then on_db (raise_alert (sp_ctx S) (sp_alert_company S) now (fork_alert a))
            else return ()) (\<lambda>_.
     return a)"

definition verdict_on ::
  "string \<Rightarrow> scan_event list \<Rightarrow> fork_verdict \<Rightarrow> attribution option \<Rightarrow> fork_analysis"
where
  "verdict_on pieceId history v att =
     \<lparr>fa_pieceId = pieceId, fa_verdict = v,
      fa_severity = (if v = CLEAN then ''INFO'' else ''CRITICAL''),
      fa_manifestIds = manifests_seen history, fa_timeline = timeline_of history,
      fa_attribution = att\<rparr>"

section \<open>The analysis\<close>

definition flag ::
  "('e) chain_env_scheme \<Rightarrow> scope \<Rightarrow> int \<Rightarrow> string \<Rightarrow> scan_event list \<Rightarrow> string \<Rightarrow> fork_verdict \<Rightarrow>
   (world, fork_analysis) exec"
where
  "flag E S now pieceId history home v =
     bindE (attribute E S now home pieceId) (\<lambda>att.
     finish S now (verdict_on pieceId history v (Some att)))"

text \<open>The last detection, with the record of the home manifest in hand.\<close>

definition closure_check ::
  "('e) chain_env_scheme \<Rightarrow> scope \<Rightarrow> int \<Rightarrow> string \<Rightarrow> scan_event list \<Rightarrow> string \<Rightarrow> custody_record \<Rightarrow>
   (world, fork_analysis) exec"
where
  "closure_check E S now pieceId history homeId home = (\<lambda>w.
     let closed = (cr_status home = Delivered \<or> cr_status home = Short) in
     (case (closed, cr_deliveredAt home) of
        (True, Some t0) \<Rightarrow>
          if after_closure t0 history \<noteq> [] \<and>
             wasMissingAtDelivery (sp_ctx S) homeId pieceId (w_db w)
          then flag E S now pieceId history homeId POST_CLOSURE_SIGHTING
          else finish S now (verdict_on pieceId history CLEAN None)
      | _ \<Rightarrow> finish S now (verdict_on pieceId history CLEAN None)) w)"

definition analyze ::
  "('e) chain_env_scheme \<Rightarrow> scope \<Rightarrow> int \<Rightarrow> string \<Rightarrow> (world, fork_analysis) exec"
where
  "analyze E S now pieceId =
     bindE (on_db (reads (byPiece (sp_ctx S) pieceId))) (\<lambda>history.
     bindE (on_db (reads (findManifestByPiece (sp_ctx S) pieceId))) (\<lambda>homeManifestId.
     case homeManifestId of
       None \<Rightarrow> finish S now (verdict_on pieceId history UNKNOWN_PIECE None)
     | Some homeId \<Rightarrow>
         if foreign_scans homeId history \<noteq> []
         then flag E S now pieceId history homeId NOT_ON_MANIFEST
         else
           bindE (activeAmong S now (manifests_seen history) []) (\<lambda>active.
           if 1 < length active
           then flag E S now pieceId history homeId DUPLICATE_LIFE
           else
             bindE (sync S now homeId) (\<lambda>home.
             closure_check E S now pieceId history homeId home))))"

fun sweep ::
  "('e) chain_env_scheme \<Rightarrow> scope \<Rightarrow> int \<Rightarrow> string list \<Rightarrow> (world, fork_analysis list) exec"
where
  "sweep E S now [] = return []"
| "sweep E S now (p # ps) =
     bindE (analyze E S now p) (\<lambda>a.
     bindE (sweep E S now ps) (\<lambda>out.
     return (if fa_verdict a \<noteq> CLEAN then a # out else out)))"

section \<open>Frames\<close>

text \<open>The detector writes the read model and the alerts only.\<close>

definition rest_of_db :: "db \<Rightarrow> db" where
  "rest_of_db d = d\<lparr>db_states := [], db_alerts := []\<rparr>"

definition detector_frame :: "world \<Rightarrow> world \<Rightarrow> bool" where
  "detector_frame w w' \<longleftrightarrow> w_chain w' = w_chain w \<and> w_audit w' = w_audit w \<and>
     rest_of_db (w_db w') = rest_of_db (w_db w)"

definition alerts_of :: "world \<Rightarrow> alert_row list" where
  "alerts_of w = db_alerts (w_db w)"

lemma frame_refl [simp]: "detector_frame w w"
  by (simp add: detector_frame_def)

lemma frame_trans: "detector_frame w w1 \<Longrightarrow> detector_frame w1 w2 \<Longrightarrow> detector_frame w w2"
  by (simp add: detector_frame_def)

lemma rest_of_db_simps [simp]:
  "rest_of_db (d\<lparr>db_states := r\<rparr>) = rest_of_db d" "rest_of_db (d\<lparr>db_alerts := a\<rparr>) = rest_of_db d"
  by (simp_all add: rest_of_db_def)

lemma sync_detector:
  assumes "sync S now k w = (r, w')" and "is_bytes32 k"
  shows "detector_frame w w' \<and> alerts_of w' = alerts_of w"
proof -
  from sync_frame [OF assms] obtain rows where
    "w_chain w' = w_chain w" "w_audit w' = w_audit w" "w_db w' = (w_db w)\<lparr>db_states := rows\<rparr>"
    by blast
  then show ?thesis by (simp add: detector_frame_def alerts_of_def)
qed

lemma attribute_detector:
  assumes "attribute E S now k p w = (Inr a, w')" and "is_bytes32 k"
  shows "detector_frame w w' \<and> alerts_of w' = alerts_of w \<and> at_forkedInside a = k \<and>
    (\<exists>m. at_liableRole a = l_liableRole (loss_of E (record_of k (ch_manifests (w_chain w) k)) m))"
proof -
  from assms(1) obtain rec w1 m where
    s: "sync S now k w = (Inr rec, w1)" and w': "w' = w1"
    and a: "at_forkedInside a = k" "at_liableRole a = l_liableRole (loss_of E rec m)"
    by (auto simp: attribute_def attributeLoss_def exec_iff dest!: read_onlyD [OF get_read_only(1)])
  from sync_success [OF s assms(2)] sync_detector [OF s assms(2)] w' a show ?thesis by auto
qed

lemma raise_fork_success:
  assumes "raise_alert ctx company now a d = (Inr (), d')" and k: "a_kind a = FORK_PREFIX @ v"
    and v: "v \<noteq> []"
  shows "d' = d\<lparr>db_alerts := db_alerts d @
    [alert_row_of company now a v (Suc (length (db_alerts d)))]\<rparr>"
proof -
  have "drop 5 (a_kind a) = v" by (simp add: k FORK_PREFIX_def)
  moreover have "starts_with FORK_PREFIX (a_kind a)" unfolding k by simp
  ultimately show ?thesis using assms(1) v by (auto simp: raise_alert_def exec_iff)
qed

lemma finish_detector:
  assumes "finish S now a w = (Inr b, w')"
  shows "b = a \<and> detector_frame w w' \<and>
    (if fa_verdict a = CLEAN then w' = w
     else alerts_of w' = alerts_of w @ [alert_row_of (sp_alert_company S) now (fork_alert a)
            (verdict_name (fa_verdict a)) (Suc (length (alerts_of w)))])"
proof (cases "fa_verdict a = CLEAN")
  case True
  with assms show ?thesis by (simp add: finish_def)
next
  case False
  have v: "verdict_name (fa_verdict a) \<noteq> []" by (cases "fa_verdict a") simp_all
  have k: "a_kind (fork_alert a) = FORK_PREFIX @ verdict_name (fa_verdict a)"
    by (simp add: fork_alert_def)
  from False assms have "on_db (raise_alert (sp_ctx S) (sp_alert_company S) now (fork_alert a)) w
      = (Inr (), w') \<and> b = a"
    by (auto simp: finish_def bindE_success)
  then obtain d where
    r: "raise_alert (sp_ctx S) (sp_alert_company S) now (fork_alert a) (w_db w) = (Inr (), d)"
    and w': "b = a" "w' = w\<lparr>w_db := d\<rparr>"
    unfolding on_db_success by blast
  from raise_fork_success [OF r k v] w' False show ?thesis
    by (simp add: alerts_of_def detector_frame_def)
qed

lemma flag_detector:
  assumes "flag E S now p history home v w = (Inr a, w')" and "is_bytes32 home" and "v \<noteq> CLEAN"
  shows "detector_frame w w' \<and> length (alerts_of w') = Suc (length (alerts_of w)) \<and>
    fa_verdict a = v \<and> fa_pieceId a = p \<and>
    (\<exists>att m. fa_attribution a = Some att \<and> at_forkedInside att = home \<and>
       at_liableRole att = l_liableRole (loss_of E (record_of home (ch_manifests (w_chain w) home)) m))"
proof -
  from assms(1) obtain att w1 where t: "attribute E S now home p w = (Inr att, w1)"
    and f: "finish S now (verdict_on p history v (Some att)) w1 = (Inr a, w')"
    by (auto simp: flag_def exec_iff)
  from attribute_detector [OF t assms(2)] finish_detector [OF f] assms(3) show ?thesis
    by (auto simp: verdict_on_def intro: frame_trans)
qed

lemma activeAmong_spec:
  "activeAmong S now ks acc w = (Inr active, w') \<Longrightarrow> \<forall>k \<in> set ks. is_bytes32 k \<Longrightarrow>
     detector_frame w w' \<and> alerts_of w' = alerts_of w \<and>
     active = acc @ filter (\<lambda>k. cm_status (ch_manifests (w_chain w) k) = InCustody) ks"
proof (induction ks arbitrary: acc w)
  case (Cons k ks)
  from Cons.prems obtain rec w1 where s: "sync S now k w = (Inr rec, w1)"
    and r: "activeAmong S now ks (if cr_status rec = InCustody then acc @ [k] else acc) w1
      = (Inr active, w')"
    by (auto simp: exec_iff)
  have k: "is_bytes32 k" using Cons.prems by simp
  note sd = sync_detector [OF s k]
  have "cr_status rec = cm_status (ch_manifests (w_chain w) k)" "w_chain w1 = w_chain w"
    using sync_success [OF s k] sd by (auto simp: record_of_def detector_frame_def)
  with Cons.IH [OF r] Cons.prems(2) sd show ?case by (auto intro: frame_trans)
qed simp

section \<open>The verdicts\<close>

text \<open>Ids in the tables are 32-byte ids: the schemas and the table constraints see to it.\<close>

definition ids_ok :: "db \<Rightarrow> bool" where
  "ids_ok d \<longleftrightarrow>
     (\<forall>r \<in> set (db_pieces d). is_bytes32 (pc_manifest_id r)) \<and>
     (\<forall>r \<in> set (db_scans d). \<forall>k. e_manifestId (sc_event r) = Some k \<longrightarrow> is_bytes32 k)"

lemma bytes32_nonempty: "is_bytes32 k \<Longrightarrow> k \<noteq> []"
  by (auto simp: is_bytes32_def matches_iff)

lemma history_ids:
  "ids_ok d \<Longrightarrow> e \<in> set (byPiece ctx p d) \<Longrightarrow> e_manifestId e = Some k \<Longrightarrow> is_bytes32 k"
  by (auto simp: ids_ok_def byPiece_def visible_scans_def)

lemma in_manifests_seen:
  "k \<in> set (manifests_seen h) \<longleftrightarrow> (\<exists>e \<in> set h. e_manifestId e = Some k \<and> k \<noteq> [])"
proof -
  have "k \<in> set (List.map_filter (\<lambda>e. if truthy (e_manifestId e) then e_manifestId e else None) h) \<longleftrightarrow>
      (\<exists>e \<in> set h. e_manifestId e = Some k \<and> k \<noteq> [])"
    by (induction h) (auto simp: List.map_filter_simps truthy_def split: option.splits)
  then show ?thesis by (simp add: manifests_seen_def)
qed

lemma set_manifests_seen:
  assumes "ids_ok d"
  shows "k \<in> set (manifests_seen (byPiece ctx p d)) \<longleftrightarrow>
     (\<exists>e \<in> set (byPiece ctx p d). e_manifestId e = Some k)"
  using history_ids [OF assms] bytes32_nonempty unfolding in_manifests_seen by metis

lemma home_id: "ids_ok d \<Longrightarrow> findManifestByPiece ctx p d = Some k \<Longrightarrow> is_bytes32 k"
  by (auto simp: ids_ok_def findManifestByPiece_def dest: find_SomeD)

text \<open>The specification of the verdict, over the tables and the chain.\<close>

definition fork_spec :: "db_ctx \<Rightarrow> string \<Rightarrow> world \<Rightarrow> fork_verdict" where
  "fork_spec ctx p w =
     (let history = byPiece ctx p (w_db w) in
      case findManifestByPiece ctx p (w_db w) of
        None \<Rightarrow> UNKNOWN_PIECE
      | Some home \<Rightarrow>
          let m = ch_manifests (w_chain w) home in
          if foreign_scans home history \<noteq> [] then NOT_ON_MANIFEST
          else if 1 < card {k. k \<in> set (manifests_seen history) \<and>
                             cm_status (ch_manifests (w_chain w) k) = InCustody}
            then DUPLICATE_LIFE
          else if (cm_status m = Delivered \<or> cm_status m = Short) \<and> cm_deliveredAt m \<noteq> 0 \<and>
                  after_closure (unat (cm_deliveredAt m)) history \<noteq> [] \<and>
                  p \<notin> set (distinctPieces ctx home UNLOADING (w_db w))
            then POST_CLOSURE_SIGHTING
          else CLEAN)"

lemma distinctPieces_frame:
  "detector_frame w w1 \<Longrightarrow> distinctPieces ctx k x (w_db w1) = distinctPieces ctx k x (w_db w)"
proof -
  assume "detector_frame w w1"
  then have "db_scans (rest_of_db (w_db w1)) = db_scans (rest_of_db (w_db w))"
    by (simp add: detector_frame_def)
  then show ?thesis by (simp add: distinctPieces_def visible_scans_def rest_of_db_def)
qed

lemma closure_check_spec:
  assumes run: "closure_check E S now p history homeId (record_of homeId m) w = (Inr a, w')"
    and k: "is_bytes32 homeId"
  shows "detector_frame w w' \<and>
    fa_verdict a = (if (cm_status m = Delivered \<or> cm_status m = Short) \<and> cm_deliveredAt m \<noteq> 0 \<and>
        after_closure (unat (cm_deliveredAt m)) history \<noteq> [] \<and>
        p \<notin> set (distinctPieces (sp_ctx S) homeId UNLOADING (w_db w))
      then POST_CLOSURE_SIGHTING else CLEAN) \<and>
    length (alerts_of w') = length (alerts_of w) + (if fa_verdict a = CLEAN then 0 else 1) \<and>
    fa_pieceId a = p"
proof (cases "(cm_status m = Delivered \<or> cm_status m = Short) \<and> cm_deliveredAt m \<noteq> 0 \<and>
        after_closure (unat (cm_deliveredAt m)) history \<noteq> [] \<and>
        p \<notin> set (distinctPieces (sp_ctx S) homeId UNLOADING (w_db w))")
  case True
  with run have "flag E S now p history homeId POST_CLOSURE_SIGHTING w = (Inr a, w')"
    by (simp add: closure_check_def record_of_def nonzero_def wasMissingAtDelivery_def)
  from flag_detector [OF this k] True show ?thesis by simp
next
  case False
  with run have "finish S now (verdict_on p history CLEAN None) w = (Inr a, w')"
    by (auto simp: closure_check_def record_of_def nonzero_def wasMissingAtDelivery_def Let_def
        split: if_splits bool.splits option.splits)
  from finish_detector [OF this] False show ?thesis by (auto simp: verdict_on_def)
qed

theorem analyze_spec:
  assumes run: "analyze E S now p w = (Inr a, w')" and ids: "ids_ok (w_db w)"
  shows "fa_verdict a = fork_spec (sp_ctx S) p w \<and> fa_pieceId a = p \<and> detector_frame w w' \<and>
    length (alerts_of w') = length (alerts_of w) + (if fa_verdict a = CLEAN then 0 else 1)"
proof -
  let ?h = "byPiece (sp_ctx S) p (w_db w)"
  show ?thesis
  proof (cases "findManifestByPiece (sp_ctx S) p (w_db w)")
    case None
    with run have "finish S now (verdict_on p ?h UNKNOWN_PIECE None) w = (Inr a, w')"
      by (auto simp: analyze_def exec_iff)
    from finish_detector [OF this] None show ?thesis
      by (auto simp: fork_spec_def verdict_on_def)
  next
    case (Some home)
    have hk: "is_bytes32 home" using home_id [OF ids Some] .
    show ?thesis
    proof (cases "foreign_scans home ?h = []")
      case False
      with run Some have "flag E S now p ?h home NOT_ON_MANIFEST w = (Inr a, w')"
        by (auto simp: analyze_def exec_iff)
      from flag_detector [OF this hk] Some False show ?thesis by (simp add: fork_spec_def Let_def)
    next
      case nf: True
      with run Some obtain active w1 where
        ac: "activeAmong S now (manifests_seen ?h) [] w = (Inr active, w1)" and
        rest: "(if 1 < length active then flag E S now p ?h home DUPLICATE_LIFE
                else bindE (sync S now home) (\<lambda>h. closure_check E S now p ?h home h)) w1 = (Inr a, w')"
        by (auto simp: analyze_def exec_iff)
      have "\<forall>k \<in> set (manifests_seen ?h). is_bytes32 k"
        using set_manifests_seen [OF ids] history_ids [OF ids] by blast
      note as = activeAmong_spec [OF ac this]
      let ?A = "{k. k \<in> set (manifests_seen ?h) \<and> cm_status (ch_manifests (w_chain w) k) = InCustody}"
      have "distinct active" "set active = ?A" using as by (auto simp: manifests_seen_def)
      then have len: "length active = card ?A" by (metis distinct_card)
      show ?thesis
      proof (cases "1 < length active")
        case True
        with rest have "flag E S now p ?h home DUPLICATE_LIFE w1 = (Inr a, w')" by simp
        from flag_detector [OF this hk] True Some nf as len show ?thesis
          by (auto simp: fork_spec_def Let_def intro: frame_trans)
      next
        case False
        with rest obtain hm w2 where s: "sync S now home w1 = (Inr hm, w2)"
          and c: "closure_check E S now p ?h home hm w2 = (Inr a, w')"
          by (auto simp: exec_iff)
        note sd = sync_detector [OF s hk]
        have w1: "w_chain w1 = w_chain w" using as by (simp add: detector_frame_def)
        have hm: "hm = record_of home (ch_manifests (w_chain w) home)"
          using sync_success [OF s hk] w1 by simp
        have fr: "detector_frame w w2" using as sd by (blast intro: frame_trans)
        from closure_check_spec [OF c [unfolded hm] hk] show ?thesis
          using False Some nf as len sd fr
          by (auto simp: fork_spec_def Let_def distinctPieces_frame [OF fr] intro: frame_trans)
      qed
    qed
  qed
qed

text \<open>
  Public and partner scans are written with no manifest. Then only the home manifest can
  occur in the history of a piece that has no foreign scan.
\<close>

definition public_scans_unbound :: "db \<Rightarrow> bool" where
  "public_scans_unbound d \<longleftrightarrow>
     (\<forall>r \<in> set (db_scans d). e_context (sc_event r) \<in> {PUBLIC_VERIFY, PARTNER} \<longrightarrow>
        e_manifestId (sc_event r) = None)"

lemma never_duplicate_life:
  assumes ids: "ids_ok (w_db w)" and pub: "public_scans_unbound (w_db w)"
  shows "fork_spec ctx p w \<noteq> DUPLICATE_LIFE"
proof (cases "findManifestByPiece ctx p (w_db w)")
  case None
  then show ?thesis by (simp add: fork_spec_def)
next
  case (Some home)
  let ?h = "byPiece ctx p (w_db w)"
  have sub: "set (manifests_seen ?h) \<subseteq> {home}" if nf: "foreign_scans home ?h = []"
  proof
    fix k
    assume "k \<in> set (manifests_seen ?h)"
    then obtain e where e: "e \<in> set ?h" "e_manifestId e = Some k"
      using set_manifests_seen [OF ids] by blast
    then have "e_context e \<notin> {PUBLIC_VERIFY, PARTNER}"
      using pub by (auto simp: public_scans_unbound_def byPiece_def visible_scans_def)
    then have "e_context e = UNLOADING \<or> e_context e = LOADING" by (cases "e_context e") auto
    with nf e show "k \<in> {home}" by (auto simp: foreign_scans_def filter_empty_conv)
  qed
  have few: "\<not> 1 < card {k. k \<in> set (manifests_seen ?h) \<and>
      cm_status (ch_manifests (w_chain w) k) = InCustody}" if "foreign_scans home ?h = []"
  proof -
    have "card {k. k \<in> set (manifests_seen ?h) \<and> cm_status (ch_manifests (w_chain w) k) = InCustody}
        \<le> card {home}"
      using sub [OF that] by (intro card_mono) auto
    then show ?thesis by simp
  qed
  define n where "n = card {k. k \<in> set (manifests_seen ?h) \<and>
      cm_status (ch_manifests (w_chain w) k) = InCustody}"
  from few show ?thesis
    unfolding fork_spec_def Let_def Some option.case n_def [symmetric] by auto
qed

end
