(* ===== verification/Verify_Page.thy ===== *)
theory Verify_Page imports Fork_Detector begin

text \<open>
  \<open>custody/doublescan/verify-page-api.ts\<close>: the public page behind the code on a box. The answer
  of the rate limiter, the random id of the scan and the clock are arguments. The lemmas show
  that a malformed code writes nothing, that every other accepted visit is recorded before it
  is judged, and that the answer reveals a status, a month and a count only.
\<close>

datatype public_status = GENUINE_IN_TRANSIT | GENUINE_DELIVERED | FLAGGED | PUBLIC_UNKNOWN

record public_response =
  pr_pieceId :: string
  pr_status :: public_status
  pr_headline :: string
  pr_detail :: string
  pr_firstSeen :: "string option"
  pr_scanCount :: nat
  pr_reportUrl :: "string option"

text \<open>
  The pattern \<open>/-?\d+\.\d{3,}/\<close>: somewhere a digit, a point and three digits. Text that holds
  one is dropped, other text is cut at 120 characters.
\<close>

definition digit :: "char \<Rightarrow> bool" where
  "digit = in_range 48 57"

definition has_coordinate :: "string \<Rightarrow> bool" where
  "has_coordinate s \<longleftrightarrow>
     list_ex (\<lambda>i. digit (s ! i) \<and> s ! (i + 1) = CHR ''.'' \<and> digit (s ! (i + 2)) \<and>
                  digit (s ! (i + 3)) \<and> digit (s ! (i + 4))) [0 ..< length s - 4]"

definition coarsen :: "string option \<Rightarrow> string option" where
  "coarsen hint =
     (case hint of
        None \<Rightarrow> None
      | Some h \<Rightarrow> if h = [] then None else if has_coordinate h then None else Some (take 120 h))"

text \<open>\<open>coarseDate\<close>; \<open>month_year\<close> prints the month and the year of an instant.\<close>

definition coarseDate :: "(int \<Rightarrow> string) \<Rightarrow> int option \<Rightarrow> string option" where
  "coarseDate month_year t0 = map_option month_year t0"

definition first_seen :: "scan_event list \<Rightarrow> int option" where
  "first_seen history = (case history of [] \<Rightarrow> None | e # _ \<Rightarrow> Some (e_scannedAt e))"

definition not_a_code :: "string \<Rightarrow> public_response" where
  "not_a_code p =
     \<lparr>pr_pieceId = p, pr_status = PUBLIC_UNKNOWN, pr_headline = ''Not a DTD code'',
      pr_detail = ''This code isn't in the DTD format. Check for a typo.'',
      pr_firstSeen = None, pr_scanCount = 0, pr_reportUrl = None\<rparr>"

definition WARN_SIGN :: string where
  "WARN_SIGN = [CHR 0xE2, CHR 0x9A, CHR 0xA0]"

definition TICK_SIGN :: string where
  "TICK_SIGN = [CHR 0xE2, CHR 0x9C, CHR 0x85]"

definition LONG_DASH :: string where
  "LONG_DASH = [CHR 0xE2, CHR 0x80, CHR 0x94]"

definition no_record :: "string \<Rightarrow> nat \<Rightarrow> public_response" where
  "no_record p n =
     \<lparr>pr_pieceId = p, pr_status = PUBLIC_UNKNOWN,
      pr_headline = WARN_SIGN @ '' No record of this code'',
      pr_detail = ''This code was never issued by DTD. If it's printed on a product '' @
        ''you bought, treat it as suspect and report it.'',
      pr_firstSeen = None, pr_scanCount = n, pr_reportUrl = Some (''/report/'' @ p)\<rparr>"

definition flagged :: "string \<Rightarrow> string option \<Rightarrow> nat \<Rightarrow> public_response" where
  "flagged p seen n =
     \<lparr>pr_pieceId = p, pr_status = FLAGGED,
      pr_headline = WARN_SIGN @ '' This code has been flagged'',
      pr_detail = ''This code appears on more than one shipment record, which usually '' @
        ''means a copied label. DTD has been alerted and is investigating. '' @
        ''Please report where you found it.'',
      pr_firstSeen = seen, pr_scanCount = n, pr_reportUrl = Some (''/report/'' @ p)\<rparr>"

definition genuine :: "string \<Rightarrow> bool \<Rightarrow> string option \<Rightarrow> nat \<Rightarrow> public_response" where
  "genuine p delivered seen n =
     \<lparr>pr_pieceId = p,
      pr_status = (if delivered then GENUINE_DELIVERED else GENUINE_IN_TRANSIT),
      pr_headline = (if delivered then TICK_SIGN @ '' Genuine '' @ LONG_DASH @ '' delivered''
                     else TICK_SIGN @ '' Genuine '' @ LONG_DASH @ '' in transit''),
      pr_detail = (if delivered
        then ''This is a genuine DTD-tracked item and its delivery is recorded on-chain.''
        else ''This is a genuine DTD-tracked item currently in transit.''),
      pr_firstSeen = seen, pr_scanCount = n, pr_reportUrl = None\<rparr>"

record verify_params =
  vp_pieceId :: string
  vp_locationHint :: "string option"
  vp_partnerId :: "string option"

definition public_scan :: "verify_params \<Rightarrow> string \<Rightarrow> scan_input" where
  "public_scan P pieceId =
     \<lparr>in_pieceId = pieceId, in_manifestId = None,
      in_context = (if truthy (vp_partnerId P) then PARTNER else PUBLIC_VERIFY),
      in_scannerId = vp_partnerId P, in_locationHint = coarsen (vp_locationHint P),
      in_clientNonce = None, in_scannedAt = None\<rparr>"

definition verify ::
  "('e) chain_env_scheme \<Rightarrow> (int \<Rightarrow> string) \<Rightarrow> scope \<Rightarrow> int \<Rightarrow> string \<Rightarrow> bool \<Rightarrow> verify_params \<Rightarrow>
   (world, public_response) exec"
where
  "verify E month_year S now uuid allowed P =
     (let pieceId = to_upper (trim (vp_pieceId P)) in
      if \<not> isWellFormedPieceId pieceId then return (not_a_code pieceId)
      else
        bindE (throw_if (\<not> allowed) (Error ''RATE_LIMITED'')) (\<lambda>_.
        bindE (on_db (record_scan E (sp_ctx S) (sp_alert_company S) (public_scan P pieceId) uuid now)) (\<lambda>_.
        bindE (analyze E S now pieceId) (\<lambda>analysis.
        bindE (on_db (reads (byPiece (sp_ctx S) pieceId))) (\<lambda>history.
        bindE (on_db (reads (findManifestByPiece (sp_ctx S) pieceId))) (\<lambda>home.
        case home of
          None \<Rightarrow> return (no_record pieceId (length history))
        | Some homeId \<Rightarrow>
            if fa_verdict analysis = UNKNOWN_PIECE
            then return (no_record pieceId (length history))
            else if fa_verdict analysis \<noteq> CLEAN
            then return (flagged pieceId (coarseDate month_year (first_seen history)) (length history))
            else
              bindE (sync S now homeId) (\<lambda>custody.
              return (genuine pieceId (cr_status custody = Delivered \<or> cr_status custody = Short)
                (coarseDate month_year (first_seen history)) (length history)))))))))"

definition report ::
  "('e) chain_env_scheme \<Rightarrow> scope \<Rightarrow> int \<Rightarrow> string \<Rightarrow> bool \<Rightarrow> string \<Rightarrow> string \<Rightarrow> (world, unit) exec"
where
  "report E S now uuid allowed pieceId note =
     bindE (throw_if (\<not> allowed) (Error ''RATE_LIMITED'')) (\<lambda>_.
     bindE (on_db (record_scan E (sp_ctx S) (sp_alert_company S)
       \<lparr>in_pieceId = to_upper (trim pieceId), in_manifestId = None, in_context = PUBLIC_VERIFY,
        in_scannerId = None, in_locationHint = Some (take 120 note), in_clientNonce = None,
        in_scannedAt = None\<rparr> uuid now)) (\<lambda>_.
     return ()))"

section \<open>What a visit does\<close>

lemma coarsen_safe:
  "coarsen h = Some t \<Longrightarrow> length t \<le> 120 \<and> (\<exists>s. h = Some s \<and> \<not> has_coordinate s \<and> t = take 120 s)"
  by (auto simp: coarsen_def split: option.splits if_splits)

lemma has_coordinate_take: "has_coordinate (take n s) \<Longrightarrow> has_coordinate s"
  by (auto simp: has_coordinate_def list_ex_iff)

lemma coarsen_no_coordinate: "coarsen h = Some t \<Longrightarrow> \<not> has_coordinate t"
  using coarsen_safe has_coordinate_take by blast

lemma response_status [simp]:
  "pr_status (no_record p n) = PUBLIC_UNKNOWN" "pr_status (flagged p t n) = FLAGGED"
  "pr_status (genuine p b t n) = (if b then GENUINE_DELIVERED else GENUINE_IN_TRANSIT)"
  by (simp_all add: no_record_def flagged_def genuine_def)

lemma verify_malformed:
  "\<not> isWellFormedPieceId (to_upper (trim (vp_pieceId P))) \<Longrightarrow>
   verify E my S now uuid allowed P w = (Inr (not_a_code (to_upper (trim (vp_pieceId P)))), w)"
  by (simp add: verify_def Let_def)

lemma verify_limited:
  "isWellFormedPieceId (to_upper (trim (vp_pieceId P))) \<Longrightarrow>
   verify E my S now uuid False P w = (Inl (Error ''RATE_LIMITED''), w)"
  by (simp add: verify_def Let_def bindE_def throw_if_def)

text \<open>The public scan has no nonce, so an accepted visit always appends one row.\<close>

lemma public_scan_recorded:
  assumes "record_scan E ctx company (public_scan P p) uuid now d = (Inr r, d')"
  shows "d' = d\<lparr>db_scans := db_scans d @
     [\<lparr>sc_event = event_of (public_scan P p) uuid now, sc_company_id = company,
       sc_recorded_at = now\<rparr>]\<rparr>"
proof -
  obtain e h n where "r = (e, h, n)" by (cases r)
  with record_scan_outcome [of E ctx company "public_scan P p" uuid now d e h n d'] assms
  show ?thesis by (auto simp: has_nonce_def public_scan_def)
qed

lemma frame_scans: "detector_frame w w' \<Longrightarrow> db_scans (w_db w') = db_scans (w_db w)"
proof -
  assume "detector_frame w w'"
  then have "db_scans (rest_of_db (w_db w')) = db_scans (rest_of_db (w_db w))"
    by (simp add: detector_frame_def)
  then show ?thesis by (simp add: rest_of_db_def)
qed

lemma frame_pieces: "detector_frame w w' \<Longrightarrow> db_pieces (w_db w') = db_pieces (w_db w)"
proof -
  assume "detector_frame w w'"
  then have "db_pieces (rest_of_db (w_db w')) = db_pieces (rest_of_db (w_db w))"
    by (simp add: detector_frame_def)
  then show ?thesis by (simp add: rest_of_db_def)
qed

lemma ids_ok_public:
  "ids_ok d \<Longrightarrow> record_scan E ctx company (public_scan P p) uuid now d = (Inr r, d') \<Longrightarrow> ids_ok d'"
  using public_scan_recorded [of E ctx company P p uuid now d r d']
  by (auto simp: ids_ok_def event_of_def public_scan_def)

lemma verify_success:
  assumes run: "verify E my S now uuid allowed P w = (Inr resp, w')"
    and wf: "isWellFormedPieceId p" and p: "p = to_upper (trim (vp_pieceId P))"
    and ids: "ids_ok (w_db w)"
  shows "allowed \<and>
    db_scans (w_db w') = db_scans (w_db w) @
      [\<lparr>sc_event = event_of (public_scan P p) uuid now, sc_company_id = sp_alert_company S,
        sc_recorded_at = now\<rparr>] \<and>
    (\<exists>w1. w_db w1 = (w_db w)\<lparr>db_scans := db_scans (w_db w')\<rparr> \<and> w_chain w1 = w_chain w \<and>
       pr_status resp =
         (case fork_spec (sp_ctx S) p w1 of
            UNKNOWN_PIECE \<Rightarrow> PUBLIC_UNKNOWN
          | CLEAN \<Rightarrow>
              (if cm_status (ch_manifests (w_chain w)
                    (the (findManifestByPiece (sp_ctx S) p (w_db w)))) \<in> {Delivered, Short}
               then GENUINE_DELIVERED else GENUINE_IN_TRANSIT)
          | _ \<Rightarrow> FLAGGED))"
proof -
  let ?in = "public_scan P p" and ?f = "findManifestByPiece (sp_ctx S) p"
  from run wf p obtain r d a w2 where al: allowed and
    r: "record_scan E (sp_ctx S) (sp_alert_company S) ?in uuid now (w_db w) = (Inr r, d)" and
    a: "analyze E S now p (w\<lparr>w_db := d\<rparr>) = (Inr a, w2)" and
    rest: "(case ?f (w_db w2) of
          None \<Rightarrow> return (no_record p (length (byPiece (sp_ctx S) p (w_db w2))))
        | Some homeId \<Rightarrow>
            if fa_verdict a = UNKNOWN_PIECE
            then return (no_record p (length (byPiece (sp_ctx S) p (w_db w2))))
            else if fa_verdict a \<noteq> CLEAN
            then return (flagged p (coarseDate my (first_seen (byPiece (sp_ctx S) p (w_db w2))))
              (length (byPiece (sp_ctx S) p (w_db w2))))
            else
              bindE (sync S now homeId) (\<lambda>custody.
              return (genuine p (cr_status custody = Delivered \<or> cr_status custody = Short)
                (coarseDate my (first_seen (byPiece (sp_ctx S) p (w_db w2))))
                (length (byPiece (sp_ctx S) p (w_db w2)))))) w2 = (Inr resp, w')"
    by (auto simp: verify_def exec_iff Let_def)
  note d = public_scan_recorded [OF r]
  have ids1: "ids_ok (w_db (w\<lparr>w_db := d\<rparr>))" using ids_ok_public [OF ids r] by simp
  note as = analyze_spec [OF a ids1]
  then have fr: "detector_frame (w\<lparr>w_db := d\<rparr>) w2" by simp
  have sc: "db_scans (w_db w2) = db_scans d" "w_chain w2 = w_chain w"
    using frame_scans [OF fr] fr by (simp_all add: detector_frame_def)
  have home: "?f (w_db w2) = ?f (w_db w)"
    using frame_pieces [OF fr] d by (simp add: findManifestByPiece_def)
  have v: "fa_verdict a = fork_spec (sp_ctx S) p (w\<lparr>w_db := d\<rparr>)" using as by simp
  have hd: "?f d = ?f (w_db w)" using d by (simp add: findManifestByPiece_def)
  have fin: "db_scans (w_db w') = db_scans d \<and>
      pr_status resp = (case fa_verdict a of UNKNOWN_PIECE \<Rightarrow> PUBLIC_UNKNOWN
        | CLEAN \<Rightarrow> (if cm_status (ch_manifests (w_chain w) (the (?f (w_db w)))) \<in> {Delivered, Short}
               then GENUINE_DELIVERED else GENUINE_IN_TRANSIT)
        | _ \<Rightarrow> FLAGGED)"
  proof (cases "?f (w_db w)")
    case None
    then have "fa_verdict a = UNKNOWN_PIECE" by (simp add: v fork_spec_def hd)
    with None rest home sc show ?thesis by auto
  next
    case (Some k)
    have nk: "is_bytes32 k" using home_id [OF ids Some] .
    show ?thesis
    proof (cases "fa_verdict a = CLEAN")
      case True
      with Some rest home obtain cu where s: "sync S now k w2 = (Inr cu, w')"
        and resp: "pr_status resp = (if cr_status cu = Delivered \<or> cr_status cu = Short
           then GENUINE_DELIVERED else GENUINE_IN_TRANSIT)"
        by (auto simp: exec_iff)
      have "cr_status cu = cm_status (ch_manifests (w_chain w) k)"
        using sync_success [OF s nk] sc by (auto simp: record_of_def)
      with resp True Some sc sync_detector [OF s nk] show ?thesis by (auto dest: frame_scans)
    next
      case False
      with Some rest home sc show ?thesis
        by (cases "fa_verdict a") auto
    qed
  qed
  show ?thesis
    using al fin d v sc
    by (intro conjI exI [of _ "w\<lparr>w_db := d\<rparr>"]) (simp_all split: fork_verdict.split)
qed

end
