(* ===== verification/Samples.thy ===== *)
theory Samples imports Custody_Service Cosign Verify_Page begin

text \<open>
  One concrete consignment, on which the properties are exercised: an environment with simple
  functions for hashes, ciphers and signatures, a company with one booking and one piece, the
  chain at each stage of that manifest's life, and the tables that go with it.
\<close>

section \<open>The environment\<close>

definition hex40 :: "char \<Rightarrow> string" where
  "hex40 c = replicate 40 c"

definition addr :: "char \<Rightarrow> string" where
  "addr c = ''0x'' @ hex40 c"

definition HASH :: string where
  "HASH = ''0x'' @ replicate 64 (CHR ''a'')"

definition TRIP :: string where
  "TRIP = ''0x'' @ replicate 64 (CHR ''d'')"

definition LOADER :: string where "LOADER = addr (CHR ''1'')"
definition DRIVER_ADDR :: string where "DRIVER_ADDR = addr (CHR ''2'')"
definition RECEIVER_ADDR :: string where "RECEIVER_ADDR = addr (CHR ''3'')"
definition PLATFORM :: string where "PLATFORM = addr (CHR ''9'')"

definition PHONE :: string where "PHONE = ''+919000000003''"
definition CO :: string where "CO = ''11111111-1111-1111-1111-111111111111''"
definition BOOKING :: string where "BOOKING = ''22222222-2222-2222-2222-222222222222''"
definition PIECE :: string where "PIECE = ''DTD-ABCDEFGH12''"

text \<open>
  A signature is the address digits of its key followed by filler; recovering reads them back.
  A private key is text whose first 40 characters are made hexadecimal and not zero.
\<close>

definition norm_char :: "char \<Rightarrow> char" where
  "norm_char c = (if in_range 49 57 c \<or> in_range 97 102 c then c else CHR ''b'')"

definition norm_key :: "string \<Rightarrow> string" where
  "norm_key p = map norm_char (take 40 (p @ hex40 (CHR ''b'')))"

definition toy_env :: key_env where
  "toy_env =
     \<lparr>zod_uuid = (\<lambda>_. True), zod_datetime = (\<lambda>_. True), keccak = (\<lambda>_. HASH),
      iso_of_ms = (\<lambda>_. ''2025-01-01T00:00:00.000Z''),
      checksum_ok = (\<lambda>_. True), ecrecover = (\<lambda>_ _ r s. ''0x'' @ take 40 (r @ s)),
      chain_id = ''1'', this_address = ''c'', platform_account = PLATFORM,
      sha256_hex = (\<lambda>t. ''h'' @ t), sha256_bytes = (\<lambda>t. t), master_raw = Some ''k'',
      production = False, gcm_encrypt = (\<lambda>_ _ p. (p, ''t'')), gcm_decrypt = (\<lambda>_ _ c _. Some c),
      account_address = (\<lambda>p. ''0x'' @ norm_key p),
      sign_message = (\<lambda>p _. norm_key p @ replicate 25 (CHR ''a''))\<rparr>"

lemmas toy_env_simps = toy_env_def

section \<open>The chain, stage by stage\<close>

definition at_time :: "nat \<Rightarrow> msg" where
  "at_time ts = \<lparr>msg_sender = PLATFORM, block_timestamp = ts\<rparr>"

definition toy_sig :: "char \<Rightarrow> string" where
  "toy_sig c = hex40 c @ replicate 25 (CHR ''a'')"

definition chain_open :: chain where
  "chain_open = projr (setPlatform \<lparr>msg_sender = ''owner'', block_timestamp = 0\<rparr> PLATFORM True (deployed ''owner''))"

definition chain_created :: chain where
  "chain_created = projr (ch_createManifest (at_time 10) HASH TRIP 1 LOADER DRIVER_ADDR RECEIVER_ADDR chain_open)"

definition chain_loaded :: chain where
  "chain_loaded = projr (submitLoaderSignature toy_env (at_time 11) HASH (toy_sig (CHR ''1'')) chain_created)"

definition chain_custody :: chain where
  "chain_custody = projr (submitDriverSignature toy_env (at_time 12) HASH (toy_sig (CHR ''2'')) chain_loaded)"

definition chain_delivered :: chain where
  "chain_delivered = projr (ch_confirmDelivery toy_env (at_time 13) HASH 1 (toy_sig (CHR ''3'')) chain_custody)"

definition chain_short :: chain where
  "chain_short = projr (ch_confirmDelivery toy_env (at_time 13) HASH 0 (toy_sig (CHR ''3'')) chain_custody)"

text \<open>Addresses and signatures, by what matters of them.\<close>

lemma addr_inject [simp]: "addr c = addr d \<longleftrightarrow> c = d"
  by (simp add: addr_def hex40_def replicate_eq_replicate)

lemma addr_nonzero [simp]: "addr c = zero_address \<longleftrightarrow> c = CHR ''0''"
  unfolding zero_address_def addr_def hex40_def by (simp add: replicate_eq_replicate)

lemma toy_recover [simp]:
  assumes "c \<noteq> CHR ''0''"
  shows "recover toy_env h (toy_sig c) = Inr (addr c)"
proof -
  have len: "length (toy_sig c) = 65" by (simp add: toy_sig_def hex40_def)
  have "take 40 (take 32 (toy_sig c) @ take 32 (drop 32 (toy_sig c))) = take 40 (take 64 (toy_sig c))"
    by (simp add: take_add [of 32 32, simplified])
  also have "\<dots> = hex40 c" by (simp add: toy_sig_def hex40_def)
  finally show ?thesis
    using assms len by (simp add: recover_def toy_env_def Let_def addr_nonzero [unfolded addr_def, simplified])
      (simp add: addr_def)
qed

lemmas toy_addresses = LOADER_def DRIVER_ADDR_def RECEIVER_ADDR_def

lemma open_run: "setPlatform \<lparr>msg_sender = ''owner'', block_timestamp = 0\<rparr> PLATFORM True (deployed ''owner'') = Inr chain_open"
  by (simp add: chain_open_def setPlatform_def deployed_def)

lemma open_facts: "ch_manifests chain_open = (\<lambda>_. zero_manifest)" "ch_isPlatform chain_open PLATFORM"
  by (simp_all add: chain_open_def setPlatform_def deployed_def emit_def)

definition toy_manifest :: chain_manifest where
  "toy_manifest =
     \<lparr>cm_tripId = TRIP, cm_manifestHash = HASH, cm_pieceCount = 1, cm_deliveredCount = 0,
      cm_loader = LOADER, cm_driver = DRIVER_ADDR, cm_receiver = RECEIVER_ADDR,
      cm_loaderSigned = False, cm_driverSigned = False, cm_receiverSigned = False,
      cm_createdAt = 10, cm_custodyStartAt = 0, cm_deliveredAt = 0, cm_status = Created\<rparr>"

lemma created_run:
  "ch_createManifest (at_time 10) HASH TRIP 1 LOADER DRIVER_ADDR RECEIVER_ADDR chain_open = Inr chain_created"
  by (simp add: chain_created_def ch_createManifest_def open_facts at_time_def zero_manifest_def toy_addresses)

lemma platform_kept [simp]:
  "ch_isPlatform (emit e c) = ch_isPlatform c" "ch_isPlatform (put_manifest k m c) = ch_isPlatform c"
  "ch_isPlatform (maybeStartCustody g k m c) = ch_isPlatform c"
  by (simp_all add: emit_def put_manifest_def maybeStartCustody_def Let_def)

lemma created_facts: "ch_manifests chain_created HASH = toy_manifest" "ch_isPlatform chain_created PLATFORM"
  by (simp_all add: chain_created_def ch_createManifest_def open_facts at_time_def zero_manifest_def
      toy_addresses toy_manifest_def)

lemma loaded_run:
  "submitLoaderSignature toy_env (at_time 11) HASH (toy_sig (CHR ''1'')) chain_created = Inr chain_loaded"
  by (simp add: chain_loaded_def submitLoaderSignature_def created_facts at_time_def toy_manifest_def
      toy_addresses Let_def)

lemma loaded_facts: "ch_manifests chain_loaded HASH = toy_manifest\<lparr>cm_loaderSigned := True\<rparr>"
  "ch_isPlatform chain_loaded PLATFORM"
  by (simp_all add: chain_loaded_def submitLoaderSignature_def created_facts at_time_def
      toy_manifest_def toy_addresses Let_def manifests_start)

lemma custody_run:
  "submitDriverSignature toy_env (at_time 12) HASH (toy_sig (CHR ''2'')) chain_loaded = Inr chain_custody"
  by (simp add: chain_custody_def submitDriverSignature_def loaded_facts at_time_def toy_manifest_def
      toy_addresses Let_def)

definition carried :: chain_manifest where
  "carried = toy_manifest\<lparr>cm_loaderSigned := True, cm_driverSigned := True,
     cm_status := InCustody, cm_custodyStartAt := 12\<rparr>"

lemma custody_facts: "ch_manifests chain_custody HASH = carried" "ch_isPlatform chain_custody PLATFORM"
  by (simp_all add: chain_custody_def submitDriverSignature_def loaded_facts at_time_def
      toy_manifest_def carried_def toy_addresses Let_def manifests_start)

lemma delivered_run:
  "ch_confirmDelivery toy_env (at_time 13) HASH 1 (toy_sig (CHR ''3'')) chain_custody = Inr chain_delivered"
  by (simp add: chain_delivered_def ch_confirmDelivery_def custody_facts at_time_def carried_def
      toy_manifest_def toy_addresses Let_def)

lemma delivered_facts: "ch_manifests chain_delivered HASH =
    carried\<lparr>cm_receiverSigned := True, cm_deliveredCount := 1, cm_deliveredAt := 13, cm_status := Delivered\<rparr>"
  "ch_isPlatform chain_delivered PLATFORM"
  by (simp_all add: chain_delivered_def ch_confirmDelivery_def custody_facts at_time_def carried_def
      toy_manifest_def toy_addresses Let_def)

lemma short_run:
  "ch_confirmDelivery toy_env (at_time 13) HASH 0 (toy_sig (CHR ''3'')) chain_custody = Inr chain_short"
  by (simp add: chain_short_def ch_confirmDelivery_def custody_facts at_time_def carried_def
      toy_manifest_def toy_addresses Let_def)

lemma short_facts: "ch_manifests chain_short HASH =
    carried\<lparr>cm_receiverSigned := True, cm_deliveredCount := 0, cm_deliveredAt := 13, cm_status := Short\<rparr>"
  by (simp_all add: chain_short_def ch_confirmDelivery_def custody_facts at_time_def carried_def
      toy_manifest_def toy_addresses Let_def)

lemma stage_steps:
  "chain_step toy_env (deployed ''owner'') chain_open" "chain_step toy_env chain_open chain_created"
  "chain_step toy_env chain_created chain_loaded" "chain_step toy_env chain_loaded chain_custody"
  "chain_step toy_env chain_custody chain_delivered" "chain_step toy_env chain_custody chain_short"
  by (rule chain_step.intros open_run created_run loaded_run custody_run delivered_run short_run)+

lemma stages_reachable:
  "reachable_chain toy_env chain_open" "reachable_chain toy_env chain_created"
  "reachable_chain toy_env chain_loaded" "reachable_chain toy_env chain_custody"
  "reachable_chain toy_env chain_delivered" "reachable_chain toy_env chain_short"
  by (meson reachable_chain.intros stage_steps)+

section \<open>The tables\<close>

definition toy_doc :: manifest where
  "toy_doc =
     \<lparr>m_manifestId = HASH, m_tripId = TRIP, m_bookingId = BOOKING, m_transporterId = CO,
      m_pieceCount = 1, m_pieces = [\<lparr>p_pieceId = PIECE, p_sku = None, p_weightKg = None\<rparr>],
      m_loader = LOADER, m_driver = DRIVER_ADDR, m_receiver = RECEIVER_ADDR,
      m_createdAt = ''2025-01-01T00:00:00.000Z''\<rparr>"

definition toy_key :: key_record where
  "toy_key =
     \<lparr>k_phone = PHONE, k_address = RECEIVER_ADDR, k_encKey = base64 (hex40 (CHR ''3'')),
      k_iv = base64 ''iv'', k_authTag = base64 ''t'', k_createdAt = 0, k_exportedAt = None\<rparr>"

definition toy_otp :: "int \<Rightarrow> otp_row" where
  "toy_otp expires =
     \<lparr>otp_id = 0, otp_phone = PHONE, otp_code_hash = hashCode (sha256_hex toy_env) PHONE ''123456'',
      otp_attempts = 0, otp_expires_at = expires, otp_consumed_at = None\<rparr>"

definition toy_scan :: "scan_context \<Rightarrow> string option \<Rightarrow> int \<Rightarrow> scan_row" where
  "toy_scan x k ts =
     \<lparr>sc_event = \<lparr>e_scanId = ''scan-0'', e_pieceId = PIECE, e_manifestId = k, e_context = x,
        e_scannerId = Some ''user-1'', e_locationHint = None, e_scannedAt = ts,
        e_clientNonce = Some ''n-0''\<rparr>,
      sc_company_id = Some CO, sc_recorded_at = ts\<rparr>"

definition empty_db :: db where
  "empty_db =
     \<lparr>db_companies = [CO], db_bookings = [BOOKING], db_manifests = [], db_pieces = [],
      db_scans = [], db_states = [], db_alerts = [], db_keys = [toy_key], db_otps = [toy_otp 100000],
      db_signer_audit = []\<rparr>"

definition toy_db :: "scan_row list \<Rightarrow> db" where
  "toy_db scans = (stored CO toy_doc ''0xtx'' empty_db)\<lparr>db_scans := scans\<rparr>"

definition toy_world :: "scan_row list \<Rightarrow> chain \<Rightarrow> world" where
  "toy_world scans c = \<lparr>w_db = toy_db scans, w_chain = c, w_audit = []\<rparr>"

definition toy_scope :: scope where
  "toy_scope = tenant_scope (Tenant CO) CO"

lemma scope_simps [simp]:
  "sp_ctx toy_scope = Tenant CO" "sp_company toy_scope = CO" "sp_alert_company toy_scope = Some CO"
  by (simp_all add: toy_scope_def tenant_scope_def)

lemma toy_hex [simp]: "is_bytes32 HASH" "is_bytes32 TRIP"
  by (auto simp: is_bytes32_def matches_iff HASH_def TRIP_def list_all_iff lower_hex_def in_range_def)

lemma addr_ok [simp]: "c \<in> set ''123456789'' \<Longrightarrow> is_address (addr c)"
  by (auto simp: is_address_def matches_iff addr_def hex40_def list_all_iff any_hex_def lower_hex_def in_range_def)

lemma addr_lower [simp]: "c \<in> set ''123456789'' \<Longrightarrow> to_lower (addr c) = addr c"
  by (auto simp: addr_def hex40_def to_lower_def to_lower_char_def)

lemma piece_well_formed [simp]: "isWellFormedPieceId PIECE"
  by code_simp

lemma toy_doc_ok: "manifest_ok toy_env toy_doc"
  by (simp add: manifest_ok_def toy_doc_def toy_env_def toy_addresses piece_ok_def piece_ids_def
      well_formed_schema)

lemma empty_tables_ok: "manifest_tables_ok empty_db"
  by (simp add: manifest_tables_ok_def empty_db_def)

lemma toy_get: "get_manifest toy_env (Tenant CO) HASH (toy_db scans) = (Inr (Some toy_doc), toy_db scans)"
proof -
  have "get_manifest toy_env (Tenant CO) HASH (stored CO toy_doc ''0xtx'' empty_db) =
      (Inr (Some (erase toy_doc)), stored CO toy_doc ''0xtx'' empty_db)"
    using get_after_store [OF toy_doc_ok empty_tables_ok, of "Tenant CO" CO "''0xtx''"]
    by (simp add: empty_db_def toy_doc_def)
  moreover have "erase toy_doc = toy_doc" by (simp add: toy_doc_def)
  moreover have "get_manifest toy_env ctx k (d\<lparr>db_scans := ss\<rparr>) =
      (fst (get_manifest toy_env ctx k d), d\<lparr>db_scans := ss\<rparr>)" for ctx k d ss
    by (simp add: get_manifest_def select_manifest_def row_manifest_def piecesFor_def split: option.split)
  ultimately show ?thesis by (simp add: toy_db_def)
qed

section \<open>Runs\<close>

text \<open>One unloading scan of the one piece, and the reconciliation it gives.\<close>

definition full_count :: "scan_row list" where
  "full_count = [toy_scan UNLOADING (Some HASH) 5000]"

definition toy_result :: "nat \<Rightarrow> reconcile_result" where
  "toy_result n =
     \<lparr>rr_manifestId = HASH, rr_expected = 1, rr_scanned = n, rr_missing = 1 - n, rr_extra = 0,
      rr_complete = (n = 1), rr_missingPieceIds = (if n = 1 then [] else [PIECE]),
      rr_offManifestPieceIds = [], rr_duplicateScans = 0\<rparr>"

lemma scans_of_toy_db [simp]: "db_scans (toy_db ss) = ss"
  by (simp add: toy_db_def)

lemma toy_reconcile_full:
  "reconcile toy_env (Tenant CO) HASH (toy_db full_count) = (Inr (toy_result 1), toy_db full_count)"
  unfolding reconcile_success
  by (intro conjI exI [of _ toy_doc])
    (simp_all add: toy_get result_of_def toy_result_def byManifest_def visible_scans_def full_count_def
      toy_scan_def toy_doc_def piece_ids_def)

lemma toy_reconcile_none:
  "reconcile toy_env (Tenant CO) HASH (toy_db []) = (Inr (toy_result 0), toy_db [])"
  unfolding reconcile_success
  by (intro conjI exI [of _ toy_doc])
    (simp_all add: toy_get result_of_def toy_result_def byManifest_def visible_scans_def
      toy_doc_def piece_ids_def)

lemma toy_sync:
  "cm_deliveredCount (ch_manifests c HASH) \<le> cm_pieceCount (ch_manifests c HASH) \<Longrightarrow>
   sync toy_scope now HASH (toy_world ss c) = (Inr (record_of HASH (ch_manifests c HASH)),
     \<lparr>w_db = (toy_db ss)\<lparr>db_states := [new_state CO now (record_of HASH (ch_manifests c HASH))]\<rparr>,
      w_chain = c, w_audit = []\<rparr>)"
  by (simp add: sync_eq toy_world_def upsert_state_def toy_db_def stored_def empty_db_def bindE_def
      throw_if_def record_of_def put_row_def toy_doc_def word_le_nat_alt not_less)

lemma toy_evaluate:
  assumes "reconcile toy_env (Tenant CO) HASH (toy_db ss) = (Inr rec, toy_db ss)"
    and "cm_deliveredCount (ch_manifests c HASH) \<le> cm_pieceCount (ch_manifests c HASH)"
  shows "\<exists>w'. evaluate toy_env toy_scope now HASH (toy_world ss c) =
    (Inr (decide HASH rec (cm_status (ch_manifests c HASH)) (ch_isReleasable HASH c)), w')"
proof -
  have "on_db (reconcile toy_env (sp_ctx toy_scope) HASH) (toy_world ss c) = (Inr rec, toy_world ss c)"
    using assms(1) by (simp add: on_db_def toy_world_def)
  with toy_sync [OF assms(2), of now ss] show ?thesis
    by (auto simp: evaluate_def bindE_def on_chain_def isReleasable_def need_def lower_bytes32
        gate_alert_dropped critical_not_fork Let_def record_of_def split: if_splits)
qed

definition released :: decision where
  "released = decide HASH (toy_result 1) Delivered True"

lemma toy_released: "\<exists>w'. evaluate toy_env toy_scope now HASH (toy_world full_count chain_delivered) = (Inr released, w')"
  using toy_evaluate [OF toy_reconcile_full, of chain_delivered now]
  by (simp add: delivered_facts carried_def toy_manifest_def released_def ch_isReleasable_def Let_def)

text \<open>Confirming the delivery: code, key, signature, chain, decision.\<close>

lemma toy_decrypt: "decrypt toy_env toy_key = Inr (hex40 (CHR ''3''))"
  by (simp add: decrypt_def masterKey_def toy_env_def toy_key_def)

lemma toy_signature: "sign_message toy_env (hex40 (CHR ''3'')) h = toy_sig (CHR ''3'')"
proof -
  have "norm_key (hex40 (CHR ''3'')) = hex40 (CHR ''3'')"
    by (simp add: norm_key_def hex40_def norm_char_def in_range_def)
  then show ?thesis by (simp add: toy_env_def toy_sig_def)
qed

definition after_code :: "scan_row list \<Rightarrow> int \<Rightarrow> db" where
  "after_code ss now = (toy_db ss)\<lparr>db_otps := [consume now (toy_otp 100000)]\<rparr>"

lemma toy_otps: "db_otps (toy_db ss) = [toy_otp 100000]" "db_keys (toy_db ss) = [toy_key]"
  by (simp_all add: toy_db_def stored_def empty_db_def)

lemma toy_otps_ok: "otps_ok (toy_db ss)"
  by (simp add: otps_ok_def toy_otps toy_otp_def)

lemma toy_verify:
  "now \<le> 100000 \<Longrightarrow>
   otp_verify (sha256_hex toy_env) System now PHONE ''123456'' (toy_db ss) = (Inr True, after_code ss now)"
  by (simp add: otp_verify_run toy_otps toy_otp_def live_def OTP_MAX_ATTEMPTS_def after_code_def consume_def)

lemma toy_verify_and_load:
  "now \<le> 100000 \<Longrightarrow> verify_and_load toy_env now PHONE ''123456'' (toy_world ss c) =
     (Inr toy_key, (toy_world ss c)\<lparr>w_db := after_code ss now\<rparr>)"
  by (simp add: verify_and_load_def asSystem_def rollback_on_error_def bindE_def on_db_def toy_verify
      toy_world_def throw_if_def pg_get_key_def after_code_def toy_otps toy_key_def)

lemma after_code_reads:
  "get_manifest toy_env (Tenant CO) HASH (after_code ss now) = (Inr (Some toy_doc), after_code ss now)"
  "reconcile toy_env (Tenant CO) HASH (toy_db ss) = (Inr rec, toy_db ss) \<Longrightarrow>
   reconcile toy_env (Tenant CO) HASH (after_code ss now) = (Inr rec, after_code ss now)"
proof -
  have same: "get_manifest toy_env ctx k (d\<lparr>db_otps := os\<rparr>) =
      (fst (get_manifest toy_env ctx k d), d\<lparr>db_otps := os\<rparr>)" for ctx k d os
    by (simp add: get_manifest_def select_manifest_def row_manifest_def piecesFor_def split: option.split)
  then show "get_manifest toy_env (Tenant CO) HASH (after_code ss now) = (Inr (Some toy_doc), after_code ss now)"
    by (simp add: after_code_def toy_get)
  with toy_get [of ss] show "reconcile toy_env (Tenant CO) HASH (toy_db ss) = (Inr rec, toy_db ss) \<Longrightarrow>
      reconcile toy_env (Tenant CO) HASH (after_code ss now) = (Inr rec, after_code ss now)"
    by (simp add: reconcile_success byManifest_def visible_scans_def after_code_def)
qed

definition delivered_at :: "int \<Rightarrow> chain" where
  "delivered_at now = projr (ch_confirmDelivery toy_env (platform_msg toy_env (nat (now div 1000))) HASH 1
     (toy_sig (CHR ''3'')) chain_custody)"

lemma delivered_at_run:
  "ch_confirmDelivery toy_env (platform_msg toy_env (nat (now div 1000))) HASH 1 (toy_sig (CHR ''3'')) chain_custody =
     Inr (delivered_at now)"
  "ch_manifests (delivered_at now) HASH = carried\<lparr>cm_receiverSigned := True, cm_deliveredCount := 1,
     cm_deliveredAt := of_nat (nat (now div 1000)), cm_status := Delivered\<rparr>"
proof -
  have p: "msg_sender (platform_msg toy_env t) = PLATFORM" "block_timestamp (platform_msg toy_env t) = t" for t
    by (simp_all add: platform_msg_def toy_env_def)
  show "ch_confirmDelivery toy_env (platform_msg toy_env (nat (now div 1000))) HASH 1 (toy_sig (CHR ''3'')) chain_custody =
     Inr (delivered_at now)"
    by (simp add: delivered_at_def ch_confirmDelivery_def custody_facts carried_def
      toy_manifest_def toy_addresses Let_def p)
  show "ch_manifests (delivered_at now) HASH = carried\<lparr>cm_receiverSigned := True, cm_deliveredCount := 1,
     cm_deliveredAt := of_nat (nat (now div 1000)), cm_status := Delivered\<rparr>"
    by (simp add: delivered_at_def ch_confirmDelivery_def custody_facts carried_def
      toy_manifest_def toy_addresses Let_def p)
qed

lemma toy_sign:
  "\<exists>s'. signDigest toy_env mem_deps now PHONE tok h (preload (Some toy_key) PHONE) = (Inr (toy_sig (CHR ''3'')), s') \<and>
     mem_audit s' = [\<lparr>se_phone = PHONE, se_address = RECEIVER_ADDR, se_digest = h, se_action = SIGNED, se_at = now\<rparr>] \<and>
     mem_keys s' = \<lparr>pk_record = Some toy_key, pk_pendingPut = None, pk_pendingExport = False\<rparr>"
  by (simp add: signDigest_def mem_deps_def bindE_def mem_verify_def pre_verify_def preload_def throw_if_def
      pre_get_def toy_decrypt toy_signature buffer_audit_def lift_sum_def Let_def)
    (simp add: toy_key_def)

lemma toy_evaluate_after:
  "\<exists>w'. evaluate toy_env toy_scope now HASH \<lparr>w_db = after_code full_count now, w_chain = delivered_at now, w_audit = a\<rparr>
     = (Inr released, w')"
proof -
  let ?w = "\<lparr>w_db = after_code full_count now, w_chain = delivered_at now, w_audit = a\<rparr>"
  have r: "on_db (reconcile toy_env (sp_ctx toy_scope) HASH) ?w = (Inr (toy_result 1), ?w)"
    using after_code_reads(2) [OF toy_reconcile_full] by (simp add: on_db_def)
  have s: "\<exists>w1. sync toy_scope now HASH ?w = (Inr (record_of HASH (ch_manifests (delivered_at now) HASH)), w1) \<and>
      w_chain w1 = delivered_at now"
    by (simp add: sync_eq upsert_state_def after_code_def toy_db_def stored_def empty_db_def bindE_def
      throw_if_def record_of_def put_row_def toy_doc_def delivered_at_run carried_def toy_manifest_def)
  have rel: "ch_isReleasable HASH (delivered_at now)"
    by (simp add: ch_isReleasable_def delivered_at_run carried_def toy_manifest_def Let_def)
  from s obtain w1 where s: "sync toy_scope now HASH ?w = (Inr (record_of HASH (ch_manifests (delivered_at now) HASH)), w1)"
    "w_chain w1 = delivered_at now" by blast
  show ?thesis
    using r s rel by (auto simp: evaluate_def bindE_def on_chain_def isReleasable_def need_def lower_bytes32
        gate_alert_dropped critical_not_fork Let_def record_of_def delivered_at_run released_def toy_result_def)
qed

lemma toy_deliver:
  assumes "now \<le> 100000"
  shows "\<exists>q. deliver toy_env CO now tx HASH PHONE ''123456'' RECEIVER_ADDR
     ((toy_world full_count chain_custody)\<lparr>w_db := after_code full_count now\<rparr>, preload (Some toy_key) PHONE) =
     (Inr released, q) \<and> mem_keys (snd q) = \<lparr>pk_record = Some toy_key, pk_pendingPut = None, pk_pendingExport = False\<rparr>"
proof -
  let ?w = "(toy_world full_count chain_custody)\<lparr>w_db := after_code full_count now\<rparr>"
  have S: "tenant_scope (Tenant CO) CO = toy_scope" by (simp add: toy_scope_def)
  have r: "reconcile toy_env (Tenant CO) HASH (after_code full_count now) = (Inr (toy_result 1), after_code full_count now)"
    using after_code_reads(2) [OF toy_reconcile_full] .
  obtain s' where s': "signDigest toy_env mem_deps now PHONE ''123456'' (deliveryDigest toy_env HASH 1)
      (preload (Some toy_key) PHONE) = (Inr (toy_sig (CHR ''3'')), s')"
    "mem_keys s' = \<lparr>pk_record = Some toy_key, pk_pendingPut = None, pk_pendingExport = False\<rparr>"
    using toy_sign by blast
  obtain w' where e: "evaluate toy_env toy_scope now HASH
      \<lparr>w_db = after_code full_count now, w_chain = delivered_at now, w_audit = []\<rparr> = (Inr released, w')"
    using toy_evaluate_after by blast
  have "confirmAndSign toy_env toy_scope now tx HASH PHONE ''123456'' (?w, preload (Some toy_key) PHONE) =
      (Inr released, (w', s'))"
    using r s' e
    by (simp add: confirmAndSign_def bindE_def on_world_def on_signer_def on_db_def on_chain_def toy_world_def
        getDeliveryDigest_def confirmDelivery_def abi_uint32_def lower_bytes32 send_def toy_result_def
        delivered_at_run)
  with s' show ?thesis
    by (simp add: deliver_def requestTenant_def bindE_def on_world_def on_db_def after_code_reads S throw_if_def
        toy_doc_def toy_world_def)
qed

lemma toy_flush:
  assumes "mem_keys s = \<lparr>pk_record = Some toy_key, pk_pendingPut = None, pk_pendingExport = False\<rparr>"
  shows "\<exists>w'. flush_signer now s w = (Inr (), w')"
proof -
  have audits: "\<exists>d'. for_each (pg_audit System) es d = (Inr (), d')" for es d
    by (induction es arbitrary: d) (auto simp: bindE_def pg_audit_def throw_if_def)
  show ?thesis
    using assms audits [of "mem_audit s" "w_db w"]
    by (auto simp: flush_signer_def asSystem_def rollback_on_error_def on_db_def bindE_def flush_audit_def
        flush_keys_def)
qed

lemma toy_confirmed:
  assumes "now \<le> 100000"
  shows "\<exists>w'. confirmDeliveryService toy_env CO u now tx HASH PHONE ''123456'' (toy_world full_count chain_custody) =
    (Inr released, w')"
proof -
  from toy_deliver [OF assms, of tx] obtain w1 s1 where d: "deliver toy_env CO now tx HASH PHONE ''123456'' RECEIVER_ADDR
     ((toy_world full_count chain_custody)\<lparr>w_db := after_code full_count now\<rparr>, preload (Some toy_key) PHONE) =
     (Inr released, (w1, s1))" "mem_keys s1 = \<lparr>pk_record = Some toy_key, pk_pendingPut = None, pk_pendingExport = False\<rparr>"
    by auto
  from toy_flush [OF d(2), of now w1] obtain w2 where "flush_signer now s1 w1 = (Inr (), w2)" by blast
  moreover have "k_address toy_key = RECEIVER_ADDR" by (simp add: toy_key_def)
  ultimately show ?thesis
    using d(1) toy_verify_and_load [OF assms]
    by (simp add: confirmDeliveryService_def bindE_def with_flush_def audit_run)
qed

section \<open>Declaring the manifest\<close>

definition toy_request :: create_dto where
  "toy_request = \<lparr>cd_bookingId = BOOKING, cd_tripId = TRIP, cd_pieces = None, cd_pieceCount = Some 1,
     cd_loader = LOADER, cd_driver = DRIVER_ADDR, cd_receiver = RECEIVER_ADDR\<rparr>"

definition fresh_world :: world where
  "fresh_world = \<lparr>w_db = empty_db, w_chain = chain_open, w_audit = []\<rparr>"

lemma toy_mint: "mint_ids [replicate 10 0] 1 = Inr [generatePieceId (replicate 10 0)]"
  by (simp add: mint_ids_def generatePieceIds_def MAX_PIECES_def mint_loop.simps)

definition minted_doc :: manifest where
  "minted_doc = toy_doc\<lparr>m_pieces := [\<lparr>p_pieceId = generatePieceId (replicate 10 0), p_sku = None, p_weightKg = None\<rparr>]\<rparr>"

lemma minted_doc_ok: "manifest_ok toy_env minted_doc"
  using toy_doc_ok well_formed_schema [OF generatePieceId_well_formed]
  by (simp add: manifest_ok_def minted_doc_def toy_env_def piece_ids_def piece_ok_def toy_doc_def)

lemma toy_abi:
  "abi_address toy_env LOADER = Some LOADER" "abi_address toy_env DRIVER_ADDR = Some DRIVER_ADDR"
  "abi_address toy_env RECEIVER_ADDR = Some RECEIVER_ADDR"
  by (simp_all add: abi_address_def toy_addresses toy_env_def)

lemma toy_build:
  "\<exists>w'. build toy_env (Tenant CO) CO 10000 tx [replicate 10 0] (build_input_of CO toy_request)
     \<lparr>w_db = empty_db, w_chain = chain_open, w_audit = a\<rparr> = (Inr (minted_doc, tx), w')"
proof -
  let ?i = "build_input_of CO toy_request"
  let ?ps = "[\<lparr>p_pieceId = generatePieceId (replicate 10 0), p_sku = None, p_weightKg = None\<rparr>]"
  have ps: "resolvePieces [replicate 10 0] ?i = Inr ?ps"
    using toy_mint by (simp add: resolvePieces_def build_input_of_def toy_request_def)
  have id: "computeManifestId toy_env (draft toy_env ?i ?ps 10000) = HASH"
    by (simp add: computeManifestId_def toy_env_def)
  have m: "(draft toy_env ?i ?ps 10000)\<lparr>m_manifestId := HASH\<rparr> = minted_doc"
    by (simp add: draft_def minted_doc_def toy_doc_def build_input_of_def toy_request_def toy_env_def)
  have none: "getByBooking toy_env (Tenant CO) BOOKING empty_db = (Inr None, empty_db)"
    by (simp add: getByBooking_def select_manifest_def empty_db_def)
  have msg: "platform_msg toy_env t = at_time t" for t
    by (simp add: platform_msg_def at_time_def toy_env_def)
  have anch: "anchorCreateManifest toy_env 10 tx HASH TRIP 1 LOADER DRIVER_ADDR RECEIVER_ADDR chain_open =
      (Inr tx, chain_created)"
    using created_run by (simp add: anchorCreateManifest_def lower_bytes32 toy_abi abi_uint32_def
        bindE_def send_def msg need_def)
  have bi: "b_bookingId ?i = BOOKING" "b_tripId ?i = TRIP" "b_loader ?i = LOADER"
    "b_driver ?i = DRIVER_ADDR" "b_receiver ?i = RECEIVER_ADDR" "m_pieceCount minted_doc = 1"
    by (simp_all add: build_input_of_def toy_request_def minted_doc_def toy_doc_def)
  have put: "put_manifest_row (Tenant CO) CO minted_doc tx empty_db =
      (Inr (), empty_db\<lparr>db_manifests := [put_row CO minted_doc tx]\<rparr>)"
    using minted_doc_ok by (simp add: put_manifest_row_def bindE_def throw_if_def Let_def empty_db_def
        minted_doc_def toy_doc_def put_row_def manifest_checks_def toy_addresses)
  have idx: "\<exists>d. indexPieces (Tenant CO) CO HASH [generatePieceId (replicate 10 0)]
      (empty_db\<lparr>db_manifests := [put_row CO minted_doc tx]\<rparr>) = (Inr (), d)"
    by (simp add: indexPieces_def bindE_def throw_if_def empty_db_def put_row_def minted_doc_def
        toy_doc_def generatePieceId_well_formed)
  from idx obtain d where idx: "indexPieces (Tenant CO) CO HASH [generatePieceId (replicate 10 0)]
      (empty_db\<lparr>db_manifests := [put_row CO minted_doc tx]\<rparr>) = (Inr (), d)" by blast
  show ?thesis
    using ps id m none anch minted_doc_ok put idx
    by (simp add: build_def bindE_def on_db_def on_chain_def Let_def from_sum_def parse_manifest_def bi throw_if_def)
qed

end
