(* ===== verification/Custody_Properties.thy ===== *)
theory Custody_Properties imports Samples begin

text \<open>
  The properties of the custody and chain domains, each with a run of the sample consignment
  that meets its hypotheses.
\<close>

section \<open>The contract\<close>

text \<open>C1: On every chain that can be reached from the deployment by any transactions, a manifest
  that counts as delivered or short carries verified signatures of the loader and the driver
  over its loading digest and of the receiver over exactly the delivered count; it has at
  least one piece, and it is delivered precisely when all of them were counted.\<close>

theorem delivered_means_signed:
  assumes "reachable_chain E c" and "cm_status (ch_manifests c k) \<in> {Delivered, Short}"
  defines "m \<equiv> ch_manifests c k"
  shows "signed_by E (loadingDigest E k) (cm_loader m) \<and>
    signed_by E (loadingDigest E k) (cm_driver m) \<and>
    signed_by E (deliveryDigest E k (cm_deliveredCount m)) (cm_receiver m) \<and>
    cm_pieceCount m \<noteq> 0 \<and> cm_deliveredCount m \<le> cm_pieceCount m \<and>
    (cm_status m = Delivered \<longleftrightarrow> cm_deliveredCount m = cm_pieceCount m)"
proof -
  have "manifest_inv E k m"
    using reachable_chain_inv [OF assms(1)] by (simp add: chain_inv_def m_def)
  with assms(2) show ?thesis
    by (auto simp: manifest_inv_def status_ok_def signatures_ok_def created_ok_def m_def)
qed

theorem delivered_means_signed_witness:
  "signed_by toy_env (loadingDigest toy_env HASH) (cm_loader (ch_manifests chain_delivered HASH)) \<and>
   cm_status (ch_manifests chain_delivered HASH) = Delivered"
  using delivered_means_signed [OF stages_reachable(5), of HASH] by (simp add: delivered_facts carried_def)

text \<open>C8: Once created, a manifest never loses or changes what was declared (trip, hash, count,
  the three parties, creation time), its status only moves forward, and a dispute is final,
  whatever transactions follow.\<close>

theorem manifest_moves_forward:
  assumes "(chain_step E)\<^sup>*\<^sup>* c c'" and "cm_status (ch_manifests c k) \<noteq> SNone"
  defines "m \<equiv> ch_manifests c k" and "m' \<equiv> ch_manifests c' k"
  shows "cm_status m' \<noteq> SNone \<and> cm_tripId m' = cm_tripId m \<and> cm_manifestHash m' = cm_manifestHash m \<and>
    cm_pieceCount m' = cm_pieceCount m \<and> cm_loader m' = cm_loader m \<and> cm_driver m' = cm_driver m \<and>
    cm_receiver m' = cm_receiver m \<and> cm_createdAt m' = cm_createdAt m \<and>
    stage (cm_status m) \<le> stage (cm_status m') \<and> (cm_status m = Disputed \<longrightarrow> cm_status m' = Disputed)"
proof -
  have last: "4 \<le> stage st \<longleftrightarrow> st = Disputed" for st by (cases st) simp_all
  show ?thesis
    using chain_run_forward [OF assms(1,2)]
    by (auto simp: forward_def same_declaration_def m_def m'_def last)
qed

theorem manifest_moves_forward_witness:
  "cm_pieceCount (ch_manifests chain_delivered HASH) = cm_pieceCount (ch_manifests chain_created HASH)"
proof -
  have "(chain_step toy_env)\<^sup>*\<^sup>* chain_created chain_delivered"
    by (meson converse_rtranclp_into_rtranclp rtranclp.rtrancl_refl stage_steps)
  from manifest_moves_forward [OF this, of HASH] show ?thesis
    by (simp add: created_facts toy_manifest_def)
qed

section \<open>The release gate\<close>

text \<open>C9: Whenever \<open>evaluate\<close> answers over a reachable chain, it says releasable exactly when the
  pieces scanned at unloading are the pieces of the manifest and the chain says delivered, and
  exactly then the reason is \<open>COMPLETE_SCAN_MATCH\<close>. The evaluation never touches the chain.\<close>

theorem release_decision:
  assumes "reachable_chain E (w_chain w)" and "evaluate E S now k w = (Inr dec, w')"
  shows "\<exists>m. get_manifest E (sp_ctx S) k (w_db w) = (Inr (Some m), w_db w) \<and>
    (de_releasable dec \<longleftrightarrow>
       set (distinctPieces (sp_ctx S) k UNLOADING (w_db w)) = set (piece_ids m) \<and>
       cm_status (ch_manifests (w_chain w) k) = Delivered) \<and>
    (de_releasable dec \<longleftrightarrow> de_reason dec = COMPLETE_SCAN_MATCH) \<and> w_chain w' = w_chain w"
proof -
  have inv: "chain_inv E (w_chain w)" by (rule reachable_chain_inv [OF assms(1)])
  from evaluate_success [OF assms(2)] obtain rec cu where
    e: "is_bytes32 k" "reconcile E (sp_ctx S) k (w_db w) = (Inr rec, w_db w)"
      "sync S now k w = (Inr cu, w')"
      "dec = decide k rec (cm_status (ch_manifests (w_chain w) k)) (ch_isReleasable k (w_chain w))"
    by blast
  from reconcile_spec [OF e(2)] obtain m where
    m: "get_manifest E (sp_ctx S) k (w_db w) = (Inr (Some m), w_db w)"
      "rr_complete rec \<longleftrightarrow> set (distinctPieces (sp_ctx S) k UNLOADING (w_db w)) = set (piece_ids m)"
    by (auto simp: reconciles_def)
  show ?thesis
    using m decide_releasable [OF inv e(2)] chain_releasable [OF inv, of k] sync_frame [OF e(3,1)]
    unfolding e(4) by (auto simp: decide_def)
qed

theorem release_decision_witness:
  "\<exists>dec w'. evaluate toy_env toy_scope 14000 HASH (toy_world full_count chain_delivered) = (Inr dec, w') \<and>
     de_releasable dec \<and> w_chain w' = chain_delivered"
proof -
  obtain w' where run: "evaluate toy_env toy_scope 14000 HASH (toy_world full_count chain_delivered) = (Inr released, w')"
    using toy_released by blast
  have r: "reachable_chain toy_env (w_chain (toy_world full_count chain_delivered))"
    by (simp add: toy_world_def stages_reachable)
  from release_decision [OF r run] show ?thesis
    using run by (auto simp: toy_world_def released_def decide_def reason_of_def toy_result_def)
qed

text \<open>C11: A payout request reports a release only if the evaluation it made allows it, and only
  after the platform accepted (status 2xx) the body with the manifest's id, booking and
  transporter under the keyed hash of that very body; the chain is as before.\<close>

theorem payout_only_when_releasable:
  assumes "requestPayout E hmac secret post S now k w = (Inr (True, r), w')"
  shows "\<exists>dec w1 m. evaluate E S now k w = (Inr dec, w1) \<and> de_releasable dec \<and>
    r = reason_name (de_reason dec) \<and> get_manifest E (sp_ctx S) k (w_db w1) = (Inr (Some m), w_db w1) \<and>
    200 \<le> post (payout_body m) (hmac secret (payout_body m)) \<and>
    post (payout_body m) (hmac secret (payout_body m)) < 300 \<and> w_chain w' = w_chain w"
proof -
  from assms obtain dec w1 m d where
    e: "evaluate E S now k w = (Inr dec, w1)" "de_releasable dec" "r = reason_name (de_reason dec)"
    and g: "get_manifest E (sp_ctx S) k (w_db w1) = (Inr (Some m), d)"
    and p: "200 \<le> post (payout_body m) (hmac secret (payout_body m))"
      "post (payout_body m) (hmac secret (payout_body m)) < 300" "w' = w1\<lparr>w_db := d\<rparr>"
    by (auto simp: requestPayout_def exec_iff Let_def split: if_splits)
  from evaluate_success [OF e(1)] obtain rec cu where
    k: "is_bytes32 k" and s: "sync S now k w = (Inr cu, w1)" by blast
  have "d = w_db w1" using read_onlyD [OF get_read_only(1) g] .
  with e g p sync_frame [OF s k] show ?thesis by auto
qed

lemma toy_payout:
  "\<exists>w'. requestPayout toy_env (\<lambda>_ _. ''sig'') ''s'' (\<lambda>_ _. 200) toy_scope 14000 HASH
     (toy_world full_count chain_delivered) = (Inr (True, ''COMPLETE_SCAN_MATCH''), w')"
proof -
  have "de_releasable released" "de_reason released = COMPLETE_SCAN_MATCH"
    by (simp_all add: released_def decide_def reason_of_def toy_result_def)
  moreover have "evaluate toy_env toy_scope 14000 HASH (toy_world full_count chain_delivered) =
      (Inr released, \<lparr>w_db = (toy_db full_count)\<lparr>db_states := [new_state CO 14000
        (record_of HASH (ch_manifests chain_delivered HASH))]\<rparr>, w_chain = chain_delivered, w_audit = []\<rparr>)"
  proof -
    obtain w' where run: "evaluate toy_env toy_scope 14000 HASH (toy_world full_count chain_delivered) = (Inr released, w')"
      using toy_released by blast
    from evaluate_success [OF this] obtain cu where
      "sync toy_scope 14000 HASH (toy_world full_count chain_delivered) = (Inr cu, w')" by blast
    moreover have "cm_deliveredCount (ch_manifests chain_delivered HASH) \<le> cm_pieceCount (ch_manifests chain_delivered HASH)"
      by (simp add: delivered_facts carried_def toy_manifest_def)
    ultimately show ?thesis using run toy_sync [of chain_delivered 14000 full_count] by auto
  qed
  moreover have "get_manifest toy_env ctx j (d\<lparr>db_states := ss\<rparr>) =
      (fst (get_manifest toy_env ctx j d), d\<lparr>db_states := ss\<rparr>)" for ctx j d ss
    by (simp add: get_manifest_def select_manifest_def row_manifest_def piecesFor_def split: option.split)
  ultimately show ?thesis
    by (simp add: requestPayout_def bindE_def on_db_def toy_get)
qed

theorem payout_only_when_releasable_witness:
  "\<exists>dec w1. evaluate toy_env toy_scope 14000 HASH (toy_world full_count chain_delivered) = (Inr dec, w1) \<and>
     de_releasable dec"
  using toy_payout payout_only_when_releasable
    [of toy_env "\<lambda>_ _. ''sig''" "''s''" "\<lambda>_ _. 200" toy_scope 14000 HASH "toy_world full_count chain_delivered"]
  by blast

section \<open>Confirming a delivery\<close>

text \<open>C10: A confirmation that succeeds consumed a live code of the receiver's phone, was signed with
  that phone's key, whose address is the manifest's receiver, and put the number of manifest
  pieces actually scanned at unloading on the chain: one transaction, delivered if all were
  scanned and short otherwise, and the answer is the decision these facts give.\<close>

theorem confirmed_count_is_scanned_count:
  assumes "confirmDeliveryService E c u now tx k phone tok w = (Inr dec, w')" and "otps_ok (w_db w)"
  shows "\<exists>rec recon m d0. keys_in_db System (w_db w) phone = Some rec \<and>
    otp_verify (sha256_hex E) System now phone tok (w_db w) = (Inr True, d0) \<and>
    get_manifest E (Tenant c) k d0 = (Inr (Some m), d0) \<and>
    to_lower (m_receiver m) = to_lower (k_address rec) \<and>
    reconcile E (Tenant c) k d0 = (Inr recon, d0) \<and>
    rr_scanned recon = card (set (distinctPieces (Tenant c) k UNLOADING d0) \<inter> set (piece_ids m)) \<and>
    cm_status (ch_manifests (w_chain w) k) = InCustody \<and> chain_step E (w_chain w) (w_chain w') \<and>
    signed_by E (deliveryDigest E k (of_nat (rr_scanned recon))) (cm_receiver (ch_manifests (w_chain w) k)) \<and>
    cm_deliveredCount (ch_manifests (w_chain w') k) = of_nat (rr_scanned recon) \<and>
    cm_status (ch_manifests (w_chain w') k) =
      (if rr_scanned recon = unat (cm_pieceCount (ch_manifests (w_chain w) k)) then Delivered else Short) \<and>
    dec = decide k recon (cm_status (ch_manifests (w_chain w') k)) (ch_isReleasable k (w_chain w'))"
proof -
  from confirmDelivery_service_success [OF assms] obtain rec recon m d0 where
    a: "keys_in_db System (w_db w) phone = Some rec"
      "otp_verify (sha256_hex E) System now phone tok (w_db w) = (Inr True, d0)"
      "get_manifest E (Tenant c) k d0 = (Inr (Some m), d0)" "to_lower (m_receiver m) = to_lower (k_address rec)" and
    r: "reconcile E (Tenant c) k d0 = (Inr recon, d0)" and
    b: "cm_status (ch_manifests (w_chain w) k) = InCustody" "chain_step E (w_chain w) (w_chain w')"
      "signed_by E (deliveryDigest E k (of_nat (rr_scanned recon))) (cm_receiver (ch_manifests (w_chain w) k))"
      "cm_deliveredCount (ch_manifests (w_chain w') k) = of_nat (rr_scanned recon)"
      "cm_status (ch_manifests (w_chain w') k) =
        (if rr_scanned recon = unat (cm_pieceCount (ch_manifests (w_chain w) k)) then Delivered else Short)"
      "dec = decide k recon (cm_status (ch_manifests (w_chain w') k)) (ch_isReleasable k (w_chain w'))"
    unfolding Let_def by metis
  from reconcile_spec [OF r] a(3) have
    "rr_scanned recon = card (set (distinctPieces (Tenant c) k UNLOADING d0) \<inter> set (piece_ids m))"
    by (auto simp: reconciles_def)
  with a r b show ?thesis by blast
qed

theorem confirmed_count_is_scanned_count_witness:
  "\<exists>dec w'. confirmDeliveryService toy_env CO ''user-1'' 14000 ''0xtx'' HASH PHONE ''123456''
     (toy_world full_count chain_custody) = (Inr dec, w') \<and> de_releasable dec \<and>
     chain_step toy_env chain_custody (w_chain w')"
proof -
  obtain w' where run: "confirmDeliveryService toy_env CO ''user-1'' 14000 ''0xtx'' HASH PHONE ''123456''
     (toy_world full_count chain_custody) = (Inr released, w')"
    using toy_confirmed [of 14000] by auto
  have "otps_ok (w_db (toy_world full_count chain_custody))" by (simp add: toy_world_def toy_otps_ok)
  from confirmed_count_is_scanned_count [OF run this] show ?thesis
    using run by (auto simp: toy_world_def released_def decide_def toy_result_def)
qed

text \<open>A confirmation with a wrong code fails with \<open>OTP_INVALID\<close>, and the transaction that
  checked the code is rolled back: the tables are those from before the request, so the failed
  attempt is not counted and the code stays live.\<close>

theorem wrong_code_is_not_counted:
  assumes "otp_verify (sha256_hex E) System now phone tok (w_db w) = (Inr False, d)"
  shows "\<exists>w'. confirmDeliveryService E c u now tx k phone tok w = (Inl (Unauthorized ''OTP_INVALID''), w') \<and>
    w_db w' = w_db w \<and> w_chain w' = w_chain w"
  by (rule wrong_code_leaves_tables [OF assms])

theorem wrong_code_is_not_counted_witness:
  "\<exists>w'. confirmDeliveryService toy_env CO ''user-1'' 14000 ''0xtx'' HASH PHONE ''000000''
     (toy_world full_count chain_custody) = (Inl (Unauthorized ''OTP_INVALID''), w') \<and>
     db_otps (w_db w') = [toy_otp 100000]"
proof -
  have "\<exists>d. otp_verify (sha256_hex toy_env) System 14000 PHONE ''000000'' (w_db (toy_world full_count chain_custody)) = (Inr False, d)"
    by (simp add: otp_verify_run toy_world_def toy_otps toy_otp_def live_def OTP_MAX_ATTEMPTS_def
        hashCode_def toy_env_def)
  then obtain d where "otp_verify (sha256_hex toy_env) System 14000 PHONE ''000000''
      (w_db (toy_world full_count chain_custody)) = (Inr False, d)" by blast
  from wrong_code_is_not_counted [OF this, of CO "''user-1''" "''0xtx''" HASH] show ?thesis
    by (auto simp: toy_world_def toy_otps)
qed

section \<open>Counting\<close>

text \<open>C16: The reconciliation of a manifest is exact: with \<open>P\<close> the manifest's pieces and \<open>S\<close> the
  pieces scanned at unloading, scanned, missing and extra are the sizes of \<open>S \<inter> P\<close>, \<open>P - S\<close> and
  \<open>S - P\<close>, the two lists hold exactly the missing and the off-manifest ids, every further scan is
  a duplicate, scanned and missing add up to the declared count, and it is complete exactly if
  the sets agree.\<close>

theorem reconciliation_is_exact:
  assumes "reconcile E ctx k d = (Inr r, d')"
  shows "\<exists>m. get_manifest E ctx k d = (Inr (Some m), d) \<and> d' = d \<and>
    (let P = set (piece_ids m); S = set (distinctPieces ctx k UNLOADING d)
     in rr_expected r = m_pieceCount m \<and> rr_scanned r = card (S \<inter> P) \<and>
        rr_missing r = card (P - S) \<and> rr_extra r = card (S - P) \<and>
        set (rr_missingPieceIds r) = P - S \<and> set (rr_offManifestPieceIds r) = S - P \<and>
        rr_duplicateScans r + card S = length (byManifest ctx k (Some UNLOADING) d) \<and>
        rr_scanned r + rr_missing r = m_pieceCount m \<and> (rr_complete r \<longleftrightarrow> S = P))"
  using reconcile_spec [OF assms] read_onlyD [OF reconcile_read_only assms]
  by (auto simp: reconciles_def Let_def)

theorem reconciliation_is_exact_witness:
  "\<exists>r. reconcile toy_env (Tenant CO) HASH (toy_db []) = (Inr r, toy_db []) \<and>
     rr_scanned r + rr_missing r = m_pieceCount toy_doc \<and> \<not> rr_complete r"
  using reconciliation_is_exact [OF toy_reconcile_none]
  by (auto simp: toy_get Let_def toy_reconcile_none toy_result_def)

text \<open>The progress shown to the scanner counts every piece scanned at unloading, those on the
  manifest and those off it, so it can pass the expected count.\<close>

theorem progress_counts_foreign_pieces:
  assumes "progress E ctx k d = (Inr (n, expected), d')"
  shows "\<exists>r. reconcile E ctx k d = (Inr r, d) \<and> n = rr_scanned r + rr_extra r \<and> expected = rr_expected r"
  by (rule progress_spec [OF assms])

lemma toy_progress: "progress toy_env (Tenant CO) HASH (toy_db full_count) = (Inr (1, 1), toy_db full_count)"
  by (simp add: progress_def bindE_def toy_get distinctPieces_def visible_scans_def full_count_def toy_scan_def
      toy_doc_def)

theorem progress_counts_foreign_pieces_witness:
  "\<exists>r. reconcile toy_env (Tenant CO) HASH (toy_db full_count) = (Inr r, toy_db full_count) \<and>
     1 = rr_scanned r + rr_extra r"
  using progress_counts_foreign_pieces [OF toy_progress] by auto

section \<open>Scans\<close>

text \<open>A batch that is accepted adds to the log exactly as many scans as it reports accepted, the
  rest are duplicates, nothing already logged is changed or lost, and nothing but the log and
  the audit trail changes.\<close>

theorem scan_batch_only_appends:
  assumes "recordScanBatch E c u x scans w = (Inr (accepted, duplicates, n), w')"
  shows "accepted + duplicates = length scans \<and> n = length scans \<and>
    (\<exists>rows. length rows = accepted \<and> w_db w' = (w_db w)\<lparr>db_scans := db_scans (w_db w) @ rows\<rparr>) \<and>
    w_chain w' = w_chain w"
proof -
  from recordScanBatch_success [OF assms] obtain rows where
    "w_db w' = (w_db w)\<lparr>db_scans := db_scans (w_db w) @ rows\<rparr>" by (auto simp: log_grows_def)
  with recordScanBatch_success [OF assms] show ?thesis by auto
qed

definition toy_batch :: "(scan_dto \<times> string \<times> int) list" where
  "toy_batch =
     [(\<lparr>sd_pieceId = PIECE, sd_manifestId = Some HASH, sd_locationHint = None,
        sd_clientNonce = Some ''n-1''\<rparr>, ''scan-1'', 6000),
      (\<lparr>sd_pieceId = PIECE, sd_manifestId = Some HASH, sd_locationHint = None,
        sd_clientNonce = Some ''n-1''\<rparr>, ''scan-2'', 6001)]"

lemma toy_batch_run:
  "\<exists>w'. recordScanBatch toy_env CO ''user-1'' UNLOADING toy_batch (toy_world [] chain_custody) =
     (Inr (1, 1, 2), w')"
  by (simp add: recordScanBatch_def withTenant_def rollback_on_error_def bindE_def on_db_def toy_batch_def
      scan_input_of_def record_scan_def event_of_def scan_ok_def toy_env_def well_formed_schema
      short_enough_def scan_append_def throw_if_def same_nonce_def toy_world_def toy_db_def stored_def
      empty_db_def put_row_def toy_doc_def Let_def audit_run)

theorem scan_batch_only_appends_witness:
  "\<exists>w' rows. recordScanBatch toy_env CO ''user-1'' UNLOADING toy_batch (toy_world [] chain_custody) =
     (Inr (1, 1, 2), w') \<and> length rows = 1 \<and> db_scans (w_db w') = rows"
proof -
  obtain w' where run: "recordScanBatch toy_env CO ''user-1'' UNLOADING toy_batch (toy_world [] chain_custody) =
     (Inr (1, 1, 2), w')" using toy_batch_run by blast
  from scan_batch_only_appends [OF run] run show ?thesis by (auto simp: toy_world_def)
qed

text \<open>Replaying a flush is harmless: when a batch whose scans all carry a client nonce was
  recorded, recording it again, with other scan ids at other times, succeeds, counts every scan
  as a duplicate and leaves all tables as they are.\<close>

theorem replayed_batch_changes_nothing:
  assumes "recordBatch E ctx company items 0 0 d = (Inr r, d')"
    and "\<forall>(i, u, now) \<in> set items. in_clientNonce i \<noteq> None"
    and "map fst again = map fst items" and "\<forall>(i, u, now) \<in> set again. scan_ok E (event_of i u now)"
    and "tenant_ok ctx company"
  shows "recordBatch E ctx company again 0 0 d' = (Inr (0, length items), d')"
proof -
  have "has_nonce d' i \<and> scan_ok E (event_of i u now)" if m: "(i, u, now) \<in> set again" for i u now
  proof -
    from m have "i \<in> set (map fst items)" unfolding assms(3) [symmetric] by force
    then obtain u' now' where "(i, u', now') \<in> set items" by auto
    with assms(1,2) m assms(4) show ?thesis by (auto intro: recordBatch_has_nonces)
  qed
  then have "recordBatch E ctx company again 0 0 d' = (Inr (0, 0 + length again), d')"
    by (intro recordBatch_replay) (use assms(5) in auto)
  moreover have "length again = length items" using assms(3) by (metis length_map)
  ultimately show ?thesis by simp
qed

definition toy_item :: "string \<Rightarrow> int \<Rightarrow> scan_input \<times> string \<times> int" where
  "toy_item uuid now = (scan_input_of ''user-1'' UNLOADING
     \<lparr>sd_pieceId = PIECE, sd_manifestId = Some HASH, sd_locationHint = None, sd_clientNonce = Some ''n-1''\<rparr>,
     uuid, now)"

lemma toy_item_run:
  "\<exists>d'. recordBatch toy_env (Tenant CO) (Some CO) [toy_item ''scan-1'' 6000] 0 0 (toy_db []) = (Inr (1, 0), d')"
  by (simp add: bindE_def toy_item_def
      scan_input_of_def record_scan_def event_of_def scan_ok_def toy_env_def well_formed_schema
      short_enough_def scan_append_def throw_if_def same_nonce_def toy_db_def stored_def
      empty_db_def put_row_def toy_doc_def Let_def)

theorem replayed_batch_changes_nothing_witness:
  "\<exists>d'. recordBatch toy_env (Tenant CO) (Some CO) [toy_item ''scan-1'' 6000] 0 0 (toy_db []) = (Inr (1, 0), d') \<and>
     recordBatch toy_env (Tenant CO) (Some CO) [toy_item ''scan-9'' 9000] 0 0 d' = (Inr (0, 1), d')"
proof -
  obtain d' where run: "recordBatch toy_env (Tenant CO) (Some CO) [toy_item ''scan-1'' 6000] 0 0 (toy_db []) =
    (Inr (1, 0), d')" using toy_item_run by blast
  have "recordBatch toy_env (Tenant CO) (Some CO) [toy_item ''scan-9'' 9000] 0 0 d' =
      (Inr (0, length [toy_item ''scan-1'' 6000]), d')"
    by (rule replayed_batch_changes_nothing [OF run])
      (simp_all add: toy_item_def scan_input_of_def event_of_def scan_ok_def toy_env_def
        well_formed_schema short_enough_def)
  with run show ?thesis by auto
qed

section \<open>Forks\<close>

text \<open>C17: The fork detector's verdict is the one the tables and the chain determine: unknown
  piece, a loading or unloading scan under another manifest, more than one manifest of the
  history in custody, a public sighting more than a minute after a closure the piece was
  missing from, else clean. Exactly one alert is written when the verdict is not clean and none
  otherwise; apart from alerts and the custody read model nothing changes.\<close>

theorem fork_verdict_is_determined:
  assumes "analyze E S now p w = (Inr a, w')" and "ids_ok (w_db w)"
  shows "fa_verdict a = fork_spec (sp_ctx S) p w \<and> fa_pieceId a = p \<and>
    length (db_alerts (w_db w')) = length (db_alerts (w_db w)) + (if fa_verdict a = CLEAN then 0 else 1) \<and>
    w_chain w' = w_chain w \<and> rest_of_db (w_db w') = rest_of_db (w_db w)"
  using analyze_spec [OF assms] by (simp add: alerts_of_def detector_frame_def)

lemma toy_ids_ok: "ids_ok (toy_db ss) \<longleftrightarrow> (\<forall>r \<in> set ss. \<forall>k. e_manifestId (sc_event r) = Some k \<longrightarrow> is_bytes32 k)"
  by (simp add: ids_ok_def toy_db_def stored_def empty_db_def toy_doc_def piece_ids_def)

lemma toy_clean:
  "\<exists>a w'. analyze toy_env toy_scope 14000 PIECE (toy_world full_count chain_custody) = (Inr a, w') \<and>
     fa_verdict a = CLEAN"
proof -
  have home: "findManifestByPiece (Tenant CO) PIECE (toy_db full_count) = Some HASH"
    by (simp add: findManifestByPiece_def toy_db_def stored_def empty_db_def toy_doc_def piece_ids_def)
  have hist: "byPiece (Tenant CO) PIECE (toy_db full_count) = [sc_event (toy_scan UNLOADING (Some HASH) 5000)]"
    by (simp add: byPiece_def visible_scans_def full_count_def toy_scan_def)
  have sync: "\<exists>d. sync toy_scope 14000 HASH (toy_world full_count chain_custody) =
      (Inr (record_of HASH carried), \<lparr>w_db = d, w_chain = chain_custody, w_audit = []\<rparr>)"
    using toy_sync [of chain_custody 14000 full_count] by (simp add: custody_facts carried_def toy_manifest_def)
  then obtain d where s1: "sync toy_scope 14000 HASH (toy_world full_count chain_custody) =
      (Inr (record_of HASH carried), \<lparr>w_db = d, w_chain = chain_custody, w_audit = []\<rparr>)" by blast
  have d: "d = (toy_db full_count)\<lparr>db_states := [new_state CO 14000 (record_of HASH carried)]\<rparr>"
    using s1 toy_sync [of chain_custody 14000 full_count] by (simp add: custody_facts carried_def toy_manifest_def)
  have s2: "\<exists>w'. sync toy_scope 14000 HASH \<lparr>w_db = d, w_chain = chain_custody, w_audit = []\<rparr> =
      (Inr (record_of HASH carried), w')"
    by (simp add: sync_eq upsert_state_def d bindE_def throw_if_def custody_facts new_state_def)
      (simp add: record_of_def carried_def toy_manifest_def)
  have seen: "manifests_seen [sc_event (toy_scan UNLOADING (Some HASH) 5000)] = [HASH]"
    by (simp add: manifests_seen_def List.map_filter_simps toy_scan_def truthy_def HASH_def)
  have foreign: "foreign_scans HASH [sc_event (toy_scan UNLOADING (Some HASH) 5000)] = []"
    by (simp add: foreign_scans_def toy_scan_def)
  have "w_db (toy_world full_count chain_custody) = toy_db full_count" by (simp add: toy_world_def)
  with s1 s2 show ?thesis
    by (auto simp: analyze_def bindE_def on_db_def home hist seen foreign closure_check_def finish_def
        verdict_on_def)
      (auto simp: record_of_def carried_def toy_manifest_def closure_check_def finish_def verdict_on_def Let_def)
qed

theorem fork_verdict_is_determined_witness:
  "\<exists>a w'. analyze toy_env toy_scope 14000 PIECE (toy_world full_count chain_custody) = (Inr a, w') \<and>
     fork_spec (Tenant CO) PIECE (toy_world full_count chain_custody) = CLEAN \<and> db_alerts (w_db w') = []"
proof -
  obtain a w' where run: "analyze toy_env toy_scope 14000 PIECE (toy_world full_count chain_custody) = (Inr a, w')"
    "fa_verdict a = CLEAN" using toy_clean by blast
  have ids: "ids_ok (w_db (toy_world full_count chain_custody))"
    by (simp add: toy_world_def toy_ids_ok full_count_def toy_scan_def)
  have "db_alerts (w_db (toy_world full_count chain_custody)) = []"
    by (simp add: toy_world_def toy_db_def stored_def empty_db_def)
  with fork_verdict_is_determined [OF run(1) ids] run show ?thesis by auto
qed

end
