(* ===== verification/Manifest_Properties.thy ===== *)
theory Manifest_Properties imports Samples begin

text \<open>
  Properties of manifests before they travel: the canonical text and the id computed from it, the
  minted piece ids, what creating a manifest leaves on the chain and in the tables, and what the
  custody read model and the loss attribution say of it afterwards.
\<close>

section \<open>The canonical text\<close>

text \<open>Two manifests that pass the schema have the same canonical text, the text whose hash is
  the manifest id, exactly when they declare the same goods: the same trip, booking,
  transporter, count, parties up to letter case and creation time, and the same pieces in any
  order.\<close>

theorem canonical_text_identifies:
  assumes "manifest_ok E m" and "manifest_ok E m'"
  shows "canonicalManifest m = canonicalManifest m' \<longleftrightarrow> same_goods m m'"
  using assms canonical_same_goods same_goods_canonical manifest_ok_numbers manifest_ok_distinct by blast

definition other_booking :: manifest where
  "other_booking = toy_doc\<lparr>m_bookingId := ''booking-2''\<rparr>"

lemma other_booking_ok: "manifest_ok toy_env other_booking"
  using toy_doc_ok by (simp add: manifest_ok_def other_booking_def toy_env_def piece_ids_def)

theorem canonical_text_identifies_witness: "canonicalManifest other_booking \<noteq> canonicalManifest toy_doc"
  using canonical_text_identifies [OF other_booking_ok toy_doc_ok]
  by (simp add: same_goods_def other_booking_def toy_doc_def BOOKING_def)

section \<open>Piece ids\<close>




text \<open>Swapping two different neighbouring characters of an id body always changes its check
  digit, and so does replacing one character at an odd position of the body.\<close>

theorem check_digit_detects:
  assumes "a \<in> set ALPHABET" and "b \<in> set ALPHABET" and "a \<noteq> b"
  shows "checkDigit (''DTD-'' @ xs @ a # b # ys) \<noteq> checkDigit (''DTD-'' @ xs @ b # a # ys) \<and>
    (even (length xs) \<longrightarrow> checkDigit (''DTD-'' @ xs @ a # ys) \<noteq> checkDigit (''DTD-'' @ xs @ b # ys))"
  using checkDigit_transposition [OF assms] checkDigit_substitution [OF assms] by blast

theorem check_digit_detects_witness:
  "checkDigit ''DTD-AB00000000'' \<noteq> checkDigit ''DTD-BA00000000'' \<and>
   checkDigit ''DTD-A000000000'' \<noteq> checkDigit ''DTD-B000000000''"
  using check_digit_detects [of "CHR ''A''" "CHR ''B''" "[]" "''00000000''"]
    check_digit_detects [of "CHR ''A''" "CHR ''B''" "[]" "''000000000''"]
  by (simp add: ALPHABET_def)

section \<open>Creating a manifest\<close>




text \<open>A request that names every one of its pieces itself can never be built: minting zero ids
  is an error, so the build fails with \<open>PIECE_COUNT_MUST_BE_POSITIVE\<close>, before the chain or the
  tables are touched, whatever the pieces are.\<close>

theorem all_explicit_pieces_are_refused:
  assumes "b_pieces input = Some ps" and "ps \<noteq> []" and "\<forall>p \<in> set ps. truthy (pi_pieceId p)"
    and "getByBooking E ctx (b_bookingId input) (w_db w) = (Inr None, w_db w)"
  shows "build E ctx company now tx blocks input w = (Inl (Error ''PIECE_COUNT_MUST_BE_POSITIVE''), w)"
proof -
  from assms(3) have "filter (\<lambda>q. \<not> truthy (pi_pieceId q)) ps = []" by (simp add: filter_empty_conv)
  with assms(1,2) have "resolvePieces blocks input = Inl (Error ''PIECE_COUNT_MUST_BE_POSITIVE'')"
    by (cases ps) (auto simp: resolvePieces_def mint_ids_def generatePieceIds_def)
  with assms(4) show ?thesis
    by (simp add: build_def bindE_def on_db_def throw_if_def from_sum_def)
qed

definition named_input :: build_input where
  "named_input = (build_input_of CO toy_request)
     \<lparr>b_pieces := Some [\<lparr>pi_pieceId = Some PIECE, pi_sku = None, pi_weightKg = None\<rparr>]\<rparr>"

theorem all_explicit_pieces_are_refused_witness:
  "build toy_env (Tenant CO) CO 0 ''0xtx'' [] named_input fresh_world =
     (Inl (Error ''PIECE_COUNT_MUST_BE_POSITIVE''), fresh_world)"
  by (rule all_explicit_pieces_are_refused [where ps = "[\<lparr>pi_pieceId = Some PIECE, pi_sku = None, pi_weightKg = None\<rparr>]"])
    (simp_all add: named_input_def truthy_iff PIECE_def getByBooking_def select_manifest_def
      fresh_world_def empty_db_def)

section \<open>After the journey\<close>

text \<open>When a shortage is attributed over a reachable chain, a manifest delivered short gives the
  exact number of lost pieces, which is positive, bounds the loss to the transit window and holds
  the driver liable; any other manifest gives no loss and no liable party.\<close>

theorem loss_attribution:
  assumes "attributeLoss E S now k w = (Inr l, w')" and "is_bytes32 k" and "reachable_chain E (w_chain w)"
  defines "m \<equiv> ch_manifests (w_chain w) k"
  shows "if cm_status m = Short
    then l_lost l = int (unat (cm_pieceCount m)) - int (unat (cm_deliveredCount m)) \<and> 0 < l_lost l \<and>
      l_window l = W_TRANSIT \<and> l_liableRole l = L_DRIVER
    else l_lost l = 0 \<and> l_liableRole l = L_UNDETERMINED"
proof -
  obtain f where l: "l = loss_of E (record_of k m) f"
    using attributeLoss_success [OF assms(1,2)] by (auto simp: m_def)
  have "manifest_inv E k m"
    using reachable_chain_inv [OF assms(3)] by (simp add: chain_inv_def m_def)
  from loss_of_spec [OF this, of f] show ?thesis unfolding l .
qed

lemma toy_attribution:
  "\<exists>w'. attributeLoss toy_env toy_scope now HASH (toy_world [] chain_short) =
     (Inr (loss_of toy_env (record_of HASH (ch_manifests chain_short HASH)) (Some toy_doc)), w')"
proof -
  have same: "get_manifest toy_env ctx k (d\<lparr>db_states := ss\<rparr>) =
      (fst (get_manifest toy_env ctx k d), d\<lparr>db_states := ss\<rparr>)" for ctx k d ss
    by (simp add: get_manifest_def select_manifest_def row_manifest_def piecesFor_def split: option.split)
  have "cm_deliveredCount (ch_manifests chain_short HASH) \<le> cm_pieceCount (ch_manifests chain_short HASH)"
    by (simp add: short_facts carried_def toy_manifest_def)
  from toy_sync [OF this, of now "[]"] show ?thesis
    by (simp add: attributeLoss_def bindE_def on_db_def same toy_get)
qed

theorem loss_attribution_witness:
  "\<exists>l w'. attributeLoss toy_env toy_scope 14000 HASH (toy_world [] chain_short) = (Inr l, w') \<and>
     l_lost l = 1 \<and> l_liableRole l = L_DRIVER"
proof -
  obtain l w' where run: "attributeLoss toy_env toy_scope 14000 HASH (toy_world [] chain_short) = (Inr l, w')"
    using toy_attribution by blast
  have c: "w_chain (toy_world [] chain_short) = chain_short" by (simp add: toy_world_def)
  have "reachable_chain toy_env (w_chain (toy_world [] chain_short))"
    using stages_reachable(6) by (simp add: c)
  from loss_attribution [OF run toy_hex(1) this] have "l_lost l = 1 \<and> l_liableRole l = L_DRIVER"
    by (simp add: c short_facts carried_def toy_manifest_def)
  with run show ?thesis by blast
qed

text \<open>C32: Synchronising the read model of an anchored manifest refines the chain: the record it returns is the chain's
  manifest, the store gives the same record back, the chain is untouched, and the store's
  invariant (one row per manifest, never for an unknown one, with the chain's piece count) is
  kept.\<close>

theorem read_model_refines_chain:
  assumes "sync S now k w = (Inr rec, w')" and "is_bytes32 k" and "states_ok w"
    and "cm_status (ch_manifests (w_chain w) k) \<noteq> SNone"
  shows "rec = record_of k (ch_manifests (w_chain w) k) \<and> w_chain w' = w_chain w \<and>
    get_state (sp_ctx S) k (w_db w') = Some rec \<and> states_ok w'"
proof -
  obtain d where "rec = record_of k (ch_manifests (w_chain w) k)" "w' = w\<lparr>w_db := d\<rparr>"
    using sync_success [OF assms(1,2)] by blast
  moreover from this have "w_chain w' = w_chain w" by simp
  ultimately show ?thesis
    using sync_reads_back [OF assms(1-3)] sync_states_ok [OF assms] by blast
qed

theorem read_model_refines_chain_witness:
  "\<exists>w'. sync toy_scope 0 HASH (toy_world [] chain_delivered) = (Inr (record_of HASH (ch_manifests chain_delivered HASH)), w') \<and>
     get_state (Tenant CO) HASH (w_db w') = Some (record_of HASH (ch_manifests chain_delivered HASH))"
proof -
  have le: "cm_deliveredCount (ch_manifests chain_delivered HASH) \<le> cm_pieceCount (ch_manifests chain_delivered HASH)"
    by (simp add: delivered_facts carried_def toy_manifest_def)
  have ok: "states_ok (toy_world [] chain_delivered)"
    by (simp add: states_ok_def toy_world_def toy_db_def stored_def empty_db_def)
  note run = toy_sync [OF le, of 0 "[]"]
  from read_model_refines_chain [OF run toy_hex(1) ok] run show ?thesis
    unfolding scope_simps toy_world_def world.simps delivered_facts carried_def toy_manifest_def by fastforce
qed

end
