(* ===== verification/Signing_Properties.thy ===== *)
theory Signing_Properties imports Samples begin

text \<open>
  Properties of the signing path and of the public page: one-time codes, keys and signatures,
  cosign links, what a visitor of the verify page sees and leaves behind, and the one verdict of
  the fork detector that cannot come up.
\<close>

section \<open>One-time codes\<close>

text \<open>C34: A code is accepted only in the system context, for a live challenge of that phone that has
  not expired, has fewer than five wrong attempts and was issued for exactly this code; once
  accepted, no code whatsoever is accepted for the phone until a new one is issued, and the table
  stays as it is.\<close>

theorem accepted_code_is_single_use:
  assumes "otps_ok d" and "otp_verify h ctx now phone tok d = (Inr True, d')"
  shows "ctx = System \<and>
    (\<exists>row \<in> set (db_otps d). live phone row \<and> now \<le> otp_expires_at row \<and>
       otp_attempts row < OTP_MAX_ATTEMPTS \<and> otp_code_hash row = hashCode h phone tok) \<and>
    (\<forall>ctx' now' tok'. otp_verify h ctx' now' phone tok' d' = (Inr False, d'))"
  using otp_verify_true [OF assms] otp_verify_dead by blast

theorem accepted_code_is_single_use_witness:
  "otp_verify (sha256_hex toy_env) System 0 PHONE ''123456'' (toy_db []) = (Inr True, after_code [] 0) \<and>
   otp_verify (sha256_hex toy_env) System 1 PHONE ''123456'' (after_code [] 0) = (Inr False, after_code [] 0)"
  using accepted_code_is_single_use [OF toy_otps_ok toy_verify [of 0 "[]"]] toy_verify [of 0 "[]"] by simp

text \<open>Guessing is capped: after a code was issued and five or more wrong codes were tried and
  committed, even the right code is refused.\<close>

theorem guessing_is_capped:
  assumes "otps_ok d" and "otp_issue h prod_mode System now rnd phone d = (Inr t, d1)"
    and "\<forall>g \<in> set gs. hashCode h phone g \<noteq> hashCode h phone (otp_code rnd)"
    and "OTP_MAX_ATTEMPTS \<le> length gs"
  shows "fst (otp_verify h System now' phone (otp_code rnd) (guesses h now' phone gs d1)) = Inr False"
  by (rule attempts_capped [OF assms])

lemma toy_issue: "\<exists>d1. otp_issue (sha256_hex toy_env) False System 0 7 PHONE (toy_db []) = (Inr OTP_TTL_MS, d1)"
  by (simp add: otp_issue_def bindE_def update_otps_def toy_otps toy_otp_def live_def consume_def throw_if_def
      console_send_def)

theorem guessing_is_capped_witness:
  "\<exists>d1. otp_issue (sha256_hex toy_env) False System 0 7 PHONE (toy_db []) = (Inr OTP_TTL_MS, d1) \<and>
     fst (otp_verify (sha256_hex toy_env) System 1 PHONE (otp_code 7)
       (guesses (sha256_hex toy_env) 1 PHONE (replicate 5 ''000000'') d1)) = Inr False"
proof -
  obtain d1 where iss: "otp_issue (sha256_hex toy_env) False System 0 7 PHONE (toy_db []) = (Inr OTP_TTL_MS, d1)"
    using toy_issue by blast
  have "show_nat 7 = ''7''" by (subst show_nat.simps) (simp add: char_of_def bit_0)
  then have "''000000'' \<noteq> otp_code 7" by (simp add: otp_code_def OTP_DIGITS_def numeral_eq_Suc)
  then have "\<forall>g \<in> set (replicate 5 ''000000''). hashCode (sha256_hex toy_env) PHONE g \<noteq>
      hashCode (sha256_hex toy_env) PHONE (otp_code 7)"
    by (simp add: hashCode_def toy_env_def)
  from guessing_is_capped [OF toy_otps_ok iss this] iss show ?thesis by (auto simp: OTP_MAX_ATTEMPTS_def)
qed

section \<open>Keys and signatures\<close>

text \<open>When the cipher decrypts what it encrypted and signatures recover to the signer's address,
  a key minted for a phone signs for the address that was handed out: every later signature the
  service makes for that phone recovers to it.\<close>

theorem minted_key_signs_for_its_address:
  assumes "cipher_ok E" and "signatures_recover E" and "keys_in_db ctx d p = None"
    and "ensureKey E (pg_deps E ctx now) priv iv now p d = (Inr a, d')"
    and "signDigest E (pg_deps E ctx now') now' p tok h d' = (Inr sig, d'')"
  shows "recover E h sig = Inr (to_lower a)"
proof -
  from fresh_key_ok [OF assms(1,4,3)] obtain r where
    r: "keys_in_db ctx d' p = Some r" "key_ok E r" "k_address r = a" by blast
  from pgs.signDigest_success [OF assms(5)] r(1) obtain q where
    "decrypt E r = Inr q" "sig = sign_message E q h" by auto
  with signature_recovers [OF assms(2) r(2)] r(3) show ?thesis by simp
qed

lemma toy_cipher: "cipher_ok toy_env"
  by (simp add: cipher_ok_def toy_env_def)

lemma norm_key_facts: "length (norm_key p) = 40" "to_lower (norm_key p) = norm_key p"
  "CHR ''0'' \<notin> set (norm_key p)"
proof -
  show "length (norm_key p) = 40" by (simp add: norm_key_def hex40_def)
  have n: "norm_char c \<noteq> CHR ''0'' \<and> to_lower_char (norm_char c) = norm_char c" for c
    by (auto simp: norm_char_def in_range_def to_lower_char_def Let_def)
  then show "to_lower (norm_key p) = norm_key p" "CHR ''0'' \<notin> set (norm_key p)"
    by (simp_all add: norm_key_def to_lower_def image_iff) (metis n)
qed

lemma toy_recovers: "signatures_recover toy_env"
  unfolding signatures_recover_def
proof (intro allI)
  fix p h
  let ?sig = "norm_key p @ replicate 25 (CHR ''a'')"
  have "take 40 (take 32 s @ take 32 (drop 32 s)) = take 40 s" for s :: string
    using take_add [of 32 32 s] by (simp add: take_take min_def flip: take_add)
  then have k: "take 40 (take 32 ?sig @ take 32 (drop 32 ?sig)) = norm_key p"
    by (simp add: norm_key_facts)
  have low: "to_lower (''0x'' @ norm_key p) = ''0x'' @ norm_key p"
    using norm_key_facts(2) [of p] by (simp add: to_lower_def to_lower_char_def Let_def)
  have "hd (norm_key p) \<noteq> CHR ''0''" using norm_key_facts [of p] by (metis hd_in_set length_0_conv zero_neq_numeral)
  then have z: "''0x'' @ norm_key p \<noteq> zero_address"
    by (auto simp: zero_address_def numeral_eq_Suc)
  show "recover toy_env h (sign_message toy_env p h) = Inr (to_lower (account_address toy_env p))"
    using k z low norm_key_facts(1) [of p] by (simp add: recover_def toy_env_def Let_def)
qed

definition no_keys :: db where
  "no_keys = (toy_db [])\<lparr>db_keys := []\<rparr>"

lemma toy_minted:
  "\<exists>d'. ensureKey toy_env (pg_deps toy_env System 0) (hex40 (CHR ''1'')) ''iv'' 0 PHONE no_keys =
       (Inr LOADER, d') \<and> db_otps d' = [toy_otp 100000] \<and>
     keys_in_db System d' PHONE = Some \<lparr>k_phone = PHONE, k_address = LOADER, k_encKey = base64 (hex40 (CHR ''1'')),
       k_iv = base64 ''iv'', k_authTag = base64 ''t'', k_createdAt = 0, k_exportedAt = None\<rparr>"
proof -
  have key: "norm_key (hex40 (CHR ''1'')) = hex40 (CHR ''1'')"
    by (simp add: norm_key_def hex40_def norm_char_def in_range_def)
  have a: "account_address toy_env (hex40 (CHR ''1'')) = LOADER"
    using key by (simp add: toy_env_def LOADER_def addr_def)
  have e: "encrypt toy_env ''iv'' (hex40 (CHR ''1'')) = Inr (base64 (hex40 (CHR ''1'')), base64 ''iv'', base64 ''t'')"
    by (simp add: encrypt_def masterKey_def toy_env_def)
  have phone: "is_e164 PHONE" by (simp add: is_e164_def PHONE_def in_range_def)
  have ad: "is_address LOADER" by (simp add: LOADER_def)
  show ?thesis
    by (simp add: ensureKey_def bindE_def pg_deps_def pg_get_key_def no_keys_def a e lift_sum_def
        pg_put_key_def throw_if_def phone ad pg_audit_def keys_in_db_def toy_otps)
qed

theorem minted_key_signs_for_its_address_witness:
  "\<exists>d' sig d''. ensureKey toy_env (pg_deps toy_env System 0) (hex40 (CHR ''1'')) ''iv'' 0 PHONE no_keys =
       (Inr LOADER, d') \<and>
     signDigest toy_env (pg_deps toy_env System 1) 1 PHONE ''123456'' HASH d' = (Inr sig, d'') \<and>
     recover toy_env HASH sig = Inr LOADER"
proof -
  obtain d' where mint: "ensureKey toy_env (pg_deps toy_env System 0) (hex40 (CHR ''1'')) ''iv'' 0 PHONE no_keys =
      (Inr LOADER, d')" "db_otps d' = [toy_otp 100000]"
    and key: "keys_in_db System d' PHONE = Some \<lparr>k_phone = PHONE, k_address = LOADER, k_encKey = base64 (hex40 (CHR ''1'')),
       k_iv = base64 ''iv'', k_authTag = base64 ''t'', k_createdAt = 0, k_exportedAt = None\<rparr>"
    using toy_minted by blast
  have v: "\<exists>e. otp_verify (sha256_hex toy_env) System 1 PHONE ''123456'' d' = (Inr True, e) \<and> db_keys e = db_keys d'"
    by (simp add: otp_verify_run mint(2) toy_otp_def live_def OTP_MAX_ATTEMPTS_def)
  have "\<exists>sig d''. signDigest toy_env (pg_deps toy_env System 1) 1 PHONE ''123456'' HASH d' = (Inr sig, d'')"
    using v key
    by (auto simp: signDigest_def bindE_def pg_deps_def throw_if_def pg_get_key_def keys_in_db_def need_def
        lift_sum_def decrypt_def masterKey_def toy_env_def pg_audit_def Let_def)
  then obtain sig d'' where sign: "signDigest toy_env (pg_deps toy_env System 1) 1 PHONE ''123456'' HASH d' = (Inr sig, d'')"
    by blast
  have none: "keys_in_db System no_keys PHONE = None" by (simp add: keys_in_db_def no_keys_def)
  from minted_key_signs_for_its_address [OF toy_cipher toy_recovers none mint(1) sign] mint(1) sign
  show ?thesis by (auto simp: LOADER_def)
qed

section \<open>Cosign links\<close>

text \<open>A cosign link opens as the token it was issued for until its expiry and not after it, and
  whatever opens carries the seal of the service's secret over a payload that reads as that
  token, which has not expired.\<close>

theorem cosign_link_is_authentic:
  assumes "mac_shape (cc_mac C)"
  shows "decode C now (encode C t) =
      (if ct_expiresAt t < now then Inl (Error ''TOKEN_EXPIRED'') else Inr t) \<and>
    (\<forall>enc t'. decode C now enc = Inr t' \<longrightarrow> now \<le> ct_expiresAt t' \<and>
       (\<exists>p rest. split_dot enc = p # cc_mac C (cc_secret C) p # rest \<and>
          Option.bind (parse (b64url_decode p)) token_of_json = Some t'))"
  using decode_encode [OF assms] decode_sound by blast

definition toy_conf :: cosign_conf where
  "toy_conf = \<lparr>cc_mac = (\<lambda>k t. ''seal''), cc_secret = ''s'', cc_baseUrl = ''https://dtd.example''\<rparr>"

definition toy_token :: "string \<Rightarrow> cosign_token" where
  "toy_token k = \<lparr>ct_manifestId = k, ct_role = loader, ct_phone = PHONE, ct_nonce = ''n'', ct_expiresAt = 50000\<rparr>"

lemma toy_shape: "mac_shape (cc_mac toy_conf)"
  by (simp add: mac_shape_def toy_conf_def)

theorem cosign_link_is_authentic_witness:
  "decode toy_conf 11000 (encode toy_conf (toy_token HASH)) = Inr (toy_token HASH) \<and>
   decode toy_conf 50001 (encode toy_conf (toy_token HASH)) = Inl (Error ''TOKEN_EXPIRED'')"
  using cosign_link_is_authentic [OF toy_shape, of 11000 "toy_token HASH"]
    cosign_link_is_authentic [OF toy_shape, of 50001 "toy_token HASH"]
  by (simp add: toy_token_def)

text \<open>C35: A confirmation that succeeds acted on an authentic token whose manifest was still in
  status Created, signed with the key of the token's phone, whose signature recovers to the
  party the chain declares for that role, marks that party as signed on the chain, and is
  logged.\<close>

theorem confirmation_signs_for_the_declared_party:
  assumes "submitConfirmation E C now tx enc otp s = (Inr (k, role, r), s')"
  shows "\<exists>t k'. decode C now enc = Inr t \<and> k = ct_manifestId t \<and> role = ct_role t \<and>
    abi_bytes32 k = Some k' \<and>
    cm_status (ch_manifests (w_chain (cw_world s)) k') = Created \<and>
    party_signed role (ch_manifests (w_chain (cw_world s')) k') \<and>
    (\<exists>rec priv. keys_in_db System (w_db (cw_world s)) (ct_phone t) = Some rec \<and>
       decrypt E rec = Inr priv \<and>
       recover E (loadingDigest E k') (sign_message E priv (loadingDigest E k')) =
         Inr (party role (ch_manifests (w_chain (cw_world s)) k'))) \<and>
    cw_log s' = cw_log s @ [\<lparr>ce_manifestId = k, ce_role = role, ce_phone = ct_phone t,
      ce_action = CS_SIGNED, ce_reason = None, ce_at = now\<rparr>]"
  using submitConfirmation_success [OF assms] by blast

definition loader_key :: key_record where
  "loader_key = toy_key\<lparr>k_address := LOADER, k_encKey := base64 (hex40 (CHR ''1''))\<rparr>"

definition loader_world :: cosign_world where
  "loader_world = \<lparr>cw_world = \<lparr>w_db = (toy_db [])\<lparr>db_keys := [loader_key]\<rparr>, w_chain = chain_created, w_audit = []\<rparr>,
     cw_outbox = [], cw_log = []\<rparr>"

lemma loader_signs:
  "\<exists>d. signDigest toy_env (signer toy_env 11000) 11000 PHONE ''123456'' h ((toy_db [])\<lparr>db_keys := [loader_key]\<rparr>) =
     (Inr (toy_sig (CHR ''1'')), d)"
proof -
  have key: "norm_key (hex40 (CHR ''1'')) = hex40 (CHR ''1'')"
    by (simp add: norm_key_def hex40_def norm_char_def in_range_def)
  have sig: "sign_message toy_env (hex40 (CHR ''1'')) h = toy_sig (CHR ''1'')"
    using key by (simp add: toy_env_def toy_sig_def)
  have dec: "decrypt toy_env loader_key = Inr (hex40 (CHR ''1''))"
    by (simp add: decrypt_def masterKey_def toy_env_def loader_key_def toy_key_def)
  have "otp_verify (sha256_hex toy_env) System 11000 PHONE ''123456'' ((toy_db [])\<lparr>db_keys := [loader_key]\<rparr>) =
      (Inr True, (toy_db [])\<lparr>db_keys := [loader_key], db_otps := [consume 11000 (toy_otp 100000)]\<rparr>)"
    by (simp add: otp_verify_run toy_otps toy_otp_def live_def OTP_MAX_ATTEMPTS_def consume_def)
  moreover have "k_phone loader_key = PHONE" by (simp add: loader_key_def toy_key_def)
  ultimately show ?thesis
    by (simp add: signDigest_def signer_def pg_deps_def bindE_def throw_if_def pg_get_key_def need_def
        lift_sum_def dec sig pg_audit_def Let_def)
qed

lemma loader_confirms:
  "\<exists>s'. submitConfirmation toy_env toy_conf 11000 tx (encode toy_conf (toy_token HASH)) ''123456'' loader_world =
     (Inr (HASH, loader, tx), s')"
proof -
  have dec: "decode toy_conf 11000 (encode toy_conf (toy_token HASH)) = Inr (toy_token HASH)"
    using decode_encode [OF toy_shape, of 11000 "toy_token HASH"] by (simp add: toy_token_def)
  have tok: "ct_manifestId (toy_token k) = k" "ct_phone (toy_token k) = PHONE" "ct_role (toy_token k) = loader" for k
    by (simp_all add: toy_token_def)
  have msg: "platform_msg toy_env t = at_time t" for t
    by (simp add: platform_msg_def at_time_def toy_env_def)
  obtain d where s: "signDigest toy_env (signer toy_env 11000) 11000 PHONE ''123456'' (loadingDigest toy_env HASH)
      ((toy_db [])\<lparr>db_keys := [loader_key]\<rparr>) = (Inr (toy_sig (CHR ''1'')), d)"
    using loader_signs by blast
  have sub: "submitSignature toy_env 11 tx loader HASH (toy_sig (CHR ''1'')) chain_created = (Inr tx, chain_loaded)"
    by (simp add: submitSignature_def bindE_def need_def lower_bytes32 msg send_def loaded_run)
  show ?thesis
    using s sub
    by (simp add: submitConfirmation_def bindE_def lift_sum_def dec tok lift_world_def on_chain_def on_db_def
        getLoadingDigest_def need_def lower_bytes32 loader_world_def rethrowing_def cosign_log_def)
qed

theorem confirmation_signs_for_the_declared_party_witness:
  "\<exists>s'. submitConfirmation toy_env toy_conf 11000 ''0xtx'' (encode toy_conf (toy_token HASH)) ''123456'' loader_world =
       (Inr (HASH, loader, ''0xtx''), s') \<and> cm_loaderSigned (ch_manifests (w_chain (cw_world s')) HASH)"
proof -
  obtain s' where run: "submitConfirmation toy_env toy_conf 11000 ''0xtx'' (encode toy_conf (toy_token HASH)) ''123456''
      loader_world = (Inr (HASH, loader, ''0xtx''), s')" using loader_confirms by blast
  from confirmation_signs_for_the_declared_party [OF run] lower_bytes32 [OF toy_hex(1)] run
  show ?thesis by (auto simp: party_signed_def)
qed

section \<open>The public page\<close>

text \<open>A visit to the verify page with a well-formed code is within the rate limit, adds exactly
  one scan to the log, unbound to any manifest and with a location of at most 120 characters that
  shows no precise coordinate, and shows nothing but the status the tables and the chain
  determine: unknown for a code nobody issued, flagged for any verdict but clean, delivered
  or in transit as the chain has it otherwise.\<close>

theorem public_answer_is_determined_and_coarse:
  assumes "verify E my S now uuid allowed P w = (Inr resp, w')"
    and "isWellFormedPieceId (to_upper (trim (vp_pieceId P)))" and "ids_ok (w_db w)"
  defines "p \<equiv> to_upper (trim (vp_pieceId P))"
  shows "allowed \<and>
    (\<exists>row. db_scans (w_db w') = db_scans (w_db w) @ [row] \<and> e_pieceId (sc_event row) = p \<and>
       e_manifestId (sc_event row) = None \<and>
       (\<forall>t. e_locationHint (sc_event row) = Some t \<longrightarrow> length t \<le> 120 \<and> \<not> has_coordinate t) \<and>
       (\<exists>w1. w_db w1 = (w_db w)\<lparr>db_scans := db_scans (w_db w) @ [row]\<rparr> \<and> w_chain w1 = w_chain w \<and>
          pr_status resp =
            (case fork_spec (sp_ctx S) p w1 of
               UNKNOWN_PIECE \<Rightarrow> PUBLIC_UNKNOWN
             | CLEAN \<Rightarrow>
                 (if cm_status (ch_manifests (w_chain w)
                       (the (findManifestByPiece (sp_ctx S) p (w_db w)))) \<in> {Delivered, Short}
                  then GENUINE_DELIVERED else GENUINE_IN_TRANSIT)
             | _ \<Rightarrow> FLAGGED)))"
proof -
  let ?row = "\<lparr>sc_event = event_of (public_scan P p) uuid now, sc_company_id = sp_alert_company S,
        sc_recorded_at = now\<rparr>"
  have hint: "length t \<le> 120 \<and> \<not> has_coordinate t" if "e_locationHint (sc_event ?row) = Some t" for t
    using that coarsen_safe coarsen_no_coordinate by (auto simp: event_of_def public_scan_def)
  have row: "e_pieceId (sc_event ?row) = p" "e_manifestId (sc_event ?row) = None"
    by (simp_all add: event_of_def public_scan_def)
  note v = verify_success [OF assms(1) assms(2) refl assms(3), folded p_def]
  then have grow: "db_scans (w_db w') = db_scans (w_db w) @ [?row]" by blast
  show ?thesis
    using v row hint unfolding grow by blast
qed

definition visit :: verify_params where
  "visit = \<lparr>vp_pieceId = PIECE, vp_locationHint = Some ''19.0760, 72.8777'', vp_partnerId = None\<rparr>"

definition empty_world :: world where
  "empty_world = \<lparr>w_db = empty_db, w_chain = chain_open, w_audit = []\<rparr>"

lemma piece_upper: "to_upper (trim PIECE) = PIECE"
  by code_simp

definition unknown_piece_alert :: alert where
  "unknown_piece_alert = \<lparr>a_kind = FORK_PREFIX @ ''UNKNOWN_PIECE'', a_manifestId = UNKNOWN,
     a_pieceId = Some PIECE, a_narrative = None, a_severity = ''CRITICAL''\<rparr>"

lemma unknown_alert:
  "raise_alert (Tenant CO) (Some CO) 14000 unknown_piece_alert (empty_db\<lparr>db_scans := ss\<rparr>) =
     (Inr (), empty_db\<lparr>db_scans := ss,
        db_alerts := [alert_row_of (Some CO) 14000 unknown_piece_alert ''UNKNOWN_PIECE'' 1]\<rparr>)"
  using raise_fork [of "''UNKNOWN_PIECE''" unknown_piece_alert "Tenant CO" "Some CO" "empty_db\<lparr>db_scans := ss\<rparr>"]
  by (simp add: fork_verdicts_def empty_db_def unknown_piece_alert_def)

lemma unknown_visit:
  "\<exists>resp w'. verify toy_env my toy_scope 14000 ''scan-1'' True visit empty_world = (Inr resp, w')"
proof -
  have ok: "scan_ok toy_env (event_of (public_scan visit PIECE) ''scan-1'' 14000)"
  proof -
    have "coarsen (vp_locationHint visit) = None" by code_simp
    then show ?thesis
      by (simp add: scan_ok_def event_of_def public_scan_def toy_env_def short_enough_def well_formed_schema)
  qed
  have home: "findManifestByPiece (Tenant CO) PIECE (empty_db\<lparr>db_scans := ss\<rparr>) = None"
    "findManifestByPiece (Tenant CO) PIECE (empty_db\<lparr>db_scans := ss, db_alerts := as\<rparr>) = None" for ss as
    by (simp_all add: findManifestByPiece_def empty_db_def)
  have v: "vp_pieceId visit = PIECE" by (simp add: visit_def)
  obtain r d where rec: "record_scan toy_env (Tenant CO) (Some CO) (public_scan visit PIECE) ''scan-1'' 14000 empty_db = (Inr r, d)"
    using ok by (auto simp: record_scan_def bindE_def throw_if_def scan_append_def empty_db_def Let_def
        event_of_def public_scan_def same_nonce_def)
  note d = public_scan_recorded [OF rec]
  show ?thesis
    by (simp add: verify_def Let_def v piece_upper throw_if_def bindE_def on_db_def rec d empty_world_def
        analyze_def home finish_def verdict_on_def fork_alert_def unknown_alert [unfolded unknown_piece_alert_def])
qed

theorem public_answer_is_determined_and_coarse_witness:
  "\<exists>resp w'. verify toy_env (\<lambda>_. ''month'') toy_scope 14000 ''scan-1'' True visit empty_world = (Inr resp, w') \<and>
     pr_status resp = PUBLIC_UNKNOWN \<and> length (db_scans (w_db w')) = 1"
proof -
  obtain resp w' where run: "verify toy_env (\<lambda>_. ''month'') toy_scope 14000 ''scan-1'' True visit empty_world = (Inr resp, w')"
    using unknown_visit by blast
  have v: "vp_pieceId visit = PIECE" by (simp add: visit_def)
  have ids: "ids_ok (w_db empty_world)" by (simp add: ids_ok_def empty_world_def empty_db_def)
  have spec: "fork_spec (Tenant CO) PIECE w1 = UNKNOWN_PIECE" if "w_db w1 = (w_db empty_world)\<lparr>db_scans := ss\<rparr>" for w1 ss
    using that by (simp add: fork_spec_def findManifestByPiece_def empty_world_def empty_db_def Let_def)
  have "db_scans (w_db empty_world) = []" by (simp add: empty_world_def empty_db_def)
  with public_answer_is_determined_and_coarse [OF run _ ids] v piece_upper piece_well_formed spec
  have "pr_status resp = PUBLIC_UNKNOWN \<and> length (db_scans (w_db w')) = 1" by auto
  with run show ?thesis by blast
qed

section \<open>A verdict that cannot come up\<close>

text \<open>As long as public and partner scans carry no manifest, which is how the verify page records
  them, the detector never answers \<open>DUPLICATE_LIFE\<close>: a second live manifest among a piece's scans
  is a foreign loading or unloading scan first, and is reported as \<open>NOT_ON_MANIFEST\<close>.\<close>

theorem duplicate_life_is_unreachable:
  assumes "analyze E S now p w = (Inr a, w')" and "ids_ok (w_db w)" and "public_scans_unbound (w_db w)"
  shows "fa_verdict a \<noteq> DUPLICATE_LIFE"
  using analyze_spec [OF assms(1,2)] never_duplicate_life [OF assms(2,3)] by simp

definition issued_elsewhere :: world where
  "issued_elsewhere = \<lparr>w_db = empty_db\<lparr>db_scans := [toy_scan PUBLIC_VERIFY None 5000]\<rparr>, w_chain = chain_open, w_audit = []\<rparr>"

theorem duplicate_life_is_unreachable_witness:
  "\<exists>a w'. analyze toy_env toy_scope 14000 PIECE issued_elsewhere = (Inr a, w') \<and> fa_verdict a \<noteq> DUPLICATE_LIFE"
proof -
  have home: "findManifestByPiece (Tenant CO) PIECE (empty_db\<lparr>db_scans := ss\<rparr>) = None" for ss
    by (simp add: findManifestByPiece_def empty_db_def)
  have "\<exists>a w'. analyze toy_env toy_scope 14000 PIECE issued_elsewhere = (Inr a, w')"
    by (simp add: issued_elsewhere_def analyze_def bindE_def on_db_def home finish_def verdict_on_def
        fork_alert_def unknown_alert [unfolded unknown_piece_alert_def])
  then obtain a w' where run: "analyze toy_env toy_scope 14000 PIECE issued_elsewhere = (Inr a, w')" by blast
  have ok: "ids_ok (w_db issued_elsewhere)" "public_scans_unbound (w_db issued_elsewhere)"
    by (simp_all add: ids_ok_def public_scans_unbound_def issued_elsewhere_def empty_db_def toy_scan_def)
  from duplicate_life_is_unreachable [OF run ok] run show ?thesis by blast
qed

end
