(* ===== verification/Guards.thy ===== *)
theory Guards imports Access_Tokens begin

text \<open>
  \<open>identity/rbac/guards.ts\<close>: the guard every route passes. The metadata the decorators
  attach to a handler are the fields of \<open>route\<close>; the outcome is the request's actor, or no
  actor on a public route, or the HTTP error.
\<close>

record route =
  rt_public :: bool
  rt_module :: "platform_module option"
  rt_permission :: "permission option"
  rt_any :: "permission list option"
  rt_roles :: "role list option"

datatype http_error =
    Http401 string
  | Http402 string platform_module
  | Http403 string

fun join_comma :: "string list \<Rightarrow> string" where
  "join_comma [] = []"
| "join_comma [x] = x"
| "join_comma (x # y # xs) = x @ '', '' @ join_comma (y # xs)"

definition actor_of :: "claims \<Rightarrow> actor" where
  "actor_of c = \<lparr>actor_userId = cl_sub c, actor_companyId = cl_companyId c,
                 actor_role = cl_role c, actor_modules = cl_modules c\<rparr>"

text \<open>The checks of the \<open>try\<close> block, in its order.\<close>

definition authorize :: "route \<Rightarrow> actor \<Rightarrow> auth_error + unit" where
  "authorize rt a =
     and_then (when_given (rt_module rt) (assertModule a))
      (and_then
        (when_given (rt_roles rt) (\<lambda>rs.
           if rs \<noteq> [] \<and> actor_role a \<notin> set rs
           then Inl (ForbiddenError (''role '' @ role_text (actor_role a) @ '' not in ['' @
                       join_comma (map role_text rs) @ '']''))
           else Inr ()))
        (and_then (when_given (rt_permission rt) (assert_permission a))
          (when_given (rt_any rt) (\<lambda>ps.
             if ps \<noteq> [] \<and> \<not> list_ex (can a) ps
             then Inl (ForbiddenError (role_text (actor_role a) @ '' holds none of ['' @
                         join_comma (map permission_text ps) @ '']''))
             else Inr ()))))"

fun http_of :: "auth_error \<Rightarrow> http_error" where
  "http_of (PaymentRequiredError m) = Http402 (''MODULE_NOT_ENABLED:'' @ module_text m) m"
| "http_of (ForbiddenError d) = Http403 (''FORBIDDEN:'' @ d)"

fun message_401 :: "jwt_error \<Rightarrow> string" where
  "message_401 (TokenError m) = m"
| "message_401 SyntaxError = ''INVALID_TOKEN''"

definition BEARER :: string where
  "BEARER = ''Bearer ''"

definition canActivate ::
  "mac_fun \<Rightarrow> string \<Rightarrow> int \<Rightarrow> route \<Rightarrow> string option \<Rightarrow> http_error + actor option"
where
  "canActivate mac secret now_ms rt authorization =
     (if rt_public rt then Inr None
      else case authorization of
        None \<Rightarrow> Inl (Http401 ''NO_TOKEN'')
      | Some auth \<Rightarrow>
          if \<not> starts_with BEARER auth then Inl (Http401 ''NO_TOKEN'')
          else (case verifyAccessToken mac secret now_ms (drop (length BEARER) auth) of
            Inl e \<Rightarrow> Inl (Http401 (message_401 e))
          | Inr c \<Rightarrow>
              (case authorize rt (actor_of c) of
                 Inl e \<Rightarrow> Inl (http_of e)
               | Inr _ \<Rightarrow> Inr (Some (actor_of c)))))"

text \<open>What the route's metadata demand of an actor.\<close>

definition satisfies :: "route \<Rightarrow> actor \<Rightarrow> bool" where
  "satisfies rt a \<longleftrightarrow>
     (\<forall>m. rt_module rt = Some m \<longrightarrow> hasModule a m) \<and>
     (\<forall>rs. rt_roles rt = Some rs \<longrightarrow> rs = [] \<or> actor_role a \<in> set rs) \<and>
     (\<forall>p. rt_permission rt = Some p \<longrightarrow> can a p) \<and>
     (\<forall>ps. rt_any rt = Some ps \<longrightarrow> ps = [] \<or> (\<exists>p \<in> set ps. can a p))"

lemma authorize_ok: "authorize rt a = Inr u \<longleftrightarrow> satisfies rt a"
  unfolding authorize_def satisfies_def exec_iff by (auto simp: list_ex_iff)

lemma authorize_payment:
  "authorize rt a = Inl (PaymentRequiredError m) \<longleftrightarrow> rt_module rt = Some m \<and> \<not> hasModule a m"
  by (auto simp: authorize_def and_then_def when_given_def assertModule_def assert_permission_def
      split: option.splits sum.splits if_splits)

lemma canActivate_bearer:
  "canActivate mac k now rt (Some (BEARER @ tok)) =
     (if rt_public rt then Inr None
      else case verifyAccessToken mac k now tok of
        Inl e \<Rightarrow> Inl (Http401 (message_401 e))
      | Inr c \<Rightarrow> (case authorize rt (actor_of c) of
                   Inl e \<Rightarrow> Inl (http_of e) | Inr _ \<Rightarrow> Inr (Some (actor_of c))))"
  by (simp add: canActivate_def)

lemma canActivate_no_bearer:
  "\<not> rt_public rt \<Longrightarrow> (\<And>tok. auth \<noteq> Some (BEARER @ tok)) \<Longrightarrow>
   canActivate mac k now rt auth = Inl (Http401 ''NO_TOKEN'')"
  by (auto simp: canActivate_def starts_with_iff split: option.split)

lemma canActivate_ok:
  "canActivate mac k now rt auth = Inr (Some a) \<longleftrightarrow>
     \<not> rt_public rt \<and>
     (\<exists>tok c. auth = Some (BEARER @ tok) \<and> verifyAccessToken mac k now tok = Inr c \<and>
              a = actor_of c \<and> satisfies rt a)"
proof (cases "rt_public rt \<or> (\<forall>tok. auth \<noteq> Some (BEARER @ tok))")
  case True
  then show ?thesis
    using canActivate_no_bearer [of rt auth mac k now] by (cases "rt_public rt") (auto simp: canActivate_def)
next
  case False
  then obtain tok where "auth = Some (BEARER @ tok)" "\<not> rt_public rt" by blast
  then show ?thesis
    by (auto simp: canActivate_bearer authorize_ok [of _ _ "()", symmetric] split: sum.splits)
qed

end
