(* ===== verification/Entitlements.thy ===== *)
theory Entitlements imports Plan_Modules begin

text \<open>
  \<open>identity/subscriptions/entitlements.ts\<close>: the per-company module map with its cache. The
  store is the one of \<open>identity/tests/entitlements.e2e.test.ts\<close> (one override row per company
  and module, as the primary key of \<open>company_modules\<close> in \<open>identity/db/schema.sql\<close> has it);
  \<open>override_store\<close> states what the service uses of it. The lemmas show that the cache is
  never stale, what the effective module set is, and what grant and revoke do to it.
\<close>

section \<open>The entitlement store\<close>

record module_row =
  mr_companyId :: string
  mr_module :: platform_module
  mr_granted :: bool
  mr_reason :: "string option"
  mr_setBy :: string
  mr_setAt :: int

record ent_store =
  es_plans :: "string \<Rightarrow> plan option"
  es_overrides :: "string \<Rightarrow> module_row list"

definition planFor :: "ent_store \<Rightarrow> string \<Rightarrow> plan option" where
  "planFor s cid = es_plans s cid"

definition overridesFor :: "ent_store \<Rightarrow> string \<Rightarrow> module_row list" where
  "overridesFor s cid = es_overrides s cid"

definition putOverride :: "module_row \<Rightarrow> ent_store \<Rightarrow> ent_store" where
  "putOverride r s = s\<lparr>es_overrides := (es_overrides s)(mr_companyId r :=
     filter (\<lambda>x. mr_module x \<noteq> mr_module r) (es_overrides s (mr_companyId r)) @ [r])\<rparr>"

definition store_clearOverride :: "string \<Rightarrow> platform_module \<Rightarrow> ent_store \<Rightarrow> ent_store" where
  "store_clearOverride cid m s = s\<lparr>es_overrides := (es_overrides s)(cid :=
     filter (\<lambda>x. mr_module x \<noteq> m) (es_overrides s cid))\<rparr>"

definition setPlan :: "string \<Rightarrow> plan \<Rightarrow> ent_store \<Rightarrow> ent_store" where
  "setPlan cid p s = s\<lparr>es_plans := (es_plans s)(cid := Some p)\<rparr>"

definition one_row_per_module :: "ent_store \<Rightarrow> bool" where
  "one_row_per_module s \<longleftrightarrow> (\<forall>cid. distinct (map mr_module (es_overrides s cid)))"

section \<open>Effective modules\<close>

text \<open>
  The loop of \<open>modulesFor\<close>: \<open>o.granted ? base.add(o.module) : base.delete(o.module)\<close> on a
  \<open>Set\<close>, which keeps insertion order.
\<close>

definition set_add :: "'a \<Rightarrow> 'a list \<Rightarrow> 'a list" where
  "set_add x xs = (if x \<in> set xs then xs else xs @ [x])"

definition set_delete :: "'a \<Rightarrow> 'a list \<Rightarrow> 'a list" where
  "set_delete x xs = filter (\<lambda>y. y \<noteq> x) xs"

fun apply_overrides :: "module_row list \<Rightarrow> platform_module list \<Rightarrow> platform_module list" where
  "apply_overrides [] base = base"
| "apply_overrides (r # rs) base =
     apply_overrides rs
       (if mr_granted r then set_add (mr_module r) base else set_delete (mr_module r) base)"

text \<open>What the set should be: plan modules, plus granted rows, minus revoked rows.\<close>

definition granted_in :: "module_row list \<Rightarrow> platform_module set" where
  "granted_in rs = {mr_module r | r. r \<in> set rs \<and> mr_granted r}"

definition revoked_in :: "module_row list \<Rightarrow> platform_module set" where
  "revoked_in rs = {mr_module r | r. r \<in> set rs \<and> \<not> mr_granted r}"

lemma set_set_add [simp]: "set (set_add x xs) = insert x (set xs)"
  by (auto simp: set_add_def)

lemma set_set_delete [simp]: "set (set_delete x xs) = set xs - {x}"
  by (auto simp: set_delete_def)

lemma set_apply_overrides:
  "distinct (map mr_module rs) \<Longrightarrow>
   set (apply_overrides rs base) = set base \<union> granted_in rs - revoked_in rs"
proof (induction rs arbitrary: base)
  case Nil
  then show ?case by (simp add: granted_in_def revoked_in_def)
next
  case (Cons r rs)
  then have fresh: "mr_module r \<notin> granted_in rs" "mr_module r \<notin> revoked_in rs"
    by (auto simp: granted_in_def revoked_in_def)
  have g: "granted_in (r # rs) = (if mr_granted r then {mr_module r} else {}) \<union> granted_in rs"
    and v: "revoked_in (r # rs) = (if mr_granted r then {} else {mr_module r}) \<union> revoked_in rs"
    by (auto simp: granted_in_def revoked_in_def)
  show ?case
    using Cons fresh unfolding g v by (cases "mr_granted r") auto
qed

lemma distinct_apply_overrides: "distinct base \<Longrightarrow> distinct (apply_overrides rs base)"
  by (induction rs arbitrary: base) (auto simp: set_add_def set_delete_def)

text \<open>The laws of the store that the service rests on.\<close>

locale override_store =
  fixes plan_of :: "'s \<Rightarrow> string \<Rightarrow> plan option"
    and rows :: "'s \<Rightarrow> string \<Rightarrow> module_row list"
    and put :: "module_row \<Rightarrow> 's \<Rightarrow> 's"
    and clear :: "string \<Rightarrow> platform_module \<Rightarrow> 's \<Rightarrow> 's"
    and invar :: "'s \<Rightarrow> bool"
  assumes rows_unique: "invar s \<Longrightarrow> distinct (map mr_module (rows s c))"
    and rows_put: "rows (put r s) (mr_companyId r) =
          filter (\<lambda>x. mr_module x \<noteq> mr_module r) (rows s (mr_companyId r)) @ [r]"
    and rows_put_other: "c \<noteq> mr_companyId r \<Longrightarrow> rows (put r s) c = rows s c"
    and rows_clear: "rows (clear c m s) c = filter (\<lambda>x. mr_module x \<noteq> m) (rows s c)"
    and rows_clear_other: "d \<noteq> c \<Longrightarrow> rows (clear c m s) d = rows s d"
    and plan_put: "plan_of (put r s) = plan_of s"
    and plan_clear: "plan_of (clear c m s) = plan_of s"
    and invar_put: "invar s \<Longrightarrow> invar (put r s)"
    and invar_clear: "invar s \<Longrightarrow> invar (clear c m s)"
begin

abbreviation eff :: "'s \<Rightarrow> string \<Rightarrow> platform_module set" where
  "eff s c \<equiv> (case plan_of s c of None \<Rightarrow> {}
     | Some p \<Rightarrow> set (apply_overrides (rows s c) (modulesForPlan p)))"

lemma eff_spec:
  "invar s \<Longrightarrow> plan_of s c = Some p \<Longrightarrow>
   eff s c = set (modulesForPlan p) \<union> granted_in (rows s c) - revoked_in (rows s c)"
  by (simp add: set_apply_overrides rows_unique)

lemma eff_put:
  assumes "invar s" and "plan_of s (mr_companyId r) = Some p"
  shows "eff (put r s) (mr_companyId r) =
    (if mr_granted r then insert (mr_module r) (eff s (mr_companyId r))
     else eff s (mr_companyId r) - {mr_module r})"
proof -
  let ?c = "mr_companyId r" and ?f = "filter (\<lambda>x. mr_module x \<noteq> mr_module r)"
  have parts: "granted_in (?f rs @ [r]) = (granted_in rs - {mr_module r}) \<union>
      (if mr_granted r then {mr_module r} else {})"
    "revoked_in (?f rs @ [r]) = (revoked_in rs - {mr_module r}) \<union>
      (if mr_granted r then {} else {mr_module r})" for rs
    by (auto simp: granted_in_def revoked_in_def)
  have "eff (put r s) ?c = set (modulesForPlan p) \<union> granted_in (rows (put r s) ?c)
      - revoked_in (rows (put r s) ?c)"
    using assms by (intro eff_spec) (auto simp: invar_put plan_put)
  then show ?thesis
    unfolding eff_spec [OF assms] rows_put parts by auto
qed

lemma eff_put_other:
  "c \<noteq> mr_companyId r \<Longrightarrow> eff (put r s) c = eff s c"
  by (simp add: rows_put_other plan_put split: option.split)

end

interpretation es: override_store planFor overridesFor putOverride store_clearOverride
  one_row_per_module
proof (unfold_locales, goal_cases)
  case (1 s c)
  then show ?case by (simp add: one_row_per_module_def overridesFor_def)
next
  case (8 s r)
  then show ?case
    by (auto simp: one_row_per_module_def putOverride_def distinct_map_filter)
next
  case (9 s c m)
  then show ?case
    by (auto simp: one_row_per_module_def store_clearOverride_def distinct_map_filter)
qed (auto simp: planFor_def overridesFor_def putOverride_def store_clearOverride_def)

section \<open>The service\<close>

record ent_state =
  ent_store_of :: ent_store
  ent_cache :: "string \<Rightarrow> (platform_module list \<times> int) option"

definition computed :: "ent_store \<Rightarrow> string \<Rightarrow> platform_module list option" where
  "computed st cid = map_option
     (\<lambda>p. apply_overrides (overridesFor st cid) (uniq (modulesForPlan p))) (planFor st cid)"

text \<open>\<open>modulesFor\<close>; a company without a plan has no modules, and that answer is not cached.\<close>

definition modulesFor :: "int \<Rightarrow> string \<Rightarrow> (ent_state, platform_module list) exec" where
  "modulesFor now cid = (\<lambda>s.
     case ent_cache s cid of
       Some (ms, _) \<Rightarrow> (Inr ms, s)
     | None \<Rightarrow>
         (case computed (ent_store_of s) cid of
            None \<Rightarrow> (Inr [], s)
          | Some ms \<Rightarrow> (Inr ms, s\<lparr>ent_cache := (ent_cache s)(cid := Some (ms, now))\<rparr>)))"

definition invalidate :: "string \<Rightarrow> (ent_state, unit) exec" where
  "invalidate cid = modifies (\<lambda>s. s\<lparr>ent_cache := (ent_cache s)(cid := None)\<rparr>)"

definition on_store :: "(ent_store \<Rightarrow> ent_store) \<Rightarrow> (ent_state, unit) exec" where
  "on_store f = modifies (\<lambda>s. s\<lparr>ent_store_of := f (ent_store_of s)\<rparr>)"

definition has_module :: "int \<Rightarrow> string \<Rightarrow> platform_module \<Rightarrow> (ent_state, bool) exec" where
  "has_module now cid m = bindE (modulesFor now cid) (\<lambda>ms. return (m \<in> set ms))"

definition applyPlan :: "int \<Rightarrow> string \<Rightarrow> plan \<Rightarrow> (ent_state, platform_module list) exec" where
  "applyPlan now cid p =
     bindE (on_store (setPlan cid p)) (\<lambda>_.
     bindE (invalidate cid) (\<lambda>_.
     modulesFor now cid))"

definition prerequisite_error :: "platform_module \<Rightarrow> exn" where
  "prerequisite_error m = Error (''MODULE_PREREQUISITES_MISSING:'' @ module_text m)"

text \<open>
  \<open>grant\<close>. The message of the error names the missing modules as well; the model keeps the
  code and the module.
\<close>

definition ent_grant ::
  "int \<Rightarrow> string \<Rightarrow> platform_module \<Rightarrow> string \<Rightarrow> string option \<Rightarrow> (ent_state, platform_module list) exec"
where
  "ent_grant now cid m setBy reason =
     bindE (modulesFor now cid) (\<lambda>current.
     let proposed = uniq (current @ [m]);
         blocking = find (\<lambda>p. fst p = m) (missingPrerequisites proposed)
     in bindE (throw_if (blocking \<noteq> None) (prerequisite_error m)) (\<lambda>_.
     bindE (on_store (putOverride
       \<lparr>mr_companyId = cid, mr_module = m, mr_granted = True, mr_reason = reason,
        mr_setBy = setBy, mr_setAt = now\<rparr>)) (\<lambda>_.
     bindE (invalidate cid) (\<lambda>_.
     modulesFor now cid))))"

definition revoke_row ::
  "int \<Rightarrow> string \<Rightarrow> platform_module \<Rightarrow> string \<Rightarrow> string option \<Rightarrow> platform_module \<Rightarrow> module_row"
where
  "revoke_row now cid m setBy reason n =
     \<lparr>mr_companyId = cid, mr_module = n, mr_granted = False,
      mr_reason = (if n = m then reason else Some (''auto-disabled: depends on '' @ module_text m)),
      mr_setBy = setBy, mr_setAt = now\<rparr>"

definition ent_revoke ::
  "int \<Rightarrow> string \<Rightarrow> platform_module \<Rightarrow> string \<Rightarrow> string option \<Rightarrow>
   (ent_state, platform_module list \<times> platform_module list) exec"
where
  "ent_revoke now cid m setBy reason =
     bindE (modulesFor now cid) (\<lambda>current.
     let proposed = filter (\<lambda>x. x \<noteq> m) current;
         orphaned = map fst (missingPrerequisites proposed)
     in bindE (for_each (\<lambda>n. on_store (putOverride (revoke_row now cid m setBy reason n)))
          (m # orphaned)) (\<lambda>_.
     bindE (invalidate cid) (\<lambda>_.
     bindE (modulesFor now cid) (\<lambda>ms. return (ms, orphaned)))))"

definition clearOverride :: "string \<Rightarrow> platform_module \<Rightarrow> (ent_state, unit) exec" where
  "clearOverride cid m =
     bindE (on_store (store_clearOverride cid m)) (\<lambda>_. invalidate cid)"

section \<open>The cache is never stale\<close>

definition fresh_cache :: "ent_state \<Rightarrow> bool" where
  "fresh_cache s \<longleftrightarrow>
     (\<forall>cid ms t0. ent_cache s cid = Some (ms, t0) \<longrightarrow> computed (ent_store_of s) cid = Some ms)"

definition ent_inv :: "ent_state \<Rightarrow> bool" where
  "ent_inv s \<longleftrightarrow> fresh_cache s \<and> one_row_per_module (ent_store_of s)"

definition effective :: "ent_state \<Rightarrow> string \<Rightarrow> platform_module list" where
  "effective s cid = (case computed (ent_store_of s) cid of None \<Rightarrow> [] | Some ms \<Rightarrow> ms)"

text \<open>
  One write followed by the invalidation of the company it touched: what every operation of
  the service does, as a single update.
\<close>

lemma computed_other:
  "overridesFor st' d = overridesFor st d \<Longrightarrow> planFor st' d = planFor st d \<Longrightarrow>
   computed st' d = computed st d"
  by (simp add: computed_def)

lemma modulesFor_effective:
  "fresh_cache s \<Longrightarrow> \<exists>s'. modulesFor now cid s = (Inr (effective s cid), s') \<and>
     ent_store_of s' = ent_store_of s \<and> fresh_cache s'"
  by (auto simp: modulesFor_def effective_def fresh_cache_def split: option.splits)

definition touches :: "string \<Rightarrow> (ent_store \<Rightarrow> ent_store) \<Rightarrow> bool" where
  "touches cid f \<longleftrightarrow> (\<forall>st d. d \<noteq> cid \<longrightarrow> computed (f st) d = computed st d)"

lemma touches_store:
  "touches (mr_companyId r) (putOverride r)"
  "touches cid (store_clearOverride cid m)"
  "touches cid (setPlan cid p)"
  by (auto simp: touches_def computed_def putOverride_def store_clearOverride_def setPlan_def
      overridesFor_def planFor_def)

text \<open>Between a write and its invalidation only the written company may be stale.\<close>

definition fresh_but :: "string \<Rightarrow> ent_state \<Rightarrow> bool" where
  "fresh_but c s \<longleftrightarrow>
     (\<forall>cid ms t0. cid \<noteq> c \<longrightarrow> ent_cache s cid = Some (ms, t0) \<longrightarrow>
        computed (ent_store_of s) cid = Some ms)"

lemma fresh_but_write:
  "fresh_but c s \<Longrightarrow> touches c f \<Longrightarrow> on_store f s = (r, s') \<Longrightarrow> fresh_but c s'"
  by (auto simp: fresh_but_def touches_def on_store_def)

lemma fresh_invalidate: "fresh_but c s \<Longrightarrow> invalidate c s = (r, s') \<Longrightarrow> fresh_cache s'"
  by (auto simp: fresh_but_def fresh_cache_def invalidate_def split: if_splits)

lemma fresh_weaken: "fresh_cache s \<Longrightarrow> fresh_but c s"
  by (auto simp: fresh_cache_def fresh_but_def)

lemma write_then_invalidate:
  assumes "fresh_but c s" and "touches c f"
  shows "\<exists>s1. bindE (on_store f) (\<lambda>_. bindE (invalidate c) k) s = k () s1 \<and>
     ent_store_of s1 = f (ent_store_of s) \<and> fresh_cache s1"
proof -
  obtain s' where s': "on_store f s = (Inr (), s')" by (simp add: on_store_def)
  obtain s1 where s1: "invalidate c s' = (Inr (), s1)" by (simp add: invalidate_def)
  have "fresh_cache s1"
    using fresh_but_write [OF assms s'] fresh_invalidate [OF _ s1] by blast
  moreover have "ent_store_of s1 = f (ent_store_of s)"
    using s' s1 by (auto simp: on_store_def invalidate_def)
  ultimately show ?thesis using s' s1 by (auto simp: bindE_def)
qed

lemma applyPlan_spec:
  assumes "ent_inv s"
  shows "\<exists>s'. applyPlan now cid p s = (Inr (effective s' cid), s') \<and> ent_inv s' \<and>
     ent_store_of s' = setPlan cid p (ent_store_of s)"
proof -
  from write_then_invalidate [OF fresh_weaken touches_store(3), of s cid p "\<lambda>_. modulesFor now cid"] assms
  obtain s1 where s1: "applyPlan now cid p s = modulesFor now cid s1"
    "ent_store_of s1 = setPlan cid p (ent_store_of s)" "fresh_cache s1"
    by (auto simp: applyPlan_def ent_inv_def)
  from modulesFor_effective [OF s1(3), of now cid] s1 assms show ?thesis
    by (auto simp: ent_inv_def effective_def one_row_per_module_def setPlan_def)
qed

lemma clearOverride_spec:
  assumes "ent_inv s"
  shows "\<exists>s'. clearOverride cid m s = (Inr (), s') \<and> ent_inv s' \<and>
     ent_store_of s' = store_clearOverride cid m (ent_store_of s)"
proof -
  obtain s1 where s1: "on_store (store_clearOverride cid m) s = (Inr (), s1)" by (simp add: on_store_def)
  obtain s2 where s2: "invalidate cid s1 = (Inr (), s2)" by (simp add: invalidate_def)
  have "fresh_cache s2"
    using fresh_but_write [OF fresh_weaken touches_store(2) s1] fresh_invalidate [OF _ s2] assms
    by (auto simp: ent_inv_def)
  moreover have "ent_store_of s2 = store_clearOverride cid m (ent_store_of s)"
    using s1 s2 by (auto simp: on_store_def invalidate_def)
  ultimately show ?thesis
    using s1 s2 assms es.invar_clear by (auto simp: clearOverride_def bindE_def ent_inv_def)
qed

section \<open>What grant and revoke do\<close>

definition eff_set :: "ent_store \<Rightarrow> string \<Rightarrow> platform_module set" where
  "eff_set st cid = (case computed st cid of None \<Rightarrow> {} | Some ms \<Rightarrow> set ms)"

lemma set_effective: "set (effective s cid) = eff_set (ent_store_of s) cid"
  by (simp add: effective_def eff_set_def split: option.split)

lemma eff_set_eff:
  "eff_set st cid = (case planFor st cid of None \<Rightarrow> {}
     | Some p \<Rightarrow> set (apply_overrides (overridesFor st cid) (modulesForPlan p)))"
  by (simp add: eff_set_def computed_def uniq_distinct plans_distinct split: option.split)

lemma eff_set_spec:
  "one_row_per_module st \<Longrightarrow> planFor st cid = Some p \<Longrightarrow>
   eff_set st cid = set (modulesForPlan p) \<union> granted_in (overridesFor st cid)
                      - revoked_in (overridesFor st cid)"
  unfolding eff_set_eff by (rule es.eff_spec)

lemma eff_set_put:
  "one_row_per_module st \<Longrightarrow> planFor st (mr_companyId r) = Some p \<Longrightarrow>
   eff_set (putOverride r st) (mr_companyId r) =
     (if mr_granted r then insert (mr_module r) (eff_set st (mr_companyId r))
      else eff_set st (mr_companyId r) - {mr_module r})"
  unfolding eff_set_eff by (rule es.eff_put)

lemma eff_set_put_all:
  assumes "one_row_per_module st" and "planFor st cid = Some p"
    and "\<And>n. mr_companyId (row n) = cid \<and> mr_module (row n) = n \<and> \<not> mr_granted (row n)"
  shows "one_row_per_module (fold (\<lambda>n. putOverride (row n)) ns st) \<and>
    planFor (fold (\<lambda>n. putOverride (row n)) ns st) cid = Some p \<and>
    eff_set (fold (\<lambda>n. putOverride (row n)) ns st) cid = eff_set st cid - set ns"
  using assms(1,2)
proof (induction ns arbitrary: st)
  case (Cons n ns)
  have "eff_set (putOverride (row n) st) cid = eff_set st cid - {n}"
    using eff_set_put [of st "row n" p] Cons.prems assms(3) [of n] by simp
  moreover have "one_row_per_module (putOverride (row n) st)"
    "planFor (putOverride (row n) st) cid = Some p"
    using Cons.prems es.invar_put es.plan_put by auto
  ultimately show ?case using Cons.IH [of "putOverride (row n) st"] by auto
qed simp

lemma for_each_on_store:
  "for_each (\<lambda>n. on_store (f n)) ns s =
     (Inr (), s\<lparr>ent_store_of := fold f ns (ent_store_of s)\<rparr>)"
  by (induction ns arbitrary: s) (simp_all add: bindE_def on_store_def)

lemma fold_touches:
  "(\<And>n. touches c (f n)) \<Longrightarrow> touches c (fold f ns)"
proof (induction ns)
  case (Cons n ns)
  then show ?case by (simp add: touches_def)
qed (simp add: touches_def)

lemma blocking_iff:
  "find (\<lambda>p. fst p = m) (missingPrerequisites (uniq (cur @ [m]))) \<noteq> None \<longleftrightarrow>
     \<not> set (MODULE_REQUIRES m) \<subseteq> insert m (set cur)"
proof -
  have "find (\<lambda>p. fst p = m) ps \<noteq> None \<longleftrightarrow> m \<in> fst ` set ps" for ps :: "(platform_module \<times> platform_module list) list"
    by (induction ps) auto
  moreover have "m \<in> fst ` set (missingPrerequisites (uniq (cur @ [m]))) \<longleftrightarrow>
      \<not> set (MODULE_REQUIRES m) \<subseteq> insert m (set cur)"
    using fst_missingPrerequisites [of m "uniq (cur @ [m])"] by auto
  ultimately show ?thesis by blast
qed

lemma ent_grant_spec:
  assumes inv: "ent_inv s" and p: "planFor (ent_store_of s) cid = Some p"
  defines "cur \<equiv> eff_set (ent_store_of s) cid"
  shows "if set (MODULE_REQUIRES m) \<subseteq> insert m cur
    then \<exists>ms s'. ent_grant now cid m setBy reason s = (Inr ms, s') \<and> ent_inv s' \<and>
           set ms = insert m cur \<and> eff_set (ent_store_of s') cid = insert m cur
    else \<exists>s'. ent_grant now cid m setBy reason s = (Inl (prerequisite_error m), s') \<and>
           ent_inv s' \<and> ent_store_of s' = ent_store_of s"
proof -
  from inv have f: "fresh_cache s" and o: "one_row_per_module (ent_store_of s)"
    by (auto simp: ent_inv_def)
  from modulesFor_effective [OF f] obtain s1 where s1:
    "modulesFor now cid s = (Inr (effective s cid), s1)"
    "ent_store_of s1 = ent_store_of s" "fresh_cache s1" by blast
  have cur: "set (effective s cid) = cur" by (simp add: cur_def set_effective)
  define row where "row = \<lparr>mr_companyId = cid, mr_module = m, mr_granted = True,
    mr_reason = reason, mr_setBy = setBy, mr_setAt = now\<rparr>"
  have row: "mr_companyId row = cid" "mr_module row = m" "mr_granted row" by (simp_all add: row_def)
  show ?thesis
  proof (cases "set (MODULE_REQUIRES m) \<subseteq> insert m cur")
    case True
    then have ok: "find (\<lambda>p. fst p = m) (missingPrerequisites (uniq (effective s cid @ [m]))) = None"
      using blocking_iff [of m "effective s cid"] cur by blast
    from write_then_invalidate [OF fresh_weaken [OF s1(3)] touches_store(1) [of row, unfolded row],
        of "\<lambda>_. modulesFor now cid"]
    obtain s2 where s2: "bindE (on_store (putOverride row)) (\<lambda>_. bindE (invalidate cid) (\<lambda>_. modulesFor now cid)) s1
        = modulesFor now cid s2" "ent_store_of s2 = putOverride row (ent_store_of s)" "fresh_cache s2"
      using s1(2) by auto
    from modulesFor_effective [OF s2(3)] obtain s3 where s3:
      "modulesFor now cid s2 = (Inr (effective s2 cid), s3)"
      "ent_store_of s3 = ent_store_of s2" "fresh_cache s3" by blast
    have "eff_set (ent_store_of s2) cid = insert m cur"
      using eff_set_put [OF o, of row p] p row s2(2) by (simp add: cur_def)
    moreover have "ent_grant now cid m setBy reason s = (Inr (effective s2 cid), s3)"
      using s1(1) s2(1) s3(1) ok
      by (simp add: ent_grant_def bindE_def throw_if_def row_def)
    ultimately show ?thesis
      using True s3 s2 o es.invar_put [OF o, of row] by (auto simp: set_effective ent_inv_def)
  next
    case False
    then have "find (\<lambda>p. fst p = m) (missingPrerequisites (uniq (effective s cid @ [m]))) \<noteq> None"
      using blocking_iff [of m "effective s cid"] cur by blast
    then have "ent_grant now cid m setBy reason s = (Inl (prerequisite_error m), s1)"
      using s1(1) by (simp add: ent_grant_def bindE_def throw_if_def)
    with False s1 o show ?thesis by (auto simp: ent_inv_def)
  qed
qed

text \<open>The modules a revocation of \<open>m\<close> switches off besides \<open>m\<close>: the direct dependents.\<close>

definition direct_orphans :: "platform_module set \<Rightarrow> platform_module \<Rightarrow> platform_module set" where
  "direct_orphans cur m = {n \<in> cur - {m}. \<not> set (MODULE_REQUIRES n) \<subseteq> cur - {m}}"

lemma ent_revoke_spec:
  assumes inv: "ent_inv s" and p: "planFor (ent_store_of s) cid = Some p"
  defines "cur \<equiv> eff_set (ent_store_of s) cid"
  shows "\<exists>ms orphaned s'. ent_revoke now cid m setBy reason s = (Inr (ms, orphaned), s') \<and>
    ent_inv s' \<and> set orphaned = direct_orphans cur m \<and>
    set ms = cur - {m} - direct_orphans cur m \<and> eff_set (ent_store_of s') cid = set ms"
proof -
  from inv have f: "fresh_cache s" and o: "one_row_per_module (ent_store_of s)"
    by (auto simp: ent_inv_def)
  from modulesFor_effective [OF f] obtain s1 where s1:
    "modulesFor now cid s = (Inr (effective s cid), s1)"
    "ent_store_of s1 = ent_store_of s" "fresh_cache s1" by blast
  have cur: "set (effective s cid) = cur" by (simp add: cur_def set_effective)
  define orph where "orph = map fst (missingPrerequisites (filter (\<lambda>x. x \<noteq> m) (effective s cid)))"
  have fs: "set (filter (\<lambda>x. x \<noteq> m) (effective s cid)) = cur - {m}" using cur by auto
  have "n \<in> set orph \<longleftrightarrow> n \<in> direct_orphans cur m" for n
    using fst_missingPrerequisites [of n "filter (\<lambda>x. x \<noteq> m) (effective s cid)"]
    unfolding fs by (simp add: orph_def direct_orphans_def)
  then have orph: "set orph = direct_orphans cur m" by blast
  let ?w = "\<lambda>n. putOverride (revoke_row now cid m setBy reason n)"
  let ?st = "fold ?w (m # orph) (ent_store_of s)"
  have t: "touches cid (fold ?w (m # orph))"
    by (rule fold_touches)
      (use touches_store(1) [of "revoke_row now cid m setBy reason n" for n] in \<open>simp add: revoke_row_def\<close>)
  define s2 where "s2 = s1\<lparr>ent_store_of := ?st\<rparr>"
  have run: "for_each (\<lambda>n. on_store (?w n)) (m # orph) s1 = (Inr (), s2)"
    unfolding for_each_on_store s2_def s1(2) ..
  obtain s3 where s3: "invalidate cid s2 = (Inr (), s3)" by (simp add: invalidate_def)
  have "fresh_but cid s2"
    using fresh_weaken [OF s1(3), of cid] t s1(2) by (auto simp: fresh_but_def s2_def touches_def)
  with s3 have f3: "fresh_cache s3" by (auto intro: fresh_invalidate)
  have st3: "ent_store_of s3 = ?st" using s3 by (auto simp: invalidate_def s2_def)
  from modulesFor_effective [OF f3] obtain s4 where s4:
    "modulesFor now cid s3 = (Inr (effective s3 cid), s4)"
    "ent_store_of s4 = ent_store_of s3" "fresh_cache s4" by blast
  have put: "one_row_per_module ?st" "eff_set ?st cid = cur - set (m # orph)"
    using eff_set_put_all [OF o p, of "revoke_row now cid m setBy reason" "m # orph"]
    by (auto simp: cur_def revoke_row_def)
  have "ent_revoke now cid m setBy reason s = (Inr (effective s3 cid, orph), s4)"
    using s1(1) run s3 s4(1) by (simp add: ent_revoke_def bindE_def orph_def [symmetric])
  moreover have "ent_inv s4" using s4 st3 put by (simp add: ent_inv_def)
  ultimately show ?thesis
    using s4 st3 put orph by (auto simp: set_effective)
qed

lemma revoke_coherent:
  assumes "coherent cur"
    and two_step: "\<And>n k. n \<in> cur \<Longrightarrow> k \<in> set (MODULE_REQUIRES n) \<Longrightarrow>
                     m \<in> set (MODULE_REQUIRES k) \<Longrightarrow> m \<in> set (MODULE_REQUIRES n)"
  shows "coherent (cur - {m} - direct_orphans cur m)"
  unfolding coherent_def
proof (intro ballI subsetI)
  fix n k
  assume n: "n \<in> cur - {m} - direct_orphans cur m" and k: "k \<in> set (MODULE_REQUIRES n)"
  then have sub: "set (MODULE_REQUIRES n) \<subseteq> cur - {m}" by (auto simp: direct_orphans_def)
  with k have "k \<in> cur - {m}" by auto
  moreover have "k \<notin> direct_orphans cur m"
  proof
    assume "k \<in> direct_orphans cur m"
    with \<open>coherent cur\<close> \<open>k \<in> cur - {m}\<close> have "m \<in> set (MODULE_REQUIRES k)"
      by (auto simp: direct_orphans_def coherent_def)
    with two_step [of n k] n k sub show False by auto
  qed
  ultimately show "k \<in> cur - {m} - direct_orphans cur m" by simp
qed

end
