(* ===== verification/Sessions.thy ===== *)
theory Sessions imports Entitlements Guards begin

text \<open>
  Accounts and sessions of the identity domain: \<open>identity/auth/login.ts\<close> (password and one-time
  code login), \<open>identity/auth/session.ts\<close> (refresh with rotation, logout, device list) and
  \<open>identity/rbac/roles.ts\<close> (role changes). Users and sessions are the tables \<open>users\<close> and
  \<open>sessions\<close> of \<open>identity/db/schema.sql\<close>. The password hash \<open>scrypt password salt\<close>, the keyed
  hash of the tokens, the random values and the outcome of the code check, which a telecom
  service makes, are parameters. The clock is read once per call, in milliseconds.
\<close>

record user =
  us_id :: string
  us_companyId :: "string option"
  us_role :: role
  us_fullName :: string
  us_phone :: "string option"
  us_email :: "string option"
  us_passwordHash :: "string option"
  us_active :: bool
  us_tokenVersion :: int

record session =
  se_id :: string
  se_userId :: string
  se_refreshToken :: string
  se_deviceLabel :: "string option"
  se_createdAt :: int
  se_lastUsedAt :: "int option"
  se_expiresAt :: int
  se_revokedAt :: "int option"

datatype login_action = LOGIN_OK | LOGIN_FAIL | OTP_SENT

record login_entry =
  le_userId :: "string option"
  le_identifier :: string
  le_action :: login_action
  le_reason :: "string option"
  le_at :: int

record role_entry =
  re_actorId :: string
  re_targetUserId :: string
  re_companyId :: "string option"
  re_from :: role
  re_to :: role
  re_at :: int

record identity =
  id_users :: "user list"
  id_sessions :: "session list"
  id_ent :: ent_state
  id_log :: "login_entry list"
  id_roles :: "role_entry list"
  id_sent :: "string list"

definition byPhone :: "string \<Rightarrow> identity \<Rightarrow> user option" where
  "byPhone p s = find (\<lambda>u. us_phone u = Some p) (id_users s)"

definition byEmail :: "string \<Rightarrow> identity \<Rightarrow> user option" where
  "byEmail e s = find (\<lambda>u. us_email u = Some e) (id_users s)"

definition byId :: "string \<Rightarrow> identity \<Rightarrow> user option" where
  "byId i s = find (\<lambda>u. us_id u = i) (id_users s)"

definition update_users :: "(user \<Rightarrow> bool) \<Rightarrow> (user \<Rightarrow> user) \<Rightarrow> (identity, unit) exec" where
  "update_users p f = modifies (\<lambda>s. s\<lparr>id_users := update_where p f (id_users s)\<rparr>)"

definition update_sessions :: "(session \<Rightarrow> bool) \<Rightarrow> (session \<Rightarrow> session) \<Rightarrow> (identity, unit) exec" where
  "update_sessions p f = modifies (\<lambda>s. s\<lparr>id_sessions := update_where p f (id_sessions s)\<rparr>)"

definition log_login ::
  "int \<Rightarrow> string option \<Rightarrow> string \<Rightarrow> login_action \<Rightarrow> string option \<Rightarrow> (identity, unit) exec" where
  "log_login now uid ident act reason = modifies (\<lambda>s. s\<lparr>id_log := id_log s @
     [\<lparr>le_userId = uid, le_identifier = ident, le_action = act, le_reason = reason, le_at = now\<rparr>]\<rparr>)"

definition on_entitlements :: "(ent_state, 'a) exec \<Rightarrow> (identity, 'a) exec" where
  "on_entitlements m = (\<lambda>s. case m (id_ent s) of (r, e) \<Rightarrow> (r, s\<lparr>id_ent := e\<rparr>))"

section \<open>Passwords\<close>

definition hexdig :: "nat \<Rightarrow> char" where
  "hexdig n = char_of (if n < 10 then 48 + n else 87 + n)"

definition to_hex :: "string \<Rightarrow> string" where
  "to_hex s = concat (map (\<lambda>c. let n = of_char c in [hexdig (n div 16), hexdig (n mod 16)]) s)"

definition hexdig_value :: "char \<Rightarrow> nat option" where
  "hexdig_value c = (let n = of_char c :: nat in
     if 48 \<le> n \<and> n \<le> 57 then Some (n - 48)
     else if 97 \<le> n \<and> n \<le> 102 then Some (n - 87)
     else if 65 \<le> n \<and> n \<le> 70 then Some (n - 55) else None)"

text \<open>\<open>Buffer.from(text, "hex")\<close> stops at the first pair that is not hexadecimal.\<close>

fun of_hex :: "string \<Rightarrow> string" where
  "of_hex (a # b # r) = (case (hexdig_value a, hexdig_value b) of
     (Some x, Some y) \<Rightarrow> char_of (16 * x + y) # of_hex r | _ \<Rightarrow> [])"
| "of_hex _ = []"

fun split_colon :: "string \<Rightarrow> string list" where
  "split_colon [] = [[]]"
| "split_colon (c # cs) =
     (if c = CHR '':'' then [] # split_colon cs
      else case split_colon cs of [] \<Rightarrow> [[c]] | p # ps \<Rightarrow> (c # p) # ps)"

type_synonym scrypt_fun = "string \<Rightarrow> string \<Rightarrow> string"

definition hashPassword :: "scrypt_fun \<Rightarrow> string \<Rightarrow> string \<Rightarrow> string" where
  "hashPassword scrypt random16 password =
     (let salt = to_hex random16; hash = to_hex (scrypt password salt)
      in salt @ CHR '':'' # hash)"

definition verifyPassword :: "scrypt_fun \<Rightarrow> string \<Rightarrow> string \<Rightarrow> bool" where
  "verifyPassword scrypt password stored =
     (case split_colon stored of
        salt # hash # _ \<Rightarrow> salt \<noteq> [] \<and> hash \<noteq> [] \<and> scrypt password salt = of_hex hash
      | _ \<Rightarrow> False)"

lemma of_hex_to_hex [simp]: "of_hex (to_hex s) = s"
proof (induction s)
  case Nil
  then show ?case by (simp add: to_hex_def)
next
  case (Cons c s)
  let ?n = "of_char c :: nat"
  have v: "hexdig_value (hexdig n) = Some n" if "n < 16" for n
    using that by (auto simp: hexdig_value_def hexdig_def)
  have "?n div 16 < 16" "?n mod 16 < 16" by (simp_all add: less_mult_imp_div_less)
  then show ?case using Cons by (simp add: to_hex_def v Let_def)
qed

lemma to_hex_no_colon: "CHR '':'' \<notin> set (to_hex s)"
proof -
  have "hexdig n \<noteq> CHR '':''" if "n < 16" for n
  proof
    assume "hexdig n = CHR '':''"
    then have "(of_char (hexdig n) :: nat) = 58" by simp
    with that show False by (auto simp: hexdig_def split: if_splits)
  qed
  moreover have "(of_char c :: nat) div 16 < 16" for c by (simp add: less_mult_imp_div_less)
  ultimately have "CHR '':'' \<noteq> hexdig ((of_char c :: nat) div 16)"
    "CHR '':'' \<noteq> hexdig ((of_char c :: nat) mod 16)" for c
    by (metis, metis mod_less_divisor zero_less_numeral)
  then show ?thesis by (induction s) (simp_all add: to_hex_def Let_def)
qed

lemma to_hex_Nil [simp]: "to_hex s = [] \<longleftrightarrow> s = []"
  by (cases s) (simp_all add: to_hex_def Let_def)

lemma split_colon_plain: "CHR '':'' \<notin> set p \<Longrightarrow> split_colon p = [p]"
  by (induction p) auto

lemma split_colon_append: "CHR '':'' \<notin> set p \<Longrightarrow> split_colon (p @ CHR '':'' # r) = p # split_colon r"
  by (induction p) auto

lemma verify_hashed:
  assumes "random16 \<noteq> []" and "\<And>p s. scrypt p s \<noteq> []"
  shows "verifyPassword scrypt q (hashPassword scrypt random16 p) \<longleftrightarrow>
    scrypt q (to_hex random16) = scrypt p (to_hex random16)"
  using assms
  by (simp add: verifyPassword_def hashPassword_def Let_def split_colon_append split_colon_plain
      to_hex_no_colon)

section \<open>Issuing tokens\<close>

definition live_claims :: "user \<Rightarrow> platform_module list \<Rightarrow> claims" where
  "live_claims u ms = \<lparr>cl_sub = us_id u, cl_companyId = us_companyId u, cl_role = us_role u,
     cl_modules = ms, cl_tokenVersion = us_tokenVersion u, cl_iat = 0, cl_exp = 0\<rparr>"

text \<open>\<open>user.companyId ? await modulesFor(...) : []\<close>\<close>

definition modules_of_user :: "int \<Rightarrow> user \<Rightarrow> (identity, platform_module list) exec" where
  "modules_of_user now u =
     (if truthy (us_companyId u) then on_entitlements (modulesFor now (the (us_companyId u)))
      else return [])"

record login_env =
  lg_mac :: mac_fun
  lg_secret :: string
  lg_scrypt :: scrypt_fun

definition create_session :: "session \<Rightarrow> (identity, unit) exec" where
  "create_session se =
     bindE (reads (\<lambda>s. \<exists>x \<in> set (id_sessions s). se_refreshToken x = se_refreshToken se)) (\<lambda>taken.
     bindE (throw_if taken (PgError ''sessions_refresh_token_key'')) (\<lambda>_.
     modifies (\<lambda>s. s\<lparr>id_sessions := id_sessions s @ [se]\<rparr>)))"

definition identifier_of :: "user \<Rightarrow> string" where
  "identifier_of u = coalesce (us_phone u) (coalesce (us_email u) (us_id u))"

definition issue_login ::
  "login_env \<Rightarrow> int \<Rightarrow> string \<Rightarrow> string \<Rightarrow> user \<Rightarrow> string option \<Rightarrow>
   (identity, string \<times> string \<times> user) exec" where
  "issue_login L now uuid token u device =
     bindE (modules_of_user now u) (\<lambda>ms.
     let access = signAccessToken (lg_mac L) (lg_secret L) now (live_claims u ms)
     in bindE (create_session \<lparr>se_id = uuid, se_userId = us_id u, se_refreshToken = token,
                 se_deviceLabel = device, se_createdAt = now div 1000, se_lastUsedAt = None,
                 se_expiresAt = now div 1000 + REFRESH_TTL_S, se_revokedAt = None\<rparr>) (\<lambda>_.
        bindE (log_login now (Some (us_id u)) (identifier_of u) LOGIN_OK None) (\<lambda>_.
        return (access, token, u))))"

definition login_requestOtp :: "int \<Rightarrow> string \<Rightarrow> (identity, unit) exec" where
  "login_requestOtp now phone =
     bindE (reads (byPhone phone)) (\<lambda>user.
     bindE (case user of
              Some u \<Rightarrow> if us_active u then modifies (\<lambda>s. s\<lparr>id_sent := id_sent s @ [phone]\<rparr>) else return ()
            | None \<Rightarrow> return ()) (\<lambda>_.
     log_login now (map_option us_id user) phone OTP_SENT None))"

text \<open>\<open>fail\<close> followed by the \<open>throw\<close>\<close>

definition login_fail :: "int \<Rightarrow> string \<Rightarrow> string \<Rightarrow> string option \<Rightarrow> (identity, 'a) exec" where
  "login_fail now ident reason uid =
     bindE (log_login now uid ident LOGIN_FAIL (Some reason)) (\<lambda>_.
     raise (Error ''INVALID_CREDENTIALS''))"

definition loginWithOtp ::
  "login_env \<Rightarrow> int \<Rightarrow> string \<Rightarrow> string \<Rightarrow> bool \<Rightarrow> string \<Rightarrow> string option \<Rightarrow>
   (identity, string \<times> string \<times> user) exec" where
  "loginWithOtp L now uuid token otp_ok phone device =
     bindE (reads (byPhone phone)) (\<lambda>user.
     case user of
       None \<Rightarrow> login_fail now phone ''NO_SUCH_USER'' None
     | Some u \<Rightarrow>
         if \<not> us_active u then login_fail now phone ''NO_SUCH_USER'' None
         else if \<not> otp_ok then login_fail now phone ''BAD_OTP'' (Some (us_id u))
         else issue_login L now uuid token u device)"

definition loginWithPassword ::
  "login_env \<Rightarrow> int \<Rightarrow> string \<Rightarrow> string \<Rightarrow> string \<Rightarrow> string \<Rightarrow> string option \<Rightarrow>
   (identity, string \<times> string \<times> user) exec" where
  "loginWithPassword L now uuid token email password device =
     bindE (reads (byEmail (to_lower email))) (\<lambda>user.
     case user of
       None \<Rightarrow> login_fail now email ''NO_SUCH_USER'' None
     | Some u \<Rightarrow>
         if \<not> truthy (us_passwordHash u) \<or> \<not> us_active u then login_fail now email ''NO_SUCH_USER'' None
         else if \<not> verifyPassword (lg_scrypt L) password (the (us_passwordHash u)) then
           login_fail now email ''BAD_PASSWORD'' (Some (us_id u))
         else issue_login L now uuid token u device)"

section \<open>Sessions\<close>

definition byRefreshToken :: "string \<Rightarrow> identity \<Rightarrow> session option" where
  "byRefreshToken t s = find (\<lambda>x. se_refreshToken x = t) (id_sessions s)"

text \<open>A number is false when it is absent or 0.\<close>

definition set_number :: "int option \<Rightarrow> bool" where
  "set_number x = (case x of None \<Rightarrow> False | Some v \<Rightarrow> v \<noteq> 0)"

definition revoke_session :: "int \<Rightarrow> string \<Rightarrow> (identity, unit) exec" where
  "revoke_session now sid =
     update_sessions (\<lambda>x. se_id x = sid) (\<lambda>x. x\<lparr>se_revokedAt := Some (now div 1000)\<rparr>)"

definition rotate :: "int \<Rightarrow> string \<Rightarrow> string \<Rightarrow> int \<Rightarrow> (identity, unit) exec" where
  "rotate now sid token expires =
     bindE (reads (\<lambda>s. \<exists>x \<in> set (id_sessions s). se_refreshToken x = token \<and> se_id x \<noteq> sid)) (\<lambda>taken.
     bindE (throw_if taken (PgError ''sessions_refresh_token_key'')) (\<lambda>_.
     update_sessions (\<lambda>x. se_id x = sid)
       (\<lambda>x. x\<lparr>se_refreshToken := token, se_expiresAt := expires, se_lastUsedAt := Some (now div 1000)\<rparr>)))"

definition refresh ::
  "login_env \<Rightarrow> int \<Rightarrow> string \<Rightarrow> string \<Rightarrow> (identity, string \<times> string) exec" where
  "refresh L now fresh token =
     bindE (reads (byRefreshToken token)) (\<lambda>found.
     bindE (need found (Error ''INVALID_REFRESH_TOKEN'')) (\<lambda>se.
     bindE (throw_if (set_number (se_revokedAt se)) (Error ''SESSION_REVOKED'')) (\<lambda>_.
     bindE (throw_if (se_expiresAt se < now div 1000) (Error ''SESSION_EXPIRED'')) (\<lambda>_.
     bindE (reads (byId (se_userId se))) (\<lambda>user.
     case user of
       None \<Rightarrow> bindE (revoke_session now (se_id se)) (\<lambda>_. raise (Error ''USER_INACTIVE''))
     | Some u \<Rightarrow>
         if \<not> us_active u then bindE (revoke_session now (se_id se)) (\<lambda>_. raise (Error ''USER_INACTIVE''))
         else
           bindE (modules_of_user now u) (\<lambda>ms.
           let access = signAccessToken (lg_mac L) (lg_secret L) now (live_claims u ms)
           in bindE (rotate now (se_id se) fresh (now div 1000 + REFRESH_TTL_S)) (\<lambda>_.
              return (access, fresh))))))))"

definition logout :: "int \<Rightarrow> string \<Rightarrow> (identity, unit) exec" where
  "logout now token =
     bindE (reads (byRefreshToken token)) (\<lambda>found.
     case found of None \<Rightarrow> return () | Some se \<Rightarrow> revoke_session now (se_id se))"

definition bumpTokenVersion :: "string \<Rightarrow> (identity, unit) exec" where
  "bumpTokenVersion uid =
     update_users (\<lambda>u. us_id u = uid) (\<lambda>u. u\<lparr>us_tokenVersion := us_tokenVersion u + 1\<rparr>)"

definition revokeAllForUser :: "int \<Rightarrow> string \<Rightarrow> (identity, nat) exec" where
  "revokeAllForUser now uid =
     bindE (reads (\<lambda>s. length (filter (\<lambda>x. se_userId x = uid \<and> se_revokedAt x = None) (id_sessions s)))) (\<lambda>n.
     bindE (update_sessions (\<lambda>x. se_userId x = uid \<and> se_revokedAt x = None)
              (\<lambda>x. x\<lparr>se_revokedAt := Some (now div 1000)\<rparr>)) (\<lambda>_.
     return n))"

definition logoutEverywhere :: "int \<Rightarrow> string \<Rightarrow> (identity, nat) exec" where
  "logoutEverywhere now uid = bindE (bumpTokenVersion uid) (\<lambda>_. revokeAllForUser now uid)"

definition listForUser :: "string \<Rightarrow> identity \<Rightarrow> session list" where
  "listForUser uid s = filter (\<lambda>x. se_userId x = uid) (id_sessions s)"

definition devices :: "int \<Rightarrow> string \<Rightarrow> identity \<Rightarrow> (string \<times> string \<times> int \<times> int option) list" where
  "devices now uid s =
     map (\<lambda>x. (se_id x, coalesce (se_deviceLabel x) ''Unknown device'', se_createdAt x, se_lastUsedAt x))
       (filter (\<lambda>x. \<not> set_number (se_revokedAt x) \<and> se_expiresAt x > now div 1000) (listForUser uid s))"

definition revokeDevice :: "int \<Rightarrow> string \<Rightarrow> string \<Rightarrow> (identity, unit) exec" where
  "revokeDevice now uid sid =
     bindE (reads (\<lambda>s. find (\<lambda>x. se_id x = sid) (listForUser uid s))) (\<lambda>target.
     bindE (throw_if (target = None) (Error ''SESSION_NOT_FOUND'')) (\<lambda>_.
     revoke_session now sid))"

section \<open>Role changes\<close>

fun ASSIGNABLE_BY :: "role \<Rightarrow> role list" where
  "ASSIGNABLE_BY SUPER_ADMIN = [COMPANY_ADMIN, DISPATCHER, DRIVER, RECEIVER]"
| "ASSIGNABLE_BY COMPANY_ADMIN = [COMPANY_ADMIN, DISPATCHER, DRIVER, RECEIVER]"
| "ASSIGNABLE_BY _ = []"

definition canAssign :: "role \<Rightarrow> role \<Rightarrow> bool" where
  "canAssign a t \<longleftrightarrow> t \<in> set (ASSIGNABLE_BY a)"

definition countByRole :: "string option \<Rightarrow> role \<Rightarrow> identity \<Rightarrow> nat" where
  "countByRole cid r s = length (filter (\<lambda>u. us_companyId u = cid \<and> us_role u = r) (id_users s))"

definition changeRole ::
  "int \<Rightarrow> string \<Rightarrow> role \<Rightarrow> string option \<Rightarrow> string \<Rightarrow> role \<Rightarrow> (identity, string \<times> role) exec" where
  "changeRole now actorId actorRole actorCompanyId targetUserId newRole =
     bindE (throw_if (\<not> canAssign actorRole newRole)
              (Error (''CANNOT_ASSIGN_ROLE:'' @ role_text newRole))) (\<lambda>_.
     bindE (reads (byId targetUserId)) (\<lambda>found.
     bindE (need found (Error ''USER_NOT_FOUND'')) (\<lambda>target.
     bindE (throw_if (actorRole \<notin> set CROSS_TENANT_ROLES \<and> us_companyId target \<noteq> actorCompanyId)
              (Error ''CROSS_COMPANY_FORBIDDEN'')) (\<lambda>_.
     bindE (throw_if (us_role target = SUPER_ADMIN) (Error ''CANNOT_MODIFY_SUPER_ADMIN'')) (\<lambda>_.
     bindE (throw_if (actorId = targetUserId \<and> newRole \<noteq> us_role target)
              (Error ''CANNOT_CHANGE_OWN_ROLE'')) (\<lambda>_.
     bindE (reads (countByRole (us_companyId target) COMPANY_ADMIN)) (\<lambda>admins.
     bindE (throw_if (us_role target = COMPANY_ADMIN \<and> newRole \<noteq> COMPANY_ADMIN \<and> admins \<le> 1)
              (Error ''LAST_COMPANY_ADMIN'')) (\<lambda>_.
     bindE (update_users (\<lambda>u. us_id u = targetUserId) (\<lambda>u. u\<lparr>us_role := newRole\<rparr>)) (\<lambda>_.
     bindE (logoutEverywhere now targetUserId) (\<lambda>_.
     bindE (modifies (\<lambda>s. s\<lparr>id_roles := id_roles s @
        [\<lparr>re_actorId = actorId, re_targetUserId = targetUserId, re_companyId = us_companyId target,
          re_from = us_role target, re_to = newRole, re_at = now\<rparr>]\<rparr>)) (\<lambda>_.
     return (targetUserId, newRole))))))))))))"

section \<open>The tables\<close>

text \<open>
  The constraints of \<open>users\<close> (keys, unique contacts, only a SuperAdmin has no company) and of
  \<open>sessions\<close> (keys, unique tokens).
\<close>

definition unique_where_set :: "('r \<Rightarrow> string option) \<Rightarrow> 'r list \<Rightarrow> bool" where
  "unique_where_set k t \<longleftrightarrow> distinct (List.map_filter k t)"

definition users_ok :: "user list \<Rightarrow> bool" where
  "users_ok us \<longleftrightarrow> distinct (map us_id us) \<and>
     unique_where_set us_phone us \<and> unique_where_set us_email us \<and>
     (\<forall>u \<in> set us. us_role u = SUPER_ADMIN \<longleftrightarrow> us_companyId u = None)"

definition sessions_ok :: "session list \<Rightarrow> bool" where
  "sessions_ok t \<longleftrightarrow> distinct (map se_id t) \<and> distinct (map se_refreshToken t)"

definition identity_inv :: "identity \<Rightarrow> bool" where
  "identity_inv s \<longleftrightarrow> users_ok (id_users s) \<and> sessions_ok (id_sessions s) \<and> ent_inv (id_ent s)"

lemma map_filter_update [table_simps]:
  "(\<And>r. k (f r) = k r) \<Longrightarrow> List.map_filter k (update_where p f t) = List.map_filter k t"
  by (induction t) (auto simp: List.map_filter_simps split: option.split)

lemma sessions_ok_update:
  assumes "sessions_ok t" and "\<And>x. se_id (f x) = se_id x" and "\<And>x. se_refreshToken (f x) = se_refreshToken x"
  shows "sessions_ok (update_where p f t)"
  using assms by (simp add: sessions_ok_def map_update_where)

lemma byIdD: "byId i s = Some u \<Longrightarrow> u \<in> set (id_users s) \<and> us_id u = i"
  unfolding byId_def by (drule find_SomeD) simp

section \<open>What a login and a refresh hand out\<close>

definition user_modules :: "identity \<Rightarrow> user \<Rightarrow> platform_module list" where
  "user_modules s u = (if truthy (us_companyId u) then effective (id_ent s) (the (us_companyId u)) else [])"

lemma modules_of_user_run:
  assumes "ent_inv (id_ent s)"
  shows "\<exists>e. modules_of_user now u s = (Inr (user_modules s u), s\<lparr>id_ent := e\<rparr>) \<and> ent_inv e \<and>
    ent_store_of e = ent_store_of (id_ent s)"
proof -
  from assms have f: "fresh_cache (id_ent s)" by (simp add: ent_inv_def)
  from modulesFor_effective [OF f, of now "the (us_companyId u)"] obtain e where
    "modulesFor now (the (us_companyId u)) (id_ent s) = (Inr (effective (id_ent s) (the (us_companyId u))), e)"
    "ent_store_of e = ent_store_of (id_ent s)" "fresh_cache e" by blast
  with assms show ?thesis
  proof (cases "truthy (us_companyId u)")
    case False
    with assms show ?thesis
      by (intro exI [of _ "id_ent s"]) (simp add: modules_of_user_def user_modules_def)
  qed (auto simp: modules_of_user_def on_entitlements_def user_modules_def ent_inv_def)
qed

definition access_for :: "login_env \<Rightarrow> int \<Rightarrow> identity \<Rightarrow> user \<Rightarrow> string" where
  "access_for L now s u = signAccessToken (lg_mac L) (lg_secret L) now (live_claims u (user_modules s u))"

text \<open>What the holder of such a token is taken for until it expires.\<close>

lemma access_for_verifies:
  assumes "mac_shape (lg_mac L)" and "us_role u = SUPER_ADMIN \<longleftrightarrow> us_companyId u = None"
    and "now \<le> t" and "t div 1000 \<le> now div 1000 + ACCESS_TTL_S"
  shows "\<exists>c. verifyAccessToken (lg_mac L) (lg_secret L) t (access_for L now s u) = Inr c \<and>
    actor_of c = \<lparr>actor_userId = us_id u, actor_companyId = us_companyId u, actor_role = us_role u,
                  actor_modules = user_modules s u\<rparr> \<and> cl_tokenVersion c = us_tokenVersion u"
  using assms
  by (auto simp: access_for_def verify_signed stamped_def Let_def live_claims_def scope_ok_def actor_of_def)

definition new_session :: "int \<Rightarrow> string \<Rightarrow> string \<Rightarrow> user \<Rightarrow> string option \<Rightarrow> session" where
  "new_session now uuid token u device =
     \<lparr>se_id = uuid, se_userId = us_id u, se_refreshToken = token, se_deviceLabel = device,
      se_createdAt = now div 1000, se_lastUsedAt = None,
      se_expiresAt = now div 1000 + REFRESH_TTL_S, se_revokedAt = None\<rparr>"

lemma issue_login_success:
  assumes inv: "ent_inv (id_ent s)" and run: "issue_login L now uuid token u device s = (Inr res, s')"
  shows "res = (access_for L now s u, token, u) \<and> id_users s' = id_users s \<and>
    token \<notin> se_refreshToken ` set (id_sessions s) \<and>
    id_sessions s' = id_sessions s @ [new_session now uuid token u device] \<and> ent_inv (id_ent s') \<and>
    ent_store_of (id_ent s') = ent_store_of (id_ent s)"
proof -
  from modules_of_user_run [OF inv, of now u] obtain e where e:
    "modules_of_user now u s = (Inr (user_modules s u), s\<lparr>id_ent := e\<rparr>)" "ent_inv e"
    "ent_store_of e = ent_store_of (id_ent s)" by blast
  from run show ?thesis
    by (auto simp: issue_login_def exec_iff e Let_def create_session_def log_login_def access_for_def
        new_session_def)
qed

lemma login_fail_never [exec_iff]: "login_fail now ident reason uid s = (Inr r, t) \<longleftrightarrow> False"
  by (simp add: login_fail_def exec_iff)

lemma loginWithOtp_success:
  "loginWithOtp L now uuid token otp_ok phone device s = (Inr res, s') \<longleftrightarrow>
     otp_ok \<and> (\<exists>u. byPhone phone s = Some u \<and> us_active u \<and>
       issue_login L now uuid token u device s = (Inr res, s'))"
  by (auto simp: loginWithOtp_def exec_iff split: option.splits if_splits)

lemma loginWithPassword_success:
  "loginWithPassword L now uuid token email pw device s = (Inr res, s') \<longleftrightarrow>
     (\<exists>u h. byEmail (to_lower email) s = Some u \<and> us_active u \<and> us_passwordHash u = Some h \<and>
       h \<noteq> [] \<and> verifyPassword (lg_scrypt L) pw h \<and>
       issue_login L now uuid token u device s = (Inr res, s'))"
  by (auto simp: loginWithPassword_def exec_iff truthy_iff split: option.splits if_splits)

lemma refresh_success:
  assumes inv: "identity_inv s" and run: "refresh L now fresh token s = (Inr res, s')"
  obtains se u where "byRefreshToken token s = Some se" "\<not> set_number (se_revokedAt se)"
    "now div 1000 \<le> se_expiresAt se" "byId (se_userId se) s = Some u" "us_active u"
    "res = (access_for L now s u, fresh)" "id_users s' = id_users s"
    "ent_inv (id_ent s')" "ent_store_of (id_ent s') = ent_store_of (id_ent s)"
    "\<not> (\<exists>x \<in> set (id_sessions s). se_refreshToken x = fresh \<and> se_id x \<noteq> se_id se)"
    "id_sessions s' = update_where (\<lambda>x. se_id x = se_id se)
       (\<lambda>x. x\<lparr>se_refreshToken := fresh, se_expiresAt := now div 1000 + REFRESH_TTL_S,
               se_lastUsedAt := Some (now div 1000)\<rparr>) (id_sessions s)"
proof -
  from run obtain se u where 1: "byRefreshToken token s = Some se" "\<not> set_number (se_revokedAt se)"
    "now div 1000 \<le> se_expiresAt se" "byId (se_userId se) s = Some u" "us_active u"
    by (auto simp: refresh_def exec_iff split: option.splits if_splits)
  from inv have "ent_inv (id_ent s)" by (simp add: identity_inv_def)
  from modules_of_user_run [OF this, of now u] obtain e where e:
    "modules_of_user now u s = (Inr (user_modules s u), s\<lparr>id_ent := e\<rparr>)" "ent_inv e"
    "ent_store_of e = ent_store_of (id_ent s)" by blast
  from run 1 e show ?thesis
    by (intro that [of se u])
      (auto simp: refresh_def exec_iff Let_def rotate_def update_sessions_def access_for_def)
qed

lemma byRefreshToken_rotated:
  assumes ok: "sessions_ok t" and mem: "se \<in> set t" "se_refreshToken se = token" and new: "fresh \<noteq> token"
  shows "\<forall>x \<in> set (update_where (\<lambda>x. se_id x = se_id se)
    (\<lambda>x. x\<lparr>se_refreshToken := fresh, se_expiresAt := e, se_lastUsedAt := l\<rparr>) t). se_refreshToken x \<noteq> token"
proof
  fix x
  assume "x \<in> set (update_where (\<lambda>x. se_id x = se_id se)
    (\<lambda>x. x\<lparr>se_refreshToken := fresh, se_expiresAt := e, se_lastUsedAt := l\<rparr>) t)"
  then consider "se_refreshToken x = fresh" | "x \<in> set t" "se_id x \<noteq> se_id se"
    unfolding set_update_where by auto
  then show "se_refreshToken x \<noteq> token"
  proof cases
    case 2
    with ok mem unique_key [of se_refreshToken t x se] show ?thesis by (auto simp: sessions_ok_def)
  qed (use new in simp)
qed

lemma refresh_dead_token:
  "byRefreshToken token s = None \<Longrightarrow>
   refresh L now fresh token s = (Inl (Error ''INVALID_REFRESH_TOKEN''), s)"
  by (simp add: refresh_def bindE_def)

section \<open>Logging a user out everywhere\<close>

lemma logoutEverywhere_run:
  "\<exists>n. logoutEverywhere now uid s = (Inr n,
     s\<lparr>id_users := update_where (\<lambda>u. us_id u = uid) (\<lambda>u. u\<lparr>us_tokenVersion := us_tokenVersion u + 1\<rparr>) (id_users s),
       id_sessions := update_where (\<lambda>x. se_userId x = uid \<and> se_revokedAt x = None)
         (\<lambda>x. x\<lparr>se_revokedAt := Some (now div 1000)\<rparr>) (id_sessions s)\<rparr>)"
  by (simp add: logoutEverywhere_def bumpTokenVersion_def update_users_def revokeAllForUser_def
      update_sessions_def bindE_def)

section \<open>Role changes\<close>

definition rerole :: "role \<Rightarrow> user \<Rightarrow> user" where
  "rerole r u = u\<lparr>us_role := r, us_tokenVersion := us_tokenVersion u + 1\<rparr>"

lemma rerole_simps [simp]:
  "us_id (rerole r u) = us_id u" "us_companyId (rerole r u) = us_companyId u"
  "us_phone (rerole r u) = us_phone u" "us_email (rerole r u) = us_email u"
  "us_role (rerole r u) = r" "us_tokenVersion (rerole r u) = us_tokenVersion u + 1"
  by (simp_all add: rerole_def)

definition role_change_ok ::
  "string \<Rightarrow> role \<Rightarrow> string option \<Rightarrow> string \<Rightarrow> role \<Rightarrow> user \<Rightarrow> identity \<Rightarrow> bool" where
  "role_change_ok actorId actorRole actorCompanyId uid r target s \<longleftrightarrow>
     byId uid s = Some target \<and> canAssign actorRole r \<and>
     (actorRole = SUPER_ADMIN \<or> us_companyId target = actorCompanyId) \<and>
     us_role target \<noteq> SUPER_ADMIN \<and> (actorId = uid \<longrightarrow> r = us_role target) \<and>
     (us_role target = COMPANY_ADMIN \<and> r \<noteq> COMPANY_ADMIN \<longrightarrow>
        1 < countByRole (us_companyId target) COMPANY_ADMIN s)"

lemma changeRole_success:
  "changeRole now actorId actorRole actorCompanyId uid r s = (Inr res, s') \<longleftrightarrow>
     res = (uid, r) \<and>
     (\<exists>target. role_change_ok actorId actorRole actorCompanyId uid r target s \<and>
       s' = s\<lparr>id_users := update_where (\<lambda>u. us_id u = uid) (rerole r) (id_users s),
         id_sessions := update_where (\<lambda>x. se_userId x = uid \<and> se_revokedAt x = None)
           (\<lambda>x. x\<lparr>se_revokedAt := Some (now div 1000)\<rparr>) (id_sessions s),
         id_roles := id_roles s @
          [\<lparr>re_actorId = actorId, re_targetUserId = uid, re_companyId = us_companyId target,
            re_from = us_role target, re_to = r, re_at = now\<rparr>]\<rparr>)"
proof -
  have two: "update_where (\<lambda>u. us_id u = uid) (\<lambda>u. u\<lparr>us_tokenVersion := us_tokenVersion u + 1\<rparr>)
      (update_where (\<lambda>u. us_id u = uid) (\<lambda>u. u\<lparr>us_role := r\<rparr>) us) =
      update_where (\<lambda>u. us_id u = uid) (rerole r) us" for us
    by (auto simp: update_where_def rerole_def)
  show ?thesis
    by (auto simp: changeRole_def exec_iff role_change_ok_def CROSS_TENANT_ROLES_def update_users_def
        logoutEverywhere_def bumpTokenVersion_def revokeAllForUser_def update_sessions_def two)
qed

lemma canAssign_iff:
  "canAssign a r \<longleftrightarrow> (a = SUPER_ADMIN \<or> a = COMPANY_ADMIN) \<and> r \<noteq> SUPER_ADMIN"
  by (cases a; cases r) (simp_all add: canAssign_def)

lemma users_ok_rerole:
  assumes ok: "users_ok us" and "r \<noteq> SUPER_ADMIN"
    and target: "\<And>u. u \<in> set us \<Longrightarrow> us_id u = uid \<Longrightarrow> us_role u \<noteq> SUPER_ADMIN"
  shows "users_ok (update_where (\<lambda>u. us_id u = uid) (rerole r) us)"
proof -
  have "\<forall>u \<in> set (update_where (\<lambda>u. us_id u = uid) (rerole r) us). us_role u = SUPER_ADMIN \<longleftrightarrow> us_companyId u = None"
    using ok target \<open>r \<noteq> SUPER_ADMIN\<close> unfolding set_update_where users_ok_def by force
  then show ?thesis
    using ok by (simp add: users_ok_def unique_where_set_def map_update_where map_filter_update)
qed

lemma super_admins_rerole:
  assumes "r \<noteq> SUPER_ADMIN"
    and "\<And>u. u \<in> set us \<Longrightarrow> us_id u = uid \<Longrightarrow> us_role u \<noteq> SUPER_ADMIN"
  shows "filter (\<lambda>u. us_role u = SUPER_ADMIN) (update_where (\<lambda>u. us_id u = uid) (rerole r) us) =
    filter (\<lambda>u. us_role u = SUPER_ADMIN) us"
  using assms by (induction us) auto

lemma two_members:
  assumes "distinct (map us_id us)" and "1 < length (filter P us)"
  shows "\<exists>v \<in> set us. P v \<and> us_id v \<noteq> uid"
proof (rule ccontr)
  assume "\<not> ?thesis"
  then have "set (map us_id (filter P us)) \<subseteq> {uid}" by auto
  then have "card (set (map us_id (filter P us))) \<le> card {uid}" by (intro card_mono) auto
  moreover have "distinct (map us_id (filter P us))" using assms(1) by (rule distinct_map_filter)
  then have "card (set (map us_id (filter P us))) = length (map us_id (filter P us))" by (rule distinct_card)
  ultimately show False using assms(2) by simp
qed

lemma admin_remains:
  assumes ids: "distinct (map us_id us)" and target: "target \<in> set us" "us_id target = uid"
    and before: "\<exists>u \<in> set us. us_companyId u = c \<and> us_role u = COMPANY_ADMIN"
    and last: "us_role target = COMPANY_ADMIN \<and> r \<noteq> COMPANY_ADMIN \<longrightarrow>
      1 < length (filter (\<lambda>u. us_companyId u = us_companyId target \<and> us_role u = COMPANY_ADMIN) us)"
  shows "\<exists>u \<in> set (update_where (\<lambda>u. us_id u = uid) (rerole r) us). us_companyId u = c \<and> us_role u = COMPANY_ADMIN"
proof -
  have keep: "v \<in> set us \<Longrightarrow> us_id v \<noteq> uid \<Longrightarrow> v \<in> set (update_where (\<lambda>u. us_id u = uid) (rerole r) us)" for v
    by (auto simp: set_update_where)
  have same: "u = target" if "u \<in> set us" "us_id u = uid" for u
    using unique_key [OF ids that(1) target(1)] that(2) target(2) by simp
  from before obtain u where u: "u \<in> set us" "us_companyId u = c" "us_role u = COMPANY_ADMIN" by blast
  show ?thesis
  proof (cases "us_id u = uid")
    case False
    with u keep show ?thesis by blast
  next
    case True
    with same u have ut: "u = target" by blast
    show ?thesis
    proof (cases "r = COMPANY_ADMIN")
      case True
      have "rerole r target \<in> set (update_where (\<lambda>u. us_id u = uid) (rerole r) us)"
        using target by (auto simp: set_update_where)
      then show ?thesis using True u ut by (intro bexI [of _ "rerole r target"]) simp_all
    next
      case False
      with last u ut two_members [OF ids] obtain v where
        "v \<in> set us" "us_companyId v = c" "us_role v = COMPANY_ADMIN" "us_id v \<noteq> uid" by blast
      with keep show ?thesis by blast
    qed
  qed
qed

end
