(* ===== verification/Onboarding.thy ===== *)
theory Onboarding imports Sessions begin

text \<open>
  How companies and people enter the system: \<open>identity/companies/registration.ts\<close>,
  \<open>invitations.ts\<close> and \<open>join.ts\<close>. The stores are the tables \<open>companies\<close>, \<open>users\<close>,
  \<open>invitations\<close> and \<open>join_requests\<close> of \<open>identity/db/schema.sql\<close>, inserts fail on its
  constraints. Generated identifiers, random bytes and setup tokens are arguments; the clock is
  read once per call, in milliseconds. The step relation at the end runs the operations in any
  order; its invariant says where users can come from.
\<close>

datatype company_status = CO_PENDING | CO_ACTIVE | CO_SUSPENDED

record company =
  co_id :: string
  co_companyCode :: string
  co_legalName :: string
  co_gstin :: "string option"
  co_contactPhone :: string
  co_contactEmail :: string
  co_status :: company_status
  co_plan :: plan
  co_createdAt :: int
  co_approvedBy :: "string option"

datatype invite_status = INV_PENDING | INV_ACCEPTED | INV_REVOKED | INV_EXPIRED

record invitation =
  in_id :: string
  in_companyId :: string
  in_role :: role
  in_fullName :: string
  in_phone :: "string option"
  in_email :: "string option"
  in_invitedBy :: string
  in_status :: invite_status
  in_createdAt :: int
  in_expiresAt :: int
  in_acceptedUserId :: "string option"

datatype join_status = JR_PENDING | JR_APPROVED | JR_REJECTED

record join_request =
  jr_id :: string
  jr_companyId :: string
  jr_fullName :: string
  jr_phone :: string
  jr_requestedRole :: role
  jr_status :: join_status
  jr_createdAt :: int
  jr_decidedBy :: "string option"
  jr_decidedAt :: "int option"

datatype notice = WhatsApp string string | Email string string string

record registry =
  rg_companies :: "company list"
  rg_users :: "user list"
  rg_invites :: "invitation list"
  rg_requests :: "join_request list"
  rg_ent :: ent_state
  rg_notices :: "notice list"

definition rg_entitlements :: "(ent_state, 'a) exec \<Rightarrow> (registry, 'a) exec" where
  "rg_entitlements m = (\<lambda>s. case m (rg_ent s) of (r, e) \<Rightarrow> (r, s\<lparr>rg_ent := e\<rparr>))"

text \<open>A constraint of the schema, checked on the state the statement runs in.\<close>

definition constraint :: "(registry \<Rightarrow> bool) \<Rightarrow> string \<Rightarrow> (registry, unit) exec" where
  "constraint ok name = (\<lambda>s. if ok s then (Inr (), s) else (Inl (PgError name), s))"

lemma constraint_success [exec_iff]: "constraint ok n s = (Inr u, t) \<longleftrightarrow> ok s \<and> t = s"
  by (auto simp: constraint_def)

section \<open>Companies\<close>

definition CODE_ALPHABET :: string where
  "CODE_ALPHABET = ''0123456789ABCDEFGHJKMNPQRSTVWXYZ''"

definition generateCompanyCode :: "nat list \<Rightarrow> string" where
  "generateCompanyCode b = ''DTD-'' @ map (\<lambda>x. CODE_ALPHABET ! (x mod length CODE_ALPHABET)) (take 6 b)"

definition company_byId :: "string \<Rightarrow> registry \<Rightarrow> company option" where
  "company_byId i s = find (\<lambda>c. co_id c = i) (rg_companies s)"

definition company_byCode :: "string \<Rightarrow> registry \<Rightarrow> company option" where
  "company_byCode code s = find (\<lambda>c. co_companyCode c = code) (rg_companies s)"

definition company_byGstin :: "string \<Rightarrow> registry \<Rightarrow> company option" where
  "company_byGstin g s = find (\<lambda>c. co_gstin c = Some g) (rg_companies s)"

definition insert_company :: "company \<Rightarrow> (registry, unit) exec" where
  "insert_company c =
     bindE (constraint (\<lambda>s. \<forall>x \<in> set (rg_companies s). co_id x \<noteq> co_id c) ''companies_pkey'') (\<lambda>_.
     bindE (constraint (\<lambda>s. \<forall>x \<in> set (rg_companies s). co_companyCode x \<noteq> co_companyCode c)
              ''companies_company_code_key'') (\<lambda>_.
     bindE (constraint (\<lambda>s. co_gstin c \<noteq> None \<longrightarrow> (\<forall>x \<in> set (rg_companies s). co_gstin x \<noteq> co_gstin c))
              ''companies_gstin_key'') (\<lambda>_.
     modifies (\<lambda>s. s\<lparr>rg_companies := rg_companies s @ [c]\<rparr>))))"

definition update_company :: "string \<Rightarrow> (company \<Rightarrow> company) \<Rightarrow> (registry, unit) exec" where
  "update_company i f =
     modifies (\<lambda>s. s\<lparr>rg_companies := update_where (\<lambda>c. co_id c = i) f (rg_companies s)\<rparr>)"

definition company_setStatus :: "string \<Rightarrow> company_status \<Rightarrow> string option \<Rightarrow> (registry, unit) exec" where
  "company_setStatus i st by_id = update_company i
     (\<lambda>c. c\<lparr>co_status := st, co_approvedBy := (if by_id = None then co_approvedBy c else by_id)\<rparr>)"

definition company_setPlan :: "string \<Rightarrow> plan \<Rightarrow> (registry, unit) exec" where
  "company_setPlan i p = update_company i (\<lambda>c. c\<lparr>co_plan := p\<rparr>)"

section \<open>Users\<close>

definition insert_user :: "user \<Rightarrow> (registry, unit) exec" where
  "insert_user u =
     bindE (constraint (\<lambda>s. \<forall>x \<in> set (rg_users s). us_id x \<noteq> us_id u) ''users_pkey'') (\<lambda>_.
     bindE (constraint (\<lambda>s. \<forall>c. us_companyId u = Some c \<longrightarrow> c \<in> co_id ` set (rg_companies s))
              ''users_company_id_fkey'') (\<lambda>_.
     bindE (constraint (\<lambda>s. us_phone u \<noteq> None \<longrightarrow> (\<forall>x \<in> set (rg_users s). us_phone x \<noteq> us_phone u))
              ''users_phone_key'') (\<lambda>_.
     bindE (constraint (\<lambda>s. us_email u \<noteq> None \<longrightarrow> (\<forall>x \<in> set (rg_users s). us_email x \<noteq> us_email u))
              ''users_email_key'') (\<lambda>_.
     bindE (constraint (\<lambda>_. us_phone u \<noteq> None \<or> us_email u \<noteq> None) ''users_need_a_contact'') (\<lambda>_.
     bindE (constraint (\<lambda>_. (us_role u = SUPER_ADMIN) = (us_companyId u = None)) ''users_company_scope'') (\<lambda>_.
     modifies (\<lambda>s. s\<lparr>rg_users := rg_users s @ [u]\<rparr>)))))))"

definition new_user ::
  "string \<Rightarrow> string \<Rightarrow> role \<Rightarrow> string \<Rightarrow> string option \<Rightarrow> string option \<Rightarrow> user" where
  "new_user uid cid r name phone email =
     \<lparr>us_id = uid, us_companyId = Some cid, us_role = r, us_fullName = name, us_phone = phone,
      us_email = email, us_passwordHash = None, us_active = True, us_tokenVersion = 1\<rparr>"

text \<open>\<open>UserCreator\<close> and \<open>AdminUserCreator\<close>\<close>

definition create_user ::
  "string \<Rightarrow> string \<Rightarrow> role \<Rightarrow> string \<Rightarrow> string option \<Rightarrow> string option \<Rightarrow> (registry, string) exec" where
  "create_user uid cid r name phone email =
     bindE (insert_user (new_user uid cid r name phone email)) (\<lambda>_. return uid)"

definition existsByContact :: "string option \<Rightarrow> string option \<Rightarrow> registry \<Rightarrow> bool" where
  "existsByContact phone email s \<longleftrightarrow>
     (\<exists>u \<in> set (rg_users s). (phone \<noteq> None \<and> us_phone u = phone) \<or> (email \<noteq> None \<and> us_email u = email))"

definition createCompanyAdmin ::
  "string \<Rightarrow> string \<Rightarrow> string \<Rightarrow> string \<Rightarrow> string \<Rightarrow> string \<Rightarrow> (registry, string \<times> string) exec" where
  "createCompanyAdmin uid setup cid name email phone =
     bindE (create_user uid cid COMPANY_ADMIN name (Some phone) (Some email)) (\<lambda>u. return (u, setup))"

section \<open>Registration\<close>

record company_input =
  ci_legalName :: string
  ci_gstin :: "string option"
  ci_contactPhone :: string
  ci_contactEmail :: string

definition assertUniqueGstin :: "string option \<Rightarrow> (registry, unit) exec" where
  "assertUniqueGstin g =
     (if \<not> truthy g then return ()
      else bindE (reads (company_byGstin (the g))) (\<lambda>existing.
           throw_if (existing \<noteq> None) (Error ''GSTIN_ALREADY_REGISTERED'')))"

definition new_company ::
  "int \<Rightarrow> string \<Rightarrow> nat list \<Rightarrow> company_input \<Rightarrow> company_status \<Rightarrow> plan \<Rightarrow> string option \<Rightarrow> company" where
  "new_company now uuid bytes i st p approver =
     \<lparr>co_id = uuid, co_companyCode = generateCompanyCode bytes, co_legalName = ci_legalName i,
      co_gstin = ci_gstin i, co_contactPhone = ci_contactPhone i,
      co_contactEmail = to_lower (ci_contactEmail i), co_status = st, co_plan = p,
      co_createdAt = now, co_approvedBy = approver\<rparr>"

definition provision ::
  "int \<Rightarrow> string \<Rightarrow> nat list \<Rightarrow> string \<Rightarrow> string \<Rightarrow> company_input \<Rightarrow> plan \<Rightarrow> string \<Rightarrow> string \<Rightarrow>
   (registry, company \<times> string \<times> string) exec" where
  "provision now uuid bytes uid setup i p adminName provisionedBy =
     bindE (assertUniqueGstin (ci_gstin i)) (\<lambda>_.
     let company = new_company now uuid bytes i CO_ACTIVE p (Some provisionedBy)
     in bindE (insert_company company) (\<lambda>_.
        bindE (rg_entitlements (applyPlan now (co_id company) p)) (\<lambda>_.
        bindE (createCompanyAdmin uid setup (co_id company) adminName
                 (to_lower (ci_contactEmail i)) (ci_contactPhone i)) (\<lambda>(u, tok).
        return (company, u, tok)))))"

definition apply_company ::
  "int \<Rightarrow> string \<Rightarrow> nat list \<Rightarrow> company_input \<Rightarrow> (registry, string \<times> company_status) exec" where
  "apply_company now uuid bytes i =
     bindE (assertUniqueGstin (ci_gstin i)) (\<lambda>_.
     let company = new_company now uuid bytes i CO_PENDING STARTER None
     in bindE (insert_company company) (\<lambda>_. return (co_id company, CO_PENDING)))"

definition approve_company ::
  "int \<Rightarrow> string \<Rightarrow> string \<Rightarrow> string \<Rightarrow> string \<Rightarrow> plan \<Rightarrow> string \<Rightarrow>
   (registry, string \<times> string \<times> string) exec" where
  "approve_company now uid setup cid superAdminId p adminName =
     bindE (reads (company_byId cid)) (\<lambda>found.
     bindE (need found (Error ''COMPANY_NOT_FOUND'')) (\<lambda>company.
     bindE (throw_if (co_status company \<noteq> CO_PENDING) (Error ''NOT_PENDING'')) (\<lambda>_.
     bindE (company_setStatus cid CO_ACTIVE (Some superAdminId)) (\<lambda>_.
     bindE (company_setPlan cid p) (\<lambda>_.
     bindE (rg_entitlements (applyPlan now cid p)) (\<lambda>_.
     bindE (createCompanyAdmin uid setup cid adminName (co_contactEmail company)
              (co_contactPhone company)) (\<lambda>(u, tok).
     return (cid, u, tok))))))))"

definition suspend :: "string \<Rightarrow> string \<Rightarrow> (registry, unit) exec" where
  "suspend cid superAdminId = company_setStatus cid CO_SUSPENDED (Some superAdminId)"

definition registration_byCode :: "string \<Rightarrow> registry \<Rightarrow> company option" where
  "registration_byCode code = company_byCode (to_upper (trim code))"

section \<open>Invitations\<close>

definition INVITE_TTL_MS :: int where
  "INVITE_TTL_MS = 7 * 24 * 3600 * 1000"

definition INVITABLE_ROLES :: "role list" where
  "INVITABLE_ROLES = [COMPANY_ADMIN, DISPATCHER, DRIVER, RECEIVER]"

fun humanRole :: "role \<Rightarrow> string" where
  "humanRole SUPER_ADMIN = ''Platform Admin''"
| "humanRole COMPANY_ADMIN = ''Company Admin''"
| "humanRole DISPATCHER = ''Dispatcher''"
| "humanRole DRIVER = ''Driver''"
| "humanRole RECEIVER = ''Receiver''"

record invite_conf =
  ic_mac :: mac_fun
  ic_secret :: string
  ic_baseUrl :: string

definition invite_json :: "string \<Rightarrow> int \<Rightarrow> json" where
  "invite_json i e = JObj [(''i'', JStr i), (''e'', JNum (show_int e))]"

definition encode_invite :: "invite_conf \<Rightarrow> string \<Rightarrow> int \<Rightarrow> string" where
  "encode_invite C i e = seal (ic_mac C) (ic_secret C) (b64url (stringify (invite_json i e)))"

definition invite_of_json :: "json \<Rightarrow> (string \<times> int) option" where
  "invite_of_json j =
     (case (Option.bind (field ''i'' j) as_text, Option.bind (field ''e'' j) as_int) of
        (Some i, Some e) \<Rightarrow> Some (i, e) | _ \<Rightarrow> None)"

definition existingPending :: "string \<Rightarrow> string \<Rightarrow> registry \<Rightarrow> invitation option" where
  "existingPending cid contact s = find (\<lambda>i. in_companyId i = cid \<and> in_status i = INV_PENDING \<and>
     (in_phone i = Some contact \<or> in_email i = Some contact)) (rg_invites s)"

definition invite_byId :: "string \<Rightarrow> registry \<Rightarrow> invitation option" where
  "invite_byId i s = find (\<lambda>x. in_id x = i) (rg_invites s)"

definition update_invite :: "string \<Rightarrow> (invitation \<Rightarrow> invitation) \<Rightarrow> (registry, unit) exec" where
  "update_invite i f =
     modifies (\<lambda>s. s\<lparr>rg_invites := update_where (\<lambda>x. in_id x = i) f (rg_invites s)\<rparr>)"

definition no_pending :: "(invitation \<Rightarrow> string option) \<Rightarrow> invitation \<Rightarrow> registry \<Rightarrow> bool" where
  "no_pending contact i s \<longleftrightarrow> contact i = None \<or>
     (\<forall>x \<in> set (rg_invites s). in_status x = INV_PENDING \<longrightarrow> in_companyId x = in_companyId i \<longrightarrow>
        contact x \<noteq> contact i)"

definition insert_invite :: "invitation \<Rightarrow> (registry, unit) exec" where
  "insert_invite i =
     bindE (constraint (\<lambda>s. \<forall>x \<in> set (rg_invites s). in_id x \<noteq> in_id i) ''invitations_pkey'') (\<lambda>_.
     bindE (constraint (\<lambda>s. in_companyId i \<in> co_id ` set (rg_companies s)) ''invitations_company_id_fkey'') (\<lambda>_.
     bindE (constraint (\<lambda>s. in_invitedBy i \<in> us_id ` set (rg_users s)) ''invitations_invited_by_fkey'') (\<lambda>_.
     bindE (constraint (\<lambda>_. in_phone i \<noteq> None \<or> in_email i \<noteq> None) ''invitations_need_a_contact'') (\<lambda>_.
     bindE (constraint (\<lambda>_. in_role i \<noteq> SUPER_ADMIN) ''invitations_no_superadmin'') (\<lambda>_.
     bindE (constraint (no_pending in_phone i) ''invitations_pending_phone_idx'') (\<lambda>_.
     bindE (constraint (no_pending in_email i) ''invitations_pending_email_idx'') (\<lambda>_.
     modifies (\<lambda>s. s\<lparr>rg_invites := rg_invites s @ [i]\<rparr>))))))))"

record invite_input =
  ii_companyId :: string
  ii_invitedBy :: string
  ii_role :: role
  ii_fullName :: string
  ii_phone :: "string option"
  ii_email :: "string option"

definition new_invitation :: "int \<Rightarrow> string \<Rightarrow> invite_input \<Rightarrow> invitation" where
  "new_invitation now uuid i =
     \<lparr>in_id = uuid, in_companyId = ii_companyId i, in_role = ii_role i, in_fullName = ii_fullName i,
      in_phone = ii_phone i, in_email = map_option to_lower (ii_email i), in_invitedBy = ii_invitedBy i,
      in_status = INV_PENDING, in_createdAt = now, in_expiresAt = now + INVITE_TTL_MS,
      in_acceptedUserId = None\<rparr>"

definition send_notice :: "notice \<Rightarrow> (registry, unit) exec" where
  "send_notice n = modifies (\<lambda>s. s\<lparr>rg_notices := rg_notices s @ [n]\<rparr>)"

definition invite ::
  "invite_conf \<Rightarrow> int \<Rightarrow> string \<Rightarrow> invite_input \<Rightarrow> (registry, string \<times> string \<times> int) exec" where
  "invite C now uuid i =
     bindE (throw_if (ii_role i \<notin> set INVITABLE_ROLES)
              (Error (''ROLE_NOT_INVITABLE:'' @ role_text (ii_role i)))) (\<lambda>_.
     bindE (throw_if (\<not> truthy (ii_phone i) \<and> \<not> truthy (ii_email i)) (Error ''NEED_PHONE_OR_EMAIL'')) (\<lambda>_.
     bindE (reads (existsByContact (ii_phone i) (ii_email i))) (\<lambda>known.
     bindE (throw_if known (Error ''USER_ALREADY_EXISTS'')) (\<lambda>_.
     let contact = coalesce (ii_phone i) (coalesce (ii_email i) [])
     in bindE (reads (existingPending (ii_companyId i) contact)) (\<lambda>pending.
        bindE (throw_if (pending \<noteq> None) (Error ''INVITE_ALREADY_PENDING'')) (\<lambda>_.
        let invitation = new_invitation now uuid i;
            url = ic_baseUrl C @ ''/join/'' @ encode_invite C (in_id invitation) (in_expiresAt invitation);
            message = ''You've been added as '' @ humanRole (ii_role i) @ ''. '' @
              ''Tap to set up your DTD account (link valid 7 days):'' @ char_of (10 :: nat) # url
        in bindE (insert_invite invitation) (\<lambda>_.
           bindE (if truthy (in_phone invitation) then
                    send_notice (WhatsApp (the (in_phone invitation)) message)
                  else if truthy (in_email invitation) then
                    send_notice (Email (the (in_email invitation)) ''Your DTD account'' message)
                  else return ()) (\<lambda>_.
           return (in_id invitation, url, in_expiresAt invitation)))))))))"

text \<open>
  \<open>resolve\<close>. A payload under a valid seal is one \<open>encode\<close> wrote; a different one is reported
  as \<open>SyntaxError\<close>.
\<close>

definition resolve_invite :: "invite_conf \<Rightarrow> int \<Rightarrow> string \<Rightarrow> (registry, invitation) exec" where
  "resolve_invite C now token =
     bindE (lift_sum (unseal (ic_mac C) (ic_secret C) (Error ''MALFORMED_INVITE'')
              (Error ''BAD_INVITE_SIGNATURE'') token)) (\<lambda>payload.
     bindE (need (Option.bind (parse (b64url_decode payload)) invite_of_json)
              (Error ''SyntaxError'')) (\<lambda>(i, e).
     bindE (throw_if (now > e) (Error ''INVITE_EXPIRED'')) (\<lambda>_.
     bindE (reads (invite_byId i)) (\<lambda>found.
     bindE (need found (Error ''INVITE_NOT_FOUND'')) (\<lambda>inv.
     bindE (throw_if (in_status inv = INV_REVOKED) (Error ''INVITE_REVOKED'')) (\<lambda>_.
     bindE (throw_if (in_status inv = INV_ACCEPTED) (Error ''INVITE_ALREADY_USED'')) (\<lambda>_.
     bindE (throw_if (now > in_expiresAt inv) (Error ''INVITE_EXPIRED'')) (\<lambda>_.
     return inv))))))))"

definition preview ::
  "invite_conf \<Rightarrow> int \<Rightarrow> string \<Rightarrow> (registry, string \<times> role \<times> string \<times> int) exec" where
  "preview C now token =
     bindE (resolve_invite C now token) (\<lambda>i.
     return (in_fullName i, in_role i, in_companyId i, in_expiresAt i))"

definition accept ::
  "invite_conf \<Rightarrow> int \<Rightarrow> string \<Rightarrow> string \<Rightarrow> (registry, string \<times> string \<times> role) exec" where
  "accept C now uid token =
     bindE (resolve_invite C now token) (\<lambda>i.
     bindE (create_user uid (in_companyId i) (in_role i) (in_fullName i) (in_phone i) (in_email i)) (\<lambda>u.
     bindE (update_invite (in_id i) (\<lambda>x. x\<lparr>in_status := INV_ACCEPTED, in_acceptedUserId := Some u\<rparr>)) (\<lambda>_.
     return (u, in_companyId i, in_role i))))"

definition revoke_invite :: "string \<Rightarrow> string \<Rightarrow> (registry, unit) exec" where
  "revoke_invite cid inviteId =
     bindE (reads (invite_byId inviteId)) (\<lambda>found.
     bindE (need found (Error ''INVITE_NOT_FOUND'')) (\<lambda>i.
     bindE (throw_if (in_companyId i \<noteq> cid) (Error ''WRONG_COMPANY'')) (\<lambda>_.
     bindE (throw_if (in_status i \<noteq> INV_PENDING) (Error ''NOT_PENDING'')) (\<lambda>_.
     update_invite inviteId (\<lambda>x. x\<lparr>in_status := INV_REVOKED\<rparr>)))))"

definition pending_invites :: "string \<Rightarrow> registry \<Rightarrow> invitation list" where
  "pending_invites cid s = filter (\<lambda>i. in_companyId i = cid \<and> in_status i = INV_PENDING) (rg_invites s)"

section \<open>Join requests\<close>

definition SELF_REQUESTABLE :: "role list" where
  "SELF_REQUESTABLE = [DRIVER, RECEIVER]"

definition request_byId :: "string \<Rightarrow> registry \<Rightarrow> join_request option" where
  "request_byId i s = find (\<lambda>x. jr_id x = i) (rg_requests s)"

definition pending_request :: "string \<Rightarrow> string \<Rightarrow> registry \<Rightarrow> join_request option" where
  "pending_request cid phone s = find (\<lambda>r. jr_companyId r = cid \<and> jr_phone r = phone \<and>
     jr_status r = JR_PENDING) (rg_requests s)"

definition insert_request :: "join_request \<Rightarrow> (registry, unit) exec" where
  "insert_request r =
     bindE (constraint (\<lambda>s. \<forall>x \<in> set (rg_requests s). jr_id x \<noteq> jr_id r) ''join_requests_pkey'') (\<lambda>_.
     bindE (constraint (\<lambda>s. jr_companyId r \<in> co_id ` set (rg_companies s)) ''join_requests_company_id_fkey'') (\<lambda>_.
     bindE (constraint (\<lambda>_. jr_requestedRole r = DRIVER \<or> jr_requestedRole r = RECEIVER)
              ''join_requests_low_privilege'') (\<lambda>_.
     bindE (constraint (\<lambda>s. pending_request (jr_companyId r) (jr_phone r) s = None)
              ''join_requests_pending_idx'') (\<lambda>_.
     modifies (\<lambda>s. s\<lparr>rg_requests := rg_requests s @ [r]\<rparr>)))))"

definition decide_request :: "int \<Rightarrow> string \<Rightarrow> join_status \<Rightarrow> string \<Rightarrow> (registry, unit) exec" where
  "decide_request now i st by_id =
     bindE (constraint (\<lambda>s. by_id \<in> us_id ` set (rg_users s)) ''join_requests_decided_by_fkey'') (\<lambda>_.
     modifies (\<lambda>s. s\<lparr>rg_requests := update_where (\<lambda>x. jr_id x = i)
       (\<lambda>x. x\<lparr>jr_status := st, jr_decidedBy := Some by_id, jr_decidedAt := Some now\<rparr>) (rg_requests s)\<rparr>))"

definition joinByInvite ::
  "invite_conf \<Rightarrow> int \<Rightarrow> string \<Rightarrow> string \<Rightarrow> (registry, string \<times> string \<times> role) exec" where
  "joinByInvite = accept"

definition new_request :: "int \<Rightarrow> string \<Rightarrow> string \<Rightarrow> string \<Rightarrow> string \<Rightarrow> role \<Rightarrow> join_request" where
  "new_request now uuid cid name phone r =
     \<lparr>jr_id = uuid, jr_companyId = cid, jr_fullName = name, jr_phone = phone, jr_requestedRole = r,
      jr_status = JR_PENDING, jr_createdAt = now, jr_decidedBy = None, jr_decidedAt = None\<rparr>"

definition requestJoin ::
  "int \<Rightarrow> string \<Rightarrow> string \<Rightarrow> string \<Rightarrow> string \<Rightarrow> role \<Rightarrow> (registry, string \<times> join_status \<times> string) exec" where
  "requestJoin now uuid code name phone r =
     bindE (throw_if (r \<notin> set SELF_REQUESTABLE)
              (Error (''ROLE_NOT_SELF_REQUESTABLE:'' @ role_text r))) (\<lambda>_.
     bindE (reads (company_byCode (to_upper (trim code)))) (\<lambda>found.
     bindE (need found (Error ''INVALID_COMPANY_CODE'')) (\<lambda>company.
     bindE (throw_if (co_status company \<noteq> CO_ACTIVE) (Error ''COMPANY_NOT_ACTIVE'')) (\<lambda>_.
     bindE (reads (existsByContact (Some phone) None)) (\<lambda>known.
     bindE (throw_if known (Error ''USER_ALREADY_EXISTS'')) (\<lambda>_.
     bindE (reads (pending_request (co_id company) phone)) (\<lambda>pending.
     bindE (throw_if (pending \<noteq> None) (Error ''REQUEST_ALREADY_PENDING'')) (\<lambda>_.
     bindE (insert_request (new_request now uuid (co_id company) name phone r)) (\<lambda>_.
     return (uuid, JR_PENDING, co_legalName company))))))))))"

definition approve_request ::
  "int \<Rightarrow> string \<Rightarrow> string \<Rightarrow> string \<Rightarrow> string \<Rightarrow> role option \<Rightarrow> (registry, string \<times> role) exec" where
  "approve_request now uid cid requestId approvedBy roleOverride =
     bindE (reads (request_byId requestId)) (\<lambda>found.
     bindE (need found (Error ''REQUEST_NOT_FOUND'')) (\<lambda>request.
     bindE (throw_if (jr_companyId request \<noteq> cid) (Error ''WRONG_COMPANY'')) (\<lambda>_.
     bindE (throw_if (jr_status request \<noteq> JR_PENDING) (Error ''NOT_PENDING'')) (\<lambda>_.
     let role = coalesce roleOverride (jr_requestedRole request)
     in bindE (throw_if (role \<notin> set SELF_REQUESTABLE \<and> role \<noteq> DISPATCHER)
                 (Error ''CANNOT_GRANT_THIS_ROLE_VIA_JOIN'')) (\<lambda>_.
        bindE (create_user uid cid role (jr_fullName request) (Some (jr_phone request)) None) (\<lambda>u.
        bindE (decide_request now requestId JR_APPROVED approvedBy) (\<lambda>_.
        return (u, role))))))))"

definition reject_request :: "int \<Rightarrow> string \<Rightarrow> string \<Rightarrow> string \<Rightarrow> (registry, unit) exec" where
  "reject_request now cid requestId by_id =
     bindE (reads (request_byId requestId)) (\<lambda>found.
     bindE (need found (Error ''REQUEST_NOT_FOUND'')) (\<lambda>request.
     bindE (throw_if (jr_companyId request \<noteq> cid) (Error ''WRONG_COMPANY'')) (\<lambda>_.
     decide_request now requestId JR_REJECTED by_id)))"

definition pending_requests :: "string \<Rightarrow> registry \<Rightarrow> join_request list" where
  "pending_requests cid s = filter (\<lambda>r. jr_companyId r = cid \<and> jr_status r = JR_PENDING) (rg_requests s)"

section \<open>The moves the registry makes\<close>

definition user_fits :: "user \<Rightarrow> registry \<Rightarrow> bool" where
  "user_fits u s \<longleftrightarrow>
     us_id u \<notin> us_id ` set (rg_users s) \<and>
     (\<forall>c. us_companyId u = Some c \<longrightarrow> c \<in> co_id ` set (rg_companies s)) \<and>
     (us_phone u \<noteq> None \<longrightarrow> us_phone u \<notin> us_phone ` set (rg_users s)) \<and>
     (us_email u \<noteq> None \<longrightarrow> us_email u \<notin> us_email ` set (rg_users s)) \<and>
     (us_role u = SUPER_ADMIN) = (us_companyId u = None)"

definition same_but_users :: "registry \<Rightarrow> registry \<Rightarrow> bool" where
  "same_but_users s t \<longleftrightarrow> rg_companies t = rg_companies s \<and> rg_invites t = rg_invites s \<and>
     rg_requests t = rg_requests s"

text \<open>
  The abstract specification: companies, users, invitations and requests change only by these
  moves. A user appears as the admin of a company, from an invitation that is not spent, or from a
  pending request.
\<close>

inductive onboard :: "registry \<Rightarrow> registry \<Rightarrow> bool" where
  Quiet: "same_but_users s t \<Longrightarrow> rg_users t = rg_users s \<Longrightarrow> onboard s t"
| Company: "co_id c \<notin> co_id ` set (rg_companies s) \<Longrightarrow>
    rg_companies t = rg_companies s @ [c] \<Longrightarrow> rg_users t = rg_users s \<Longrightarrow>
    rg_invites t = rg_invites s \<Longrightarrow> rg_requests t = rg_requests s \<Longrightarrow> onboard s t"
| Company_changed: "(\<And>c. co_id (f c) = co_id c) \<Longrightarrow>
    rg_companies t = update_where (\<lambda>c. co_id c = i) f (rg_companies s) \<Longrightarrow> rg_users t = rg_users s \<Longrightarrow>
    rg_invites t = rg_invites s \<Longrightarrow> rg_requests t = rg_requests s \<Longrightarrow> onboard s t"
| Admin: "user_fits u s \<Longrightarrow> us_role u = COMPANY_ADMIN \<Longrightarrow> same_but_users s t \<Longrightarrow>
    rg_users t = rg_users s @ [u] \<Longrightarrow> onboard s t"
| Invited: "in_id i \<notin> in_id ` set (rg_invites s) \<Longrightarrow> in_companyId i \<in> co_id ` set (rg_companies s) \<Longrightarrow>
    in_role i \<noteq> SUPER_ADMIN \<Longrightarrow> in_status i = INV_PENDING \<Longrightarrow>
    rg_companies t = rg_companies s \<Longrightarrow> rg_users t = rg_users s \<Longrightarrow>
    rg_invites t = rg_invites s @ [i] \<Longrightarrow> rg_requests t = rg_requests s \<Longrightarrow> onboard s t"
| Accepted: "invite_byId k s = Some i \<Longrightarrow> in_status i \<notin> {INV_ACCEPTED, INV_REVOKED} \<Longrightarrow>
    user_fits u s \<Longrightarrow> us_companyId u = Some (in_companyId i) \<Longrightarrow> us_role u = in_role i \<Longrightarrow>
    rg_companies t = rg_companies s \<Longrightarrow> rg_users t = rg_users s @ [u] \<Longrightarrow>
    rg_invites t = update_where (\<lambda>x. in_id x = k)
      (\<lambda>x. x\<lparr>in_status := INV_ACCEPTED, in_acceptedUserId := Some (us_id u)\<rparr>) (rg_invites s) \<Longrightarrow>
    rg_requests t = rg_requests s \<Longrightarrow> onboard s t"
| Revoked: "invite_byId k s = Some i \<Longrightarrow> in_status i = INV_PENDING \<Longrightarrow>
    rg_companies t = rg_companies s \<Longrightarrow> rg_users t = rg_users s \<Longrightarrow>
    rg_invites t = update_where (\<lambda>x. in_id x = k) (\<lambda>x. x\<lparr>in_status := INV_REVOKED\<rparr>) (rg_invites s) \<Longrightarrow>
    rg_requests t = rg_requests s \<Longrightarrow> onboard s t"
| Requested: "jr_id r \<notin> jr_id ` set (rg_requests s) \<Longrightarrow> jr_companyId r \<in> co_id ` set (rg_companies s) \<Longrightarrow>
    jr_requestedRole r \<in> {DRIVER, RECEIVER} \<Longrightarrow> jr_status r = JR_PENDING \<Longrightarrow>
    rg_companies t = rg_companies s \<Longrightarrow> rg_users t = rg_users s \<Longrightarrow>
    rg_invites t = rg_invites s \<Longrightarrow> rg_requests t = rg_requests s @ [r] \<Longrightarrow> onboard s t"
| Approved: "request_byId k s = Some r \<Longrightarrow> jr_status r = JR_PENDING \<Longrightarrow> user_fits u s \<Longrightarrow>
    us_companyId u = Some (jr_companyId r) \<Longrightarrow> us_phone u = Some (jr_phone r) \<Longrightarrow>
    us_role u \<in> {DRIVER, RECEIVER, DISPATCHER} \<Longrightarrow>
    same_but_users s t \<Longrightarrow> rg_users t = rg_users s @ [u] \<Longrightarrow> onboard s t"
| Decided: "rg_companies t = rg_companies s \<Longrightarrow> rg_users t = rg_users s \<Longrightarrow>
    rg_invites t = rg_invites s \<Longrightarrow>
    rg_requests t = update_where (\<lambda>x. jr_id x = k)
      (\<lambda>x. x\<lparr>jr_status := st, jr_decidedBy := by_id, jr_decidedAt := d\<rparr>) (rg_requests s) \<Longrightarrow> onboard s t"

text \<open>An operation stays within the moves, whatever it returns.\<close>

definition stays :: "(registry, 'a) exec \<Rightarrow> bool" where
  "stays m \<longleftrightarrow> (\<forall>s r t. m s = (r, t) \<longrightarrow> onboard\<^sup>*\<^sup>* s t)"

named_theorems stays "operations that stay within the moves"

lemma staysI: "(\<And>s. onboard\<^sup>*\<^sup>* s (snd (m s))) \<Longrightarrow> stays m"
  unfolding stays_def by (metis snd_conv)

lemma staysD: "stays m \<Longrightarrow> m s = (r, t) \<Longrightarrow> onboard\<^sup>*\<^sup>* s t"
  by (auto simp: stays_def)

lemma stays_one: "(\<And>s r t. m s = (r, t) \<Longrightarrow> t = s \<or> onboard s t) \<Longrightarrow> stays m"
  unfolding stays_def by blast

lemma stays_basic [stays]:
  "stays (return x)" "stays (raise e)" "stays (reads f)" "stays (throw_if b e)"
  "stays (need v e)" "stays (constraint ok n)" "stays (lift_sum y)"
  by (auto simp: stays_def return_def raise_def reads_def throw_if_def need_def constraint_def
      lift_sum_def split: if_splits option.splits)

lemma stays_bindE [stays]:
  assumes m: "stays m" and k: "\<And>x. stays (k x)"
  shows "stays (bindE m k)"
proof (rule staysI)
  fix s
  obtain r u where mu: "m s = (r, u)" by force
  with m have su: "onboard\<^sup>*\<^sup>* s u" by (rule staysD)
  show "onboard\<^sup>*\<^sup>* s (snd (bindE m k s))"
  proof (cases r)
    case (Inl e)
    with mu su show ?thesis by (simp add: bindE_def)
  next
    case (Inr x)
    have "onboard\<^sup>*\<^sup>* u (snd (k x u))" using staysD [OF k, of x u] by (cases "k x u") simp
    with mu su Inr show ?thesis by (simp add: bindE_def)
  qed
qed

lemma stays_if [stays]: "stays a \<Longrightarrow> stays b \<Longrightarrow> stays (if c then a else b)"
  by simp

lemma stays_split [stays]: "(\<And>a b. stays (f a b)) \<Longrightarrow> stays (case p of (a, b) \<Rightarrow> f a b)"
  by (cases p) simp

lemma stays_entitlements [stays]: "stays (rg_entitlements m)"
  by (rule stays_one) (auto simp: rg_entitlements_def same_but_users_def intro!: Quiet split: prod.splits)

lemma stays_notice [stays]: "stays (send_notice n)"
  by (rule stays_one) (auto simp: send_notice_def same_but_users_def intro!: Quiet)

lemma stays_insert_company [stays]: "stays (insert_company c)"
  by (rule stays_one)
    (auto simp: insert_company_def bindE_def constraint_def intro!: Company [of c] split: if_splits)

lemma stays_update_company: "(\<And>c. co_id (f c) = co_id c) \<Longrightarrow> stays (update_company i f)"
  by (rule stays_one) (auto simp: update_company_def intro!: Company_changed [of f _ i])

lemma stays_company_updates [stays]:
  "stays (company_setStatus i st by_id)" "stays (company_setPlan i p)"
  by (simp_all add: company_setStatus_def company_setPlan_def stays_update_company)

lemma constraint_failure: "constraint ok n s = (Inl e, t) \<longleftrightarrow> \<not> ok s \<and> e = PgError n \<and> t = s"
  by (auto simp: constraint_def)

lemma insert_user_success:
  "insert_user u s = (Inr r, t) \<Longrightarrow> user_fits u s \<and> t = s\<lparr>rg_users := rg_users s @ [u]\<rparr>"
  unfolding insert_user_def exec_iff user_fits_def by (simp add: image_iff) metis

lemma insert_user_failure: "insert_user u s = (Inl e, t) \<Longrightarrow> t = s"
  unfolding insert_user_def bindE_failure exec_iff constraint_failure by auto

lemma insert_user_cases:
  assumes "insert_user u s = (r, t)"
  obtains "t = s" "\<exists>e. r = Inl e"
  | "r = Inr ()" "user_fits u s" "t = s\<lparr>rg_users := rg_users s @ [u]\<rparr>"
proof (cases r)
  case (Inl e)
  with assms insert_user_failure have "t = s" by blast
  with Inl that(1) show ?thesis by blast
next
  case (Inr x)
  with assms have "insert_user u s = (Inr x, t)" by simp
  from insert_user_success [OF this] Inr that(2) show ?thesis by simp
qed

lemma stays_admin [stays]: "stays (createCompanyAdmin uid setup cid name email phone)"
proof (rule stays_one)
  fix s r t
  assume run: "createCompanyAdmin uid setup cid name email phone s = (r, t)"
  let ?u = "new_user uid cid COMPANY_ADMIN name (Some phone) (Some email)"
  obtain r' t' where i: "insert_user ?u s = (r', t')" by force
  from i show "t = s \<or> onboard s t"
  proof (cases rule: insert_user_cases)
    case 1
    with run i show ?thesis by (auto simp: createCompanyAdmin_def create_user_def bindE_def)
  next
    case 2
    with run i show ?thesis
      by (auto simp: createCompanyAdmin_def create_user_def bindE_def same_but_users_def
          new_user_def intro!: Admin [of ?u])
  qed
qed

lemma stays_insert_invite:
  "in_status i = INV_PENDING \<Longrightarrow> stays (insert_invite i)"
  by (rule stays_one)
    (auto simp: insert_invite_def bindE_def constraint_def intro!: Invited [of i] split: if_splits)

lemma stays_insert_request:
  "jr_status r = JR_PENDING \<Longrightarrow> stays (insert_request r)"
  by (rule stays_one)
    (auto simp: insert_request_def bindE_def constraint_def intro!: Requested [of r] split: if_splits)

lemma stays_decide [stays]: "stays (decide_request now i st by_id)"
  by (rule stays_one)
    (auto simp: decide_request_def bindE_def constraint_def intro!: Decided [where k = i and st = st and by_id = "Some by_id" and d = "Some now"] split: if_splits)

lemma resolve_invite_state:
  "snd (resolve_invite C now token s) = s"
  by (auto simp: resolve_invite_def bindE_def lift_sum_def need_def throw_if_def
      split: sum.splits option.splits prod.splits)

lemma resolve_invite_success:
  "resolve_invite C now token s = (Inr i, t) \<longleftrightarrow> t = s \<and>
     (\<exists>payload e. unseal (ic_mac C) (ic_secret C) (Error ''MALFORMED_INVITE'')
          (Error ''BAD_INVITE_SIGNATURE'') token = Inr payload \<and>
        Option.bind (parse (b64url_decode payload)) invite_of_json = Some (in_id i, e) \<and>
        now \<le> e \<and> invite_byId (in_id i) s = Some i \<and> in_status i \<notin> {INV_ACCEPTED, INV_REVOKED} \<and>
        now \<le> in_expiresAt i)"
proof -
  have "invite_byId k s = Some i \<Longrightarrow> in_id i = k" for k
    unfolding invite_byId_def by (drule find_SomeD) simp
  then show ?thesis
    by (auto simp: resolve_invite_def exec_iff not_less split: prod.splits)
qed

lemma accept_cases:
  assumes "accept C now uid token s = (r, t)"
  obtains "t = s" "\<exists>e. r = Inl e"
  | i where "resolve_invite C now token s = (Inr i, s)"
    "user_fits (new_user uid (in_companyId i) (in_role i) (in_fullName i) (in_phone i) (in_email i)) s"
    "r = Inr (uid, in_companyId i, in_role i)"
    "t = s\<lparr>rg_users := rg_users s @ [new_user uid (in_companyId i) (in_role i) (in_fullName i) (in_phone i) (in_email i)],
      rg_invites := update_where (\<lambda>x. in_id x = in_id i)
        (\<lambda>x. x\<lparr>in_status := INV_ACCEPTED, in_acceptedUserId := Some uid\<rparr>) (rg_invites s)\<rparr>"
proof (cases "fst (resolve_invite C now token s)")
  case (Inl e)
  then have "resolve_invite C now token s = (Inl e, s)"
    using resolve_invite_state [of C now token s] by (simp add: prod_eq_iff)
  with assms that(1) show ?thesis by (auto simp: accept_def bindE_def)
next
  case (Inr i)
  then have run: "resolve_invite C now token s = (Inr i, s)"
    using resolve_invite_state [of C now token s] by (simp add: prod_eq_iff)
  let ?u = "new_user uid (in_companyId i) (in_role i) (in_fullName i) (in_phone i) (in_email i)"
  obtain r' t' where ins: "insert_user ?u s = (r', t')" by force
  from ins show ?thesis
  proof (cases rule: insert_user_cases)
    case 1
    with assms run ins that(1) show ?thesis by (auto simp: accept_def bindE_def create_user_def)
  next
    case 2
    with assms run ins that(2) [of i] show ?thesis
      by (auto simp: accept_def bindE_def create_user_def update_invite_def)
  qed
qed

lemma stays_accept [stays]: "stays (accept C now uid token)"
proof (rule stays_one)
  fix s r t
  assume "accept C now uid token s = (r, t)"
  then show "t = s \<or> onboard s t"
  proof (cases rule: accept_cases)
    case (2 i)
    then show ?thesis
      by (intro disjI2 Accepted [of "in_id i" s i "new_user uid (in_companyId i) (in_role i)
            (in_fullName i) (in_phone i) (in_email i)"])
        (auto simp: resolve_invite_success new_user_def)
  qed simp
qed

lemma approve_request_cases:
  assumes "approve_request now uid cid k approver override s = (r, t)"
  obtains "t = s" "\<exists>e. r = Inl e"
  | q u where "request_byId k s = Some q" "jr_companyId q = cid" "jr_status q = JR_PENDING"
    "user_fits u s" "us_id u = uid" "us_companyId u = Some cid" "us_phone u = Some (jr_phone q)"
    "us_role u = coalesce override (jr_requestedRole q)" "us_role u \<in> {DRIVER, RECEIVER, DISPATCHER}"
    "(\<exists>e. r = Inl e \<and> t = s\<lparr>rg_users := rg_users s @ [u]\<rparr>) \<or>
     (r = Inr (uid, us_role u) \<and>
      decide_request now k JR_APPROVED approver (s\<lparr>rg_users := rg_users s @ [u]\<rparr>) = (Inr (), t))"
proof (cases "\<exists>q. request_byId k s = Some q \<and> jr_companyId q = cid \<and> jr_status q = JR_PENDING \<and>
    coalesce override (jr_requestedRole q) \<in> {DRIVER, RECEIVER, DISPATCHER}")
  case False
  then have "\<exists>e. approve_request now uid cid k approver override s = (Inl e, s)"
    by (cases "request_byId k s")
      (auto simp: approve_request_def bindE_def throw_if_def SELF_REQUESTABLE_def Let_def)
  with assms that(1) show ?thesis by auto
next
  case True
  then obtain q where q: "request_byId k s = Some q" "jr_companyId q = cid" "jr_status q = JR_PENDING"
    "coalesce override (jr_requestedRole q) \<in> {DRIVER, RECEIVER, DISPATCHER}" by blast
  let ?u = "new_user uid cid (coalesce override (jr_requestedRole q)) (jr_fullName q) (Some (jr_phone q)) None"
  obtain r' t' where ins: "insert_user ?u s = (r', t')" by force
  have u: "us_id ?u = uid" "us_companyId ?u = Some cid" "us_phone ?u = Some (jr_phone q)"
    "us_role ?u = coalesce override (jr_requestedRole q)" by (simp_all add: new_user_def)
  have step: "approve_request now uid cid k approver override s =
      bindE (insert_user ?u) (\<lambda>_. bindE (decide_request now k JR_APPROVED approver)
        (\<lambda>_. return (uid, coalesce override (jr_requestedRole q)))) s"
    using q by (auto simp: approve_request_def bindE_def throw_if_def SELF_REQUESTABLE_def Let_def
        create_user_def split: prod.splits sum.splits)
  from ins show ?thesis
  proof (cases rule: insert_user_cases)
    case 1
    with assms step ins that(1) show ?thesis by (auto simp: bindE_def)
  next
    case 2
    show ?thesis
      by (rule that(2) [of q ?u])
        (use assms step ins 2 q u in \<open>auto simp: bindE_def decide_request_def constraint_def split: if_splits\<close>)
  qed
qed

lemma stays_approve_request [stays]: "stays (approve_request now uid cid k approver override)"
  unfolding stays_def
proof (intro allI impI)
  fix s r t
  assume "approve_request now uid cid k approver override s = (r, t)"
  then show "onboard\<^sup>*\<^sup>* s t"
  proof (cases rule: approve_request_cases)
    case (2 q u)
    let ?s1 = "s\<lparr>rg_users := rg_users s @ [u]\<rparr>"
    have "onboard s ?s1"
      using 2 by (intro Approved [of k s q u]) (auto simp: same_but_users_def)
    moreover from 2(10) have "onboard\<^sup>*\<^sup>* ?s1 t"
      using staysD [OF stays_decide] by auto
    ultimately show ?thesis by (rule converse_rtranclp_into_rtranclp)
  qed simp
qed

lemma stays_revoke_invite [stays]: "stays (revoke_invite cid k)"
proof (rule stays_one)
  fix s r t
  assume "revoke_invite cid k s = (r, t)"
  then show "t = s \<or> onboard s t"
    by (cases "invite_byId k s")
      (auto simp: revoke_invite_def bindE_def throw_if_def update_invite_def split: if_splits
        intro!: Revoked [of k])
qed

lemma stays_preview [stays]: "stays (preview C now token)"
proof -
  have "stays (resolve_invite C now token)"
    by (rule staysI) (simp add: resolve_invite_state)
  then show ?thesis unfolding preview_def by (intro stays)
qed

lemma stays_registration [stays]:
  "stays (provision now uuid bytes uid setup i p adminName prov)"
  "stays (apply_company now uuid bytes i)"
  "stays (approve_company now uid setup cid sa p adminName)"
  "stays (suspend cid sa)"
  unfolding provision_def apply_company_def approve_company_def suspend_def assertUniqueGstin_def Let_def
  by (intro stays)+

lemma stays_invite [stays]: "stays (invite C now uuid i)"
  unfolding invite_def Let_def
  by (intro stays stays_insert_invite) (simp add: new_invitation_def)

lemma stays_requests [stays]:
  "stays (requestJoin now uuid code name phone r)" "stays (reject_request now cid k by_id)"
  unfolding requestJoin_def reject_request_def Let_def
  by (intro stays stays_insert_request; simp add: new_request_def)+

section \<open>What holds after any sequence of moves\<close>

definition accepted_ok :: "registry \<Rightarrow> bool" where
  "accepted_ok s \<longleftrightarrow> (\<forall>i \<in> set (rg_invites s). in_status i = INV_ACCEPTED \<longrightarrow>
     (\<exists>u \<in> set (rg_users s). in_acceptedUserId i = Some (us_id u) \<and>
        us_companyId u = Some (in_companyId i) \<and> us_role u = in_role i))"

definition registry_ok :: "registry \<Rightarrow> bool" where
  "registry_ok s \<longleftrightarrow>
     distinct (map co_id (rg_companies s)) \<and> distinct (map us_id (rg_users s)) \<and>
     distinct (map in_id (rg_invites s)) \<and>
     (\<forall>u \<in> set (rg_users s). (us_role u = SUPER_ADMIN) = (us_companyId u = None)) \<and>
     (\<forall>u \<in> set (rg_users s). \<forall>c. us_companyId u = Some c \<longrightarrow> c \<in> co_id ` set (rg_companies s)) \<and>
     (\<forall>i \<in> set (rg_invites s). in_role i \<noteq> SUPER_ADMIN) \<and> accepted_ok s"

lemmas registry_parts = registry_ok_def accepted_ok_def same_but_users_def user_fits_def

lemma company_ids_update:
  "(\<And>c. co_id (f c) = co_id c) \<Longrightarrow> co_id ` set (update_where p f cs) = co_id ` set cs"
  by (metis list.set_map map_update_where)

lemma onboard_keeps_users: "onboard s t \<Longrightarrow> set (rg_users s) \<subseteq> set (rg_users t)"
  by (cases rule: onboard.cases) (auto simp: same_but_users_def)

lemma onboard_keeps_companies: "onboard s t \<Longrightarrow> co_id ` set (rg_companies s) \<subseteq> co_id ` set (rg_companies t)"
  by (cases rule: onboard.cases) (auto simp: same_but_users_def company_ids_update)

lemma accepted_ok_mono:
  "accepted_ok s \<Longrightarrow> set (rg_users s) \<subseteq> set (rg_users t) \<Longrightarrow>
   (\<And>i. i \<in> set (rg_invites t) \<Longrightarrow> in_status i = INV_ACCEPTED \<Longrightarrow> i \<in> set (rg_invites s)) \<Longrightarrow> accepted_ok t"
  unfolding accepted_ok_def by blast

lemma invite_byIdD: "invite_byId k s = Some i \<Longrightarrow> i \<in> set (rg_invites s) \<and> in_id i = k"
  unfolding invite_byId_def by (drule find_SomeD) simp

lemma onboard_accepted_ok:
  assumes "registry_ok s" and step: "onboard s t"
  shows "accepted_ok t"
proof -
  have ok: "accepted_ok s" using assms(1) by (simp add: registry_ok_def)
  note mono = accepted_ok_mono [OF ok onboard_keeps_users [OF step]]
  from step show ?thesis
  proof (cases rule: onboard.cases)
    case (Accepted k i u)
    have only: "x \<in> set (rg_invites s) \<Longrightarrow> in_id x = k \<Longrightarrow> x = i" for x
      using invite_byIdD [OF Accepted(1)] assms(1) unique_key [of in_id "rg_invites s" x i]
      by (auto simp: registry_ok_def)
    show ?thesis
      unfolding accepted_ok_def
    proof (intro ballI impI)
      fix y
      assume y: "y \<in> set (rg_invites t)" "in_status y = INV_ACCEPTED"
      then consider x where "x \<in> set (rg_invites s)" "in_id x = k"
          "y = x\<lparr>in_status := INV_ACCEPTED, in_acceptedUserId := Some (us_id u)\<rparr>"
        | "y \<in> set (rg_invites s)"
        unfolding Accepted(8) set_update_where by auto
      then show "\<exists>w \<in> set (rg_users t). in_acceptedUserId y = Some (us_id w) \<and>
          us_companyId w = Some (in_companyId y) \<and> us_role w = in_role y"
      proof cases
        case (1 x)
        with only Accepted have "u \<in> set (rg_users t) \<and> in_acceptedUserId y = Some (us_id u) \<and>
            us_companyId u = Some (in_companyId y) \<and> us_role u = in_role y" by auto
        then show ?thesis by blast
      next
        case 2
        with ok y(2) Accepted(7) show ?thesis by (auto simp: accepted_ok_def)
      qed
    qed
  qed (auto simp: same_but_users_def set_update_where intro!: mono)
qed

lemma invite_ids_update:
  "(\<And>x. in_id (f x) = in_id x) \<Longrightarrow> map in_id (update_where p f is) = map in_id is"
  by (rule map_update_where)

lemma onboard_users:
  assumes "onboard s t"
  shows "rg_users t = rg_users s \<or> (\<exists>u. user_fits u s \<and> us_role u \<noteq> SUPER_ADMIN \<and> rg_users t = rg_users s @ [u]) \<or>
    (\<exists>k i u. invite_byId k s = Some i \<and> user_fits u s \<and> us_role u = in_role i \<and> rg_users t = rg_users s @ [u])"
  using assms
proof (cases rule: onboard.cases)
  case (Accepted k i u)
  then show ?thesis by (intro disjI2 exI [of _ k] exI [of _ i] exI [of _ u]) simp
qed (auto simp: same_but_users_def)

lemma onboard_company_ids:
  assumes "onboard s t" and "distinct (map co_id (rg_companies s))"
  shows "distinct (map co_id (rg_companies t))"
  using assms by (cases rule: onboard.cases) (auto simp: same_but_users_def map_update_where)

lemma onboard_invites:
  assumes "onboard s t" and "distinct (map in_id (rg_invites s))"
    and "\<forall>i \<in> set (rg_invites s). in_role i \<noteq> SUPER_ADMIN"
  shows "distinct (map in_id (rg_invites t)) \<and> (\<forall>i \<in> set (rg_invites t). in_role i \<noteq> SUPER_ADMIN)"
  using assms by (cases rule: onboard.cases) (auto simp: same_but_users_def invite_ids_update set_update_where)

lemma onboard_registry_ok:
  assumes ok: "registry_ok s" and step: "onboard s t"
  shows "registry_ok t"
proof -
  have companies: "distinct (map co_id (rg_companies t))"
    using onboard_company_ids [OF step] ok by (simp add: registry_ok_def)
  have invites: "distinct (map in_id (rg_invites t)) \<and> (\<forall>i \<in> set (rg_invites t). in_role i \<noteq> SUPER_ADMIN)"
    using onboard_invites [OF step] ok by (simp add: registry_ok_def)
  have keeps: "c \<in> co_id ` set (rg_companies s) \<Longrightarrow> c \<in> co_id ` set (rg_companies t)" for c
    using onboard_keeps_companies [OF step] by blast
  have old: "distinct (map us_id (rg_users s))"
    "\<forall>u \<in> set (rg_users s). (us_role u = SUPER_ADMIN) = (us_companyId u = None)"
    "\<forall>u \<in> set (rg_users s). \<forall>c. us_companyId u = Some c \<longrightarrow> c \<in> co_id ` set (rg_companies s)"
    using ok by (simp_all add: registry_ok_def)
  have "rg_users t = rg_users s \<or> (\<exists>u. user_fits u s \<and> rg_users t = rg_users s @ [u])"
    using onboard_users [OF step] by blast
  then have users: "distinct (map us_id (rg_users t)) \<and>
     (\<forall>u \<in> set (rg_users t). (us_role u = SUPER_ADMIN) = (us_companyId u = None)) \<and>
     (\<forall>u \<in> set (rg_users t). \<forall>c. us_companyId u = Some c \<longrightarrow> c \<in> co_id ` set (rg_companies t))"
  proof
    assume "rg_users t = rg_users s"
    with old keeps show ?thesis by simp
  next
    assume "\<exists>u. user_fits u s \<and> rg_users t = rg_users s @ [u]"
    then obtain u where u: "user_fits u s" "rg_users t = rg_users s @ [u]" by blast
    show ?thesis
      unfolding u(2) using u(1) old keeps by (simp add: user_fits_def image_iff)
  qed
  from companies invites users onboard_accepted_ok [OF ok step] show ?thesis
    by (simp add: registry_ok_def)
qed

lemma onboard_run_ok: "onboard\<^sup>*\<^sup>* s t \<Longrightarrow> registry_ok s \<Longrightarrow> registry_ok t"
  by (induction rule: rtranclp_induct) (auto intro: onboard_registry_ok)

text \<open>A spent invitation stays spent.\<close>

lemma onboard_spent:
  assumes "onboard s t" and "invite_byId k s = Some i" and "in_status i = INV_ACCEPTED"
  shows "invite_byId k t = Some i"
proof -
  have keep: "invite_byId k t = Some i"
    if "rg_invites t = update_where (\<lambda>x. in_id x = k') f (rg_invites s)" "k' \<noteq> k" "\<And>x. in_id (f x) = in_id x" for k' f
    using assms(2) that invite_byIdD [OF assms(2)]
    by (simp add: invite_byId_def find_update_where)
  from assms(1) show ?thesis
  proof (cases rule: onboard.cases)
    case (Accepted k' i' u)
    with assms have "k' \<noteq> k" by auto
    with Accepted keep show ?thesis by simp
  next
    case (Revoked k' i')
    with assms have "k' \<noteq> k" by auto
    with Revoked keep show ?thesis by simp
  qed (use assms(2) in \<open>auto simp: invite_byId_def same_but_users_def find_append\<close>)
qed

lemma onboard_run_spent:
  "onboard\<^sup>*\<^sup>* s t \<Longrightarrow> invite_byId k s = Some i \<Longrightarrow> in_status i = INV_ACCEPTED \<Longrightarrow> invite_byId k t = Some i"
  by (induction rule: rtranclp_induct) (auto intro: onboard_spent)

text \<open>No SuperAdmin ever enters through these operations.\<close>

lemma onboard_run_super_admins:
  "onboard\<^sup>*\<^sup>* s t \<Longrightarrow> registry_ok s \<Longrightarrow>
   filter (\<lambda>u. us_role u = SUPER_ADMIN) (rg_users t) = filter (\<lambda>u. us_role u = SUPER_ADMIN) (rg_users s)"
proof (induction rule: rtranclp_induct)
  case (step t u)
  then have ok: "registry_ok t" by (auto intro: onboard_run_ok)
  from onboard_users [OF step(2)] ok invite_byIdD
  have "filter (\<lambda>u. us_role u = SUPER_ADMIN) (rg_users u) = filter (\<lambda>u. us_role u = SUPER_ADMIN) (rg_users t)"
    by (auto simp: registry_ok_def)
  with step show ?case by simp
qed simp

section \<open>The invitation token\<close>

lemma invite_of_json_json [simp]: "invite_of_json (invite_json i e) = Some (i, e)"
  by (simp add: invite_of_json_def invite_json_def)

lemma wf_invite_json [simp]: "wf_json (invite_json i e)"
  by (simp add: invite_json_def)

lemma resolve_issued:
  assumes "mac_shape (ic_mac C)"
  shows "resolve_invite C now (encode_invite C k e) s =
    (if now > e then (Inl (Error ''INVITE_EXPIRED''), s)
     else case invite_byId k s of
         None \<Rightarrow> (Inl (Error ''INVITE_NOT_FOUND''), s)
       | Some i \<Rightarrow>
           if in_status i = INV_REVOKED then (Inl (Error ''INVITE_REVOKED''), s)
           else if in_status i = INV_ACCEPTED then (Inl (Error ''INVITE_ALREADY_USED''), s)
           else if now > in_expiresAt i then (Inl (Error ''INVITE_EXPIRED''), s)
           else (Inr i, s))"
proof -
  have "unseal (ic_mac C) (ic_secret C) m b (encode_invite C k e) = Inr (b64url (stringify (invite_json k e)))"
    for m b
    using assms by (simp add: encode_invite_def unseal_seal b64url_no_dot stringify_nonempty)
  then show ?thesis
    by (simp add: resolve_invite_def bindE_def lift_sum_def throw_if_def parse_stringify split: option.split)
qed

end
