(* ===== verification/Overrides.thy ===== *)
theory Overrides imports Entitlements Role_Matrix begin

text \<open>
  \<open>identity/subscriptions/overrides.ts\<close>: a SuperAdmin switches one module for one company,
  with a reason, an audit entry and, for a trial, an expiry that the daily job enforces. The
  override history is the list of the records written. The store that selects the expired
  records and marks them is not in the repository: \<open>listExpired\<close> and \<open>markExpired\<close> are
  parameters.
\<close>

record override_record =
  ov_id :: string
  ov_companyId :: string
  ov_module :: platform_module
  ov_granted :: bool
  ov_reason :: string
  ov_setBy :: string
  ov_setAt :: int
  ov_expiresAt :: "int option"

datatype override_action = GRANT | REVOKE | EXPIRE

record override_audit =
  oa_actorId :: string
  oa_companyId :: string
  oa_module :: platform_module
  oa_action :: override_action
  oa_reason :: string
  oa_at :: int

record override_state =
  os_ent :: ent_state
  os_rows :: "override_record list"
  os_audit :: "override_audit list"

definition with_ent :: "(ent_state, 'a) exec \<Rightarrow> (override_state, 'a) exec" where
  "with_ent m = (\<lambda>s. case m (os_ent s) of (r, e) \<Rightarrow> (r, s\<lparr>os_ent := e\<rparr>))"

definition record_override :: "override_record \<Rightarrow> (override_state, unit) exec" where
  "record_override r = modifies (\<lambda>s. s\<lparr>os_rows := os_rows s @ [r]\<rparr>)"

definition audit_override :: "override_audit \<Rightarrow> (override_state, unit) exec" where
  "audit_override a = modifies (\<lambda>s. s\<lparr>os_audit := os_audit s @ [a]\<rparr>)"

definition assertSuperAdmin :: "role \<Rightarrow> (override_state, unit) exec" where
  "assertSuperAdmin r = throw_if (r \<noteq> SUPER_ADMIN) (Error ''SUPER_ADMIN_ONLY'')"

text \<open>\<open>!input.reason?.trim()\<close>\<close>

definition blank_reason :: "string option \<Rightarrow> bool" where
  "blank_reason r \<longleftrightarrow> \<not> truthy (map_option trim r)"

record override_input =
  oi_actorId :: string
  oi_actorRole :: role
  oi_companyId :: string
  oi_module :: platform_module
  oi_reason :: "string option"

definition trial_end :: "int \<Rightarrow> int option \<Rightarrow> int option" where
  "trial_end now trialDays =
     (case trialDays of None \<Rightarrow> None | Some d \<Rightarrow> if d = 0 then None else Some (now + d * 86400000))"

definition override_row :: "string \<Rightarrow> int \<Rightarrow> bool \<Rightarrow> int option \<Rightarrow> override_input \<Rightarrow> override_record" where
  "override_row uuid now granted expires i =
     \<lparr>ov_id = uuid, ov_companyId = oi_companyId i, ov_module = oi_module i, ov_granted = granted,
      ov_reason = coalesce (oi_reason i) [], ov_setBy = oi_actorId i, ov_setAt = now,
      ov_expiresAt = expires\<rparr>"

definition override_entry :: "int \<Rightarrow> override_action \<Rightarrow> override_input \<Rightarrow> override_audit" where
  "override_entry now act i =
     \<lparr>oa_actorId = oi_actorId i, oa_companyId = oi_companyId i, oa_module = oi_module i,
      oa_action = act, oa_reason = coalesce (oi_reason i) [], oa_at = now\<rparr>"

definition override_grant ::
  "int \<Rightarrow> string \<Rightarrow> override_input \<Rightarrow> int option \<Rightarrow>
   (override_state, platform_module list \<times> int option) exec" where
  "override_grant now uuid i trialDays =
     bindE (assertSuperAdmin (oi_actorRole i)) (\<lambda>_.
     bindE (throw_if (blank_reason (oi_reason i)) (Error ''REASON_REQUIRED'')) (\<lambda>_.
     bindE (with_ent (ent_grant now (oi_companyId i) (oi_module i) (oi_actorId i) (oi_reason i))) (\<lambda>ms.
     let expires = trial_end now trialDays
     in bindE (record_override (override_row uuid now True expires i)) (\<lambda>_.
        bindE (audit_override (override_entry now GRANT i)) (\<lambda>_.
        return (ms, expires))))))"

definition override_revoke ::
  "int \<Rightarrow> string \<Rightarrow> override_input \<Rightarrow>
   (override_state, platform_module list \<times> platform_module list) exec" where
  "override_revoke now uuid i =
     bindE (assertSuperAdmin (oi_actorRole i)) (\<lambda>_.
     bindE (throw_if (blank_reason (oi_reason i)) (Error ''REASON_REQUIRED'')) (\<lambda>_.
     bindE (with_ent (ent_revoke now (oi_companyId i) (oi_module i) (oi_actorId i) (oi_reason i))) (\<lambda>res.
     bindE (record_override (override_row uuid now False None i)) (\<lambda>_.
     bindE (audit_override (override_entry now REVOKE i)) (\<lambda>_.
     return res)))))"

definition expire_entry :: "int \<Rightarrow> override_record \<Rightarrow> override_audit" where
  "expire_entry now r =
     \<lparr>oa_actorId = ''system'', oa_companyId = ov_companyId r, oa_module = ov_module r,
      oa_action = EXPIRE, oa_reason = ''trial ended (granted: '' @ ov_reason r @ '')'',
      oa_at = now\<rparr>"

definition expire_one ::
  "(string \<Rightarrow> override_record list \<Rightarrow> override_record list) \<Rightarrow> int \<Rightarrow> override_record \<Rightarrow>
   (override_state, unit) exec" where
  "expire_one markExpired now r =
     bindE (with_ent (clearOverride (ov_companyId r) (ov_module r))) (\<lambda>_.
     bindE (modifies (\<lambda>s. s\<lparr>os_rows := markExpired (ov_id r) (os_rows s)\<rparr>)) (\<lambda>_.
     audit_override (expire_entry now r)))"

definition expireTrials ::
  "(int \<Rightarrow> override_record list \<Rightarrow> override_record list) \<Rightarrow>
   (string \<Rightarrow> override_record list \<Rightarrow> override_record list) \<Rightarrow> int \<Rightarrow>
   (override_state, override_record list) exec" where
  "expireTrials listExpired markExpired now =
     bindE (reads (\<lambda>s. listExpired now (os_rows s))) (\<lambda>due.
     bindE (for_each (expire_one markExpired now) due) (\<lambda>_. return due))"

definition explain :: "string \<Rightarrow> override_state \<Rightarrow> override_record list" where
  "explain cid s = filter (\<lambda>r. ov_companyId r = cid) (os_rows s)"

section \<open>Grants and revocations leave a trail\<close>

lemma override_grant_success:
  "override_grant now uuid i days s = (Inr (ms, expires), s') \<longleftrightarrow>
     oi_actorRole i = SUPER_ADMIN \<and> \<not> blank_reason (oi_reason i) \<and> expires = trial_end now days \<and>
     (\<exists>e. ent_grant now (oi_companyId i) (oi_module i) (oi_actorId i) (oi_reason i) (os_ent s) = (Inr ms, e) \<and>
       s' = s\<lparr>os_ent := e, os_rows := os_rows s @ [override_row uuid now True expires i],
               os_audit := os_audit s @ [override_entry now GRANT i]\<rparr>)"
  by (auto simp: override_grant_def assertSuperAdmin_def exec_iff with_ent_def record_override_def
      audit_override_def Let_def split: prod.splits)

lemma override_revoke_success:
  "override_revoke now uuid i s = (Inr res, s') \<longleftrightarrow>
     oi_actorRole i = SUPER_ADMIN \<and> \<not> blank_reason (oi_reason i) \<and>
     (\<exists>e. ent_revoke now (oi_companyId i) (oi_module i) (oi_actorId i) (oi_reason i) (os_ent s) = (Inr res, e) \<and>
       s' = s\<lparr>os_ent := e, os_rows := os_rows s @ [override_row uuid now False None i],
               os_audit := os_audit s @ [override_entry now REVOKE i]\<rparr>)"
  by (cases res) (auto simp: override_revoke_def assertSuperAdmin_def exec_iff with_ent_def record_override_def
      audit_override_def split: prod.splits)

lemma override_grant_refused:
  "oi_actorRole i \<noteq> SUPER_ADMIN \<or> blank_reason (oi_reason i) \<Longrightarrow>
   \<exists>e. override_grant now uuid i days s = (Inl e, s)"
  by (auto simp: override_grant_def assertSuperAdmin_def bindE_def throw_if_def)

section \<open>The expiry job\<close>

definition cleared_for :: "override_record list \<Rightarrow> string \<Rightarrow> module_row list \<Rightarrow> module_row list" where
  "cleared_for due c = filter (\<lambda>r. \<not> (\<exists>x \<in> set due. ov_companyId x = c \<and> ov_module x = mr_module r))"

lemma expire_one_spec:
  assumes "ent_inv (os_ent s)"
  shows "\<exists>s'. expire_one mark now r s = (Inr (), s') \<and> ent_inv (os_ent s') \<and>
    ent_store_of (os_ent s') = store_clearOverride (ov_companyId r) (ov_module r) (ent_store_of (os_ent s)) \<and>
    os_rows s' = mark (ov_id r) (os_rows s) \<and> os_audit s' = os_audit s @ [expire_entry now r]"
  using clearOverride_spec [OF assms, of "ov_companyId r" "ov_module r"]
  by (auto simp: expire_one_def bindE_def with_ent_def audit_override_def)

lemma overrides_after_clear:
  "overridesFor (store_clearOverride c m st) d =
     (if d = c then filter (\<lambda>x. mr_module x \<noteq> m) (overridesFor st c) else overridesFor st d)"
  using es.rows_clear es.rows_clear_other by auto

lemma expire_all:
  assumes "ent_inv (os_ent s)"
  shows "\<exists>s'. for_each (expire_one mark now) due s = (Inr (), s') \<and> ent_inv (os_ent s') \<and>
    (\<forall>c. planFor (ent_store_of (os_ent s')) c = planFor (ent_store_of (os_ent s)) c \<and>
       overridesFor (ent_store_of (os_ent s')) c =
         cleared_for due c (overridesFor (ent_store_of (os_ent s)) c)) \<and>
    os_audit s' = os_audit s @ map (expire_entry now) due"
  using assms
proof (induction due arbitrary: s)
  case Nil
  then show ?case by (simp add: cleared_for_def)
next
  case (Cons r due)
  from expire_one_spec [OF Cons.prems, of mark now r] obtain s1 where s1:
    "expire_one mark now r s = (Inr (), s1)" "ent_inv (os_ent s1)"
    "ent_store_of (os_ent s1) = store_clearOverride (ov_companyId r) (ov_module r) (ent_store_of (os_ent s))"
    "os_audit s1 = os_audit s @ [expire_entry now r]" by blast
  from Cons.IH [OF s1(2)] obtain s2 where s2:
    "for_each (expire_one mark now) due s1 = (Inr (), s2)" "ent_inv (os_ent s2)"
    "\<And>c. planFor (ent_store_of (os_ent s2)) c = planFor (ent_store_of (os_ent s1)) c"
    "\<And>c. overridesFor (ent_store_of (os_ent s2)) c =
       cleared_for due c (overridesFor (ent_store_of (os_ent s1)) c)"
    "os_audit s2 = os_audit s1 @ map (expire_entry now) due" by blast
  have "cleared_for due c (overridesFor (ent_store_of (os_ent s1)) c) =
      cleared_for (r # due) c (overridesFor (ent_store_of (os_ent s)) c)" for c
    unfolding s1(3) overrides_after_clear
    by (auto simp: cleared_for_def intro!: filter_cong)
  with s1 s2 es.plan_clear show ?case by (simp add: bindE_def)
qed

lemma expireTrials_spec:
  assumes "ent_inv (os_ent s)"
  shows "\<exists>s'. expireTrials listExpired mark now s = (Inr (listExpired now (os_rows s)), s') \<and>
    ent_inv (os_ent s') \<and>
    (\<forall>c. planFor (ent_store_of (os_ent s')) c = planFor (ent_store_of (os_ent s)) c \<and>
       overridesFor (ent_store_of (os_ent s')) c =
         cleared_for (listExpired now (os_rows s)) c (overridesFor (ent_store_of (os_ent s)) c)) \<and>
    os_audit s' = os_audit s @ map (expire_entry now) (listExpired now (os_rows s))"
  using expire_all [OF assms, of mark now "listExpired now (os_rows s)"]
  by (auto simp: expireTrials_def bindE_def)

end
