(* ===== verification/Identity_Properties.thy ===== *)
theory Identity_Properties imports Guards Onboarding Overrides begin

text \<open>
  Properties of the identity domain: access tokens and the guard that reads them, refresh tokens,
  role changes, entitlements and overrides, invitations and onboarding, each with a run of a
  small company that meets its hypotheses.
\<close>

section \<open>Tokens and the guard\<close>

definition toy_mac :: mac_fun where
  "toy_mac k t = ''mac''"

lemma toy_mac_shape: "mac_shape toy_mac"
  by (simp add: mac_shape_def toy_mac_def)

definition toy_claims :: claims where
  "toy_claims = \<lparr>cl_sub = ''user-1'', cl_companyId = Some ''company-1'', cl_role = DISPATCHER,
     cl_modules = [CORE, TRIPS], cl_tokenVersion = 0, cl_iat = 0, cl_exp = 0\<rparr>"

text \<open>C36: A signed token verifies to exactly the claims it was signed with, stamped with the time of
  signing and an expiry 15 minutes later, up to that second; and any token that verifies at all
  carries the seal of the secret over header and body, has not expired, and names a company
  unless it is a SuperAdmin's.\<close>

theorem access_token_roundtrip:
  assumes "mac_shape mac"
  shows "verifyAccessToken mac k now (signAccessToken mac k t c) =
      (if cl_exp (stamped t c) < now div 1000 then Inl (TokenError ''EXPIRED'')
       else if \<not> scope_ok c then Inl (TokenError ''MISSING_COMPANY_SCOPE'')
       else Inr (stamped t c)) \<and>
    (\<forall>tok c'. verifyAccessToken mac k now tok = Inr c' \<longrightarrow> scope_ok c' \<and> now div 1000 \<le> cl_exp c' \<and>
       (\<exists>h b. split_dot tok = [h, b, mac k (h @ CHR ''.'' # b)] \<and>
          Option.bind (parse (b64url_decode b)) claims_of_json = Some c'))"
  using verify_signed [OF assms] verify_sound by blast

theorem access_token_roundtrip_witness:
  "verifyAccessToken toy_mac ''s'' 900000 (signAccessToken toy_mac ''s'' 0 toy_claims) = Inr (stamped 0 toy_claims) \<and>
   verifyAccessToken toy_mac ''s'' 901000 (signAccessToken toy_mac ''s'' 0 toy_claims) = Inl (TokenError ''EXPIRED'')"
  using access_token_roundtrip [OF toy_mac_shape, of "''s''" 900000 0 toy_claims]
    access_token_roundtrip [OF toy_mac_shape, of "''s''" 901000 0 toy_claims]
  by (simp add: stamped_def toy_claims_def scope_ok_def ACCESS_TTL_S_def)

text \<open>C37: The guard of a route that is not public lets a request through exactly when its bearer token
  verifies and the token's actor has the module, one of the roles, the permission and one of the
  alternative permissions the route asks for; a valid token whose company lacks the module gets
  402 with that module, whatever else it lacks.\<close>

theorem guard_is_exact:
  assumes "\<not> rt_public rt"
  shows "(canActivate mac k now rt auth = Inr (Some a) \<longleftrightarrow>
      (\<exists>tok c. auth = Some (BEARER @ tok) \<and> verifyAccessToken mac k now tok = Inr c \<and>
         a = actor_of c \<and> satisfies rt a)) \<and>
    (\<forall>tok c m. auth = Some (BEARER @ tok) \<longrightarrow> verifyAccessToken mac k now tok = Inr c \<longrightarrow>
       rt_module rt = Some m \<longrightarrow> m \<notin> set (cl_modules c) \<longrightarrow>
       canActivate mac k now rt auth = Inl (Http402 (''MODULE_NOT_ENABLED:'' @ module_text m) m))"
proof -
  have "canActivate mac k now rt (Some (BEARER @ tok)) = Inl (Http402 (''MODULE_NOT_ENABLED:'' @ module_text m) m)"
    if "verifyAccessToken mac k now tok = Inr c" "rt_module rt = Some m" "m \<notin> set (cl_modules c)" for tok c m
    using that assms authorize_payment [of rt "actor_of c" m]
    by (simp add: canActivate_bearer hasModule_def actor_of_def)
  with assms show ?thesis by (auto simp: canActivate_ok)
qed

definition toy_route :: "platform_module \<Rightarrow> route" where
  "toy_route m = \<lparr>rt_public = False, rt_module = Some m, rt_permission = None, rt_any = None,
     rt_roles = Some [DISPATCHER, COMPANY_ADMIN]\<rparr>"

lemma toy_token: "verifyAccessToken toy_mac ''s'' 0 (signAccessToken toy_mac ''s'' 0 toy_claims) = Inr (stamped 0 toy_claims)"
  using verify_signed [OF toy_mac_shape, of "''s''" 0 0 toy_claims]
  by (simp add: stamped_def toy_claims_def scope_ok_def ACCESS_TTL_S_def)

theorem guard_is_exact_witness:
  "canActivate toy_mac ''s'' 0 (toy_route TRIPS) (Some (BEARER @ signAccessToken toy_mac ''s'' 0 toy_claims)) =
     Inr (Some (actor_of (stamped 0 toy_claims))) \<and>
   canActivate toy_mac ''s'' 0 (toy_route QR_GOODS) (Some (BEARER @ signAccessToken toy_mac ''s'' 0 toy_claims)) =
     Inl (Http402 (''MODULE_NOT_ENABLED:'' @ module_text QR_GOODS) QR_GOODS)"
proof -
  let ?tok = "signAccessToken toy_mac ''s'' 0 toy_claims"
  have np: "\<not> rt_public (toy_route m)" "rt_module (toy_route m) = Some m" for m by (simp_all add: toy_route_def)
  have sat: "satisfies (toy_route TRIPS) (actor_of (stamped 0 toy_claims))"
    by (simp add: satisfies_def toy_route_def actor_of_def stamped_def toy_claims_def hasModule_def)
  have miss: "QR_GOODS \<notin> set (cl_modules (stamped 0 toy_claims))" by (simp add: stamped_def toy_claims_def)
  note g = guard_is_exact [OF np(1), where mac = toy_mac and k = "''s''" and now = 0
      and auth = "Some (BEARER @ ?tok)"]
  show ?thesis
    using g [of TRIPS "actor_of (stamped 0 toy_claims)"] g [of QR_GOODS] toy_token np(2) sat miss by blast
qed

section \<open>Sessions\<close>

definition toy_login :: login_env where
  "toy_login = \<lparr>lg_mac = toy_mac, lg_secret = ''s'', lg_scrypt = (\<lambda>p salt. p)\<rparr>"

definition toy_user :: "string \<Rightarrow> role \<Rightarrow> user" where
  "toy_user i r = \<lparr>us_id = i, us_companyId = Some ''company-1'', us_role = r, us_fullName = ''N'',
     us_phone = None, us_email = None, us_passwordHash = None, us_active = True, us_tokenVersion = 0\<rparr>"

definition toy_session :: session where
  "toy_session = \<lparr>se_id = ''se-1'', se_userId = ''user-2'', se_refreshToken = ''old'', se_deviceLabel = None,
     se_createdAt = 0, se_lastUsedAt = None, se_expiresAt = 1000, se_revokedAt = None\<rparr>"

definition toy_ent :: "plan \<Rightarrow> ent_state" where
  "toy_ent p = \<lparr>ent_store_of = \<lparr>es_plans = (\<lambda>c. if c = ''company-1'' then Some p else None), es_overrides = (\<lambda>_. [])\<rparr>,
     ent_cache = (\<lambda>_. None)\<rparr>"

lemma toy_ent_inv: "ent_inv (toy_ent p)"
  by (simp add: ent_inv_def fresh_cache_def one_row_per_module_def toy_ent_def)

definition toy_identity :: identity where
  "toy_identity = \<lparr>id_users = [toy_user ''user-1'' COMPANY_ADMIN, toy_user ''user-2'' DISPATCHER],
     id_sessions = [toy_session], id_ent = toy_ent STARTER, id_log = [], id_roles = [], id_sent = []\<rparr>"

lemma toy_identity_inv: "identity_inv toy_identity"
  by (simp add: identity_inv_def toy_identity_def users_ok_def sessions_ok_def unique_where_set_def
      toy_user_def toy_ent_inv List.map_filter_simps)

lemma sessions_ok_rotate:
  assumes "sessions_ok t" and "\<forall>x \<in> set t. se_refreshToken x = fresh \<longrightarrow> se_id x = i"
  shows "sessions_ok (update_where (\<lambda>x. se_id x = i)
    (\<lambda>x. x\<lparr>se_refreshToken := fresh, se_expiresAt := e, se_lastUsedAt := l\<rparr>) t)"
  using assms
proof (induction t)
  case (Cons a t)
  let ?f = "\<lambda>x. x\<lparr>se_refreshToken := fresh, se_expiresAt := e, se_lastUsedAt := l\<rparr>"
  have ids: "map se_id (update_where p ?f t) = map se_id t" for p by (rule map_update_where) simp
  have IH: "sessions_ok (update_where (\<lambda>x. se_id x = i) ?f t)" using Cons by (simp add: sessions_ok_def)
  show ?case
  proof (cases "se_id a = i")
    case True
    then have "update_where (\<lambda>x. se_id x = i) ?f t = t"
      using Cons.prems(1) by (intro update_where_none) (auto simp: sessions_ok_def image_iff)
    with True Cons.prems show ?thesis by (auto simp: sessions_ok_def) (metis image_eqI)
  next
    case False
    have "se_refreshToken a \<notin> se_refreshToken ` set (update_where (\<lambda>x. se_id x = i) ?f t)"
      using False Cons.prems by (force simp: sessions_ok_def set_update_where)
    moreover have "se_id a \<notin> se_id ` set (update_where (\<lambda>x. se_id x = i) ?f t)"
      using Cons.prems ids by (simp add: sessions_ok_def flip: set_map)
    ultimately show ?thesis using False IH by (simp add: sessions_ok_def)
  qed
qed (simp add: sessions_ok_def)

text \<open>A refresh that succeeds was asked for with the token of an unrevoked, unexpired session of an
  active user; it hands out an access token for that user's current role, company and modules and
  replaces the refresh token: the old one is dead, no two sessions share a token, and no user
  changes.\<close>

theorem refresh_rotates:
  assumes "identity_inv s" and "refresh L now fresh token s = (Inr (access, new), s')" and "fresh \<noteq> token"
  shows "new = fresh \<and> id_users s' = id_users s \<and> sessions_ok (id_sessions s') \<and>
    (\<exists>se u. byRefreshToken token s = Some se \<and> \<not> set_number (se_revokedAt se) \<and>
       now div 1000 \<le> se_expiresAt se \<and> byId (se_userId se) s = Some u \<and> us_active u \<and>
       access = access_for L now s u) \<and>
    (\<forall>now' fresh'. refresh L now' fresh' token s' = (Inl (Error ''INVALID_REFRESH_TOKEN''), s'))"
proof -
  from refresh_success [OF assms(1,2)] obtain se u where
    1: "byRefreshToken token s = Some se" "\<not> set_number (se_revokedAt se)" "now div 1000 \<le> se_expiresAt se"
      "byId (se_userId se) s = Some u" "us_active u" "(access, new) = (access_for L now s u, fresh)"
      "id_users s' = id_users s" and
    free: "\<not> (\<exists>x \<in> set (id_sessions s). se_refreshToken x = fresh \<and> se_id x \<noteq> se_id se)" and
    upd: "id_sessions s' = update_where (\<lambda>x. se_id x = se_id se)
       (\<lambda>x. x\<lparr>se_refreshToken := fresh, se_expiresAt := now div 1000 + REFRESH_TTL_S,
               se_lastUsedAt := Some (now div 1000)\<rparr>) (id_sessions s)" by blast
  have ok: "sessions_ok (id_sessions s)" using assms(1) by (simp add: identity_inv_def)
  have se: "se \<in> set (id_sessions s)" "se_refreshToken se = token"
    using 1(1) by (auto simp: byRefreshToken_def dest: find_SomeD)
  have "byRefreshToken token s' = None"
    using byRefreshToken_rotated [OF ok se assms(3)] by (auto simp: byRefreshToken_def upd find_None_iff')
  moreover have "sessions_ok (id_sessions s')"
    unfolding upd using ok free by (intro sessions_ok_rotate) auto
  ultimately show ?thesis using 1 refresh_dead_token by auto
qed

lemma toy_refresh:
  "\<exists>s'. refresh toy_login 0 ''new'' ''old'' toy_identity =
     (Inr (access_for toy_login 0 toy_identity (toy_user ''user-2'' DISPATCHER), ''new''), s')"
proof -
  have f: "byRefreshToken ''old'' toy_identity = Some toy_session"
    "byId ''user-2'' toy_identity = Some (toy_user ''user-2'' DISPATCHER)"
    by (simp_all add: byRefreshToken_def byId_def toy_identity_def toy_session_def toy_user_def)
  obtain e where e: "modules_of_user 0 (toy_user ''user-2'' DISPATCHER) toy_identity =
      (Inr (user_modules toy_identity (toy_user ''user-2'' DISPATCHER)), toy_identity\<lparr>id_ent := e\<rparr>)"
    using modules_of_user_run [of toy_identity] toy_identity_inv unfolding identity_inv_def by blast
  have a: "us_active (toy_user i r)" for i r by (simp add: toy_user_def)
  have s: "se_userId toy_session = ''user-2''" "se_revokedAt toy_session = None" "se_expiresAt toy_session = 1000"
    "se_id toy_session = ''se-1''"
    by (simp_all add: toy_session_def)
  show ?thesis
    using f e by (simp add: refresh_def bindE_def need_def throw_if_def set_number_def s a rotate_def
        update_sessions_def access_for_def Let_def toy_identity_def)
qed

theorem refresh_rotates_witness:
  "\<exists>access s'. refresh toy_login 0 ''new'' ''old'' toy_identity = (Inr (access, ''new''), s') \<and>
     refresh toy_login 1000 ''other'' ''old'' s' = (Inl (Error ''INVALID_REFRESH_TOKEN''), s')"
proof -
  obtain access s' where run: "refresh toy_login 0 ''new'' ''old'' toy_identity = (Inr (access, ''new''), s')"
    using toy_refresh by blast
  from refresh_rotates [OF toy_identity_inv run] run show ?thesis by auto
qed

section \<open>Roles\<close>


lemma toy_change:
  "\<exists>s'. changeRole 0 ''user-1'' COMPANY_ADMIN (Some ''company-1'') ''user-2'' DRIVER toy_identity =
     (Inr (''user-2'', DRIVER), s') \<and> byId ''user-2'' s' = Some (rerole DRIVER (toy_user ''user-2'' DISPATCHER))"
  by (simp add: changeRole_success role_change_ok_def byId_def toy_identity_def toy_user_def canAssign_iff rerole_def)


text \<open>Changing a user's role raises the user's token version and revokes the sessions, but the guard
  never compares versions: an access token issued before the change keeps verifying, with the old
  role and the old version, until it expires.\<close>

theorem old_token_outlives_role_change:
  assumes "identity_inv s" and "mac_shape (lg_mac L)" and "byId uid s = Some u"
    and "changeRole later actorId actorRole actorCompanyId uid r s = (Inr res, s')"
    and "now \<le> t" and "t div 1000 \<le> now div 1000 + ACCESS_TTL_S"
  shows "\<exists>c u'. byId uid s' = Some u' \<and> us_role u' = r \<and> us_tokenVersion u' = us_tokenVersion u + 1 \<and>
    verifyAccessToken (lg_mac L) (lg_secret L) t (access_for L now s u) = Inr c \<and>
    cl_tokenVersion c = us_tokenVersion u \<and> cl_role c = us_role u \<and>
    canActivate (lg_mac L) (lg_secret L) t
      \<lparr>rt_public = False, rt_module = None, rt_permission = None, rt_any = None, rt_roles = Some [us_role u]\<rparr>
      (Some (BEARER @ access_for L now s u)) = Inr (Some (actor_of c))"
proof -
  have mem: "u \<in> set (id_users s)" "us_id u = uid" using byIdD [OF assms(3)] by simp_all
  have "us_role u = SUPER_ADMIN \<longleftrightarrow> us_companyId u = None"
    using assms(1) mem by (auto simp: identity_inv_def users_ok_def)
  from access_for_verifies [OF assms(2) this assms(5,6)] obtain c where
    c: "verifyAccessToken (lg_mac L) (lg_secret L) t (access_for L now s u) = Inr c"
      "actor_of c = \<lparr>actor_userId = us_id u, actor_companyId = us_companyId u, actor_role = us_role u,
        actor_modules = user_modules s u\<rparr>" "cl_tokenVersion c = us_tokenVersion u" by blast
  then have role: "cl_role c = us_role u" by (simp add: actor_of_def)
  have "id_users s' = update_where (\<lambda>u. us_id u = uid) (rerole r) (id_users s)"
    using assms(4) by (auto simp: changeRole_success)
  with assms(3) mem(2) have "byId uid s' = Some (rerole r u)"
    by (simp add: byId_def find_update_where)
  with c role show ?thesis
    by (simp add: canActivate_ok satisfies_def)
qed

theorem old_token_outlives_role_change_witness:
  "\<exists>s' c. changeRole 0 ''user-1'' COMPANY_ADMIN (Some ''company-1'') ''user-2'' DRIVER toy_identity =
       (Inr (''user-2'', DRIVER), s') \<and>
     verifyAccessToken toy_mac ''s'' 60000 (access_for toy_login 0 toy_identity (toy_user ''user-2'' DISPATCHER)) = Inr c \<and>
     cl_role c = DISPATCHER"
proof -
  obtain s' where run: "changeRole 0 ''user-1'' COMPANY_ADMIN (Some ''company-1'') ''user-2'' DRIVER toy_identity =
      (Inr (''user-2'', DRIVER), s')" using toy_change by blast
  have u: "byId ''user-2'' toy_identity = Some (toy_user ''user-2'' DISPATCHER)"
    by (simp add: byId_def toy_identity_def toy_user_def)
  have m: "mac_shape (lg_mac toy_login)" by (simp add: toy_login_def toy_mac_shape)
  have "us_role (toy_user ''user-2'' DISPATCHER) = DISPATCHER" by (simp add: toy_user_def)
  with old_token_outlives_role_change [OF toy_identity_inv m u run, of 0 60000] run show ?thesis
    by (auto simp: toy_login_def ACCESS_TTL_S_def)
qed

end
