(* ===== verification/Billing.thy ===== *)
theory Billing imports Entitlements Role_Matrix Tokens Json begin

text \<open>
  The commercial side of the identity domain: \<open>identity/subscriptions/plans.ts\<close> (descriptors,
  plan delta, proration), \<open>billing.ts\<close> (subscriptions, gateway webhook, dunning) and
  \<open>overrides.ts\<close> (module toggles of a SuperAdmin with audit and expiry). The subscription
  table has one row per company (\<open>subscriptions\<close> in \<open>identity/db/schema.sql\<close>). Which rows
  \<open>listPastDue\<close> and \<open>listExpired\<close> select is decided by stores the repository does not hold:
  they are parameters. What the payment gateway answers is an argument. Money is paise, an
  integer; the arithmetic in between is exact.
\<close>

section \<open>Plans\<close>

record plan_descriptor =
  pd_plan :: plan
  pd_displayName :: string
  pd_monthlyPaise :: int
  pd_modules :: "platform_module list"
  pd_pitch :: string

definition em_dash :: string where
  "em_dash = [CHR 0xE2, CHR 0x80, CHR 0x94]"

fun PITCH :: "plan \<Rightarrow> string" where
  "PITCH STARTER = ''Your fleet and trips in one place, with live tracking.''"
| "PITCH STANDARD = ''Everything on record '' @ em_dash @
     '' history, reports, and paperwork your accountant accepts.''"
| "PITCH PROFESSIONAL = ''Know what was loaded and what arrived, the same day.''"
| "PITCH ENTERPRISE = ''Proof nobody can argue with '' @ em_dash @
     '' theft attribution, claims, and credit.''"

definition ORDER :: "plan list" where
  "ORDER = [STARTER, STANDARD, PROFESSIONAL, ENTERPRISE]"

definition describe :: "plan \<Rightarrow> plan_descriptor" where
  "describe p =
     \<lparr>pd_plan = p,
      pd_displayName = take 1 (plan_text p) @ to_lower (drop 1 (plan_text p)),
      pd_monthlyPaise = PLAN_PRICE_PAISE p,
      pd_modules = modulesForPlan p,
      pd_pitch = PITCH p\<rparr>"

definition allPlans :: "plan_descriptor list" where
  "allPlans = map describe ORDER"

definition isUpgrade :: "plan \<Rightarrow> plan \<Rightarrow> bool" where
  "isUpgrade a b \<longleftrightarrow> rank b > rank a"

datatype direction = UPGRADE | DOWNGRADE | SAME

record plan_delta =
  pl_gained :: "platform_module list"
  pl_lost :: "platform_module list"
  pl_direction :: direction

definition planDelta :: "plan \<Rightarrow> plan \<Rightarrow> plan_delta" where
  "planDelta a b =
     (let before = uniq (modulesForPlan a); after = uniq (modulesForPlan b)
      in \<lparr>pl_gained = filter (\<lambda>m. m \<notin> set before) after,
          pl_lost = filter (\<lambda>m. m \<notin> set after) before,
          pl_direction = (if rank b > rank a then UPGRADE
                          else if rank b < rank a then DOWNGRADE else SAME)\<rparr>)"

text \<open>\<open>prorate\<close>, for a cycle of at least one day (the one caller passes 30).\<close>

definition fraction_left :: "int \<Rightarrow> int \<Rightarrow> rat" where
  "fraction_left daysRemaining daysInCycle =
     max 0 (min 1 (of_int daysRemaining / of_int daysInCycle))"

definition prorate :: "plan \<Rightarrow> plan \<Rightarrow> int \<Rightarrow> int \<Rightarrow> int \<times> int" where
  "prorate a b daysRemaining daysInCycle =
     (let fraction = fraction_left daysRemaining daysInCycle;
          diff = PLAN_PRICE_PAISE b - PLAN_PRICE_PAISE a;
          amount = js_round (of_int \<bar>diff\<bar> * fraction)
      in if diff > 0 then (amount, 0) else (0, amount))"

lemma isUpgrade_less: "isUpgrade a b \<longleftrightarrow> a < b"
  by (simp add: isUpgrade_def less_plan_def)

lemma ORDER_sorted: "sorted ORDER \<and> distinct ORDER \<and> set ORDER = UNIV"
proof -
  have "p \<in> set ORDER" for p by (cases p) (simp_all add: ORDER_def)
  then show ?thesis by (auto simp: ORDER_def less_eq_plan_def)
qed

lemma fraction_left_range: "0 \<le> fraction_left d c \<and> fraction_left d c \<le> 1"
  by (simp add: fraction_left_def)

lemma fraction_left_mono:
  assumes "0 < c" and "d \<le> d'"
  shows "fraction_left d c \<le> fraction_left d' c"
proof -
  have "(of_int d :: rat) / of_int c \<le> of_int d' / of_int c"
    using assms by (intro divide_right_mono) auto
  then show ?thesis unfolding fraction_left_def by (intro max.mono min.mono) auto
qed

lemma js_round_scaled:
  assumes "0 \<le> f" and "f \<le> 1" and "0 \<le> (d :: int)"
  shows "0 \<le> js_round (of_int d * f) \<and> js_round (of_int d * f) \<le> d"
proof
  show "0 \<le> js_round (of_int d * f)"
    using assms by (intro js_round_nonneg) simp
  have "of_int d * f \<le> (of_int d :: rat)"
    using assms by (simp add: mult_left_le)
  from js_round_mono [OF this] show "js_round (of_int d * f) \<le> d" by simp
qed

lemma prorate_cases:
  "prorate a b d c = (if a < b then (js_round (of_int (PLAN_PRICE_PAISE b - PLAN_PRICE_PAISE a) * fraction_left d c), 0)
     else (0, js_round (of_int (PLAN_PRICE_PAISE a - PLAN_PRICE_PAISE b) * fraction_left d c)))"
proof (cases "a < b")
  case True
  then show ?thesis using price_strict_mono [of a b] by (simp add: prorate_def Let_def)
next
  case False
  then have "PLAN_PRICE_PAISE b \<le> PLAN_PRICE_PAISE a" using price_mono_iff [of a b] by simp
  with False show ?thesis by (simp add: prorate_def Let_def)
qed

section \<open>Subscriptions\<close>

datatype sub_status = TRIALING | SUB_ACTIVE | PAST_DUE | GRACE | DOWNGRADED | SUB_CANCELLED

record subscription =
  su_companyId :: string
  su_plan :: plan
  su_status :: sub_status
  su_gatewaySubscriptionId :: "string option"
  su_currentPeriodStart :: int
  su_currentPeriodEnd :: int
  su_failedAttempts :: int
  su_graceEndsAt :: "int option"

text \<open>Calls on the gateway and the notifier, in order.\<close>

datatype outside_call =
    CreateSubscription string plan int
  | ChargeOnce string int string
  | PaymentFailed string int int
  | Downgraded string plan

record billing =
  bi_ent :: ent_state
  bi_subs :: "subscription list"
  bi_calls :: "outside_call list"

definition GRACE_DAYS :: int where "GRACE_DAYS = 14"
definition CYCLE_DAYS :: int where "CYCLE_DAYS = 30"

definition on_ent :: "(ent_state, 'a) exec \<Rightarrow> (billing, 'a) exec" where
  "on_ent m = (\<lambda>s. case m (bi_ent s) of (r, e) \<Rightarrow> (r, s\<lparr>bi_ent := e\<rparr>))"

definition calls :: "outside_call \<Rightarrow> (billing, unit) exec" where
  "calls c = modifies (\<lambda>s. s\<lparr>bi_calls := bi_calls s @ [c]\<rparr>)"

definition sub_get :: "string \<Rightarrow> subscription list \<Rightarrow> subscription option" where
  "sub_get cid = find (\<lambda>x. su_companyId x = cid)"

definition sub_upsert :: "subscription \<Rightarrow> subscription list \<Rightarrow> subscription list" where
  "sub_upsert x t =
     (if sub_get (su_companyId x) t = None then t @ [x]
      else update_where (\<lambda>y. su_companyId y = su_companyId x) (\<lambda>_. x) t)"

definition on_subs :: "(subscription list \<Rightarrow> subscription list) \<Rightarrow> (billing, unit) exec" where
  "on_subs f = modifies (\<lambda>s. s\<lparr>bi_subs := f (bi_subs s)\<rparr>)"

definition setStatus :: "string \<Rightarrow> sub_status \<Rightarrow> (billing, unit) exec" where
  "setStatus cid st =
     on_subs (update_where (\<lambda>y. su_companyId y = cid) (\<lambda>y. y\<lparr>su_status := st\<rparr>))"

definition resetFailures :: "string \<Rightarrow> (billing, unit) exec" where
  "resetFailures cid =
     on_subs (update_where (\<lambda>y. su_companyId y = cid) (\<lambda>y. y\<lparr>su_failedAttempts := 0\<rparr>))"

text \<open>\<open>UPDATE ... RETURNING failed_attempts\<close>; without a row the answer is not used.\<close>

definition incrementFailure :: "string \<Rightarrow> (billing, int) exec" where
  "incrementFailure cid =
     bindE (on_subs (update_where (\<lambda>y. su_companyId y = cid)
              (\<lambda>y. y\<lparr>su_failedAttempts := su_failedAttempts y + 1\<rparr>))) (\<lambda>_.
     reads (\<lambda>s. case sub_get cid (bi_subs s) of None \<Rightarrow> 0 | Some y \<Rightarrow> su_failedAttempts y))"

definition new_subscription :: "int \<Rightarrow> string \<Rightarrow> plan \<Rightarrow> string \<Rightarrow> subscription" where
  "new_subscription now_ms cid p gid =
     (let now = now_ms div 1000
      in \<lparr>su_companyId = cid, su_plan = p, su_status = SUB_ACTIVE,
          su_gatewaySubscriptionId = Some gid, su_currentPeriodStart = now,
          su_currentPeriodEnd = now + CYCLE_DAYS * 86400, su_failedAttempts = 0,
          su_graceEndsAt = None\<rparr>)"

definition subscribe ::
  "int \<Rightarrow> (exn + string) \<Rightarrow> string \<Rightarrow> plan \<Rightarrow> (billing, subscription) exec" where
  "subscribe now_ms created cid p =
     bindE (calls (CreateSubscription cid p (pd_monthlyPaise (describe p)))) (\<lambda>_.
     bindE (lift_sum created) (\<lambda>gid.
     let sub = new_subscription now_ms cid p gid
     in bindE (on_subs (sub_upsert sub)) (\<lambda>_.
        bindE (on_ent (applyPlan now_ms cid p)) (\<lambda>_.
        return sub))))"

datatype effective_when = IMMEDIATE | PERIOD_END

record change_result =
  ch_effective :: effective_when
  ch_chargePaise :: int
  ch_creditPaise :: int
  ch_delta :: plan_delta

definition days_remaining :: "int \<Rightarrow> int \<Rightarrow> int" where
  "days_remaining period_end now_ms =
     max 0 \<lceil>(of_int period_end - of_int now_ms / 1000) / (86400 :: rat)\<rceil>"

definition upgrade_note :: "plan \<Rightarrow> plan \<Rightarrow> string" where
  "upgrade_note a b = ''Upgrade '' @ plan_text a @ '' '' @ [CHR 0xE2, CHR 0x86, CHR 0x92] @ '' ''
     @ plan_text b @ '' (prorated)''"

definition changePlan ::
  "int \<Rightarrow> (exn + string) \<Rightarrow> string \<Rightarrow> plan \<Rightarrow> (billing, change_result) exec" where
  "changePlan now_ms charged cid to_plan =
     bindE (reads (\<lambda>s. sub_get cid (bi_subs s))) (\<lambda>found.
     bindE (need found (Error ''NO_SUBSCRIPTION'')) (\<lambda>sub.
     bindE (throw_if (su_plan sub = to_plan) (Error ''ALREADY_ON_PLAN'')) (\<lambda>_.
     let days = days_remaining (su_currentPeriodEnd sub) now_ms;
         amounts = prorate (su_plan sub) to_plan days CYCLE_DAYS;
         delta = planDelta (su_plan sub) to_plan
     in if isUpgrade (su_plan sub) to_plan then
          bindE (if fst amounts > 0 then
                   bindE (calls (ChargeOnce cid (fst amounts) (upgrade_note (su_plan sub) to_plan)))
                     (\<lambda>_. bindE (lift_sum charged) (\<lambda>_. return ()))
                 else return ()) (\<lambda>_.
          bindE (on_subs (sub_upsert (sub\<lparr>su_plan := to_plan\<rparr>))) (\<lambda>_.
          bindE (on_ent (applyPlan now_ms cid to_plan)) (\<lambda>_.
          return \<lparr>ch_effective = IMMEDIATE, ch_chargePaise = fst amounts,
                  ch_creditPaise = snd amounts, ch_delta = delta\<rparr>)))
        else
          bindE (on_subs (sub_upsert (sub\<lparr>su_plan := su_plan sub, su_status := su_status sub\<rparr>))) (\<lambda>_.
          return \<lparr>ch_effective = PERIOD_END, ch_chargePaise = fst amounts,
                  ch_creditPaise = snd amounts, ch_delta = delta\<rparr>))))"

section \<open>Webhook and dunning\<close>

definition grace_end :: "int \<Rightarrow> subscription \<Rightarrow> int" where
  "grace_end now_ms sub = coalesce (su_graceEndsAt sub) (now_ms div 1000 + GRACE_DAYS * 86400)"

definition onPaymentFailure :: "int \<Rightarrow> string \<Rightarrow> (billing, unit) exec" where
  "onPaymentFailure now_ms cid =
     bindE (incrementFailure cid) (\<lambda>attempts.
     bindE (reads (\<lambda>s. sub_get cid (bi_subs s))) (\<lambda>found.
     case found of
       None \<Rightarrow> return ()
     | Some sub \<Rightarrow>
         let g = grace_end now_ms sub
         in bindE (on_subs (sub_upsert (sub\<lparr>su_status := GRACE, su_failedAttempts := attempts,
                                            su_graceEndsAt := Some g\<rparr>))) (\<lambda>_.
            calls (PaymentFailed cid attempts g))))"

text \<open>\<open>body.payload?.subscription?.entity?.notes?.companyId\<close> of a JSON object\<close>

fun dig :: "string list \<Rightarrow> json \<Rightarrow> json option" where
  "dig [] j = Some j"
| "dig (k # ks) (JObj ms) = (case map_of (rev ms) k of None \<Rightarrow> None | Some j \<Rightarrow> dig ks j)"
| "dig (k # ks) _ = None"

fun text_of :: "json option \<Rightarrow> string option" where
  "text_of (Some (JStr t)) = Some t"
| "text_of _ = None"

definition handleWebhook ::
  "mac_fun \<Rightarrow> string \<Rightarrow> int \<Rightarrow> string option \<Rightarrow> json \<Rightarrow> (billing, unit) exec" where
  "handleWebhook mac secret now_ms signature body =
     bindE (throw_if (coalesce signature [] \<noteq> mac secret (stringify body))
              (Error ''BAD_WEBHOOK_SIGNATURE'')) (\<lambda>_.
     let cid = text_of (dig [''payload'', ''subscription'', ''entity'', ''notes'', ''companyId''] body);
         event = text_of (dig [''event''] body)
     in bindE (throw_if (\<not> truthy cid) (Error ''NO_COMPANY_ID'')) (\<lambda>_.
        if event = Some ''subscription.charged'' then
          bindE (resetFailures (the cid)) (\<lambda>_. setStatus (the cid) SUB_ACTIVE)
        else if event = Some ''subscription.pending'' \<or> event = Some ''payment.failed'' then
          onPaymentFailure now_ms (the cid)
        else if event = Some ''subscription.cancelled'' then
          bindE (setStatus (the cid) SUB_CANCELLED) (\<lambda>_.
          bindE (on_ent (applyPlan now_ms (the cid) STARTER)) (\<lambda>_. return ()))
        else return ()))"

text \<open>
  One row of the sweep. \<open>sub.graceEndsAt\<close> is false for \<open>null\<close> and for 0.
\<close>

definition past_grace :: "int \<Rightarrow> subscription \<Rightarrow> bool" where
  "past_grace now sub \<longleftrightarrow>
     (\<exists>g. su_graceEndsAt sub = Some g \<and> g \<noteq> 0 \<and> now > g) \<and> su_plan sub \<noteq> STARTER"

definition dun :: "int \<Rightarrow> subscription \<Rightarrow> string list \<Rightarrow> (billing, string list) exec" where
  "dun now sub downgraded =
     (if past_grace now sub then
        bindE (on_subs (sub_upsert (sub\<lparr>su_plan := STARTER, su_status := DOWNGRADED,
                                        su_graceEndsAt := None\<rparr>))) (\<lambda>_.
        bindE (on_ent (applyPlan (now * 1000) (su_companyId sub) STARTER)) (\<lambda>_.
        bindE (calls (Downgraded (su_companyId sub) (su_plan sub))) (\<lambda>_.
        return (downgraded @ [su_companyId sub]))))
      else return downgraded)"

definition runDunning ::
  "(subscription list \<Rightarrow> subscription list) \<Rightarrow> int \<Rightarrow> (billing, string list) exec" where
  "runDunning listPastDue now =
     bindE (reads (\<lambda>s. listPastDue (bi_subs s))) (\<lambda>due. for_fold (dun now) due [])"

lemma past_grace_code [code]:
  "past_grace now sub \<longleftrightarrow>
     (case su_graceEndsAt sub of None \<Rightarrow> False | Some g \<Rightarrow> g \<noteq> 0 \<and> now > g) \<and> su_plan sub \<noteq> STARTER"
  by (auto simp: past_grace_def split: option.split)

section \<open>The subscription table\<close>

lemma sub_get_upsert [table_simps]:
  "sub_get c (sub_upsert x t) = (if c = su_companyId x then Some x else sub_get c t)"
proof -
  have "find (\<lambda>y. su_companyId y = c) (update_where (\<lambda>y. su_companyId y = su_companyId x) (\<lambda>_. x) t) =
      (if c = su_companyId x then map_option (\<lambda>_. x) (sub_get c t) else sub_get c t)"
    by (induction t) (auto simp: sub_get_def)
  then show ?thesis
    by (auto simp: sub_upsert_def sub_get_def find_append split: option.splits)
qed

definition one_row_per_company :: "subscription list \<Rightarrow> bool" where
  "one_row_per_company t \<longleftrightarrow> distinct (map su_companyId t)"

lemma companies_update:
  "(\<And>y. su_companyId y = su_companyId x \<Longrightarrow> su_companyId (f y) = su_companyId x) \<Longrightarrow>
   map su_companyId (update_where (\<lambda>y. su_companyId y = su_companyId x) f t) = map su_companyId t"
  by (induction t) auto

lemma one_row_upsert [intro]: "one_row_per_company t \<Longrightarrow> one_row_per_company (sub_upsert x t)"
  by (auto simp: one_row_per_company_def sub_upsert_def companies_update sub_get_def find_None_iff')

lemma sub_getD: "sub_get c t = Some x \<Longrightarrow> x \<in> set t \<and> su_companyId x = c"
  unfolding sub_get_def by (drule find_SomeD) simp

lemma sub_get_member:
  "one_row_per_company t \<Longrightarrow> x \<in> set t \<Longrightarrow> sub_get (su_companyId x) t = Some x"
  unfolding sub_get_def one_row_per_company_def by (rule find_unique) auto

lemma upsert_present:
  assumes "one_row_per_company t" and "x \<in> set t" and "su_companyId x' = su_companyId x"
  shows "sub_upsert x' t = update_where (\<lambda>y. y = x) (\<lambda>_. x') t"
proof -
  have "su_companyId y = su_companyId x \<longleftrightarrow> y = x" if "y \<in> set t" for y
    using assms(1,2) that unique_key [of su_companyId t y x] by (auto simp: one_row_per_company_def)
  then have "update_where (\<lambda>y. su_companyId y = su_companyId x') (\<lambda>_. x') t =
      update_where (\<lambda>y. y = x) (\<lambda>_. x') t"
    using assms(3) by (auto simp: update_where_def)
  moreover have "sub_get (su_companyId x') t \<noteq> None"
    using sub_get_member [OF assms(1,2)] assms(3) by simp
  ultimately show ?thesis by (auto simp: sub_upsert_def)
qed

lemma upsert_same: "one_row_per_company t \<Longrightarrow> sub_get c t = Some x \<Longrightarrow> sub_upsert x t = t"
  by (drule sub_getD) (auto simp: upsert_present [of t x x] update_where_def intro: map_idI)

definition billing_inv :: "billing \<Rightarrow> bool" where
  "billing_inv s \<longleftrightarrow> one_row_per_company (bi_subs s) \<and> ent_inv (bi_ent s)"

text \<open>Applying a plan inside a billing operation, and what it leaves alone.\<close>

lemma on_ent_applyPlan:
  assumes "ent_inv (bi_ent s)"
  shows "\<exists>e. on_ent (applyPlan now cid p) s = (Inr (effective e cid), s\<lparr>bi_ent := e\<rparr>) \<and> ent_inv e \<and>
     ent_store_of e = setPlan cid p (ent_store_of (bi_ent s))"
  using applyPlan_spec [OF assms, of now cid p] by (auto simp: on_ent_def)

lemma planFor_setPlan [simp]:
  "planFor (setPlan cid p st) d = (if d = cid then Some p else planFor st d)"
  by (simp add: planFor_def setPlan_def)

lemma overridesFor_setPlan [simp]: "overridesFor (setPlan cid p st) d = overridesFor st d"
  by (simp add: overridesFor_def setPlan_def)

section \<open>Changing plan\<close>

definition upgraded :: "billing \<Rightarrow> subscription \<Rightarrow> plan \<Rightarrow> billing \<Rightarrow> bool" where
  "upgraded s sub q s' \<longleftrightarrow>
     billing_inv s' \<and> bi_subs s' = sub_upsert (sub\<lparr>su_plan := q\<rparr>) (bi_subs s) \<and>
     ent_store_of (bi_ent s') = setPlan (su_companyId sub) q (ent_store_of (bi_ent s))"

lemma changePlan_upgrade:
  fixes now :: int
  assumes inv: "billing_inv s" and sub: "sub_get cid (bi_subs s) = Some sub"
    and up: "su_plan sub < q"
  defines "amount \<equiv> fst (prorate (su_plan sub) q (days_remaining (su_currentPeriodEnd sub) now) CYCLE_DAYS)"
  shows "\<exists>s'. changePlan now (Inr paid) cid q s =
      (Inr \<lparr>ch_effective = IMMEDIATE, ch_chargePaise = amount, ch_creditPaise = 0,
            ch_delta = planDelta (su_plan sub) q\<rparr>, s') \<and> upgraded s sub q s' \<and>
      bi_calls s' = bi_calls s @
        (if amount > 0 then [ChargeOnce cid amount (upgrade_note (su_plan sub) q)] else [])"
proof -
  define pays where "pays = (if amount > 0 then [ChargeOnce cid amount (upgrade_note (su_plan sub) q)] else [])"
  define s1 where "s1 = s\<lparr>bi_calls := bi_calls s @ pays,
    bi_subs := sub_upsert (sub\<lparr>su_plan := q\<rparr>) (bi_subs s)\<rparr>"
  from sub_getD [OF sub] have c: "su_companyId sub = cid" by simp
  have i1: "ent_inv (bi_ent s1)" using inv by (simp add: s1_def billing_inv_def)
  from on_ent_applyPlan [OF i1, of now cid q] obtain e where e:
    "on_ent (applyPlan now cid q) s1 = (Inr (effective e cid), s1\<lparr>bi_ent := e\<rparr>)" "ent_inv e"
    "ent_store_of e = setPlan cid q (ent_store_of (bi_ent s1))" by blast
  have snd0: "snd (prorate (su_plan sub) q d c) = 0" for d c using up by (simp add: prorate_cases)
  have "changePlan now (Inr paid) cid q s =
      (Inr \<lparr>ch_effective = IMMEDIATE, ch_chargePaise = amount, ch_creditPaise = 0,
            ch_delta = planDelta (su_plan sub) q\<rparr>, s1\<lparr>bi_ent := e\<rparr>)"
    using sub up e(1) snd0
    by (auto simp: changePlan_def bindE_def throw_if_def isUpgrade_less Let_def calls_def lift_sum_def
        on_subs_def s1_def pays_def amount_def)
  moreover have "upgraded s sub q (s1\<lparr>bi_ent := e\<rparr>)"
    using e inv c by (auto simp: upgraded_def billing_inv_def s1_def)
  ultimately show ?thesis by (auto simp: s1_def pays_def)
qed

lemma changePlan_unpaid:
  fixes now :: int
  assumes sub: "sub_get cid (bi_subs s) = Some sub" and up: "su_plan sub < q"
  defines "amount \<equiv> fst (prorate (su_plan sub) q (days_remaining (su_currentPeriodEnd sub) now) CYCLE_DAYS)"
  assumes "0 < amount"
  shows "changePlan now (Inl err) cid q s =
    (Inl err, s\<lparr>bi_calls := bi_calls s @ [ChargeOnce cid amount (upgrade_note (su_plan sub) q)]\<rparr>)"
  using assms
  by (auto simp: changePlan_def bindE_def throw_if_def isUpgrade_less Let_def calls_def lift_sum_def)

lemma changePlan_downgrade:
  assumes inv: "billing_inv s" and sub: "sub_get cid (bi_subs s) = Some sub"
    and down: "q < su_plan sub"
  shows "changePlan now charged cid q s =
    (Inr \<lparr>ch_effective = PERIOD_END, ch_chargePaise = 0,
          ch_creditPaise = snd (prorate (su_plan sub) q (days_remaining (su_currentPeriodEnd sub) now) CYCLE_DAYS),
          ch_delta = planDelta (su_plan sub) q\<rparr>, s)"
proof -
  have "\<not> su_plan sub < q" "su_plan sub \<noteq> q" using down by auto
  moreover have "sub_upsert sub (bi_subs s) = bi_subs s"
    using inv sub by (intro upsert_same) (auto simp: billing_inv_def)
  ultimately show ?thesis
    using sub by (simp add: changePlan_def bindE_def throw_if_def isUpgrade_less Let_def on_subs_def prorate_cases)
qed

section \<open>What the dunning sweep does\<close>

definition to_starter :: "subscription \<Rightarrow> subscription" where
  "to_starter sub = sub\<lparr>su_plan := STARTER, su_status := DOWNGRADED, su_graceEndsAt := None\<rparr>"

lemma to_starter_company [simp]: "su_companyId (to_starter x) = su_companyId x"
  by (simp add: to_starter_def)

lemma dun_step:
  assumes inv: "billing_inv s" and mem: "sub \<in> set (bi_subs s)"
  shows "\<exists>s'. dun now sub acc s =
      (Inr (acc @ (if past_grace now sub then [su_companyId sub] else [])), s') \<and> billing_inv s' \<and>
    bi_subs s' = update_where (\<lambda>x. x = sub \<and> past_grace now x) to_starter (bi_subs s) \<and>
    (\<forall>c. planFor (ent_store_of (bi_ent s')) c =
       (if past_grace now sub \<and> c = su_companyId sub then Some STARTER
        else planFor (ent_store_of (bi_ent s)) c)) \<and>
    (\<forall>c. overridesFor (ent_store_of (bi_ent s')) c = overridesFor (ent_store_of (bi_ent s)) c)"
proof (cases "past_grace now sub")
  case True
  define s1 where "s1 = s\<lparr>bi_subs := sub_upsert (to_starter sub) (bi_subs s)\<rparr>"
  have "ent_inv (bi_ent s1)" using inv by (simp add: s1_def billing_inv_def)
  from on_ent_applyPlan [OF this, of "now * 1000" "su_companyId sub" STARTER] obtain e where e:
    "on_ent (applyPlan (now * 1000) (su_companyId sub) STARTER) s1 =
       (Inr (effective e (su_companyId sub)), s1\<lparr>bi_ent := e\<rparr>)" "ent_inv e"
    "ent_store_of e = setPlan (su_companyId sub) STARTER (ent_store_of (bi_ent s1))" by blast
  have up: "sub_upsert (to_starter sub) (bi_subs s) =
      update_where (\<lambda>x. x = sub \<and> past_grace now x) to_starter (bi_subs s)"
    using inv True mem by (subst upsert_present [of _ sub])
      (auto simp: billing_inv_def update_where_def)
  define s2 where "s2 = s1\<lparr>bi_ent := e, bi_calls := bi_calls s @ [Downgraded (su_companyId sub) (su_plan sub)]\<rparr>"
  have "dun now sub acc s = (Inr (acc @ [su_companyId sub]), s2)"
    using True e(1) by (simp add: dun_def bindE_def on_subs_def calls_def to_starter_def s1_def s2_def)
  moreover have "billing_inv s2"
    using inv e by (auto simp: billing_inv_def s2_def s1_def)
  ultimately show ?thesis using True e(3) up by (auto simp: s2_def s1_def)
next
  case False
  then show ?thesis using inv by (auto simp: dun_def update_where_def intro!: map_idI [symmetric])
qed

lemma runDunning_fold:
  assumes "billing_inv s" and "set due \<subseteq> set (bi_subs s)" and "distinct (map su_companyId due)"
  shows "\<exists>s'. for_fold (dun now) due acc s =
      (Inr (acc @ map su_companyId (filter (past_grace now) due)), s') \<and> billing_inv s' \<and>
    bi_subs s' = update_where (\<lambda>x. x \<in> set due \<and> past_grace now x) to_starter (bi_subs s) \<and>
    (\<forall>c. planFor (ent_store_of (bi_ent s')) c =
       (if c \<in> su_companyId ` {x \<in> set due. past_grace now x} then Some STARTER
        else planFor (ent_store_of (bi_ent s)) c)) \<and>
    (\<forall>c. overridesFor (ent_store_of (bi_ent s')) c = overridesFor (ent_store_of (bi_ent s)) c)"
  using assms
proof (induction due arbitrary: s acc)
  case Nil
  then show ?case by (auto simp: update_where_def intro!: map_idI [symmetric])
next
  case (Cons x due)
  from dun_step [of s x now acc] Cons.prems obtain s1 where s1:
    "dun now x acc s = (Inr (acc @ (if past_grace now x then [su_companyId x] else [])), s1)"
    "billing_inv s1"
    "bi_subs s1 = update_where (\<lambda>y. y = x \<and> past_grace now y) to_starter (bi_subs s)"
    "\<forall>c. planFor (ent_store_of (bi_ent s1)) c =
       (if past_grace now x \<and> c = su_companyId x then Some STARTER
        else planFor (ent_store_of (bi_ent s)) c)"
    "\<forall>c. overridesFor (ent_store_of (bi_ent s1)) c = overridesFor (ent_store_of (bi_ent s)) c"
    by auto
  have x: "x \<notin> set due" using Cons.prems(3) by auto
  have sub: "set due \<subseteq> set (bi_subs s1)"
    using Cons.prems(2) x unfolding s1(3) set_update_where by auto
  from Cons.IH [OF s1(2) sub, of "acc @ (if past_grace now x then [su_companyId x] else [])"] Cons.prems(3)
  obtain s2 where s2: "for_fold (dun now) due (acc @ (if past_grace now x then [su_companyId x] else [])) s1 =
      (Inr ((acc @ (if past_grace now x then [su_companyId x] else [])) @
        map su_companyId (filter (past_grace now) due)), s2)" "billing_inv s2"
    "bi_subs s2 = update_where (\<lambda>y. y \<in> set due \<and> past_grace now y) to_starter (bi_subs s1)"
    "\<forall>c. planFor (ent_store_of (bi_ent s2)) c =
       (if c \<in> su_companyId ` {y \<in> set due. past_grace now y} then Some STARTER
        else planFor (ent_store_of (bi_ent s1)) c)"
    "\<forall>c. overridesFor (ent_store_of (bi_ent s2)) c = overridesFor (ent_store_of (bi_ent s1)) c"
    by auto
  have idle: "\<not> past_grace now (to_starter y)" for y by (simp add: past_grace_def to_starter_def)
  have "bi_subs s2 = update_where (\<lambda>y. y \<in> set (x # due) \<and> past_grace now y) to_starter (bi_subs s)"
    unfolding s2(3) s1(3) using idle by (auto simp: update_where_def)
  with s1 s2 show ?case by (auto simp: bindE_def)
qed

lemma runDunning_spec:
  fixes now :: int
  assumes "billing_inv s" and "set (listPastDue (bi_subs s)) \<subseteq> set (bi_subs s)"
    and "distinct (listPastDue (bi_subs s))"
  defines "hit \<equiv> filter (past_grace now) (listPastDue (bi_subs s))"
  shows "\<exists>s'. runDunning listPastDue now s = (Inr (map su_companyId hit), s') \<and> billing_inv s' \<and>
    bi_subs s' = update_where (\<lambda>x. x \<in> set hit) to_starter (bi_subs s) \<and>
    (\<forall>c. planFor (ent_store_of (bi_ent s')) c =
       (if c \<in> su_companyId ` set hit then Some STARTER else planFor (ent_store_of (bi_ent s)) c)) \<and>
    (\<forall>c. overridesFor (ent_store_of (bi_ent s')) c = overridesFor (ent_store_of (bi_ent s)) c)"
proof -
  have "inj_on su_companyId (set (listPastDue (bi_subs s)))"
    using assms(1,2) by (auto simp: billing_inv_def one_row_per_company_def distinct_map intro: inj_on_subset)
  with assms(3) have d: "distinct (map su_companyId (listPastDue (bi_subs s)))"
    by (simp add: distinct_map)
  from runDunning_fold [OF assms(1,2) d, of now "[]"] show ?thesis
    unfolding hit_def set_filter by (simp add: runDunning_def bindE_def)
qed

section \<open>Payment failures\<close>

lemma onPaymentFailure_spec:
  assumes inv: "billing_inv s" and sub: "sub_get cid (bi_subs s) = Some sub"
  shows "\<exists>s'. onPaymentFailure now cid s = (Inr (), s') \<and> billing_inv s' \<and> bi_ent s' = bi_ent s \<and>
    sub_get cid (bi_subs s') = Some (sub\<lparr>su_status := GRACE,
      su_failedAttempts := su_failedAttempts sub + 1, su_graceEndsAt := Some (grace_end now sub)\<rparr>) \<and>
    (\<forall>c. c \<noteq> cid \<longrightarrow> sub_get c (bi_subs s') = sub_get c (bi_subs s)) \<and>
    bi_calls s' = bi_calls s @ [PaymentFailed cid (su_failedAttempts sub + 1) (grace_end now sub)]"
proof -
  from sub_getD [OF sub] have c: "su_companyId sub = cid" by simp
  define t1 where "t1 = update_where (\<lambda>y. su_companyId y = cid)
    (\<lambda>y. y\<lparr>su_failedAttempts := su_failedAttempts y + 1\<rparr>) (bi_subs s)"
  have get: "sub_get d t1 = (if d = cid then Some (sub\<lparr>su_failedAttempts := su_failedAttempts sub + 1\<rparr>)
      else sub_get d (bi_subs s))" for d
    using sub unfolding t1_def sub_get_def
    by (subst find_update_where) (auto simp: option.map_id0 dest: find_SomeD split: option.splits
        intro!: option.map_ident_strong)
  have one: "one_row_per_company t1"
    using inv companies_update [of sub "\<lambda>y. y\<lparr>su_failedAttempts := su_failedAttempts y + 1\<rparr>" "bi_subs s"] c
    by (simp add: billing_inv_def one_row_per_company_def t1_def)
  have g: "grace_end now (sub\<lparr>su_failedAttempts := n\<rparr>) = grace_end now sub" for n
    by (simp add: grace_end_def)
  show ?thesis
    using inv get [of cid] one c
    by (auto simp: g onPaymentFailure_def incrementFailure_def bindE_def on_subs_def t1_def [symmetric]
        calls_def billing_inv_def sub_get_upsert get Let_def)
qed

end
