(* ===== verification/Company_Properties.thy ===== *)
theory Company_Properties imports Identity_Properties Billing begin

text \<open>
  Properties of what a company may use and who belongs to it: entitlements with their cache,
  grants and revocations, expiring trials, invitations and the onboarding moves, plan changes and
  the dunning sweep.
\<close>

section \<open>Entitlements\<close>

text \<open>A grant of a module either enables exactly that module and nothing else, when every
  prerequisite is already enabled, or fails and changes no stored row; afterwards the cache never
  disagrees with the store, so that every reading of the modules gives the new set.\<close>

theorem grant_is_exact:
  assumes "ent_inv s" and "planFor (ent_store_of s) cid = Some p"
  defines "cur \<equiv> set (effective s cid)"
  shows "if set (MODULE_REQUIRES m) \<subseteq> insert m cur
    then \<exists>ms s'. ent_grant now cid m setBy reason s = (Inr ms, s') \<and> ent_inv s' \<and> set ms = insert m cur \<and>
      (\<forall>now'. \<exists>s''. modulesFor now' cid s' = (Inr (effective s' cid), s'') \<and> set (effective s' cid) = insert m cur)
    else \<exists>s'. ent_grant now cid m setBy reason s = (Inl (prerequisite_error m), s') \<and>
      ent_inv s' \<and> ent_store_of s' = ent_store_of s"
proof -
  have read: "\<exists>s''. modulesFor now' cid s' = (Inr (effective s' cid), s'')" if "ent_inv s'" for s' now'
    using modulesFor_effective [of s'] that by (auto simp: ent_inv_def)
  show ?thesis
    using ent_grant_spec [OF assms(1,2), of m now setBy reason] read
    by (auto simp: cur_def set_effective split: if_splits)
qed

lemma toy_plan: "planFor (ent_store_of (toy_ent p)) ''company-1'' = Some p"
  by (simp add: planFor_def toy_ent_def)

lemma toy_effective: "set (effective (toy_ent p) ''company-1'') = set (modulesForPlan p)"
  by (simp add: effective_def computed_def planFor_def overridesFor_def toy_ent_def)

theorem grant_is_exact_witness:
  "(\<exists>ms s'. ent_grant 0 ''company-1'' QR_GOODS ''sa'' None (toy_ent STARTER) = (Inr ms, s') \<and>
      set ms = insert QR_GOODS (set STARTER_MODULES)) \<and>
   (\<exists>s'. ent_grant 0 ''company-1'' THEFT_DETECTION ''sa'' None (toy_ent STARTER) =
      (Inl (prerequisite_error THEFT_DETECTION), s'))"
proof
  show "\<exists>ms s'. ent_grant 0 ''company-1'' QR_GOODS ''sa'' None (toy_ent STARTER) = (Inr ms, s') \<and>
      set ms = insert QR_GOODS (set STARTER_MODULES)"
    using grant_is_exact [OF toy_ent_inv toy_plan [of STARTER], of QR_GOODS 0 "''sa''" None]
    by (auto simp: toy_effective)
  show "\<exists>s'. ent_grant 0 ''company-1'' THEFT_DETECTION ''sa'' None (toy_ent STARTER) =
      (Inl (prerequisite_error THEFT_DETECTION), s')"
    using grant_is_exact [OF toy_ent_inv toy_plan [of STARTER], of THEFT_DETECTION 0 "''sa''" None]
    by (auto simp: toy_effective STARTER_MODULES_def)
qed

text \<open>A revocation always succeeds: it disables the module and, in one pass, every enabled module
  that directly needs it; the set it reports is the set every later reading gives.\<close>

theorem revoke_is_one_pass:
  assumes "ent_inv s" and "planFor (ent_store_of s) cid = Some p"
  defines "cur \<equiv> set (effective s cid)"
  shows "\<exists>ms orphaned s'. ent_revoke now cid m setBy reason s = (Inr (ms, orphaned), s') \<and>
    ent_inv s' \<and> set orphaned = direct_orphans cur m \<and>
    set ms = cur - {m} - direct_orphans cur m \<and> set (effective s' cid) = set ms"
  using ent_revoke_spec [OF assms(1,2)] by (simp add: cur_def set_effective)

lemma enterprise_orphans: "direct_orphans (set (modulesForPlan ENTERPRISE)) QR_GOODS =
    {GOODS_VERIFICATION, CUSTODY_TRACKING, THEFT_DETECTION}"
  by (auto simp: direct_orphans_def plan_module_defs)

theorem revoke_is_one_pass_witness:
  "\<exists>ms orphaned s'. ent_revoke 0 ''company-1'' QR_GOODS ''sa'' None (toy_ent ENTERPRISE) = (Inr (ms, orphaned), s') \<and>
     set orphaned = {GOODS_VERIFICATION, CUSTODY_TRACKING, THEFT_DETECTION} \<and>
     REPUTATION \<in> set ms \<and> CUSTODY_TRACKING \<notin> set ms \<and> \<not> coherent (set ms)"
proof -
  from revoke_is_one_pass [OF toy_ent_inv toy_plan [of ENTERPRISE]] obtain ms orphaned s' where
    run: "ent_revoke 0 ''company-1'' QR_GOODS ''sa'' None (toy_ent ENTERPRISE) = (Inr (ms, orphaned), s')" and
    o: "set orphaned = direct_orphans (set (modulesForPlan ENTERPRISE)) QR_GOODS" and
    ms: "set ms = set (modulesForPlan ENTERPRISE) - {QR_GOODS} -
      direct_orphans (set (modulesForPlan ENTERPRISE)) QR_GOODS"
    unfolding toy_effective by blast
  have m: "REPUTATION \<in> set ms" "CUSTODY_TRACKING \<notin> set ms"
    unfolding ms enterprise_orphans by (simp_all add: plan_module_defs)
  moreover have "CUSTODY_TRACKING \<in> set (MODULE_REQUIRES REPUTATION)" by simp
  ultimately have "\<not> coherent (set ms)" unfolding coherent_def by blast
  with run o m show ?thesis unfolding enterprise_orphans by blast
qed

text \<open>The nightly expiry of trials clears the current override of every company and module named by
  an expired row, whichever override that is by now, keeps the plans and all other overrides, and
  writes one log entry per expired row.\<close>

theorem expiry_clears_current_overrides:
  assumes "ent_inv (os_ent s)"
  shows "\<exists>s'. expireTrials listExpired mark now s = (Inr (listExpired now (os_rows s)), s') \<and>
    ent_inv (os_ent s') \<and>
    (\<forall>c. planFor (ent_store_of (os_ent s')) c = planFor (ent_store_of (os_ent s)) c \<and>
       overridesFor (ent_store_of (os_ent s')) c =
         cleared_for (listExpired now (os_rows s)) c (overridesFor (ent_store_of (os_ent s)) c)) \<and>
    length (os_audit s') = length (os_audit s) + length (listExpired now (os_rows s))"
  using expireTrials_spec [OF assms, of listExpired mark now] by auto

definition trial_row :: override_record where
  "trial_row = \<lparr>ov_id = ''o-1'', ov_companyId = ''company-1'', ov_module = QR_GOODS, ov_granted = True,
     ov_reason = ''trial'', ov_setBy = ''sa'', ov_setAt = 0, ov_expiresAt = Some 1000\<rparr>"

definition revoked_row :: module_row where
  "revoked_row = \<lparr>mr_companyId = ''company-1'', mr_module = QR_GOODS, mr_granted = False,
     mr_reason = Some ''abuse'', mr_setBy = ''sa'', mr_setAt = 500\<rparr>"

definition revoked_after_trial :: override_state where
  "revoked_after_trial = \<lparr>os_ent = \<lparr>ent_store_of = \<lparr>es_plans = (\<lambda>_. Some ENTERPRISE), es_overrides = (\<lambda>_. [revoked_row])\<rparr>,
     ent_cache = (\<lambda>_. None)\<rparr>, os_rows = [trial_row], os_audit = []\<rparr>"

definition expired_rows :: "int \<Rightarrow> override_record list \<Rightarrow> override_record list" where
  "expired_rows now = filter (\<lambda>r. case ov_expiresAt r of None \<Rightarrow> False | Some e \<Rightarrow> e < now)"

theorem expiry_clears_current_overrides_witness:
  "\<exists>s'. expireTrials expired_rows (\<lambda>_ rs. rs) 2000 revoked_after_trial = (Inr [trial_row], s') \<and>
     overridesFor (ent_store_of (os_ent revoked_after_trial)) ''company-1'' = [revoked_row] \<and>
     overridesFor (ent_store_of (os_ent s')) ''company-1'' = []"
proof -
  have inv: "ent_inv (os_ent revoked_after_trial)"
    by (simp add: ent_inv_def fresh_cache_def one_row_per_module_def revoked_after_trial_def)
  have e: "expired_rows 2000 (os_rows revoked_after_trial) = [trial_row]"
    by (simp add: expired_rows_def revoked_after_trial_def trial_row_def)
  have o: "overridesFor (ent_store_of (os_ent revoked_after_trial)) ''company-1'' = [revoked_row]"
    by (simp add: overridesFor_def revoked_after_trial_def)
  have c: "cleared_for [trial_row] ''company-1'' [revoked_row] = []"
    by (simp add: cleared_for_def trial_row_def revoked_row_def)
  show ?thesis
    using expiry_clears_current_overrides [OF inv, of expired_rows "\<lambda>_ rs. rs" 2000] o unfolding e
    by (metis c)
qed

section \<open>Onboarding\<close>

text \<open>C39: Every operation of registration, invitations and join requests, whatever it returns, is a run of
  the onboarding moves: companies are added and changed, a user is added only as a company's
  administrator, by a pending invitation or by a pending join request, and existing users and
  accepted invitations stay as they are.\<close>

theorem onboarding_operations_refine_the_moves:
  "stays (provision now uuid bytes uid setup i p adminName prov) \<and>
   stays (apply_company now uuid bytes i) \<and>
   stays (approve_company now uid setup cid sa p adminName) \<and>
   stays (suspend cid sa) \<and>
   stays (invite C now uuid j) \<and>
   stays (preview C now token) \<and>
   stays (accept C now uid token) \<and>
   stays (revoke_invite cid k) \<and>
   stays (requestJoin now uuid code name phone r) \<and>
   stays (approve_request now uid cid k approver override) \<and>
   stays (reject_request now cid k by_id)"
  by (intro conjI stays)

text \<open>Along any run of onboarding moves the registry stays consistent (keys unique, every company
  named by a user exists, only SuperAdmins have no company, an accepted invitation has the user it
  made with its company and role), no SuperAdmin is made or removed, and an accepted invitation
  never changes again.\<close>

theorem onboarding_keeps_registry:
  assumes "onboard\<^sup>*\<^sup>* s t" and "registry_ok s"
  shows "registry_ok t \<and>
    filter (\<lambda>u. us_role u = SUPER_ADMIN) (rg_users t) = filter (\<lambda>u. us_role u = SUPER_ADMIN) (rg_users s) \<and>
    (\<forall>k i. invite_byId k s = Some i \<longrightarrow> in_status i = INV_ACCEPTED \<longrightarrow> invite_byId k t = Some i)"
  using onboard_run_ok [OF assms] onboard_run_super_admins [OF assms] onboard_run_spent [OF assms(1)] by blast

definition toy_iconf :: invite_conf where
  "toy_iconf = \<lparr>ic_mac = toy_mac, ic_secret = ''s'', ic_baseUrl = ''https://dtd.example''\<rparr>"

definition toy_company :: company where
  "toy_company = \<lparr>co_id = ''company-1'', co_companyCode = ''DTD-ABC123'', co_legalName = ''C'', co_gstin = None,
     co_contactPhone = ''p'', co_contactEmail = ''e'', co_status = CO_ACTIVE, co_plan = STARTER,
     co_createdAt = 0, co_approvedBy = None\<rparr>"

definition toy_invite :: invitation where
  "toy_invite = \<lparr>in_id = ''inv-1'', in_companyId = ''company-1'', in_role = DRIVER, in_fullName = ''D'',
     in_phone = Some ''+911'', in_email = None, in_invitedBy = ''user-1'', in_status = INV_PENDING,
     in_createdAt = 0, in_expiresAt = 5000, in_acceptedUserId = None\<rparr>"

definition toy_registry :: registry where
  "toy_registry = \<lparr>rg_companies = [toy_company], rg_users = [toy_user ''user-1'' COMPANY_ADMIN],
     rg_invites = [toy_invite], rg_requests = [], rg_ent = toy_ent STARTER, rg_notices = []\<rparr>"

lemma toy_registry_ok: "registry_ok toy_registry"
  by (simp add: registry_ok_def accepted_ok_def toy_registry_def toy_company_def toy_user_def toy_invite_def)

lemma toy_iconf_shape: "mac_shape (ic_mac toy_iconf)"
  by (simp add: toy_iconf_def toy_mac_shape)

lemma toy_accept:
  "\<exists>t. accept toy_iconf 1000 ''user-9'' (encode_invite toy_iconf ''inv-1'' 5000) toy_registry =
     (Inr (''user-9'', ''company-1'', DRIVER), t)"
proof -
  have f: "invite_byId ''inv-1'' toy_registry = Some toy_invite"
    by (simp add: invite_byId_def toy_registry_def toy_invite_def)
  have i: "in_status toy_invite = INV_PENDING" "in_expiresAt toy_invite = 5000" "in_id toy_invite = ''inv-1''"
    "in_companyId toy_invite = ''company-1''" "in_role toy_invite = DRIVER"
    by (simp_all add: toy_invite_def)
  have r: "resolve_invite toy_iconf 1000 (encode_invite toy_iconf ''inv-1'' 5000) toy_registry = (Inr toy_invite, toy_registry)"
    by (simp add: resolve_issued [OF toy_iconf_shape] f i)
  have p: "in_phone toy_invite = Some ''+911''" "in_email toy_invite = None" by (simp_all add: toy_invite_def)
  have "\<exists>t. create_user ''user-9'' ''company-1'' DRIVER (in_fullName toy_invite) (Some ''+911'') None toy_registry =
      (Inr ''user-9'', t)"
    by (simp add: bindE_def create_user_def insert_user_def constraint_def
        new_user_def toy_registry_def toy_user_def toy_company_def throw_if_def)
  with r show ?thesis
    by (auto simp: accept_def bindE_def i p update_invite_def)
qed

theorem onboarding_keeps_registry_witness:
  "\<exists>t. accept toy_iconf 1000 ''user-9'' (encode_invite toy_iconf ''inv-1'' 5000) toy_registry =
     (Inr (''user-9'', ''company-1'', DRIVER), t) \<and> registry_ok t"
proof -
  obtain t where run: "accept toy_iconf 1000 ''user-9'' (encode_invite toy_iconf ''inv-1'' 5000) toy_registry =
      (Inr (''user-9'', ''company-1'', DRIVER), t)" using toy_accept by blast
  from onboarding_keeps_registry [OF staysD [OF stays_accept run] toy_registry_ok] run show ?thesis by blast
qed

text \<open>An invitation makes at most one user, of the company and role it names: after an accepted link,
  whatever onboarding operations follow, the same link is refused and changes nothing.\<close>

theorem invitation_is_used_once:
  assumes "mac_shape (ic_mac C)"
    and "accept C now uid (encode_invite C k e) s = (Inr (u, cid, r), s1)" and "onboard\<^sup>*\<^sup>* s1 t"
  shows "(\<exists>i. invite_byId k s = Some i \<and> cid = in_companyId i \<and> r = in_role i \<and> now \<le> in_expiresAt i \<and>
      rg_users s1 = rg_users s @ [new_user uid cid r (in_fullName i) (in_phone i) (in_email i)]) \<and>
    (\<exists>err. accept C later uid' (encode_invite C k e) t = (Inl err, t) \<and>
      err \<in> {Error ''INVITE_EXPIRED'', Error ''INVITE_ALREADY_USED''})"
proof -
  from accept_cases [OF assms(2)] obtain i where
    res: "resolve_invite C now (encode_invite C k e) s = (Inr i, s)" and
    v: "Inr (u, cid, r) = (Inr (uid, in_companyId i, in_role i) :: exn + string \<times> string \<times> role)" and
    s1: "s1 = s\<lparr>rg_users := rg_users s @ [new_user uid (in_companyId i) (in_role i) (in_fullName i) (in_phone i) (in_email i)],
      rg_invites := update_where (\<lambda>x. in_id x = in_id i)
        (\<lambda>x. x\<lparr>in_status := INV_ACCEPTED, in_acceptedUserId := Some uid\<rparr>) (rg_invites s)\<rparr>"
    by (metis Inl_Inr_False)
  from res have by_k: "invite_byId k s = Some i" and exp: "now \<le> in_expiresAt i"
    by (auto simp: resolve_issued [OF assms(1)] split: if_splits option.splits)
  have id: "in_id i = k" using invite_byIdD [OF by_k] by simp
  have "invite_byId k s1 = Some (i\<lparr>in_status := INV_ACCEPTED, in_acceptedUserId := Some uid\<rparr>)"
    using by_k id by (simp add: s1 invite_byId_def find_update_where)
  from onboard_run_spent [OF assms(3) this]
  have "invite_byId k t = Some (i\<lparr>in_status := INV_ACCEPTED, in_acceptedUserId := Some uid\<rparr>)" by simp
  then have "accept C later uid' (encode_invite C k e) t =
      (Inl (if later > e then Error ''INVITE_EXPIRED'' else Error ''INVITE_ALREADY_USED''), t)"
    by (simp add: accept_def bindE_def resolve_issued [OF assms(1)])
  with by_k exp v s1 show ?thesis by auto
qed

theorem invitation_is_used_once_witness:
  "\<exists>s1. accept toy_iconf 1000 ''user-9'' (encode_invite toy_iconf ''inv-1'' 5000) toy_registry =
       (Inr (''user-9'', ''company-1'', DRIVER), s1) \<and>
     (\<exists>err. accept toy_iconf 2000 ''user-8'' (encode_invite toy_iconf ''inv-1'' 5000) s1 = (Inl err, s1))"
proof -
  obtain s1 where run: "accept toy_iconf 1000 ''user-9'' (encode_invite toy_iconf ''inv-1'' 5000) toy_registry =
      (Inr (''user-9'', ''company-1'', DRIVER), s1)" using toy_accept by blast
  from invitation_is_used_once [OF toy_iconf_shape run rtranclp.rtrancl_refl] run show ?thesis by blast
qed

section \<open>Billing\<close>

text \<open>An upgrade charges once, an amount between zero and the price difference; if the charge goes
  through, the subscription and the entitlements are on the new plan at once, and if it fails,
  neither changes.\<close>

theorem upgrade_is_paid_for:
  fixes now :: int
  assumes "billing_inv s" and "sub_get cid (bi_subs s) = Some sub" and "su_plan sub < q"
  defines "amount \<equiv> fst (prorate (su_plan sub) q (days_remaining (su_currentPeriodEnd sub) now) CYCLE_DAYS)"
  shows "0 \<le> amount \<and> amount \<le> PLAN_PRICE_PAISE q - PLAN_PRICE_PAISE (su_plan sub) \<and>
    (\<exists>s'. changePlan now (Inr paid) cid q s =
        (Inr \<lparr>ch_effective = IMMEDIATE, ch_chargePaise = amount, ch_creditPaise = 0,
              ch_delta = planDelta (su_plan sub) q\<rparr>, s') \<and>
       sub_get cid (bi_subs s') = Some (sub\<lparr>su_plan := q\<rparr>) \<and>
       planFor (ent_store_of (bi_ent s')) cid = Some q \<and> billing_inv s' \<and>
       bi_calls s' = bi_calls s @ (if 0 < amount then [ChargeOnce cid amount (upgrade_note (su_plan sub) q)] else [])) \<and>
    (0 < amount \<longrightarrow> changePlan now (Inl err) cid q s =
       (Inl err, s\<lparr>bi_calls := bi_calls s @ [ChargeOnce cid amount (upgrade_note (su_plan sub) q)]\<rparr>))"
proof -
  let ?d = "PLAN_PRICE_PAISE q - PLAN_PRICE_PAISE (su_plan sub)"
  have "0 \<le> ?d" using assms(3) price_strict_mono [of "su_plan sub" q] by simp
  then have range: "0 \<le> amount \<and> amount \<le> ?d"
    using js_round_scaled [of "fraction_left (days_remaining (su_currentPeriodEnd sub) now) CYCLE_DAYS" ?d]
      fraction_left_range assms(3) by (simp add: amount_def prorate_cases)
  have cid: "su_companyId sub = cid" using sub_getD [OF assms(2)] by simp
  from changePlan_upgrade [OF assms(1-3), of now paid] obtain s' where
    run: "changePlan now (Inr paid) cid q s =
        (Inr \<lparr>ch_effective = IMMEDIATE, ch_chargePaise = amount, ch_creditPaise = 0,
              ch_delta = planDelta (su_plan sub) q\<rparr>, s')" and
    up: "upgraded s sub q s'" and
    calls: "bi_calls s' = bi_calls s @ (if 0 < amount then [ChargeOnce cid amount (upgrade_note (su_plan sub) q)] else [])"
    unfolding amount_def by blast
  have "sub_get cid (bi_subs s') = Some (sub\<lparr>su_plan := q\<rparr>)" "planFor (ent_store_of (bi_ent s')) cid = Some q"
    "billing_inv s'"
    using up cid by (simp_all add: upgraded_def sub_get_upsert planFor_setPlan)
  with range run calls show ?thesis
    using changePlan_unpaid [OF assms(2,3), of now err] unfolding amount_def by blast
qed

definition toy_sub :: "plan \<Rightarrow> subscription" where
  "toy_sub p = \<lparr>su_companyId = ''company-1'', su_plan = p, su_status = SUB_ACTIVE, su_gatewaySubscriptionId = None,
     su_currentPeriodStart = 0, su_currentPeriodEnd = 2592000, su_failedAttempts = 0, su_graceEndsAt = Some 100\<rparr>"

definition toy_billing :: "plan \<Rightarrow> billing" where
  "toy_billing p = \<lparr>bi_ent = toy_ent p, bi_subs = [toy_sub p], bi_calls = []\<rparr>"

lemma toy_billing_facts:
  "billing_inv (toy_billing p)" "sub_get ''company-1'' (bi_subs (toy_billing p)) = Some (toy_sub p)"
  "su_plan (toy_sub p) = p" "su_currentPeriodEnd (toy_sub p) = 2592000"
  by (simp_all add: billing_inv_def one_row_per_company_def toy_billing_def toy_sub_def toy_ent_inv sub_get_def)

theorem upgrade_is_paid_for_witness:
  "\<exists>r s'. changePlan 0 (Inr ''tx-1'') ''company-1'' STANDARD (toy_billing STARTER) = (Inr r, s') \<and>
     planFor (ent_store_of (bi_ent s')) ''company-1'' = Some STANDARD"
proof -
  have "su_plan (toy_sub STARTER) < STANDARD" by (simp add: toy_billing_facts less_plan_def)
  from upgrade_is_paid_for [OF toy_billing_facts(1,2) this, of 0 "''tx-1''"] show ?thesis by blast
qed

text \<open>A downgrade announces that it takes effect at the end of the period, but it leaves no trace:
  subscription, entitlements and outside calls are exactly as before, so nothing will carry it
  out at the period's end.\<close>

theorem downgrade_schedules_nothing:
  fixes now :: int
  assumes "billing_inv s" and "sub_get cid (bi_subs s) = Some sub" and "q < su_plan sub"
  shows "\<exists>r. changePlan now charged cid q s = (Inr r, s) \<and> ch_effective r = PERIOD_END \<and> ch_chargePaise r = 0"
  using changePlan_downgrade [OF assms, of now charged] by auto

theorem downgrade_schedules_nothing_witness:
  "\<exists>r. changePlan 0 (Inr ''tx-1'') ''company-1'' STARTER (toy_billing ENTERPRISE) = (Inr r, toy_billing ENTERPRISE) \<and>
     ch_effective r = PERIOD_END"
proof -
  have "STARTER < su_plan (toy_sub ENTERPRISE)" by (simp add: toy_billing_facts less_plan_def)
  from downgrade_schedules_nothing [OF toy_billing_facts(1,2) this, of 0 "Inr ''tx-1''"] show ?thesis by blast
qed

text \<open>The dunning sweep moves to the starter plan exactly the listed companies whose grace period has
  ended and that are above it, in the subscription table and in the entitlements alike; every
  other subscription, plan and every override is untouched.\<close>

theorem dunning_hits_exactly_the_overdue:
  fixes now :: int
  assumes "billing_inv s" and "set (listPastDue (bi_subs s)) \<subseteq> set (bi_subs s)"
    and "distinct (listPastDue (bi_subs s))"
  defines "hit \<equiv> filter (past_grace now) (listPastDue (bi_subs s))"
  shows "\<exists>s'. runDunning listPastDue now s = (Inr (map su_companyId hit), s') \<and> billing_inv s' \<and>
    bi_subs s' = update_where (\<lambda>x. x \<in> set hit) to_starter (bi_subs s) \<and>
    (\<forall>c. planFor (ent_store_of (bi_ent s')) c =
       (if c \<in> su_companyId ` set hit then Some STARTER else planFor (ent_store_of (bi_ent s)) c)) \<and>
    (\<forall>c. overridesFor (ent_store_of (bi_ent s')) c = overridesFor (ent_store_of (bi_ent s)) c)"
  using runDunning_spec [where listPastDue = listPastDue and s = s and now = now, OF assms(1-3)] unfolding hit_def .

theorem dunning_hits_exactly_the_overdue_witness:
  "\<exists>s'. runDunning (\<lambda>t. t) 101 (toy_billing ENTERPRISE) = (Inr [''company-1''], s') \<and>
     planFor (ent_store_of (bi_ent s')) ''company-1'' = Some STARTER"
proof -
  have subs: "bi_subs (toy_billing ENTERPRISE) = [toy_sub ENTERPRISE]" by (simp add: toy_billing_def)
  have hit: "filter (past_grace 101) [toy_sub ENTERPRISE] = [toy_sub ENTERPRISE]"
    by (simp add: past_grace_def toy_sub_def)
  have c: "su_companyId (toy_sub ENTERPRISE) = ''company-1''" by (simp add: toy_sub_def)
  from dunning_hits_exactly_the_overdue [where s = "toy_billing ENTERPRISE" and listPastDue = "\<lambda>t. t" and now = 101,
      OF toy_billing_facts(1)]
  show ?thesis unfolding subs hit by (auto simp: c)
qed

end
