(* ===== verification/Trip_Log.thy ===== *)
theory Trip_Log imports Custody_Chain begin

text \<open>
  \<open>chain/contracts/TripLogAnchor.sol\<close>, the pair hashing of its proofs, and \<open>anchorTripBatch\<close> of
  \<open>chain/sdk/anchor.ts\<close>. The locale \<open>window_log\<close> is the contract that every list of batch
  windows keeps here: a step appends at most one window, later than all before it. It is
  interpreted on the contract below and on the batch table in the theory of the batcher.
\<close>

section \<open>Ordered windows\<close>

fun ordered_windows :: "('t :: linorder \<times> 't) list \<Rightarrow> bool" where
  "ordered_windows [] \<longleftrightarrow> True"
| "ordered_windows (w # ws) \<longleftrightarrow>
     fst w \<le> snd w \<and> (\<forall>v \<in> set ws. snd w < fst v) \<and> ordered_windows ws"

lemma ordered_windows_snoc:
  "ordered_windows (ws @ [w]) \<longleftrightarrow>
     ordered_windows ws \<and> fst w \<le> snd w \<and> (\<forall>v \<in> set ws. snd v < fst w)"
  by (induction ws) auto

lemma ordered_windows_bounds: "ordered_windows ws \<Longrightarrow> v \<in> set ws \<Longrightarrow> fst v \<le> snd v"
  by (induction ws) auto

lemma ordered_windows_last:
  assumes "ordered_windows ws" and "v \<in> set ws"
  shows "snd v \<le> snd (last ws)"
  using assms
proof (induction ws)
  case (Cons w ws)
  show ?case
  proof (cases "ws = []")
    case False
    with Cons.prems have "snd w < fst (last ws)" "fst (last ws) \<le> snd (last ws)"
      by (auto intro: ordered_windows_bounds)
    then have "snd w \<le> snd (last ws)" by simp
    with False Cons show ?thesis by auto
  qed (use Cons.prems in auto)
qed simp

text \<open>The windows that hold a given instant.\<close>

definition covering :: "'t :: linorder \<Rightarrow> ('t \<times> 't) list \<Rightarrow> ('t \<times> 't) list" where
  "covering x ws = filter (\<lambda>w. fst w \<le> x \<and> x \<le> snd w) ws"

lemma covering_at_most_one: "ordered_windows ws \<Longrightarrow> length (covering x ws) \<le> 1"
proof (induction ws)
  case (Cons w ws)
  have "covering x ws = []" if "x \<le> snd w"
    using that Cons.prems by (force simp: covering_def filter_empty_conv)
  with Cons show ?case by (auto simp: covering_def)
qed (simp add: covering_def)

locale window_log =
  fixes windows :: "'s \<Rightarrow> ('t :: linorder \<times> 't) list"
    and step :: "'s \<Rightarrow> 's \<Rightarrow> bool"
  assumes step_appends: "step s s' \<Longrightarrow> ordered_windows (windows s) \<Longrightarrow>
      windows s' = windows s \<or>
      (\<exists>w. windows s' = windows s @ [w] \<and> fst w \<le> snd w \<and>
           (\<forall>v \<in> set (windows s). snd v < fst w))"
begin

lemma step_ordered: "step s s' \<Longrightarrow> ordered_windows (windows s) \<Longrightarrow> ordered_windows (windows s')"
  using step_appends [of s s'] by (auto simp: ordered_windows_snoc)

lemma run_ordered:
  assumes "step\<^sup>*\<^sup>* s s'" and "ordered_windows (windows s)"
  shows "ordered_windows (windows s')"
  using assms(1)
proof (induction rule: rtranclp_induct)
  case (step t u)
  from step.hyps(2) step.IH show ?case by (rule step_ordered)
qed (fact assms(2))

text \<open>Windows are never rewritten: what was anchored stays where it was.\<close>

lemma run_prefix:
  assumes "step\<^sup>*\<^sup>* s s'" and "ordered_windows (windows s)"
  shows "\<exists>new. windows s' = windows s @ new"
  using assms
proof (induction rule: rtranclp_induct)
  case (step t u)
  then obtain new where new: "windows t = windows s @ new" by blast
  from step have "ordered_windows (windows t)" by (blast intro: run_ordered)
  with step.hyps(2) have "windows u = windows t \<or> (\<exists>w. windows u = windows t @ [w])"
    by (blast dest: step_appends)
  with new show ?case by auto
qed simp

lemma run_covering:
  "step\<^sup>*\<^sup>* s s' \<Longrightarrow> ordered_windows (windows s) \<Longrightarrow> length (covering x (windows s')) \<le> 1"
  by (rule covering_at_most_one, rule run_ordered)

end

section \<open>The contract\<close>

record trip_batch =
  tb_root :: string
  tb_fromTs :: "64 word"
  tb_toTs :: "64 word"
  tb_anchoredAt :: "64 word"

datatype trip_event =
    AnchorerSet string bool
  | BatchAnchored string nat string "64 word" "64 word"
  | TripOwnershipTransferred string string

record trip_log =
  tl_owner :: string
  tl_isAnchorer :: "string \<Rightarrow> bool"
  tl_batches :: "string \<Rightarrow> trip_batch list"
  tl_events :: "trip_event list"

datatype trip_error =
  TripNotOwner | NotAnchorer | ZeroRoot | BadTimeRange | TimeOverlap | IndexPanic

definition trip_deployed :: "string \<Rightarrow> trip_log" where
  "trip_deployed creator =
     \<lparr>tl_owner = creator, tl_isAnchorer = (\<lambda>_. False), tl_batches = (\<lambda>_. []),
      tl_events = [TripOwnershipTransferred zero_address creator]\<rparr>"

definition trip_emit :: "trip_event \<Rightarrow> trip_log \<Rightarrow> trip_log" where
  "trip_emit e c = c\<lparr>tl_events := tl_events c @ [e]\<rparr>"

definition tripTransferOwnership :: "msg \<Rightarrow> string \<Rightarrow> trip_log \<Rightarrow> trip_error + trip_log" where
  "tripTransferOwnership g newOwner c =
     (if msg_sender g \<noteq> tl_owner c then Inl TripNotOwner
      else Inr ((trip_emit (TripOwnershipTransferred (tl_owner c) newOwner) c)\<lparr>tl_owner := newOwner\<rparr>))"

definition setAnchorer :: "msg \<Rightarrow> string \<Rightarrow> bool \<Rightarrow> trip_log \<Rightarrow> trip_error + trip_log" where
  "setAnchorer g anchorer allowed c =
     (if msg_sender g \<noteq> tl_owner c then Inl TripNotOwner
      else Inr (trip_emit (AnchorerSet anchorer allowed)
                  (c\<lparr>tl_isAnchorer := (tl_isAnchorer c)(anchorer := allowed)\<rparr>)))"

definition anchorBatch ::
  "msg \<Rightarrow> string \<Rightarrow> string \<Rightarrow> 64 word \<Rightarrow> 64 word \<Rightarrow> trip_log \<Rightarrow> trip_error + trip_log"
where
  "anchorBatch g tripId rt fromTs toTs c =
     (let bs = tl_batches c tripId in
      if \<not> tl_isAnchorer c (msg_sender g) then Inl NotAnchorer
      else if rt = zero_bytes32 then Inl ZeroRoot
      else if toTs < fromTs then Inl BadTimeRange
      else if bs \<noteq> [] \<and> fromTs \<le> tb_toTs (last bs) then Inl TimeOverlap
      else Inr (trip_emit (BatchAnchored tripId (length bs) rt fromTs toTs)
        (c\<lparr>tl_batches := (tl_batches c)(tripId := bs @
           [\<lparr>tb_root = rt, tb_fromTs = fromTs, tb_toTs = toTs,
             tb_anchoredAt = of_nat (block_timestamp g)\<rparr>])\<rparr>)))"

definition batchCount :: "string \<Rightarrow> trip_log \<Rightarrow> nat" where
  "batchCount tripId c = length (tl_batches c tripId)"

text \<open>An index past the end reverts with the array panic.\<close>

definition getBatch :: "string \<Rightarrow> nat \<Rightarrow> trip_log \<Rightarrow> trip_error + trip_batch" where
  "getBatch tripId i c =
     (let bs = tl_batches c tripId in if i < length bs then Inr (bs ! i) else Inl IndexPanic)"

text \<open>\<open>computed <= p\<close> compares the 32 bytes as one number.\<close>

fun hex_num :: "nat \<Rightarrow> string \<Rightarrow> nat" where
  "hex_num acc [] = acc"
| "hex_num acc (c # r) = hex_num (16 * acc + hex_value c) r"

definition bytes32_le :: "string \<Rightarrow> string \<Rightarrow> bool" where
  "bytes32_le a b \<longleftrightarrow> hex_num 0 (drop 2 a) \<le> hex_num 0 (drop 2 b)"

definition hash_pair :: "('e) chain_env_scheme \<Rightarrow> string \<Rightarrow> string \<Rightarrow> string" where
  "hash_pair E a b = (if bytes32_le a b then keccak E (raw a @ raw b) else keccak E (raw b @ raw a))"

fun fold_proof :: "('e) chain_env_scheme \<Rightarrow> string \<Rightarrow> string list \<Rightarrow> string" where
  "fold_proof E computed [] = computed"
| "fold_proof E computed (p # ps) = fold_proof E (hash_pair E computed p) ps"

definition verifyPing ::
  "('e) chain_env_scheme \<Rightarrow> string \<Rightarrow> nat \<Rightarrow> string \<Rightarrow> string list \<Rightarrow> trip_log \<Rightarrow> trip_error + bool"
where
  "verifyPing E tripId i leaf proof c =
     (case getBatch tripId i c of
        Inl e \<Rightarrow> Inl e
      | Inr b \<Rightarrow> Inr (fold_proof E leaf proof = tb_root b))"

section \<open>Mined transactions\<close>

inductive trip_step :: "trip_log \<Rightarrow> trip_log \<Rightarrow> bool" where
  "tripTransferOwnership g a c = Inr c' \<Longrightarrow> trip_step c c'"
| "setAnchorer g a b c = Inr c' \<Longrightarrow> trip_step c c'"
| "anchorBatch g k r f t c = Inr c' \<Longrightarrow> trip_step c c'"

definition trip_windows :: "string \<Rightarrow> trip_log \<Rightarrow> (64 word \<times> 64 word) list" where
  "trip_windows k c = map (\<lambda>b. (tb_fromTs b, tb_toTs b)) (tl_batches c k)"

lemma trip_windows_deployed [simp]: "trip_windows k (trip_deployed a) = []"
  by (simp add: trip_windows_def trip_deployed_def)

lemma anchorBatch_cases:
  assumes "anchorBatch g k r f t c = Inr c'"
  shows "tl_isAnchorer c (msg_sender g)" "r \<noteq> zero_bytes32" "f \<le> t"
    "tl_batches c k = [] \<or> tb_toTs (last (tl_batches c k)) < f"
    "tl_batches c' = (tl_batches c)(k := tl_batches c k @
       [\<lparr>tb_root = r, tb_fromTs = f, tb_toTs = t, tb_anchoredAt = of_nat (block_timestamp g)\<rparr>])"
  using assms by (auto simp: anchorBatch_def trip_emit_def Let_def split: if_splits)

lemma trip_step_windows:
  assumes "trip_step c c'" and "ordered_windows (trip_windows k c)"
  shows "trip_windows k c' = trip_windows k c \<or>
    (\<exists>w. trip_windows k c' = trip_windows k c @ [w] \<and> fst w \<le> snd w \<and>
         (\<forall>v \<in> set (trip_windows k c). snd v < fst w))"
  using assms(1)
proof cases
  case (3 g j r f t)
  note a = anchorBatch_cases [OF 3]
  show ?thesis
  proof (cases "j = k")
    case True
    have "snd v < f" if v: "v \<in> set (trip_windows k c)" for v
    proof -
      from v have ne: "tl_batches c k \<noteq> []" by (auto simp: trip_windows_def)
      from ordered_windows_last [OF assms(2) v] have "snd v \<le> tb_toTs (last (tl_batches c k))"
        using ne by (simp add: trip_windows_def last_map)
      also have "\<dots> < f" using a(4) ne True by simp
      finally show ?thesis .
    qed
    then have "\<forall>b \<in> set (tl_batches c k). tb_toTs b < f"
      by (force simp: trip_windows_def)
    with a(3,5) True show ?thesis by (simp add: trip_windows_def)
  next
    case False
    with a(5) show ?thesis by (simp add: trip_windows_def)
  qed
qed (auto simp: trip_windows_def tripTransferOwnership_def setAnchorer_def trip_emit_def split: if_splits)

interpretation trip_contract: window_log "trip_windows k" trip_step for k
  by unfold_locales (rule trip_step_windows)

section \<open>anchorTripBatch\<close>

definition abi_uint64 :: "int \<Rightarrow> 64 word option" where
  "abi_uint64 n = (if 0 \<le> n \<and> n < 2 ^ 64 then Some (of_int n) else None)"

text \<open>How the client library words the refusal of a call that would revert is a parameter.\<close>

definition send_trip ::
  "(trip_error \<Rightarrow> string) \<Rightarrow> string \<Rightarrow> (trip_log \<Rightarrow> trip_error + trip_log) \<Rightarrow> (trip_log, string) exec"
where
  "send_trip wording txHash f = (\<lambda>c.
     case f c of Inl e \<Rightarrow> (Inl (Error (wording e)), c) | Inr c' \<Rightarrow> (Inr txHash, c'))"

definition anchorTripBatch ::
  "('e) chain_env_scheme \<Rightarrow> (trip_error \<Rightarrow> string) \<Rightarrow> nat \<Rightarrow> string \<Rightarrow> string \<Rightarrow> string \<Rightarrow> int \<Rightarrow> int \<Rightarrow>
   (trip_log, string) exec"
where
  "anchorTripBatch E wording t0 txHash tripId rt fromTs toTs =
     bindE (need (abi_bytes32 tripId) abi_error) (\<lambda>k.
     bindE (need (abi_bytes32 rt) abi_error) (\<lambda>r.
     bindE (need (abi_uint64 fromTs) abi_error) (\<lambda>f.
     bindE (need (abi_uint64 toTs) abi_error) (\<lambda>t.
     send_trip wording txHash (anchorBatch (platform_msg E t0) k r f t)))))"

lemma send_trip_success [exec_iff]:
  "send_trip wording tx f c = (Inr h, c') \<longleftrightarrow> f c = Inr c' \<and> h = tx"
  by (auto simp: send_trip_def split: sum.splits)

lemma abi_uint64_Some: "abi_uint64 n = Some w \<longleftrightarrow> 0 \<le> n \<and> n < 2 ^ 64 \<and> w = of_int n"
  by (auto simp: abi_uint64_def)

lemma uint_of_int_64: "0 \<le> n \<Longrightarrow> n < 2 ^ 64 \<Longrightarrow> uint (of_int n :: 64 word) = n"
  by (simp add: uint_word_of_int take_bit_int_eq_self)

end
