(* ===== verification/Merkle_Proofs.thy ===== *)
theory Merkle_Proofs imports Trip_Log begin

text \<open>
  \<open>chain/sdk/merkle.ts\<close>: the leaf of a ping, the tree and the local check of a proof. The
  tree comes from a library and is a parameter with its documented law \<open>merkle_ok\<close>: the proof of
  a leaf folds to the root. A reference tree (neighbours paired level by level, an odd node
  carried up) satisfies the law, so it can hold. The library compares buffers and the local check
  compares texts; on 32-byte hexadecimal texts both are the order of the contract.
\<close>

record merkle_env = chain_env +
  tree_root :: "string list \<Rightarrow> string"
  tree_proof :: "string list \<Rightarrow> string \<Rightarrow> string list"

section \<open>Order of 32-byte texts\<close>

text \<open>The language's \<open><=\<close> on strings.\<close>

fun text_le :: "string \<Rightarrow> string \<Rightarrow> bool" where
  "text_le [] _ \<longleftrightarrow> True"
| "text_le (a # x) [] \<longleftrightarrow> False"
| "text_le (a # x) (b # y) \<longleftrightarrow>
     (of_char a :: nat) < of_char b \<or> (a = b \<and> text_le x y)"

lemma hex_num_acc: "hex_num acc s = acc * 16 ^ length s + hex_num 0 s"
proof (induction s arbitrary: acc)
  case (Cons c s)
  from Cons [of "16 * acc + hex_value c"] Cons [of "hex_value c"]
  show ?case by (simp add: algebra_simps)
qed simp

lemma lower_hex_value:
  assumes "lower_hex c"
  shows "hex_value c = (let n = of_char c :: nat in if n < 58 then n - 48 else n - 87)"
    and "hex_value c < 16"
  using assms by (auto simp: lower_hex_def in_range_def hex_value_def unhex_def Let_def)

lemma hex_num_bound: "list_all lower_hex s \<Longrightarrow> hex_num 0 s < 16 ^ length s"
proof (induction s)
  case (Cons c s)
  then have "hex_value c < 16" "hex_num 0 s < 16 ^ length s" by (auto dest: lower_hex_value)
  then have "hex_value c * 16 ^ length s + hex_num 0 s < (hex_value c + 1) * 16 ^ length s"
    by simp
  also have "\<dots> \<le> 16 * 16 ^ length s"
    using \<open>hex_value c < 16\<close> by (intro mult_right_mono) auto
  finally show ?case by (simp add: hex_num_acc [of "hex_value c"])
qed simp

lemma hex_value_less:
  assumes "lower_hex a" and "lower_hex b"
  shows "hex_value a < hex_value b \<longleftrightarrow> (of_char a :: nat) < of_char b"
  using assms
  by (auto simp: lower_hex_value(1) Let_def lower_hex_def in_range_def)

lemma hex_value_inj: "lower_hex a \<Longrightarrow> lower_hex b \<Longrightarrow> hex_value a = hex_value b \<longleftrightarrow> a = b"
  by (metis hex_value_less linorder_less_linear nat_neq_iff of_char_eq_iff)

lemma text_le_hex_num:
  assumes "length s = length t" and "list_all lower_hex s" and "list_all lower_hex t"
  shows "text_le s t \<longleftrightarrow> hex_num 0 s \<le> hex_num 0 t"
  using assms
proof (induction s t rule: list_induct2)
  case (Cons a s b t)
  then have v: "hex_num 0 (a # s) = hex_value a * 16 ^ length t + hex_num 0 s"
    "hex_num 0 (b # t) = hex_value b * 16 ^ length t + hex_num 0 t"
    by (simp_all add: hex_num_acc [of "hex_value a"] hex_num_acc [of "hex_value b"])
  have bound: "hex_num 0 s < 16 ^ length t" "hex_num 0 t < 16 ^ length t"
    using Cons hex_num_bound [of s] hex_num_bound [of t] by auto
  have less: "hex_value x * 16 ^ length t + m < hex_value y * 16 ^ length t + n"
    if "hex_value x < hex_value y" "m < 16 ^ length t" for x y m n
  proof -
    have "hex_value x * 16 ^ length t + m < (hex_value x + 1) * 16 ^ length t"
      using that by simp
    also have "\<dots> \<le> hex_value y * 16 ^ length t"
      using that by (intro mult_right_mono) auto
    finally show ?thesis by simp
  qed
  have ab: "lower_hex a" "lower_hex b" using Cons.prems by auto
  consider "hex_value a < hex_value b" | "hex_value b < hex_value a" | "a = b"
    using hex_value_inj [OF ab] by fastforce
  then show ?case
  proof cases
    case 1
    from less [OF 1 bound(1), of "hex_num 0 t"] v have "hex_num 0 (a # s) \<le> hex_num 0 (b # t)"
      by simp
    moreover from 1 ab have "(of_char a :: nat) < of_char b" by (simp add: hex_value_less)
    ultimately show ?thesis by simp
  next
    case 2
    with less [OF 2 bound(2), of "hex_num 0 s"] v ab
    have "\<not> hex_num 0 (a # s) \<le> hex_num 0 (b # t)" by simp
    moreover from 2 ab have "\<not> (of_char a :: nat) < of_char b" "a \<noteq> b"
      by (auto simp: hex_value_less)
    ultimately show ?thesis by simp
  next
    case 3
    with v Cons show ?thesis by (simp del: hex_num.simps)
  qed
qed simp

lemma text_le_antisym: "text_le s t \<Longrightarrow> text_le t s \<Longrightarrow> s = t"
  by (induction s t rule: text_le.induct) (auto elim: text_le.elims)

lemma is_bytes32_parts:
  assumes "is_bytes32 s"
  shows "s = ''0x'' @ drop 2 s" "length (drop 2 s) = 64" "list_all lower_hex (drop 2 s)"
    "length s = 66"
proof -
  from assms obtain b where "s = ''0x'' @ b" "length b = 64" "list_all lower_hex b"
    by (auto simp: is_bytes32_def matches_iff)
  then show "s = ''0x'' @ drop 2 s" "length (drop 2 s) = 64" "list_all lower_hex (drop 2 s)"
    "length s = 66"
    by simp_all
qed

lemma bytes32_order:
  assumes "is_bytes32 a" and "is_bytes32 b"
  shows "bytes32_le a b \<longleftrightarrow> text_le a b"
proof -
  note a = is_bytes32_parts [OF assms(1)] and b = is_bytes32_parts [OF assms(2)]
  have "text_le a b \<longleftrightarrow> text_le (''0x'' @ drop 2 a) (''0x'' @ drop 2 b)"
    using a(1) b(1) by simp
  also have "\<dots> \<longleftrightarrow> text_le (drop 2 a) (drop 2 b)" by simp
  finally show ?thesis
    using text_le_hex_num [of "drop 2 a" "drop 2 b"] a(2,3) b(2,3)
    by (simp add: bytes32_le_def)
qed

lemma hash_pair_sym:
  assumes "is_bytes32 a" and "is_bytes32 b"
  shows "hash_pair E a b = hash_pair E b a"
  using bytes32_order [OF assms] bytes32_order [OF assms(2,1)] text_le_antisym [of a b]
  by (auto simp: hash_pair_def bytes32_le_def)

section \<open>Leaves\<close>

record sdk_ping =
  gp_tripId :: string
  gp_deviceId :: string
  gp_lat :: real
  gp_lng :: real
  gp_ts :: int
  gp_gatewaySig :: string

text \<open>\<open>Math.round(x * 1e6)\<close>\<close>

definition round_e6 :: "real \<Rightarrow> int" where
  "round_e6 x = \<lfloor>x * 1000000 + 1 / 2\<rfloor>"

text \<open>
  The members of \<open>encodePacked\<close>: a 32-byte text must have 66 characters, an integer must fit
  its width; eight bytes hold it in two's complement.
\<close>

definition packed32 :: "string \<Rightarrow> string option" where
  "packed32 s = (if length s = 66 then Some (raw s) else None)"

definition bytes8 :: "int \<Rightarrow> string" where
  "bytes8 x = map (\<lambda>i. char_of (nat (x mod 2 ^ 64) div 256 ^ (7 - i) mod 256)) [0 ..< 8]"

definition packed_int64 :: "int \<Rightarrow> string option" where
  "packed_int64 x = (if - (2 ^ 63) \<le> x \<and> x < 2 ^ 63 then Some (bytes8 x) else None)"

definition packed_uint64 :: "int \<Rightarrow> string option" where
  "packed_uint64 x = (if 0 \<le> x \<and> x < 2 ^ 64 then Some (bytes8 x) else None)"

fun concat_opt :: "string option list \<Rightarrow> string option" where
  "concat_opt [] = Some []"
| "concat_opt (None # _) = None"
| "concat_opt (Some s # r) = map_option (\<lambda>t. s @ t) (concat_opt r)"

definition encode_error :: exn where
  "encode_error = Error ''AbiEncodingError''"

definition hash_packed :: "('e) chain_env_scheme \<Rightarrow> string option list \<Rightarrow> exn + string" where
  "hash_packed E parts =
     (case concat_opt parts of None \<Rightarrow> Inl encode_error | Some b \<Rightarrow> Inr (keccak E b))"

definition sdk_leaf_parts :: "sdk_ping \<Rightarrow> string option list" where
  "sdk_leaf_parts p =
     [packed32 (gp_tripId p), packed32 (gp_deviceId p), packed_int64 (round_e6 (gp_lat p)),
      packed_int64 (round_e6 (gp_lng p)), packed_uint64 (gp_ts p), Some (raw (gp_gatewaySig p))]"

definition sdk_pingLeaf :: "('e) chain_env_scheme \<Rightarrow> sdk_ping \<Rightarrow> exn + string" where
  "sdk_pingLeaf E p = hash_packed E (sdk_leaf_parts p)"

section \<open>Trees and proofs\<close>

fun sum_list_map :: "('a \<Rightarrow> exn + 'b) \<Rightarrow> 'a list \<Rightarrow> exn + 'b list" where
  "sum_list_map f [] = Inr []"
| "sum_list_map f (x # xs) =
     (case f x of Inl e \<Rightarrow> Inl e
      | Inr y \<Rightarrow> (case sum_list_map f xs of Inl e \<Rightarrow> Inl e | Inr ys \<Rightarrow> Inr (y # ys)))"

text \<open>A tree is known by its leaves.\<close>

definition buildBatchTree :: "('e) merkle_env_scheme \<Rightarrow> sdk_ping list \<Rightarrow> exn + string list" where
  "buildBatchTree E = sum_list_map (sdk_pingLeaf E)"

definition batchRoot :: "('e) merkle_env_scheme \<Rightarrow> string list \<Rightarrow> string" where
  "batchRoot E leaves = tree_root E leaves"

definition proofForPing ::
  "('e) merkle_env_scheme \<Rightarrow> string list \<Rightarrow> sdk_ping \<Rightarrow> exn + string list"
where
  "proofForPing E leaves p =
     (case sdk_pingLeaf E p of Inl e \<Rightarrow> Inl e | Inr leaf \<Rightarrow> Inr (tree_proof E leaves leaf))"

fun verify_steps :: "('e) chain_env_scheme \<Rightarrow> string \<Rightarrow> string list \<Rightarrow> exn + string" where
  "verify_steps E computed [] = Inr computed"
| "verify_steps E computed (p # ps) =
     (case (if text_le (to_lower computed) (to_lower p)
            then hash_packed E [packed32 computed, packed32 p]
            else hash_packed E [packed32 p, packed32 computed]) of
        Inl e \<Rightarrow> Inl e
      | Inr c \<Rightarrow> verify_steps E c ps)"

definition verifyLocally ::
  "('e) chain_env_scheme \<Rightarrow> string \<Rightarrow> sdk_ping \<Rightarrow> string list \<Rightarrow> exn + bool"
where
  "verifyLocally E rt p proof =
     (case sdk_pingLeaf E p of
        Inl e \<Rightarrow> Inl e
      | Inr leaf \<Rightarrow>
          (case verify_steps E leaf proof of
             Inl e \<Rightarrow> Inl e
           | Inr c \<Rightarrow> Inr (to_lower c = to_lower rt)))"

definition keccak_ok :: "('e) chain_env_scheme \<Rightarrow> bool" where
  "keccak_ok E \<longleftrightarrow> (\<forall>x. is_bytes32 (keccak E x))"

lemma keccak_okD: "keccak_ok E \<Longrightarrow> is_bytes32 (keccak E x)"
  by (simp add: keccak_ok_def)

lemma hash_pair_ok: "keccak_ok E \<Longrightarrow> is_bytes32 (hash_pair E a b)"
  by (simp add: hash_pair_def keccak_okD)

lemma to_lower_hex_list: "list_all lower_hex s \<Longrightarrow> to_lower s = s"
proof (induction s)
  case (Cons c s)
  then have "to_lower_char c = c"
    by (auto simp: to_lower_char_def lower_hex_def in_range_def Let_def)
  with Cons show ?case by (simp add: to_lower_def)
qed (simp add: to_lower_def)

lemma to_lower_bytes32: "is_bytes32 s \<Longrightarrow> to_lower s = s"
proof -
  assume s: "is_bytes32 s"
  have "to_lower s = to_lower ''0x'' @ to_lower (drop 2 s)"
    by (subst is_bytes32_parts(1) [OF s]) (simp add: to_lower_def)
  also have "\<dots> = ''0x'' @ drop 2 s"
    using is_bytes32_parts(3) [OF s] by (simp add: to_lower_hex_list) (simp add: to_lower_def to_lower_char_def)
  finally show ?thesis using is_bytes32_parts(1) [OF s] by simp
qed

lemma verify_steps_fold:
  assumes "keccak_ok E" and "is_bytes32 c" and "list_all is_bytes32 proof"
  shows "verify_steps E c proof = Inr (fold_proof E c proof) \<and> is_bytes32 (fold_proof E c proof)"
  using assms(2,3)
proof (induction "proof" arbitrary: c)
  case (Cons p ps)
  then have p: "is_bytes32 p" by simp
  have "(if text_le (to_lower c) (to_lower p) then hash_packed E [packed32 c, packed32 p]
         else hash_packed E [packed32 p, packed32 c]) = Inr (hash_pair E c p)"
    using Cons.prems(1) p
    by (simp add: to_lower_bytes32 hash_packed_def packed32_def is_bytes32_parts(4) hash_pair_def
        bytes32_order)
  moreover have "is_bytes32 (hash_pair E c p)" by (rule hash_pair_ok [OF assms(1)])
  ultimately show ?case using Cons by simp
qed simp

text \<open>The law of the tree library.\<close>

definition merkle_ok :: "('e) merkle_env_scheme \<Rightarrow> bool" where
  "merkle_ok E \<longleftrightarrow>
     (\<forall>leaves leaf. list_all is_bytes32 leaves \<longrightarrow> leaf \<in> set leaves \<longrightarrow>
        list_all is_bytes32 (tree_proof E leaves leaf) \<and>
        fold_proof E leaf (tree_proof E leaves leaf) = tree_root E leaves)"

section \<open>A tree that keeps the law\<close>

fun pair_up :: "('e) chain_env_scheme \<Rightarrow> string list \<Rightarrow> string list" where
  "pair_up E (a # b # r) = hash_pair E a b # pair_up E r"
| "pair_up E xs = xs"

lemma length_pair_up: "length (pair_up E xs) = (length xs + 1) div 2"
  by (induction E xs rule: pair_up.induct) auto

function ref_root :: "('e) chain_env_scheme \<Rightarrow> string list \<Rightarrow> string" where
  "ref_root E [] = []"
| "ref_root E [x] = x"
| "ref_root E (a # b # r) = ref_root E (pair_up E (a # b # r))"
  by pat_completeness auto
termination by (relation "measure (\<lambda>(_, xs). length xs)") (auto simp: length_pair_up)

definition sibling :: "string list \<Rightarrow> nat \<Rightarrow> string list" where
  "sibling xs i =
     (if odd i then [xs ! (i - 1)] else if i + 1 < length xs then [xs ! (i + 1)] else [])"

function ref_path :: "('e) chain_env_scheme \<Rightarrow> string list \<Rightarrow> nat \<Rightarrow> string list" where
  "ref_path E [] i = []"
| "ref_path E [x] i = []"
| "ref_path E (a # b # r) i = sibling (a # b # r) i @ ref_path E (pair_up E (a # b # r)) (i div 2)"
  by pat_completeness auto
termination by (relation "measure (\<lambda>(_, xs, _). length xs)") (auto simp: length_pair_up)

fun index_of :: "string \<Rightarrow> string list \<Rightarrow> nat" where
  "index_of x [] = 0"
| "index_of x (y # ys) = (if x = y then 0 else Suc (index_of x ys))"

definition ref_proof :: "('e) chain_env_scheme \<Rightarrow> string list \<Rightarrow> string \<Rightarrow> string list" where
  "ref_proof E leaves leaf = ref_path E leaves (index_of leaf leaves)"

lemma leaf_index_nth: "x \<in> set xs \<Longrightarrow> index_of x xs < length xs \<and> xs ! index_of x xs = x"
  by (induction xs) auto

lemma pair_up_ok: "keccak_ok E \<Longrightarrow> list_all is_bytes32 xs \<Longrightarrow> list_all is_bytes32 (pair_up E xs)"
  by (induction E xs rule: pair_up.induct) (auto intro: hash_pair_ok)

lemma pair_up_nth:
  assumes "i < length xs" and "list_all is_bytes32 xs"
  shows "pair_up E xs ! (i div 2) = fold_proof E (xs ! i) (sibling xs i)"
  using assms
proof (induction E xs arbitrary: i rule: pair_up.induct)
  case (1 E a b r)
  then have ab: "is_bytes32 a" "is_bytes32 b" by auto
  consider "i = 0" | "i = 1" | j where "i = Suc (Suc j)" by (cases i rule: nat.exhaust) (metis One_nat_def not0_implies_Suc)+
  then show ?case
  proof cases
    case 3
    then have "sibling (a # b # r) i = sibling r j" by (auto simp: sibling_def nth_Cons')
    with 3 1 show ?thesis by simp
  qed (use hash_pair_sym [OF ab] in \<open>auto simp: sibling_def\<close>)
qed (auto simp: sibling_def)

lemma fold_proof_append: "fold_proof E c (ps @ qs) = fold_proof E (fold_proof E c ps) qs"
  by (induction ps arbitrary: c) auto

lemma sibling_ok: "list_all is_bytes32 xs \<Longrightarrow> i < length xs \<Longrightarrow> list_all is_bytes32 (sibling xs i)"
  by (auto simp: sibling_def list_all_length)

lemma ref_path_ok:
  assumes "keccak_ok E" and "list_all is_bytes32 xs" and "i < length xs"
  shows "list_all is_bytes32 (ref_path E xs i) \<and> fold_proof E (xs ! i) (ref_path E xs i) = ref_root E xs"
  using assms
proof (induction E xs i rule: ref_path.induct)
  case (3 E a b r i)
  let ?xs = "a # b # r"
  have half: "i div 2 < length (pair_up E ?xs)" using 3(4) by (simp add: length_pair_up)
  have ok: "list_all is_bytes32 (pair_up E ?xs)" using 3(2,3) by (rule pair_up_ok)
  have "list_all is_bytes32 (sibling ?xs i)" using 3(3,4) by (rule sibling_ok)
  moreover have "pair_up E ?xs ! (i div 2) = fold_proof E (?xs ! i) (sibling ?xs i)"
    using 3(4,3) by (rule pair_up_nth)
  ultimately show ?case using 3(1) [OF 3(2) ok half] by (simp add: fold_proof_append del: pair_up.simps)
qed simp_all

lemma merkle_ok_reference:
  assumes "keccak_ok E" and "\<And>ls. tree_root E ls = ref_root E ls"
    and "\<And>ls l. tree_proof E ls l = ref_proof E ls l"
  shows "merkle_ok E"
  unfolding merkle_ok_def
proof (intro allI impI)
  fix leaves leaf
  assume ls: "list_all is_bytes32 leaves" and "leaf \<in> set leaves"
  then have "index_of leaf leaves < length leaves" "leaves ! index_of leaf leaves = leaf"
    using leaf_index_nth by auto
  with ref_path_ok [of E leaves "index_of leaf leaves"] assms ls
  show "list_all is_bytes32 (tree_proof E leaves leaf) \<and>
        fold_proof E leaf (tree_proof E leaves leaf) = tree_root E leaves"
    by (simp add: ref_proof_def)
qed

end
