(* ===== verification/Gps_Devices.thy ===== *)
theory Gps_Devices imports Database Merkle_Proofs begin

text \<open>
  Tracker devices: the tables of \<open>gps/db/schema.sql\<close>, the stores of
  \<open>gps/db/device.store.pg.ts\<close>, the registry of \<open>gps/ingest/device-registry.ts\<close> and the Redis
  window of \<open>gps/db/rate-limiter.redis.ts\<close>. A statement that fails aborts the transaction it
  runs in: every later statement fails too, and the final COMMIT rolls back even when the
  program caught the error. That is why the transaction state carries a flag. Coordinates and
  speeds are exact reals; times are whole seconds.
\<close>

section \<open>Tables\<close>

datatype device_status = DV_ACTIVE | DV_SUSPENDED | DV_RETIRED

record device =
  dv_deviceId :: string
  dv_truckId :: string
  dv_companyId :: string
  dv_sharedSecret :: string
  dv_status :: device_status
  dv_lastSeenTs :: "int option"
  dv_tamperFlags :: nat
  dv_installedAt :: int

record binding_row =
  br_deviceId :: string
  br_companyId :: string
  br_tripId :: "string option"
  br_since :: int

record device_alert =
  da_deviceId :: string
  da_companyId :: string
  da_kind :: string
  da_severity :: string
  da_detail :: string

text \<open>A number as it arrives from outside: finite, or one of the three other values.\<close>

datatype js_num = Fin real | NaN | PosInf | NegInf

record raw_ping =
  rp_deviceId :: string
  rp_lat :: js_num
  rp_lng :: js_num
  rp_ts :: int
  rp_speedKph :: "real option"
  rp_headingDeg :: "real option"
  rp_deviceMac :: "string option"

record accepted_ping = raw_ping +
  ap_truckId :: string
  ap_tripId :: string
  ap_receivedAt :: int

record raw_row =
  rr_ping :: accepted_ping
  rr_companyId :: string

record signed_ping =
  sp_deviceId :: string
  sp_truckId :: string
  sp_tripId :: string
  sp_lat :: real
  sp_lng :: real
  sp_ts :: int
  sp_speedKph :: "real option"
  sp_receivedAt :: int
  sp_signerTier :: nat
  sp_signerAddress :: string
  sp_gatewaySig :: string

record signed_row =
  sr_ping :: signed_ping
  sr_companyId :: string

record batch_row =
  ba_id :: nat
  ba_tripId :: string
  ba_companyId :: string
  ba_root :: string
  ba_fromTs :: int
  ba_toTs :: int
  ba_pingCount :: nat
  ba_batchIndex :: "nat option"
  ba_chainTx :: "string option"

record ingest_event =
  ev_deviceId :: string
  ev_companyId :: "string option"
  ev_accepted :: bool
  ev_reason :: "string option"

record gps_tables =
  gt_companies :: "string list"
  gt_trucks :: "string list"
  gt_devices :: "device list"
  gt_bindings :: "binding_row list"
  gt_raw :: "raw_row list"
  gt_pings :: "signed_row list"
  gt_batches :: "batch_row list"
  gt_alerts :: "device_alert list"
  gt_events :: "ingest_event list"

record rate_window =
  rw_count :: nat
  rw_expiresAt :: "int option"

text \<open>The anchoring queue of \<open>gps/workers/anchor-worker.ts\<close> and what it reports.\<close>

record anchor_job =
  aj_id :: string
  aj_tripId :: string
  aj_root :: string
  aj_fromTs :: int
  aj_toTs :: int
  aj_pingCount :: nat

datatype anchor_metric =
    Anchored string nat int
  | Failed string nat string
  | ReorgDetected string string
  | Lag int

record gps =
  gw_tables :: gps_tables
  gw_aborted :: bool
  gw_redis :: "string \<Rightarrow> rate_window option"
  gw_audit :: "audit_entry list"
  gw_log :: trip_log
  gw_queue :: "anchor_job list"
  gw_metrics :: "anchor_metric list"

section \<open>Statements and transactions\<close>

definition tx_aborted :: exn where
  "tx_aborted = PgError ''current transaction is aborted''"

definition stmt :: "(gps_tables, 'a) exec \<Rightarrow> (gps, 'a) exec" where
  "stmt m = (\<lambda>w.
     if gw_aborted w then (Inl tx_aborted, w)
     else case m (gw_tables w) of
            (Inl e, _) \<Rightarrow> (Inl e, w\<lparr>gw_aborted := True\<rparr>)
          | (Inr x, t) \<Rightarrow> (Inr x, w\<lparr>gw_tables := t\<rparr>))"

text \<open>
  \<open>void client.query(...).catch(() => {})\<close>: the error is dropped, the aborted transaction stays.
\<close>

definition swallow :: "(gps, unit) exec \<Rightarrow> (gps, unit) exec" where
  "swallow m = (\<lambda>w. (Inr (), snd (m w)))"

text \<open>BEGIN, the work, then COMMIT, which an aborted transaction turns into ROLLBACK.\<close>

definition gps_tx :: "(gps, 'a) exec \<Rightarrow> (gps, 'a) exec" where
  "gps_tx fn = (\<lambda>w.
     case fn (w\<lparr>gw_aborted := False\<rparr>) of
       (Inl e, v) \<Rightarrow> (Inl e, v\<lparr>gw_tables := gw_tables w, gw_aborted := gw_aborted w\<rparr>)
     | (Inr x, v) \<Rightarrow>
         (Inr x, v\<lparr>gw_tables := (if gw_aborted v then gw_tables w else gw_tables v),
                   gw_aborted := gw_aborted w\<rparr>))"

definition gps_audit :: "audit_entry \<Rightarrow> (gps, unit) exec" where
  "gps_audit e = modifies (\<lambda>w. w\<lparr>gw_audit := gw_audit w @ [e]\<rparr>)"

text \<open>The text form of a \<open>uuid\<close> value: five groups of hexadecimal digits.\<close>

definition hex_group :: "nat \<Rightarrow> string \<Rightarrow> bool" where
  "hex_group n s \<longleftrightarrow> length s = n \<and> list_all any_hex s"

definition is_uuid :: "string \<Rightarrow> bool" where
  "is_uuid s \<longleftrightarrow>
     length s = 36 \<and> hex_group 8 (take 8 s) \<and> s ! 8 = CHR ''-'' \<and>
     hex_group 4 (take 4 (drop 9 s)) \<and> s ! 13 = CHR ''-'' \<and>
     hex_group 4 (take 4 (drop 14 s)) \<and> s ! 18 = CHR ''-'' \<and>
     hex_group 4 (take 4 (drop 19 s)) \<and> s ! 23 = CHR ''-'' \<and>
     hex_group 12 (drop 24 s)"

definition need_uuid :: "string \<Rightarrow> (gps_tables, unit) exec" where
  "need_uuid s = throw_if (\<not> is_uuid s) (PgError ''invalid input syntax for type uuid'')"

definition need_company :: "db_ctx \<Rightarrow> string \<Rightarrow> (gps_tables, unit) exec" where
  "need_company ctx c =
     bindE (need_uuid c) (\<lambda>_.
     bindE (throw_if (\<not> tenant_ok ctx (Some c)) rls_violation) (\<lambda>_.
     bindE (reads gt_companies) (\<lambda>cs.
     throw_if (c \<notin> set cs) (constraint ''company_id_fkey''))))"

lemma not_uuid_empty [simp]: "\<not> is_uuid []"
  by (simp add: is_uuid_def)

lemma need_uuid_success [exec_iff]: "need_uuid s t = (Inr x, t') \<longleftrightarrow> is_uuid s \<and> t' = t"
  by (auto simp: need_uuid_def throw_if_success)

lemma need_company_success [exec_iff]:
  "need_company ctx c t = (Inr x, t') \<longleftrightarrow>
     is_uuid c \<and> tenant_ok ctx (Some c) \<and> c \<in> set (gt_companies t) \<and> t' = t"
  by (auto simp: need_company_def exec_iff)

lemma stmt_success [exec_iff]:
  "stmt m w = (Inr x, w') \<longleftrightarrow>
     \<not> gw_aborted w \<and> (\<exists>t. m (gw_tables w) = (Inr x, t) \<and> w' = w\<lparr>gw_tables := t\<rparr>)"
  by (auto simp: stmt_def split: prod.splits sum.splits)

lemma stmt_failure: "stmt m w = (Inl e, w') \<Longrightarrow> gw_aborted w' \<and> gw_tables w' = gw_tables w"
  by (auto simp: stmt_def split: if_splits prod.splits sum.splits)

lemma stmt_aborted [simp]: "gw_aborted w \<Longrightarrow> stmt m w = (Inl tx_aborted, w)"
  by (simp add: stmt_def)

section \<open>PgDeviceStore\<close>

definition get_device :: "db_ctx \<Rightarrow> string \<Rightarrow> (gps, device option) exec" where
  "get_device ctx deviceId = stmt (reads (\<lambda>t.
     find (\<lambda>d. tenant_ok ctx (Some (dv_companyId d)) \<and> dv_deviceId d = deviceId) (gt_devices t)))"

definition byTruck :: "db_ctx \<Rightarrow> string \<Rightarrow> (gps, device option) exec" where
  "byTruck ctx truckId = stmt (bindE (need_uuid truckId) (\<lambda>_. reads (\<lambda>t.
     find (\<lambda>d. tenant_ok ctx (Some (dv_companyId d)) \<and> dv_truckId d = truckId) (gt_devices t))))"

text \<open>On a conflict the company and the installation time of the existing row stay.\<close>

definition upsert_device :: "db_ctx \<Rightarrow> string \<Rightarrow> device \<Rightarrow> (gps, unit) exec" where
  "upsert_device ctx companyId d = stmt (
     bindE (need_uuid (dv_truckId d)) (\<lambda>_.
     bindE (need_company ctx companyId) (\<lambda>_.
     bindE (reads gt_trucks) (\<lambda>trucks.
     bindE (throw_if (dv_truckId d \<notin> set trucks) (constraint ''truck_id_fkey'')) (\<lambda>_.
     bindE (reads (\<lambda>t. find (\<lambda>r. dv_deviceId r = dv_deviceId d) (gt_devices t))) (\<lambda>old.
     case old of
       None \<Rightarrow> modifies (\<lambda>t. t\<lparr>gt_devices := gt_devices t @ [d\<lparr>dv_companyId := companyId\<rparr>]\<rparr>)
     | Some r \<Rightarrow>
         bindE (throw_if (\<not> tenant_ok ctx (Some (dv_companyId r))) rls_violation) (\<lambda>_.
         modifies (\<lambda>t. t\<lparr>gt_devices := update_where (\<lambda>r. dv_deviceId r = dv_deviceId d)
           (\<lambda>r. r\<lparr>dv_truckId := dv_truckId d, dv_sharedSecret := dv_sharedSecret d,
                  dv_status := dv_status d, dv_lastSeenTs := dv_lastSeenTs d,
                  dv_tamperFlags := dv_tamperFlags d\<rparr>) (gt_devices t)\<rparr>))))))))"

definition update_device :: "db_ctx \<Rightarrow> string \<Rightarrow> (device \<Rightarrow> device) \<Rightarrow> gps_tables \<Rightarrow> gps_tables" where
  "update_device ctx deviceId f t = t\<lparr>gt_devices :=
     update_where (\<lambda>d. tenant_ok ctx (Some (dv_companyId d)) \<and> dv_deviceId d = deviceId) f
       (gt_devices t)\<rparr>"

definition setStatus :: "db_ctx \<Rightarrow> string \<Rightarrow> device_status \<Rightarrow> (gps, unit) exec" where
  "setStatus ctx deviceId st =
     stmt (modifies (update_device ctx deviceId (\<lambda>d. d\<lparr>dv_status := st\<rparr>)))"

definition touch_device :: "db_ctx \<Rightarrow> string \<Rightarrow> int \<Rightarrow> (gps, unit) exec" where
  "touch_device ctx deviceId ts =
     stmt (modifies (update_device ctx deviceId (\<lambda>d. d\<lparr>dv_lastSeenTs := Some ts\<rparr>)))"

definition incrementTamper :: "db_ctx \<Rightarrow> string \<Rightarrow> (gps, nat) exec" where
  "incrementTamper ctx deviceId = stmt (
     bindE (modifies (update_device ctx deviceId (\<lambda>d. d\<lparr>dv_tamperFlags := dv_tamperFlags d + 1\<rparr>))) (\<lambda>_.
     bindE (reads (\<lambda>t. find (\<lambda>d. tenant_ok ctx (Some (dv_companyId d)) \<and> dv_deviceId d = deviceId)
                         (gt_devices t))) (\<lambda>d.
     return (case d of None \<Rightarrow> 0 | Some d \<Rightarrow> dv_tamperFlags d))))"

record binding =
  bi_deviceId :: string
  bi_truckId :: string
  bi_tripId :: "string option"
  bi_since :: int

definition join_binding :: "db_ctx \<Rightarrow> string \<Rightarrow> gps_tables \<Rightarrow> binding option" where
  "join_binding ctx deviceId t =
     (case find (\<lambda>b. tenant_ok ctx (Some (br_companyId b)) \<and> br_deviceId b = deviceId) (gt_bindings t) of
        None \<Rightarrow> None
      | Some b \<Rightarrow>
          (case find (\<lambda>d. tenant_ok ctx (Some (dv_companyId d)) \<and> dv_deviceId d = deviceId) (gt_devices t) of
             None \<Rightarrow> None
           | Some d \<Rightarrow> Some \<lparr>bi_deviceId = br_deviceId b, bi_truckId = dv_truckId d,
                              bi_tripId = br_tripId b, bi_since = br_since b\<rparr>))"

definition activeBinding :: "db_ctx \<Rightarrow> string \<Rightarrow> (gps, binding option) exec" where
  "activeBinding ctx deviceId = stmt (reads (join_binding ctx deviceId))"

definition bindTrip :: "db_ctx \<Rightarrow> string \<Rightarrow> int \<Rightarrow> string \<Rightarrow> string \<Rightarrow> (gps, unit) exec" where
  "bindTrip ctx companyId nowS deviceId tripId = stmt (
     bindE (need_company ctx companyId) (\<lambda>_.
     bindE (throw_if (\<not> is_bytes32 tripId) (constraint ''gps_device_bindings_trip_id_check'')) (\<lambda>_.
     bindE (reads gt_devices) (\<lambda>ds.
     bindE (throw_if (deviceId \<notin> dv_deviceId ` set ds) (constraint ''device_id_fkey'')) (\<lambda>_.
     bindE (reads (\<lambda>t. find (\<lambda>b. br_deviceId b = deviceId) (gt_bindings t))) (\<lambda>old.
     case old of
       None \<Rightarrow> modifies (\<lambda>t. t\<lparr>gt_bindings := gt_bindings t @
                [\<lparr>br_deviceId = deviceId, br_companyId = companyId, br_tripId = Some tripId,
                  br_since = nowS\<rparr>]\<rparr>)
     | Some b \<Rightarrow>
         bindE (throw_if (\<not> tenant_ok ctx (Some (br_companyId b))) rls_violation) (\<lambda>_.
         modifies (\<lambda>t. t\<lparr>gt_bindings := update_where (\<lambda>b. br_deviceId b = deviceId)
           (\<lambda>b. b\<lparr>br_tripId := Some tripId, br_since := nowS\<rparr>) (gt_bindings t)\<rparr>))))))))"

definition unbindTrip :: "db_ctx \<Rightarrow> string \<Rightarrow> (gps, unit) exec" where
  "unbindTrip ctx deviceId = stmt (modifies (\<lambda>t. t\<lparr>gt_bindings :=
     update_where (\<lambda>b. tenant_ok ctx (Some (br_companyId b)) \<and> br_deviceId b = deviceId)
       (\<lambda>b. b\<lparr>br_tripId := None\<rparr>) (gt_bindings t)\<rparr>))"

definition is_stale :: "int \<Rightarrow> device \<Rightarrow> bool" where
  "is_stale olderThan d \<longleftrightarrow> dv_status d = DV_ACTIVE \<and>
     (case dv_lastSeenTs d of None \<Rightarrow> True | Some s \<Rightarrow> s < olderThan)"

definition listStale :: "db_ctx \<Rightarrow> int \<Rightarrow> (gps, device list) exec" where
  "listStale ctx olderThan = stmt (reads (\<lambda>t.
     filter (\<lambda>d. tenant_ok ctx (Some (dv_companyId d)) \<and> is_stale olderThan d) (gt_devices t)))"

text \<open>\<open>PgDeviceAlertSink.raise\<close>, with the company the sink was built with.\<close>

definition raise_device_alert ::
  "db_ctx \<Rightarrow> string \<Rightarrow> string \<Rightarrow> string \<Rightarrow> json \<Rightarrow> string \<Rightarrow> (gps, unit) exec"
where
  "raise_device_alert ctx companyId kind deviceId detail severity = stmt (
     bindE (need_company ctx companyId) (\<lambda>_.
     bindE (reads gt_devices) (\<lambda>ds.
     bindE (throw_if (deviceId \<notin> dv_deviceId ` set ds) (constraint ''device_id_fkey'')) (\<lambda>_.
     modifies (\<lambda>t. t\<lparr>gt_alerts := gt_alerts t @
       [\<lparr>da_deviceId = deviceId, da_companyId = companyId, da_kind = kind,
         da_severity = severity, da_detail = stringify detail\<rparr>]\<rparr>)))))"

section \<open>DeviceRegistry\<close>

definition TAMPER_SUSPEND_THRESHOLD :: nat where
  "TAMPER_SUSPEND_THRESHOLD = 20"

definition SILENCE_ALERT_S :: int where
  "SILENCE_ALERT_S = 30 * 60"

record registration =
  rg_deviceId :: string
  rg_truckId :: string
  rg_sharedSecret :: string

definition register_device ::
  "db_ctx \<Rightarrow> string \<Rightarrow> int \<Rightarrow> registration \<Rightarrow> (gps, device) exec"
where
  "register_device ctx companyId now inp =
     bindE (get_device ctx (rg_deviceId inp)) (\<lambda>existing.
     bindE (throw_if (case existing of Some d \<Rightarrow> dv_status d \<noteq> DV_RETIRED | None \<Rightarrow> False)
              (Error ''DEVICE_ALREADY_REGISTERED'')) (\<lambda>_.
     let d = \<lparr>dv_deviceId = rg_deviceId inp, dv_truckId = rg_truckId inp,
              dv_companyId = companyId, dv_sharedSecret = rg_sharedSecret inp,
              dv_status = DV_ACTIVE, dv_lastSeenTs = None, dv_tamperFlags = 0,
              dv_installedAt = now\<rparr>
     in bindE (upsert_device ctx companyId d) (\<lambda>_. return d)))"

definition startTrip :: "db_ctx \<Rightarrow> string \<Rightarrow> int \<Rightarrow> string \<Rightarrow> string \<Rightarrow> (gps, unit) exec" where
  "startTrip ctx companyId nowS truckId tripId =
     bindE (byTruck ctx truckId) (\<lambda>d.
     bindE (need d (Error (''NO_DEVICE_FOR_TRUCK:'' @ truckId))) (\<lambda>d.
     bindE (throw_if (dv_status d \<noteq> DV_ACTIVE) (Error ''DEVICE_NOT_ACTIVE'')) (\<lambda>_.
     bindTrip ctx companyId nowS (dv_deviceId d) tripId)))"

definition endTrip :: "db_ctx \<Rightarrow> string \<Rightarrow> (gps, unit) exec" where
  "endTrip ctx truckId =
     bindE (byTruck ctx truckId) (\<lambda>d.
     case d of None \<Rightarrow> return () | Some d \<Rightarrow> unbindTrip ctx (dv_deviceId d))"

definition flagTamper :: "db_ctx \<Rightarrow> string \<Rightarrow> string \<Rightarrow> string \<Rightarrow> (gps, unit) exec" where
  "flagTamper ctx companyId deviceId reason =
     bindE (incrementTamper ctx deviceId) (\<lambda>count.
     bindE (raise_device_alert ctx companyId ''DEVICE_TAMPER_FLAG'' deviceId
              (JObj [(''reason'', JStr reason), (''count'', JNum (show_nat count))])
              (if TAMPER_SUSPEND_THRESHOLD \<le> count then ''CRITICAL'' else ''WARN'')) (\<lambda>_.
     if TAMPER_SUSPEND_THRESHOLD \<le> count then setStatus ctx deviceId DV_SUSPENDED
     else return ()))"

text \<open>\<open>d.lastSeenTs ? now - d.lastSeenTs : null\<close>: a time of zero counts as never seen.\<close>

definition silent_for :: "int \<Rightarrow> device \<Rightarrow> json" where
  "silent_for nowS d =
     (case dv_lastSeenTs d of
        None \<Rightarrow> JNull
      | Some s \<Rightarrow> if s = 0 then JNull else JNum (show_int (nowS - s)))"

definition silent_alert :: "db_ctx \<Rightarrow> string \<Rightarrow> int \<Rightarrow> device \<Rightarrow> (gps, unit) exec" where
  "silent_alert ctx companyId nowS d =
     bindE (activeBinding ctx (dv_deviceId d)) (\<lambda>b.
     case (case b of None \<Rightarrow> None | Some b \<Rightarrow> bi_tripId b) of
       None \<Rightarrow> return ()
     | Some trip \<Rightarrow>
         if trip = [] then return ()
         else raise_device_alert ctx companyId ''DEVICE_SILENT_MID_TRIP'' (dv_deviceId d)
           (JObj [(''truckId'', JStr (dv_truckId d)), (''tripId'', JStr trip),
                  (''lastSeenTs'', (case dv_lastSeenTs d of None \<Rightarrow> JNull | Some s \<Rightarrow> JNum (show_int s))),
                  (''silentForS'', silent_for nowS d)]) ''CRITICAL'')"

definition sweepSilent :: "db_ctx \<Rightarrow> string \<Rightarrow> int \<Rightarrow> (gps, device list) exec" where
  "sweepSilent ctx companyId nowS =
     bindE (listStale ctx (nowS - SILENCE_ALERT_S)) (\<lambda>stale.
     bindE (for_each (silent_alert ctx companyId nowS) stale) (\<lambda>_. return stale))"

definition rotateSecret :: "db_ctx \<Rightarrow> string \<Rightarrow> string \<Rightarrow> string \<Rightarrow> (gps, unit) exec" where
  "rotateSecret ctx companyId deviceId newSecret =
     bindE (get_device ctx deviceId) (\<lambda>d.
     bindE (need d (Error ''DEVICE_NOT_FOUND'')) (\<lambda>d.
     upsert_device ctx companyId (d\<lparr>dv_sharedSecret := newSecret, dv_tamperFlags := 0\<rparr>)))"

section \<open>The rate window\<close>

definition WINDOW_S :: int where "WINDOW_S = 10"
definition MAX_PER_WINDOW :: nat where "MAX_PER_WINDOW = 20"

text \<open>INCR creates a missing or expired key; EXPIRE follows the first INCR of a window.\<close>

definition live_window :: "int \<Rightarrow> rate_window option \<Rightarrow> rate_window" where
  "live_window nowS w =
     (case w of
        None \<Rightarrow> \<lparr>rw_count = 0, rw_expiresAt = None\<rparr>
      | Some w \<Rightarrow> (case rw_expiresAt w of
                    None \<Rightarrow> w
                  | Some e \<Rightarrow> if e \<le> nowS then \<lparr>rw_count = 0, rw_expiresAt = None\<rparr> else w))"

definition allow_ping :: "int \<Rightarrow> string \<Rightarrow> (gps, bool) exec" where
  "allow_ping nowS deviceId = (\<lambda>w.
     let key = ''gps:ratelimit:'' @ deviceId;
         old = live_window nowS (gw_redis w key);
         count = rw_count old + 1;
         new = \<lparr>rw_count = count,
                rw_expiresAt = (if count = 1 then Some (nowS + WINDOW_S) else rw_expiresAt old)\<rparr>
     in (Inr (count \<le> MAX_PER_WINDOW), w\<lparr>gw_redis := (gw_redis w)(key \<mapsto> new)\<rparr>))"

end
