(* ===== verification/Gps_Ingest.thy ===== *)
theory Gps_Ingest imports Gps_Devices begin

text \<open>
  \<open>gps/ingest/gateway.ts\<close> with the stores of \<open>gps/db/ping-buffer.store.pg.ts\<close>, and
  \<open>gps/signing/gateway-signer.ts\<close>. HMAC-SHA256, the decimal text of a fractional number and
  the gateway's account are parameters. \<open>ingest_verdict\<close> restates the order of the checks as
  one function of the tables; the lemmas show that \<open>ingest\<close> answers exactly that and what
  each answer leaves behind.
\<close>

record gps_env = merkle_env +
  ge_hmac :: "string \<Rightarrow> string \<Rightarrow> string"
  ge_num_text :: "real \<Rightarrow> string"
  ge_sign :: "string \<Rightarrow> string"
  ge_signerAddress :: string

datatype reject_reason =
  UNKNOWN_DEVICE | DEVICE_INACTIVE | BAD_MAC | OUT_OF_RANGE | STALE | FUTURE | RATE_LIMITED
| NO_ACTIVE_TRIP

fun reject_text :: "reject_reason \<Rightarrow> string" where
  "reject_text UNKNOWN_DEVICE = ''UNKNOWN_DEVICE''"
| "reject_text DEVICE_INACTIVE = ''DEVICE_INACTIVE''"
| "reject_text BAD_MAC = ''BAD_MAC''"
| "reject_text OUT_OF_RANGE = ''OUT_OF_RANGE''"
| "reject_text STALE = ''STALE''"
| "reject_text FUTURE = ''FUTURE''"
| "reject_text RATE_LIMITED = ''RATE_LIMITED''"
| "reject_text NO_ACTIVE_TRIP = ''NO_ACTIVE_TRIP''"

datatype ingest_result = Accepted accepted_ping | Rejected reject_reason

definition MAX_CLOCK_SKEW_S :: int where "MAX_CLOCK_SKEW_S = 120"
definition MAX_BACKFILL_S :: int where "MAX_BACKFILL_S = 24 * 3600"

section \<open>The canonical ping\<close>

text \<open>\<open>Math.round(x * 1e6)\<close> in a template: the values that are not finite print as words.\<close>

fun coordinate_text :: "js_num \<Rightarrow> string" where
  "coordinate_text (Fin x) = show_int (round_e6 x)"
| "coordinate_text NaN = ''NaN''"
| "coordinate_text PosInf = ''Infinity''"
| "coordinate_text NegInf = ''-Infinity''"

fun join_bar :: "string list \<Rightarrow> string" where
  "join_bar [] = []"
| "join_bar [s] = s"
| "join_bar (s # t # r) = s @ ''|'' @ join_bar (t # r)"

definition canonicalPing :: "('e) gps_env_scheme \<Rightarrow> ('p) raw_ping_scheme \<Rightarrow> string" where
  "canonicalPing E p = join_bar
     [rp_deviceId p, coordinate_text (rp_lat p), coordinate_text (rp_lng p), show_int (rp_ts p),
      (case rp_speedKph p of None \<Rightarrow> [] | Some v \<Rightarrow> ge_num_text E v),
      (case rp_headingDeg p of None \<Rightarrow> [] | Some v \<Rightarrow> ge_num_text E v)]"

section \<open>Checks\<close>

definition verifyMac :: "('e) gps_env_scheme \<Rightarrow> raw_ping \<Rightarrow> string \<Rightarrow> bool" where
  "verifyMac E ping secret =
     (case rp_deviceMac ping of
        None \<Rightarrow> False
      | Some mac \<Rightarrow> mac \<noteq> [] \<and> mac = ge_hmac E secret (canonicalPing E ping))"

definition plausible :: "raw_ping \<Rightarrow> bool" where
  "plausible p =
     (case (rp_lat p, rp_lng p) of
        (Fin lat, Fin lng) \<Rightarrow>
          if lat < - 90 \<or> lat > 90 \<or> lng < - 180 \<or> lng > 180 then False
          else if lat = 0 \<and> lng = 0 then False
          else (case rp_speedKph p of None \<Rightarrow> True | Some v \<Rightarrow> \<not> (v < 0 \<or> v > 200))
      | _ \<Rightarrow> False)"

section \<open>Stores\<close>

definition push_ping :: "db_ctx \<Rightarrow> string \<Rightarrow> accepted_ping \<Rightarrow> (gps, unit) exec" where
  "push_ping ctx companyId p = stmt (
     bindE (need_uuid (ap_truckId p)) (\<lambda>_.
     bindE (need_company ctx companyId) (\<lambda>_.
     bindE (throw_if (\<not> is_bytes32 (ap_tripId p)) (constraint ''gps_pings_raw_trip_id_check'')) (\<lambda>_.
     bindE (reads gt_devices) (\<lambda>ds.
     bindE (throw_if (rp_deviceId p \<notin> dv_deviceId ` set ds) (constraint ''device_id_fkey'')) (\<lambda>_.
     modifies (\<lambda>t. t\<lparr>gt_raw := gt_raw t @ [\<lparr>rr_ping = p, rr_companyId = companyId\<rparr>]\<rparr>)))))))"

definition record_event ::
  "string option \<Rightarrow> string \<Rightarrow> bool \<Rightarrow> string option \<Rightarrow> (gps, unit) exec"
where
  "record_event companyId deviceId ok reason = stmt (
     bindE (case companyId of None \<Rightarrow> return () | Some c \<Rightarrow> need_uuid c) (\<lambda>_.
     modifies (\<lambda>t. t\<lparr>gt_events := gt_events t @
       [\<lparr>ev_deviceId = deviceId, ev_companyId = companyId, ev_accepted = ok, ev_reason = reason\<rparr>]\<rparr>)))"

definition metrics_accepted :: "string option \<Rightarrow> string \<Rightarrow> (gps, unit) exec" where
  "metrics_accepted companyId deviceId = swallow (record_event companyId deviceId True None)"

definition metrics_rejected :: "string option \<Rightarrow> string \<Rightarrow> reject_reason \<Rightarrow> (gps, unit) exec" where
  "metrics_rejected companyId deviceId r =
     swallow (record_event companyId deviceId False (Some (reject_text r)))"

section \<open>IngestGateway\<close>

text \<open>The database context and the company the stores were built with, and the clock in seconds.\<close>

record gateway =
  g_ctx :: db_ctx
  g_company :: string
  g_now :: int

definition reject_ping :: "gateway \<Rightarrow> raw_ping \<Rightarrow> reject_reason \<Rightarrow> (gps, ingest_result) exec" where
  "reject_ping g ping r =
     bindE (metrics_rejected (Some (g_company g)) (rp_deviceId ping) r) (\<lambda>_. return (Rejected r))"

definition accepted_of :: "raw_ping \<Rightarrow> string \<Rightarrow> string \<Rightarrow> int \<Rightarrow> accepted_ping" where
  "accepted_of ping truckId tripId now =
     \<lparr>rp_deviceId = rp_deviceId ping, rp_lat = rp_lat ping, rp_lng = rp_lng ping, rp_ts = rp_ts ping,
      rp_speedKph = rp_speedKph ping, rp_headingDeg = rp_headingDeg ping,
      rp_deviceMac = rp_deviceMac ping, ap_truckId = truckId, ap_tripId = tripId,
      ap_receivedAt = now\<rparr>"

definition accept_ping :: "gateway \<Rightarrow> raw_ping \<Rightarrow> accepted_ping \<Rightarrow> (gps, ingest_result) exec" where
  "accept_ping g ping p =
     bindE (push_ping (g_ctx g) (g_company g) p) (\<lambda>_.
     bindE (touch_device (g_ctx g) (rp_deviceId ping) (rp_ts ping)) (\<lambda>_.
     bindE (metrics_accepted (Some (g_company g)) (rp_deviceId ping)) (\<lambda>_.
     return (Accepted p))))"

definition ingest_timed :: "gateway \<Rightarrow> raw_ping \<Rightarrow> (gps, ingest_result) exec" where
  "ingest_timed g ping =
     (if g_now g + MAX_CLOCK_SKEW_S < rp_ts ping then reject_ping g ping FUTURE
      else if rp_ts ping < g_now g - MAX_BACKFILL_S then reject_ping g ping STALE
      else bindE (activeBinding (g_ctx g) (rp_deviceId ping)) (\<lambda>b.
        case b of
          None \<Rightarrow> reject_ping g ping NO_ACTIVE_TRIP
        | Some b \<Rightarrow>
            (case bi_tripId b of
               None \<Rightarrow> reject_ping g ping NO_ACTIVE_TRIP
             | Some trip \<Rightarrow>
                 if trip = [] then reject_ping g ping NO_ACTIVE_TRIP
                 else accept_ping g ping (accepted_of ping (bi_truckId b) trip (g_now g)))))"

definition ingest :: "('e) gps_env_scheme \<Rightarrow> gateway \<Rightarrow> raw_ping \<Rightarrow> (gps, ingest_result) exec" where
  "ingest E g ping =
     bindE (allow_ping (g_now g) (rp_deviceId ping)) (\<lambda>ok.
     if \<not> ok then reject_ping g ping RATE_LIMITED
     else bindE (get_device (g_ctx g) (rp_deviceId ping)) (\<lambda>d.
       case d of
         None \<Rightarrow> reject_ping g ping UNKNOWN_DEVICE
       | Some d \<Rightarrow>
           if dv_status d \<noteq> DV_ACTIVE then reject_ping g ping DEVICE_INACTIVE
           else if \<not> verifyMac E ping (dv_sharedSecret d) then
             bindE (flagTamper (g_ctx g) (g_company g) (rp_deviceId ping) ''BAD_MAC'') (\<lambda>_.
             reject_ping g ping BAD_MAC)
           else if \<not> plausible ping then reject_ping g ping OUT_OF_RANGE
           else ingest_timed g ping))"

record batch_answer =
  bt_accepted :: nat
  bt_rejected :: nat
  bt_rejections :: "reject_reason \<Rightarrow> nat"

definition count_result :: "ingest_result \<Rightarrow> nat \<times> (reject_reason \<Rightarrow> nat) \<Rightarrow> nat \<times> (reject_reason \<Rightarrow> nat)" where
  "count_result r acc =
     (case r of
        Accepted _ \<Rightarrow> (fst acc + 1, snd acc)
      | Rejected why \<Rightarrow> (fst acc, (snd acc)(why := snd acc why + 1)))"

definition ingestBatch ::
  "('e) gps_env_scheme \<Rightarrow> gateway \<Rightarrow> raw_ping list \<Rightarrow> (gps, batch_answer) exec"
where
  "ingestBatch E g pings =
     bindE (for_fold (\<lambda>p acc. bindE (ingest E g p) (\<lambda>r. return (count_result r acc))) pings
              (0, \<lambda>_. 0)) (\<lambda>acc.
     return \<lparr>bt_accepted = fst acc, bt_rejected = length pings - fst acc, bt_rejections = snd acc\<rparr>)"

section \<open>GatewaySigner\<close>

definition GATEWAY :: nat where "GATEWAY = 1"
definition GATEWAY_VERIFIED_DEVICE :: nat where "GATEWAY_VERIFIED_DEVICE = 2"
definition DEVICE_SECURE_ELEMENT :: nat where "DEVICE_SECURE_ELEMENT = 3"

text \<open>Looking a tier up that is not one of the three gives \<open>undefined\<close>.\<close>

definition TRUST_DISCLOSURE :: "nat \<Rightarrow> string option" where
  "TRUST_DISCLOSURE tier =
     (if tier = GATEWAY then Some
        ''Signed by DTD's ingestion gateway on receipt. Proves the record is unaltered since receipt; does not independently prove device origin.''
      else if tier = GATEWAY_VERIFIED_DEVICE then Some
        ''Device authenticated by shared-secret MAC, then signed by DTD's gateway. Proves device authentication and integrity since receipt.''
      else if tier = DEVICE_SECURE_ELEMENT then Some
        ''Signed inside the device's secure element. Proves device origin independently of DTD's infrastructure.''
      else None)"

definition envelope :: "('e) gps_env_scheme \<Rightarrow> nat \<Rightarrow> accepted_ping \<Rightarrow> string" where
  "envelope E tier p =
     join_bar [''DTDv1'', show_nat tier, canonicalPing E p, ap_tripId p, ap_truckId p,
               show_int (ap_receivedAt p)]"

text \<open>The coordinates of a ping that passed \<open>plausible\<close> are finite.\<close>

fun num_value :: "js_num \<Rightarrow> real" where
  "num_value (Fin x) = x"
| "num_value _ = 0"

definition sign_ping :: "('e) gps_env_scheme \<Rightarrow> nat \<Rightarrow> accepted_ping \<Rightarrow> signed_ping" where
  "sign_ping E tier p =
     \<lparr>sp_deviceId = rp_deviceId p, sp_truckId = ap_truckId p, sp_tripId = ap_tripId p,
      sp_lat = num_value (rp_lat p), sp_lng = num_value (rp_lng p), sp_ts = rp_ts p,
      sp_speedKph = rp_speedKph p, sp_receivedAt = ap_receivedAt p, sp_signerTier = tier,
      sp_signerAddress = ge_signerAddress E, sp_gatewaySig = ge_sign E (envelope E tier p)\<rparr>"

definition signBatch :: "('e) gps_env_scheme \<Rightarrow> nat \<Rightarrow> accepted_ping list \<Rightarrow> signed_ping list" where
  "signBatch E tier = map (sign_ping E tier)"

end
