(* ===== verification/Gps_Batching.thy ===== *)
theory Gps_Batching imports Gps_Ingest begin

text \<open>
  \<open>gps/batching/merkle-batcher.ts\<close> over \<open>gps/db/batch.store.pg.ts\<close>, and the anchoring of
  \<open>gps/workers/anchor-worker.ts\<close>. \<open>batch_step\<close> lets pings arrive, windows close and anchors come
  back in any order; the table keeps the contract \<open>window_log\<close>, so no instant is in two
  batches, and a ping that arrives behind the last window is never batched.
\<close>

section \<open>Leaves and trees\<close>

definition packed_uint8 :: "nat \<Rightarrow> string option" where
  "packed_uint8 n = (if n < 256 then Some [char_of n] else None)"

definition leaf_parts :: "('e) gps_env_scheme \<Rightarrow> signed_ping \<Rightarrow> string option list" where
  "leaf_parts E p =
     [packed32 (sp_tripId p), packed32 (keccak E (sp_deviceId p)),
      packed_int64 (round_e6 (sp_lat p)), packed_int64 (round_e6 (sp_lng p)),
      packed_uint64 (sp_ts p), packed_uint8 (sp_signerTier p), Some (raw (sp_gatewaySig p))]"

definition pingLeaf :: "('e) gps_env_scheme \<Rightarrow> signed_ping \<Rightarrow> exn + string" where
  "pingLeaf E p = hash_packed E (leaf_parts E p)"

definition buildTree :: "('e) gps_env_scheme \<Rightarrow> signed_ping list \<Rightarrow> exn + string list" where
  "buildTree E = sum_list_map (pingLeaf E)"

definition rootOf :: "('e) gps_env_scheme \<Rightarrow> string list \<Rightarrow> string" where
  "rootOf E leaves = tree_root E leaves"

definition proofFor :: "('e) gps_env_scheme \<Rightarrow> string list \<Rightarrow> signed_ping \<Rightarrow> exn + string list" where
  "proofFor E leaves p =
     (case pingLeaf E p of Inl e \<Rightarrow> Inl e | Inr leaf \<Rightarrow> Inr (tree_proof E leaves leaf))"

section \<open>PgBatchStore\<close>

record trip_window =
  b_tripId :: string
  b_root :: string
  b_fromTs :: int
  b_toTs :: int
  b_pingCount :: nat
  b_pings :: "signed_ping list"

definition trip_pings :: "db_ctx \<Rightarrow> string \<Rightarrow> (int \<Rightarrow> bool) \<Rightarrow> gps_tables \<Rightarrow> signed_ping list" where
  "trip_pings ctx tripId inside t = sort_key sp_ts (map sr_ping
     (filter (\<lambda>r. tenant_ok ctx (Some (sr_companyId r)) \<and> sp_tripId (sr_ping r) = tripId \<and>
                  inside (sp_ts (sr_ping r))) (gt_pings t)))"

definition drain :: "db_ctx \<Rightarrow> string \<Rightarrow> int \<Rightarrow> (gps, signed_ping list) exec" where
  "drain ctx tripId upToTs = stmt (reads (trip_pings ctx tripId (\<lambda>ts. ts \<le> upToTs)))"

definition saveBatch :: "db_ctx \<Rightarrow> string \<Rightarrow> trip_window \<Rightarrow> nat option \<Rightarrow> (gps, unit) exec" where
  "saveBatch ctx companyId b batchIndex = stmt (
     bindE (need_company ctx companyId) (\<lambda>_.
     bindE (throw_if (\<not> is_bytes32 (b_tripId b)) (constraint ''gps_batches_trip_id_check'')) (\<lambda>_.
     bindE (throw_if (\<not> is_bytes32 (b_root b)) (constraint ''gps_batches_root_check'')) (\<lambda>_.
     bindE (throw_if (b_toTs b < b_fromTs b) (constraint ''gps_batches_to_ts_check'')) (\<lambda>_.
     bindE (throw_if (b_pingCount b = 0) (constraint ''gps_batches_ping_count_check'')) (\<lambda>_.
     modifies (\<lambda>t. t\<lparr>gt_batches := gt_batches t @
       [\<lparr>ba_id = length (gt_batches t) + 1, ba_tripId = b_tripId b, ba_companyId = companyId,
         ba_root = b_root b, ba_fromTs = b_fromTs b, ba_toTs = b_toTs b,
         ba_pingCount = b_pingCount b, ba_batchIndex = batchIndex, ba_chainTx = None\<rparr>]\<rparr>)))))))"

definition visible_batches :: "db_ctx \<Rightarrow> string \<Rightarrow> gps_tables \<Rightarrow> batch_row list" where
  "visible_batches ctx tripId t =
     filter (\<lambda>b. tenant_ok ctx (Some (ba_companyId b)) \<and> ba_tripId b = tripId) (gt_batches t)"

text \<open>The oldest row of the trip that has no index yet.\<close>

definition oldest_open :: "db_ctx \<Rightarrow> string \<Rightarrow> gps_tables \<Rightarrow> batch_row option" where
  "oldest_open ctx tripId t = find (\<lambda>b. ba_batchIndex b = None) (visible_batches ctx tripId t)"

definition markAnchored :: "db_ctx \<Rightarrow> string \<Rightarrow> nat \<Rightarrow> string \<Rightarrow> (gps, unit) exec" where
  "markAnchored ctx tripId batchIndex txHash = stmt (modifies (\<lambda>t.
     case oldest_open ctx tripId t of
       None \<Rightarrow> t
     | Some r \<Rightarrow> t\<lparr>gt_batches := update_where (\<lambda>b. ba_id b = ba_id r)
         (\<lambda>b. b\<lparr>ba_batchIndex := Some batchIndex, ba_chainTx := Some txHash\<rparr>) (gt_batches t)\<rparr>))"

definition lastBatchToTs :: "db_ctx \<Rightarrow> string \<Rightarrow> (gps, int option) exec" where
  "lastBatchToTs ctx tripId = stmt (reads (\<lambda>t.
     let bs = visible_batches ctx tripId t
     in if bs = [] then None else Some (Max (ba_toTs ` set bs))))"

definition tripsWithPending :: "db_ctx \<Rightarrow> (gps, string list) exec" where
  "tripsWithPending ctx = stmt (reads (\<lambda>t.
     uniq (map (\<lambda>r. sp_tripId (sr_ping r))
       (filter (\<lambda>r. tenant_ok ctx (Some (sr_companyId r))) (gt_pings t)))))"

definition batchCountForTrip :: "db_ctx \<Rightarrow> string \<Rightarrow> (gps, nat) exec" where
  "batchCountForTrip ctx tripId = stmt (reads (\<lambda>t.
     length (filter (\<lambda>b. ba_batchIndex b \<noteq> None) (visible_batches ctx tripId t))))"

section \<open>MerkleBatcher\<close>

definition BATCH_WINDOW_S :: int where "BATCH_WINDOW_S = 3600"

definition usable_pings :: "int option \<Rightarrow> signed_ping list \<Rightarrow> signed_ping list" where
  "usable_pings last_to pings =
     (let sorted = sort_key sp_ts pings
      in case last_to of None \<Rightarrow> sorted | Some t \<Rightarrow> filter (\<lambda>p. t < sp_ts p) sorted)"

definition batch_of :: "('e) gps_env_scheme \<Rightarrow> string list \<Rightarrow> signed_ping list \<Rightarrow> trip_window" where
  "batch_of E leaves pings =
     \<lparr>b_tripId = sp_tripId (hd pings), b_root = rootOf E leaves, b_fromTs = sp_ts (hd pings),
      b_toTs = sp_ts (last pings), b_pingCount = length pings, b_pings = pings\<rparr>"

definition closeWindow ::
  "('e) gps_env_scheme \<Rightarrow> db_ctx \<Rightarrow> string \<Rightarrow> string \<Rightarrow> int \<Rightarrow> (gps, trip_window option) exec"
where
  "closeWindow E ctx companyId tripId upToTs =
     bindE (drain ctx tripId upToTs) (\<lambda>pings.
     if pings = [] then return None
     else bindE (lastBatchToTs ctx tripId) (\<lambda>last_to.
       let usable = usable_pings last_to pings in
       if usable = [] then return None
       else bindE (lift_sum (buildTree E usable)) (\<lambda>leaves.
         bindE (saveBatch ctx companyId (batch_of E leaves usable) None) (\<lambda>_.
         return (Some (batch_of E leaves usable))))))"

definition closeAllDue ::
  "('e) gps_env_scheme \<Rightarrow> db_ctx \<Rightarrow> string \<Rightarrow> int \<Rightarrow> (gps, trip_window list) exec"
where
  "closeAllDue E ctx companyId nowS =
     bindE (tripsWithPending ctx) (\<lambda>trips.
     for_fold (\<lambda>tripId out.
       bindE (closeWindow E ctx companyId tripId nowS) (\<lambda>b.
       return (case b of None \<Rightarrow> out | Some b \<Rightarrow> out @ [b]))) trips [])"

record gap =
  ga_fromTs :: int
  ga_toTs :: int
  ga_gapS :: int

fun gaps_between :: "int \<Rightarrow> signed_ping list \<Rightarrow> gap list" where
  "gaps_between threshold (p # q # r) =
     (let d = sp_ts q - sp_ts p; rest = gaps_between threshold (q # r)
      in if threshold < d then \<lparr>ga_fromTs = sp_ts p, ga_toTs = sp_ts q, ga_gapS = d\<rparr> # rest
         else rest)"
| "gaps_between threshold _ = []"

definition detectGaps :: "signed_ping list \<Rightarrow> int \<Rightarrow> int \<Rightarrow> gap list" where
  "detectGaps pings expectedIntervalS toleranceFactor =
     gaps_between (expectedIntervalS * toleranceFactor) (sort_key sp_ts pings)"

section \<open>The anchoring worker\<close>

definition add_metric :: "anchor_metric \<Rightarrow> (gps, unit) exec" where
  "add_metric m = modifies (\<lambda>w. w\<lparr>gw_metrics := gw_metrics w @ [m]\<rparr>)"

text \<open>The queue ignores a job whose id it already holds.\<close>

definition queue_add :: "anchor_job \<Rightarrow> (gps, unit) exec" where
  "queue_add j = modifies (\<lambda>w.
     if aj_id j \<in> aj_id ` set (gw_queue w) then w else w\<lparr>gw_queue := gw_queue w @ [j]\<rparr>)"

definition job_of :: "trip_window \<Rightarrow> anchor_job" where
  "job_of b =
     \<lparr>aj_id = b_tripId b @ '':'' @ show_int (b_fromTs b) @ '':'' @ show_int (b_toTs b),
      aj_tripId = b_tripId b, aj_root = b_root b, aj_fromTs = b_fromTs b, aj_toTs = b_toTs b,
      aj_pingCount = b_pingCount b\<rparr>"

definition scheduler_run :: "('e) gps_env_scheme \<Rightarrow> db_ctx \<Rightarrow> string \<Rightarrow> int \<Rightarrow> (gps, nat) exec" where
  "scheduler_run E ctx companyId nowS =
     bindE (closeAllDue E ctx companyId nowS) (\<lambda>batches.
     bindE (for_each (\<lambda>b. bindE (queue_add (job_of b)) (\<lambda>_. add_metric (Lag (nowS - b_toTs b)))) batches) (\<lambda>_.
     return (length batches)))"

definition on_log :: "(trip_log, 'a) exec \<Rightarrow> (gps, 'a) exec" where
  "on_log m = (\<lambda>w. case m (gw_log w) of (r, c) \<Rightarrow> (r, w\<lparr>gw_log := c\<rparr>))"

fun exn_message :: "exn \<Rightarrow> string" where
  "exn_message (Error m) = m"
| "exn_message (BadRequest m) = m"
| "exn_message (NotFound m) = m"
| "exn_message (Unauthorized m) = m"
| "exn_message (Conflict m) = m"
| "exn_message (PgError m) = m"

fun str_includes :: "string \<Rightarrow> string \<Rightarrow> bool" where
  "str_includes p [] \<longleftrightarrow> p = []"
| "str_includes p (c # r) \<longleftrightarrow> starts_with p (c # r) \<or> str_includes p r"

text \<open>\<open>receipt.logs[0].topics[2]\<close> of the transaction just mined.\<close>

definition logged_index :: "trip_log \<Rightarrow> nat" where
  "logged_index c =
     (case last (tl_events c) of BatchAnchored _ i _ _ _ \<Rightarrow> i | _ \<Rightarrow> 0)"

datatype job_result = JobAnchored string nat | JobSkipped

text \<open>
  What a run of the job meets outside: the hash of its transaction, the block time, how the
  client words a refusal, whether waiting for the receipt failed, and how long it all took.
\<close>

record chain_run =
  cr_txHash :: string
  cr_blockTime :: nat
  cr_wording :: "trip_error \<Rightarrow> string"
  cr_receiptLost :: "string option"
  cr_latencyMs :: int

definition anchor_try ::
  "('e) gps_env_scheme \<Rightarrow> chain_run \<Rightarrow> db_ctx \<Rightarrow> anchor_job \<Rightarrow> (gps, job_result) exec"
where
  "anchor_try E R ctx j =
     bindE (on_log (anchorTripBatch E (cr_wording R) (cr_blockTime R) (cr_txHash R)
              (aj_tripId j) (aj_root j) (aj_fromTs j) (aj_toTs j))) (\<lambda>txHash.
     bindE (throw_if (cr_receiptLost R \<noteq> None)
              (Error (coalesce (cr_receiptLost R) []))) (\<lambda>_.
     bindE (reads (\<lambda>w. logged_index (gw_log w))) (\<lambda>i.
     bindE (gps_tx (markAnchored ctx (aj_tripId j) i txHash)) (\<lambda>_.
     bindE (add_metric (Anchored (aj_tripId j) (aj_pingCount j) (cr_latencyMs R))) (\<lambda>_.
     return (JobAnchored txHash i))))))"

definition work_job ::
  "('e) gps_env_scheme \<Rightarrow> chain_run \<Rightarrow> db_ctx \<Rightarrow> nat \<Rightarrow> anchor_job \<Rightarrow> (gps, job_result) exec"
where
  "work_job E R ctx attemptsMade j = (\<lambda>w.
     case anchor_try E R ctx j w of
       (Inr x, v) \<Rightarrow> (Inr x, v)
     | (Inl e, v) \<Rightarrow>
         (case add_metric (Failed (aj_tripId j) (attemptsMade + 1) (exn_message e)) v of
            (_, u) \<Rightarrow>
              if str_includes ''TimeOverlap'' (exn_message e) then (Inr JobSkipped, u)
              else (Inl e, u)))"

record anchor_ref =
  an_tripId :: string
  an_batchIndex :: nat
  an_txHash :: string

text \<open>
  \<open>ReorgAuditor.audit\<close>: no store of the repository implements \<open>recentAnchors\<close>, so its answer is
  an argument, and so is the status of each receipt (\<open>None\<close> when it is not found).
\<close>

definition is_missing :: "(string \<Rightarrow> bool option) \<Rightarrow> anchor_ref \<Rightarrow> bool" where
  "is_missing receipt a \<longleftrightarrow> receipt (an_txHash a) \<noteq> Some True"

definition audit_anchors ::
  "(string \<Rightarrow> bool option) \<Rightarrow> anchor_ref list \<Rightarrow> (gps, nat \<times> string list) exec"
where
  "audit_anchors receipt anchors =
     bindE (for_fold (\<lambda>a missing.
         if is_missing receipt a
         then bindE (add_metric (ReorgDetected (an_tripId a) (an_txHash a))) (\<lambda>_.
                return (missing @ [an_txHash a]))
         else return missing) anchors []) (\<lambda>missing.
     return (length anchors, missing))"

section \<open>Windows of a trip\<close>

lemma trip_pings_facts:
  "sorted (map sp_ts (trip_pings ctx k ins t))"
  "p \<in> set (trip_pings ctx k ins t) \<longleftrightarrow>
     (\<exists>r \<in> set (gt_pings t). sr_ping r = p \<and> tenant_ok ctx (Some (sr_companyId r)) \<and>
        sp_tripId p = k \<and> ins (sp_ts p))"
  by (auto simp: trip_pings_def)

lemma sort_key_sorted: "sorted (map f xs) \<Longrightarrow> sort_key f xs = xs"
  by (simp add: sorted_sort_id sort_key_id_if_sorted)

lemma usable_facts:
  assumes "ps = usable_pings last_to qs"
  shows "sorted (map sp_ts ps)"
    "p \<in> set ps \<longleftrightarrow> p \<in> set qs \<and> (case last_to of None \<Rightarrow> True | Some x \<Rightarrow> x < sp_ts p)"
  using assms sorted_filter [of sp_ts "sort_key sp_ts qs"]
  by (auto simp: usable_pings_def Let_def split: option.splits)

lemma sorted_bounds:
  assumes "ps \<noteq> []" and "sorted (map sp_ts ps)" and "p \<in> set ps"
  shows "sp_ts (hd ps) \<le> sp_ts p" "sp_ts p \<le> sp_ts (last ps)"
proof -
  from assms show "sp_ts (hd ps) \<le> sp_ts p" by (cases ps) auto
  from assms(1) have "map sp_ts ps = map sp_ts (butlast ps) @ [sp_ts (last ps)]"
    by (metis append_butlast_last_id list.simps(8,9) map_append)
  with assms(2) have "\<forall>x \<in> set (map sp_ts (butlast ps)). x \<le> sp_ts (last ps)"
    by (simp add: sorted_append)
  moreover from assms(1,3) have "p \<in> set (butlast ps) \<or> p = last ps"
    by (metis append_butlast_last_id Un_iff set_append empty_iff empty_set set_ConsD)
  ultimately show "sp_ts p \<le> sp_ts (last ps)" by auto
qed

definition last_to_of :: "db_ctx \<Rightarrow> string \<Rightarrow> gps_tables \<Rightarrow> int option" where
  "last_to_of ctx k t =
     (let bs = visible_batches ctx k t in if bs = [] then None else Some (Max (ba_toTs ` set bs)))"

definition row_of :: "gps_tables \<Rightarrow> string \<Rightarrow> trip_window \<Rightarrow> batch_row" where
  "row_of t c b =
     \<lparr>ba_id = length (gt_batches t) + 1, ba_tripId = b_tripId b, ba_companyId = c, ba_root = b_root b,
      ba_fromTs = b_fromTs b, ba_toTs = b_toTs b, ba_pingCount = b_pingCount b,
      ba_batchIndex = None, ba_chainTx = None\<rparr>"

definition usable_now :: "db_ctx \<Rightarrow> string \<Rightarrow> int \<Rightarrow> gps_tables \<Rightarrow> signed_ping list" where
  "usable_now ctx k upTo t = usable_pings (last_to_of ctx k t) (trip_pings ctx k (\<lambda>ts. ts \<le> upTo) t)"

lemma saveBatch_success [exec_iff]:
  "saveBatch ctx c b None w = (Inr x, v) \<longleftrightarrow>
     \<not> gw_aborted w \<and> is_uuid c \<and> tenant_ok ctx (Some c) \<and> c \<in> set (gt_companies (gw_tables w)) \<and>
     is_bytes32 (b_tripId b) \<and> is_bytes32 (b_root b) \<and> b_fromTs b \<le> b_toTs b \<and> b_pingCount b \<noteq> 0 \<and>
     v = w\<lparr>gw_tables := (gw_tables w)\<lparr>gt_batches := gt_batches (gw_tables w) @ [row_of (gw_tables w) c b]\<rparr>\<rparr>"
  by (auto simp: saveBatch_def exec_iff row_of_def)

lemma saveBatch_failure: "saveBatch ctx c b i w = (Inl e, v) \<Longrightarrow> gw_tables v = gw_tables w"
  using stmt_failure unfolding saveBatch_def by blast

lemma closeWindow_cases:
  assumes "closeWindow E ctx c k upTo w = (r, v)"
  obtains (same) "gw_tables v = gw_tables w" "\<And>b. r \<noteq> Inr (Some b)"
  | (closed) leaves where "usable_now ctx k upTo (gw_tables w) \<noteq> []"
      "buildTree E (usable_now ctx k upTo (gw_tables w)) = Inr leaves"
      "r = Inr (Some (batch_of E leaves (usable_now ctx k upTo (gw_tables w))))"
      "saveBatch ctx c (batch_of E leaves (usable_now ctx k upTo (gw_tables w))) None w = (Inr (), v)"
proof (cases "gw_aborted w")
  case True
  with assms have "v = w" "r = Inl tx_aborted" by (auto simp: closeWindow_def drain_def bindE_def)
  then show ?thesis using same by simp
next
  case False
  let ?u = "usable_now ctx k upTo (gw_tables w)"
  let ?ps = "trip_pings ctx k (\<lambda>ts. ts \<le> upTo) (gw_tables w)"
  have 1: "drain ctx k upTo w = (Inr ?ps, w)" and 2: "lastBatchToTs ctx k w = (Inr (last_to_of ctx k (gw_tables w)), w)"
    using False by (auto simp: drain_def lastBatchToTs_def last_to_of_def exec_iff Let_def)
  have nil: "?u = []" if "?ps = []"
    using that by (simp add: usable_now_def usable_pings_def split: option.split)
  let ?k = "\<lambda>ps. bindE (lift_sum (buildTree E ps)) (\<lambda>leaves.
        bindE (saveBatch ctx c (batch_of E leaves ps) None) (\<lambda>_. return (Some (batch_of E leaves ps))))"
  have "closeWindow E ctx c k upTo w = (if ?ps = [] then (Inr None, w)
      else bindE (lastBatchToTs ctx k) (\<lambda>last_to. let usable = usable_pings last_to ?ps in
        if usable = [] then return None else ?k usable) w)"
    by (simp add: closeWindow_def bindE_Inr_apply [where m = "drain ctx k upTo", OF 1])
  also have "\<dots> = (if ?u = [] then (Inr None, w) else ?k ?u w)"
    using nil by (simp add: bindE_Inr_apply [where m = "lastBatchToTs ctx k", OF 2] usable_now_def Let_def)
  finally have run: "(r, v) = (if ?u = [] then (Inr None, w) else ?k ?u w)" using assms by simp
  show ?thesis
  proof (cases "?u = []")
    case True
    with run show ?thesis using same by simp
  next
    case u: False
    show ?thesis
    proof (cases "buildTree E ?u")
      case (Inl e)
      with run u show ?thesis using same by (simp add: bindE_def lift_sum_def)
    next
      case leaves: (Inr leaves)
      show ?thesis
      proof (cases "saveBatch ctx c (batch_of E leaves ?u) None w")
        case (Pair x y)
        show ?thesis
        proof (cases x)
          case (Inl e)
          with Pair leaves run u saveBatch_failure show ?thesis
            using same by (simp add: bindE_def lift_sum_def)
        next
          case (Inr z)
          with Pair leaves run u show ?thesis
            using closed [OF u leaves] by (simp add: bindE_def lift_sum_def)
        qed
      qed
    qed
  qed
qed

definition batch_windows :: "db_ctx \<Rightarrow> string \<Rightarrow> gps \<Rightarrow> (int \<times> int) list" where
  "batch_windows ctx k w = map (\<lambda>b. (ba_fromTs b, ba_toTs b)) (visible_batches ctx k (gw_tables w))"

inductive batch_step :: "('e) gps_env_scheme \<Rightarrow> db_ctx \<Rightarrow> gps \<Rightarrow> gps \<Rightarrow> bool" for E ctx where
  close: "closeWindow E ctx c k upTo w = (r, v) \<Longrightarrow> batch_step E ctx w v"
| mark: "markAnchored ctx k i h w = (r, v) \<Longrightarrow> batch_step E ctx w v"
| arrive: "batch_step E ctx w (w\<lparr>gw_tables := (gw_tables w)\<lparr>gt_pings := gt_pings (gw_tables w) @ rows\<rparr>\<rparr>)"

lemma usable_now_facts:
  "sorted (map sp_ts (usable_now ctx k upTo t))"
  "p \<in> set (usable_now ctx k upTo t) \<Longrightarrow> sp_tripId p = k \<and> sp_ts p \<le> upTo"
  "p \<in> set (usable_now ctx k upTo t) \<Longrightarrow> b \<in> set (visible_batches ctx k t) \<Longrightarrow> ba_toTs b < sp_ts p"
proof -
  note u = usable_facts [OF usable_now_def [of ctx k upTo t]]
  show "sorted (map sp_ts (usable_now ctx k upTo t))" by (rule u(1))
  show "sp_tripId p = k \<and> sp_ts p \<le> upTo" if "p \<in> set (usable_now ctx k upTo t)"
    using that by (simp add: u(2) trip_pings_facts(2)) blast
  show "ba_toTs b < sp_ts p" if p: "p \<in> set (usable_now ctx k upTo t)" and b: "b \<in> set (visible_batches ctx k t)"
  proof -
    from b have "visible_batches ctx k t \<noteq> []" by auto
    then have "last_to_of ctx k t = Some (Max (ba_toTs ` set (visible_batches ctx k t)))"
      by (simp add: last_to_of_def)
    with p have "Max (ba_toTs ` set (visible_batches ctx k t)) < sp_ts p" by (simp add: u(2))
    moreover from b have "ba_toTs b \<le> Max (ba_toTs ` set (visible_batches ctx k t))" by simp
    ultimately show ?thesis by simp
  qed
qed

lemma closed_window:
  assumes "usable_now ctx k upTo t \<noteq> []"
  shows "b_tripId (batch_of E leaves (usable_now ctx k upTo t)) = k"
    "b_fromTs (batch_of E leaves (usable_now ctx k upTo t)) \<le> b_toTs (batch_of E leaves (usable_now ctx k upTo t))"
    "b \<in> set (visible_batches ctx k t) \<Longrightarrow>
       ba_toTs b < b_fromTs (batch_of E leaves (usable_now ctx k upTo t))"
proof -
  let ?u = "usable_now ctx k upTo t"
  have hd: "hd ?u \<in> set ?u" using assms by simp
  note f = usable_now_facts [where ctx = ctx and k = k and upTo = upTo and t = t]
  show "b_tripId (batch_of E leaves ?u) = k" using f(2) [OF hd] by (simp add: batch_of_def)
  show "b_fromTs (batch_of E leaves ?u) \<le> b_toTs (batch_of E leaves ?u)"
    using sorted_bounds(2) [OF assms f(1) hd] by (simp add: batch_of_def)
  show "ba_toTs b < b_fromTs (batch_of E leaves ?u)" if "b \<in> set (visible_batches ctx k t)"
    using f(3) [OF hd that] by (simp add: batch_of_def)
qed

lemma visible_append:
  "visible_batches ctx k (t\<lparr>gt_batches := gt_batches t @ [r]\<rparr>) =
     visible_batches ctx k t @ (if tenant_ok ctx (Some (ba_companyId r)) \<and> ba_tripId r = k then [r] else [])"
  by (simp add: visible_batches_def)

lemma windows_update:
  "map (\<lambda>b. (ba_fromTs b, ba_toTs b)) (filter q (update_where p
     (\<lambda>b. b\<lparr>ba_batchIndex := i, ba_chainTx := h\<rparr>) rs)) = map (\<lambda>b. (ba_fromTs b, ba_toTs b)) (filter q rs)"
  if "\<And>b. q (b\<lparr>ba_batchIndex := i, ba_chainTx := h\<rparr>) = q b"
  using that by (induction rs) auto

lemma mark_windows:
  assumes "markAnchored ctx k i h w = (r, v)"
  shows "batch_windows ctx j v = batch_windows ctx j w"
proof (cases r)
  case (Inl e)
  with assms stmt_failure have "gw_tables v = gw_tables w" unfolding markAnchored_def by blast
  then show ?thesis by (simp add: batch_windows_def)
next
  case (Inr x)
  with assms show ?thesis
    by (auto simp: markAnchored_def exec_iff batch_windows_def visible_batches_def
        intro!: windows_update split: option.splits)
qed

lemma batch_step_windows:
  assumes "batch_step E ctx w v"
  shows "batch_windows ctx k v = batch_windows ctx k w \<or>
    (\<exists>x. batch_windows ctx k v = batch_windows ctx k w @ [x] \<and> fst x \<le> snd x \<and>
         (\<forall>y \<in> set (batch_windows ctx k w). snd y < fst x))"
  using assms
proof cases
  case (close c j upTo r)
  from this show ?thesis
  proof (cases rule: closeWindow_cases)
    case same
    then show ?thesis by (simp add: batch_windows_def)
  next
    case (closed leaves)
    let ?b = "batch_of E leaves (usable_now ctx j upTo (gw_tables w))"
    note cw = closed_window [OF closed(1), where E = E and leaves = leaves]
    have v: "gw_tables v = (gw_tables w)\<lparr>gt_batches := gt_batches (gw_tables w) @ [row_of (gw_tables w) c ?b]\<rparr>"
      and "tenant_ok ctx (Some c)"
      using closed(4) by (auto simp: exec_iff)
    then have eq: "batch_windows ctx k v = batch_windows ctx k w @ (if j = k then [(b_fromTs ?b, b_toTs ?b)] else [])"
      using cw(1) by (simp add: batch_windows_def v visible_append row_of_def)
    show ?thesis
    proof (cases "j = k")
      case True
      with eq cw(2,3) show ?thesis by (fastforce simp: batch_windows_def)
    qed (use eq in simp)
  qed
next
  case (mark j i h r)
  then show ?thesis by (simp add: mark_windows)
next
  case (arrive rows)
  then show ?thesis by (simp add: batch_windows_def visible_batches_def)
qed

interpretation batch_table: window_log "batch_windows ctx k" "batch_step E ctx" for ctx k E
  by unfold_locales (rule batch_step_windows)

end
