(* ===== verification/Gps_Journey.thy ===== *)
theory Gps_Journey imports Gps_Batching begin

text \<open>
  \<open>gps/journey/stop-detector.ts\<close> and \<open>gps/journey/timeline.ts\<close>. The lemmas follow the detector's
  scan: its stops lie one after another inside the journey, each at least the minimum long,
  so the time stopped never exceeds the time travelled. The locale's rendering of a date is a
  parameter of the narration.
\<close>

section \<open>StopDetector\<close>

datatype stop_kind = PICKUP | DROP | KNOWN_HALT | TRAFFIC | REST | UNEXPLAINED

record stop =
  so_startTs :: int
  so_endTs :: int
  so_durationS :: int
  so_lat :: real
  so_lng :: real
  so_radiusM :: real
  so_pingCount :: nat
  so_classification :: stop_kind

record known_location =
  kl_name :: string
  kl_lat :: real
  kl_lng :: real
  kl_radiusM :: real
  kl_kind :: stop_kind

record scheduled_stop =
  sch_lat :: real
  sch_lng :: real
  sch_pickup :: bool

record stop_options =
  op_movingThresholdKph :: "real option"
  op_clusterRadiusM :: "real option"
  op_minStopDurationS :: "int option"
  op_restThresholdS :: "int option"
  op_known :: "known_location list option"
  op_scheduled :: "scheduled_stop list option"

definition no_options :: stop_options where
  "no_options =
     \<lparr>op_movingThresholdKph = None, op_clusterRadiusM = None, op_minStopDurationS = None,
      op_restThresholdS = None, op_known = None, op_scheduled = None\<rparr>"

text \<open>\<open>{...a, ...b}\<close>\<close>

definition over :: "'a option \<Rightarrow> 'a option \<Rightarrow> 'a option" where
  "over a b = (case b of None \<Rightarrow> a | Some v \<Rightarrow> Some v)"

definition merge_options :: "stop_options \<Rightarrow> stop_options \<Rightarrow> stop_options" where
  "merge_options a b =
     \<lparr>op_movingThresholdKph = over (op_movingThresholdKph a) (op_movingThresholdKph b),
      op_clusterRadiusM = over (op_clusterRadiusM a) (op_clusterRadiusM b),
      op_minStopDurationS = over (op_minStopDurationS a) (op_minStopDurationS b),
      op_restThresholdS = over (op_restThresholdS a) (op_restThresholdS b),
      op_known = over (op_known a) (op_known b),
      op_scheduled = over (op_scheduled a) (op_scheduled b)\<rparr>"

record detector =
  dt_movingThresholdKph :: real
  dt_clusterRadiusM :: real
  dt_minStopDurationS :: int
  dt_restThresholdS :: int
  dt_known :: "known_location list"
  dt_scheduled :: "scheduled_stop list"

definition new_detector :: "stop_options \<Rightarrow> detector" where
  "new_detector o' =
     \<lparr>dt_movingThresholdKph = coalesce (op_movingThresholdKph o') 3,
      dt_clusterRadiusM = coalesce (op_clusterRadiusM o') 60,
      dt_minStopDurationS = coalesce (op_minStopDurationS o') 300,
      dt_restThresholdS = coalesce (op_restThresholdS o') 10800,
      dt_known = coalesce (op_known o') [],
      dt_scheduled = coalesce (op_scheduled o') []\<rparr>"

definition haversineM :: "real \<Rightarrow> real \<Rightarrow> real \<Rightarrow> real \<Rightarrow> real" where
  "haversineM lat1 lng1 lat2 lng2 =
     (let R = 6371000;
          dLat = (lat2 - lat1) * pi / 180;
          dLng = (lng2 - lng1) * pi / 180;
          a = (sin (dLat / 2))\<^sup>2 +
              cos (lat1 * pi / 180) * cos (lat2 * pi / 180) * (sin (dLng / 2))\<^sup>2
      in 2 * R * arcsin (sqrt a))"

definition isStationary :: "detector \<Rightarrow> signed_ping \<Rightarrow> signed_ping list \<Rightarrow> bool" where
  "isStationary D p cluster =
     (if (case sp_speedKph p of None \<Rightarrow> False | Some v \<Rightarrow> v > dt_movingThresholdKph D) then False
      else if cluster = [] then True
      else haversineM (sp_lat (hd cluster)) (sp_lng (hd cluster)) (sp_lat p) (sp_lng p)
             \<le> dt_clusterRadiusM D)"

definition classify :: "detector \<Rightarrow> stop \<Rightarrow> stop_kind" where
  "classify D s =
     (case find (\<lambda>x. haversineM (so_lat s) (so_lng s) (sch_lat x) (sch_lng x) \<le> 300) (dt_scheduled D) of
        Some x \<Rightarrow> (if sch_pickup x then PICKUP else DROP)
      | None \<Rightarrow>
          (case find (\<lambda>k. haversineM (so_lat s) (so_lng s) (kl_lat k) (kl_lng k) \<le> kl_radiusM k) (dt_known D) of
             Some k \<Rightarrow> kl_kind k
           | None \<Rightarrow>
               if dt_restThresholdS D \<le> so_durationS s then REST
               else if so_durationS s < 900 \<and> so_radiusM s < 40 then TRAFFIC
               else UNEXPLAINED))"

definition mean :: "real list \<Rightarrow> real" where
  "mean xs = sum_list xs / of_nat (length xs)"

definition raw_stop :: "signed_ping list \<Rightarrow> stop" where
  "raw_stop c =
     (let lat = mean (map sp_lat c); lng = mean (map sp_lng c) in
      \<lparr>so_startTs = sp_ts (hd c), so_endTs = sp_ts (last c),
       so_durationS = sp_ts (last c) - sp_ts (hd c), so_lat = lat, so_lng = lng,
       so_radiusM = Max (set (map (\<lambda>p. haversineM lat lng (sp_lat p) (sp_lng p)) c)),
       so_pingCount = length c, so_classification = UNEXPLAINED\<rparr>)"

definition flush :: "detector \<Rightarrow> signed_ping list \<Rightarrow> stop list \<Rightarrow> stop list" where
  "flush D cluster stops =
     (if length cluster < 2 then stops
      else if sp_ts (last cluster) - sp_ts (hd cluster) < dt_minStopDurationS D then stops
      else let s = raw_stop cluster in stops @ [s\<lparr>so_classification := classify D s\<rparr>])"

fun scan_pings :: "detector \<Rightarrow> signed_ping list \<Rightarrow> stop list \<Rightarrow> signed_ping list \<Rightarrow> stop list" where
  "scan_pings D cluster stops [] = flush D cluster stops"
| "scan_pings D cluster stops (p # ps) =
     (if isStationary D p cluster then scan_pings D (cluster @ [p]) stops ps
      else scan_pings D [] (flush D cluster stops) ps)"

definition detect :: "detector \<Rightarrow> signed_ping list \<Rightarrow> stop list" where
  "detect D pings =
     (let sorted = sort_key sp_ts pings
      in if length sorted < 2 then [] else scan_pings D [] [] sorted)"

definition unexplained :: "stop list \<Rightarrow> stop list" where
  "unexplained = filter (\<lambda>s. so_classification s = UNEXPLAINED)"

section \<open>TimelineBuilder\<close>

record verification =
  ve_anchored :: bool
  ve_batchCount :: nat
  ve_signerTier :: nat
  ve_disclosure :: "string option"

record timeline =
  ti_tripId :: string
  ti_truckId :: string
  ti_startTs :: int
  ti_endTs :: int
  ti_totalDurationS :: int
  ti_movingDurationS :: int
  ti_stoppedDurationS :: int
  ti_distanceKm :: real
  ti_avgSpeedKph :: real
  ti_maxSpeedKph :: real
  ti_stops :: "stop list"
  ti_unexplainedStops :: "stop list"
  ti_gaps :: "gap list"
  ti_pingCount :: nat
  ti_verification :: verification

text \<open>\<open>Number(x.toFixed(d))\<close> of a number that is not negative.\<close>

definition to_fixed :: "nat \<Rightarrow> real \<Rightarrow> real" where
  "to_fixed d x = of_int \<lfloor>x * 10 ^ d + 1 / 2\<rfloor> / 10 ^ d"

fun distance_m :: "signed_ping list \<Rightarrow> real" where
  "distance_m (p # q # r) =
     haversineM (sp_lat p) (sp_lng p) (sp_lat q) (sp_lng q) + distance_m (q # r)"
| "distance_m _ = 0"

text \<open>The loop starts at the second ping.\<close>

definition max_speed :: "signed_ping list \<Rightarrow> real" where
  "max_speed pts = foldl (\<lambda>m p. max m (coalesce (sp_speedKph p) 0)) 0 (tl pts)"

definition trip_timeline :: "string \<Rightarrow> detector \<Rightarrow> signed_ping list \<Rightarrow> nat \<Rightarrow> timeline" where
  "trip_timeline tripId D pings n_batches =
     (let sorted = sort_key sp_ts pings;
          stops = detect D sorted;
          startTs = sp_ts (hd sorted); endTs = sp_ts (last sorted);
          total = endTs - startTs;
          stopped = sum_list (map so_durationS stops);
          moving = max 0 (total - stopped);
          distanceKm = distance_m sorted / 1000;
          tier = sp_signerTier (hd sorted)
      in \<lparr>ti_tripId = tripId, ti_truckId = sp_truckId (hd sorted), ti_startTs = startTs,
          ti_endTs = endTs, ti_totalDurationS = total, ti_movingDurationS = moving,
          ti_stoppedDurationS = stopped, ti_distanceKm = to_fixed 2 distanceKm,
          ti_avgSpeedKph = (if 0 < moving then to_fixed 1 (distanceKm / of_int moving * 3600) else 0),
          ti_maxSpeedKph = max_speed sorted, ti_stops = stops,
          ti_unexplainedStops = unexplained stops, ti_gaps = detectGaps sorted 30 4,
          ti_pingCount = length sorted,
          ti_verification = \<lparr>ve_anchored = 0 < n_batches, ve_batchCount = n_batches,
            ve_signerTier = tier, ve_disclosure = TRUST_DISCLOSURE tier\<rparr>\<rparr>)"

definition build_timeline ::
  "db_ctx \<Rightarrow> stop_options \<Rightarrow> string \<Rightarrow> signed_ping list \<Rightarrow> stop_options \<Rightarrow> (gps, timeline) exec"
where
  "build_timeline ctx stopOptions tripId pings opts =
     bindE (throw_if (pings = []) (Error ''NO_TELEMETRY_FOR_TRIP'')) (\<lambda>_.
     bindE (batchCountForTrip ctx tripId) (\<lambda>n.
     return (trip_timeline tripId (new_detector (merge_options stopOptions opts)) pings n)))"

definition suspiciousWithin :: "timeline \<Rightarrow> int \<Rightarrow> int \<Rightarrow> stop list" where
  "suspiciousWithin t custodyStartTs custodyEndTs =
     filter (\<lambda>s. custodyStartTs \<le> so_startTs s \<and> so_endTs s \<le> custodyEndTs) (ti_unexplainedStops t)"

section \<open>Narration\<close>

definition MIDDLE_DOT :: string where "MIDDLE_DOT = [CHR 0xC2, CHR 0xB7]"
definition EM_DASH :: string where "EM_DASH = [CHR 0xE2, CHR 0x80, CHR 0x94]"
definition WARNING_SIGN :: string where "WARNING_SIGN = [CHR 0xE2, CHR 0x9A, CHR 0xA0]"

text \<open>\<open>x.toFixed(4)\<close>\<close>

definition pad4 :: "string \<Rightarrow> string" where
  "pad4 s = replicate (4 - length s) (CHR ''0'') @ s"

definition fixed4_text :: "real \<Rightarrow> string" where
  "fixed4_text x =
     (let n = nat \<lfloor>\<bar>x\<bar> * 10000 + 1 / 2\<rfloor>
      in (if x < 0 then ''-'' else []) @ show_nat (n div 10000) @ ''.'' @ pad4 (show_nat (n mod 10000)))"

definition mins_text :: "int \<Rightarrow> string" where
  "mins_text s = show_int (js_round (of_int s / 60)) @ '' min''"

fun kind_label :: "stop_kind \<Rightarrow> string" where
  "kind_label UNEXPLAINED = WARNING_SIGN @ '' unscheduled stop''"
| "kind_label PICKUP = ''pickup''"
| "kind_label DROP = ''drop''"
| "kind_label KNOWN_HALT = ''known halt''"
| "kind_label TRAFFIC = ''traffic''"
| "kind_label REST = ''rest''"

definition stop_line :: "(int \<Rightarrow> string) \<Rightarrow> stop \<Rightarrow> string" where
  "stop_line fmt s =
     fmt (so_startTs s) @ '' '' @ EM_DASH @ '' '' @ kind_label (so_classification s) @ '', '' @
     mins_text (so_durationS s) @ '' at '' @ fixed4_text (so_lat s) @ '', '' @ fixed4_text (so_lng s)"

definition gap_line :: "(int \<Rightarrow> string) \<Rightarrow> gap \<Rightarrow> string" where
  "gap_line fmt g =
     WARNING_SIGN @ '' telemetry gap: no signal for '' @ mins_text (ga_gapS g) @ '' between '' @
     fmt (ga_fromTs g) @ '' and '' @ fmt (ga_toTs g)"

text \<open>\<open>undefined\<close> in a template prints as that word.\<close>

definition verification_line :: "verification \<Rightarrow> string" where
  "verification_line v =
     (if ve_anchored v
      then ''Verified: '' @ show_nat (ve_batchCount v) @ '' anchored batches. '' @
           coalesce (ve_disclosure v) ''undefined''
      else ''Not anchored '' @ EM_DASH @
           '' this timeline is a platform record, not independently verifiable.'')"

definition narrate_lines :: "('e) gps_env_scheme \<Rightarrow> (int \<Rightarrow> string) \<Rightarrow> timeline \<Rightarrow> string list" where
  "narrate_lines E fmt t =
     (''Departed '' @ fmt (ti_startTs t) @ '' '' @ MIDDLE_DOT @ '' arrived '' @ fmt (ti_endTs t) @
      '' '' @ MIDDLE_DOT @ '' '' @ ge_num_text E (ti_distanceKm t) @ '' km '' @ MIDDLE_DOT @
      '' avg '' @ ge_num_text E (ti_avgSpeedKph t) @ '' km/h'') #
     map (stop_line fmt) (ti_stops t) @ map (gap_line fmt) (ti_gaps t) @
     [verification_line (ti_verification t)]"

fun join_lines :: "string list \<Rightarrow> string" where
  "join_lines [] = []"
| "join_lines [s] = s"
| "join_lines (s # t # r) = s @ CHR 0x0A # join_lines (t # r)"

definition narrate :: "('e) gps_env_scheme \<Rightarrow> (int \<Rightarrow> string) \<Rightarrow> timeline \<Rightarrow> string" where
  "narrate E fmt t = join_lines (narrate_lines E fmt t)"

section \<open>Stops one after another\<close>

fun stops_between :: "int \<Rightarrow> stop list \<Rightarrow> int \<Rightarrow> bool" where
  "stops_between lo [] hi \<longleftrightarrow> lo \<le> hi"
| "stops_between lo (s # ss) hi \<longleftrightarrow>
     lo \<le> so_startTs s \<and> so_startTs s \<le> so_endTs s \<and> stops_between (so_endTs s) ss hi"

lemma stops_between_append:
  "stops_between lo (xs @ ys) hi \<longleftrightarrow>
     (\<exists>mid. stops_between lo xs mid \<and> stops_between mid ys hi)"
proof (induction xs arbitrary: lo)
  case Nil
  have "stops_between lo ys hi" if "lo \<le> mid" "stops_between mid ys hi" for mid
    using that by (cases ys) auto
  then show ?case by auto
qed auto

lemma stops_between_le: "stops_between lo ss hi \<Longrightarrow> lo \<le> hi"
  by (induction ss arbitrary: lo) (simp, force)

definition stop_ok :: "detector \<Rightarrow> stop \<Rightarrow> bool" where
  "stop_ok D s \<longleftrightarrow>
     so_durationS s = so_endTs s - so_startTs s \<and> dt_minStopDurationS D \<le> so_durationS s \<and>
     2 \<le> so_pingCount s \<and> so_classification s = classify D s"

lemma stopped_le: 
  "stops_between lo ss hi \<Longrightarrow> \<forall>s \<in> set ss. so_durationS s = so_endTs s - so_startTs s \<Longrightarrow>
   sum_list (map so_durationS ss) \<le> hi - lo"
proof (induction ss arbitrary: lo)
  case (Cons s ss)
  then have "sum_list (map so_durationS ss) \<le> hi - so_endTs s" by simp
  with Cons.prems show ?case by simp
qed simp

lemma scan_acc: "scan_pings D c stops ps = stops @ scan_pings D c [] ps"
proof (induction ps arbitrary: c stops)
  case Nil
  then show ?case by (simp add: flush_def Let_def)
next
  case (Cons p ps)
  have "scan_pings D [] (flush D c stops) ps = flush D c stops @ scan_pings D [] [] ps"
    by (rule Cons.IH)
  also have "flush D c stops = stops @ flush D c []" by (simp add: flush_def Let_def)
  also have "(stops @ flush D c []) @ scan_pings D [] [] ps = stops @ scan_pings D [] (flush D c []) ps"
    using Cons.IH [of "[]" "flush D c []"] by simp
  finally show ?case
    using Cons.IH [of "c @ [p]" stops] \<open>flush D c stops = stops @ flush D c []\<close> by simp
qed

lemma classify_own [simp]: "classify D (s\<lparr>so_classification := k\<rparr>) = classify D s"
  by (simp add: classify_def cong: option.case_cong)

lemma flush_ok: "s \<in> set (flush D c []) \<Longrightarrow> stop_ok D s"
proof -
  assume "s \<in> set (flush D c [])"
  then obtain "\<not> length c < 2" "dt_minStopDurationS D \<le> sp_ts (last c) - sp_ts (hd c)"
    and s: "s = raw_stop c\<lparr>so_classification := classify D (raw_stop c)\<rparr>"
    by (auto simp: flush_def Let_def split: if_splits)
  moreover from s have "so_classification s = classify D s" by simp
  moreover from s have "so_durationS s = sp_ts (last c) - sp_ts (hd c)"
    "so_startTs s = sp_ts (hd c)" "so_endTs s = sp_ts (last c)" "so_pingCount s = length c"
    by (simp_all add: raw_stop_def Let_def)
  ultimately show ?thesis by (simp add: stop_ok_def)
qed

lemma flush_between:
  assumes "sorted (map sp_ts (c @ ps))" and "\<forall>p \<in> set c. lo \<le> sp_ts p" and "lo \<le> hi"
    and "\<forall>p \<in> set c. sp_ts p \<le> hi"
  shows "stops_between lo (flush D c []) hi"
proof (cases "length c < 2")
  case False
  then have "c \<noteq> []" by auto
  moreover from this assms(1) have "sp_ts (hd c) \<le> sp_ts (last c)"
    by (cases c) (auto simp: sorted_append)
  ultimately show ?thesis using assms by (auto simp: flush_def raw_stop_def Let_def)
qed (use assms in \<open>simp add: flush_def\<close>)

lemma scan_ok: "s \<in> set (scan_pings D c [] ps) \<Longrightarrow> stop_ok D s"
proof (induction ps arbitrary: c)
  case Nil
  then show ?case using flush_ok [of s D c] by simp
next
  case (Cons p ps)
  show ?case
  proof (cases "isStationary D p c")
    case True
    with Cons show ?thesis by simp
  next
    case False
    with Cons.prems have "s \<in> set (flush D c [] @ scan_pings D [] [] ps)"
      using scan_acc [of D "[]" "flush D c []" ps] by simp
    then show ?thesis using Cons.IH [of "[]"] flush_ok [of s D c] by auto
  qed
qed

lemma scan_between:
  assumes "sorted (map sp_ts (c @ ps))" and "\<forall>p \<in> set (c @ ps). lo \<le> sp_ts p \<and> sp_ts p \<le> hi"
    and "lo \<le> hi"
  shows "stops_between lo (scan_pings D c [] ps) hi"
  using assms
proof (induction ps arbitrary: c lo)
  case Nil
  then show ?case using flush_between [of c "[]" lo hi D] by simp
next
  case (Cons p ps)
  show ?case
  proof (cases "isStationary D p c")
    case True
    with Cons.IH [of "c @ [p]" lo] Cons.prems show ?thesis by simp
  next
    case False
    have p: "lo \<le> sp_ts p" "sp_ts p \<le> hi" using Cons.prems by auto
    have "stops_between lo (flush D c []) (sp_ts p)"
      using Cons.prems p by (intro flush_between [of c "p # ps"]) (auto simp: sorted_append)
    moreover have "stops_between (sp_ts p) (scan_pings D [] [] ps) hi"
      using Cons.prems p by (intro Cons.IH) (auto simp: sorted_append)
    ultimately show ?thesis
      using False scan_acc [of D "[]" "flush D c []" ps] by (auto simp: stops_between_append)
  qed
qed

lemma detect_ok: "s \<in> set (detect D pings) \<Longrightarrow> stop_ok D s"
  by (auto simp: detect_def Let_def dest: scan_ok split: if_splits)

lemma sorted_ends:
  assumes "pings \<noteq> []" and "sorted (map sp_ts pings)" and "p \<in> set pings"
  shows "sp_ts (hd pings) \<le> sp_ts p" "sp_ts p \<le> sp_ts (last pings)"
proof -
  from assms show "sp_ts (hd pings) \<le> sp_ts p" by (cases pings) auto
  from assms(1) have "map sp_ts pings = map sp_ts (butlast pings) @ [sp_ts (last pings)]"
    by (metis append_butlast_last_id list.simps(8,9) map_append)
  with assms(2) have "\<forall>x \<in> set (map sp_ts (butlast pings)). x \<le> sp_ts (last pings)"
    by (simp add: sorted_append)
  moreover from assms(1,3) have "p \<in> set (butlast pings) \<or> p = last pings"
    by (metis append_butlast_last_id in_set_conv_decomp_first rotate1.simps(2) set_ConsD set_rotate1)
  ultimately show "sp_ts p \<le> sp_ts (last pings)" by auto
qed

lemma detect_between:
  assumes "pings \<noteq> []"
  shows "stops_between (sp_ts (hd (sort_key sp_ts pings))) (detect D pings)
           (sp_ts (last (sort_key sp_ts pings)))"
proof -
  let ?s = "sort_key sp_ts pings"
  have ne: "?s \<noteq> []" using assms by (metis length_0_conv length_sort)
  have so: "sorted (map sp_ts ?s)" by simp
  note ends = sorted_ends [OF ne so]
  have "sp_ts (hd ?s) \<le> sp_ts (last ?s)" using ends(1) [of "last ?s"] last_in_set [OF ne] by blast
  moreover have "stops_between (sp_ts (hd ?s)) (scan_pings D [] [] ?s) (sp_ts (last ?s))"
    using calculation ends so by (intro scan_between) auto
  ultimately show ?thesis by (simp add: detect_def Let_def)
qed

lemma haversineM_same [simp]: "haversineM a b a b = 0"
  by (simp add: haversineM_def)

lemma haversineM_sym: "haversineM a b c d = haversineM c d a b"
proof -
  have "(sin ((y - x) * pi / 180 / 2))\<^sup>2 = (sin ((x - y) * pi / 180 / 2))\<^sup>2" for x y :: real
  proof -
    have "(y - x) * pi / 180 / 2 = - ((x - y) * pi / 180 / 2)" by (simp add: field_simps)
    then show ?thesis by (simp only: sin_minus power2_minus)
  qed
  note flip = this [of c a] this [of d b]
  show ?thesis
    unfolding haversineM_def Let_def flip by (simp only: mult.commute)
qed

end
