(* ===== verification/Gps_Proof.thy ===== *)
theory Gps_Proof imports Gps_Journey begin

text \<open>
  \<open>gps/query/proof-api.ts\<close> over \<open>gps/db/ping-source.store.pg.ts\<close>, and
  \<open>platform/api/gps/gps.service.ts\<close>, which runs the domain inside transactions. A proof is
  rebuilt from the archive, so it verifies exactly as long as the archive still hashes to
  the anchored root.
\<close>

record proof_env = gps_env +
  pe_contractAddress :: string

section \<open>PgPingSource\<close>

definition covering_batch :: "db_ctx \<Rightarrow> string \<Rightarrow> int \<Rightarrow> gps_tables \<Rightarrow> batch_row option" where
  "covering_batch ctx tripId ts t =
     find (\<lambda>b. ba_batchIndex b \<noteq> None \<and> ba_fromTs b \<le> ts \<and> ts \<le> ba_toTs b)
       (rev (visible_batches ctx tripId t))"

definition batchPingsAt ::
  "db_ctx \<Rightarrow> string \<Rightarrow> int \<Rightarrow> (gps, (signed_ping list \<times> nat) option) exec"
where
  "batchPingsAt ctx tripId ts =
     bindE (stmt (reads (covering_batch ctx tripId ts))) (\<lambda>b.
     case b of
       None \<Rightarrow> return None
     | Some b \<Rightarrow>
         bindE (stmt (reads (trip_pings ctx tripId (\<lambda>x. ba_fromTs b \<le> x \<and> x \<le> ba_toTs b)))) (\<lambda>pings.
         return (Some (pings, the (ba_batchIndex b)))))"

definition pingsInWindow ::
  "db_ctx \<Rightarrow> string \<Rightarrow> int \<Rightarrow> int \<Rightarrow> (gps, signed_ping list) exec"
where
  "pingsInWindow ctx tripId fromTs toTs =
     stmt (reads (trip_pings ctx tripId (\<lambda>x. fromTs \<le> x \<and> x \<le> toTs)))"

section \<open>ProofApi\<close>

record ping_proof =
  pp_lat :: real
  pp_lng :: real
  pp_ts :: int
  pp_speedKph :: "real option"
  pp_deviceId :: string
  pp_signerTier :: nat
  pp_gatewaySig :: string
  pp_leaf :: string
  pp_proof :: "string list"
  pp_batchIndex :: nat
  pp_root :: string
  pp_contractAddress :: string
  pp_disclosure :: "string option"
  pp_verifiedOnChain :: bool

text \<open>The ping nearest in time; the first of several.\<close>

definition nearest :: "int \<Rightarrow> signed_ping list \<Rightarrow> signed_ping" where
  "nearest ts pings =
     foldl (\<lambda>best p. if \<bar>sp_ts p - ts\<bar> < \<bar>sp_ts best - ts\<bar> then p else best) (hd pings) (tl pings)"

definition read_log :: "(trip_log \<Rightarrow> trip_error + 'a) \<Rightarrow> (gps, 'a) exec" where
  "read_log f = (\<lambda>w. case f (gw_log w) of Inl _ \<Rightarrow> (Inl reverted, w) | Inr x \<Rightarrow> (Inr x, w))"

definition proveMoment ::
  "('e) proof_env_scheme \<Rightarrow> db_ctx \<Rightarrow> string \<Rightarrow> int \<Rightarrow> (gps, ping_proof option) exec"
where
  "proveMoment E ctx tripId ts =
     bindE (batchPingsAt ctx tripId ts) (\<lambda>batch.
     case batch of
       None \<Rightarrow> return None
     | Some (pings, i) \<Rightarrow>
         if pings = [] then return None
         else let target = nearest ts pings in
           bindE (lift_sum (buildTree E pings)) (\<lambda>leaves.
           bindE (lift_sum (proofFor E leaves target)) (\<lambda>proof.
           bindE (lift_sum (pingLeaf E target)) (\<lambda>leaf.
           bindE (need (abi_bytes32 tripId) abi_error) (\<lambda>k.
           bindE (read_log (getBatch k i)) (\<lambda>onchain.
           bindE (read_log (verifyPing E k i leaf proof)) (\<lambda>ok.
           return (Some
             \<lparr>pp_lat = sp_lat target, pp_lng = sp_lng target, pp_ts = sp_ts target,
              pp_speedKph = sp_speedKph target, pp_deviceId = sp_deviceId target,
              pp_signerTier = sp_signerTier target, pp_gatewaySig = sp_gatewaySig target,
              pp_leaf = leaf, pp_proof = proof, pp_batchIndex = i, pp_root = tb_root onchain,
              pp_contractAddress = pe_contractAddress E,
              pp_disclosure = TRUST_DISCLOSURE (sp_signerTier target),
              pp_verifiedOnChain = ok\<rparr>))))))))"

record near_answer =
  na_answer :: "bool option"
  na_distanceM :: "int option"
  na_proof :: "ping_proof option"
  na_note :: string

record near_query =
  nq_lat :: real
  nq_lng :: real
  nq_ts :: int
  nq_radiusM :: real

definition near_of :: "near_query \<Rightarrow> ping_proof option \<Rightarrow> near_answer" where
  "near_of q answer =
     (case answer of
        None \<Rightarrow>
          \<lparr>na_answer = None, na_distanceM = None, na_proof = None,
           na_note = ''No anchored telemetry covers that moment. This may indicate a device gap '' @
             EM_DASH @ '' see the trip's gap report.''\<rparr>
      | Some pf \<Rightarrow>
          let drift = \<bar>pp_ts pf - nq_ts q\<bar> in
          if drift > 300 then
            \<lparr>na_answer = None, na_distanceM = None, na_proof = Some pf,
             na_note = ''Nearest anchored ping is '' @ show_int (js_round (of_int drift / 60)) @
               '' minutes from the requested time; too far to answer reliably.''\<rparr>
          else
            let d = haversineM (nq_lat q) (nq_lng q) (pp_lat pf) (pp_lng pf) in
            \<lparr>na_answer = Some (d \<le> nq_radiusM q), na_distanceM = Some \<lfloor>d + 1 / 2\<rfloor>,
             na_proof = Some pf,
             na_note = (if pp_verifiedOnChain pf then ''Proof verified against the on-chain root.''
               else ''WARNING: proof did NOT verify on-chain '' @ EM_DASH @
                 '' do not rely on this record.'')\<rparr>)"

definition wasVehicleNear ::
  "('e) proof_env_scheme \<Rightarrow> db_ctx \<Rightarrow> string \<Rightarrow> near_query \<Rightarrow> (gps, near_answer) exec"
where
  "wasVehicleNear E ctx tripId q =
     bindE (proveMoment E ctx tripId (nq_ts q)) (\<lambda>answer. return (near_of q answer))"

text \<open>\<open>pings.filter((_, i) => i % step === 0)\<close> with the step that keeps at most \<open>maxPoints\<close>.\<close>

definition sample :: "nat \<Rightarrow> 'a list \<Rightarrow> 'a list" where
  "sample maxPoints pings =
     (let step = max 1 ((length pings + maxPoints - 1) div maxPoints)
      in map ((!) pings) (filter (\<lambda>i. i mod step = 0) [0 ..< length pings]))"

definition MAX_POINTS :: nat where "MAX_POINTS = 50"

definition proveWindow ::
  "('e) proof_env_scheme \<Rightarrow> db_ctx \<Rightarrow> string \<Rightarrow> int \<Rightarrow> int \<Rightarrow> nat \<Rightarrow>
   (gps, ping_proof list \<times> bool) exec"
where
  "proveWindow E ctx tripId fromTs toTs maxPoints =
     bindE (pingsInWindow ctx tripId fromTs toTs) (\<lambda>pings.
     let sampled = sample maxPoints pings in
     bindE (for_fold (\<lambda>p points.
        bindE (proveMoment E ctx tripId (sp_ts p)) (\<lambda>pf.
        return (case pf of None \<Rightarrow> points | Some pf \<Rightarrow> points @ [pf]))) sampled []) (\<lambda>points.
     return (points, length sampled < length pings)))"

section \<open>GpsService\<close>

text \<open>\<open>try { ... } catch (err) { ... }\<close> that answers with another exception.\<close>

definition rethrow :: "(exn \<Rightarrow> exn) \<Rightarrow> ('s, 'a) exec \<Rightarrow> ('s, 'a) exec" where
  "rethrow f m = (\<lambda>s. case m s of (Inl e, t) \<Rightarrow> (Inl (f e), t) | (Inr x, t) \<Rightarrow> (Inr x, t))"

definition gps_entry :: "string \<Rightarrow> string \<Rightarrow> string \<Rightarrow> string \<Rightarrow> string \<Rightarrow> audit_entry" where
  "gps_entry companyId userId action entity entityId =
     \<lparr>au_companyId = companyId, au_userId = Some userId, au_action = action, au_entity = entity,
      au_entityId = entityId\<rparr>"

definition registerDevice ::
  "string \<Rightarrow> string \<Rightarrow> int \<Rightarrow> registration \<Rightarrow> (gps, device) exec"
where
  "registerDevice companyId userId now dto = gps_tx (
     rethrow (\<lambda>e. if exn_message e = ''DEVICE_ALREADY_REGISTERED''
                  then BadRequest (exn_message e) else e)
       (bindE (register_device (Tenant companyId) companyId now dto) (\<lambda>d.
        bindE (gps_audit (gps_entry companyId userId ''GPS_DEVICE_REGISTERED'' ''device'' (dv_deviceId d))) (\<lambda>_.
        return d))))"

definition svc_rotateSecret ::
  "string \<Rightarrow> string \<Rightarrow> string \<Rightarrow> string \<Rightarrow> (gps, string) exec"
where
  "svc_rotateSecret companyId userId deviceId newSecret = gps_tx (
     bindE (rethrow (\<lambda>e. if exn_message e = ''DEVICE_NOT_FOUND'' then NotFound ''Not Found'' else e)
              (rotateSecret (Tenant companyId) companyId deviceId newSecret)) (\<lambda>_.
     bindE (gps_audit (gps_entry companyId userId ''GPS_DEVICE_SECRET_ROTATED'' ''device'' deviceId)) (\<lambda>_.
     return deviceId)))"

definition svc_startTrip ::
  "string \<Rightarrow> string \<Rightarrow> int \<Rightarrow> string \<Rightarrow> string \<Rightarrow> (gps, string \<times> string) exec"
where
  "svc_startTrip companyId userId nowS truckId tripId = gps_tx (
     bindE (rethrow (\<lambda>e. if starts_with ''NO_DEVICE_FOR_TRUCK'' (exn_message e) \<or>
                            exn_message e = ''DEVICE_NOT_ACTIVE''
                         then BadRequest (exn_message e) else e)
              (startTrip (Tenant companyId) companyId nowS truckId tripId)) (\<lambda>_.
     bindE (gps_audit (gps_entry companyId userId ''GPS_TRIP_STARTED'' ''truck'' truckId)) (\<lambda>_.
     return (truckId, tripId))))"

text \<open>The work of \<open>endTrip\<close>, which also runs inside the transaction of a caller.\<close>

definition endTrip_on :: "db_ctx \<Rightarrow> string \<Rightarrow> string \<Rightarrow> string \<Rightarrow> (gps, string) exec" where
  "endTrip_on ctx companyId userId truckId =
     bindE (endTrip ctx truckId) (\<lambda>_.
     bindE (gps_audit (gps_entry companyId userId ''GPS_TRIP_ENDED'' ''truck'' truckId)) (\<lambda>_.
     return truckId))"

definition svc_endTrip ::
  "string \<Rightarrow> string \<Rightarrow> string \<Rightarrow> db_ctx option \<Rightarrow> (gps, string) exec"
where
  "svc_endTrip companyId userId truckId client =
     (case client of
        Some ctx \<Rightarrow> endTrip_on ctx companyId userId truckId
      | None \<Rightarrow> gps_tx (endTrip_on (Tenant companyId) companyId userId truckId))"

definition svc_ingest :: "('e) gps_env_scheme \<Rightarrow> int \<Rightarrow> raw_ping \<Rightarrow> (gps, ingest_result) exec" where
  "svc_ingest E nowS dto = gps_tx (
     bindE (get_device System (rp_deviceId dto)) (\<lambda>d.
     let companyId = (case d of None \<Rightarrow> [] | Some d \<Rightarrow> dv_companyId d) in
     ingest E \<lparr>g_ctx = System, g_company = companyId, g_now = nowS\<rparr> dto))"

definition svc_ingestBatch ::
  "('e) gps_env_scheme \<Rightarrow> int \<Rightarrow> raw_ping list \<Rightarrow> (gps, batch_answer) exec"
where
  "svc_ingestBatch E nowS pings = gps_tx (
     ingestBatch E \<lparr>g_ctx = System, g_company = [], g_now = nowS\<rparr> pings)"

definition getTimeline :: "string \<Rightarrow> int \<Rightarrow> string \<Rightarrow> (gps, timeline) exec" where
  "getTimeline companyId nowS tripId = gps_tx (
     bindE (pingsInWindow (Tenant companyId) tripId 0 nowS) (\<lambda>pings.
     bindE (throw_if (pings = []) (NotFound ''NO_TELEMETRY_FOR_TRIP'')) (\<lambda>_.
     rethrow (\<lambda>e. if exn_message e = ''NO_TELEMETRY_FOR_TRIP'' then NotFound (exn_message e) else e)
       (build_timeline (Tenant companyId) no_options tripId pings no_options))))"

definition svc_proveMoment ::
  "('e) proof_env_scheme \<Rightarrow> string \<Rightarrow> string \<Rightarrow> int \<Rightarrow> (gps, ping_proof) exec"
where
  "svc_proveMoment E companyId tripId ts = gps_tx (
     bindE (proveMoment E (Tenant companyId) tripId ts) (\<lambda>pf.
     need pf (NotFound ''NO_ANCHORED_TELEMETRY_FOR_MOMENT'')))"

definition svc_wasVehicleNear ::
  "('e) proof_env_scheme \<Rightarrow> string \<Rightarrow> string \<Rightarrow> near_query \<Rightarrow> (gps, near_answer) exec"
where
  "svc_wasVehicleNear E companyId tripId q =
     gps_tx (wasVehicleNear E (Tenant companyId) tripId q)"

definition svc_proveWindow ::
  "('e) proof_env_scheme \<Rightarrow> string \<Rightarrow> string \<Rightarrow> int \<Rightarrow> int \<Rightarrow>
   (gps, ping_proof list \<times> bool) exec"
where
  "svc_proveWindow E companyId tripId fromTs toTs =
     gps_tx (proveWindow E (Tenant companyId) tripId fromTs toTs MAX_POINTS)"

end
