(* ===== verification/Gps_Samples.thy ===== *)
theory Gps_Samples imports Gps_Proof Samples begin

text \<open>
  One tracker on one truck: an environment whose tree is the reference tree, tables with an active
  device bound to a trip, an archive of two pings with a batch over them, and the contract with
  and without that batch. The properties of the tracker pipeline are exercised here.
\<close>

section \<open>The environment\<close>

definition toy_base :: chain_env where
  "toy_base =
     \<lparr>zod_uuid = (\<lambda>_. True), zod_datetime = (\<lambda>_. True), keccak = (\<lambda>_. HASH),
      iso_of_ms = (\<lambda>_. ''2025-01-01T00:00:00.000Z''), checksum_ok = (\<lambda>_. True),
      ecrecover = (\<lambda>_ _ r s. ''0x'' @ take 40 (r @ s)), chain_id = ''1'', this_address = ''c'',
      platform_account = PLATFORM\<rparr>"

definition toy_gps :: proof_env where
  "toy_gps =
     \<lparr>zod_uuid = (\<lambda>_. True), zod_datetime = (\<lambda>_. True), keccak = (\<lambda>_. HASH),
      iso_of_ms = (\<lambda>_. ''2025-01-01T00:00:00.000Z''), checksum_ok = (\<lambda>_. True),
      ecrecover = (\<lambda>_ _ r s. ''0x'' @ take 40 (r @ s)), chain_id = ''1'', this_address = ''c'',
      platform_account = PLATFORM, tree_root = ref_root toy_base, tree_proof = ref_proof toy_base,
      ge_hmac = (\<lambda>k m. k @ m), ge_num_text = (\<lambda>_. ''1''), ge_sign = (\<lambda>_. ''0x''),
      ge_signerAddress = PLATFORM, pe_contractAddress = ''0xc''\<rparr>"

lemma hash_pair_cong: "keccak E = keccak F \<Longrightarrow> hash_pair E a b = hash_pair F a b"
  by (simp add: hash_pair_def)

lemma pair_up_cong: "keccak E = keccak F \<Longrightarrow> pair_up E xs = pair_up F xs"
  by (induction E xs rule: pair_up.induct) (auto intro: hash_pair_cong)

lemma ref_root_cong: "keccak E = keccak F \<Longrightarrow> ref_root E xs = ref_root F xs"
proof (induction E xs rule: ref_root.induct)
  case (3 E a b r)
  then show ?case using pair_up_cong [OF 3(2), of "a # b # r"]
    by (simp del: pair_up.simps)
qed simp_all

lemma ref_path_cong: "keccak E = keccak F \<Longrightarrow> ref_path E xs i = ref_path F xs i"
proof (induction E xs i rule: ref_path.induct)
  case (3 E a b r i)
  then show ?case using pair_up_cong [OF 3(2), of "a # b # r"]
    by (simp del: pair_up.simps)
qed simp_all

lemma HASH_ok: "is_bytes32 HASH" "HASH \<noteq> zero_bytes32" "length HASH = 66"
  by (simp_all add: HASH_def is_bytes32_def matches_def starts_with_def zero_bytes32_def
      lower_hex_def in_range_def list_all_iff)

lemma TRIP_ok: "is_bytes32 TRIP" "length TRIP = 66"
  by (simp_all add: TRIP_def is_bytes32_def matches_def starts_with_def
      lower_hex_def in_range_def list_all_iff)

lemma toy_gps_keccak: "keccak_ok toy_gps" "keccak toy_gps x = HASH" "keccak toy_gps = keccak toy_base"
  by (simp_all add: keccak_ok_def toy_gps_def toy_base_def HASH_ok)

lemma toy_gps_merkle: "merkle_ok toy_gps"
proof (rule merkle_ok_reference)
  show "tree_root toy_gps ls = ref_root toy_gps ls" for ls
    using ref_root_cong [OF toy_gps_keccak(3), of ls] by (simp add: toy_gps_def)
  show "tree_proof toy_gps ls l = ref_proof toy_gps ls l" for ls l
    using ref_path_cong [OF toy_gps_keccak(3), of ls] by (simp add: toy_gps_def ref_proof_def)
qed (rule toy_gps_keccak)

section \<open>Tables\<close>

definition UUID :: string where
  "UUID = ''11111111-1111-1111-1111-111111111111''"

lemma UUID_ok [simp]: "is_uuid UUID"
  by (simp add: UUID_def is_uuid_def hex_group_def any_hex_def lower_hex_def in_range_def)

definition toy_device :: device where
  "toy_device =
     \<lparr>dv_deviceId = ''dev'', dv_truckId = UUID, dv_companyId = UUID, dv_sharedSecret = ''s'',
      dv_status = DV_ACTIVE, dv_lastSeenTs = None, dv_tamperFlags = 0, dv_installedAt = 0\<rparr>"

definition toy_ping :: raw_ping where
  "toy_ping =
     \<lparr>rp_deviceId = ''dev'', rp_lat = Fin 1, rp_lng = Fin 1, rp_ts = 5, rp_speedKph = None,
      rp_headingDeg = None, rp_deviceMac = Some (ge_hmac toy_gps ''s''
        (canonicalPing toy_gps \<lparr>rp_deviceId = ''dev'', rp_lat = Fin 1, rp_lng = Fin 1, rp_ts = 5,
           rp_speedKph = None, rp_headingDeg = None, rp_deviceMac = None\<rparr>))\<rparr>"

definition toy_signed :: "int \<Rightarrow> signed_ping" where
  "toy_signed ts =
     \<lparr>sp_deviceId = ''dev'', sp_truckId = UUID, sp_tripId = TRIP, sp_lat = 0, sp_lng = 0, sp_ts = ts,
      sp_speedKph = None, sp_receivedAt = ts, sp_signerTier = 2, sp_signerAddress = PLATFORM,
      sp_gatewaySig = ''0x''\<rparr>"

definition toy_row :: "int \<Rightarrow> nat option \<Rightarrow> batch_row" where
  "toy_row ts i =
     \<lparr>ba_id = 1, ba_tripId = TRIP, ba_companyId = UUID, ba_root = HASH, ba_fromTs = ts, ba_toTs = ts,
      ba_pingCount = 1, ba_batchIndex = i, ba_chainTx = None\<rparr>"

definition toy_tables :: "signed_ping list \<Rightarrow> batch_row list \<Rightarrow> gps_tables" where
  "toy_tables ps bs =
     \<lparr>gt_companies = [UUID], gt_trucks = [UUID], gt_devices = [toy_device],
      gt_bindings = [\<lparr>br_deviceId = ''dev'', br_companyId = UUID, br_tripId = Some TRIP, br_since = 0\<rparr>],
      gt_raw = [], gt_pings = map (\<lambda>p. \<lparr>sr_ping = p, sr_companyId = UUID\<rparr>) ps, gt_batches = bs,
      gt_alerts = [], gt_events = []\<rparr>"

definition toy_log :: trip_log where
  "toy_log = (trip_deployed ''owner'')\<lparr>tl_isAnchorer := (\<lambda>a. a = PLATFORM)\<rparr>"

definition toy_log1 :: trip_log where
  "toy_log1 = projr (anchorBatch \<lparr>msg_sender = PLATFORM, block_timestamp = 9\<rparr> TRIP HASH 5 5 toy_log)"

definition gps_world :: "signed_ping list \<Rightarrow> batch_row list \<Rightarrow> trip_log \<Rightarrow> gps" where
  "gps_world ps bs c =
     \<lparr>gw_tables = toy_tables ps bs, gw_aborted = False, gw_redis = (\<lambda>_. None), gw_audit = [],
      gw_log = c, gw_queue = [], gw_metrics = []\<rparr>"

lemma gps_world_parts [simp]:
  "gw_log (gps_world ps bs c) = c" "gw_tables (gps_world ps bs c) = toy_tables ps bs"
  "gw_aborted (gps_world ps bs c) = False"
  by (simp_all add: gps_world_def)

definition toy_job :: anchor_job where
  "toy_job =
     \<lparr>aj_id = ''j'', aj_tripId = TRIP, aj_root = HASH, aj_fromTs = 5, aj_toTs = 5, aj_pingCount = 1\<rparr>"

definition toy_run :: "string option \<Rightarrow> chain_run" where
  "toy_run lost =
     \<lparr>cr_txHash = ''0x1'', cr_blockTime = 9, cr_wording = (\<lambda>_. ''TimeOverlap()''),
      cr_receiptLost = lost, cr_latencyMs = 1\<rparr>"

lemmas toy_gps_simps =
  gps_world_def toy_tables_def toy_row_def toy_job_def toy_run_def toy_signed_def toy_device_def

end
