(* ===== verification/Gps_Properties.thy ===== *)
theory Gps_Properties imports Gps_Samples begin

text \<open>
  What the tracker pipeline guarantees: how one ping is judged, what the bulk path stores, the
  invariant of the device table, the windows of a trip, what a proof of a moment shows and what
  a timeline adds up to.
\<close>

section \<open>Work inside a transaction\<close>

text \<open>Keeping an invariant whenever the work succeeds is enough, since a failure rolls back.\<close>

definition keeps :: "(gps_tables \<Rightarrow> bool) \<Rightarrow> (gps, 'a) exec \<Rightarrow> bool" where
  "keeps I m \<longleftrightarrow> (\<forall>w x v. I (gw_tables w) \<longrightarrow> m w = (Inr x, v) \<longrightarrow> I (gw_tables v))"

named_theorems keeps_intros "operations that keep a table invariant"

lemma keepsI: "(\<And>w x v. I (gw_tables w) \<Longrightarrow> m w = (Inr x, v) \<Longrightarrow> I (gw_tables v)) \<Longrightarrow> keeps I m"
  by (auto simp: keeps_def)

lemma keepsD: "keeps I m \<Longrightarrow> I (gw_tables w) \<Longrightarrow> m w = (Inr x, v) \<Longrightarrow> I (gw_tables v)"
  by (auto simp: keeps_def)

lemma keeps_basic [keeps_intros]:
  "keeps I (return x)" "keeps I (raise e)" "keeps I (throw_if b e)" "keeps I (need v e)"
  "keeps I (lift_sum r)" "keeps I (gps_audit a)" "keeps I (allow_ping n k)" "keeps I (stmt (reads f))"
  by (auto simp: keeps_def exec_iff gps_audit_def allow_ping_def Let_def)

lemma keeps_bindE:
  assumes m: "keeps I m" and k: "\<And>x. keeps I (k x)"
  shows "keeps I (bindE m k)"
proof (rule keepsI)
  fix w y v
  assume w: "I (gw_tables w)" and "bindE m k w = (Inr y, v)"
  then obtain x u where "m w = (Inr x, u)" and ku: "k x u = (Inr y, v)"
    by (auto simp: bindE_success)
  with m w have "I (gw_tables u)" by (blast dest: keepsD)
  with k ku show "I (gw_tables v)" by (blast dest: keepsD)
qed

lemma keeps_for_each: "(\<And>x. keeps I (f x)) \<Longrightarrow> keeps I (for_each f xs)"
  by (induction xs) (auto intro: keeps_bindE keeps_basic)

lemma keeps_for_fold: "(\<And>x a. keeps I (f x a)) \<Longrightarrow> keeps I (for_fold f xs a)"
  by (induction xs arbitrary: a) (auto intro: keeps_bindE keeps_basic)

lemma keeps_stmt:
  "(\<And>t x t'. I t \<Longrightarrow> m t = (Inr x, t') \<Longrightarrow> I t') \<Longrightarrow> keeps I (stmt m)"
  by (auto simp: keeps_def stmt_success)

lemma keeps_swallow_stmt: "keeps I (stmt m) \<Longrightarrow> keeps I (swallow (stmt m))"
  unfolding keeps_def swallow_def
proof (intro allI impI)
  fix w x v
  assume k: "\<forall>w x v. I (gw_tables w) \<longrightarrow> stmt m w = (Inr x, v) \<longrightarrow> I (gw_tables v)"
    and w: "I (gw_tables w)" and "(Inr (), snd (stmt m w)) = (Inr x, v)"
  then obtain r where r: "stmt m w = (r, v)" by (metis prod.collapse prod.inject)
  show "I (gw_tables v)"
  proof (cases r)
    case (Inl e)
    with r stmt_failure have "gw_tables v = gw_tables w" by blast
    with w show ?thesis by simp
  qed (use k w r in blast)
qed

lemma keeps_rethrow: "keeps I m \<Longrightarrow> keeps I (rethrow f m)"
  by (auto simp: keeps_def rethrow_def split: prod.splits sum.splits)

lemma gps_tx_keeps:
  assumes "keeps I m" and "I (gw_tables w)"
  shows "I (gw_tables (snd (gps_tx m w)))"
proof -
  obtain r v where m: "m (w\<lparr>gw_aborted := False\<rparr>) = (r, v)" by force
  show ?thesis
  proof (cases r)
    case (Inr x)
    with m have "m (w\<lparr>gw_aborted := False\<rparr>) = (Inr x, v)" by simp
    from keepsD [OF assms(1) _ this] assms(2) have "I (gw_tables v)" by simp
    with m Inr assms(2) show ?thesis by (simp add: gps_tx_def)
  qed (use m assms(2) in \<open>simp add: gps_tx_def\<close>)
qed

section \<open>The bulk path\<close>

definition spoiled :: "exn + 'a \<Rightarrow> gps \<Rightarrow> bool" where
  "spoiled r v \<longleftrightarrow> (\<exists>e. r = Inl e) \<or> gw_aborted v"

lemma record_event_no_company:
  "swallow (record_event (Some []) k b r) w = (Inr (), w\<lparr>gw_aborted := True\<rparr>)"
  by (auto simp: swallow_def record_event_def stmt_def need_uuid_def throw_if_def bindE_def)

lemma reject_no_company:
  "g_company g = [] \<Longrightarrow> reject_ping g p r w = (Inr (Rejected r), w\<lparr>gw_aborted := True\<rparr>)"
  by (simp add: reject_ping_def metrics_rejected_def bindE_def record_event_no_company)

lemma need_company_empty: "\<exists>e. need_company ctx [] t = (Inl e, t)"
  by (simp add: need_company_def need_uuid_def throw_if_def bindE_def)

lemma accept_no_company: "g_company g = [] \<Longrightarrow> \<exists>e v. accept_ping g p a w = (Inl e, v)"
proof -
  assume g: "g_company g = []"
  have "\<not> push_ping (g_ctx g) [] a w = (Inr x, v)" for x v
    by (auto simp: push_ping_def exec_iff)
  then obtain e v where "push_ping (g_ctx g) [] a w = (Inl e, v)"
    by (metis old.sum.exhaust surj_pair)
  with g show ?thesis by (simp add: accept_ping_def bindE_def)
qed

lemma spoiled_bind:
  assumes "\<And>x v. m w = (Inr x, v) \<Longrightarrow> spoiled (fst (k x v)) (snd (k x v))"
  shows "spoiled (fst (bindE m k w)) (snd (bindE m k w))"
  using assms by (auto simp: bindE_def spoiled_def split: prod.splits sum.splits)

lemma spoiled_bind_left:
  assumes "spoiled (fst (m w)) (snd (m w))" and "\<And>x u. gw_aborted u \<Longrightarrow> gw_aborted (snd (k x u))"
  shows "spoiled (fst (bindE m k w)) (snd (bindE m k w))"
proof (cases "m w")
  case (Pair r v)
  with assms show ?thesis by (cases r) (simp_all add: bindE_def spoiled_def)
qed

lemma spoiled_reject: "g_company g = [] \<Longrightarrow> spoiled (fst (reject_ping g p r w)) (snd (reject_ping g p r w))"
  by (simp add: reject_no_company spoiled_def)

lemma spoiled_accept: "g_company g = [] \<Longrightarrow> spoiled (fst (accept_ping g p a w)) (snd (accept_ping g p a w))"
  using accept_no_company [of g p a w] by (auto simp: spoiled_def)

lemma spoiled_ingest:
  assumes g: "g_company g = []"
  shows "spoiled (fst (ingest E g p w)) (snd (ingest E g p w))"
proof -
  note leaves = spoiled_reject [OF g] spoiled_accept [OF g]
  have timed: "spoiled (fst (ingest_timed g p v)) (snd (ingest_timed g p v))" for v
    unfolding ingest_timed_def
    by (auto intro!: spoiled_bind leaves split: option.split)
  show ?thesis
    unfolding ingest_def
    by (auto intro!: spoiled_bind leaves timed split: option.split)
qed

lemma ingest_keeps_spoiled:
  assumes g: "g_company g = []"
  shows "spoiled (fst (for_fold (\<lambda>p acc. bindE (ingest E g p) (\<lambda>r. return (count_result r acc))) (p # ps) acc w))
           (snd (for_fold (\<lambda>p acc. bindE (ingest E g p) (\<lambda>r. return (count_result r acc))) (p # ps) acc w))"
    (is "spoiled (fst (?fold (p # ps) acc w)) _")
proof (induction ps arbitrary: p acc w)
  case Nil
  have "spoiled (fst (bindE (ingest E g p) (\<lambda>r. return (count_result r acc)) w))
          (snd (bindE (ingest E g p) (\<lambda>r. return (count_result r acc)) w))"
    using spoiled_ingest [OF g, of E p w]
    by (auto simp: bindE_def spoiled_def split: prod.splits sum.splits)
  then show ?case
    by (auto simp: bindE_def spoiled_def split: prod.splits sum.splits)
next
  case (Cons q ps)
  show ?case
    unfolding for_fold.simps(2) [of _ p "q # ps"]
    by (rule spoiled_bind) (rule Cons.IH)
qed

lemma bulk_tables:
  "gw_tables (snd (svc_ingestBatch E nowS pings w)) = gw_tables w"
proof (cases pings)
  case Nil
  then show ?thesis by (simp add: svc_ingestBatch_def ingestBatch_def gps_tx_def)
next
  case (Cons p ps)
  let ?g = "\<lparr>g_ctx = System, g_company = [], g_now = nowS\<rparr>" and ?w = "w\<lparr>gw_aborted := False\<rparr>"
  let ?m = "ingestBatch E ?g pings"
  have "spoiled (fst (?m ?w)) (snd (?m ?w))"
    unfolding ingestBatch_def Cons
  proof (rule spoiled_bind_left)
    show "spoiled
        (fst (for_fold (\<lambda>p acc. bindE (ingest E ?g p) (\<lambda>r. return (count_result r acc))) (p # ps) (0, \<lambda>_. 0) ?w))
        (snd (for_fold (\<lambda>p acc. bindE (ingest E ?g p) (\<lambda>r. return (count_result r acc))) (p # ps) (0, \<lambda>_. 0) ?w))"
      by (rule ingest_keeps_spoiled) simp
  qed simp
  then show ?thesis
    by (auto simp: svc_ingestBatch_def gps_tx_def spoiled_def split: prod.splits sum.splits)
qed

text \<open>A batch upload stores nothing: the bulk endpoint builds its stores with an empty company
  id, which no statement of the database accepts, so whatever the pings are - authentic ones of
  active devices included - the transaction rolls back and every table stays as it was.\<close>

theorem bulk_path_stores_nothing:
  "gw_tables (snd (svc_ingestBatch E nowS pings w)) = gw_tables w"
  by (rule bulk_tables)

section \<open>The device table\<close>

definition device_ok :: "gps_tables \<Rightarrow> device \<Rightarrow> bool" where
  "device_ok t d \<longleftrightarrow>
     is_uuid (dv_companyId d) \<and> dv_companyId d \<in> set (gt_companies t) \<and> is_uuid (dv_truckId d) \<and>
     (dv_status d = DV_ACTIVE \<longrightarrow> dv_tamperFlags d < TAMPER_SUSPEND_THRESHOLD)"

definition gps_ok :: "gps_tables \<Rightarrow> bool" where
  "gps_ok t \<longleftrightarrow>
     distinct (map dv_deviceId (gt_devices t)) \<and> (\<forall>d \<in> set (gt_devices t). device_ok t d) \<and>
     (\<forall>b \<in> set (gt_bindings t). \<forall>k. br_tripId b = Some k \<longrightarrow> is_bytes32 k)"

lemma gps_ok_update_device:
  assumes "gps_ok t" and "\<And>d. dv_deviceId (f d) = dv_deviceId d"
    and "\<And>d. d \<in> set (gt_devices t) \<Longrightarrow> p d \<Longrightarrow> device_ok t d \<Longrightarrow> device_ok t (f d)"
  shows "gps_ok (t\<lparr>gt_devices := update_where p f (gt_devices t)\<rparr>)"
proof -
  have "device_ok (t\<lparr>gt_devices := ds\<rparr>) = device_ok t" for ds
    by (rule ext) (simp add: device_ok_def)
  with assms show ?thesis
    by (auto simp: gps_ok_def set_update_where map_update_where)
qed

lemma gps_ok_frame:
  assumes "gps_ok t"
  shows "gps_ok (t\<lparr>gt_raw := r\<rparr>)" "gps_ok (t\<lparr>gt_events := e\<rparr>)" "gps_ok (t\<lparr>gt_alerts := a\<rparr>)"
  using assms by (simp_all add: gps_ok_def device_ok_def)

lemma keeps_setStatus: "st \<noteq> DV_ACTIVE \<Longrightarrow> keeps gps_ok (setStatus ctx k st)"
  unfolding setStatus_def update_device_def
  by (rule keeps_stmt) (auto simp: exec_iff device_ok_def intro!: gps_ok_update_device)

lemma keeps_touch: "keeps gps_ok (touch_device ctx k ts)"
  unfolding touch_device_def update_device_def
  by (rule keeps_stmt) (auto simp: exec_iff device_ok_def intro!: gps_ok_update_device)

lemma keeps_upsert:
  assumes "dv_status d = DV_ACTIVE \<Longrightarrow> dv_tamperFlags d < TAMPER_SUSPEND_THRESHOLD"
  shows "keeps gps_ok (upsert_device ctx c d)"
  unfolding upsert_device_def
proof (rule keeps_stmt)
  fix t x t'
  assume t: "gps_ok t" and run: "bindE (need_uuid (dv_truckId d)) (\<lambda>_.
     bindE (need_company ctx c) (\<lambda>_.
     bindE (reads gt_trucks) (\<lambda>trucks.
     bindE (throw_if (dv_truckId d \<notin> set trucks) (constraint ''truck_id_fkey'')) (\<lambda>_.
     bindE (reads (\<lambda>t. find (\<lambda>r. dv_deviceId r = dv_deviceId d) (gt_devices t))) (\<lambda>old.
     case old of
       None \<Rightarrow> modifies (\<lambda>t. t\<lparr>gt_devices := gt_devices t @ [d\<lparr>dv_companyId := c\<rparr>]\<rparr>)
     | Some r \<Rightarrow>
         bindE (throw_if (\<not> tenant_ok ctx (Some (dv_companyId r))) rls_violation) (\<lambda>_.
         modifies (\<lambda>t. t\<lparr>gt_devices := update_where (\<lambda>r. dv_deviceId r = dv_deviceId d)
           (\<lambda>r. r\<lparr>dv_truckId := dv_truckId d, dv_sharedSecret := dv_sharedSecret d,
                  dv_status := dv_status d, dv_lastSeenTs := dv_lastSeenTs d,
                  dv_tamperFlags := dv_tamperFlags d\<rparr>) (gt_devices t)\<rparr>))))))) t = (Inr x, t')"
  from run have ids: "is_uuid (dv_truckId d)" "is_uuid c" "c \<in> set (gt_companies t)"
    by (auto simp: exec_iff)
  show "gps_ok t'"
  proof (cases "find (\<lambda>r. dv_deviceId r = dv_deviceId d) (gt_devices t)")
    case None
    with run have t': "t' = t\<lparr>gt_devices := gt_devices t @ [d\<lparr>dv_companyId := c\<rparr>]\<rparr>"
      by (auto simp: exec_iff)
    from None have "dv_deviceId d \<notin> dv_deviceId ` set (gt_devices t)"
      by (auto simp: find_None_iff')
    moreover have "device_ok (t\<lparr>gt_devices := ds\<rparr>) = device_ok t" for ds
      by (rule ext) (simp add: device_ok_def)
    ultimately show ?thesis using t assms ids by (auto simp: t' gps_ok_def device_ok_def)
  next
    case (Some r)
    with run have "t' = t\<lparr>gt_devices := update_where (\<lambda>r. dv_deviceId r = dv_deviceId d)
           (\<lambda>r. r\<lparr>dv_truckId := dv_truckId d, dv_sharedSecret := dv_sharedSecret d,
                  dv_status := dv_status d, dv_lastSeenTs := dv_lastSeenTs d,
                  dv_tamperFlags := dv_tamperFlags d\<rparr>) (gt_devices t)\<rparr>"
      by (auto simp: exec_iff)
    with t assms ids show ?thesis by (auto simp: device_ok_def intro!: gps_ok_update_device)
  qed
qed

lemma visible_device:
  assumes "gps_ok t"
    and "find (\<lambda>d. tenant_ok ctx (Some (dv_companyId d)) \<and> dv_deviceId d = k) (gt_devices t) = Some d"
  shows "d \<in> set (gt_devices t)" "dv_deviceId d = k" "device_ok t d"
    "tenant_ok ctx (Some (dv_companyId d))"
  using find_SomeD [OF assms(2)] assms(1) by (auto simp: gps_ok_def)

lemma get_device_success [exec_iff]:
  "get_device ctx k w = (Inr x, v) \<longleftrightarrow>
     \<not> gw_aborted w \<and> v = w \<and>
     x = find (\<lambda>d. tenant_ok ctx (Some (dv_companyId d)) \<and> dv_deviceId d = k) (gt_devices (gw_tables w))"
  by (auto simp: get_device_def exec_iff)

lemma keeps_register: "keeps gps_ok (register_device ctx c now inp)"
  unfolding register_device_def get_device_def Let_def
  by (intro keeps_bindE keeps_intros keeps_upsert) (simp add: TAMPER_SUSPEND_THRESHOLD_def)

lemma keeps_rotate: "keeps gps_ok (rotateSecret ctx c k secret)"
  unfolding rotateSecret_def get_device_def
  by (intro keeps_bindE keeps_intros keeps_upsert) (simp add: TAMPER_SUSPEND_THRESHOLD_def)

lemma keeps_bindTrip: "keeps gps_ok (bindTrip ctx c now k trip)"
  unfolding bindTrip_def
proof (rule keeps_stmt)
  fix t x t'
  assume t: "gps_ok t" and "bindE (need_company ctx c) (\<lambda>_.
     bindE (throw_if (\<not> is_bytes32 trip) (constraint ''gps_device_bindings_trip_id_check'')) (\<lambda>_.
     bindE (reads gt_devices) (\<lambda>ds.
     bindE (throw_if (k \<notin> dv_deviceId ` set ds) (constraint ''device_id_fkey'')) (\<lambda>_.
     bindE (reads (\<lambda>t. find (\<lambda>b. br_deviceId b = k) (gt_bindings t))) (\<lambda>old.
     case old of
       None \<Rightarrow> modifies (\<lambda>t. t\<lparr>gt_bindings := gt_bindings t @
                [\<lparr>br_deviceId = k, br_companyId = c, br_tripId = Some trip, br_since = now\<rparr>]\<rparr>)
     | Some b \<Rightarrow>
         bindE (throw_if (\<not> tenant_ok ctx (Some (br_companyId b))) rls_violation) (\<lambda>_.
         modifies (\<lambda>t. t\<lparr>gt_bindings := update_where (\<lambda>b. br_deviceId b = k)
           (\<lambda>b. b\<lparr>br_tripId := Some trip, br_since := now\<rparr>) (gt_bindings t)\<rparr>))))))) t = (Inr x, t')"
  then show "gps_ok t'"
    by (auto simp: exec_iff gps_ok_def device_ok_def set_update_where split: option.splits)
qed

lemma keeps_unbind: "keeps gps_ok (unbindTrip ctx k)"
  unfolding unbindTrip_def
  by (rule keeps_stmt) (auto simp: exec_iff gps_ok_def device_ok_def set_update_where)

lemma keeps_byTruck: "keeps I (byTruck ctx k)"
  unfolding byTruck_def by (rule keeps_stmt) (auto simp: exec_iff)

lemma keeps_startTrip: "keeps gps_ok (startTrip ctx c now truck trip)"
  unfolding startTrip_def by (intro keeps_bindE keeps_intros keeps_byTruck keeps_bindTrip)

lemma keeps_endTrip: "keeps gps_ok (endTrip ctx truck)"
proof -
  have "keeps gps_ok (case d of None \<Rightarrow> return () | Some d \<Rightarrow> unbindTrip ctx (dv_deviceId d))" for d
    by (cases d) (simp_all add: keeps_intros keeps_unbind)
  then show ?thesis unfolding endTrip_def by (intro keeps_bindE keeps_byTruck)
qed

lemma keeps_alert: "keeps gps_ok (raise_device_alert ctx c kind k detail sev)"
  unfolding raise_device_alert_def
  by (rule keeps_stmt) (auto simp: exec_iff intro: gps_ok_frame)

lemma incrementTamper_success:
  "incrementTamper ctx k w = (Inr n, v) \<longleftrightarrow>
     \<not> gw_aborted w \<and>
     v = w\<lparr>gw_tables := update_device ctx k (\<lambda>d. d\<lparr>dv_tamperFlags := dv_tamperFlags d + 1\<rparr>) (gw_tables w)\<rparr> \<and>
     n = (case find (\<lambda>d. tenant_ok ctx (Some (dv_companyId d)) \<and> dv_deviceId d = k) (gt_devices (gw_tables w)) of
            None \<Rightarrow> 0 | Some d \<Rightarrow> dv_tamperFlags d + 1)"
  by (auto simp: incrementTamper_def exec_iff update_device_def table_simps
      dest: find_SomeD split: option.splits)

lemma update_where_twice:
  "(\<And>r. p (g r) = p r) \<Longrightarrow> update_where p f (update_where p g rs) = update_where p (\<lambda>r. f (g r)) rs"
  by (induction rs) auto

lemma raise_device_alert_success:
  "raise_device_alert ctx c kind k detail sev w = (Inr x, v) \<longleftrightarrow>
     \<not> gw_aborted w \<and> is_uuid c \<and> tenant_ok ctx (Some c) \<and> c \<in> set (gt_companies (gw_tables w)) \<and>
     k \<in> dv_deviceId ` set (gt_devices (gw_tables w)) \<and>
     v = w\<lparr>gw_tables := (gw_tables w)\<lparr>gt_alerts := gt_alerts (gw_tables w) @
       [\<lparr>da_deviceId = k, da_companyId = c, da_kind = kind, da_severity = sev,
         da_detail = stringify detail\<rparr>]\<rparr>\<rparr>"
  by (auto simp: raise_device_alert_def exec_iff)

text \<open>The device row after one more tamper flag.\<close>

definition tamper_flagged :: "device \<Rightarrow> device" where
  "tamper_flagged d =
     (let n = dv_tamperFlags d + 1
      in d\<lparr>dv_tamperFlags := n,
           dv_status := (if TAMPER_SUSPEND_THRESHOLD \<le> n then DV_SUSPENDED else dv_status d)\<rparr>)"

lemma tamper_flagged_keys [simp]: "dv_deviceId (tamper_flagged d) = dv_deviceId d" "dv_companyId (tamper_flagged d) = dv_companyId d"
  by (simp_all add: tamper_flagged_def Let_def)

lemma update_where_cong:
  "(\<And>r. r \<in> set rs \<Longrightarrow> p r \<Longrightarrow> f r = g r) \<Longrightarrow> update_where p f rs = update_where p g rs"
  by (induction rs) auto

lemma flagTamper_devices:
  assumes "distinct (map dv_deviceId (gt_devices (gw_tables w)))"
    and "flagTamper ctx c k reason w = (Inr x, v)"
  shows "\<exists>a. gw_tables v = (update_device ctx k tamper_flagged (gw_tables w))\<lparr>gt_alerts := a\<rparr>"
proof -
  let ?t = "gw_tables w" and ?p = "\<lambda>d. tenant_ok ctx (Some (dv_companyId d)) \<and> dv_deviceId d = k"
  let ?inc = "\<lambda>d. d\<lparr>dv_tamperFlags := dv_tamperFlags d + 1\<rparr>"
  let ?sus = "\<lambda>d. d\<lparr>dv_status := DV_SUSPENDED\<rparr>"
  obtain n where n: "n = (case find ?p (gt_devices ?t) of None \<Rightarrow> 0 | Some d \<Rightarrow> dv_tamperFlags d + 1)"
    and fin: "\<exists>a. gw_tables v = (if TAMPER_SUSPEND_THRESHOLD \<le> n
        then update_device ctx k ?sus (update_device ctx k ?inc ?t\<lparr>gt_alerts := a\<rparr>)
        else update_device ctx k ?inc ?t\<lparr>gt_alerts := a\<rparr>)"
    using assms(2)
    by (fastforce simp: flagTamper_def exec_iff incrementTamper_success raise_device_alert_success
        setStatus_def split: if_splits)
  have one: "dv_tamperFlags d + 1 = n" if d: "d \<in> set (gt_devices ?t)" "?p d" for d
  proof -
    obtain d' where d': "find ?p (gt_devices ?t) = Some d'"
      using find_exists [of d "gt_devices ?t" ?p] d by blast
    with d find_SomeD [OF d'] assms(1) have "d = d'" by (auto dest: unique_key)
    with d' n show ?thesis by simp
  qed
  have low: "update_where ?p ?inc (gt_devices ?t) = update_where ?p tamper_flagged (gt_devices ?t)"
    if "\<not> TAMPER_SUSPEND_THRESHOLD \<le> n"
    using that one by (intro update_where_cong) (fastforce simp: tamper_flagged_def Let_def)
  have high: "update_where ?p ?sus (update_where ?p ?inc (gt_devices ?t)) =
      update_where ?p tamper_flagged (gt_devices ?t)" if "TAMPER_SUSPEND_THRESHOLD \<le> n"
    using that one by (subst update_where_twice) (auto intro!: update_where_cong simp: tamper_flagged_def Let_def)
  show ?thesis
  proof (cases "TAMPER_SUSPEND_THRESHOLD \<le> n")
    case True
    with fin obtain a where "gw_tables v = update_device ctx k ?sus (update_device ctx k ?inc ?t\<lparr>gt_alerts := a\<rparr>)"
      by auto
    with high [OF True] show ?thesis
      by (intro exI [of _ a]) (rule gps_tables.equality, simp_all add: update_device_def)
  next
    case False
    with fin low show ?thesis by (auto simp: update_device_def)
  qed
qed

lemma keeps_flagTamper: "keeps gps_ok (flagTamper ctx c k reason)"
proof (rule keepsI)
  fix w x v
  assume w: "gps_ok (gw_tables w)" and "flagTamper ctx c k reason w = (Inr x, v)"
  then obtain a where "gw_tables v = (update_device ctx k tamper_flagged (gw_tables w))\<lparr>gt_alerts := a\<rparr>"
    using flagTamper_devices [of w ctx c k reason x v] by (auto simp: gps_ok_def)
  moreover have "gps_ok (update_device ctx k tamper_flagged (gw_tables w))"
    unfolding update_device_def using w
    by (intro gps_ok_update_device) (auto simp: device_ok_def tamper_flagged_def Let_def)
  ultimately show "gps_ok (gw_tables v)" by (simp add: gps_ok_frame)
qed

lemma keeps_record_event: "keeps gps_ok (record_event c k b r)"
  unfolding record_event_def by (rule keeps_stmt) (auto simp: exec_iff intro: gps_ok_frame split: option.splits)

lemma keeps_metrics: "keeps gps_ok (metrics_accepted c k)" "keeps gps_ok (metrics_rejected c k r)"
  using keeps_record_event unfolding metrics_accepted_def metrics_rejected_def record_event_def
  by (blast intro: keeps_swallow_stmt)+

lemma keeps_reject: "keeps gps_ok (reject_ping g p r)"
  unfolding reject_ping_def by (intro keeps_bindE keeps_metrics keeps_intros)

lemma keeps_push: "keeps gps_ok (push_ping ctx c a)"
  unfolding push_ping_def by (rule keeps_stmt) (auto simp: exec_iff intro: gps_ok_frame)

lemma keeps_accept: "keeps gps_ok (accept_ping g p a)"
  unfolding accept_ping_def by (intro keeps_bindE keeps_push keeps_touch keeps_metrics keeps_intros)

lemma keeps_if: "keeps I a \<Longrightarrow> keeps I b \<Longrightarrow> keeps I (if c then a else b)"
  by simp

lemma keeps_option: "keeps I a \<Longrightarrow> (\<And>x. keeps I (b x)) \<Longrightarrow> keeps I (case y of None \<Rightarrow> a | Some x \<Rightarrow> b x)"
  by (cases y) auto

lemma keeps_ingest: "keeps gps_ok (ingest E g p)"
  unfolding ingest_def ingest_timed_def get_device_def activeBinding_def
  by (intro keeps_bindE keeps_if keeps_option keeps_reject keeps_accept keeps_flagTamper keeps_intros)

lemma keeps_sweep: "keeps gps_ok (sweepSilent ctx c now)"
proof -
  have "keeps gps_ok (silent_alert ctx c now d)" for d
    unfolding silent_alert_def activeBinding_def
    by (intro keeps_bindE keeps_option keeps_if keeps_alert keeps_intros)
  then show ?thesis
    unfolding sweepSilent_def listStale_def by (intro keeps_bindE keeps_for_each keeps_intros)
qed

text \<open>The calls that reach the tables, in any order and with any arguments.\<close>

inductive gps_call :: "('e) gps_env_scheme \<Rightarrow> gps \<Rightarrow> gps \<Rightarrow> bool" for E where
  "gps_call E w (snd (registerDevice c u now dto w))"
| "gps_call E w (snd (svc_rotateSecret c u k secret w))"
| "gps_call E w (snd (svc_startTrip c u now truck trip w))"
| "gps_call E w (snd (svc_endTrip c u truck None w))"
| "gps_call E w (snd (svc_ingest E now p w))"
| "gps_call E w (snd (svc_ingestBatch E now ps w))"
| "gps_call E w (snd (gps_tx (sweepSilent (Tenant c) c now) w))"

text \<open>C26: Whatever sequence of service calls runs, device ids stay unique, every device belongs to a
  registered company, a trip id on a binding is a 32-byte hash, and a device that is still ACTIVE
  has fewer than twenty tamper flags: the twentieth bad signature suspends it in the same
  transaction.\<close>

theorem tampered_device_is_suspended:
  assumes "gps_ok (gw_tables w)" and "(gps_call E)\<^sup>*\<^sup>* w w'"
  shows "gps_ok (gw_tables w')"
  using assms(2)
proof (induction rule: rtranclp_induct)
  case (step u v)
  from step.hyps(2) step.IH show ?case
  proof cases
    case 1
    then show ?thesis using step.IH unfolding registerDevice_def
      by (auto intro!: gps_tx_keeps keeps_rethrow keeps_bindE keeps_register keeps_intros)
  next
    case 2
    then show ?thesis using step.IH unfolding svc_rotateSecret_def
      by (auto intro!: gps_tx_keeps keeps_rethrow keeps_bindE keeps_rotate keeps_intros)
  next
    case 3
    then show ?thesis using step.IH unfolding svc_startTrip_def
      by (auto intro!: gps_tx_keeps keeps_rethrow keeps_bindE keeps_startTrip keeps_intros)
  next
    case 4
    then show ?thesis using step.IH unfolding svc_endTrip_def endTrip_on_def
      by (auto intro!: gps_tx_keeps keeps_bindE keeps_endTrip keeps_intros)
  next
    case 5
    then show ?thesis using step.IH unfolding svc_ingest_def get_device_def Let_def
      by (auto intro!: gps_tx_keeps keeps_bindE keeps_ingest keeps_intros)
  next
    case 6
    then show ?thesis using step.IH by (simp add: bulk_tables)
  next
    case 7
    then show ?thesis using step.IH by (auto intro!: gps_tx_keeps keeps_sweep)
  qed
qed (fact assms(1))

lemma toy_gps_ok: "gps_ok (toy_tables ps bs)"
  by (simp add: gps_ok_def device_ok_def toy_tables_def toy_device_def TAMPER_SUSPEND_THRESHOLD_def TRIP_ok)

theorem tampered_device_is_suspended_witness:
  "gps_ok (gw_tables (snd (svc_ingest toy_gps 5 toy_ping (gps_world [] [] toy_log))))"
proof (rule tampered_device_is_suspended)
  show "gps_ok (gw_tables (gps_world [] [] toy_log))" by (simp add: gps_world_def toy_gps_ok)
  show "(gps_call toy_gps)\<^sup>*\<^sup>* (gps_world [] [] toy_log)
      (snd (svc_ingest toy_gps 5 toy_ping (gps_world [] [] toy_log)))"
    by (rule r_into_rtranclp, rule gps_call.intros)
qed

section \<open>How one ping is judged\<close>

definition device_of :: "string \<Rightarrow> gps_tables \<Rightarrow> device option" where
  "device_of k t = find (\<lambda>d. dv_deviceId d = k) (gt_devices t)"

definition trip_of :: "string \<Rightarrow> gps_tables \<Rightarrow> string option" where
  "trip_of k t =
     (case find (\<lambda>b. br_deviceId b = k) (gt_bindings t) of None \<Rightarrow> None | Some b \<Rightarrow> br_tripId b)"

definition window_open :: "int \<Rightarrow> string \<Rightarrow> gps \<Rightarrow> bool" where
  "window_open now k w \<longleftrightarrow>
     rw_count (live_window now (gw_redis w (''gps:ratelimit:'' @ k))) < MAX_PER_WINDOW"

definition judge_known ::
  "('e) gps_env_scheme \<Rightarrow> int \<Rightarrow> gps_tables \<Rightarrow> device \<Rightarrow> raw_ping \<Rightarrow> ingest_result"
where
  "judge_known E now t d p =
     (if dv_status d \<noteq> DV_ACTIVE then Rejected DEVICE_INACTIVE
      else if \<not> verifyMac E p (dv_sharedSecret d) then Rejected BAD_MAC
      else if \<not> plausible p then Rejected OUT_OF_RANGE
      else if now + MAX_CLOCK_SKEW_S < rp_ts p then Rejected FUTURE
      else if rp_ts p < now - MAX_BACKFILL_S then Rejected STALE
      else case trip_of (rp_deviceId p) t of
        None \<Rightarrow> Rejected NO_ACTIVE_TRIP
      | Some k \<Rightarrow> Accepted (accepted_of p (dv_truckId d) k now))"

text \<open>The answer as one function of the tables and the rate window.\<close>

definition judge :: "('e) gps_env_scheme \<Rightarrow> int \<Rightarrow> gps \<Rightarrow> raw_ping \<Rightarrow> ingest_result" where
  "judge E now w p =
     (if \<not> window_open now (rp_deviceId p) w then Rejected RATE_LIMITED
      else case device_of (rp_deviceId p) (gw_tables w) of
        None \<Rightarrow> Rejected UNKNOWN_DEVICE
      | Some d \<Rightarrow> judge_known E now (gw_tables w) d p)"

definition event_of :: "string \<Rightarrow> string \<Rightarrow> ingest_result \<Rightarrow> ingest_event" where
  "event_of c k r =
     (case r of
        Accepted _ \<Rightarrow> \<lparr>ev_deviceId = k, ev_companyId = Some c, ev_accepted = True, ev_reason = None\<rparr>
      | Rejected why \<Rightarrow> \<lparr>ev_deviceId = k, ev_companyId = Some c, ev_accepted = False,
                          ev_reason = Some (reject_text why)\<rparr>)"

text \<open>What a run of the gateway may leave: the answer, its event and, when accepted, its ping.\<close>

definition run_ok :: "string \<Rightarrow> raw_ping \<Rightarrow> ingest_result \<Rightarrow> gps_tables \<Rightarrow> gps \<Rightarrow> bool" where
  "run_ok c p r t v \<longleftrightarrow>
     \<not> gw_aborted v \<and>
     gt_raw (gw_tables v) = gt_raw t @
       (case r of Accepted a \<Rightarrow> [\<lparr>rr_ping = a, rr_companyId = c\<rparr>] | Rejected _ \<Rightarrow> []) \<and>
     gt_events (gw_tables v) = gt_events t @ [event_of c (rp_deviceId p) r]"

lemma record_event_known:
  "is_uuid c \<Longrightarrow> \<not> gw_aborted w \<Longrightarrow>
   swallow (record_event (Some c) k b r) w = (Inr (), w\<lparr>gw_tables := (gw_tables w)\<lparr>gt_events :=
     gt_events (gw_tables w) @
       [\<lparr>ev_deviceId = k, ev_companyId = Some c, ev_accepted = b, ev_reason = r\<rparr>]\<rparr>\<rparr>)"
  by (simp add: swallow_def record_event_def stmt_def need_uuid_def throw_if_def bindE_def)

lemma reject_run:
  assumes "is_uuid (g_company g)" and "\<not> gw_aborted u"
    and "gt_raw (gw_tables u) = gt_raw t" and "gt_events (gw_tables u) = gt_events t"
  shows "\<exists>v. reject_ping g p why u = (Inr (Rejected why), v) \<and> run_ok (g_company g) p (Rejected why) t v"
  using assms
  by (simp add: reject_ping_def metrics_rejected_def bindE_def record_event_known run_ok_def event_of_def)

lemma accept_run:
  assumes g: "g_ctx g = System" "is_uuid (g_company g)" "g_company g \<in> set (gt_companies (gw_tables u))"
    and u: "\<not> gw_aborted u" "gt_raw (gw_tables u) = gt_raw t" "gt_events (gw_tables u) = gt_events t"
    and a: "is_uuid (ap_truckId a)" "is_bytes32 (ap_tripId a)" "rp_deviceId a = rp_deviceId p"
      "rp_deviceId p \<in> dv_deviceId ` set (gt_devices (gw_tables u))"
  shows "\<exists>v. accept_ping g p a u = (Inr (Accepted a), v) \<and> run_ok (g_company g) p (Accepted a) t v"
proof -
  define u1 where "u1 = u\<lparr>gw_tables := (gw_tables u)\<lparr>gt_raw := gt_raw (gw_tables u) @
    [\<lparr>rr_ping = a, rr_companyId = g_company g\<rparr>]\<rparr>\<rparr>"
  define u2 where "u2 = u1\<lparr>gw_tables := update_device System (rp_deviceId p)
    (\<lambda>d. d\<lparr>dv_lastSeenTs := Some (rp_ts p)\<rparr>) (gw_tables u1)\<rparr>"
  have 1: "push_ping (g_ctx g) (g_company g) a u = (Inr (), u1)"
    using assms by (auto simp: push_ping_def exec_iff u1_def)
  have 2: "touch_device (g_ctx g) (rp_deviceId p) (rp_ts p) u1 = (Inr (), u2)"
    using u g by (auto simp: touch_device_def exec_iff u1_def u2_def)
  have "\<not> gw_aborted u2" using u by (simp add: u1_def u2_def)
  note 3 = record_event_known [OF g(2) this, of "rp_deviceId p" True None]
  have run: "accept_ping g p a u = (Inr (Accepted a), u2\<lparr>gw_tables := (gw_tables u2)\<lparr>gt_events :=
     gt_events (gw_tables u2) @ [\<lparr>ev_deviceId = rp_deviceId p, ev_companyId = Some (g_company g),
       ev_accepted = True, ev_reason = None\<rparr>]\<rparr>\<rparr>)"
    using 1 2 3 by (simp add: accept_ping_def metrics_accepted_def bindE_def)
  show ?thesis
    by (rule exI, rule conjI, rule run)
      (use u in \<open>simp add: run_ok_def event_of_def u1_def u2_def update_device_def\<close>)
qed

lemma flag_run:
  assumes "is_uuid c" and "c \<in> set (gt_companies (gw_tables u))" and "\<not> gw_aborted u"
    and "k \<in> dv_deviceId ` set (gt_devices (gw_tables u))"
  shows "\<exists>v. flagTamper System c k reason u = (Inr (), v) \<and> \<not> gw_aborted v \<and>
    gt_raw (gw_tables v) = gt_raw (gw_tables u) \<and> gt_events (gw_tables v) = gt_events (gw_tables u)"
proof -
  obtain n u1 where 1: "incrementTamper System k u = (Inr n, u1)"
    and u1: "u1 = u\<lparr>gw_tables := update_device System k (\<lambda>d. d\<lparr>dv_tamperFlags := dv_tamperFlags d + 1\<rparr>) (gw_tables u)\<rparr>"
    using incrementTamper_success [of System k u] assms(3) by blast
  let ?detail = "JObj [(''reason'', JStr reason), (''count'', JNum (show_nat n))]"
  let ?sev = "if TAMPER_SUSPEND_THRESHOLD \<le> n then ''CRITICAL'' else ''WARN''"
  have "k \<in> dv_deviceId ` set (gt_devices (gw_tables u1))"
    using assms(4) by (simp add: u1 update_device_def map_update_where del: set_map flip: set_map)
  then obtain u2 where 2: "raise_device_alert System c ''DEVICE_TAMPER_FLAG'' k ?detail ?sev u1 = (Inr (), u2)"
    and u2: "\<exists>a. u2 = u1\<lparr>gw_tables := (gw_tables u1)\<lparr>gt_alerts := a\<rparr>\<rparr>"
    using assms(1-3) u1 by (fastforce simp: raise_device_alert_success update_device_def)
  have 3: "setStatus System k st u2 = (Inr (), u2\<lparr>gw_tables := update_device System k
      (\<lambda>d. d\<lparr>dv_status := st\<rparr>) (gw_tables u2)\<rparr>)" for st
    using u2 u1 assms(3) by (auto simp: setStatus_def exec_iff)
  show ?thesis
    using 1 2 3 u1 u2 assms(3)
    by (auto simp: flagTamper_def bindE_def update_device_def)
qed

lemma allow_run: "allow_ping now k w = (Inr (window_open now k w), snd (allow_ping now k w))"
  "gw_tables (snd (allow_ping now k w)) = gw_tables w"
  "gw_aborted (snd (allow_ping now k w)) = gw_aborted w"
  by (auto simp: allow_ping_def Let_def window_open_def)

lemma join_binding_system:
  assumes "device_of k t = Some d"
  shows "(case join_binding System k t of None \<Rightarrow> None | Some b \<Rightarrow> bi_tripId b) = trip_of k t"
    and "join_binding System k t = Some b \<Longrightarrow> bi_truckId b = dv_truckId d"
  using assms by (auto simp: join_binding_def trip_of_def device_of_def split: option.splits)

lemma timed_run:
  assumes t: "gps_ok t" and d: "device_of (rp_deviceId p) t = Some d"
    and u: "gw_tables u = t" "\<not> gw_aborted u"
    and pre: "dv_status d = DV_ACTIVE" "verifyMac E p (dv_sharedSecret d)" "plausible p"
  shows "\<exists>v. ingest_timed \<lparr>g_ctx = System, g_company = dv_companyId d, g_now = now\<rparr> p u =
      (Inr (judge_known E now t d p), v) \<and> run_ok (dv_companyId d) p (judge_known E now t d p) t v"
    (is "\<exists>v. ingest_timed ?g p u = _ \<and> _")
proof -
  from d find_SomeD [of _ "gt_devices t" d] have dd: "d \<in> set (gt_devices t)" "dv_deviceId d = rp_deviceId p"
    by (auto simp: device_of_def)
  with t have ok: "is_uuid (dv_companyId d)" "dv_companyId d \<in> set (gt_companies t)" "is_uuid (dv_truckId d)"
    by (auto simp: gps_ok_def device_ok_def)
  note no = reject_run [of ?g u t p, simplified, OF ok(1) u(2)]
  have bind: "activeBinding System (rp_deviceId p) u = (Inr (join_binding System (rp_deviceId p) t), u)"
    using u by (auto simp: activeBinding_def exec_iff)
  note trip = join_binding_system [OF d]
  consider "now + MAX_CLOCK_SKEW_S < rp_ts p" | "\<not> now + MAX_CLOCK_SKEW_S < rp_ts p" "rp_ts p < now - MAX_BACKFILL_S"
    | "\<not> now + MAX_CLOCK_SKEW_S < rp_ts p" "\<not> rp_ts p < now - MAX_BACKFILL_S" "trip_of (rp_deviceId p) t = None"
    | k where "\<not> now + MAX_CLOCK_SKEW_S < rp_ts p" "\<not> rp_ts p < now - MAX_BACKFILL_S"
        "trip_of (rp_deviceId p) t = Some k"
    by force
  then show ?thesis
  proof cases
    case 4
    then obtain b where b: "join_binding System (rp_deviceId p) t = Some b" "bi_tripId b = Some k"
      using trip(1) by (auto split: option.splits)
    have "is_bytes32 k"
      using 4(3) t by (auto simp: trip_of_def gps_ok_def dest!: find_SomeD split: option.splits)
    moreover from this have "k \<noteq> []" by (auto dest: is_bytes32_parts(4))
    ultimately show ?thesis
      using 4 b bind pre trip(2) [OF b(1)] dd ok u
        accept_run [of ?g u t "accepted_of p (dv_truckId d) k now" p]
      by (force simp: ingest_timed_def bindE_def judge_known_def accepted_of_def)
  next
    case 3
    have "(case join_binding System (rp_deviceId p) t of None \<Rightarrow> True | Some b \<Rightarrow> bi_tripId b = None)"
      using 3 trip(1) by (auto split: option.splits)
    with 3 bind pre u no [of NO_ACTIVE_TRIP] show ?thesis
      by (auto simp: ingest_timed_def bindE_def judge_known_def split: option.splits)
  qed (use pre u no [of FUTURE] no [of STALE] in \<open>simp_all add: ingest_timed_def judge_known_def\<close>)
qed

lemma known_run:
  assumes t: "gps_ok (gw_tables u)" and u: "\<not> gw_aborted u"
    and d: "device_of (rp_deviceId p) (gw_tables u) = Some d"
  shows "\<exists>v. ingest E \<lparr>g_ctx = System, g_company = dv_companyId d, g_now = now\<rparr> p u =
      (Inr (judge E now u p), v) \<and> run_ok (dv_companyId d) p (judge E now u p) (gw_tables u) v"
    (is "\<exists>v. ingest E ?g p u = _ \<and> _")
proof -
  let ?t = "gw_tables u" and ?u = "snd (allow_ping now (rp_deviceId p) u)"
  from d find_SomeD [of _ "gt_devices ?t" d] have dd: "d \<in> set (gt_devices ?t)" "dv_deviceId d = rp_deviceId p"
    by (auto simp: device_of_def)
  with t have ok: "is_uuid (dv_companyId d)" "dv_companyId d \<in> set (gt_companies ?t)"
    by (auto simp: gps_ok_def device_ok_def)
  have u': "\<not> gw_aborted ?u" "gw_tables ?u = ?t" using u by (simp_all add: allow_run(2,3))
  note no = reject_run [of ?g ?u ?t p, simplified, OF ok(1) u'(1)]
  have get: "get_device System (rp_deviceId p) ?u = (Inr (Some d), ?u)"
    using u' d by (simp add: get_device_success device_of_def)
  have start: "ingest E ?g p u = (if \<not> window_open now (rp_deviceId p) u then reject_ping ?g p RATE_LIMITED ?u
      else if dv_status d \<noteq> DV_ACTIVE then reject_ping ?g p DEVICE_INACTIVE ?u
      else if \<not> verifyMac E p (dv_sharedSecret d) then
        bindE (flagTamper System (dv_companyId d) (rp_deviceId p) ''BAD_MAC'') (\<lambda>_. reject_ping ?g p BAD_MAC) ?u
      else if \<not> plausible p then reject_ping ?g p OUT_OF_RANGE ?u
      else ingest_timed ?g p ?u)"
    by (simp add: ingest_def bindE_Inr_apply [where m = "allow_ping now (rp_deviceId p)", OF allow_run(1)] 
        bindE_Inr_apply [where m = "get_device System (rp_deviceId p)", OF get])
  have "rp_deviceId p \<in> dv_deviceId ` set (gt_devices (gw_tables ?u))" using dd u' by force
  with flag_run [of "dv_companyId d" ?u] ok u'
  obtain v where v: "flagTamper System (dv_companyId d) (rp_deviceId p) ''BAD_MAC'' ?u = (Inr (), v)"
    "\<not> gw_aborted v" "gt_raw (gw_tables v) = gt_raw ?t" "gt_events (gw_tables v) = gt_events ?t"
    by (metis (no_types, lifting))
  note flag = reject_run [of ?g v ?t p BAD_MAC, simplified, OF ok(1) v(2-4)]
  have j: "judge E now u p = (if \<not> window_open now (rp_deviceId p) u then Rejected RATE_LIMITED
      else judge_known E now ?t d p)"
    by (simp add: judge_def d)
  consider "\<not> window_open now (rp_deviceId p) u"
    | "window_open now (rp_deviceId p) u" "dv_status d \<noteq> DV_ACTIVE"
    | "window_open now (rp_deviceId p) u" "dv_status d = DV_ACTIVE" "\<not> verifyMac E p (dv_sharedSecret d)"
    | "window_open now (rp_deviceId p) u" "dv_status d = DV_ACTIVE" "verifyMac E p (dv_sharedSecret d)"
        "\<not> plausible p"
    | "window_open now (rp_deviceId p) u" "dv_status d = DV_ACTIVE" "verifyMac E p (dv_sharedSecret d)"
        "plausible p"
    by blast
  then show ?thesis
  proof cases
    case 1 with no [of RATE_LIMITED] u'(2) show ?thesis by (simp add: start j)
  next
    case 2 with no [of DEVICE_INACTIVE] u'(2) show ?thesis by (simp add: start j judge_known_def)
  next
    case 3 with flag v(1) show ?thesis by (simp add: start j judge_known_def bindE_Inr_apply)
  next
    case 4 with no [of OUT_OF_RANGE] u'(2) show ?thesis by (simp add: start j judge_known_def)
  next
    case 5 with timed_run [OF t d u'(2,1)] show ?thesis by (simp add: start j)
  qed
qed

lemma unknown_run:
  assumes u: "\<not> gw_aborted u" and d: "device_of (rp_deviceId p) (gw_tables u) = None"
  shows "\<exists>v. ingest E \<lparr>g_ctx = System, g_company = [], g_now = now\<rparr> p u = (Inr (judge E now u p), v) \<and>
      gw_aborted v"
    (is "\<exists>v. ingest E ?g p u = _ \<and> _")
proof -
  let ?u = "snd (allow_ping now (rp_deviceId p) u)"
  have get: "get_device System (rp_deviceId p) ?u = (Inr None, ?u)"
    using u d by (simp add: get_device_success device_of_def allow_run(2,3))
  have "ingest E ?g p u = (if \<not> window_open now (rp_deviceId p) u then reject_ping ?g p RATE_LIMITED ?u
      else reject_ping ?g p UNKNOWN_DEVICE ?u)"
    by (simp add: ingest_def bindE_Inr_apply [where m = "allow_ping now (rp_deviceId p)", OF allow_run(1)] 
        bindE_Inr_apply [where m = "get_device System (rp_deviceId p)", OF get])
  then show ?thesis using d by (simp add: reject_no_company judge_def)
qed

text \<open>C25: One ping to the public endpoint is judged by the checks in this order - rate window, known
  device, active device, device signature, plausible reading, clock skew, backlog, bound trip -
  and the call never throws. An accepted ping adds exactly its row to the raw table, a rejected one
  adds none, and the outcome is logged with its reason when the device is known; the refusal of
  an unknown device leaves no row in any table.\<close>

theorem single_ping_is_judged:
  assumes "gps_ok (gw_tables w)"
  shows "\<exists>v. svc_ingest E now p w = (Inr (judge E now w p), v) \<and>
    (case device_of (rp_deviceId p) (gw_tables w) of
       None \<Rightarrow> gw_tables v = gw_tables w \<and> (\<exists>why. judge E now w p = Rejected why)
     | Some d \<Rightarrow>
         gt_raw (gw_tables v) = gt_raw (gw_tables w) @
           (case judge E now w p of
              Accepted a \<Rightarrow> [\<lparr>rr_ping = a, rr_companyId = dv_companyId d\<rparr>] | Rejected _ \<Rightarrow> []) \<and>
         gt_events (gw_tables v) = gt_events (gw_tables w) @
           [event_of (dv_companyId d) (rp_deviceId p) (judge E now w p)])"
proof -
  let ?w = "w\<lparr>gw_aborted := False\<rparr>" and ?d = "device_of (rp_deviceId p) (gw_tables w)"
  let ?c = "case ?d of None \<Rightarrow> [] | Some d \<Rightarrow> dv_companyId d"
  have same: "judge E now ?w p = judge E now w p" by (simp add: judge_def window_open_def cong: option.case_cong)
  have first: "get_device System (rp_deviceId p) ?w = (Inr ?d, ?w)"
    by (simp add: get_device_success device_of_def)
  have body: "bindE (get_device System (rp_deviceId p)) (\<lambda>d.
      let companyId = (case d of None \<Rightarrow> [] | Some d \<Rightarrow> dv_companyId d) in
      ingest E \<lparr>g_ctx = System, g_company = companyId, g_now = now\<rparr> p) ?w =
      ingest E \<lparr>g_ctx = System, g_company = ?c, g_now = now\<rparr> p ?w"
    by (simp add: bindE_Inr_apply [where m = "get_device System (rp_deviceId p)", OF first])
  show ?thesis
  proof (cases ?d)
    case None
    with unknown_run [of ?w p E now] obtain v where
      "ingest E \<lparr>g_ctx = System, g_company = [], g_now = now\<rparr> p ?w = (Inr (judge E now w p), v)" "gw_aborted v"
      by (auto simp: same)
    with None body show ?thesis by (simp add: svc_ingest_def gps_tx_def judge_def)
  next
    case (Some d)
    with known_run [of ?w p d E now] assms obtain v where
      "ingest E \<lparr>g_ctx = System, g_company = dv_companyId d, g_now = now\<rparr> p ?w = (Inr (judge E now w p), v)"
      "run_ok (dv_companyId d) p (judge E now w p) (gw_tables w) v"
      by (auto simp: same)
    with Some body show ?thesis by (simp add: svc_ingest_def gps_tx_def run_ok_def)
  qed
qed

lemma toy_judged:
  "judge toy_gps 5 (gps_world [] [] toy_log) toy_ping = Accepted (accepted_of toy_ping UUID TRIP 5)"
proof -
  have mac: "verifyMac toy_gps toy_ping ''s''"
    by (simp add: verifyMac_def toy_ping_def toy_gps_def canonicalPing_def)
  have win: "window_open 5 k (gps_world [] [] toy_log)" for k
    by (simp add: window_open_def gps_world_def live_window_def MAX_PER_WINDOW_def)
  have "device_of ''dev'' (toy_tables [] []) = Some toy_device" "trip_of ''dev'' (toy_tables [] []) = Some TRIP"
    by (simp_all add: device_of_def trip_of_def toy_tables_def toy_device_def)
  moreover have "plausible toy_ping" "rp_deviceId toy_ping = ''dev''" "rp_ts toy_ping = 5"
    by (simp_all add: plausible_def toy_ping_def)
  ultimately show ?thesis
    using mac win by (simp add: judge_def judge_known_def gps_world_def toy_device_def
        MAX_CLOCK_SKEW_S_def MAX_BACKFILL_S_def)
qed

theorem single_ping_is_judged_witness:
  "\<exists>v. svc_ingest toy_gps 5 toy_ping (gps_world [] [] toy_log) =
      (Inr (Accepted (accepted_of toy_ping UUID TRIP 5)), v) \<and>
    gt_raw (gw_tables v) = [\<lparr>rr_ping = accepted_of toy_ping UUID TRIP 5, rr_companyId = UUID\<rparr>]"
proof -
  have "gps_ok (gw_tables (gps_world [] [] toy_log))" by (simp add: gps_world_def toy_gps_ok)
  from single_ping_is_judged [OF this, of toy_gps 5 toy_ping]
  obtain v where "svc_ingest toy_gps 5 toy_ping (gps_world [] [] toy_log) =
      (Inr (Accepted (accepted_of toy_ping UUID TRIP 5)), v)"
    and v: "case device_of (rp_deviceId toy_ping) (gw_tables (gps_world [] [] toy_log)) of
       None \<Rightarrow> False
     | Some d \<Rightarrow> gt_raw (gw_tables v) = gt_raw (gw_tables (gps_world [] [] toy_log)) @
         [\<lparr>rr_ping = accepted_of toy_ping UUID TRIP 5, rr_companyId = dv_companyId d\<rparr>]"
    unfolding toy_judged by (auto split: option.splits)
  moreover have "device_of (rp_deviceId toy_ping) (gw_tables (gps_world [] [] toy_log)) = Some toy_device"
    by (simp add: device_of_def gps_world_def toy_tables_def toy_device_def toy_ping_def)
  ultimately show ?thesis by (simp add: gps_world_def toy_tables_def toy_device_def)
qed

end
