(* ===== verification/Anchor_Properties.thy ===== *)
theory Anchor_Properties imports Gps_Samples begin

text \<open>
  Anchored telemetry: the windows of a trip, the worker that puts them on the chain, the proof of
  a moment, the local check of a proof, and the sums of a timeline.
\<close>

section \<open>Windows\<close>

text \<open>C27: However pings arrive, windows close and anchors come back, the batches of a trip are only
  appended to and no instant ever lies in two of them; a batch closed later holds only pings newer
  than every window already closed, so a ping that arrives behind the last window is in no batch.\<close>

theorem closed_windows_are_final:
  assumes run: "(batch_step E ctx)\<^sup>*\<^sup>* w w'" and start: "ordered_windows (batch_windows ctx k w)"
  shows "(\<exists>new. batch_windows ctx k w' = batch_windows ctx k w @ new) \<and>
    (\<forall>x. length (covering x (batch_windows ctx k w')) \<le> 1) \<and>
    (\<forall>c upTo b v. closeWindow E ctx c k upTo w' = (Inr (Some b), v) \<longrightarrow>
       (\<forall>p \<in> set (b_pings b). \<forall>win \<in> set (batch_windows ctx k w). snd win < sp_ts p))"
proof (intro conjI allI impI ballI)
  show new: "\<exists>new. batch_windows ctx k w' = batch_windows ctx k w @ new"
    using run start by (rule batch_table.run_prefix)
  show "length (covering x (batch_windows ctx k w')) \<le> 1" for x
    using run start by (rule batch_table.run_covering)
  fix c upTo b v p win
  assume close: "closeWindow E ctx c k upTo w' = (Inr (Some b), v)" and p: "p \<in> set (b_pings b)"
    and win: "win \<in> set (batch_windows ctx k w)"
  from new win have "win \<in> set (batch_windows ctx k w')" by auto
  then obtain r where r: "r \<in> set (visible_batches ctx k (gw_tables w'))" "snd win = ba_toTs r"
    by (auto simp: batch_windows_def)
  from close show "snd win < sp_ts p"
  proof (cases rule: closeWindow_cases)
    case (closed leaves)
    with p have "p \<in> set (usable_now ctx k upTo (gw_tables w'))" by (simp add: batch_of_def)
    from usable_now_facts(3) [OF this r(1)] r(2) show ?thesis by simp
  next
    case same
    from same(2) [of b] show ?thesis by simp
  qed
qed

theorem closed_windows_are_final_witness:
  "length (covering 5 (batch_windows System TRIP (gps_world [toy_signed 5, toy_signed 6] [toy_row 5 None] toy_log))) \<le> 1"
proof -
  let ?w = "gps_world [toy_signed 5] [toy_row 5 None] toy_log"
  have "batch_step toy_gps System ?w (?w\<lparr>gw_tables := (gw_tables ?w)\<lparr>gt_pings := gt_pings (gw_tables ?w) @
      [\<lparr>sr_ping = toy_signed 6, sr_companyId = UUID\<rparr>]\<rparr>\<rparr>)"
    by (rule batch_step.arrive)
  then have "(batch_step toy_gps System)\<^sup>*\<^sup>* ?w (gps_world [toy_signed 5, toy_signed 6] [toy_row 5 None] toy_log)"
    by (intro r_into_rtranclp) (simp add: gps_world_def toy_tables_def)
  moreover have "ordered_windows (batch_windows System TRIP ?w)"
    by (simp add: batch_windows_def visible_batches_def toy_gps_simps)
  ultimately show ?thesis using closed_windows_are_final by blast
qed

section \<open>The worker\<close>

lemma bindE_need_Some: "bindE (need (Some v) e) k = k v"
  by (rule ext) (simp add: bindE_def)

definition word_window :: "int \<times> int \<Rightarrow> 64 word \<times> 64 word" where
  "word_window x = (of_int (fst x), of_int (snd x))"

definition uint64_window :: "int \<times> int \<Rightarrow> bool" where
  "uint64_window x \<longleftrightarrow> 0 \<le> fst x \<and> fst x \<le> snd x \<and> snd x < 2 ^ 64"

lemma of_int_64_less:
  assumes "0 \<le> a" and "0 \<le> b" and "a < 2 ^ 64" and "b < 2 ^ 64"
  shows "(of_int a :: 64 word) < of_int b \<longleftrightarrow> a < b" "(of_int a :: 64 word) \<le> of_int b \<longleftrightarrow> a \<le> b"
  using uint_of_int_64 [of a] uint_of_int_64 [of b] assms by (simp_all add: word_less_def word_le_def)

lemma abi_bytes32_ok: "is_bytes32 s \<Longrightarrow> abi_bytes32 s = Some s"
proof -
  assume s: "is_bytes32 s"
  then have "matches ''0x'' any_hex 64 s"
    by (auto simp: is_bytes32_def matches_iff any_hex_def list_all_iff)
  with s show ?thesis by (simp add: abi_bytes32_def to_lower_bytes32)
qed

lemma anchorBatch_next:
  assumes "tl_isAnchorer c (msg_sender g)" and "rt \<noteq> zero_bytes32"
    and win: "trip_windows k c = map word_window ws" "ordered_windows (ws @ [(f, t)])"
      "\<forall>x \<in> set (ws @ [(f, t)]). uint64_window x"
  shows "\<exists>c'. anchorBatch g k rt (of_int f) (of_int t) c = Inr c' \<and>
    trip_windows k c' = map word_window (ws @ [(f, t)]) \<and> logged_index c' = length ws"
proof -
  from win(2,3) have ft: "f \<le> t" "0 \<le> f" "t < 2 ^ 64" by (auto simp: uint64_window_def ordered_windows_snoc)
  then have le: "\<not> (of_int t :: 64 word) < of_int f" using of_int_64_less(1) [of t f] by simp
  have len: "length (tl_batches c k) = length ws"
    using arg_cong [OF win(1), of length] by (simp add: trip_windows_def)
  have over: "\<not> (of_int f :: 64 word) \<le> tb_toTs (last (tl_batches c k))" if ne: "tl_batches c k \<noteq> []"
  proof -
    from ne have "ws \<noteq> []" using len by auto
    then have last: "snd (last ws) < f" "uint64_window (last ws)"
      using win(2,3) by (auto simp: ordered_windows_snoc)
    have "tb_toTs (last (tl_batches c k)) = snd (last (trip_windows k c))"
      using ne by (simp add: trip_windows_def last_map)
    also have "\<dots> = of_int (snd (last ws))"
      using win(1) \<open>ws \<noteq> []\<close> by (simp add: last_map word_window_def)
    finally have "tb_toTs (last (tl_batches c k)) = of_int (snd (last ws))" .
    moreover have "(of_int (snd (last ws)) :: 64 word) < of_int f"
      using of_int_64_less(1) [of "snd (last ws)" f] last ft by (simp add: uint64_window_def)
    ultimately show ?thesis by simp
  qed
  define c' where "c' = trip_emit (BatchAnchored k (length ws) rt (of_int f) (of_int t))
    (c\<lparr>tl_batches := (tl_batches c)(k := tl_batches c k @
       [\<lparr>tb_root = rt, tb_fromTs = of_int f, tb_toTs = of_int t,
         tb_anchoredAt = of_nat (block_timestamp g)\<rparr>])\<rparr>)"
  have "anchorBatch g k rt (of_int f) (of_int t) c = Inr c'"
    using assms(1,2) le over len by (auto simp: anchorBatch_def Let_def c'_def)
  moreover have "trip_windows k c' = map word_window (ws @ [(f, t)])"
    using win(1) by (simp add: c'_def trip_windows_def trip_emit_def word_window_def)
  moreover have "logged_index c' = length ws" by (simp add: c'_def logged_index_def trip_emit_def)
  ultimately show ?thesis by blast
qed

definition anchored :: "nat \<Rightarrow> string \<Rightarrow> batch_row \<Rightarrow> batch_row" where
  "anchored i h b = b\<lparr>ba_batchIndex := Some i, ba_chainTx := Some h\<rparr>"

definition row_job :: "batch_row \<Rightarrow> anchor_job \<Rightarrow> bool" where
  "row_job r j \<longleftrightarrow>
     aj_tripId j = ba_tripId r \<and> aj_root j = ba_root r \<and> aj_fromTs j = ba_fromTs r \<and> aj_toTs j = ba_toTs r"

lemma update_first_visible:
  assumes "distinct (map ba_id rs)" and "filter q rs = done @ r # rest"
    and "\<And>b. q (anchored i h b) = q b"
  shows "filter q (update_where (\<lambda>b. ba_id b = ba_id r) (anchored i h) rs) = done @ anchored i h r # rest"
proof -
  have "filter q (update_where (\<lambda>b. ba_id b = ba_id r) (anchored i h) rs) =
      update_where (\<lambda>b. ba_id b = ba_id r) (anchored i h) (filter q rs)"
    using assms(3) by (induction rs) auto
  also have "\<dots> = done @ anchored i h r # rest"
  proof -
    have "distinct (map ba_id (filter q rs))" using assms(1) by (simp add: distinct_map_filter)
    then have "distinct (map ba_id (done @ r # rest))" by (simp only: assms(2))
    then have "ba_id r \<notin> ba_id ` set done" "ba_id r \<notin> ba_id ` set rest" by auto
    then have "\<And>b. b \<in> set done \<Longrightarrow> ba_id b \<noteq> ba_id r" "\<And>b. b \<in> set rest \<Longrightarrow> ba_id b \<noteq> ba_id r"
      by (metis image_eqI)+
    then have "update_where (\<lambda>b. ba_id b = ba_id r) (anchored i h) done = done"
      "update_where (\<lambda>b. ba_id b = ba_id r) (anchored i h) rest = rest"
      by (simp_all add: update_where_none)
    then show ?thesis by (simp add: assms(2) update_where_def)
  qed
  finally show ?thesis .
qed

lemma find_append_first: "\<forall>x \<in> set xs. \<not> P x \<Longrightarrow> P y \<Longrightarrow> find P (xs @ y # ys) = Some y"
  by (induction xs) auto

lemma mark_first:
  assumes "distinct (map ba_id (gt_batches (gw_tables w)))"
    and vis: "visible_batches ctx k (gw_tables w) = done @ r # rest"
    and "\<forall>b \<in> set done. ba_batchIndex b \<noteq> None" and "ba_batchIndex r = None"
  shows "\<exists>v. gps_tx (markAnchored ctx k i h) w = (Inr (), v) \<and> gw_log v = gw_log w \<and>
    visible_batches ctx k (gw_tables v) = done @ anchored i h r # rest"
proof -
  let ?t = "gw_tables w"
  have old: "oldest_open ctx k ?t = Some r"
    unfolding oldest_open_def vis by (rule find_append_first) (use assms in auto)
  let ?rows = "update_where (\<lambda>b. ba_id b = ba_id r) (anchored i h) (gt_batches ?t)"
  have "gps_tx (markAnchored ctx k i h) w = (Inr (), w\<lparr>gw_tables := ?t\<lparr>gt_batches := ?rows\<rparr>\<rparr>)"
    using old by (simp add: gps_tx_def markAnchored_def stmt_def anchored_def [abs_def])
  moreover have "visible_batches ctx k (?t\<lparr>gt_batches := ?rows\<rparr>) = done @ anchored i h r # rest"
    using update_first_visible [OF assms(1), of _ "done" r rest i h] vis
    by (simp add: visible_batches_def anchored_def)
  ultimately show ?thesis by simp
qed

text \<open>C28: When the batches of a trip are anchored in the order they were closed, the contract takes the
  next one: the job returns the position of its window in the contract's list, exactly its own row
  gets that index and the transaction hash, and the contract's windows are again those of the rows.\<close>

theorem in_order_job_anchors_its_row:
  fixes E :: "('e) gps_env_scheme"
  assumes ids: "distinct (map ba_id (gt_batches (gw_tables w)))"
    and vis: "visible_batches ctx k (gw_tables w) = done @ r # rest"
    and marked: "\<forall>b \<in> set done. ba_batchIndex b \<noteq> None" "ba_batchIndex r = None"
    and chain: "trip_windows k (gw_log w) = map word_window (map (\<lambda>b. (ba_fromTs b, ba_toTs b)) done)"
    and wins: "ordered_windows (map (\<lambda>b. (ba_fromTs b, ba_toTs b)) (done @ [r]))"
      "\<forall>b \<in> set (done @ [r]). uint64_window (ba_fromTs b, ba_toTs b)"
    and shape: "is_bytes32 k" "is_bytes32 (ba_root r)" "ba_root r \<noteq> zero_bytes32"
    and anchorer: "tl_isAnchorer (gw_log w) (platform_account E)"
    and job: "row_job r j" "ba_tripId r = k" and receipt: "cr_receiptLost R = None"
  shows "\<exists>v. work_job E R ctx n j w = (Inr (JobAnchored (cr_txHash R) (length done)), v) \<and>
    visible_batches ctx k (gw_tables v) = done @ anchored (length done) (cr_txHash R) r # rest \<and>
    trip_windows k (gw_log v) = trip_windows k (gw_log w) @ [word_window (ba_fromTs r, ba_toTs r)]"
proof -
  let ?f = "ba_fromTs r" and ?t = "ba_toTs r" and ?g = "platform_msg E (cr_blockTime R)"
  have win: "uint64_window (?f, ?t)" using wins(2) by simp
  obtain c where c: "anchorBatch ?g k (ba_root r) (of_int ?f) (of_int ?t) (gw_log w) = Inr c"
    and cw: "trip_windows k c = map word_window (map (\<lambda>b. (ba_fromTs b, ba_toTs b)) done @ [(?f, ?t)])"
    and ci: "logged_index c = length done"
    using anchorBatch_next [of "gw_log w" ?g "ba_root r" k "map (\<lambda>b. (ba_fromTs b, ba_toTs b)) done" ?f ?t]
      anchorer shape(3) chain wins by (auto simp: platform_msg_def)
  define w1 where "w1 = w\<lparr>gw_log := c\<rparr>"
  have 1: "on_log (anchorTripBatch E (cr_wording R) (cr_blockTime R) (cr_txHash R)
      (aj_tripId j) (aj_root j) (aj_fromTs j) (aj_toTs j)) w = (Inr (cr_txHash R), w1)"
    using c shape win job
    by (simp add: on_log_def anchorTripBatch_def row_job_def abi_bytes32_ok abi_uint64_def
        uint64_window_def send_trip_def w1_def bindE_need_Some)
  obtain v where 2: "gps_tx (markAnchored ctx k (length done) (cr_txHash R)) w1 = (Inr (), v)"
    and v: "gw_log v = c" "visible_batches ctx k (gw_tables v) = done @ anchored (length done) (cr_txHash R) r # rest"
    using mark_first [of w1 ctx k "done" r rest "length done" "cr_txHash R"] ids vis marked
    by (auto simp: w1_def)
  have trip: "aj_tripId j = k" using job by (simp add: row_job_def)
  have 3: "logged_index (gw_log w1) = length done" by (simp add: w1_def ci)
  have "anchor_try E R ctx j w = (Inr (JobAnchored (cr_txHash R) (length done)),
      v\<lparr>gw_metrics := gw_metrics v @ [Anchored k (aj_pingCount j) (cr_latencyMs R)]\<rparr>)"
    using 1 2 3 receipt trip
    by (simp add: anchor_try_def bindE_def throw_if_apply add_metric_def)
  with v cw chain show ?thesis by (simp add: work_job_def)
qed

theorem in_order_job_anchors_its_row_witness:
  "\<exists>v. work_job toy_gps (toy_run None) System 0 toy_job (gps_world [toy_signed 5] [toy_row 5 None] toy_log) =
      (Inr (JobAnchored ''0x1'' 0), v) \<and>
    visible_batches System TRIP (gw_tables v) = [anchored 0 ''0x1'' (toy_row 5 None)]"
proof -
  let ?w = "gps_world [toy_signed 5] [toy_row 5 None] toy_log"
  have "\<exists>v. work_job toy_gps (toy_run None) System 0 toy_job ?w =
      (Inr (JobAnchored (cr_txHash (toy_run None)) (length ([] :: batch_row list))), v) \<and>
    visible_batches System TRIP (gw_tables v) =
      [] @ anchored (length ([] :: batch_row list)) (cr_txHash (toy_run None)) (toy_row 5 None) # [] \<and>
    trip_windows TRIP (gw_log v) = trip_windows TRIP (gw_log ?w) @ [word_window (ba_fromTs (toy_row 5 None), ba_toTs (toy_row 5 None))]"
    by (rule in_order_job_anchors_its_row)
      (simp_all add: toy_gps_simps visible_batches_def uint64_window_def TRIP_ok HASH_ok row_job_def
        trip_windows_def toy_log_def trip_deployed_def toy_gps_def)
  then show ?thesis by (auto simp: toy_run_def)
qed

text \<open>If the transaction was mined but waiting for its receipt failed, the job fails although its
  window is on the chain. The retry is refused for the overlap with the job's own window, is
  reported as already anchored, and writes nothing to the tables: the row stays open, and the next
  job of the trip will find it as the oldest open row.\<close>

theorem lost_receipt_leaves_row_open:
  fixes E :: "('e) gps_env_scheme"
  assumes first: "on_log (anchorTripBatch E (cr_wording R) (cr_blockTime R) (cr_txHash R)
      (aj_tripId j) (aj_root j) (aj_fromTs j) (aj_toTs j)) w = (Inr h, w1)"
    and lost: "cr_receiptLost R = Some m" "\<not> str_includes ''TimeOverlap'' m"
    and retry: "str_includes ''TimeOverlap'' (cr_wording R2 TimeOverlap)"
  shows "\<exists>v u. work_job E R ctx n j w = (Inl (Error m), v) \<and> gw_tables v = gw_tables w \<and>
    gw_log v = gw_log w1 \<and> work_job E R2 ctx n2 j v = (Inr JobSkipped, u) \<and>
    gw_tables u = gw_tables w \<and> gw_log u = gw_log w1"
proof -
  obtain k r f t c where a: "abi_bytes32 (aj_tripId j) = Some k" "abi_bytes32 (aj_root j) = Some r"
      "abi_uint64 (aj_fromTs j) = Some f" "abi_uint64 (aj_toTs j) = Some t"
    and c: "anchorBatch (platform_msg E (cr_blockTime R)) k r f t (gw_log w) = Inr c" "w1 = w\<lparr>gw_log := c\<rparr>"
    using first by (auto simp: on_log_def anchorTripBatch_def exec_iff split: prod.splits)
  note b = anchorBatch_cases [OF c(1)]
  have anchorer: "tl_isAnchorer c = tl_isAnchorer (gw_log w)"
    using c(1) by (auto simp: anchorBatch_def trip_emit_def Let_def split: if_splits)
  define v where "v = w1\<lparr>gw_metrics := gw_metrics w @ [Failed (aj_tripId j) (n + 1) m]\<rparr>"
  have v: "gw_tables v = gw_tables w" "gw_log v = c" by (simp_all add: v_def c(2))
  have try1: "anchor_try E R ctx j w = (Inl (Error m), w1)"
    using lost by (simp add: anchor_try_def bindE_def first throw_if_def coalesce_def)
  have run1: "work_job E R ctx n j w = (Inl (Error m), v)"
    using lost by (simp add: work_job_def try1 add_metric_def v_def c(2))
  have "anchorBatch (platform_msg E (cr_blockTime R2)) k r f t c = Inl TimeOverlap"
    using b anchorer by (simp add: anchorBatch_def platform_msg_def Let_def)
  then have "on_log (anchorTripBatch E (cr_wording R2) (cr_blockTime R2) (cr_txHash R2)
      (aj_tripId j) (aj_root j) (aj_fromTs j) (aj_toTs j)) v = (Inl (Error (cr_wording R2 TimeOverlap)), v)"
    using v(2) by (auto simp: on_log_def anchorTripBatch_def a send_trip_def bindE_need_Some)
  then have try2: "anchor_try E R2 ctx j v = (Inl (Error (cr_wording R2 TimeOverlap)), v)"
    by (simp add: anchor_try_def bindE_def)
  have "work_job E R2 ctx n2 j v = (Inr JobSkipped, v\<lparr>gw_metrics := gw_metrics v @
      [Failed (aj_tripId j) (n2 + 1) (cr_wording R2 TimeOverlap)]\<rparr>)"
    using retry by (simp add: work_job_def try2 add_metric_def)
  with run1 v show ?thesis by (simp add: c(2))
qed

theorem lost_receipt_leaves_row_open_witness:
  "\<exists>v u. work_job toy_gps (toy_run (Some ''timeout'')) System 0 toy_job
        (gps_world [toy_signed 5] [toy_row 5 None] toy_log) = (Inl (Error ''timeout''), v) \<and>
    work_job toy_gps (toy_run None) System 1 toy_job v = (Inr JobSkipped, u) \<and>
    gt_batches (gw_tables u) = [toy_row 5 None]"
proof -
  let ?w = "gps_world [toy_signed 5] [toy_row 5 None] toy_log"
  have "on_log (anchorTripBatch toy_gps (cr_wording (toy_run (Some ''timeout''))) (cr_blockTime (toy_run (Some ''timeout'')))
      (cr_txHash (toy_run (Some ''timeout''))) (aj_tripId toy_job) (aj_root toy_job) (aj_fromTs toy_job) (aj_toTs toy_job)) ?w =
      (Inr ''0x1'', snd (on_log (anchorTripBatch toy_gps (\<lambda>_. ''TimeOverlap()'') 9 ''0x1'' TRIP HASH 5 5) ?w))"
    by (simp add: toy_run_def toy_job_def on_log_def anchorTripBatch_def abi_bytes32_ok TRIP_ok HASH_ok
        abi_uint64_def bindE_need_Some send_trip_def anchorBatch_def gps_world_def toy_log_def
        trip_deployed_def platform_msg_def toy_gps_def)
  from lost_receipt_leaves_row_open [OF this, of "''timeout''" "toy_run None" System 0 1]
  show ?thesis by (auto simp: toy_run_def starts_with_def gps_world_def toy_tables_def)
qed

section \<open>Proofs of a moment\<close>

lemma sum_list_map_Inr:
  "sum_list_map f xs = Inr ys \<Longrightarrow> length ys = length xs \<and> (\<forall>x \<in> set xs. \<exists>y \<in> set ys. f x = Inr y) \<and>
     (\<forall>y \<in> set ys. \<exists>x \<in> set xs. f x = Inr y)"
  by (induction xs arbitrary: ys) (fastforce split: sum.splits)+

lemma pingLeaf_ok: "keccak_ok E \<Longrightarrow> pingLeaf E p = Inr l \<Longrightarrow> is_bytes32 l"
  by (auto simp: pingLeaf_def hash_packed_def keccak_okD split: option.splits)

lemma read_log_success [exec_iff]:
  "read_log f w = (Inr x, v) \<longleftrightarrow> f (gw_log w) = Inr x \<and> v = w"
  by (auto simp: read_log_def split: sum.splits)

lemma foldl_nearest:
  "foldl (\<lambda>best p. if \<bar>sp_ts p - ts\<bar> < \<bar>sp_ts best - ts\<bar> then p else best) b ps \<in> set (b # ps) \<and>
   (\<forall>q \<in> set (b # ps).
      \<bar>sp_ts (foldl (\<lambda>best p. if \<bar>sp_ts p - ts\<bar> < \<bar>sp_ts best - ts\<bar> then p else best) b ps) - ts\<bar>
        \<le> \<bar>sp_ts q - ts\<bar>)"
proof (induction ps arbitrary: b)
  case (Cons p ps)
  from Cons [of p] Cons [of b] show ?case by (auto split: if_splits)
qed simp

lemma nearest_facts:
  assumes "ps \<noteq> []"
  shows "nearest ts ps \<in> set ps" "q \<in> set ps \<Longrightarrow> \<bar>sp_ts (nearest ts ps) - ts\<bar> \<le> \<bar>sp_ts q - ts\<bar>"
  using foldl_nearest [of ts "hd ps" "tl ps"] assms by (auto simp: nearest_def)

text \<open>C29: A proof of a moment carries the leaf of a ping of the covering batch nearest to the instant
  asked for, and it verifies on the chain exactly when the pings the archive now holds for that
  window still hash to the root that was anchored.\<close>

theorem moment_proof_checks_the_archive:
  fixes E :: "('e) proof_env_scheme"
  assumes lib: "merkle_ok E" "keccak_ok E"
    and run: "proveMoment E ctx k ts w = (Inr (Some pf), v)"
  shows "\<exists>b ps leaves onchain.
    covering_batch ctx k ts (gw_tables w) = Some b \<and>
    ps = trip_pings ctx k (\<lambda>x. ba_fromTs b \<le> x \<and> x \<le> ba_toTs b) (gw_tables w) \<and>
    buildTree E ps = Inr leaves \<and>
    getBatch (to_lower k) (pp_batchIndex pf) (gw_log w) = Inr onchain \<and> pp_root pf = tb_root onchain \<and>
    (\<exists>p \<in> set ps. pp_ts pf = sp_ts p \<and> pingLeaf E p = Inr (pp_leaf pf) \<and>
       (\<forall>q \<in> set ps. \<bar>sp_ts p - ts\<bar> \<le> \<bar>sp_ts q - ts\<bar>)) \<and>
    (pp_verifiedOnChain pf \<longleftrightarrow> tree_root E leaves = tb_root onchain)"
proof -
  obtain b where b: "covering_batch ctx k ts (gw_tables w) = Some b" and idle: "\<not> gw_aborted w"
    using run by (auto simp: proveMoment_def batchPingsAt_def exec_iff split: option.splits)
  define ps where "ps = trip_pings ctx k (\<lambda>x. ba_fromTs b \<le> x \<and> x \<le> ba_toTs b) (gw_tables w)"
  let ?i = "the (ba_batchIndex b)"
  have got: "batchPingsAt ctx k ts w = (Inr (Some (ps, ?i)), w)"
    using b idle by (simp add: batchPingsAt_def bindE_def stmt_def ps_def)
  have ne: "ps \<noteq> []"
    using run by (auto simp: proveMoment_def bindE_Inr_apply [where m = "batchPingsAt ctx k ts", OF got])
  obtain leaves pth leaf onchain ok where
    leaves: "buildTree E ps = Inr leaves" and pr: "proofFor E leaves (nearest ts ps) = Inr pth"
    and leaf: "pingLeaf E (nearest ts ps) = Inr leaf"
    and onchain: "getBatch (to_lower k) ?i (gw_log w) = Inr onchain"
    and ok: "verifyPing E (to_lower k) ?i leaf pth (gw_log w) = Inr ok"
    and pf: "pp_ts pf = sp_ts (nearest ts ps)" "pp_leaf pf = leaf" "pp_batchIndex pf = ?i"
      "pp_root pf = tb_root onchain" "pp_verifiedOnChain pf = ok"
    using run ne
    by (auto simp: proveMoment_def bindE_Inr_apply [where m = "batchPingsAt ctx k ts", OF got]
        exec_iff abi_bytes32_def Let_def split: if_splits)
  have near: "nearest ts ps \<in> set ps" using ne by (rule nearest_facts)
  have ls: "list_all is_bytes32 leaves" "leaf \<in> set leaves"
    using sum_list_map_Inr [of "pingLeaf E" ps leaves] leaves leaf near pingLeaf_ok [OF lib(2)]
    by (auto simp: buildTree_def list_all_iff)
  have "pth = tree_proof E leaves leaf" using pr leaf by (simp add: proofFor_def)
  with lib(1) ls have "fold_proof E leaf pth = tree_root E leaves" by (simp add: merkle_ok_def)
  with ok onchain have "ok \<longleftrightarrow> tree_root E leaves = tb_root onchain" by (simp add: verifyPing_def)
  moreover have "\<exists>p \<in> set ps. pp_ts pf = sp_ts p \<and> pingLeaf E p = Inr (pp_leaf pf) \<and>
      (\<forall>q \<in> set ps. \<bar>sp_ts p - ts\<bar> \<le> \<bar>sp_ts q - ts\<bar>)"
    using near leaf pf nearest_facts(2) [OF ne] by blast
  ultimately show ?thesis using b leaves onchain pf ps_def by auto
qed

theorem moment_proof_checks_the_archive_witness:
  "\<exists>pf v. proveMoment toy_gps System TRIP 5 (gps_world [toy_signed 5] [toy_row 5 (Some 0)] toy_log1) =
      (Inr (Some pf), v) \<and> pp_verifiedOnChain pf"
proof -
  let ?w = "gps_world [toy_signed 5] [toy_row 5 (Some 0)] toy_log1"
  have log: "getBatch TRIP 0 toy_log1 = Inr \<lparr>tb_root = HASH, tb_fromTs = 5, tb_toTs = 5, tb_anchoredAt = 9\<rparr>"
    by (simp add: toy_log1_def anchorBatch_def toy_log_def trip_deployed_def HASH_ok getBatch_def trip_emit_def)
  have leaf: "pingLeaf toy_gps (toy_signed 5) = Inr HASH"
    by (simp add: pingLeaf_def hash_packed_def leaf_parts_def toy_gps_keccak(2) packed32_def HASH_ok TRIP_ok
        packed_int64_def packed_uint64_def packed_uint8_def round_e6_def toy_signed_def)
  have batch: "batchPingsAt System TRIP 5 ?w = (Inr (Some ([toy_signed 5], 0)), ?w)"
    by (simp add: batchPingsAt_def bindE_def stmt_def covering_batch_def visible_batches_def trip_pings_def toy_gps_simps)
  have "\<exists>pf. proveMoment toy_gps System TRIP 5 ?w = (Inr (Some pf), ?w)"
    by (simp add: proveMoment_def batch buildTree_def leaf nearest_def proofFor_def lift_sum_def
        bindE_def abi_bytes32_ok TRIP_ok read_log_def verifyPing_def log Let_def)
  then obtain pf where run: "proveMoment toy_gps System TRIP 5 ?w = (Inr (Some pf), ?w)" by blast
  from moment_proof_checks_the_archive [OF toy_gps_merkle toy_gps_keccak(1) run]
  obtain b onchain where "covering_batch System TRIP 5 (gw_tables ?w) = Some b"
    and "getBatch (to_lower TRIP) (pp_batchIndex pf) (gw_log ?w) = Inr onchain"
    and ok: "\<exists>leaves. buildTree toy_gps (trip_pings System TRIP (\<lambda>x. ba_fromTs b \<le> x \<and> x \<le> ba_toTs b) (gw_tables ?w)) = Inr leaves \<and>
      (pp_verifiedOnChain pf \<longleftrightarrow> tree_root toy_gps leaves = tb_root onchain)"
    by blast
  moreover from this(1) have "b = toy_row 5 (Some 0)"
    by (simp add: covering_batch_def visible_batches_def toy_gps_simps)
  moreover have "pp_batchIndex pf = 0"
    using run by (auto simp: proveMoment_def bindE_Inr_apply [where m = "batchPingsAt System TRIP 5", OF batch] exec_iff Let_def)
  ultimately have "pp_verifiedOnChain pf"
    using log leaf by (auto simp: to_lower_bytes32 TRIP_ok buildTree_def trip_pings_def toy_gps_simps toy_gps_def)
  with run show ?thesis by blast
qed

text \<open>The local check of a proof gives the same answer as the contract: for a 32-byte root and
  proof, comparing texts and comparing 256-bit numbers order the pairs alike.\<close>

theorem local_check_is_the_contracts:
  assumes "keccak_ok E" and "getBatch k i c = Inr b" and "is_bytes32 (tb_root b)"
    and "sdk_pingLeaf E p = Inr leaf" and "list_all is_bytes32 proof"
  shows "verifyLocally E (tb_root b) p proof = Inr ok \<longleftrightarrow> verifyPing E k i leaf proof c = Inr ok"
proof -
  have "is_bytes32 leaf"
    using assms(1,4) by (auto simp: sdk_pingLeaf_def hash_packed_def keccak_okD split: option.splits)
  from verify_steps_fold [OF assms(1) this assms(5)] assms
  show ?thesis by (simp add: verifyLocally_def verifyPing_def to_lower_bytes32)
qed

theorem local_check_is_the_contracts_witness:
  "verifyLocally toy_gps HASH \<lparr>gp_tripId = TRIP, gp_deviceId = HASH, gp_lat = 0, gp_lng = 0, gp_ts = 5,
     gp_gatewaySig = ''0x''\<rparr> [HASH] = Inr True \<longleftrightarrow> verifyPing toy_gps TRIP 0 HASH [HASH] toy_log1 = Inr True"
proof -
  let ?p = "\<lparr>gp_tripId = TRIP, gp_deviceId = HASH, gp_lat = 0, gp_lng = 0, gp_ts = 5, gp_gatewaySig = ''0x''\<rparr>"
  have "getBatch TRIP 0 toy_log1 = Inr \<lparr>tb_root = HASH, tb_fromTs = 5, tb_toTs = 5, tb_anchoredAt = 9\<rparr>"
    by (simp add: toy_log1_def anchorBatch_def toy_log_def trip_deployed_def HASH_ok getBatch_def trip_emit_def)
  moreover have "sdk_pingLeaf toy_gps ?p = Inr HASH"
    by (simp add: sdk_pingLeaf_def hash_packed_def sdk_leaf_parts_def toy_gps_keccak(2) packed32_def HASH_ok TRIP_ok
        packed_int64_def packed_uint64_def round_e6_def)
  ultimately show ?thesis
    using local_check_is_the_contracts [OF toy_gps_keccak(1), of TRIP 0 toy_log1 _ ?p HASH "[HASH]" True]
    by (simp add: HASH_ok)
qed

section \<open>Timelines\<close>

lemma stop_ok_duration: "\<forall>s \<in> set (detect D ps). so_durationS s = so_endTs s - so_startTs s"
  using detect_ok [of _ D ps] by (auto simp: stop_ok_def)

text \<open>The stops of a journey lie one after another between its first and its last ping, each lasts
  at least the configured minimum and has two pings or more, and the time stopped never exceeds the
  journey: moving and stopped time add up to the total, so the clamp at zero never acts.\<close>

theorem stops_fit_the_journey:
  assumes "pings \<noteq> []"
  shows "stops_between (ti_startTs (trip_timeline k D pings n)) (ti_stops (trip_timeline k D pings n))
      (ti_endTs (trip_timeline k D pings n)) \<and>
    (\<forall>s \<in> set (ti_stops (trip_timeline k D pings n)). stop_ok D s) \<and>
    ti_movingDurationS (trip_timeline k D pings n) + ti_stoppedDurationS (trip_timeline k D pings n) =
      ti_totalDurationS (trip_timeline k D pings n)"
proof -
  let ?s = "sort_key sp_ts pings"
  have ne: "?s \<noteq> []" using assms by (metis length_0_conv length_sort)
  have again: "sort_key sp_ts ?s = ?s" by (simp add: sort_key_id_if_sorted)
  have between: "stops_between (sp_ts (hd ?s)) (detect D ?s) (sp_ts (last ?s))"
    using detect_between [OF ne, of D] again by simp
  with stopped_le stop_ok_duration
  have "sum_list (map so_durationS (detect D ?s)) \<le> sp_ts (last ?s) - sp_ts (hd ?s)" by blast
  with between detect_ok show ?thesis by (auto simp: trip_timeline_def Let_def)
qed

theorem stops_fit_the_journey_witness:
  "ti_movingDurationS (trip_timeline TRIP (new_detector no_options) [toy_signed 5, toy_signed 405] 0) +
     ti_stoppedDurationS (trip_timeline TRIP (new_detector no_options) [toy_signed 5, toy_signed 405] 0) = 400"
proof -
  have "ti_totalDurationS (trip_timeline TRIP (new_detector no_options) [toy_signed 5, toy_signed 405] 0) = 400"
    by (simp add: trip_timeline_def Let_def toy_signed_def)
  then show ?thesis
    using stops_fit_the_journey [of "[toy_signed 5, toy_signed 405]" TRIP "new_detector no_options" 0] by simp
qed

end
