(* ===== verification/Document_Registry.thy ===== *)
theory Document_Registry imports Custody_Chain begin

text \<open>
  \<open>chain/contracts/DocumentRegistry.sol\<close> and \<open>registerDocument\<close> of \<open>chain/sdk/anchor.ts\<close>. The
  locale \<open>write_once\<close> is the contract of a register whose entries are never rewritten; it is
  interpreted on the contract below and on the platform's documents table in the theory of
  the back office.
\<close>

section \<open>Registers that only grow\<close>

locale write_once =
  fixes entry :: "'s \<Rightarrow> 'k \<Rightarrow> 'v option"
    and step :: "'s \<Rightarrow> 's \<Rightarrow> bool"
  assumes step_keeps: "step s s' \<Longrightarrow> entry s k = Some v \<Longrightarrow> entry s' k = Some v"
begin

lemma run_keeps: "step\<^sup>*\<^sup>* s s' \<Longrightarrow> entry s k = Some v \<Longrightarrow> entry s' k = Some v"
  by (induction rule: rtranclp_induct) (auto intro: step_keeps)

text \<open>Two readers of the register never see different entries under one key.\<close>

lemma run_agrees:
  "step\<^sup>*\<^sup>* s s' \<Longrightarrow> entry s k = Some v \<Longrightarrow> entry s' k = Some v' \<Longrightarrow> v' = v"
  using run_keeps [of s s' k v] by simp

end

section \<open>The contract\<close>

datatype doc_type = DManifest | DBilty | DPOD | DInvoice

record doc =
  do_tripId :: string
  do_docType :: doc_type
  do_submitter :: string
  do_registeredAt :: "64 word"

datatype doc_event =
    RegistrarSet string bool
  | DocumentRegistered string string doc_type string
  | DocOwnershipTransferred string string

text \<open>The field \<open>exists\<close> of a record is its presence in the map.\<close>

record doc_registry =
  dg_owner :: string
  dg_isRegistrar :: "string \<Rightarrow> bool"
  dg_docs :: "string \<Rightarrow> doc option"
  dg_tripDocs :: "string \<Rightarrow> string list"
  dg_events :: "doc_event list"

datatype doc_error = DocNotOwner | NotRegistrar | ZeroHash | AlreadyRegistered | DocIndexPanic

definition doc_deployed :: "string \<Rightarrow> doc_registry" where
  "doc_deployed creator =
     \<lparr>dg_owner = creator, dg_isRegistrar = (\<lambda>_. False), dg_docs = (\<lambda>_. None),
      dg_tripDocs = (\<lambda>_. []), dg_events = [DocOwnershipTransferred zero_address creator]\<rparr>"

definition doc_emit :: "doc_event \<Rightarrow> doc_registry \<Rightarrow> doc_registry" where
  "doc_emit e c = c\<lparr>dg_events := dg_events c @ [e]\<rparr>"

definition docTransferOwnership :: "msg \<Rightarrow> string \<Rightarrow> doc_registry \<Rightarrow> doc_error + doc_registry" where
  "docTransferOwnership g newOwner c =
     (if msg_sender g \<noteq> dg_owner c then Inl DocNotOwner
      else Inr ((doc_emit (DocOwnershipTransferred (dg_owner c) newOwner) c)\<lparr>dg_owner := newOwner\<rparr>))"

definition setRegistrar :: "msg \<Rightarrow> string \<Rightarrow> bool \<Rightarrow> doc_registry \<Rightarrow> doc_error + doc_registry" where
  "setRegistrar g registrar allowed c =
     (if msg_sender g \<noteq> dg_owner c then Inl DocNotOwner
      else Inr (doc_emit (RegistrarSet registrar allowed)
                  (c\<lparr>dg_isRegistrar := (dg_isRegistrar c)(registrar := allowed)\<rparr>)))"

definition ch_registerDocument ::
  "msg \<Rightarrow> string \<Rightarrow> string \<Rightarrow> doc_type \<Rightarrow> doc_registry \<Rightarrow> doc_error + doc_registry"
where
  "ch_registerDocument g docHash tripId docType c =
     (if \<not> dg_isRegistrar c (msg_sender g) then Inl NotRegistrar
      else if docHash = zero_bytes32 then Inl ZeroHash
      else if dg_docs c docHash \<noteq> None then Inl AlreadyRegistered
      else Inr (doc_emit (DocumentRegistered docHash tripId docType (msg_sender g))
        (c\<lparr>dg_docs := (dg_docs c)(docHash \<mapsto>
             \<lparr>do_tripId = tripId, do_docType = docType, do_submitter = msg_sender g,
              do_registeredAt = of_nat (block_timestamp g)\<rparr>),
           dg_tripDocs := (dg_tripDocs c)(tripId := dg_tripDocs c tripId @ [docHash])\<rparr>)))"

definition isRegistered :: "string \<Rightarrow> doc_registry \<Rightarrow> bool" where
  "isRegistered docHash c \<longleftrightarrow> dg_docs c docHash \<noteq> None"

definition tripDocumentCount :: "string \<Rightarrow> doc_registry \<Rightarrow> nat" where
  "tripDocumentCount tripId c = length (dg_tripDocs c tripId)"

definition tripDocumentAt :: "string \<Rightarrow> nat \<Rightarrow> doc_registry \<Rightarrow> doc_error + string" where
  "tripDocumentAt tripId i c =
     (let ds = dg_tripDocs c tripId in if i < length ds then Inr (ds ! i) else Inl DocIndexPanic)"

text \<open>
  \<open>registerDocument\<close> of the SDK: the arguments are encoded, the transaction is sent and its
  receipt awaited; a reverted transaction throws.
\<close>

definition registerDocument ::
  "('e) chain_env_scheme \<Rightarrow> nat \<Rightarrow> string \<Rightarrow> string \<Rightarrow> string \<Rightarrow> doc_type \<Rightarrow> (doc_registry, string) exec"
where
  "registerDocument E t0 txHash docHash tripId docType = (\<lambda>c.
     case (abi_bytes32 docHash, abi_bytes32 tripId) of
       (Some h, Some k) \<Rightarrow>
         (case ch_registerDocument (platform_msg E t0) h k docType c of
            Inl _ \<Rightarrow> (Inl reverted, c)
          | Inr c' \<Rightarrow> (Inr txHash, c'))
     | _ \<Rightarrow> (Inl abi_error, c))"

section \<open>Mined transactions\<close>

inductive doc_step :: "doc_registry \<Rightarrow> doc_registry \<Rightarrow> bool" where
  "docTransferOwnership g a c = Inr c' \<Longrightarrow> doc_step c c'"
| "setRegistrar g a b c = Inr c' \<Longrightarrow> doc_step c c'"
| "ch_registerDocument g h k t c = Inr c' \<Longrightarrow> doc_step c c'"

inductive_cases doc_step_cases: "doc_step c c'"

lemma register_cases:
  assumes "ch_registerDocument g h k t c = Inr c'"
  shows "dg_isRegistrar c (msg_sender g)" "h \<noteq> zero_bytes32" "dg_docs c h = None"
    "dg_docs c' = (dg_docs c)(h \<mapsto> \<lparr>do_tripId = k, do_docType = t, do_submitter = msg_sender g,
       do_registeredAt = of_nat (block_timestamp g)\<rparr>)"
    "dg_tripDocs c' = (dg_tripDocs c)(k := dg_tripDocs c k @ [h])"
  using assms by (auto simp: ch_registerDocument_def doc_emit_def split: if_splits)

lemma admin_keeps_docs:
  "docTransferOwnership g a c = Inr c' \<Longrightarrow> dg_docs c' = dg_docs c \<and> dg_tripDocs c' = dg_tripDocs c"
  "setRegistrar g a b c = Inr c' \<Longrightarrow> dg_docs c' = dg_docs c \<and> dg_tripDocs c' = dg_tripDocs c"
  by (auto simp: docTransferOwnership_def setRegistrar_def doc_emit_def split: if_splits)

lemma register_keeps:
  "ch_registerDocument g h k t c = Inr c' \<Longrightarrow> dg_docs c x = Some d \<Longrightarrow> dg_docs c' x = Some d"
  using register_cases(3,4) [of g h k t c c'] by (cases "x = h") simp_all

lemma doc_step_keeps: "doc_step c c' \<Longrightarrow> dg_docs c h = Some d \<Longrightarrow> dg_docs c' h = Some d"
  by (erule doc_step_cases) (auto dest: admin_keeps_docs register_keeps)

interpretation doc_contract: write_once dg_docs doc_step
  by unfold_locales (rule doc_step_keeps)

text \<open>The list of a trip holds each of its documents once, and only its documents.\<close>

definition docs_indexed :: "doc_registry \<Rightarrow> bool" where
  "docs_indexed c \<longleftrightarrow> (\<forall>k. distinct (dg_tripDocs c k) \<and>
     (\<forall>h. h \<in> set (dg_tripDocs c k) \<longleftrightarrow> (\<exists>d. dg_docs c h = Some d \<and> do_tripId d = k)))"

lemma docs_indexed_deployed: "docs_indexed (doc_deployed a)"
  by (simp add: docs_indexed_def doc_deployed_def)

lemma doc_step_indexed:
  assumes "doc_step c c'" and i: "docs_indexed c"
  shows "docs_indexed c'"
  using assms(1)
proof cases
  case (3 g h k t)
  have "h \<notin> set (dg_tripDocs c x)" for x using i register_cases(3) [OF 3] by (auto simp: docs_indexed_def)
  then show ?thesis using i by (auto simp: docs_indexed_def register_cases(4,5) [OF 3])
qed (use i in \<open>auto simp: docs_indexed_def dest!: admin_keeps_docs\<close>)

lemma registerDocument_success:
  assumes "registerDocument E t0 tx h k t c = (Inr r, c')"
  shows "\<exists>h' k'. abi_bytes32 h = Some h' \<and> abi_bytes32 k = Some k' \<and> r = tx \<and>
    ch_registerDocument (platform_msg E t0) h' k' t c = Inr c'"
  using assms by (auto simp: registerDocument_def split: option.splits sum.splits)

lemma registerDocument_failure: "registerDocument E t0 tx h k t c = (Inl e, c') \<Longrightarrow> c' = c"
  by (auto simp: registerDocument_def split: option.splits sum.splits)

end
