(* ===== verification/Platform_Db.thy ===== *)
theory Platform_Db imports Gps_Proof Custody_Service Document_Registry begin

text \<open>
  The system of record of the platform: the tables of \<open>platform/db/schema.sql\<close>, the tenancy
  predicate of \<open>platform/db/rls-policies.sql\<close> on them, and the transactions of
  \<open>platform/api/common/database.service.ts\<close> around the custody and tracker tables, which live
  in the same database. A transaction that throws puts every table back; the contracts, the
  rate windows and the audit log, which is written through a connection of its own, keep what
  was done. No handler of the platform catches an error of the database inside a transaction,
  so an aborted transaction always ends as a thrown one. Identifiers are in the lower-case
  text form of the database; the pipes of the controllers have checked their shape.
\<close>

section \<open>Rows\<close>

datatype truck_status = AVAILABLE | ON_TRIP | MAINTENANCE | TR_INACTIVE
datatype driver_status = DR_ACTIVE | DR_SUSPENDED | DR_INACTIVE
datatype booking_status = CONFIRMED | ASSIGNED | IN_TRANSIT | DELIVERED | CANCELLED
datatype leg_kind = LEG_PICKUP | LEG_DROP

record truck =
  tr_id :: string
  tr_companyId :: string
  tr_regNumber :: string
  tr_truckType :: string
  tr_capacityKg :: int
  tr_gpsDeviceId :: "string option"
  tr_status :: truck_status
  tr_createdAt :: int

record driver =
  dr_id :: string
  dr_companyId :: string
  dr_fullName :: string
  dr_phone :: string
  dr_licenseNumber :: string
  dr_signingAddress :: "string option"
  dr_status :: driver_status
  dr_createdAt :: int

record quote =
  qt_id :: string
  qt_companyId :: string
  qt_truckType :: string
  qt_weightKg :: int
  qt_distanceKm :: int
  qt_estimatedPriceInr :: int
  qt_rangeLowInr :: int
  qt_rangeHighInr :: int
  qt_finalPriceInr :: "int option"
  qt_confirmedAt :: "int option"
  qt_expiresAt :: int

record booking =
  bk_id :: string
  bk_companyId :: string
  bk_quoteId :: string
  bk_truckType :: string
  bk_weightKg :: int
  bk_scheduledAt :: int
  bk_status :: booking_status
  bk_estimatedPriceInr :: int
  bk_truckId :: "string option"
  bk_driverId :: "string option"
  bk_tripId :: "string option"
  bk_manifestId :: "string option"
  bk_notes :: "string option"
  bk_cancelReason :: "string option"
  bk_createdBy :: string
  bk_assignedAt :: "int option"
  bk_cancelledAt :: "int option"
  bk_createdAt :: int

record booking_stop =
  bs_bookingId :: string
  bs_kind :: leg_kind
  bs_address :: string
  bs_lat :: real
  bs_lng :: real
  bs_sequence :: int

datatype pay_status = PENDING | PAID | FAILED
datatype payout_status = HELD | RELEASED | SPLIT

record payment =
  py_id :: string
  py_companyId :: string
  py_bookingId :: string
  py_amountInr :: int
  py_method :: string
  py_status :: pay_status
  py_payout :: payout_status
  py_gatewayOrderId :: string
  py_paidAt :: "int option"
  py_payoutAt :: "int option"

record policy =
  po_id :: string
  po_companyId :: string
  po_bookingId :: string
  po_number :: string
  po_declaredInr :: int
  po_premiumInr :: int

record document =
  dc_id :: string
  dc_companyId :: string
  dc_bookingId :: string
  dc_docType :: string
  dc_storageKey :: string
  dc_docHash :: string
  dc_chainTx :: string
  dc_createdAt :: int

record packet_row =
  cp_id :: string
  cp_companyId :: string
  cp_bookingId :: string
  cp_packet :: json
  cp_packetHash :: string
  cp_createdAt :: int
  cp_updatedAt :: int

datatype kyc_status = KYC_PENDING | VERIFIED | REJECTED

record kyc_row =
  ky_id :: string
  ky_companyId :: string
  ky_docKind :: string
  ky_storageKey :: string
  ky_subjectType :: string
  ky_subjectId :: string
  ky_status :: kyc_status
  ky_reviewNote :: "string option"
  ky_reviewedBy :: "string option"
  ky_reviewedAt :: "int option"
  ky_createdAt :: int

datatype ticket_status = TK_OPEN | TK_IN_PROGRESS | TK_CLOSED

record ticket =
  tk_id :: string
  tk_companyId :: string
  tk_bookingId :: "string option"
  tk_category :: string
  tk_subject :: string
  tk_status :: ticket_status
  tk_createdBy :: string
  tk_createdAt :: int

record message =
  ms_ticketId :: string
  ms_authorId :: string
  ms_body :: string
  ms_createdAt :: int

record tables =
  pl_phones :: "(string \<times> string) list"
  pl_trucks :: "truck list"
  pl_drivers :: "driver list"
  pl_quotes :: "quote list"
  pl_bookings :: "booking list"
  pl_stops :: "booking_stop list"
  pl_payments :: "payment list"
  pl_policies :: "policy list"
  pl_documents :: "document list"
  pl_packets :: "packet_row list"
  pl_kyc :: "kyc_row list"
  pl_tickets :: "ticket list"
  pl_messages :: "message list"

record platform =
  pf_tables :: tables
  pf_world :: world
  pf_gps :: gps
  pf_registry :: doc_registry

section \<open>Statements and transactions\<close>

text \<open>
  The parts of the state an operation works on. A step of the tracker domain inside a
  transaction starts with the abort flag down: an earlier failure has already ended it.
\<close>

definition on_tables :: "(tables, 'a) exec \<Rightarrow> (platform, 'a) exec" where
  "on_tables m = (\<lambda>s. case m (pf_tables s) of (r, t) \<Rightarrow> (r, s\<lparr>pf_tables := t\<rparr>))"

definition in_world :: "(world, 'a) exec \<Rightarrow> (platform, 'a) exec" where
  "in_world m = (\<lambda>s. case m (pf_world s) of (r, w) \<Rightarrow> (r, s\<lparr>pf_world := w\<rparr>))"

definition in_gps :: "(gps, 'a) exec \<Rightarrow> (platform, 'a) exec" where
  "in_gps m = (\<lambda>s. case m ((pf_gps s)\<lparr>gw_aborted := False\<rparr>) of
     (r, g) \<Rightarrow> (r, s\<lparr>pf_gps := g\<lparr>gw_aborted := gw_aborted (pf_gps s)\<rparr>\<rparr>))"

definition on_registry :: "(doc_registry, 'a) exec \<Rightarrow> (platform, 'a) exec" where
  "on_registry m = (\<lambda>s. case m (pf_registry s) of (r, c) \<Rightarrow> (r, s\<lparr>pf_registry := c\<rparr>))"

text \<open>ROLLBACK: the tables of all three domains are those of the start of the transaction.\<close>

definition put_back :: "platform \<Rightarrow> platform \<Rightarrow> platform" where
  "put_back s t = t\<lparr>pf_tables := pf_tables s, pf_world := (pf_world t)\<lparr>w_db := w_db (pf_world s)\<rparr>,
     pf_gps := (pf_gps t)\<lparr>gw_tables := gw_tables (pf_gps s)\<rparr>\<rparr>"

definition plat_tx :: "(platform, 'a) exec \<Rightarrow> (platform, 'a) exec" where
  "plat_tx m = (\<lambda>s. case m s of (Inl e, t) \<Rightarrow> (Inl e, put_back s t) | (Inr x, t) \<Rightarrow> (Inr x, t))"

definition tenantTx :: "string \<Rightarrow> (db_ctx \<Rightarrow> (platform, 'a) exec) \<Rightarrow> (platform, 'a) exec" where
  "tenantTx companyId fn = plat_tx (fn (Tenant companyId))"

definition tenantTxOn ::
  "string \<Rightarrow> db_ctx option \<Rightarrow> (db_ctx \<Rightarrow> (platform, 'a) exec) \<Rightarrow> (platform, 'a) exec"
where
  "tenantTxOn companyId client fn =
     (case client of Some ctx \<Rightarrow> fn ctx | None \<Rightarrow> tenantTx companyId fn)"

definition systemTx :: "(db_ctx \<Rightarrow> (platform, 'a) exec) \<Rightarrow> (platform, 'a) exec" where
  "systemTx fn = plat_tx (fn System)"

definition plat_audit ::
  "string \<Rightarrow> string option \<Rightarrow> string \<Rightarrow> string \<Rightarrow> string \<Rightarrow> (platform, unit) exec"
where
  "plat_audit companyId userId action entity entityId = in_world (audit_record
     \<lparr>au_companyId = companyId, au_userId = userId, au_action = action, au_entity = entity,
      au_entityId = entityId\<rparr>)"

text \<open>A SELECT and an UPDATE see the rows the policy of the transaction lets through.\<close>

definition visible :: "db_ctx \<Rightarrow> ('r \<Rightarrow> string) \<Rightarrow> 'r \<Rightarrow> bool" where
  "visible ctx owner r = tenant_ok ctx (Some (owner r))"

definition first_row :: "db_ctx \<Rightarrow> ('r \<Rightarrow> string) \<Rightarrow> ('r \<Rightarrow> bool) \<Rightarrow> 'r list \<Rightarrow> 'r option" where
  "first_row ctx owner q rows = find (\<lambda>r. visible ctx owner r \<and> q r) rows"

definition all_rows :: "db_ctx \<Rightarrow> ('r \<Rightarrow> string) \<Rightarrow> ('r \<Rightarrow> bool) \<Rightarrow> 'r list \<Rightarrow> 'r list" where
  "all_rows ctx owner q rows = filter (\<lambda>r. visible ctx owner r \<and> q r) rows"

definition set_rows ::
  "db_ctx \<Rightarrow> ('r \<Rightarrow> string) \<Rightarrow> ('r \<Rightarrow> bool) \<Rightarrow> ('r \<Rightarrow> 'r) \<Rightarrow> 'r list \<Rightarrow> 'r list"
where
  "set_rows ctx owner q f rows = update_where (\<lambda>r. visible ctx owner r \<and> q r) f rows"

text \<open>The checks of an INSERT: the policy, the company, and the width of an \<open>integer\<close> column.\<close>

definition need_tenant :: "db_ctx \<Rightarrow> string \<Rightarrow> (platform, unit) exec" where
  "need_tenant ctx companyId =
     bindE (throw_if (\<not> tenant_ok ctx (Some companyId)) rls_violation) (\<lambda>_.
     bindE (reads (\<lambda>s. db_companies (w_db (pf_world s)))) (\<lambda>cs.
     throw_if (companyId \<notin> set cs) (constraint ''company_id_fkey'')))"

definition int4 :: "int \<Rightarrow> bool" where
  "int4 n \<longleftrightarrow> - (2 ^ 31) \<le> n \<and> n < 2 ^ 31"

definition need_int4 :: "int \<Rightarrow> (platform, unit) exec" where
  "need_int4 n = throw_if (\<not> int4 n) (PgError ''integer out of range'')"

definition need_fresh :: "('r \<Rightarrow> string) \<Rightarrow> (tables \<Rightarrow> 'r list) \<Rightarrow> string \<Rightarrow> string \<Rightarrow> (platform, unit) exec" where
  "need_fresh key rows name k =
     bindE (reads (\<lambda>s. rows (pf_tables s))) (\<lambda>rs. throw_if (k \<in> key ` set rs) (constraint name))"

text \<open>
  A new truck and a new booking are also what the foreign keys of the tracker tables and of
  the manifests refer to.
\<close>

definition insert_truck :: "truck \<Rightarrow> (platform, unit) exec" where
  "insert_truck r = modifies (\<lambda>s. s\<lparr>
     pf_tables := (pf_tables s)\<lparr>pl_trucks := pl_trucks (pf_tables s) @ [r]\<rparr>,
     pf_gps := (pf_gps s)\<lparr>gw_tables := (gw_tables (pf_gps s))\<lparr>
       gt_trucks := gt_trucks (gw_tables (pf_gps s)) @ [tr_id r]\<rparr>\<rparr>\<rparr>)"

definition insert_booking :: "booking \<Rightarrow> (platform, unit) exec" where
  "insert_booking r = modifies (\<lambda>s. s\<lparr>
     pf_tables := (pf_tables s)\<lparr>pl_bookings := pl_bookings (pf_tables s) @ [r]\<rparr>,
     pf_world := (pf_world s)\<lparr>w_db := (w_db (pf_world s))\<lparr>
       db_bookings := db_bookings (w_db (pf_world s)) @ [bk_id r]\<rparr>\<rparr>\<rparr>)"

definition mirrored :: "platform \<Rightarrow> bool" where
  "mirrored s \<longleftrightarrow>
     set (db_bookings (w_db (pf_world s))) = bk_id ` set (pl_bookings (pf_tables s)) \<and>
     set (gt_trucks (gw_tables (pf_gps s))) = tr_id ` set (pl_trucks (pf_tables s))"

lemma on_tables_success [exec_iff]:
  "on_tables m s = (Inr x, s') \<longleftrightarrow> (\<exists>t. m (pf_tables s) = (Inr x, t) \<and> s' = s\<lparr>pf_tables := t\<rparr>)"
  by (auto simp: on_tables_def split: prod.splits)

lemma in_world_success [exec_iff]:
  "in_world m s = (Inr x, s') \<longleftrightarrow> (\<exists>w. m (pf_world s) = (Inr x, w) \<and> s' = s\<lparr>pf_world := w\<rparr>)"
  by (auto simp: in_world_def split: prod.splits)

lemma in_gps_success [exec_iff]:
  "in_gps m s = (Inr x, s') \<longleftrightarrow>
     (\<exists>g. m ((pf_gps s)\<lparr>gw_aborted := False\<rparr>) = (Inr x, g) \<and>
          s' = s\<lparr>pf_gps := g\<lparr>gw_aborted := gw_aborted (pf_gps s)\<rparr>\<rparr>)"
  by (auto simp: in_gps_def split: prod.splits)

lemma on_registry_success [exec_iff]:
  "on_registry m s = (Inr x, s') \<longleftrightarrow>
     (\<exists>c. m (pf_registry s) = (Inr x, c) \<and> s' = s\<lparr>pf_registry := c\<rparr>)"
  by (auto simp: on_registry_def split: prod.splits)

lemma plat_tx_success [exec_iff]: "plat_tx m s = (Inr x, s') \<longleftrightarrow> m s = (Inr x, s')"
  by (auto simp: plat_tx_def split: prod.splits sum.splits)

lemma plat_tx_failure: "plat_tx m s = (Inl e, s') \<longleftrightarrow> (\<exists>t. m s = (Inl e, t) \<and> s' = put_back s t)"
  by (auto simp: plat_tx_def split: prod.splits sum.splits)

lemma tenantTx_success [exec_iff]: "tenantTx c fn s = (Inr x, s') \<longleftrightarrow> fn (Tenant c) s = (Inr x, s')"
  by (simp add: tenantTx_def exec_iff)

lemma systemTx_success [exec_iff]: "systemTx fn s = (Inr x, s') \<longleftrightarrow> fn System s = (Inr x, s')"
  by (simp add: systemTx_def exec_iff)

lemma tenantTxOn_simps [simp]:
  "tenantTxOn c (Some ctx) fn = fn ctx" "tenantTxOn c None fn = tenantTx c fn"
  by (simp_all add: tenantTxOn_def)

lemma plat_audit_run:
  "plat_audit c u a e i s = (Inr (), s\<lparr>pf_world := (pf_world s)\<lparr>w_audit := w_audit (pf_world s) @
     [\<lparr>au_companyId = c, au_userId = u, au_action = a, au_entity = e, au_entityId = i\<rparr>]\<rparr>\<rparr>)"
  by (simp add: plat_audit_def in_world_def audit_record_def)

lemma plat_audit_success [exec_iff]:
  "plat_audit c u a e i s = (Inr x, s') \<longleftrightarrow> s' = s\<lparr>pf_world := (pf_world s)\<lparr>w_audit := w_audit (pf_world s) @
     [\<lparr>au_companyId = c, au_userId = u, au_action = a, au_entity = e, au_entityId = i\<rparr>]\<rparr>\<rparr>"
  by (auto simp: plat_audit_run)

lemma need_tenant_success [exec_iff]:
  "need_tenant ctx c s = (Inr x, s') \<longleftrightarrow>
     tenant_ok ctx (Some c) \<and> c \<in> set (db_companies (w_db (pf_world s))) \<and> s' = s"
  by (auto simp: need_tenant_def exec_iff)

lemma need_int4_success [exec_iff]: "need_int4 n s = (Inr x, s') \<longleftrightarrow> int4 n \<and> s' = s"
  by (auto simp: need_int4_def exec_iff)

lemma need_fresh_success [exec_iff]:
  "need_fresh key rows name k s = (Inr x, s') \<longleftrightarrow> k \<notin> key ` set (rows (pf_tables s)) \<and> s' = s"
  by (auto simp: need_fresh_def exec_iff)

lemma insert_success [exec_iff]:
  "insert_truck r s = (Inr x, s') \<longleftrightarrow> s' = snd (insert_truck r s)"
  "insert_booking b s = (Inr x, s') \<longleftrightarrow> s' = snd (insert_booking b s)"
  by (auto simp: insert_truck_def insert_booking_def)

lemma first_rowD: "first_row ctx owner q rows = Some r \<Longrightarrow> r \<in> set rows \<and> tenant_ok ctx (Some (owner r)) \<and> q r"
  by (auto simp: first_row_def visible_def dest: find_SomeD)

lemma first_row_none: "first_row ctx owner q rows = None \<longleftrightarrow> (\<forall>r \<in> set rows. tenant_ok ctx (Some (owner r)) \<longrightarrow> \<not> q r)"
  by (auto simp: first_row_def visible_def find_None_iff')

section \<open>What one tenant cannot touch\<close>

definition others :: "('r \<Rightarrow> string) \<Rightarrow> string \<Rightarrow> 'r list \<Rightarrow> 'r list" where
  "others owner c rows = filter (\<lambda>r. owner r \<noteq> c) rows"

lemma others_append [simp]: "others owner c (xs @ ys) = others owner c xs @ others owner c ys"
  by (simp add: others_def)

lemma others_own [simp]: "owner r = c \<Longrightarrow> others owner c [r] = []"
  by (simp add: others_def)

lemma others_set_rows [simp]:
  "(\<And>r. owner (f r) = owner r) \<Longrightarrow> others owner c (set_rows (Tenant c) owner q f rows) = others owner c rows"
  by (induction rows) (auto simp: others_def set_rows_def visible_def)

text \<open>The rows of the platform's tables that belong to other companies.\<close>

definition foreign_rows where
  "foreign_rows c t =
     ((others tr_companyId c (pl_trucks t), others dr_companyId c (pl_drivers t),
       others qt_companyId c (pl_quotes t), others bk_companyId c (pl_bookings t)),
      (others py_companyId c (pl_payments t), others po_companyId c (pl_policies t),
       others dc_companyId c (pl_documents t), others cp_companyId c (pl_packets t)),
      (others ky_companyId c (pl_kyc t), others tk_companyId c (pl_tickets t), pl_phones t))"

named_theorems confine "operations that keep the rows of other companies"

definition confined :: "string \<Rightarrow> (platform, 'a) exec \<Rightarrow> bool" where
  "confined c m \<longleftrightarrow> (\<forall>s. foreign_rows c (pf_tables (snd (m s))) = foreign_rows c (pf_tables s))"

lemma confinedD: "confined c m \<Longrightarrow> m s = (r, s') \<Longrightarrow> foreign_rows c (pf_tables s') = foreign_rows c (pf_tables s)"
  by (metis confined_def snd_conv)

lemma confined_basic [confine]:
  "confined c (return x0)" "confined c (raise e)" "confined c (reads f)"
  "confined c (throw_if b e)" "confined c (need v e)" "confined c (lift_sum x1)"
  "confined c (in_world m)" "confined c (in_gps g)" "confined c (on_registry d)"
  "confined c (plat_audit co u ac en i)" "confined c (need_tenant ctx co)" "confined c (need_int4 n)"
  "confined c (need_fresh key rows name k)"
  by (auto simp: confined_def return_def raise_def reads_def throw_if_def need_def lift_sum_def
      in_world_def in_gps_def on_registry_def plat_audit_run need_tenant_def need_int4_def need_fresh_def
      bindE_def split: option.split prod.split)

lemma confined_bindE [confine]:
  assumes "confined c m" and "\<And>x. confined c (k x)"
  shows "confined c (bindE m k)"
  using assms by (auto simp: confined_def bindE_def split: prod.splits sum.splits) (metis snd_conv)+

lemma confined_modifies [confine]:
  "(\<And>s. foreign_rows c (pf_tables (f s)) = foreign_rows c (pf_tables s)) \<Longrightarrow> confined c (modifies f)"
  by (simp add: confined_def)

lemma confined_on_tables [confine]:
  "(\<And>t. foreign_rows c (f t) = foreign_rows c t) \<Longrightarrow> confined c (on_tables (modifies f))"
  by (simp add: confined_def on_tables_def)

lemma confined_tx [confine]: "confined c m \<Longrightarrow> confined c (plat_tx m)"
  by (auto simp: confined_def plat_tx_def put_back_def split: prod.splits sum.splits) (metis snd_conv)+

lemma confined_tenantTx [confine]: "confined c (fn (Tenant c)) \<Longrightarrow> confined c (tenantTx c fn)"
  by (simp add: tenantTx_def confined_tx)

lemma confined_for_each [confine]:
  "(\<And>x. confined c (f x)) \<Longrightarrow> confined c (for_each f xs)"
  by (induction xs) (auto intro: confined_basic confined_bindE)

lemma confined_if [confine]: "confined c m \<Longrightarrow> confined c n \<Longrightarrow> confined c (if b then m else n)"
  by simp

lemma confined_option [confine]:
  "confined c m \<Longrightarrow> (\<And>x. confined c (k x)) \<Longrightarrow> confined c (case v of None \<Rightarrow> m | Some x \<Rightarrow> k x)"
  by (cases v) simp_all

end
