(* ===== verification/Fleet.thy ===== *)
theory Fleet imports Platform_Db begin

text \<open>
  \<open>platform/api/pricing/pricing.service.ts\<close> and \<open>platform/api/fleet/fleet.service.ts\<close>. Distances
  and prices before rounding are exact reals. The lemmas show that every estimate fits the
  columns it is stored in, and which rows of other companies stay untouched.
\<close>

section \<open>Estimates\<close>

definition RATE_PER_KM :: "(string \<times> int) list" where
  "RATE_PER_KM =
     [(''PICKUP_TRUCK'', 18), (''OPEN_14FT'', 28), (''OPEN_22FT'', 38), (''CONTAINER_20FT'', 42),
      (''CONTAINER_32FT_SXL'', 55), (''CONTAINER_32FT_MXL'', 62)]"

definition QUOTE_TTL_MS :: int where
  "QUOTE_TTL_MS = 30 * 60 * 1000"

text \<open>
  \<open>RATE_PER_KM[truckType]\<close> is a property access: the names every object inherits are found
  too, and multiplying by what they hold gives NaN.
\<close>

definition OBJECT_MEMBERS :: "string list" where
  "OBJECT_MEMBERS =
     [''constructor'', ''__defineGetter__'', ''__defineSetter__'', ''hasOwnProperty'',
      ''__lookupGetter__'', ''__lookupSetter__'', ''isPrototypeOf'', ''propertyIsEnumerable'',
      ''toString'', ''valueOf'', ''__proto__'', ''toLocaleString'']"

datatype rate = Rate int | NotANumber | NoRate

definition rate_of :: "string \<Rightarrow> rate" where
  "rate_of truckType =
     (case map_of RATE_PER_KM truckType of
        Some r \<Rightarrow> Rate r
      | None \<Rightarrow> if truckType \<in> set OBJECT_MEMBERS then NotANumber else NoRate)"

record estimate_dto =
  es_pickupLat :: real
  es_pickupLng :: real
  es_dropLat :: real
  es_dropLng :: real
  es_truckType :: string
  es_weightKg :: int

definition haversineKm :: "real \<Rightarrow> real \<Rightarrow> real \<Rightarrow> real \<Rightarrow> real" where
  "haversineKm lat1 lng1 lat2 lng2 =
     (let dLat = ((lat2 - lat1) * pi) / 180; dLng = ((lng2 - lng1) * pi) / 180;
          a = (sin (dLat / 2))\<^sup>2 + cos ((lat1 * pi) / 180) * cos ((lat2 * pi) / 180) * (sin (dLng / 2))\<^sup>2
      in 2 * 6371 * arcsin (sqrt a))"

definition round_real :: "real \<Rightarrow> int" where
  "round_real x = \<lfloor>x + 1 / 2\<rfloor>"

definition road_km :: "estimate_dto \<Rightarrow> real" where
  "road_km d =
     max (haversineKm (es_pickupLat d) (es_pickupLng d) (es_dropLat d) (es_dropLng d) * (5 / 4)) 5"

definition quote_row :: "string \<Rightarrow> int \<Rightarrow> string \<Rightarrow> int \<Rightarrow> estimate_dto \<Rightarrow> quote" where
  "quote_row companyId now k r d =
     (let base = road_km d * of_int r in
      \<lparr>qt_id = k, qt_companyId = companyId, qt_truckType = es_truckType d,
       qt_weightKg = es_weightKg d, qt_distanceKm = round_real (road_km d),
       qt_estimatedPriceInr = round_real base, qt_rangeLowInr = round_real (base * (9 / 10)),
       qt_rangeHighInr = round_real (base * (23 / 20)), qt_finalPriceInr = None,
       qt_confirmedAt = None, qt_expiresAt = now + QUOTE_TTL_MS\<rparr>)"

definition estimate :: "string \<Rightarrow> int \<Rightarrow> string \<Rightarrow> estimate_dto \<Rightarrow> (platform, quote) exec" where
  "estimate companyId now k d =
     (case rate_of (es_truckType d) of
        NoRate \<Rightarrow> raise (BadRequest ''UNKNOWN_TRUCK_TYPE'')
      | NotANumber \<Rightarrow> tenantTx companyId (\<lambda>c.
          raise (PgError ''invalid input syntax for type integer''))
      | Rate r \<Rightarrow> tenantTx companyId (\<lambda>c.
          let q = quote_row companyId now k r d in
          bindE (need_int4 (qt_weightKg q)) (\<lambda>_.
          bindE (need_int4 (qt_distanceKm q)) (\<lambda>_.
          bindE (need_int4 (qt_estimatedPriceInr q)) (\<lambda>_.
          bindE (need_int4 (qt_rangeLowInr q)) (\<lambda>_.
          bindE (need_int4 (qt_rangeHighInr q)) (\<lambda>_.
          bindE (need_tenant c companyId) (\<lambda>_.
          bindE (need_fresh qt_id pl_quotes ''price_quotes_pkey'' k) (\<lambda>_.
          bindE (on_tables (modifies (\<lambda>t. t\<lparr>pl_quotes := pl_quotes t @ [q]\<rparr>))) (\<lambda>_.
          return q))))))))))"

text \<open>The price of the body: absent (or null), or a number.\<close>

definition open_quote :: "int \<Rightarrow> string \<Rightarrow> quote \<Rightarrow> bool" where
  "open_quote now k q \<longleftrightarrow> qt_id q = k \<and> now < qt_expiresAt q"

definition confirmMarketPrice ::
  "string \<Rightarrow> int \<Rightarrow> string \<Rightarrow> real option \<Rightarrow> (platform, string \<times> int) exec"
where
  "confirmMarketPrice companyId now quoteId price =
     (case price of
        None \<Rightarrow> raise (BadRequest ''INVALID_PRICE'')
      | Some p \<Rightarrow>
          if p \<le> 0 then raise (BadRequest ''INVALID_PRICE'')
          else tenantTx companyId (\<lambda>c.
            bindE (throw_if (p \<notin> \<int>) (PgError ''invalid input syntax for type integer'')) (\<lambda>_.
            bindE (need_int4 \<lfloor>p\<rfloor>) (\<lambda>_.
            bindE (reads (\<lambda>s. first_row c qt_companyId (open_quote now quoteId) (pl_quotes (pf_tables s)))) (\<lambda>q.
            bindE (on_tables (modifies (\<lambda>t. t\<lparr>pl_quotes := set_rows c qt_companyId (open_quote now quoteId)
              (\<lambda>q. q\<lparr>qt_finalPriceInr := Some \<lfloor>p\<rfloor>, qt_confirmedAt := Some now\<rparr>) (pl_quotes t)\<rparr>))) (\<lambda>_.
            bindE (throw_if (q = None) (BadRequest ''QUOTE_EXPIRED_OR_NOT_FOUND'')) (\<lambda>_.
            return (quoteId, \<lfloor>p\<rfloor>))))))))"

definition getQuote :: "string \<Rightarrow> int \<Rightarrow> string \<Rightarrow> (platform, quote option) exec" where
  "getQuote companyId now quoteId = tenantTx companyId (\<lambda>c.
     reads (\<lambda>s. first_row c qt_companyId (open_quote now quoteId) (pl_quotes (pf_tables s))))"

section \<open>Trucks and drivers\<close>

record truck_dto =
  td_regNumber :: string
  td_truckType :: string
  td_capacityKg :: int
  td_gpsDeviceId :: "string option"

record driver_dto =
  dd_fullName :: string
  dd_phone :: string
  dd_licenseNumber :: string

definition addTruck ::
  "string \<Rightarrow> string \<Rightarrow> int \<Rightarrow> string \<Rightarrow> truck_dto \<Rightarrow> (platform, truck) exec"
where
  "addTruck companyId userId now k d = tenantTx companyId (\<lambda>c.
     bindE (reads (\<lambda>s. first_row c tr_companyId (\<lambda>r. tr_regNumber r = td_regNumber d) (pl_trucks (pf_tables s)))) (\<lambda>dup.
     bindE (throw_if (dup \<noteq> None) (Conflict ''TRUCK_ALREADY_REGISTERED'')) (\<lambda>_.
     let r = \<lparr>tr_id = k, tr_companyId = companyId, tr_regNumber = td_regNumber d,
              tr_truckType = td_truckType d, tr_capacityKg = td_capacityKg d,
              tr_gpsDeviceId = td_gpsDeviceId d, tr_status = AVAILABLE, tr_createdAt = now\<rparr> in
     bindE (need_int4 (td_capacityKg d)) (\<lambda>_.
     bindE (need_tenant c companyId) (\<lambda>_.
     bindE (need_fresh tr_id pl_trucks ''trucks_pkey'' k) (\<lambda>_.
     bindE (need_fresh tr_regNumber pl_trucks ''trucks_reg_number_key'' (td_regNumber d)) (\<lambda>_.
     bindE (insert_truck r) (\<lambda>_.
     bindE (plat_audit companyId (Some userId) ''TRUCK_ADDED'' ''truck'' k) (\<lambda>_.
     return r)))))))))"

fun truck_status_text :: "truck_status \<Rightarrow> string" where
  "truck_status_text AVAILABLE = ''AVAILABLE''"
| "truck_status_text ON_TRIP = ''ON_TRIP''"
| "truck_status_text MAINTENANCE = ''MAINTENANCE''"
| "truck_status_text TR_INACTIVE = ''INACTIVE''"

text \<open>\<open>ORDER BY created_at DESC\<close>; rows of one instant in any order, here as inserted.\<close>

definition newest_first :: "('r \<Rightarrow> int) \<Rightarrow> 'r list \<Rightarrow> 'r list" where
  "newest_first stamp rows = sort_key (\<lambda>r. - stamp r) rows"

definition listTrucks :: "string \<Rightarrow> string option \<Rightarrow> (platform, truck list) exec" where
  "listTrucks companyId status = tenantTx companyId (\<lambda>c. reads (\<lambda>s.
     newest_first tr_createdAt (all_rows c tr_companyId
       (\<lambda>r. truthy status \<longrightarrow> status = Some (truck_status_text (tr_status r))) (pl_trucks (pf_tables s)))))"

definition put_truck_status :: "db_ctx \<Rightarrow> string \<Rightarrow> truck_status \<Rightarrow> tables \<Rightarrow> tables" where
  "put_truck_status c k st t = t\<lparr>pl_trucks :=
     set_rows c tr_companyId (\<lambda>r. tr_id r = k) (\<lambda>r. r\<lparr>tr_status := st\<rparr>) (pl_trucks t)\<rparr>"

text \<open>No row, and the answer is \<open>undefined\<close>.\<close>

definition setTruckStatus ::
  "string \<Rightarrow> string \<Rightarrow> truck_status \<Rightarrow> (platform, (string \<times> truck_status) option) exec"
where
  "setTruckStatus companyId k st = tenantTx companyId (\<lambda>c.
     bindE (reads (\<lambda>s. first_row c tr_companyId (\<lambda>r. tr_id r = k) (pl_trucks (pf_tables s)))) (\<lambda>r.
     bindE (on_tables (modifies (put_truck_status c k st))) (\<lambda>_.
     return (map_option (\<lambda>_. (k, st)) r))))"

definition addDriver ::
  "string \<Rightarrow> string \<Rightarrow> int \<Rightarrow> string \<Rightarrow> driver_dto \<Rightarrow> (platform, driver) exec"
where
  "addDriver companyId userId now k d = tenantTx companyId (\<lambda>c.
     bindE (reads (\<lambda>s. first_row c dr_companyId (\<lambda>r. dr_phone r = dd_phone d) (pl_drivers (pf_tables s)))) (\<lambda>dup.
     bindE (throw_if (dup \<noteq> None) (Conflict ''DRIVER_PHONE_EXISTS'')) (\<lambda>_.
     let r = \<lparr>dr_id = k, dr_companyId = companyId, dr_fullName = dd_fullName d,
              dr_phone = dd_phone d, dr_licenseNumber = dd_licenseNumber d,
              dr_signingAddress = None, dr_status = DR_ACTIVE, dr_createdAt = now\<rparr> in
     bindE (need_tenant c companyId) (\<lambda>_.
     bindE (need_fresh dr_id pl_drivers ''drivers_pkey'' k) (\<lambda>_.
     bindE (need_fresh dr_phone pl_drivers ''drivers_phone_key'' (dd_phone d)) (\<lambda>_.
     bindE (on_tables (modifies (\<lambda>t. t\<lparr>pl_drivers := pl_drivers t @ [r]\<rparr>))) (\<lambda>_.
     bindE (plat_audit companyId (Some userId) ''DRIVER_ADDED'' ''driver'' k) (\<lambda>_.
     return r))))))))"

definition listDrivers :: "string \<Rightarrow> (platform, driver list) exec" where
  "listDrivers companyId = tenantTx companyId (\<lambda>c. reads (\<lambda>s.
     newest_first dr_createdAt (all_rows c dr_companyId (\<lambda>_. True) (pl_drivers (pf_tables s)))))"

record type_count =
  tc_truckType :: string
  tc_available :: nat
  tc_total :: nat

definition count_type :: "truck list \<Rightarrow> string \<Rightarrow> type_count" where
  "count_type rows ty =
     \<lparr>tc_truckType = ty,
      tc_available = length (filter (\<lambda>r. tr_truckType r = ty \<and> tr_status r = AVAILABLE) rows),
      tc_total = length (filter (\<lambda>r. tr_truckType r = ty) rows)\<rparr>"

definition availability :: "string \<Rightarrow> (platform, type_count list \<times> nat) exec" where
  "availability companyId = tenantTx companyId (\<lambda>c. reads (\<lambda>s.
     let rows = all_rows c tr_companyId (\<lambda>_. True) (pl_trucks (pf_tables s)) in
     (map (count_type rows) (uniq (map tr_truckType rows)),
      length (all_rows c dr_companyId (\<lambda>r. dr_status r = DR_ACTIVE) (pl_drivers (pf_tables s))))))"

section \<open>Bounds of an estimate\<close>

lemma round_real_mono: "x \<le> y \<Longrightarrow> round_real x \<le> round_real y"
  by (simp add: round_real_def floor_mono)

lemma round_real_bounds: "of_int (round_real x) \<le> x + 1 / 2" "x - 1 / 2 < of_int (round_real x)"
  by (simp_all add: round_real_def) linarith

text \<open>No two points are further apart than half the circumference.\<close>

lemma haversineKm_bounds:
  assumes "\<bar>lat1\<bar> \<le> 90" and "\<bar>lat2\<bar> \<le> 90"
  shows "0 \<le> haversineKm lat1 lng1 lat2 lng2 \<and> haversineKm lat1 lng1 lat2 lng2 \<le> 6371 * pi"
proof -
  define x y where "x = (lat1 * pi) / 180" and "y = (lat2 * pi) / 180"
  define u v where "u = ((lat2 - lat1) * pi) / 180 / 2" and "v = ((lng2 - lng1) * pi) / 180 / 2"
  let ?a = "(sin u)\<^sup>2 + cos x * cos y * (sin v)\<^sup>2"
  have r: "\<bar>z * pi / 180\<bar> \<le> pi / 2" if "\<bar>z\<bar> \<le> 90" for z :: real
  proof -
    have "\<bar>z * pi / 180\<bar> = \<bar>z\<bar> * (pi / 180)" by (simp add: abs_mult)
    also have "\<dots> \<le> 90 * (pi / 180)" using that by (intro mult_right_mono) auto
    finally show ?thesis by simp
  qed
  have cx: "0 \<le> cos x" "0 \<le> cos y"
    using r [OF assms(1)] r [OF assms(2)] by (auto simp: x_def y_def abs_le_iff intro!: cos_ge_zero)
  have "u = (y - x) / 2" by (simp add: u_def x_def y_def field_simps)
  then have "y - x = 2 * u" by simp
  then have "cos (y - x) = 1 - 2 * (sin u)\<^sup>2" by (simp only: cos_double_sin)
  then have u2: "(sin u)\<^sup>2 = (1 - (cos y * cos x + sin y * sin x)) / 2" by (simp add: cos_diff)
  have a0: "0 \<le> ?a" using cx by simp
  have s1: "(sin v)\<^sup>2 \<le> 1" by (simp add: sin_squared_eq)
  have "cos x * cos y * (sin v)\<^sup>2 \<le> cos x * cos y * 1" using cx s1 by (intro mult_left_mono) auto
  then have "?a \<le> (1 + cos y * cos x - sin y * sin x) / 2" using u2 by (simp add: field_simps)
  also have "\<dots> = (1 + cos (x + y)) / 2" by (simp add: cos_add field_simps)
  also have "\<dots> \<le> 1" using cos_le_one [of "x + y"] by simp
  finally have a1: "?a \<le> 1" .
  have r0: "- 1 \<le> sqrt ?a" "0 \<le> sqrt ?a" "sqrt ?a \<le> 1"
    using a0 a1 by (simp_all add: order_trans [of "- 1" 0])
  have "0 \<le> arcsin (sqrt ?a)" "arcsin (sqrt ?a) \<le> pi / 2"
    using arcsin_ubound [OF r0(1,3)] arcsin_le_arcsin [OF _ r0(2,3)] by simp_all
  moreover have "haversineKm lat1 lng1 lat2 lng2 = 2 * 6371 * arcsin (sqrt ?a)"
    by (simp add: haversineKm_def Let_def u_def v_def x_def y_def)
  ultimately show ?thesis by simp
qed


lemma rate_of_bounds: "rate_of ty = Rate r \<Longrightarrow> 18 \<le> r \<and> r \<le> 62"
  by (auto simp: rate_of_def RATE_PER_KM_def split: option.splits if_splits)

text \<open>The latitudes a request may carry, by its validation rules.\<close>

definition estimate_dto_ok :: "estimate_dto \<Rightarrow> bool" where
  "estimate_dto_ok d \<longleftrightarrow>
     \<bar>es_pickupLat d\<bar> \<le> 90 \<and> \<bar>es_dropLat d\<bar> \<le> 90 \<and> \<bar>es_pickupLng d\<bar> \<le> 180 \<and> \<bar>es_dropLng d\<bar> \<le> 180 \<and>
     1 \<le> es_weightKg d"

lemma road_km_bounds: "estimate_dto_ok d \<Longrightarrow> 5 \<le> road_km d \<and> road_km d \<le> 31855"
  using haversineKm_bounds [of "es_pickupLat d" "es_dropLat d" "es_pickupLng d" "es_dropLng d"] pi_less_4
  by (auto simp: road_km_def estimate_dto_ok_def)

lemma quote_row_bounds:
  fixes c now k
  assumes "estimate_dto_ok d" and "rate_of (es_truckType d) = Rate r"
  defines "q \<equiv> quote_row c now k r d"
  shows "5 \<le> qt_distanceKm q \<and> qt_distanceKm q \<le> 31855 \<and> 81 \<le> qt_rangeLowInr q \<and>
    qt_rangeLowInr q \<le> qt_estimatedPriceInr q \<and> qt_estimatedPriceInr q \<le> qt_rangeHighInr q \<and>
    qt_rangeHighInr q < 2 ^ 31"
proof -
  let ?km = "road_km d" and ?b = "road_km d * of_int r"
  have km: "5 \<le> ?km" "?km \<le> 31855" using road_km_bounds [OF assms(1)] by simp_all
  have r: "18 \<le> (of_int r :: real)" "of_int r \<le> (62 :: real)" using rate_of_bounds [OF assms(2)] by linarith+
  have b: "90 \<le> ?b" "?b \<le> 31855 * 62"
    using mult_mono [of 5 ?km 18 "of_int r :: real"] mult_mono [of ?km 31855 "of_int r :: real" 62] km r by simp_all
  have n: "round_real (of_int i) = i" for i by (simp add: round_real_def floor_eq_iff)
  have d: "5 \<le> round_real ?km" "round_real ?km \<le> 31855"
    using round_real_mono [OF km(1)] round_real_mono [OF km(2)] n [of 5] n [of 31855] by simp_all
  have lo: "81 \<le> round_real (?b * (9 / 10))" using round_real_mono [of 81 "?b * (9 / 10)"] n [of 81] b by simp
  have mid: "round_real (?b * (9 / 10)) \<le> round_real ?b" "round_real ?b \<le> round_real (?b * (23 / 20))"
    using b by (simp_all add: round_real_mono)
  have "round_real (?b * (23 / 20)) \<le> round_real (of_int 2271262)" using b by (intro round_real_mono) simp
  then have "round_real (?b * (23 / 20)) < 2 ^ 31" unfolding n by simp
  with d lo mid show ?thesis by (simp add: q_def quote_row_def Let_def)
qed

lemma quote_row_fits:
  assumes "estimate_dto_ok d" and "rate_of (es_truckType d) = Rate r"
  shows "int4 (qt_distanceKm (quote_row c now k r d))" "int4 (qt_estimatedPriceInr (quote_row c now k r d))"
    "int4 (qt_rangeLowInr (quote_row c now k r d))" "int4 (qt_rangeHighInr (quote_row c now k r d))"
  using quote_row_bounds [OF assms, of c now k] by (auto simp: int4_def)

section \<open>Confinement\<close>

lemma foreign_quotes [simp]:
  "foreign_rows c (t\<lparr>pl_quotes := qs\<rparr>) = foreign_rows c t \<longleftrightarrow>
     others qt_companyId c qs = others qt_companyId c (pl_quotes t)"
  "foreign_rows c (t\<lparr>pl_drivers := ds\<rparr>) = foreign_rows c t \<longleftrightarrow>
     others dr_companyId c ds = others dr_companyId c (pl_drivers t)"
  "foreign_rows c (t\<lparr>pl_trucks := ts\<rparr>) = foreign_rows c t \<longleftrightarrow>
     others tr_companyId c ts = others tr_companyId c (pl_trucks t)"
  by (auto simp: foreign_rows_def)

lemma foreign_truck_status [simp]: "foreign_rows c (put_truck_status (Tenant c) k st t) = foreign_rows c t"
  by (simp add: put_truck_status_def)

lemma confined_estimate: "confined c (estimate c now k d)"
  unfolding estimate_def Let_def
  by (cases "rate_of (es_truckType d)") (simp; (rule confine | simp add: quote_row_def Let_def)+)+

lemma confined_quotes: "confined c (confirmMarketPrice c now k p)" "confined c (getQuote c now k)"
  unfolding confirmMarketPrice_def getQuote_def by (rule confine | simp)+

lemma confined_fleet:
  "confined c (addTruck c u now k d)" "confined c (listTrucks c st)" "confined c (setTruckStatus c k ts)"
  "confined c (addDriver c u now k e)" "confined c (listDrivers c)" "confined c (availability c)"
  unfolding addTruck_def listTrucks_def setTruckStatus_def addDriver_def listDrivers_def
    availability_def Let_def insert_truck_def
  by (rule confine | simp)+

end
