(* ===== verification/Bookings.thy ===== *)
theory Bookings imports Fleet begin

text \<open>
  \<open>platform/api/bookings/bookings.service.ts\<close>: creating a booking from a live quote, assigning
  a truck and a driver to it, cancelling it, and the two entry points the orchestration uses.
  The invariant \<open>fleet_ok\<close> says that every assigned booking holds a truck of its own that is on
  a trip; the operations keep it when they run one after the other.
\<close>

section \<open>Requests\<close>

text \<open>How the language and the database read a date text; neither need succeed.\<close>

record plat_env = key_env +
  js_date :: "string \<Rightarrow> int option"
  pg_timestamp :: "string \<Rightarrow> int option"
  hmac_hex :: "string \<Rightarrow> string \<Rightarrow> string"

record stop_dto =
  sd_kind :: leg_kind
  sd_address :: string
  sd_lat :: real
  sd_lng :: real
  sd_sequence :: int

record booking_dto =
  bd_quoteId :: string
  bd_truckType :: string
  bd_weightKg :: int
  bd_scheduledAt :: string
  bd_stops :: "stop_dto list"
  bd_notes :: "string option"

section \<open>Reading\<close>

text \<open>The stops of a booking the caller can see, in their sequence.\<close>

definition hydrate :: "booking \<Rightarrow> (platform, booking \<times> booking_stop list) exec" where
  "hydrate b = reads (\<lambda>s. (b, sort_key bs_sequence
     (filter (\<lambda>r. bs_bookingId r = bk_id b) (pl_stops (pf_tables s)))))"

definition booking_at :: "db_ctx \<Rightarrow> string \<Rightarrow> tables \<Rightarrow> booking option" where
  "booking_at c k t = first_row c bk_companyId (\<lambda>b. bk_id b = k) (pl_bookings t)"

definition select_booking :: "db_ctx \<Rightarrow> string \<Rightarrow> (platform, booking option) exec" where
  "select_booking c k = reads (\<lambda>s. booking_at c k (pf_tables s))"

definition get_booking :: "string \<Rightarrow> string \<Rightarrow> (platform, booking \<times> booking_stop list) exec" where
  "get_booking companyId k = tenantTx companyId (\<lambda>c.
     bindE (select_booking c k) (\<lambda>b.
     bindE (need b (NotFound ''Not Found'')) hydrate))"

definition list_bookings :: "string \<Rightarrow> (platform, booking list) exec" where
  "list_bookings companyId = tenantTx companyId (\<lambda>c. reads (\<lambda>s.
     take 100 (newest_first bk_createdAt (all_rows c bk_companyId (\<lambda>_. True) (pl_bookings (pf_tables s))))))"

section \<open>Writing\<close>

definition put_booking :: "db_ctx \<Rightarrow> (booking \<Rightarrow> bool) \<Rightarrow> (booking \<Rightarrow> booking) \<Rightarrow> tables \<Rightarrow> tables" where
  "put_booking c q f t = t\<lparr>pl_bookings := set_rows c bk_companyId q f (pl_bookings t)\<rparr>"

definition stop_row :: "string \<Rightarrow> stop_dto \<Rightarrow> booking_stop" where
  "stop_row k d = \<lparr>bs_bookingId = k, bs_kind = sd_kind d, bs_address = sd_address d,
     bs_lat = sd_lat d, bs_lng = sd_lng d, bs_sequence = sd_sequence d\<rparr>"

definition insert_stop :: "string \<Rightarrow> stop_dto \<Rightarrow> (platform, unit) exec" where
  "insert_stop k d =
     bindE (need_int4 (sd_sequence d)) (\<lambda>_.
     on_tables (modifies (\<lambda>t. t\<lparr>pl_stops := pl_stops t @ [stop_row k d]\<rparr>)))"

definition new_booking :: "string \<Rightarrow> string \<Rightarrow> int \<Rightarrow> string \<Rightarrow> int \<Rightarrow> quote \<Rightarrow> booking_dto \<Rightarrow> booking" where
  "new_booking companyId userId now k at_ms q d =
     \<lparr>bk_id = k, bk_companyId = companyId, bk_quoteId = bd_quoteId d, bk_truckType = bd_truckType d,
      bk_weightKg = bd_weightKg d, bk_scheduledAt = at_ms, bk_status = CONFIRMED,
      bk_estimatedPriceInr = qt_estimatedPriceInr q, bk_truckId = None, bk_driverId = None,
      bk_tripId = None, bk_manifestId = None, bk_notes = bd_notes d, bk_cancelReason = None,
      bk_createdBy = userId, bk_assignedAt = None, bk_cancelledAt = None, bk_createdAt = now\<rparr>"

definition create_booking ::
  "('e) plat_env_scheme \<Rightarrow> string \<Rightarrow> string \<Rightarrow> int \<Rightarrow> string \<Rightarrow> booking_dto \<Rightarrow>
   (platform, booking \<times> booking_stop list) exec"
where
  "create_booking E companyId userId now k d =
     bindE (getQuote companyId now (bd_quoteId d)) (\<lambda>q.
     bindE (need q (BadRequest ''QUOTE_NOT_FOUND_OR_EXPIRED'')) (\<lambda>q.
     let pickups = length (filter (\<lambda>s. sd_kind s = LEG_PICKUP) (bd_stops d));
         drops = length (filter (\<lambda>s. sd_kind s = LEG_DROP) (bd_stops d)) in
     bindE (throw_if (pickups < 1 \<or> drops < 1)
              (BadRequest ''NEED_AT_LEAST_ONE_PICKUP_AND_ONE_DROP'')) (\<lambda>_.
     bindE (throw_if (case js_date E (bd_scheduledAt d) of None \<Rightarrow> False | Some t \<Rightarrow> t < now)
              (BadRequest ''SCHEDULED_AT_MUST_BE_FUTURE'')) (\<lambda>_.
     tenantTx companyId (\<lambda>c.
       bindE (need_int4 (bd_weightKg d)) (\<lambda>_.
       bindE (need (pg_timestamp E (bd_scheduledAt d))
                (PgError ''invalid input syntax for type timestamp'')) (\<lambda>at_ms.
       let b = new_booking companyId userId now k at_ms q d in
       bindE (need_tenant c companyId) (\<lambda>_.
       bindE (need_fresh bk_id pl_bookings ''bookings_pkey'' k) (\<lambda>_.
       bindE (insert_booking b) (\<lambda>_.
       bindE (for_each (insert_stop k) (bd_stops d)) (\<lambda>_.
       bindE (plat_audit companyId (Some userId) ''BOOKING_CREATED'' ''booking'' k) (\<lambda>_.
       hydrate b))))))))))))"

text \<open>
  The two halves of \<open>assignTruck\<close>. The booking's row is locked by the first half (FOR UPDATE);
  the truck's and the driver's rows are only read.
\<close>

definition assign_checks :: "db_ctx \<Rightarrow> string \<Rightarrow> string \<Rightarrow> string \<Rightarrow> (platform, unit) exec" where
  "assign_checks c k truckId driverId =
     bindE (select_booking c k) (\<lambda>b.
     bindE (need b (NotFound ''Not Found'')) (\<lambda>b.
     bindE (throw_if (bk_status b \<noteq> CONFIRMED)
              (BadRequest ''ONLY_CONFIRMED_BOOKINGS_CAN_BE_ASSIGNED'')) (\<lambda>_.
     bindE (reads (\<lambda>s. first_row c tr_companyId (\<lambda>r. tr_id r = truckId \<and> tr_status r = AVAILABLE)
              (pl_trucks (pf_tables s)))) (\<lambda>r.
     bindE (throw_if (r = None) (BadRequest ''TRUCK_NOT_AVAILABLE'')) (\<lambda>_.
     bindE (reads (\<lambda>s. first_row c dr_companyId (\<lambda>r. dr_id r = driverId \<and> dr_status r = DR_ACTIVE)
              (pl_drivers (pf_tables s)))) (\<lambda>r.
     throw_if (r = None) (BadRequest ''DRIVER_NOT_ACTIVE'')))))))"

definition assign_writes :: "db_ctx \<Rightarrow> int \<Rightarrow> string \<Rightarrow> string \<Rightarrow> string \<Rightarrow> (platform, unit) exec" where
  "assign_writes c now k truckId driverId =
     bindE (on_tables (modifies (put_booking c (\<lambda>b. bk_id b = k)
       (\<lambda>b. b\<lparr>bk_status := ASSIGNED, bk_truckId := Some truckId, bk_driverId := Some driverId,
              bk_assignedAt := Some now\<rparr>)))) (\<lambda>_.
     on_tables (modifies (put_truck_status c truckId ON_TRIP)))"

definition assignTruck ::
  "string \<Rightarrow> string \<Rightarrow> int \<Rightarrow> string \<Rightarrow> string \<Rightarrow> string \<Rightarrow> db_ctx option \<Rightarrow>
   (platform, booking \<times> booking_stop list) exec"
where
  "assignTruck companyId userId now k truckId driverId client =
     tenantTxOn companyId client (\<lambda>c.
       bindE (assign_checks c k truckId driverId) (\<lambda>_.
       bindE (assign_writes c now k truckId driverId) (\<lambda>_.
       bindE (plat_audit companyId (Some userId) ''BOOKING_ASSIGNED'' ''booking'' k) (\<lambda>_.
       bindE (select_booking c k) (\<lambda>b.
       bindE (need b (Error ''Cannot read properties of undefined'')) hydrate)))))"

definition cancel_booking ::
  "string \<Rightarrow> string \<Rightarrow> int \<Rightarrow> string \<Rightarrow> string option \<Rightarrow> (platform, string \<times> booking_status) exec"
where
  "cancel_booking companyId userId now k reason = tenantTx companyId (\<lambda>c.
     bindE (select_booking c k) (\<lambda>b.
     bindE (need b (NotFound ''Not Found'')) (\<lambda>b.
     bindE (throw_if (bk_status b \<notin> {CONFIRMED, ASSIGNED})
              (BadRequest ''CANNOT_CANCEL_AFTER_TRANSIT_STARTS'')) (\<lambda>_.
     bindE (on_tables (modifies (put_booking c (\<lambda>b. bk_id b = k)
       (\<lambda>b. b\<lparr>bk_status := CANCELLED, bk_cancelReason := reason, bk_cancelledAt := Some now\<rparr>)))) (\<lambda>_.
     bindE (case bk_truckId b of
              None \<Rightarrow> return ()
            | Some truckId \<Rightarrow> on_tables (modifies (put_truck_status c truckId AVAILABLE))) (\<lambda>_.
     bindE (plat_audit companyId (Some userId) ''BOOKING_CANCELLED'' ''booking'' k) (\<lambda>_.
     return (k, CANCELLED))))))))"

text \<open>The number of rows the UPDATE returns decides \<open>changed\<close>.\<close>

definition markStatus ::
  "string \<Rightarrow> string \<Rightarrow> booking_status \<Rightarrow> db_ctx option \<Rightarrow> (platform, booking_status \<times> bool) exec"
where
  "markStatus companyId k st client = tenantTxOn companyId client (\<lambda>c.
     bindE (reads (\<lambda>s. all_rows c bk_companyId (\<lambda>b. bk_id b = k \<and> bk_status b \<noteq> st)
       (pl_bookings (pf_tables s)))) (\<lambda>rows.
     bindE (on_tables (modifies (put_booking c (\<lambda>b. bk_id b = k \<and> bk_status b \<noteq> st)
       (\<lambda>b. b\<lparr>bk_status := st\<rparr>)))) (\<lambda>_.
     return (st, 0 < length rows))))"

definition linkTrip ::
  "string \<Rightarrow> string \<Rightarrow> string option \<Rightarrow> string option \<Rightarrow> db_ctx option \<Rightarrow> (platform, unit) exec"
where
  "linkTrip companyId k tripId manifestId client = tenantTxOn companyId client (\<lambda>c.
     on_tables (modifies (put_booking c (\<lambda>b. bk_id b = k)
       (\<lambda>b. b\<lparr>bk_tripId := (case tripId of None \<Rightarrow> bk_tripId b | Some x \<Rightarrow> Some x),
              bk_manifestId := (case manifestId of None \<Rightarrow> bk_manifestId b | Some x \<Rightarrow> Some x)\<rparr>))))"


section \<open>Lookup after update\<close>

lemma set_rows_simps [simp]: "length (set_rows c owner q f rows) = length rows"
  by (simp add: set_rows_def)

lemma map_set_rows: "(\<And>r. g (f r) = g r) \<Longrightarrow> map g (set_rows c owner q f rows) = map g rows"
  by (simp add: set_rows_def table_simps)

lemma image_set_rows: "(\<And>r. g (f r) = g r) \<Longrightarrow> g ` set (set_rows c owner q f rows) = g ` set rows"
  using map_set_rows [of g f c owner q rows] by (metis list.set_map)

lemma set_set_rows:
  "r \<in> set (set_rows c owner q f rows) \<longleftrightarrow>
     (\<exists>r0 \<in> set rows. r = (if visible c owner r0 \<and> q r0 then f r0 else r0))"
  by (auto simp: set_rows_def update_where_def)

lemma set_set_rowsI:
  "r0 \<in> set rows \<Longrightarrow> (if visible c owner r0 \<and> q r0 then f r0 else r0) \<in> set (set_rows c owner q f rows)"
  by (auto simp: set_set_rows)

lemma first_row_unique:
  assumes "distinct (map key rows)" and "r \<in> set rows" and "key r = k" and "tenant_ok c (Some (owner r))"
  shows "first_row c owner (\<lambda>r. key r = k) rows = Some r"
  using assms by (induction rows) (auto simp: first_row_def visible_def)

lemma first_row_set_rows:
  "(\<And>r. owner (f r) = owner r) \<Longrightarrow> (\<And>r. key (f r) = key r) \<Longrightarrow>
   first_row c owner (\<lambda>r. key r = k) (set_rows c owner (\<lambda>r. key r = k) f rows) =
     map_option f (first_row c owner (\<lambda>r. key r = k) rows)"
  by (induction rows) (auto simp: first_row_def set_rows_def visible_def)

lemma tables_of_puts [simp]:
  "pl_bookings (put_booking c q f t) = set_rows c bk_companyId q f (pl_bookings t)"
  "pl_trucks (put_booking c q f t) = pl_trucks t" "pl_drivers (put_booking c q f t) = pl_drivers t"
  "pl_payments (put_booking c q f t) = pl_payments t" "pl_stops (put_booking c q f t) = pl_stops t"
  "pl_trucks (put_truck_status c k st t) =
     set_rows c tr_companyId (\<lambda>r. tr_id r = k) (\<lambda>r. r\<lparr>tr_status := st\<rparr>) (pl_trucks t)"
  "pl_bookings (put_truck_status c k st t) = pl_bookings t" "pl_stops (put_truck_status c k st t) = pl_stops t"
  "pl_drivers (put_truck_status c k st t) = pl_drivers t" "pl_payments (put_truck_status c k st t) = pl_payments t"
  by (simp_all add: put_booking_def put_truck_status_def)

lemma select_booking_success [exec_iff]:
  "select_booking c k s = (Inr b, s') \<longleftrightarrow> s' = s \<and> b = booking_at c k (pf_tables s)"
  by (auto simp: select_booking_def)

lemma hydrate_success [exec_iff]: "hydrate b s = (Inr x, s') \<longleftrightarrow> s' = s \<and> x = (b,
    sort_key bs_sequence (filter (\<lambda>r. bs_bookingId r = bk_id b) (pl_stops (pf_tables s))))"
  by (auto simp: hydrate_def)

section \<open>No truck carries two bookings\<close>

definition holds_truck :: "booking \<Rightarrow> string \<Rightarrow> bool" where
  "holds_truck b k \<longleftrightarrow> bk_status b = ASSIGNED \<and> bk_truckId b = Some k"

definition on_trip :: "tables \<Rightarrow> booking \<Rightarrow> bool" where
  "on_trip t b \<longleftrightarrow> (\<exists>r \<in> set (pl_trucks t).
     bk_truckId b = Some (tr_id r) \<and> tr_companyId r = bk_companyId b \<and> tr_status r = ON_TRIP)"

definition fleet_ok :: "tables \<Rightarrow> bool" where
  "fleet_ok t \<longleftrightarrow>
     distinct (map bk_id (pl_bookings t)) \<and> distinct (map tr_id (pl_trucks t)) \<and>
     (\<forall>b \<in> set (pl_bookings t). (bk_status b = CONFIRMED \<longrightarrow> bk_truckId b = None) \<and>
        (bk_status b = ASSIGNED \<longrightarrow> on_trip t b)) \<and>
     (\<forall>b \<in> set (pl_bookings t). \<forall>b' \<in> set (pl_bookings t).
        \<forall>k. holds_truck b k \<longrightarrow> holds_truck b' k \<longrightarrow> b = b')"

lemma fleet_ok_exclusive:
  "fleet_ok t \<Longrightarrow> b \<in> set (pl_bookings t) \<Longrightarrow> b' \<in> set (pl_bookings t) \<Longrightarrow>
     holds_truck b k \<Longrightarrow> holds_truck b' k \<Longrightarrow> b = b'"
  by (auto simp: fleet_ok_def)

text \<open>An available truck carries no booking.\<close>

lemma available_is_free:
  assumes "fleet_ok t" and "r \<in> set (pl_trucks t)" and "tr_status r = AVAILABLE"
    and "b \<in> set (pl_bookings t)"
  shows "\<not> holds_truck b (tr_id r)"
proof
  assume h: "holds_truck b (tr_id r)"
  with assms(1,4) obtain r' where "r' \<in> set (pl_trucks t)" "tr_id r' = tr_id r" "tr_status r' = ON_TRIP"
    by (auto simp: fleet_ok_def holds_truck_def on_trip_def)
  with assms(1-3) show False using unique_key [of tr_id "pl_trucks t" r r'] by (auto simp: fleet_ok_def)
qed

lemma fleet_ok_append:
  assumes "fleet_ok t" and "bk_id b \<notin> bk_id ` set (pl_bookings t)" and "bk_status b = CONFIRMED"
    and "bk_truckId b = None"
  shows "fleet_ok (t\<lparr>pl_bookings := pl_bookings t @ [b]\<rparr>)"
  using assms by (auto simp: fleet_ok_def holds_truck_def on_trip_def)

lemma fleet_ok_append_truck:
  assumes "fleet_ok t" and "tr_id r \<notin> tr_id ` set (pl_trucks t)"
  shows "fleet_ok (t\<lparr>pl_trucks := pl_trucks t @ [r]\<rparr>)"
  using assms by (auto simp: fleet_ok_def on_trip_def)

lemma fleet_ok_other [simp]:
  "fleet_ok (t\<lparr>pl_stops := ss\<rparr>) = fleet_ok t" "fleet_ok (t\<lparr>pl_drivers := ds\<rparr>) = fleet_ok t"
  "fleet_ok (t\<lparr>pl_quotes := qs\<rparr>) = fleet_ok t"
  by (simp_all add: fleet_ok_def on_trip_def)

text \<open>The invariant after an update of rows, row by row.\<close>

lemma fleet_ok_image:
  assumes keys: "distinct (map bk_id (pl_bookings t'))" "distinct (map tr_id (pl_trucks t'))"
    and img: "set (pl_bookings t') = g ` set (pl_bookings t)"
    and conf: "\<And>x. x \<in> set (pl_bookings t) \<Longrightarrow> bk_status (g x) = CONFIRMED \<Longrightarrow> bk_truckId (g x) = None"
    and trip: "\<And>x. x \<in> set (pl_bookings t) \<Longrightarrow> bk_status (g x) = ASSIGNED \<Longrightarrow> on_trip t' (g x)"
    and excl: "\<And>x y k. x \<in> set (pl_bookings t) \<Longrightarrow> y \<in> set (pl_bookings t) \<Longrightarrow>
      holds_truck (g x) k \<Longrightarrow> holds_truck (g y) k \<Longrightarrow> g x = g y"
  shows "fleet_ok t'"
  unfolding fleet_ok_def img using keys conf trip by (auto dest: excl)

lemma image_of_set_rows:
  "set (set_rows c owner q f rows) = (\<lambda>r. if visible c owner r \<and> q r then f r else r) ` set rows"
  by (simp add: set_rows_def update_where_def)

text \<open>An update of one booking that keeps its key, its owner and its place.\<close>

lemma fleet_ok_put_booking:
  assumes ok: "fleet_ok t"
    and keep: "\<And>b. bk_id (f b) = bk_id b" "\<And>b. bk_companyId (f b) = bk_companyId b"
      "\<And>b. bk_truckId (f b) = bk_truckId b"
    and st: "\<And>b. q b \<Longrightarrow> bk_status (f b) \<in> {bk_status b, DELIVERED, CANCELLED, IN_TRANSIT}"
  shows "fleet_ok (put_booking c q f t)"
proof -
  let ?g = "\<lambda>b. if visible c bk_companyId b \<and> q b then f b else b"
  have g: "holds_truck (?g b) k \<Longrightarrow> holds_truck b k" "bk_status (?g b) = ASSIGNED \<Longrightarrow> bk_status b = ASSIGNED"
    "bk_status (?g b) = CONFIRMED \<Longrightarrow> bk_status b = CONFIRMED" "on_trip t b \<Longrightarrow> on_trip t (?g b)" for b k
    using st [of b] keep by (auto simp: holds_truck_def on_trip_def split: if_splits)
  have tr: "on_trip (put_booking c q f t) b = on_trip t b" for b by (simp add: on_trip_def)
  show ?thesis
  proof (rule fleet_ok_image [where g = ?g and t = t])
    fix x y k
    assume xy: "x \<in> set (pl_bookings t)" "y \<in> set (pl_bookings t)" "holds_truck (?g x) k" "holds_truck (?g y) k"
    from fleet_ok_exclusive [OF ok xy(1,2) g(1) [OF xy(3)] g(1) [OF xy(4)]] show "?g x = ?g y" by simp
  next
    fix x assume "x \<in> set (pl_bookings t)" "bk_status (?g x) = ASSIGNED"
    then show "on_trip (put_booking c q f t) (?g x)" using ok g(2,4) unfolding tr fleet_ok_def by blast
  next
    fix x assume "x \<in> set (pl_bookings t)" "bk_status (?g x) = CONFIRMED"
    then have "bk_truckId x = None" using ok g(3) [of x] by (simp add: fleet_ok_def)
    then show "bk_truckId (?g x) = None" by (simp add: keep)
  qed (use ok keep(1) in \<open>simp_all add: fleet_ok_def map_set_rows image_of_set_rows\<close>)
qed

lemma fleet_ok_assign:
  fixes d :: "string option" and n :: "int option"
  assumes ok: "fleet_ok t" and b: "booking_at c k t = Some b"
    and r: "r \<in> set (pl_trucks t)" "tenant_ok c (Some (tr_companyId r))" "tr_status r = AVAILABLE"
    and same: "tr_companyId r = bk_companyId b"
  defines "t' \<equiv> put_truck_status c (tr_id r) ON_TRIP (put_booking c (\<lambda>b. bk_id b = k)
       (\<lambda>b. b\<lparr>bk_status := ASSIGNED, bk_truckId := Some (tr_id r), bk_driverId := d, bk_assignedAt := n\<rparr>) t)"
  shows "fleet_ok t'"
proof -
  let ?f = "\<lambda>b. b\<lparr>bk_status := ASSIGNED, bk_truckId := Some (tr_id r), bk_driverId := d, bk_assignedAt := n\<rparr>"
  let ?g = "\<lambda>b. if visible c bk_companyId b \<and> bk_id b = k then ?f b else b"
  let ?h = "\<lambda>x. if visible c tr_companyId x \<and> tr_id x = tr_id r then x\<lparr>tr_status := ON_TRIP\<rparr> else x"
  from b have bb: "b \<in> set (pl_bookings t)" "bk_id b = k" by (auto simp: booking_at_def dest: first_rowD)
  have one: "x = b" if "x \<in> set (pl_bookings t)" "bk_id x = k" for x
    using ok that bb unique_key [of bk_id "pl_bookings t" x b] by (auto simp: fleet_ok_def)
  have trip: "on_trip t' (?g x)" if x: "x \<in> set (pl_bookings t)" "bk_status (?g x) = ASSIGNED" for x
  proof (cases "visible c bk_companyId x \<and> bk_id x = k")
    case True
    then have "x = b" using one x by blast
    have "r\<lparr>tr_status := ON_TRIP\<rparr> \<in> set (pl_trucks t')"
      using r(1,2) set_set_rowsI [OF r(1), of c tr_companyId "\<lambda>x. tr_id x = tr_id r" "\<lambda>x. x\<lparr>tr_status := ON_TRIP\<rparr>"]
      by (simp add: t'_def visible_def)
    with True \<open>x = b\<close> same show ?thesis
      by (auto simp: on_trip_def intro!: bexI [of _ "r\<lparr>tr_status := ON_TRIP\<rparr>"])
  next
    case False
    with x ok obtain y where y: "y \<in> set (pl_trucks t)" "bk_truckId x = Some (tr_id y)"
      "tr_companyId y = bk_companyId x" "tr_status y = ON_TRIP"
      by (auto simp: fleet_ok_def on_trip_def)
    then have "?h y \<in> set (pl_trucks t')" "tr_status (?h y) = ON_TRIP" "tr_id (?h y) = tr_id y"
      "tr_companyId (?h y) = tr_companyId y"
      by (auto simp: t'_def set_set_rows)
    with False y show ?thesis unfolding on_trip_def if_not_P [OF False] by (intro bexI [of _ "?h y"] conjI) simp_all
  qed
  have free: "\<not> holds_truck x (tr_id r)" if "x \<in> set (pl_bookings t)" for x
    using available_is_free [OF ok r(1,3) that] .
  have held: "holds_truck (?g x) y \<Longrightarrow> (visible c bk_companyId x \<and> bk_id x = k \<and> y = tr_id r) \<or>
      (holds_truck x y \<and> \<not> (visible c bk_companyId x \<and> bk_id x = k))" for x y
    by (auto simp: holds_truck_def split: if_splits)
  have excl: "?g x = ?g x'" if "x \<in> set (pl_bookings t)" "x' \<in> set (pl_bookings t)"
    "holds_truck (?g x) y" "holds_truck (?g x') y" for x x' y
    using held [OF that(3)] held [OF that(4)] free that(1,2) one fleet_ok_exclusive [OF ok that(1,2), of y]
    by auto
  have keys: "distinct (map bk_id (pl_bookings t')) \<and> distinct (map tr_id (pl_trucks t'))"
    using ok by (simp add: fleet_ok_def t'_def map_set_rows)
  have conf: "bk_truckId (?g x) = None" if "x \<in> set (pl_bookings t)" "bk_status (?g x) = CONFIRMED" for x
    using ok that by (auto simp: fleet_ok_def split: if_splits)
  have img: "set (pl_bookings t') = ?g ` set (pl_bookings t)" by (simp add: t'_def image_of_set_rows)
  show ?thesis
    by (rule fleet_ok_image [where g = ?g and t = t]) (use keys conf trip excl img in blast)+
qed

text \<open>Freeing a truck no assigned booking holds, and marking any other one.\<close>

lemma fleet_ok_put_truck:
  assumes ok: "fleet_ok t" and free: "st = ON_TRIP \<or> (\<forall>b \<in> set (pl_bookings t). \<not> holds_truck b k)"
  shows "fleet_ok (put_truck_status c k st t)"
proof -
  have "on_trip (put_truck_status c k st t) b" if "b \<in> set (pl_bookings t)" "bk_status b = ASSIGNED" for b
  proof -
    let ?h = "\<lambda>x. if visible c tr_companyId x \<and> tr_id x = k then x\<lparr>tr_status := st\<rparr> else x"
    from ok that obtain y where y: "y \<in> set (pl_trucks t)" "bk_truckId b = Some (tr_id y)"
      "tr_companyId y = bk_companyId b" "tr_status y = ON_TRIP"
      by (auto simp: fleet_ok_def on_trip_def)
    with free that have "tr_status (?h y) = ON_TRIP" "tr_id (?h y) = tr_id y" "tr_companyId (?h y) = tr_companyId y"
      by (auto simp: holds_truck_def)
    moreover have "?h y \<in> set (pl_trucks (put_truck_status c k st t))" using y by (auto simp: set_set_rows)
    ultimately show ?thesis using y unfolding on_trip_def by (intro bexI [of _ "?h y"] conjI) simp_all
  qed
  then show ?thesis using ok by (auto simp: fleet_ok_def map_set_rows)
qed


section \<open>What the operations do\<close>

lemma tenantTx_failure: "tenantTx c fn s = (Inl e, s') \<Longrightarrow> pf_tables s' = pf_tables s"
  by (auto simp: tenantTx_def plat_tx_failure put_back_def)

lemma preserves_tables:
  assumes "\<And>s e s'. m s = (Inl e, s') \<Longrightarrow> pf_tables s' = pf_tables s"
    and "\<And>s x s'. I (pf_tables s) \<Longrightarrow> m s = (Inr x, s') \<Longrightarrow> I (pf_tables s')"
  shows "preserves (\<lambda>s. I (pf_tables s)) m"
  unfolding preserves_def
proof (intro allI impI)
  fix s r t
  assume "I (pf_tables s)" and "m s = (r, t)"
  with assms show "I (pf_tables t)" by (cases r) fastforce+
qed

lemma preserves_tenantTx:
  assumes "\<And>s x s'. I (pf_tables s) \<Longrightarrow> fn (Tenant c) s = (Inr x, s') \<Longrightarrow> I (pf_tables s')"
  shows "preserves (\<lambda>s. I (pf_tables s)) (tenantTx c fn)"
  by (rule preserves_tables) (auto simp: tenantTx_success dest: tenantTx_failure assms)

lemma insert_stop_success:
  "insert_stop k d s = (Inr u, s') \<longleftrightarrow> int4 (sd_sequence d) \<and>
     s' = s\<lparr>pf_tables := (pf_tables s)\<lparr>pl_stops := pl_stops (pf_tables s) @ [stop_row k d]\<rparr>\<rparr>"
  by (auto simp: insert_stop_def exec_iff)

lemma insert_stops_success:
  "for_each (insert_stop k) ds s = (Inr u, s') \<Longrightarrow>
     s' = s\<lparr>pf_tables := (pf_tables s)\<lparr>pl_stops := pl_stops (pf_tables s) @ map (stop_row k) ds\<rparr>\<rparr>"
proof (induction ds arbitrary: s)
  case (Cons d ds)
  let ?s1 = "s\<lparr>pf_tables := (pf_tables s)\<lparr>pl_stops := pl_stops (pf_tables s) @ [stop_row k d]\<rparr>\<rparr>"
  from Cons.prems have "for_each (insert_stop k) ds ?s1 = (Inr u, s')"
    by (auto simp: bindE_success insert_stop_success)
  from Cons.IH [OF this] show ?case by simp
qed (simp add: exec_iff)

lemma create_booking_success:
  assumes "create_booking E c u now k d s = (Inr x, s')"
  shows "\<exists>q at_ms. first_row (Tenant c) qt_companyId (open_quote now (bd_quoteId d)) (pl_quotes (pf_tables s)) = Some q \<and>
    k \<notin> bk_id ` set (pl_bookings (pf_tables s)) \<and>
    (let b = new_booking c u now k at_ms q d in
      fst x = b \<and>
      snd x = sort_key bs_sequence (filter (\<lambda>r. bs_bookingId r = k)
        (pl_stops (pf_tables s) @ map (stop_row k) (bd_stops d))) \<and>
      pf_tables s' = (pf_tables s)\<lparr>pl_bookings := pl_bookings (pf_tables s) @ [b],
        pl_stops := pl_stops (pf_tables s) @ map (stop_row k) (bd_stops d)\<rparr>)"
  using assms
  by (auto simp: create_booking_def exec_iff getQuote_def insert_booking_def Let_def new_booking_def
      dest!: insert_stops_success)

lemma assign_checks_success [exec_iff]:
  "assign_checks c k truckId driverId s = (Inr v, s') \<longleftrightarrow>
     s' = s \<and> (\<exists>b. booking_at c k (pf_tables s) = Some b \<and> bk_status b = CONFIRMED) \<and>
     (\<exists>r. first_row c tr_companyId (\<lambda>r. tr_id r = truckId \<and> tr_status r = AVAILABLE) (pl_trucks (pf_tables s)) = Some r) \<and>
     (\<exists>d. first_row c dr_companyId (\<lambda>r. dr_id r = driverId \<and> dr_status r = DR_ACTIVE) (pl_drivers (pf_tables s)) = Some d)"
  by (auto simp: assign_checks_def exec_iff)

definition assigned :: "db_ctx \<Rightarrow> int \<Rightarrow> string \<Rightarrow> string \<Rightarrow> string \<Rightarrow> tables \<Rightarrow> tables" where
  "assigned c now k truckId driverId t = put_truck_status c truckId ON_TRIP (put_booking c (\<lambda>b. bk_id b = k)
     (\<lambda>b. b\<lparr>bk_status := ASSIGNED, bk_truckId := Some truckId, bk_driverId := Some driverId,
            bk_assignedAt := Some now\<rparr>) t)"

lemma assign_writes_success [exec_iff]:
  "assign_writes c now k truckId driverId s = (Inr v, s') \<longleftrightarrow>
     s' = s\<lparr>pf_tables := assigned c now k truckId driverId (pf_tables s)\<rparr>"
  by (auto simp: assign_writes_def exec_iff assigned_def)

lemma assigned_tables [simp]:
  "pl_drivers (assigned c now k tr dr t) = pl_drivers t" "pl_stops (assigned c now k tr dr t) = pl_stops t"
  "pl_payments (assigned c now k tr dr t) = pl_payments t"
  "pl_trucks (assigned c now k tr dr t) =
     set_rows c tr_companyId (\<lambda>r. tr_id r = tr) (\<lambda>r. r\<lparr>tr_status := ON_TRIP\<rparr>) (pl_trucks t)"
  by (simp_all add: assigned_def)

lemma booking_at_put:
  assumes "\<And>b. bk_id (f b) = bk_id b" and "\<And>b. bk_companyId (f b) = bk_companyId b"
  shows "booking_at c k (put_booking c (\<lambda>b. bk_id b = k) f t) = map_option f (booking_at c k t)"
  unfolding booking_at_def tables_of_puts
  by (rule first_row_set_rows [where key = bk_id]) (rule assms)+

lemma booking_at_assigned:
  "booking_at c k (assigned c now k truckId driverId t) = map_option
     (\<lambda>b. b\<lparr>bk_status := ASSIGNED, bk_truckId := Some truckId, bk_driverId := Some driverId,
            bk_assignedAt := Some now\<rparr>) (booking_at c k t)"
proof -
  have "booking_at c k (put_truck_status c truckId ON_TRIP t') = booking_at c k t'" for t'
    by (simp add: booking_at_def)
  then show ?thesis by (simp add: assigned_def booking_at_put)
qed

lemma fleet_ok_assigned:
  assumes "fleet_ok t" and "booking_at (Tenant c) k t = Some b"
    and "first_row (Tenant c) tr_companyId (\<lambda>r. tr_id r = truckId \<and> tr_status r = AVAILABLE) (pl_trucks t) = Some r"
  shows "fleet_ok (assigned (Tenant c) now k truckId driverId t)"
proof -
  from first_rowD [OF assms(3)] have r: "r \<in> set (pl_trucks t)" "tr_companyId r = c" "tr_id r = truckId"
    "tr_status r = AVAILABLE" by auto
  from assms(2) have "bk_companyId b = c" by (auto simp: booking_at_def dest: first_rowD)
  with fleet_ok_assign [OF assms(1,2) r(1) _ r(4), where d = "Some driverId" and n = "Some now"] r show ?thesis
    by (simp add: assigned_def)
qed

lemma fleet_ok_cancelled:
  assumes ok: "fleet_ok t" and b: "booking_at c k t = Some b" and st: "bk_status b \<in> {CONFIRMED, ASSIGNED}"
    and tr: "bk_truckId b = Some truckId"
  shows "fleet_ok (put_truck_status c truckId AVAILABLE (put_booking c (\<lambda>b. bk_id b = k)
    (\<lambda>b. b\<lparr>bk_status := CANCELLED, bk_cancelReason := reason, bk_cancelledAt := Some now\<rparr>) t))"
proof (rule fleet_ok_put_truck, rule fleet_ok_put_booking [OF ok])
  let ?f = "\<lambda>b. b\<lparr>bk_status := CANCELLED, bk_cancelReason := reason, bk_cancelledAt := Some now\<rparr>"
  let ?t = "put_booking c (\<lambda>b. bk_id b = k) ?f t"
  from b have bb: "b \<in> set (pl_bookings t)" "bk_id b = k" "visible c bk_companyId b"
    by (auto simp: booking_at_def visible_def dest: first_rowD)
  with ok st tr have h: "holds_truck b truckId" by (auto simp: fleet_ok_def holds_truck_def)
  have "\<not> holds_truck x truckId" if "x \<in> set (pl_bookings ?t)" for x
  proof
    assume hx: "holds_truck x truckId"
    from that obtain y where y: "y \<in> set (pl_bookings t)" "x = (if visible c bk_companyId y \<and> bk_id y = k then ?f y else y)"
      by (auto simp: set_set_rows)
    with hx have "x = y" "\<not> (visible c bk_companyId y \<and> bk_id y = k)" by (auto simp: holds_truck_def split: if_splits)
    moreover from fleet_ok_exclusive [OF ok y(1) bb(1) _ h] hx \<open>x = y\<close> have "y = b" by simp
    ultimately show False using bb by simp
  qed
  then show "AVAILABLE = ON_TRIP \<or> (\<forall>x \<in> set (pl_bookings ?t). \<not> holds_truck x truckId)" by blast
qed simp_all

lemma cancel_booking_failure: "cancel_booking c u now k reason s = (Inl e, s') \<Longrightarrow> pf_tables s' = pf_tables s"
  unfolding cancel_booking_def by (rule tenantTx_failure)

lemma cancel_booking_success:
  assumes "cancel_booking c u now k reason s = (Inr x, s')"
  shows "\<exists>b. booking_at (Tenant c) k (pf_tables s) = Some b \<and> bk_status b \<in> {CONFIRMED, ASSIGNED} \<and>
    (let t = put_booking (Tenant c) (\<lambda>b. bk_id b = k) (\<lambda>b. b\<lparr>bk_status := CANCELLED,
         bk_cancelReason := reason, bk_cancelledAt := Some now\<rparr>) (pf_tables s) in
     pf_tables s' = (case bk_truckId b of None \<Rightarrow> t | Some r \<Rightarrow> put_truck_status (Tenant c) r AVAILABLE t))"
proof -
  from assms obtain b where b: "booking_at (Tenant c) k (pf_tables s) = Some b"
    by (auto simp: cancel_booking_def exec_iff)
  with assms show ?thesis by (cases "bk_truckId b") (auto simp: cancel_booking_def exec_iff Let_def)
qed

lemma bookings_keep_fleet:
  "preserves (\<lambda>s. fleet_ok (pf_tables s)) (assignTruck c u now k truckId driverId None)"
  "preserves (\<lambda>s. fleet_ok (pf_tables s)) (cancel_booking c u now k reason)"
  "preserves (\<lambda>s. fleet_ok (pf_tables s)) (markStatus c k DELIVERED None)"
  "preserves (\<lambda>s. fleet_ok (pf_tables s)) (linkTrip c k tripId manifestId None)"
proof -
  show "preserves (\<lambda>s. fleet_ok (pf_tables s)) (assignTruck c u now k truckId driverId None)"
    unfolding assignTruck_def tenantTxOn_simps
    by (rule preserves_tenantTx) (auto simp: exec_iff intro: fleet_ok_assigned)
  show "preserves (\<lambda>s. fleet_ok (pf_tables s)) (cancel_booking c u now k reason)"
  proof (rule preserves_tables [OF cancel_booking_failure])
    fix s x s'
    assume ok: "fleet_ok (pf_tables s)" and run: "cancel_booking c u now k reason s = (Inr x, s')"
    from cancel_booking_success [OF run] obtain b where
      b: "booking_at (Tenant c) k (pf_tables s) = Some b" "bk_status b \<in> {CONFIRMED, ASSIGNED}" and
      t: "pf_tables s' = (let t = put_booking (Tenant c) (\<lambda>b. bk_id b = k) (\<lambda>b. b\<lparr>bk_status := CANCELLED,
           bk_cancelReason := reason, bk_cancelledAt := Some now\<rparr>) (pf_tables s) in
         case bk_truckId b of None \<Rightarrow> t | Some r \<Rightarrow> put_truck_status (Tenant c) r AVAILABLE t)"
      by (auto simp: Let_def)
    show "fleet_ok (pf_tables s')"
    proof (cases "bk_truckId b")
      case None
      then show ?thesis unfolding t Let_def by (simp add: fleet_ok_put_booking [OF ok])
    next
      case (Some r)
      from fleet_ok_cancelled [OF ok b Some] show ?thesis unfolding t Let_def Some by simp
    qed
  qed
  show "preserves (\<lambda>s. fleet_ok (pf_tables s)) (markStatus c k DELIVERED None)"
    unfolding markStatus_def tenantTxOn_simps
    by (rule preserves_tenantTx) (auto simp: exec_iff intro: fleet_ok_put_booking)
  show "preserves (\<lambda>s. fleet_ok (pf_tables s)) (linkTrip c k tripId manifestId None)"
    unfolding linkTrip_def tenantTxOn_simps
    by (rule preserves_tenantTx) (auto simp: exec_iff intro: fleet_ok_put_booking)
qed

lemma create_booking_failure: "create_booking E c u now k d s = (Inl e, s') \<Longrightarrow> pf_tables s' = pf_tables s"
  unfolding create_booking_def getQuote_def Let_def
  by (auto simp: bindE_failure throw_if_def need_def exec_iff split: if_splits option.splits
      dest!: tenantTx_failure)

lemma create_keeps_fleet: "preserves (\<lambda>s. fleet_ok (pf_tables s)) (create_booking E c u now k d)"
proof (rule preserves_tables [OF create_booking_failure])
  fix s x s'
  assume ok: "fleet_ok (pf_tables s)" and run: "create_booking E c u now k d s = (Inr x, s')"
  from create_booking_success [OF run] obtain b where
    "pf_tables s' = ((pf_tables s)\<lparr>pl_bookings := pl_bookings (pf_tables s) @ [b]\<rparr>)
       \<lparr>pl_stops := pl_stops (pf_tables s) @ map (stop_row k) (bd_stops d)\<rparr>"
    "bk_id b \<notin> bk_id ` set (pl_bookings (pf_tables s))" "bk_status b = CONFIRMED" "bk_truckId b = None"
    by (auto simp: Let_def new_booking_def)
  with fleet_ok_append [OF ok] show "fleet_ok (pf_tables s')" by simp
qed

lemma fleet_keeps_fleet:
  "preserves (\<lambda>s. fleet_ok (pf_tables s)) (addTruck c u now k td)"
  "preserves (\<lambda>s. fleet_ok (pf_tables s)) (addDriver c u now k dd)"
proof -
  show "preserves (\<lambda>s. fleet_ok (pf_tables s)) (addTruck c u now k td)"
    unfolding addTruck_def
    by (rule preserves_tenantTx) (auto simp: exec_iff insert_truck_def Let_def intro: fleet_ok_append_truck)
  show "preserves (\<lambda>s. fleet_ok (pf_tables s)) (addDriver c u now k dd)"
    unfolding addDriver_def by (rule preserves_tenantTx) (auto simp: exec_iff Let_def)
qed

lemma setTruckStatus_tables:
  "pf_tables (snd (setTruckStatus c k st s)) = put_truck_status (Tenant c) k st (pf_tables s)"
  by (simp add: setTruckStatus_def tenantTx_def plat_tx_def bindE_def on_tables_def)


section \<open>The life of a booking\<close>

text \<open>
  The requests that touch bookings and trucks, one after the other. A dispatcher may set a
  truck's status by hand: the code does not check that no booking holds it, the last rule
  assumes it.
\<close>

inductive fleet_step :: "('e) plat_env_scheme \<Rightarrow> platform \<Rightarrow> platform \<Rightarrow> bool" for E where
  created: "create_booking E c u now k d s = (r, s') \<Longrightarrow> fleet_step E s s'"
| assigned: "assignTruck c u now k truckId driverId None s = (r, s') \<Longrightarrow> fleet_step E s s'"
| cancelled: "cancel_booking c u now k reason s = (r, s') \<Longrightarrow> fleet_step E s s'"
| delivered: "markStatus c k DELIVERED None s = (r, s') \<Longrightarrow> fleet_step E s s'"
| linked: "linkTrip c k tripId manifestId None s = (r, s') \<Longrightarrow> fleet_step E s s'"
| truck_added: "addTruck c u now k td s = (r, s') \<Longrightarrow> fleet_step E s s'"
| driver_added: "addDriver c u now k dd s = (r, s') \<Longrightarrow> fleet_step E s s'"
| truck_set: "setTruckStatus c k st s = (r, s') \<Longrightarrow>
    st = ON_TRIP \<or> (\<forall>b \<in> set (pl_bookings (pf_tables s)). \<not> holds_truck b k) \<Longrightarrow> fleet_step E s s'"

inductive_cases fleet_step_cases: "fleet_step E s s'"

lemmas keeps_fleet = bookings_keep_fleet create_keeps_fleet fleet_keeps_fleet

lemma fleet_step_ok: "fleet_step E s s' \<Longrightarrow> fleet_ok (pf_tables s) \<Longrightarrow> fleet_ok (pf_tables s')"
proof (induction rule: fleet_step.induct)
  case (truck_set c k st s r s')
  from fleet_ok_put_truck [OF truck_set(3,2)] show ?case
    using setTruckStatus_tables [of c k st s] truck_set(1) by simp
qed (auto dest: keeps_fleet [THEN preservesD])

text \<open>Where a status can lead; \<open>IN_TRANSIT\<close> is never written.\<close>

fun may_become :: "booking_status \<Rightarrow> booking_status \<Rightarrow> bool" where
  "may_become CONFIRMED st \<longleftrightarrow> st \<noteq> IN_TRANSIT"
| "may_become ASSIGNED st \<longleftrightarrow> st \<in> {ASSIGNED, CANCELLED, DELIVERED}"
| "may_become IN_TRANSIT st \<longleftrightarrow> st \<in> {IN_TRANSIT, DELIVERED}"
| "may_become CANCELLED st \<longleftrightarrow> st \<in> {CANCELLED, DELIVERED}"
| "may_become DELIVERED st \<longleftrightarrow> st = DELIVERED"

lemma may_become_refl [simp]: "may_become st st"
  by (cases st) simp_all

lemma may_become_trans: "may_become a b \<Longrightarrow> may_become b c \<Longrightarrow> may_become a c"
  by (cases a; cases b; cases c) simp_all

definition evolves :: "booking \<Rightarrow> booking \<Rightarrow> bool" where
  "evolves b b' \<longleftrightarrow> bk_id b' = bk_id b \<and> bk_companyId b' = bk_companyId b \<and>
     bk_quoteId b' = bk_quoteId b \<and> bk_estimatedPriceInr b' = bk_estimatedPriceInr b \<and>
     bk_weightKg b' = bk_weightKg b \<and> bk_scheduledAt b' = bk_scheduledAt b \<and>
     may_become (bk_status b) (bk_status b')"

lemma evolves_refl [simp]: "evolves b b"
  by (simp add: evolves_def)

lemma evolves_trans: "evolves a b \<Longrightarrow> evolves b c \<Longrightarrow> evolves a c"
  by (auto simp: evolves_def dest: may_become_trans)

definition all_evolve :: "tables \<Rightarrow> tables \<Rightarrow> bool" where
  "all_evolve t t' \<longleftrightarrow> (\<forall>b \<in> set (pl_bookings t). \<exists>b' \<in> set (pl_bookings t'). evolves b b')"

lemma all_evolve_refl: "pl_bookings t' = pl_bookings t \<Longrightarrow> all_evolve t t'"
  by (auto simp: all_evolve_def intro: evolves_refl)

lemma all_evolve_put:
  assumes "\<And>b. b \<in> set (pl_bookings t) \<Longrightarrow> visible c bk_companyId b \<Longrightarrow> q b \<Longrightarrow> evolves b (f b)"
  shows "all_evolve t (put_booking c q f t)"
  unfolding all_evolve_def
proof
  fix b assume b: "b \<in> set (pl_bookings t)"
  let ?b = "if visible c bk_companyId b \<and> q b then f b else b"
  have "?b \<in> set (pl_bookings (put_booking c q f t))" using b by (simp add: image_of_set_rows)
  moreover have "evolves b ?b" using b assms by simp
  ultimately show "\<exists>b' \<in> set (pl_bookings (put_booking c q f t)). evolves b b'" by blast
qed

lemma all_evolve_put_truck [simp]: "all_evolve t (put_truck_status c k st t') = all_evolve t t'"
  by (simp add: all_evolve_def)

lemma the_booking:
  assumes "fleet_ok t" and "booking_at c k t = Some b" and "x \<in> set (pl_bookings t)" and "bk_id x = k"
  shows "x = b"
proof -
  from assms(2) have b: "b \<in> set (pl_bookings t)" "bk_id b = k"
    by (auto simp: booking_at_def dest: first_rowD)
  have "distinct (map bk_id (pl_bookings t))" using assms(1) by (simp add: fleet_ok_def)
  from unique_key [OF this assms(3) b(1)] b(2) assms(4) show ?thesis by simp
qed

lemma assigned_evolve:
  assumes "fleet_ok t" and "booking_at c k t = Some b" and "bk_status b = CONFIRMED"
  shows "all_evolve t (assigned c now k truckId driverId t)"
  unfolding assigned_def all_evolve_put_truck
proof (rule all_evolve_put)
  fix x assume "x \<in> set (pl_bookings t)" "bk_id x = k"
  with the_booking [OF assms(1,2)] have "x = b" by blast
  with assms(3) show "evolves x (x\<lparr>bk_status := ASSIGNED, bk_truckId := Some truckId,
    bk_driverId := Some driverId, bk_assignedAt := Some now\<rparr>)" by (simp add: evolves_def)
qed

lemma cancelled_evolve:
  assumes "fleet_ok t" and "booking_at c k t = Some b" and "bk_status b \<in> {CONFIRMED, ASSIGNED}"
  shows "all_evolve t (put_booking c (\<lambda>b. bk_id b = k)
    (\<lambda>b. b\<lparr>bk_status := CANCELLED, bk_cancelReason := reason, bk_cancelledAt := Some now\<rparr>) t)"
proof (rule all_evolve_put)
  fix x assume "x \<in> set (pl_bookings t)" "bk_id x = k"
  with the_booking [OF assms(1,2)] have "x = b" by blast
  with assms(3) show "evolves x (x\<lparr>bk_status := CANCELLED, bk_cancelReason := reason,
    bk_cancelledAt := Some now\<rparr>)" by (auto simp: evolves_def)
qed

lemma delivered_evolve:
  "all_evolve t (put_booking c q (\<lambda>b. b\<lparr>bk_status := DELIVERED\<rparr>) t)"
proof (rule all_evolve_put)
  fix b show "evolves b (b\<lparr>bk_status := DELIVERED\<rparr>)" by (cases "bk_status b") (simp_all add: evolves_def)
qed

lemma create_evolve:
  assumes "create_booking E c u now k d s = (r, s')"
  shows "all_evolve (pf_tables s) (pf_tables s')"
proof (cases r)
  case (Inl e)
  with assms show ?thesis by (simp add: create_booking_failure all_evolve_refl)
next
  case (Inr x)
  from create_booking_success [OF assms [unfolded Inr]] obtain bs where
    "pl_bookings (pf_tables s') = pl_bookings (pf_tables s) @ bs" by (auto simp: Let_def)
  then show ?thesis using evolves_refl unfolding all_evolve_def by (metis UnCI set_append)
qed

lemma cancel_evolve:
  assumes "cancel_booking c u now k reason s = (r, s')" and ok: "fleet_ok (pf_tables s)"
  shows "all_evolve (pf_tables s) (pf_tables s')"
proof (cases r)
  case (Inl e)
  with assms show ?thesis by (simp add: cancel_booking_failure all_evolve_refl)
next
  case (Inr x)
  from cancel_booking_success [OF assms(1) [unfolded Inr]] cancelled_evolve [OF ok, of "Tenant c" k]
  show ?thesis by (auto simp: Let_def simp del: tables_of_puts split: option.splits)
qed

lemma tenantTx_evolve:
  assumes "tenantTx c fn s = (r, s')"
    and "\<And>x. fn (Tenant c) s = (Inr x, s') \<Longrightarrow> all_evolve (pf_tables s) (pf_tables s')"
  shows "all_evolve (pf_tables s) (pf_tables s')"
proof (cases r)
  case (Inl e)
  with assms(1) have "pf_tables s' = pf_tables s" by (simp add: tenantTx_failure)
  then show ?thesis by (simp add: all_evolve_refl)
qed (use assms in \<open>simp add: tenantTx_success\<close>)

lemma fleet_step_evolves: "fleet_step E s s' \<Longrightarrow> fleet_ok (pf_tables s) \<Longrightarrow> all_evolve (pf_tables s) (pf_tables s')"
proof (induction rule: fleet_step.induct)
  case (assigned c u now k truckId driverId s r s')
  from assigned(1) show ?case unfolding assignTruck_def tenantTxOn_simps
    by (rule tenantTx_evolve) (auto simp: exec_iff intro: assigned_evolve [OF assigned(2)])
next
  case (delivered c k s r s')
  from delivered(1) show ?case unfolding markStatus_def tenantTxOn_simps
    by (rule tenantTx_evolve) (auto simp: exec_iff intro: delivered_evolve)
next
  case (linked c k tripId manifestId s r s')
  from linked(1) show ?case unfolding linkTrip_def tenantTxOn_simps
    by (rule tenantTx_evolve) (auto simp: exec_iff evolves_def intro: all_evolve_put)
next
  case (truck_added c u now k td s r s')
  from truck_added(1) show ?case unfolding addTruck_def
    by (rule tenantTx_evolve) (auto simp: exec_iff insert_truck_def Let_def intro: all_evolve_refl)
next
  case (driver_added c u now k dd s r s')
  from driver_added(1) show ?case unfolding addDriver_def
    by (rule tenantTx_evolve) (auto simp: exec_iff Let_def intro: all_evolve_refl)
next
  case (truck_set c k st s r s')
  then show ?case using setTruckStatus_tables [of c k st s] by (simp add: all_evolve_refl)
qed (auto intro: create_evolve cancel_evolve)

lemma all_evolve_trans: "all_evolve t u \<Longrightarrow> all_evolve u v \<Longrightarrow> all_evolve t v"
  unfolding all_evolve_def using evolves_trans by blast

lemma fleet_run:
  assumes "(fleet_step E)\<^sup>*\<^sup>* s s'" and "fleet_ok (pf_tables s)"
  shows "fleet_ok (pf_tables s') \<and> all_evolve (pf_tables s) (pf_tables s')"
  using assms(1)
proof (induction rule: rtranclp_induct)
  case (step t u)
  with fleet_step_ok fleet_step_evolves show ?case by (blast intro: all_evolve_trans)
qed (simp add: assms(2) all_evolve_refl)

section \<open>Two assignments at once\<close>

lemma holds_after_assign:
  "booking_at c k t = Some b \<Longrightarrow> \<exists>b'. booking_at c k (assigned c now k truckId driverId t) = Some b' \<and> holds_truck b' truckId"
  by (simp add: booking_at_assigned holds_truck_def)

lemma first_row_other:
  assumes "\<And>r. owner (f r) = owner r" and "\<And>r. key (f r) = key r" and "k' \<noteq> k"
  shows "first_row c owner (\<lambda>r. key r = k') (set_rows c owner (\<lambda>r. key r = k) f rows) =
    first_row c owner (\<lambda>r. key r = k') rows"
  using assms by (induction rows) (auto simp: first_row_def set_rows_def visible_def)

lemma booking_at_assigned_other:
  "k' \<noteq> k \<Longrightarrow> booking_at c k' (assigned c now k truckId driverId t) = booking_at c k' t"
  unfolding booking_at_def assigned_def tables_of_puts
  by (rule first_row_other [where key = bk_id]) simp_all

section \<open>Confinement\<close>

lemma foreign_bookings [simp]:
  "foreign_rows c (t\<lparr>pl_bookings := bs\<rparr>) = foreign_rows c t \<longleftrightarrow>
     others bk_companyId c bs = others bk_companyId c (pl_bookings t)"
  "foreign_rows c (t\<lparr>pl_stops := ss\<rparr>) = foreign_rows c t"
  by (auto simp: foreign_rows_def)

lemma confined_hydrate [confine]: "confined c (hydrate b)"
  unfolding hydrate_def by (rule confine)

lemma confined_select [confine]: "confined c (select_booking ctx k)"
  unfolding select_booking_def by (rule confine)

lemma confined_insert_stop [confine]: "confined c (insert_stop k d)"
  unfolding insert_stop_def by (rule confine | simp)+

lemma confined_assign [confine]:
  "confined c (assign_checks (Tenant c) k truckId driverId)"
  "confined c (assign_writes (Tenant c) now k truckId driverId)"
  unfolding assign_checks_def assign_writes_def put_booking_def by (rule confine | simp)+

lemma confined_bookings:
  "confined c (create_booking E c u now k d)" "confined c (get_booking c k)" "confined c (list_bookings c)"
  "confined c (assignTruck c u now k truckId driverId None)"
  "confined c (assignTruck c u now k truckId driverId (Some (Tenant c)))"
  "confined c (cancel_booking c u now k reason)" "confined c (markStatus c k st None)"
  "confined c (linkTrip c k tripId manifestId (Some (Tenant c)))"
  unfolding create_booking_def get_booking_def list_bookings_def assignTruck_def cancel_booking_def
    markStatus_def linkTrip_def Let_def tenantTxOn_simps put_booking_def insert_booking_def
  by (rule confine confined_quotes | simp add: new_booking_def)+

end
