(* ===== verification/Payments.thy ===== *)
theory Payments imports Bookings begin

text \<open>
  \<open>platform/api/payments/payments.service.ts\<close> and the signature checks of its controller: one
  collection per booking, the gateway's webhook, and the release gate's webhook, which asks the
  chain itself before it releases a payout. Together with \<open>requestPayout\<close> of the release gate
  this is the whole path from a signed delivery to a payout. Bodies of requests are JSON
  values as the web framework parsed them.
\<close>

section \<open>Members of a parsed body\<close>

definition json_member :: "string \<Rightarrow> json \<Rightarrow> json option" where
  "json_member k j = (case j of JObj ms \<Rightarrow> map_of ms k | _ \<Rightarrow> None)"

fun js_truthy :: "json \<Rightarrow> bool" where
  "js_truthy JNull \<longleftrightarrow> False"
| "js_truthy (JBool b) \<longleftrightarrow> b"
| "js_truthy (JNum n) \<longleftrightarrow> n \<noteq> ''0''"
| "js_truthy (JStr s) \<longleftrightarrow> s \<noteq> []"
| "js_truthy (JArr _) \<longleftrightarrow> True"
| "js_truthy (JObj _) \<longleftrightarrow> True"

text \<open>The text a value becomes as the parameter of a text column.\<close>

fun param_text :: "json \<Rightarrow> string" where
  "param_text (JStr s) = s"
| "param_text j = stringify j"

section \<open>Collections\<close>

record collection_dto =
  cl_bookingId :: string
  cl_amountInr :: int
  cl_method :: string

definition gateway_order_id :: "string \<Rightarrow> string" where
  "gateway_order_id bookingId = ''order_'' @ take 14 (filter (\<lambda>c. c \<noteq> CHR ''-'') bookingId)"

definition new_payment :: "string \<Rightarrow> string \<Rightarrow> collection_dto \<Rightarrow> payment" where
  "new_payment companyId k d =
     \<lparr>py_id = k, py_companyId = companyId, py_bookingId = cl_bookingId d, py_amountInr = cl_amountInr d,
      py_method = cl_method d, py_status = PENDING, py_payout = HELD,
      py_gatewayOrderId = gateway_order_id (cl_bookingId d), py_paidAt = None, py_payoutAt = None\<rparr>"

definition createCollection ::
  "string \<Rightarrow> string \<Rightarrow> string \<Rightarrow> collection_dto \<Rightarrow> (platform, payment) exec"
where
  "createCollection companyId userId k d = tenantTx companyId (\<lambda>c.
     bindE (select_booking c (cl_bookingId d)) (\<lambda>b.
     bindE (need b (NotFound ''BOOKING_NOT_FOUND'')) (\<lambda>_.
     bindE (reads (\<lambda>s. first_row c py_companyId
              (\<lambda>p. py_bookingId p = cl_bookingId d \<and> py_status p \<in> {PENDING, PAID}) (pl_payments (pf_tables s)))) (\<lambda>dup.
     bindE (throw_if (dup \<noteq> None) (BadRequest ''PAYMENT_ALREADY_EXISTS'')) (\<lambda>_.
     let p = new_payment companyId k d in
     bindE (need_int4 (cl_amountInr d)) (\<lambda>_.
     bindE (need_tenant c companyId) (\<lambda>_.
     bindE (need_fresh py_id pl_payments ''payments_pkey'' k) (\<lambda>_.
     bindE (need_fresh py_gatewayOrderId pl_payments ''payments_gateway_order_id_key''
              (py_gatewayOrderId p)) (\<lambda>_.
     bindE (on_tables (modifies (\<lambda>t. t\<lparr>pl_payments := pl_payments t @ [p]\<rparr>))) (\<lambda>_.
     bindE (plat_audit companyId (Some userId) ''COLLECTION_CREATED'' ''payment'' k) (\<lambda>_.
     return p)))))))))))"

definition getByBooking_payment :: "string \<Rightarrow> string \<Rightarrow> (platform, payment) exec" where
  "getByBooking_payment companyId bookingId = tenantTx companyId (\<lambda>c.
     bindE (reads (\<lambda>s. first_row c py_companyId (\<lambda>p. py_bookingId p = bookingId) (pl_payments (pf_tables s)))) (\<lambda>p.
     need p (NotFound ''Not Found'')))"

section \<open>The gateway's webhook\<close>

definition put_payments :: "db_ctx \<Rightarrow> (payment \<Rightarrow> bool) \<Rightarrow> (payment \<Rightarrow> payment) \<Rightarrow> tables \<Rightarrow> tables" where
  "put_payments c q f t = t\<lparr>pl_payments := set_rows c py_companyId q f (pl_payments t)\<rparr>"

definition order_of :: "json \<Rightarrow> json option" where
  "order_of body =
     Option.bind (json_member ''payload'' body) (\<lambda>p.
     Option.bind (json_member ''payment'' p) (\<lambda>q.
     Option.bind (json_member ''entity'' q) (json_member ''order_id'')))"

definition settle :: "string \<Rightarrow> pay_status \<Rightarrow> int option \<Rightarrow> (platform, unit) exec" where
  "settle orderId st paid = systemTx (\<lambda>c. on_tables (modifies (put_payments c
     (\<lambda>p. py_gatewayOrderId p = orderId \<and> py_status p = PENDING)
     (\<lambda>p. p\<lparr>py_status := st, py_paidAt := (case paid of None \<Rightarrow> py_paidAt p | Some n \<Rightarrow> Some n)\<rparr>))))"

definition handleGatewayWebhook ::
  "('e) plat_env_scheme \<Rightarrow> string \<Rightarrow> int \<Rightarrow> string \<Rightarrow> json \<Rightarrow> (platform, unit) exec"
where
  "handleGatewayWebhook E secret now signature body =
     bindE (throw_if (signature \<noteq> hmac_hex E secret (stringify body))
              (Unauthorized ''BAD_WEBHOOK_SIGNATURE'')) (\<lambda>_.
     case order_of body of
       None \<Rightarrow> raise (BadRequest ''NO_ORDER_ID'')
     | Some order \<Rightarrow>
         if \<not> js_truthy order then raise (BadRequest ''NO_ORDER_ID'')
         else if json_member ''event'' body = Some (JStr ''payment.captured'')
         then settle (param_text order) PAID (Some now)
         else if json_member ''event'' body = Some (JStr ''payment.failed'')
         then settle (param_text order) FAILED None
         else return ())"

text \<open>The controller: no signature, no check.\<close>

definition gatewayWebhook ::
  "('e) plat_env_scheme \<Rightarrow> string \<Rightarrow> int \<Rightarrow> string option \<Rightarrow> json \<Rightarrow> (platform, unit) exec"
where
  "gatewayWebhook E secret now signature body =
     (if truthy signature then handleGatewayWebhook E secret now (the signature) body
      else raise (BadRequest ''MISSING_SIGNATURE''))"

section \<open>The release gate's webhook\<close>

text \<open>
  A member that is no text is no valid \<open>bytes32\<close> and no valid \<open>uuid\<close>; an absent or null booking
  matches no row. A missing company is NULL in the audit log, kept as the empty text here.
\<close>

definition chain_releasable :: "json option \<Rightarrow> (platform, bool) exec" where
  "chain_releasable k = in_world (on_chain (isReleasable
     (case k of Some (JStr s) \<Rightarrow> s | _ \<Rightarrow> [])))"

definition release_payments :: "int \<Rightarrow> json option \<Rightarrow> (platform, unit) exec" where
  "release_payments now bookingId = systemTx (\<lambda>c.
     case bookingId of
       None \<Rightarrow> return ()
     | Some JNull \<Rightarrow> return ()
     | Some j \<Rightarrow>
         bindE (throw_if (\<not> is_uuid (param_text j)) (PgError ''invalid input syntax for type uuid'')) (\<lambda>_.
         on_tables (modifies (put_payments c
           (\<lambda>p. py_bookingId p = param_text j \<and> py_status p = PAID \<and> py_payout p = HELD)
           (\<lambda>p. p\<lparr>py_payout := RELEASED, py_payoutAt := Some now\<rparr>)))))"

definition text_or_empty :: "json option \<Rightarrow> string" where
  "text_or_empty j = (case j of None \<Rightarrow> [] | Some JNull \<Rightarrow> [] | Some j \<Rightarrow> param_text j)"

definition handleReleaseGate ::
  "('e) plat_env_scheme \<Rightarrow> string \<Rightarrow> int \<Rightarrow> string option \<Rightarrow> json \<Rightarrow> (platform, bool) exec"
where
  "handleReleaseGate E secret now signature body =
     bindE (throw_if (coalesce signature [] \<noteq> hmac_hex E secret (stringify body))
              (Unauthorized ''BAD_INTERNAL_SIGNATURE'')) (\<lambda>_.
     bindE (chain_releasable (json_member ''manifestId'' body)) (\<lambda>ok.
     bindE (throw_if (\<not> ok) (BadRequest ''CHAIN_SAYS_NOT_RELEASABLE'')) (\<lambda>_.
     bindE (release_payments now (json_member ''bookingId'' body)) (\<lambda>_.
     bindE (plat_audit (text_or_empty (json_member ''companyId'' body)) None ''PAYOUT_RELEASED''
              ''payment'' (text_or_empty (json_member ''bookingId'' body))) (\<lambda>_.
     return True)))))"


section \<open>Settling once\<close>

lemma payments_of_put [simp]:
  "pl_payments (put_payments c q f t) = set_rows c py_companyId q f (pl_payments t)"
  "pl_bookings (put_payments c q f t) = pl_bookings t" "pl_trucks (put_payments c q f t) = pl_trucks t"
  by (simp_all add: put_payments_def)

lemma settle_run:
  "settle k st paid s = (Inr (), s\<lparr>pf_tables := put_payments System
     (\<lambda>p. py_gatewayOrderId p = k \<and> py_status p = PENDING)
     (\<lambda>p. p\<lparr>py_status := st, py_paidAt := (case paid of None \<Rightarrow> py_paidAt p | Some n \<Rightarrow> Some n)\<rparr>) (pf_tables s)\<rparr>)"
  by (simp add: settle_def systemTx_def plat_tx_def on_tables_def)

text \<open>What a webhook that is accepted does to the tables.\<close>

definition webhook_effect :: "int \<Rightarrow> json \<Rightarrow> string \<Rightarrow> tables \<Rightarrow> tables" where
  "webhook_effect now event order t =
     (if event = JStr ''payment.captured'' \<or> event = JStr ''payment.failed''
      then put_payments System (\<lambda>p. py_gatewayOrderId p = order \<and> py_status p = PENDING)
        (\<lambda>p. p\<lparr>py_status := (if event = JStr ''payment.captured'' then PAID else FAILED),
               py_paidAt := (if event = JStr ''payment.captured'' then Some now else py_paidAt p)\<rparr>) t
      else t)"

lemma webhook_cases:
  "handleGatewayWebhook E secret now sig body s =
     (if sig \<noteq> hmac_hex E secret (stringify body) then (Inl (Unauthorized ''BAD_WEBHOOK_SIGNATURE''), s)
      else case order_of body of
        None \<Rightarrow> (Inl (BadRequest ''NO_ORDER_ID''), s)
      | Some order \<Rightarrow>
          if \<not> js_truthy order then (Inl (BadRequest ''NO_ORDER_ID''), s)
          else (Inr (), s\<lparr>pf_tables := webhook_effect now (coalesce (json_member ''event'' body) JNull)
                  (param_text order) (pf_tables s)\<rparr>))"
  by (auto simp: handleGatewayWebhook_def bindE_def throw_if_def settle_run webhook_effect_def coalesce_def
      split: option.splits)

section \<open>Events delivered more than once\<close>

text \<open>
  The gateway repeats a webhook until it is acknowledged, and a captured payment may be
  reported failed before or after. The locale is the contract of a handler under which only
  the first event of each key counts; it is interpreted on the webhook's effect.
\<close>

fun first_per :: "('e \<Rightarrow> 'k) \<Rightarrow> 'e list \<Rightarrow> 'e list" where
  "first_per key [] = []"
| "first_per key (e # es) = e # filter (\<lambda>x. key x \<noteq> key e) (first_per key es)"

lemma first_per_distinct: "distinct (map key (first_per key es))"
  by (induction es) (auto simp: distinct_map intro: inj_on_subset)

locale first_event_wins =
  fixes apply_event :: "'e \<Rightarrow> 's \<Rightarrow> 's"
    and key :: "'e \<Rightarrow> 'k"
    and settled :: "'k \<Rightarrow> 's \<Rightarrow> bool"
  assumes settles: "settled (key e) (apply_event e s)"
    and stays: "settled k s \<Longrightarrow> settled k (apply_event e s)"
    and skips: "settled (key e) s \<Longrightarrow> apply_event e s = s"
begin

lemma fold_filter:
  "settled k s \<Longrightarrow> fold apply_event (filter (\<lambda>x. key x \<noteq> k) es) s = fold apply_event es s"
proof (induction es arbitrary: s)
  case (Cons e es)
  then show ?case using stays [of k s e] skips [of e s] by auto
qed simp

lemma fold_first_per: "fold apply_event (first_per key es) s = fold apply_event es s"
proof (induction es arbitrary: s)
  case (Cons e es)
  show ?case using Cons.IH [of "apply_event e s"] by (simp add: fold_filter settles)
qed simp

end

record gateway_event =
  ge_at :: int
  ge_captured :: bool
  ge_order :: string

definition event_effect :: "gateway_event \<Rightarrow> tables \<Rightarrow> tables" where
  "event_effect e = webhook_effect (ge_at e)
     (JStr (if ge_captured e then ''payment.captured'' else ''payment.failed'')) (ge_order e)"

definition no_open_payment :: "string \<Rightarrow> tables \<Rightarrow> bool" where
  "no_open_payment k t \<longleftrightarrow> (\<forall>p \<in> set (pl_payments t). py_gatewayOrderId p = k \<longrightarrow> py_status p \<noteq> PENDING)"

lemma event_effect_eq:
  "event_effect e t = t\<lparr>pl_payments := update_where (\<lambda>p. py_gatewayOrderId p = ge_order e \<and> py_status p = PENDING)
     (\<lambda>p. p\<lparr>py_status := (if ge_captured e then PAID else FAILED),
            py_paidAt := (if ge_captured e then Some (ge_at e) else py_paidAt p)\<rparr>) (pl_payments t)\<rparr>"
  by (simp add: event_effect_def webhook_effect_def put_payments_def set_rows_def visible_def)

interpretation gateway: first_event_wins event_effect ge_order no_open_payment
proof
  show "no_open_payment (ge_order e) (event_effect e s)" for e s
    by (auto simp: no_open_payment_def event_effect_eq set_update_where)
  show "no_open_payment k s \<Longrightarrow> no_open_payment k (event_effect e s)" for k e s
    by (auto simp: no_open_payment_def event_effect_eq set_update_where)
  show "event_effect e s = s" if none: "no_open_payment (ge_order e) s" for e s
  proof -
    have same: "update_where (\<lambda>p. py_gatewayOrderId p = ge_order e \<and> py_status p = PENDING) f (pl_payments s) =
        pl_payments s" for f
      using none by (intro update_where_none) (auto simp: no_open_payment_def)
    show ?thesis unfolding event_effect_eq same by simp
  qed
qed

text \<open>The request the gateway sends for an event, with its signature.\<close>

definition webhook_body :: "gateway_event \<Rightarrow> json" where
  "webhook_body e = JObj
     [(''event'', JStr (if ge_captured e then ''payment.captured'' else ''payment.failed'')),
      (''payload'', JObj [(''payment'', JObj [(''entity'', JObj [(''order_id'', JStr (ge_order e))])])])]"

definition deliver_event :: "('e) plat_env_scheme \<Rightarrow> string \<Rightarrow> gateway_event \<Rightarrow> (platform, unit) exec" where
  "deliver_event E secret e =
     gatewayWebhook E secret (ge_at e) (Some (hmac_hex E secret (stringify (webhook_body e)))) (webhook_body e)"

lemma deliver_event_run:
  assumes "ge_order e \<noteq> []" and "\<And>k m. hmac_hex E k m \<noteq> []"
  shows "deliver_event E secret e s = (Inr (), s\<lparr>pf_tables := event_effect e (pf_tables s)\<rparr>)"
  using assms
  by (simp add: deliver_event_def gatewayWebhook_def truthy_def webhook_cases event_effect_def order_of_def
      webhook_body_def json_member_def coalesce_def)

lemma deliver_events_run:
  assumes "\<forall>e \<in> set es. ge_order e \<noteq> []" and "\<And>k m. hmac_hex E k m \<noteq> []"
  shows "for_each (deliver_event E secret) es s = (Inr (), s\<lparr>pf_tables := fold event_effect es (pf_tables s)\<rparr>)"
  using assms(1)
proof (induction es arbitrary: s)
  case (Cons e es)
  have "deliver_event E secret e s = (Inr (), s\<lparr>pf_tables := event_effect e (pf_tables s)\<rparr>)"
    using Cons.prems assms(2) by (intro deliver_event_run) simp_all
  then show ?case using Cons.IH Cons.prems by (simp add: bindE_def)
qed simp

section \<open>Releasing\<close>

definition paid_out :: "int \<Rightarrow> string \<Rightarrow> tables \<Rightarrow> tables" where
  "paid_out now bookingId = put_payments System
     (\<lambda>p. py_bookingId p = bookingId \<and> py_status p = PAID \<and> py_payout p = HELD)
     (\<lambda>p. p\<lparr>py_payout := RELEASED, py_payoutAt := Some now\<rparr>)"

lemma release_payments_run:
  "is_uuid b \<Longrightarrow> release_payments now (Some (JStr b)) s = (Inr (), s\<lparr>pf_tables := paid_out now b (pf_tables s)\<rparr>)"
  by (simp add: release_payments_def systemTx_def plat_tx_def bindE_def throw_if_def on_tables_def paid_out_def)

lemma chain_releasable_run:
  "is_bytes32 k \<Longrightarrow> chain_releasable (Some (JStr k)) s = (Inr (ch_isReleasable k (w_chain (pf_world s))), s)"
  by (simp add: chain_releasable_def in_world_def on_chain_def isReleasable_def lower_bytes32 bindE_def)

lemma handleReleaseGate_success:
  assumes "handleReleaseGate E secret now sig body s = (Inr r, s')"
  shows "coalesce sig [] = hmac_hex E secret (stringify body) \<and>
    (\<exists>k k'. json_member ''manifestId'' body = Some (JStr k) \<and> abi_bytes32 k = Some k' \<and>
       ch_isReleasable k' (w_chain (pf_world s))) \<and>
    (pf_tables s' = pf_tables s \<or>
     (\<exists>j. json_member ''bookingId'' body = Some j \<and> pf_tables s' = paid_out now (param_text j) (pf_tables s)))"
proof -
  from assms obtain s1 s2 where sig: "coalesce sig [] = hmac_hex E secret (stringify body)"
    and ch: "chain_releasable (json_member ''manifestId'' body) s = (Inr True, s1)"
    and rel: "release_payments now (json_member ''bookingId'' body) s1 = (Inr (), s2)"
    and s': "pf_tables s' = pf_tables s2"
    by (auto simp: handleReleaseGate_def exec_iff)
  from ch obtain k' where k': "abi_bytes32 (case json_member ''manifestId'' body of Some (JStr s) \<Rightarrow> s | _ \<Rightarrow> []) = Some k'"
      "ch_isReleasable k' (w_chain (pf_world s))" and s1: "s1 = s"
    by (auto simp: chain_releasable_def exec_iff isReleasable_success)
  have "abi_bytes32 [] = None" by (simp add: abi_bytes32_def matches_def starts_with_def)
  with k' obtain k where "json_member ''manifestId'' body = Some (JStr k)"
    by (auto split: option.splits json.splits)
  moreover have "pf_tables s2 = pf_tables s \<or>
     (\<exists>j. json_member ''bookingId'' body = Some j \<and> pf_tables s2 = paid_out now (param_text j) (pf_tables s))"
    using rel by (auto simp: s1 release_payments_def exec_iff paid_out_def split: option.splits json.splits)
  ultimately show ?thesis using k' sig s' by auto
qed

lemma handleReleaseGate_failure:
  "handleReleaseGate E secret now sig body s = (Inl e, s') \<Longrightarrow> pf_tables s' = pf_tables s"
  by (auto simp: handleReleaseGate_def bindE_def throw_if_def chain_releasable_def in_world_def release_payments_def
      systemTx_def plat_tx_failure plat_audit_run put_back_def on_tables_def plat_tx_def
      split: if_splits prod.splits sum.splits option.splits json.splits)

text \<open>Webhooks write payments and nothing else, and only under their signature.\<close>

definition payments_only :: "tables \<Rightarrow> tables \<Rightarrow> bool" where
  "payments_only t t' \<longleftrightarrow> t' = t\<lparr>pl_payments := pl_payments t'\<rparr>"

lemma payments_only_put [simp]: "payments_only t (put_payments c q f t)" "payments_only t t"
  by (simp_all add: payments_only_def put_payments_def)

lemma settle_only: "settle k st n s = (r, s') \<Longrightarrow> payments_only (pf_tables s) (pf_tables s')"
  by (auto simp: settle_def systemTx_def plat_tx_def on_tables_def split: prod.splits sum.splits)

lemma gateway_signed:
  assumes "gatewayWebhook E secret now sig body s = (r, s')"
  shows "pf_tables s' = pf_tables s \<or>
    sig = Some (hmac_hex E secret (stringify body)) \<and> payments_only (pf_tables s) (pf_tables s')"
proof (cases "truthy sig \<and> the sig = hmac_hex E secret (stringify body)")
  case True
  then have "sig = Some (hmac_hex E secret (stringify body))" by (auto simp: truthy_iff)
  moreover from assms True have "pf_tables s' = pf_tables s \<or> payments_only (pf_tables s) (pf_tables s')"
    by (auto simp: gatewayWebhook_def handleGatewayWebhook_def bindE_def throw_if_def raise_def return_def
        split: option.splits if_splits dest: settle_only)
  ultimately show ?thesis by blast
next
  case False
  with assms show ?thesis
    by (auto simp: gatewayWebhook_def handleGatewayWebhook_def bindE_def throw_if_def raise_def split: if_splits)
qed

lemma release_signed:
  assumes "handleReleaseGate E secret now sig body s = (r, s')"
  shows "pf_tables s' = pf_tables s \<or>
    coalesce sig [] = hmac_hex E secret (stringify body) \<and> payments_only (pf_tables s) (pf_tables s')"
proof (cases r)
  case (Inl e)
  with assms show ?thesis by (auto dest: handleReleaseGate_failure)
next
  case (Inr x)
  with handleReleaseGate_success [of E secret now sig body s x s'] assms show ?thesis
    by (auto simp: paid_out_def)
qed

text \<open>The body the release gate sends, as the platform reads it.\<close>

definition payout_json :: "manifest \<Rightarrow> json" where
  "payout_json m = JObj [(''manifestId'', JStr (m_manifestId m)), (''bookingId'', JStr (m_bookingId m)),
     (''transporterId'', JStr (m_transporterId m))]"

lemma payout_body_parses: "parse (payout_body m) = Some (payout_json m)" "stringify (payout_json m) = payout_body m"
proof -
  have wf: "wf_json (payout_json m)" by (simp add: payout_json_def)
  show "stringify (payout_json m) = payout_body m" by (simp only: payout_body_def payout_json_def)
  with parse_stringify [OF wf] show "parse (payout_body m) = Some (payout_json m)" by simp
qed

lemma release_gate_accepts:
  assumes "is_bytes32 (m_manifestId m)" and "is_uuid (m_bookingId m)"
    and "ch_isReleasable (m_manifestId m) (w_chain (pf_world s))"
  shows "\<exists>s'. handleReleaseGate E secret now (Some (hmac_hex E secret (payout_body m))) (payout_json m) s = (Inr True, s') \<and>
    pf_tables s' = paid_out now (m_bookingId m) (pf_tables s)"
proof -
  have j: "json_member ''manifestId'' (payout_json m) = Some (JStr (m_manifestId m))"
    "json_member ''bookingId'' (payout_json m) = Some (JStr (m_bookingId m))"
    by (simp_all add: payout_json_def json_member_def)
  show ?thesis
    by (simp add: handleReleaseGate_def bindE_def throw_if_def coalesce_def payout_body_parses j
        chain_releasable_run assms release_payments_run plat_audit_run)
qed

section \<open>One collection for a booking\<close>

definition payments_ok :: "tables \<Rightarrow> bool" where
  "payments_ok t \<longleftrightarrow> (\<forall>p \<in> set (pl_payments t). py_gatewayOrderId p = gateway_order_id (py_bookingId p)) \<and>
     distinct (map py_gatewayOrderId (pl_payments t))"

lemma createCollection_success:
  assumes "createCollection c u k d s = (Inr p, s')"
  shows "p = new_payment c k d \<and> gateway_order_id (cl_bookingId d) \<notin> py_gatewayOrderId ` set (pl_payments (pf_tables s)) \<and>
    pf_tables s' = (pf_tables s)\<lparr>pl_payments := pl_payments (pf_tables s) @ [p]\<rparr> \<and>
    (\<exists>b. booking_at (Tenant c) (cl_bookingId d) (pf_tables s) = Some b)"
  using assms by (auto simp: createCollection_def exec_iff Let_def new_payment_def)

lemma createCollection_ok:
  assumes "createCollection c u k d s = (Inr p, s')" and "payments_ok (pf_tables s)"
  shows "payments_ok (pf_tables s') \<and> (\<forall>p \<in> set (pl_payments (pf_tables s)). py_bookingId p \<noteq> cl_bookingId d)"
proof -
  have "gateway_order_id (cl_bookingId d) \<in> py_gatewayOrderId ` set (pl_payments (pf_tables s))"
    if "p \<in> set (pl_payments (pf_tables s))" "py_bookingId p = cl_bookingId d" for p
    using that assms(2) by (force simp: payments_ok_def)
  then show ?thesis
    using createCollection_success [OF assms(1)] assms(2) by (auto simp: payments_ok_def new_payment_def)
qed

lemma put_payments_ok:
  assumes "payments_ok t" and "\<And>p. py_gatewayOrderId (f p) = py_gatewayOrderId p" and "\<And>p. py_bookingId (f p) = py_bookingId p"
  shows "payments_ok (put_payments c q f t)"
  using assms by (auto simp: payments_ok_def map_set_rows set_set_rows)

lemma payments_keep_ok: "payments_ok t \<Longrightarrow> payments_ok (webhook_effect now e k t)" "payments_ok t \<Longrightarrow> payments_ok (paid_out now b t)"
  by (auto simp: webhook_effect_def paid_out_def intro: put_payments_ok)

section \<open>Confinement\<close>

lemma foreign_payments [simp]:
  "foreign_rows c (t\<lparr>pl_payments := ps\<rparr>) = foreign_rows c t \<longleftrightarrow>
     others py_companyId c ps = others py_companyId c (pl_payments t)"
  by (auto simp: foreign_rows_def)

lemma confined_payments: "confined c (createCollection c u k d)" "confined c (getByBooking_payment c b)"
  unfolding createCollection_def getByBooking_payment_def Let_def
  by (rule confine | simp add: new_payment_def)+

end
