(* ===== verification/Trips.thy ===== *)
theory Trips imports Payments Plan_Modules begin

text \<open>
  \<open>platform/api/orchestration/orchestration.service.ts\<close>, the flows that span the domains: starting
  a trip (assignment, tracker binding, manifest, in one transaction with the chain write last)
  and confirming its delivery, and \<open>platform/api/custody/participants.resolver.ts\<close>, which says
  what a manifest still lacks. The fixed explanatory text that goes with a skip reason is left
  out; the reasons are kept.
\<close>

section \<open>Participants\<close>

datatype gap_role = GDriver | GLoader | GReceiver
datatype gap_reason = NO_SIGNING_KEY | NOT_ASSIGNED | NOT_SUPPLIED

record participant_gap =
  gp_role :: gap_role
  gp_reason :: gap_reason
  gp_subjectId :: "string option"

record participants =
  pt_driver :: string
  pt_loader :: string
  pt_receiver :: string

text \<open>The booking joined with its driver: no row, no driver, or the driver.\<close>

definition driver_of_booking :: "db_ctx \<Rightarrow> string \<Rightarrow> tables \<Rightarrow> driver option" where
  "driver_of_booking c k t =
     Option.bind (booking_at c k t) (\<lambda>b.
     Option.bind (bk_driverId b) (\<lambda>d.
     first_row c dr_companyId (\<lambda>r. dr_id r = d) (pl_drivers t)))"

definition driver_gap :: "driver option \<Rightarrow> participant_gap list" where
  "driver_gap d =
     (case d of
        None \<Rightarrow> [\<lparr>gp_role = GDriver, gp_reason = NOT_ASSIGNED, gp_subjectId = None\<rparr>]
      | Some d \<Rightarrow>
          if truthy (dr_signingAddress d) then []
          else [\<lparr>gp_role = GDriver, gp_reason = NO_SIGNING_KEY, gp_subjectId = Some (dr_id d)\<rparr>])"

definition supplied_gap :: "gap_role \<Rightarrow> string option \<Rightarrow> participant_gap list" where
  "supplied_gap role value =
     (if truthy value then [] else [\<lparr>gp_role = role, gp_reason = NOT_SUPPLIED, gp_subjectId = None\<rparr>])"

definition resolve ::
  "string \<Rightarrow> string \<Rightarrow> string option \<Rightarrow> string option \<Rightarrow> (platform, participant_gap list + participants) exec"
where
  "resolve companyId bookingId loaderAddr receiverAddr =
     bindE (tenantTx companyId (\<lambda>c. reads (\<lambda>s. driver_of_booking c bookingId (pf_tables s)))) (\<lambda>d.
     let gaps = driver_gap d @ supplied_gap GLoader loaderAddr @ supplied_gap GReceiver receiverAddr in
     return (if gaps \<noteq> [] then Inl gaps
       else Inr \<lparr>pt_driver = the (dr_signingAddress (the d)), pt_loader = the loaderAddr,
                  pt_receiver = the receiverAddr\<rparr>))"

fun role_text :: "gap_role \<Rightarrow> string" where
  "role_text GDriver = ''DRIVER''"
| "role_text GLoader = ''LOADER''"
| "role_text GReceiver = ''RECEIVER''"

fun reason_text :: "gap_reason \<Rightarrow> string" where
  "reason_text NO_SIGNING_KEY = ''NO_SIGNING_KEY''"
| "reason_text NOT_ASSIGNED = ''NOT_ASSIGNED''"
| "reason_text NOT_SUPPLIED = ''NOT_SUPPLIED''"

text \<open>The exception carries its code; the hint and the list of gaps go with it.\<close>

definition resolveOrThrow ::
  "string \<Rightarrow> string \<Rightarrow> string option \<Rightarrow> string option \<Rightarrow> (platform, participants) exec"
where
  "resolveOrThrow companyId bookingId loaderAddr receiverAddr =
     bindE (resolve companyId bookingId loaderAddr receiverAddr) (\<lambda>r.
     case r of
       Inr ps \<Rightarrow> return ps
     | Inl gaps \<Rightarrow> raise (BadRequest
         (role_text (gp_role (hd gaps)) @ ''_'' @ reason_text (gp_reason (hd gaps)))))"

section \<open>Starting a trip\<close>

datatype skip_reason =
  MODULE_NOT_ENABLED | PARTICIPANTS_NOT_SUPPLIED | DRIVER_HAS_NO_SIGNING_KEY
| MANIFEST_ALREADY_EXISTS | NO_DEVICE_FOR_TRUCK | DEVICE_NOT_ACTIVE

record start_dto =
  st_truckId :: string
  st_driverId :: string
  st_loader :: "string option"
  st_receiver :: "string option"
  st_pieceCount :: "nat option"
  st_pieces :: "piece_input list option"

record custody_part =
  cu_created :: bool
  cu_manifestId :: "string option"
  cu_pieceCount :: "nat option"
  cu_skipped :: "skip_reason option"

record gps_part =
  gx_started :: bool
  gx_skipped :: "skip_reason option"

record trip_start =
  ts_bookingId :: string
  ts_tripId :: string
  ts_truckId :: string
  ts_driverId :: string
  ts_custody :: custody_part
  ts_gps :: gps_part

definition trip_id_of :: "('e) key_env_scheme \<Rightarrow> booking \<Rightarrow> string" where
  "trip_id_of E b =
     (if truthy (bk_tripId b) then the (bk_tripId b) else keccak E (''dtd-trip:'' @ bk_id b))"

definition resolveTripId :: "('e) key_env_scheme \<Rightarrow> db_ctx \<Rightarrow> string \<Rightarrow> (platform, string) exec" where
  "resolveTripId E c bookingId =
     bindE (select_booking c bookingId) (\<lambda>b.
     bindE (need b (NotFound ''Not Found'')) (\<lambda>b. return (trip_id_of E b)))"

definition driverSigningAddress :: "db_ctx \<Rightarrow> string \<Rightarrow> (platform, string option) exec" where
  "driverSigningAddress c driverId = reads (\<lambda>s.
     Option.bind (first_row c dr_companyId (\<lambda>r. dr_id r = driverId) (pl_drivers (pf_tables s)))
       dr_signingAddress)"

text \<open>A truck without a working tracker is reported; every other error ends the transaction.\<close>

definition bind_device ::
  "db_ctx \<Rightarrow> string \<Rightarrow> int \<Rightarrow> string \<Rightarrow> string \<Rightarrow> (platform, gps_part) exec"
where
  "bind_device c companyId nowS truckId tripId = (\<lambda>s.
     case in_gps (startTrip c companyId nowS truckId tripId) s of
       (Inr _, s') \<Rightarrow> (Inr \<lparr>gx_started = True, gx_skipped = None\<rparr>, s')
     | (Inl e, s') \<Rightarrow>
         if starts_with ''NO_DEVICE_FOR_TRUCK'' (exn_message e)
         then (Inr \<lparr>gx_started = False, gx_skipped = Some NO_DEVICE_FOR_TRUCK\<rparr>, s')
         else if exn_message e = ''DEVICE_NOT_ACTIVE''
         then (Inr \<lparr>gx_started = False, gx_skipped = Some DEVICE_NOT_ACTIVE\<rparr>, s')
         else (Inl e, s'))"

definition gps_step ::
  "db_ctx \<Rightarrow> string \<Rightarrow> int \<Rightarrow> platform_module list \<Rightarrow> string \<Rightarrow> string \<Rightarrow> (platform, gps_part) exec"
where
  "gps_step c companyId nowS modules truckId tripId =
     (if GPS_TRACKING \<notin> set modules
      then return \<lparr>gx_started = False, gx_skipped = Some MODULE_NOT_ENABLED\<rparr>
      else bind_device c companyId nowS truckId tripId)"

definition custody_skip :: "skip_reason \<Rightarrow> custody_part" where
  "custody_skip why =
     \<lparr>cu_created = False, cu_manifestId = None, cu_pieceCount = None, cu_skipped = Some why\<rparr>"

definition trip_manifest :: "string \<Rightarrow> string \<Rightarrow> string \<Rightarrow> string \<Rightarrow> start_dto \<Rightarrow> build_input" where
  "trip_manifest companyId bookingId tripId driverAddress d =
     \<lparr>b_bookingId = bookingId, b_transporterId = companyId, b_tripId = tripId,
      b_pieces = st_pieces d, b_pieceCount = st_pieceCount d, b_loader = coalesce (st_loader d) [],
      b_driver = driverAddress, b_receiver = coalesce (st_receiver d) []\<rparr>"

definition custody_step ::
  "('e) key_env_scheme \<Rightarrow> db_ctx \<Rightarrow> string \<Rightarrow> int \<Rightarrow> string \<Rightarrow> nat list list \<Rightarrow> platform_module list \<Rightarrow>
   string \<Rightarrow> string \<Rightarrow> start_dto \<Rightarrow> (platform, custody_part) exec"
where
  "custody_step E c companyId now txHash blocks modules bookingId tripId d =
     (if CUSTODY_TRACKING \<notin> set modules then return (custody_skip MODULE_NOT_ENABLED)
      else if \<not> truthy (st_loader d) \<or> \<not> truthy (st_receiver d)
      then return (custody_skip PARTICIPANTS_NOT_SUPPLIED)
      else bindE (driverSigningAddress c (st_driverId d)) (\<lambda>addr.
        if \<not> truthy addr then return (custody_skip DRIVER_HAS_NO_SIGNING_KEY)
        else bindE (in_world (on_db (getByBooking E c bookingId))) (\<lambda>existing.
          case existing of
            Some m \<Rightarrow> return \<lparr>cu_created = False, cu_manifestId = Some (m_manifestId m),
              cu_pieceCount = Some (m_pieceCount m), cu_skipped = Some MANIFEST_ALREADY_EXISTS\<rparr>
          | None \<Rightarrow>
              bindE (in_world (build E c companyId now txHash blocks
                (trip_manifest companyId bookingId tripId (the addr) d))) (\<lambda>(m, tx).
              bindE (linkTrip companyId bookingId None (Some (m_manifestId m)) (Some c)) (\<lambda>_.
              return \<lparr>cu_created = True, cu_manifestId = Some (m_manifestId m),
                cu_pieceCount = Some (m_pieceCount m), cu_skipped = None\<rparr>)))))"

definition orch_startTrip ::
  "('e) key_env_scheme \<Rightarrow> string \<Rightarrow> string \<Rightarrow> int \<Rightarrow> string \<Rightarrow> nat list list \<Rightarrow> string \<Rightarrow>
   platform_module list \<Rightarrow> start_dto \<Rightarrow> (platform, trip_start) exec"
where
  "orch_startTrip E companyId userId now txHash blocks bookingId modules d = tenantTx companyId (\<lambda>c.
     bindE (resolveTripId E c bookingId) (\<lambda>tripId.
     bindE (assignTruck companyId userId now bookingId (st_truckId d) (st_driverId d) (Some c)) (\<lambda>_.
     bindE (linkTrip companyId bookingId (Some tripId) None (Some c)) (\<lambda>_.
     bindE (gps_step c companyId (now div 1000) modules (st_truckId d) tripId) (\<lambda>gp.
     bindE (custody_step E c companyId now txHash blocks modules bookingId tripId d) (\<lambda>cu.
     bindE (plat_audit companyId (Some userId) ''TRIP_STARTED'' ''booking'' bookingId) (\<lambda>_.
     return \<lparr>ts_bookingId = bookingId, ts_tripId = tripId, ts_truckId = st_truckId d,
       ts_driverId = st_driverId d, ts_custody = cu, ts_gps = gp\<rparr>)))))))"

section \<open>Confirming its delivery\<close>

record delivery_answer =
  da_manifestId :: string
  da_decision :: decision
  da_status :: booking_status
  da_changed :: bool
  da_gpsEnded :: bool

definition end_gps :: "string \<Rightarrow> string \<Rightarrow> string \<Rightarrow> (platform, bool) exec" where
  "end_gps companyId userId truckId = (\<lambda>s.
     case in_gps (svc_endTrip companyId userId truckId None) s of
       (Inr _, s') \<Rightarrow> (Inr True, s')
     | (Inl _, s') \<Rightarrow> (Inr False, s'))"

definition orch_confirmDelivery ::
  "('e) key_env_scheme \<Rightarrow> string \<Rightarrow> string \<Rightarrow> int \<Rightarrow> string \<Rightarrow> string \<Rightarrow> platform_module list \<Rightarrow>
   string \<Rightarrow> string \<Rightarrow> (platform, delivery_answer) exec"
where
  "orch_confirmDelivery E companyId userId now txHash bookingId modules receiverPhone otpToken =
     bindE (throw_if (CUSTODY_TRACKING \<notin> set modules) (BadRequest ''MODULE_NOT_ENABLED'')) (\<lambda>_.
     bindE (tenantTx companyId (\<lambda>c. select_booking c bookingId)) (\<lambda>row.
     bindE (need row (NotFound ''Not Found'')) (\<lambda>row.
     bindE (throw_if (\<not> truthy (bk_manifestId row)) (BadRequest ''NO_MANIFEST_FOR_BOOKING'')) (\<lambda>_.
     let k = the (bk_manifestId row) in
     bindE (in_world (confirmDeliveryService E companyId userId now txHash k receiverPhone otpToken)) (\<lambda>dec.
     let closes = (de_chainStatus dec = Delivered \<or> de_chainStatus dec = Short) in
     bindE (if closes then markStatus companyId bookingId DELIVERED None
            else return (bk_status row, False)) (\<lambda>(st, changed).
     bindE (if closes \<and> truthy (bk_truckId row)
            then end_gps companyId userId (the (bk_truckId row)) else return False) (\<lambda>ended.
     bindE (plat_audit companyId (Some userId) ''TRIP_DELIVERY_CONFIRMED'' ''booking'' bookingId) (\<lambda>_.
     return \<lparr>da_manifestId = k, da_decision = dec, da_status = st, da_changed = changed,
       da_gpsEnded = ended\<rparr>))))))))"


section \<open>The tracker's part\<close>

definition truck_device :: "db_ctx \<Rightarrow> string \<Rightarrow> gps_tables \<Rightarrow> device option" where
  "truck_device c truckId t =
     find (\<lambda>d. tenant_ok c (Some (dv_companyId d)) \<and> dv_truckId d = truckId) (gt_devices t)"

lemma byTruck_success [exec_iff]:
  "byTruck c k w = (Inr d, w') \<longleftrightarrow>
     \<not> gw_aborted w \<and> is_uuid k \<and> w' = w \<and> d = truck_device c k (gw_tables w)"
  by (auto simp: byTruck_def exec_iff truck_device_def)

lemma bindTrip_binds:
  assumes "bindTrip c co n dev k w = (Inr v, w')"
  shows "\<exists>b \<in> set (gt_bindings (gw_tables w')). br_deviceId b = dev \<and> br_tripId b = Some k"
proof -
  let ?f = "\<lambda>b. b\<lparr>br_tripId := Some k, br_since := n\<rparr>"
  let ?old = "find (\<lambda>b. br_deviceId b = dev) (gt_bindings (gw_tables w))"
  show ?thesis
  proof (cases ?old)
    case None
    with assms show ?thesis by (auto simp: bindTrip_def exec_iff)
  next
    case (Some b)
    then have b: "b \<in> set (gt_bindings (gw_tables w))" "br_deviceId b = dev" by (auto dest: find_SomeD)
    from assms Some have "gt_bindings (gw_tables w') = update_where (\<lambda>b. br_deviceId b = dev) ?f (gt_bindings (gw_tables w))"
      by (auto simp: bindTrip_def exec_iff)
    moreover have "?f b \<in> set (update_where (\<lambda>b. br_deviceId b = dev) ?f (gt_bindings (gw_tables w)))"
      using b by (auto simp: set_update_where)
    ultimately show ?thesis using b by (intro bexI [of _ "?f b"]) simp_all
  qed
qed

lemma bindTrip_message:
  "bindTrip c co n dev k w = (Inl e, w') \<Longrightarrow>
     \<not> starts_with ''NO_DEVICE_FOR_TRUCK'' (exn_message e) \<and> exn_message e \<noteq> ''DEVICE_NOT_ACTIVE''"
  by (auto simp: bindTrip_def stmt_def bindE_def need_company_def need_uuid_def throw_if_def rls_violation_def
      constraint_def tx_aborted_def starts_with_def split: if_splits option.splits prod.splits sum.splits)

lemma byTruck_message:
  "byTruck c k w = (Inl e, w') \<Longrightarrow>
     \<not> starts_with ''NO_DEVICE_FOR_TRUCK'' (exn_message e) \<and> exn_message e \<noteq> ''DEVICE_NOT_ACTIVE''"
  by (auto simp: byTruck_def stmt_def bindE_def need_uuid_def throw_if_def tx_aborted_def starts_with_def
      split: if_splits prod.splits sum.splits)

text \<open>What the tracker's part answers, from the device of the truck.\<close>

definition gps_answer :: "platform_module list \<Rightarrow> device option \<Rightarrow> gps_part" where
  "gps_answer modules dev =
     (if GPS_TRACKING \<notin> set modules then \<lparr>gx_started = False, gx_skipped = Some MODULE_NOT_ENABLED\<rparr>
      else case dev of
        None \<Rightarrow> \<lparr>gx_started = False, gx_skipped = Some NO_DEVICE_FOR_TRUCK\<rparr>
      | Some d \<Rightarrow>
          if dv_status d \<noteq> DV_ACTIVE then \<lparr>gx_started = False, gx_skipped = Some DEVICE_NOT_ACTIVE\<rparr>
          else \<lparr>gx_started = True, gx_skipped = None\<rparr>)"

lemma bind_device_success:
  assumes run: "bind_device c co n truckId k s = (Inr gp, s')"
  defines "dev \<equiv> truck_device c truckId (gw_tables (pf_gps s))"
  shows "pf_tables s' = pf_tables s \<and> pf_world s' = pf_world s \<and>
    gp = gps_answer [GPS_TRACKING] dev \<and> (gx_started gp \<or> pf_gps s' = pf_gps s) \<and>
    (gx_started gp \<longrightarrow> (\<exists>d. dev = Some d \<and> (\<exists>b \<in> set (gt_bindings (gw_tables (pf_gps s'))).
       br_deviceId b = dv_deviceId d \<and> br_tripId b = Some k)))"
proof -
  let ?w = "(pf_gps s)\<lparr>gw_aborted := False\<rparr>"
  obtain r1 w1 where b: "byTruck c truckId ?w = (r1, w1)" by force
  show ?thesis
  proof (cases r1)
    case (Inl e)
    with b run byTruck_message [of c truckId ?w e w1] show ?thesis
      by (simp add: bind_device_def in_gps_def startTrip_def bindE_def)
  next
    case (Inr d)
    with b have d: "d = dev" "w1 = ?w" by (auto simp: byTruck_success dev_def)
    show ?thesis
    proof (cases dev)
      case None
      with run b d Inr show ?thesis
        by (auto simp: bind_device_def in_gps_def startTrip_def bindE_def gps_answer_def starts_with_def)
    next
      case (Some x)
      show ?thesis
      proof (cases "dv_status x = DV_ACTIVE")
        case False
        with run b d Inr Some show ?thesis
          by (auto simp: bind_device_def in_gps_def startTrip_def bindE_def gps_answer_def starts_with_def
              throw_if_def)
      next
        case True
        obtain r2 w2 where t: "bindTrip c co n (dv_deviceId x) k ?w = (r2, w2)" by force
        with bindTrip_message bindTrip_binds run b d Inr Some True show ?thesis
          by (cases r2) (fastforce simp: bind_device_def in_gps_def startTrip_def bindE_def gps_answer_def
              throw_if_def)+
      qed
    qed
  qed
qed

lemma gps_step_success:
  assumes "gps_step c co n modules truckId k s = (Inr gp, s')"
  defines "dev \<equiv> truck_device c truckId (gw_tables (pf_gps s))"
  shows "pf_tables s' = pf_tables s \<and> pf_world s' = pf_world s \<and>
    gp = gps_answer modules dev \<and> (gx_started gp \<or> pf_gps s' = pf_gps s) \<and>
    (gx_started gp \<longrightarrow> (\<exists>d. dev = Some d \<and> (\<exists>b \<in> set (gt_bindings (gw_tables (pf_gps s'))).
       br_deviceId b = dv_deviceId d \<and> br_tripId b = Some k)))"
proof (cases "GPS_TRACKING \<in> set modules")
  case True
  with assms(1) have "bind_device c co n truckId k s = (Inr gp, s')" by (simp add: gps_step_def)
  moreover have "gps_answer modules dev = gps_answer [GPS_TRACKING] dev" using True by (simp add: gps_answer_def)
  ultimately show ?thesis unfolding dev_def using bind_device_success by metis
qed (use assms(1) in \<open>auto simp: gps_step_def gps_answer_def\<close>)

section \<open>The custody part\<close>

lemma build_fields:
  assumes "build E ctx company now txHash blocks input w = (Inr (m, tx), w')"
  shows "m_tripId m = b_tripId input \<and> m_loader m = b_loader input \<and> m_driver m = b_driver input \<and>
    m_receiver m = b_receiver input"
  using assms by (auto simp: build_def exec_iff from_sum_def parse_manifest_def draft_def Let_def split: if_splits)

definition custody_reason ::
  "platform_module list \<Rightarrow> start_dto \<Rightarrow> string option \<Rightarrow> manifest option \<Rightarrow> skip_reason option"
where
  "custody_reason modules d addr existing =
     (if CUSTODY_TRACKING \<notin> set modules then Some MODULE_NOT_ENABLED
      else if \<not> truthy (st_loader d) \<or> \<not> truthy (st_receiver d) then Some PARTICIPANTS_NOT_SUPPLIED
      else if \<not> truthy addr then Some DRIVER_HAS_NO_SIGNING_KEY
      else if existing \<noteq> None then Some MANIFEST_ALREADY_EXISTS else None)"

definition driver_address :: "db_ctx \<Rightarrow> string \<Rightarrow> tables \<Rightarrow> string option" where
  "driver_address c driverId t =
     Option.bind (first_row c dr_companyId (\<lambda>r. dr_id r = driverId) (pl_drivers t)) dr_signingAddress"

definition link_manifest :: "db_ctx \<Rightarrow> string \<Rightarrow> string option \<Rightarrow> tables \<Rightarrow> tables" where
  "link_manifest c k mid = put_booking c (\<lambda>b. bk_id b = k)
     (\<lambda>b. b\<lparr>bk_manifestId := (case mid of None \<Rightarrow> bk_manifestId b | Some x \<Rightarrow> Some x)\<rparr>)"

lemma custody_step_success:
  assumes run: "custody_step E c co now tx blocks modules k tripId d s = (Inr cu, s')"
  shows "pf_gps s' = pf_gps s \<and> (\<exists>existing.
    cu_skipped cu = custody_reason modules d (driver_address c (st_driverId d) (pf_tables s)) existing \<and>
    cu_created cu = (cu_skipped cu = None) \<and>
    (if cu_created cu
     then \<exists>m w. build E c co now tx blocks (trip_manifest co k tripId
              (the (driver_address c (st_driverId d) (pf_tables s))) d) (pf_world s) = (Inr (m, tx), w) \<and>
            pf_world s' = w \<and> cu_manifestId cu = Some (m_manifestId m) \<and> cu_pieceCount cu = Some (m_pieceCount m) \<and>
            pf_tables s' = link_manifest c k (Some (m_manifestId m)) (pf_tables s)
     else s' = s \<and>
       (if cu_skipped cu = Some MANIFEST_ALREADY_EXISTS
        then getByBooking E c k (w_db (pf_world s)) = (Inr existing, w_db (pf_world s)) \<and>
             (\<exists>m. existing = Some m \<and> cu_manifestId cu = Some (m_manifestId m))
        else cu_manifestId cu = None)))"
proof -
  let ?addr = "driver_address c (st_driverId d) (pf_tables s)"
  have da: "driverSigningAddress c (st_driverId d) s = (Inr ?addr, s)"
    by (simp add: driverSigningAddress_def driver_address_def)
  show ?thesis
  proof (cases "CUSTODY_TRACKING \<in> set modules \<and> truthy (st_loader d) \<and> truthy (st_receiver d) \<and> truthy ?addr")
    case False
    then show ?thesis using run da
      by (auto simp: custody_step_def custody_skip_def custody_reason_def bindE_def intro!: exI [of _ None] split: if_splits)
  next
    case True
    with run da obtain existing dd where g: "getByBooking E c k (w_db (pf_world s)) = (Inr existing, dd)"
      by (auto simp: custody_step_def bindE_success in_world_success on_db_success)
    then have dd: "dd = w_db (pf_world s)" by (rule read_onlyD [OF get_read_only(2)])
    have "in_world (on_db (getByBooking E c k)) s = (Inr existing, s)"
      using g by (simp add: in_world_def on_db_def dd)
    with run da True g [unfolded dd] show ?thesis
      by (cases existing) (auto 0 3 simp: custody_step_def custody_reason_def bindE_Inr_apply bindE_success
          in_world_success return_success linkTrip_def tenantTxOn_simps on_tables_success modifies_success
          link_manifest_def dest: build_success)
  qed
qed


section \<open>A trip as a whole\<close>

lemma linkTrip_run:
  "linkTrip companyId k t mid (Some c) s = (Inr (), s\<lparr>pf_tables := put_booking c (\<lambda>b. bk_id b = k)
     (\<lambda>b. b\<lparr>bk_tripId := (case t of None \<Rightarrow> bk_tripId b | Some x \<Rightarrow> Some x),
            bk_manifestId := (case mid of None \<Rightarrow> bk_manifestId b | Some x \<Rightarrow> Some x)\<rparr>) (pf_tables s)\<rparr>)"
  by (simp add: linkTrip_def on_tables_def)

text \<open>The booking as the start of its trip leaves it.\<close>

definition started_booking :: "int \<Rightarrow> string \<Rightarrow> start_dto \<Rightarrow> string option \<Rightarrow> booking \<Rightarrow> booking" where
  "started_booking now tripId d mid b = b\<lparr>bk_status := ASSIGNED, bk_truckId := Some (st_truckId d),
     bk_driverId := Some (st_driverId d), bk_assignedAt := Some now, bk_tripId := Some tripId,
     bk_manifestId := (case mid of None \<Rightarrow> bk_manifestId b | Some x \<Rightarrow> Some x)\<rparr>"

definition started_tables :: "db_ctx \<Rightarrow> int \<Rightarrow> string \<Rightarrow> string \<Rightarrow> start_dto \<Rightarrow> tables \<Rightarrow> tables" where
  "started_tables c now k tripId d t = put_booking c (\<lambda>b. bk_id b = k) (\<lambda>b. b\<lparr>bk_tripId := Some tripId\<rparr>)
     (assigned c now k (st_truckId d) (st_driverId d) t)"

lemma started_lookup:
  "booking_at c k (started_tables c now k tripId d t) =
     map_option (started_booking now tripId d None) (booking_at c k t)"
  "booking_at c k (link_manifest c k mid (started_tables c now k tripId d t)) =
     map_option (started_booking now tripId d mid) (booking_at c k t)"
proof -
  have 1: "booking_at c k (put_booking c (\<lambda>b. bk_id b = k) (\<lambda>b. b\<lparr>bk_tripId := x\<rparr>) t') =
      map_option (\<lambda>b. b\<lparr>bk_tripId := x\<rparr>) (booking_at c k t')" for t' x
    by (rule booking_at_put) simp_all
  have 2: "booking_at c k (link_manifest c k mid t') =
      map_option (\<lambda>b. b\<lparr>bk_manifestId := (case mid of None \<Rightarrow> bk_manifestId b | Some x \<Rightarrow> Some x)\<rparr>) (booking_at c k t')" for t'
    unfolding link_manifest_def by (rule booking_at_put) simp_all
  show 3: "booking_at c k (started_tables c now k tripId d t) =
     map_option (started_booking now tripId d None) (booking_at c k t)"
    unfolding started_tables_def 1 booking_at_assigned
    by (cases "booking_at c k t") (simp_all add: started_booking_def)
  show "booking_at c k (link_manifest c k mid (started_tables c now k tripId d t)) =
     map_option (started_booking now tripId d mid) (booking_at c k t)"
    unfolding 2 3 by (cases "booking_at c k t") (simp_all add: started_booking_def split: option.split)
qed

lemma started_same [simp]: "pl_drivers (started_tables c now k tripId d t) = pl_drivers t"
  by (simp add: started_tables_def)

lemma driver_address_cong: "pl_drivers t = pl_drivers t' \<Longrightarrow> driver_address c dr t = driver_address c dr t'"
  by (simp add: driver_address_def)

lemma orch_startTrip_success:
  assumes run: "orch_startTrip E co u now tx blocks k modules d s = (Inr out, s')"
  defines "c \<equiv> Tenant co"
  shows "\<exists>b w1 g1 existing.
    booking_at c k (pf_tables s) = Some b \<and> bk_status b = CONFIRMED \<and>
    (\<exists>r. first_row c tr_companyId (\<lambda>r. tr_id r = st_truckId d \<and> tr_status r = AVAILABLE) (pl_trucks (pf_tables s)) = Some r) \<and>
    (\<exists>r. first_row c dr_companyId (\<lambda>r. dr_id r = st_driverId d \<and> dr_status r = DR_ACTIVE) (pl_drivers (pf_tables s)) = Some r) \<and>
    ts_tripId out = trip_id_of E b \<and>
    booking_at c k (pf_tables s') = Some (started_booking now (trip_id_of E b) d
      (if cu_created (ts_custody out) then cu_manifestId (ts_custody out) else None) b) \<and>
    ts_gps out = gps_answer modules (truck_device c (st_truckId d) (gw_tables (pf_gps s))) \<and>
    (gx_started (ts_gps out) \<longrightarrow> (\<exists>dev. truck_device c (st_truckId d) (gw_tables (pf_gps s)) = Some dev \<and>
       (\<exists>x \<in> set (gt_bindings (gw_tables (pf_gps s'))). br_deviceId x = dv_deviceId dev \<and> br_tripId x = Some (trip_id_of E b)))) \<and>
    w_db w1 = w_db (pf_world s) \<and> w_chain w1 = w_chain (pf_world s) \<and>
    cu_skipped (ts_custody out) = custody_reason modules d (driver_address c (st_driverId d) (pf_tables s)) existing \<and>
    cu_created (ts_custody out) = (cu_skipped (ts_custody out) = None) \<and>
    (if cu_created (ts_custody out)
     then \<exists>m. build E c co now tx blocks (trip_manifest co k (trip_id_of E b)
            (the (driver_address c (st_driverId d) (pf_tables s))) d) w1 = (Inr (m, tx), g1) \<and>
          w_db (pf_world s') = w_db g1 \<and> w_chain (pf_world s') = w_chain g1 \<and>
          cu_manifestId (ts_custody out) = Some (m_manifestId m)
     else w_db (pf_world s') = w_db (pf_world s) \<and> w_chain (pf_world s') = w_chain (pf_world s) \<and>
       (if cu_skipped (ts_custody out) = Some MANIFEST_ALREADY_EXISTS
        then getByBooking E c k (w_db (pf_world s)) = (Inr existing, w_db (pf_world s)) \<and>
             (\<exists>m. existing = Some m \<and> cu_manifestId (ts_custody out) = Some (m_manifestId m))
        else cu_manifestId (ts_custody out) = None))"
proof -
  from run obtain b s2 s3 gp cu where
    b: "booking_at c k (pf_tables s) = Some b" "bk_status b = CONFIRMED" and
    tr: "\<exists>r. first_row c tr_companyId (\<lambda>r. tr_id r = st_truckId d \<and> tr_status r = AVAILABLE) (pl_trucks (pf_tables s)) = Some r"
      "\<exists>r. first_row c dr_companyId (\<lambda>r. dr_id r = st_driverId d \<and> dr_status r = DR_ACTIVE) (pl_drivers (pf_tables s)) = Some r" and
    gp': "gps_step c co (now div 1000) modules (st_truckId d) (trip_id_of E b)
      (s\<lparr>pf_world := (pf_world s)\<lparr>w_audit := w_audit (pf_world s) @ [\<lparr>au_companyId = co, au_userId = Some u,
           au_action = ''BOOKING_ASSIGNED'', au_entity = ''booking'', au_entityId = k\<rparr>]\<rparr>,
         pf_tables := started_tables c now k (trip_id_of E b) d (pf_tables s)\<rparr>) = (Inr gp, s2)" and
    cu: "custody_step E c co now tx blocks modules k (trip_id_of E b) d s2 = (Inr cu, s3)" and
    s'': "s' = s3\<lparr>pf_world := (pf_world s3)\<lparr>w_audit := w_audit (pf_world s3) @ [\<lparr>au_companyId = co, au_userId = Some u,
           au_action = ''TRIP_STARTED'', au_entity = ''booking'', au_entityId = k\<rparr>]\<rparr>\<rparr>" and
    out: "ts_tripId out = trip_id_of E b" "ts_gps out = gp" "ts_custody out = cu"
    by (auto simp: orch_startTrip_def c_def resolveTripId_def assignTruck_def tenantTxOn_simps exec_iff linkTrip_run
        started_tables_def)
  define s1 where "s1 = s\<lparr>pf_world := (pf_world s)\<lparr>w_audit := w_audit (pf_world s) @ [\<lparr>au_companyId = co, au_userId = Some u,
           au_action = ''BOOKING_ASSIGNED'', au_entity = ''booking'', au_entityId = k\<rparr>]\<rparr>,
         pf_tables := started_tables c now k (trip_id_of E b) d (pf_tables s)\<rparr>"
  have s1: "pf_tables s1 = started_tables c now k (trip_id_of E b) d (pf_tables s)" "pf_gps s1 = pf_gps s"
      "w_db (pf_world s1) = w_db (pf_world s)" "w_chain (pf_world s1) = w_chain (pf_world s)"
    by (simp_all add: s1_def)
  note gp = gp' [folded s1_def]
  have s': "pf_tables s' = pf_tables s3" "pf_gps s' = pf_gps s3" "w_db (pf_world s') = w_db (pf_world s3)"
      "w_chain (pf_world s') = w_chain (pf_world s3)"
    by (simp_all add: s'')
  note g = gps_step_success [OF gp, unfolded s1(2)]
  note cs = custody_step_success [OF cu]
  have addr: "driver_address c (st_driverId d) (pf_tables s2) = driver_address c (st_driverId d) (pf_tables s)"
    using g s1(1) by (intro driver_address_cong) simp
  have w2: "w_db (pf_world s2) = w_db (pf_world s)" "w_chain (pf_world s2) = w_chain (pf_world s)"
    using g s1 by simp_all
  have t2: "pf_tables s2 = started_tables c now k (trip_id_of E b) d (pf_tables s)" using g s1(1) by simp
  obtain existing where e: "pf_gps s3 = pf_gps s2"
    "cu_skipped cu = custody_reason modules d (driver_address c (st_driverId d) (pf_tables s)) existing"
    "cu_created cu = (cu_skipped cu = None)"
    "if cu_created cu
     then \<exists>m w. build E c co now tx blocks (trip_manifest co k (trip_id_of E b)
              (the (driver_address c (st_driverId d) (pf_tables s))) d) (pf_world s2) = (Inr (m, tx), w) \<and>
            pf_world s3 = w \<and> cu_manifestId cu = Some (m_manifestId m) \<and> cu_pieceCount cu = Some (m_pieceCount m) \<and>
            pf_tables s3 = link_manifest c k (Some (m_manifestId m)) (pf_tables s2)
     else s3 = s2 \<and>
       (if cu_skipped cu = Some MANIFEST_ALREADY_EXISTS
        then getByBooking E c k (w_db (pf_world s)) = (Inr existing, w_db (pf_world s)) \<and>
             (\<exists>m. existing = Some m \<and> cu_manifestId cu = Some (m_manifestId m))
        else cu_manifestId cu = None)"
    using cs [unfolded addr w2] by (elim conjE exE) (rule that, assumption+)
  have bk: "booking_at c k (pf_tables s') = Some (started_booking now (trip_id_of E b) d
      (if cu_created cu then cu_manifestId cu else None) b)"
    using e(4) b by (auto simp: s' t2 started_lookup split: if_splits)
  have end_custody: "if cu_created cu
     then \<exists>m. build E c co now tx blocks (trip_manifest co k (trip_id_of E b)
            (the (driver_address c (st_driverId d) (pf_tables s))) d) (pf_world s2) = (Inr (m, tx), pf_world s3) \<and>
          w_db (pf_world s') = w_db (pf_world s3) \<and> w_chain (pf_world s') = w_chain (pf_world s3) \<and>
          cu_manifestId cu = Some (m_manifestId m)
     else w_db (pf_world s') = w_db (pf_world s) \<and> w_chain (pf_world s') = w_chain (pf_world s) \<and>
       (if cu_skipped cu = Some MANIFEST_ALREADY_EXISTS
        then getByBooking E c k (w_db (pf_world s)) = (Inr existing, w_db (pf_world s)) \<and>
             (\<exists>m. existing = Some m \<and> cu_manifestId cu = Some (m_manifestId m))
        else cu_manifestId cu = None)"
  proof (cases "cu_created cu")
    case True
    with e(4) s' show ?thesis by auto
  next
    case False
    with e(4) s' w2 show ?thesis by simp
  qed
  have end_gps: "gp = gps_answer modules (truck_device c (st_truckId d) (gw_tables (pf_gps s)))"
    "gx_started gp \<longrightarrow> (\<exists>dev. truck_device c (st_truckId d) (gw_tables (pf_gps s)) = Some dev \<and>
       (\<exists>x \<in> set (gt_bindings (gw_tables (pf_gps s'))). br_deviceId x = dv_deviceId dev \<and> br_tripId x = Some (trip_id_of E b)))"
    using g e(1) by (simp_all add: s')
  show ?thesis
    by (rule exI [of _ b], rule exI [of _ "pf_world s2"], rule exI [of _ "pf_world s3"], rule exI [of _ existing],
        unfold out, intro conjI) (rule b tr refl bk end_gps w2 e(2,3) end_custody)+
qed

section \<open>A failed start\<close>

lemma put_back_tables [simp]:
  "pf_tables (put_back s t) = pf_tables s" "w_db (pf_world (put_back s t)) = w_db (pf_world s)"
  "gw_tables (pf_gps (put_back s t)) = gw_tables (pf_gps s)" "w_chain (pf_world (put_back s t)) = w_chain (pf_world t)"
  "pf_registry (put_back s t) = pf_registry t"
  by (simp_all add: put_back_def)

lemma tenantTx_failure_all:
  "tenantTx c fn s = (Inl e, s') \<Longrightarrow> pf_tables s' = pf_tables s \<and> w_db (pf_world s') = w_db (pf_world s) \<and>
     gw_tables (pf_gps s') = gw_tables (pf_gps s)"
  by (auto simp: tenantTx_def plat_tx_failure)

definition chain_from :: "('e) chain_env_scheme \<Rightarrow> chain \<Rightarrow> platform \<Rightarrow> bool" where
  "chain_from E c0 s \<longleftrightarrow> (chain_step E)\<^sup>*\<^sup>* c0 (w_chain (pf_world s))"

lemma chain_from_cong: "w_chain (pf_world s') = w_chain (pf_world s) \<Longrightarrow> chain_from E c0 s' = chain_from E c0 s"
  by (simp add: chain_from_def)

lemma keeps_chain:
  assumes "\<And>s. w_chain (pf_world (snd (m s))) = w_chain (pf_world s)"
  shows "preserves (chain_from E c0) m"
  by (rule preservesI) (simp add: chain_from_cong [OF assms])

lemma preserves_chain_tx: "preserves (chain_from E c0) m \<Longrightarrow> preserves (chain_from E c0) (plat_tx m)"
  by (auto simp: preserves_def plat_tx_def chain_from_def split: prod.splits sum.splits)

lemma read_only_chain: "read_only m \<Longrightarrow> preserves I m"
  by (auto simp: preserves_def dest: read_onlyD)

lemma on_db_chain: "preserves (\<lambda>w. R (w_chain w)) (on_db m)"
  by (auto simp: preserves_def on_db_def split: prod.splits)

lemma anchor_chain:
  "preserves (\<lambda>w. (chain_step E)\<^sup>*\<^sup>* c0 (w_chain w)) (on_chain (anchorCreateManifest E t0 tx k trip n l d r))"
proof (rule preservesI)
  fix w :: world
  assume w: "(chain_step E)\<^sup>*\<^sup>* c0 (w_chain w)"
  obtain res c where run: "anchorCreateManifest E t0 tx k trip n l d r (w_chain w) = (res, c)" by force
  then have "c = w_chain w \<or> chain_step E (w_chain w) c"
    by (auto simp: anchorCreateManifest_def bindE_def need_def throw_if_def send_def
        split: prod.splits sum.splits option.splits if_splits intro: chain_step.intros)
  with w run show "(chain_step E)\<^sup>*\<^sup>* c0 (w_chain (snd (on_chain (anchorCreateManifest E t0 tx k trip n l d r) w)))"
    by (auto simp: on_chain_def intro: rtranclp.rtrancl_into_rtrancl)
qed

lemma build_chain: "preserves (\<lambda>w. (chain_step E)\<^sup>*\<^sup>* c0 (w_chain w)) (build E ctx co now tx blocks input)"
  unfolding build_def Let_def from_sum_def
  by (rule preserves_bindE preserves_basic on_db_chain [where R = "(chain_step E)\<^sup>*\<^sup>* c0"] anchor_chain
      | simp add: preserves_def split_beta)+


lemma in_world_chain:
  "preserves (\<lambda>w. (chain_step E)\<^sup>*\<^sup>* c0 (w_chain w)) m \<Longrightarrow> preserves (chain_from E c0) (in_world m)"
  by (auto simp: preserves_def in_world_def chain_from_def split: prod.splits)

lemma preserves_if: "preserves I m \<Longrightarrow> preserves I n \<Longrightarrow> preserves I (if b then m else n)"
  by simp

lemma preserves_option:
  "preserves I m \<Longrightarrow> (\<And>x. preserves I (k x)) \<Longrightarrow> preserves I (case v of None \<Rightarrow> m | Some x \<Rightarrow> k x)"
  by (cases v) simp_all

lemma parts_keep_chain:
  "preserves (chain_from E c0) (on_tables t)" "preserves (chain_from E c0) (in_gps g)"
  "preserves (chain_from E c0) (plat_audit co u ac en i)"
  by (rule keeps_chain, simp add: on_tables_def in_gps_def plat_audit_run split_beta)+

lemma bind_device_chain: "preserves (chain_from E c0) (bind_device c co n truckId k)"
  by (rule keeps_chain) (auto simp: bind_device_def in_gps_def split: prod.splits sum.splits)

lemma assign_chain: "preserves (chain_from E c0) (assignTruck co u now k truckId driverId (Some c))"
  unfolding assignTruck_def assign_checks_def assign_writes_def select_booking_def hydrate_def tenantTxOn_simps
  by (rule preserves_bindE preserves_basic parts_keep_chain)+

lemma linkTrip_chain: "preserves (chain_from E c0) (linkTrip co k t mid (Some c))"
  unfolding linkTrip_def tenantTxOn_simps by (rule parts_keep_chain)

lemma custody_step_chain: "preserves (chain_from E c0) (custody_step E c co now tx blocks modules k tripId d)"
  unfolding custody_step_def driverSigningAddress_def
  by (rule preserves_if preserves_option preserves_bindE preserves_basic linkTrip_chain in_world_chain build_chain
      on_db_chain [where R = "(chain_step E)\<^sup>*\<^sup>* c0"] | simp add: split_beta)+

lemma orch_startTrip_chain: "preserves (chain_from E c0) (orch_startTrip E co u now tx blocks k modules d)"
  unfolding orch_startTrip_def tenantTx_def resolveTripId_def gps_step_def select_booking_def
  by (rule preserves_chain_tx preserves_if preserves_bindE preserves_basic parts_keep_chain assign_chain linkTrip_chain
      custody_step_chain bind_device_chain)+

section \<open>Delivery and booking\<close>

text \<open>A confirmation that succeeds found the manifest in custody and left it delivered or short.\<close>

lemma delivery_closes:
  assumes "confirmDeliveryService E c u now tx k phone tok w = (Inr dec, w')" and "otps_ok (w_db w)"
  shows "cm_status (ch_manifests (w_chain w) k) = InCustody \<and>
    de_chainStatus dec = cm_status (ch_manifests (w_chain w') k) \<and>
    (de_chainStatus dec = Delivered \<or> de_chainStatus dec = Short) \<and>
    chain_step E (w_chain w) (w_chain w')"
  using confirmDelivery_service_success [OF assms] by (auto simp: Let_def decide_def split: if_splits)

lemma end_gps_frame:
  "end_gps co u truckId s = (r, s') \<Longrightarrow> pf_tables s' = pf_tables s \<and> pf_world s' = pf_world s \<and> (\<exists>b. r = Inr b)"
  by (auto simp: end_gps_def in_gps_def split: prod.splits sum.splits)

lemma markStatus_run:
  "markStatus co k st None s = (Inr (st, \<exists>b \<in> set (pl_bookings (pf_tables s)).
       bk_companyId b = co \<and> bk_id b = k \<and> bk_status b \<noteq> st),
     s\<lparr>pf_tables := put_booking (Tenant co) (\<lambda>b. bk_id b = k \<and> bk_status b \<noteq> st)
       (\<lambda>b. b\<lparr>bk_status := st\<rparr>) (pf_tables s)\<rparr>)"
  by (auto simp: markStatus_def tenantTx_def plat_tx_def bindE_def on_tables_def all_rows_def visible_def
      filter_empty_conv)

lemma booking_at_marked:
  "booking_at c k (put_booking c (\<lambda>b. bk_id b = k \<and> bk_status b \<noteq> st) (\<lambda>b. b\<lparr>bk_status := st\<rparr>) t) =
     map_option (\<lambda>b. b\<lparr>bk_status := st\<rparr>) (booking_at c k t)"
proof -
  have "set_rows c bk_companyId (\<lambda>b. bk_id b = k \<and> bk_status b \<noteq> st) (\<lambda>b. b\<lparr>bk_status := st\<rparr>) bs =
      set_rows c bk_companyId (\<lambda>b. bk_id b = k) (\<lambda>b. b\<lparr>bk_status := st\<rparr>) bs" for bs :: "booking list"
    by (induction bs) (auto simp: set_rows_def)
  then have "put_booking c (\<lambda>b. bk_id b = k \<and> bk_status b \<noteq> st) (\<lambda>b. b\<lparr>bk_status := st\<rparr>) t =
      put_booking c (\<lambda>b. bk_id b = k) (\<lambda>b. b\<lparr>bk_status := st\<rparr>) t"
    by (simp add: put_booking_def)
  then show ?thesis by (simp add: booking_at_put)
qed

lemma orch_confirm_success:
  assumes run: "orch_confirmDelivery E co u now tx k modules phone tok s = (Inr out, s')"
    and ok: "otps_ok (w_db (pf_world s))"
  shows "\<exists>b mid w1. booking_at (Tenant co) k (pf_tables s) = Some b \<and> bk_manifestId b = Some mid \<and> mid \<noteq> [] \<and>
    CUSTODY_TRACKING \<in> set modules \<and> da_manifestId out = mid \<and>
    confirmDeliveryService E co u now tx mid phone tok (pf_world s) = (Inr (da_decision out), w1) \<and>
    w_db (pf_world s') = w_db w1 \<and> w_chain (pf_world s') = w_chain w1 \<and>
    da_status out = DELIVERED \<and>
    da_changed out = (\<exists>x \<in> set (pl_bookings (pf_tables s)). bk_companyId x = co \<and> bk_id x = k \<and> bk_status x \<noteq> DELIVERED) \<and>
    pf_tables s' = put_booking (Tenant co) (\<lambda>b. bk_id b = k \<and> bk_status b \<noteq> DELIVERED)
       (\<lambda>b. b\<lparr>bk_status := DELIVERED\<rparr>) (pf_tables s)"
proof -
  from run obtain b dec w1 where b: "booking_at (Tenant co) k (pf_tables s) = Some b" "truthy (bk_manifestId b)"
    and m: "CUSTODY_TRACKING \<in> set modules"
    and cd: "confirmDeliveryService E co u now tx (the (bk_manifestId b)) phone tok (pf_world s) = (Inr dec, w1)"
    by (auto simp: orch_confirmDelivery_def exec_iff Let_def)
  from b obtain mid where mid: "bk_manifestId b = Some mid" "mid \<noteq> []" by (auto simp: truthy_iff)
  from delivery_closes [OF cd ok] have cl: "de_chainStatus dec = Delivered \<or> de_chainStatus dec = Short" by blast
  let ?s1 = "s\<lparr>pf_world := w1\<rparr>"
  let ?ms = "markStatus co k DELIVERED None ?s1"
  have row: "tenantTx co (\<lambda>c. select_booking c k) s = (Inr (Some b), s)"
    using b by (simp add: tenantTx_def plat_tx_def select_booking_def)
  have conf: "in_world (confirmDeliveryService E co u now tx (the (bk_manifestId b)) phone tok) s = (Inr dec, ?s1)"
    using cd by (simp add: in_world_def)
  from run obtain ended s2 where
    eg: "(if truthy (bk_truckId b) then end_gps co u (the (bk_truckId b)) else return False) (snd ?ms) = (Inr ended, s2)"
    and fin: "s' = s2\<lparr>pf_world := (pf_world s2)\<lparr>w_audit := w_audit (pf_world s2) @ [\<lparr>au_companyId = co, au_userId = Some u,
           au_action = ''TRIP_DELIVERY_CONFIRMED'', au_entity = ''booking'', au_entityId = k\<rparr>]\<rparr>\<rparr>"
    and out: "out = \<lparr>da_manifestId = the (bk_manifestId b), da_decision = dec, da_status = DELIVERED,
      da_changed = snd (projr (fst ?ms)), da_gpsEnded = ended\<rparr>"
    using m b(2) cl by (auto simp: orch_confirmDelivery_def bindE_success throw_if_success need_success row conf
        Let_def markStatus_run return_success plat_audit_success split: if_splits)
  have s2: "pf_tables s2 = pf_tables (snd ?ms)" "pf_world s2 = w1"
    using eg end_gps_frame [of co u _ "snd ?ms" "Inr ended" s2]
    by (auto simp: markStatus_run return_success split: if_splits)
  show ?thesis
    using b(1) mid m cd s2 by (auto simp: out fin markStatus_run)
qed

end
