(* ===== verification/Back_Office.thy ===== *)
theory Back_Office imports Trips begin

text \<open>
  The services around a booking: \<open>insurance.service.ts\<close>, \<open>documents.service.ts\<close> over the document
  registry, \<open>claims.service.ts\<close>, \<open>kyc.service.ts\<close> and \<open>support.service.ts\<close> of
  \<open>platform/api\<close>. The stub renderer, blob store, partner and messenger of the sources are
  modelled as they are written. A premium is the rounded exact product.
\<close>

section \<open>Insurance\<close>

definition premium :: "int \<Rightarrow> int" where
  "premium declared = max 299 (js_round (of_int declared * 9 / 10000))"

definition policy_number :: "string \<Rightarrow> string" where
  "policy_number referenceId = ''DTD-POL-'' @ to_upper (take 8 referenceId)"

definition insurance_quote :: "string \<Rightarrow> int \<Rightarrow> string \<times> int \<times> int" where
  "insurance_quote bookingId declared = (bookingId, declared, premium declared)"

definition buy_policy ::
  "string \<Rightarrow> string \<Rightarrow> string \<Rightarrow> string \<Rightarrow> int \<Rightarrow> (platform, policy) exec"
where
  "buy_policy companyId userId k bookingId declared = tenantTx companyId (\<lambda>c.
     bindE (select_booking c bookingId) (\<lambda>b.
     bindE (need b (NotFound ''BOOKING_NOT_FOUND'')) (\<lambda>b.
     bindE (throw_if (bk_status b \<in> {DELIVERED, CANCELLED})
              (BadRequest ''CANNOT_INSURE_FINISHED_BOOKING'')) (\<lambda>_.
     bindE (reads (\<lambda>s. first_row c po_companyId (\<lambda>p. po_bookingId p = bookingId) (pl_policies (pf_tables s)))) (\<lambda>old.
     bindE (throw_if (old \<noteq> None) (BadRequest ''ALREADY_INSURED'')) (\<lambda>_.
     let p = \<lparr>po_id = k, po_companyId = companyId, po_bookingId = bookingId,
              po_number = policy_number bookingId, po_declaredInr = declared,
              po_premiumInr = premium declared\<rparr> in
     bindE (need_int4 declared) (\<lambda>_.
     bindE (need_tenant c companyId) (\<lambda>_.
     bindE (throw_if (5000000 < declared) (constraint ''insurance_policies_declared_value_inr_check'')) (\<lambda>_.
     bindE (need_fresh po_id pl_policies ''insurance_policies_pkey'' k) (\<lambda>_.
     bindE (need_fresh po_bookingId pl_policies ''insurance_policies_booking_id_key'' bookingId) (\<lambda>_.
     bindE (on_tables (modifies (\<lambda>t. t\<lparr>pl_policies := pl_policies t @ [p]\<rparr>))) (\<lambda>_.
     bindE (plat_audit companyId (Some userId) ''POLICY_PURCHASED'' ''insurance_policy'' k) (\<lambda>_.
     return p)))))))))))))"

definition getPolicy :: "string \<Rightarrow> string \<Rightarrow> (platform, policy) exec" where
  "getPolicy companyId bookingId = tenantTx companyId (\<lambda>c.
     bindE (reads (\<lambda>s. first_row c po_companyId (\<lambda>p. po_bookingId p = bookingId) (pl_policies (pf_tables s)))) (\<lambda>p.
     need p (NotFound ''Not Found'')))"

section \<open>Documents\<close>

datatype paper = BILTY | POD | INVOICE

fun paper_text :: "paper \<Rightarrow> string" where
  "paper_text BILTY = ''BILTY''"
| "paper_text POD = ''POD''"
| "paper_text INVOICE = ''INVOICE''"

fun DOC_TYPE_MAP :: "paper \<Rightarrow> doc_type" where
  "DOC_TYPE_MAP BILTY = DBilty"
| "DOC_TYPE_MAP POD = DPOD"
| "DOC_TYPE_MAP INVOICE = DInvoice"

text \<open>The stub renderer: the bytes are the JSON text of type, payload and version.\<close>

definition render :: "paper \<Rightarrow> json \<Rightarrow> string" where
  "render ty payload = stringify (JObj [(''docType'', JStr (paper_text ty)), (''payload'', payload), (''v'', JNum ''1'')])"

definition storage_key :: "string \<Rightarrow> string \<Rightarrow> paper \<Rightarrow> int \<Rightarrow> string" where
  "storage_key companyId bookingId ty now =
     ''docs/'' @ companyId @ ''/'' @ bookingId @ ''/'' @ paper_text ty @ ''-'' @ show_int now @ ''.pdf''"

text \<open>The booking joined with its company; the fallback hashes the bare booking id.\<close>

definition booking_trip :: "('e) chain_env_scheme \<Rightarrow> booking \<Rightarrow> string" where
  "booking_trip E b = (case bk_tripId b of Some t \<Rightarrow> t | None \<Rightarrow> keccak E (bk_id b))"

definition company_phone :: "db_ctx \<Rightarrow> string \<Rightarrow> tables \<Rightarrow> string option" where
  "company_phone c companyId t = (if tenant_ok c (Some companyId) then map_of (pl_phones t) companyId else None)"

definition generate_document ::
  "('e) chain_env_scheme \<Rightarrow> string \<Rightarrow> string \<Rightarrow> int \<Rightarrow> string \<Rightarrow> string \<Rightarrow> string \<Rightarrow> paper \<Rightarrow> json \<Rightarrow>
   (platform, document) exec"
where
  "generate_document E companyId userId now txHash k bookingId ty payload = tenantTx companyId (\<lambda>c.
     bindE (select_booking c bookingId) (\<lambda>b.
     bindE (need b (NotFound ''BOOKING_NOT_FOUND'')) (\<lambda>b.
     bindE (reads (\<lambda>s. company_phone c (bk_companyId b) (pf_tables s))) (\<lambda>phone.
     bindE (need phone (NotFound ''BOOKING_NOT_FOUND'')) (\<lambda>_.
     let docHash = keccak E (render ty payload);
         key = storage_key companyId bookingId ty now in
     bindE (on_registry (registerDocument E (nat (now div 1000)) txHash docHash (booking_trip E b) (DOC_TYPE_MAP ty))) (\<lambda>tx.
     let r = \<lparr>dc_id = k, dc_companyId = companyId, dc_bookingId = bookingId, dc_docType = paper_text ty,
              dc_storageKey = key, dc_docHash = docHash, dc_chainTx = tx, dc_createdAt = now\<rparr> in
     bindE (need_tenant c companyId) (\<lambda>_.
     bindE (need_fresh dc_id pl_documents ''documents_pkey'' k) (\<lambda>_.
     bindE (need_fresh dc_docHash pl_documents ''documents_doc_hash_key'' docHash) (\<lambda>_.
     bindE (on_tables (modifies (\<lambda>t. t\<lparr>pl_documents := pl_documents t @ [r]\<rparr>))) (\<lambda>_.
     bindE (plat_audit companyId (Some userId) ''DOCUMENT_ANCHORED'' ''document'' k) (\<lambda>_.
     return r)))))))))))"

definition documents_of :: "db_ctx \<Rightarrow> string \<Rightarrow> tables \<Rightarrow> document list" where
  "documents_of c bookingId t = all_rows c dc_companyId (\<lambda>r. dc_bookingId r = bookingId) (pl_documents t)"

definition listForBooking :: "string \<Rightarrow> string \<Rightarrow> (platform, document list) exec" where
  "listForBooking companyId bookingId = tenantTx companyId (\<lambda>c. reads (\<lambda>s.
     newest_first dc_createdAt (documents_of c bookingId (pf_tables s))))"

section \<open>Claims\<close>

record contract_refs =
  cr_tripLogAnchor :: string
  cr_documentRegistry :: string
  cr_custodyManifest :: string

definition nullable :: "string option \<Rightarrow> json" where
  "nullable x = (case x of None \<Rightarrow> JNull | Some s \<Rightarrow> JStr s)"

fun booking_status_text :: "booking_status \<Rightarrow> string" where
  "booking_status_text CONFIRMED = ''CONFIRMED''"
| "booking_status_text ASSIGNED = ''ASSIGNED''"
| "booking_status_text IN_TRANSIT = ''IN_TRANSIT''"
| "booking_status_text DELIVERED = ''DELIVERED''"
| "booking_status_text CANCELLED = ''CANCELLED''"

definition batch_json :: "nat \<Rightarrow> trip_batch \<Rightarrow> json" where
  "batch_json i b = JObj
     [(''index'', JNum (show_nat i)), (''root'', JStr (tb_root b)),
      (''fromTs'', JNum (show_nat (unat (tb_fromTs b)))), (''toTs'', JNum (show_nat (unat (tb_toTs b)))),
      (''anchoredAt'', JNum (show_nat (unat (tb_anchoredAt b))))]"

definition document_json :: "('e) chain_env_scheme \<Rightarrow> document \<Rightarrow> json" where
  "document_json E r = JObj
     [(''doc_type'', JStr (dc_docType r)), (''doc_hash'', JStr (dc_docHash r)),
      (''chain_tx'', JStr (dc_chainTx r)), (''created_at'', JStr (iso_of_ms E (dc_createdAt r)))]"

definition policy_json :: "policy option \<Rightarrow> json" where
  "policy_json p =
     (case p of
        None \<Rightarrow> JNull
      | Some p \<Rightarrow> JObj [(''policy_number'', JStr (po_number p)),
          (''declared_value_inr'', JNum (show_int (po_declaredInr p))),
          (''premium_inr'', JNum (show_int (po_premiumInr p))), (''status'', JStr ''ACTIVE'')])"

definition claims_packet ::
  "('e) chain_env_scheme \<Rightarrow> contract_refs \<Rightarrow> int \<Rightarrow> booking \<Rightarrow> json list \<Rightarrow> document list \<Rightarrow>
   nat option \<Rightarrow> policy option \<Rightarrow> json"
where
  "claims_packet E refs now b batches docs status pol = JObj
     [(''version'', JNum ''1''), (''generatedAt'', JStr (iso_of_ms E now)),
      (''booking'', JObj [(''id'', JStr (bk_id b)), (''tripId'', JStr (booking_trip E b)),
         (''status'', JStr (booking_status_text (bk_status b))),
         (''scheduledAt'', JStr (iso_of_ms E (bk_scheduledAt b))), (''truckType'', JStr (bk_truckType b))]),
      (''gps'', JObj [(''batchCount'', JNum (show_nat (length batches))), (''batches'', JArr batches)]),
      (''documents'', JArr (map (document_json E) docs)),
      (''custody'', JObj [(''manifestId'', nullable (bk_manifestId b)),
         (''status'', case status of None \<Rightarrow> JNull | Some n \<Rightarrow> JNum (show_nat n))]),
      (''insurance'', policy_json pol),
      (''chainRefs'', JObj [(''tripLogAnchor'', JStr (cr_tripLogAnchor refs)),
         (''documentRegistry'', JStr (cr_documentRegistry refs)),
         (''custodyManifest'', JStr (cr_custodyManifest refs))])]"

text \<open>The reads of the two contracts.\<close>

definition gps_batches :: "string \<Rightarrow> (platform, json list) exec" where
  "gps_batches tripId =
     bindE (need (abi_bytes32 tripId) abi_error) (\<lambda>k.
     bindE (reads (\<lambda>s. batchCount k (gw_log (pf_gps s)))) (\<lambda>n.
     for_fold (\<lambda>i acc.
       bindE (reads (\<lambda>s. getBatch k i (gw_log (pf_gps s)))) (\<lambda>r.
       case r of Inl _ \<Rightarrow> raise reverted | Inr b \<Rightarrow> return (acc @ [batch_json i b]))) [0 ..< n] []))"

definition custody_status_of :: "string option \<Rightarrow> (platform, nat option) exec" where
  "custody_status_of mid =
     (if truthy mid then
        bindE (need (abi_bytes32 (the mid)) abi_error) (\<lambda>k.
        reads (\<lambda>s. Some (status_number (cm_status (ch_manifests (w_chain (pf_world s)) k)))))
      else return None)"

definition upsert_packet :: "db_ctx \<Rightarrow> string \<Rightarrow> string \<Rightarrow> string \<Rightarrow> json \<Rightarrow> string \<Rightarrow> int \<Rightarrow> tables \<Rightarrow> tables" where
  "upsert_packet c k companyId bookingId packet packetHash now t =
     (if bookingId \<in> cp_bookingId ` set (pl_packets t)
      then t\<lparr>pl_packets := set_rows c cp_companyId (\<lambda>r. cp_bookingId r = bookingId)
             (\<lambda>r. r\<lparr>cp_packet := packet, cp_packetHash := packetHash, cp_updatedAt := now\<rparr>) (pl_packets t)\<rparr>
      else t\<lparr>pl_packets := pl_packets t @
             [\<lparr>cp_id = k, cp_companyId = companyId, cp_bookingId = bookingId, cp_packet = packet,
               cp_packetHash = packetHash, cp_createdAt = now, cp_updatedAt = now\<rparr>]\<rparr>)"

text \<open>A row in the way that the policy hides fails the statement.\<close>

definition buildPacket ::
  "('e) chain_env_scheme \<Rightarrow> contract_refs \<Rightarrow> string \<Rightarrow> string \<Rightarrow> int \<Rightarrow> string \<Rightarrow> string \<Rightarrow>
   (platform, packet_row) exec"
where
  "buildPacket E refs companyId userId now k bookingId = tenantTx companyId (\<lambda>c.
     bindE (select_booking c bookingId) (\<lambda>b.
     bindE (need b (NotFound ''BOOKING_NOT_FOUND'')) (\<lambda>b.
     bindE (reads (\<lambda>s. sort_key dc_createdAt (documents_of c bookingId (pf_tables s)))) (\<lambda>docs.
     bindE (reads (\<lambda>s. first_row c po_companyId (\<lambda>p. po_bookingId p = bookingId) (pl_policies (pf_tables s)))) (\<lambda>pol.
     bindE (gps_batches (booking_trip E b)) (\<lambda>batches.
     bindE (custody_status_of (bk_manifestId b)) (\<lambda>status.
     let packet = claims_packet E refs now b batches docs status pol;
         packetHash = keccak E (stringify packet) in
     bindE (need_tenant c companyId) (\<lambda>_.
     bindE (reads (\<lambda>s. find (\<lambda>r. cp_bookingId r = bookingId) (pl_packets (pf_tables s)))) (\<lambda>old.
     bindE (throw_if (case old of None \<Rightarrow> False | Some r \<Rightarrow> \<not> tenant_ok c (Some (cp_companyId r))) rls_violation) (\<lambda>_.
     bindE (on_tables (modifies (upsert_packet c k companyId bookingId packet packetHash now))) (\<lambda>_.
     bindE (reads (\<lambda>s. find (\<lambda>r. cp_bookingId r = bookingId) (pl_packets (pf_tables s)))) (\<lambda>row.
     bindE (need row (Error ''Cannot read properties of undefined'')) (\<lambda>row.
     bindE (plat_audit companyId (Some userId) ''CLAIMS_PACKET_BUILT'' ''claims_packet'' (cp_id row)) (\<lambda>_.
     return row))))))))))))))"

text \<open>
  The driver of the database has parsed a \<open>jsonb\<close> value already; \<open>JSON.parse\<close> turns the object
  back into text, which is not its JSON.
\<close>

fun object_text :: "json \<Rightarrow> string" where
  "object_text (JStr s) = s"
| "object_text (JObj _) = ''[object Object]''"
| "object_text j = stringify j"

definition getPacket :: "string \<Rightarrow> string \<Rightarrow> (platform, packet_row \<times> json) exec" where
  "getPacket companyId bookingId = tenantTx companyId (\<lambda>c.
     bindE (reads (\<lambda>s. first_row c cp_companyId (\<lambda>r. cp_bookingId r = bookingId) (pl_packets (pf_tables s)))) (\<lambda>r.
     bindE (need r (NotFound ''NO_PACKET_YET'')) (\<lambda>r.
     bindE (need (parse (object_text (cp_packet r))) (Error ''SyntaxError'')) (\<lambda>j.
     return (r, j)))))"

section \<open>Verification of documents\<close>

record kyc_dto =
  kd_docKind :: string
  kd_storageKey :: string
  kd_subjectType :: string
  kd_subjectId :: string

definition kyc_submit ::
  "string \<Rightarrow> string \<Rightarrow> int \<Rightarrow> string \<Rightarrow> kyc_dto \<Rightarrow> (platform, string \<times> kyc_status \<times> int) exec"
where
  "kyc_submit companyId userId now k d = tenantTx companyId (\<lambda>c.
     bindE (need_tenant c companyId) (\<lambda>_.
     bindE (need_fresh ky_id pl_kyc ''kyc_records_pkey'' k) (\<lambda>_.
     bindE (on_tables (modifies (\<lambda>t. t\<lparr>pl_kyc := pl_kyc t @
       [\<lparr>ky_id = k, ky_companyId = companyId, ky_docKind = kd_docKind d, ky_storageKey = kd_storageKey d,
         ky_subjectType = kd_subjectType d, ky_subjectId = kd_subjectId d, ky_status = KYC_PENDING,
         ky_reviewNote = None, ky_reviewedBy = None, ky_reviewedAt = None, ky_createdAt = now\<rparr>]\<rparr>))) (\<lambda>_.
     bindE (plat_audit companyId (Some userId) ''KYC_SUBMITTED'' ''kyc_record'' k) (\<lambda>_.
     return (k, KYC_PENDING, now))))))"

definition kyc_status_of ::
  "string \<Rightarrow> string \<Rightarrow> string \<Rightarrow> (platform, (string \<times> kyc_status \<times> int option) list \<times> bool) exec"
where
  "kyc_status_of companyId subjectType subjectId = tenantTx companyId (\<lambda>c. reads (\<lambda>s.
     let rows = newest_first ky_createdAt (all_rows c ky_companyId
       (\<lambda>r. ky_subjectType r = subjectType \<and> ky_subjectId r = subjectId) (pl_kyc (pf_tables s))) in
     (map (\<lambda>r. (ky_docKind r, ky_status r, ky_reviewedAt r)) rows, 0 < length rows \<and> list_all (\<lambda>r. ky_status r = VERIFIED) rows)))"

fun kyc_action :: "kyc_status \<Rightarrow> string" where
  "kyc_action VERIFIED = ''KYC_VERIFIED''"
| "kyc_action REJECTED = ''KYC_REJECTED''"
| "kyc_action KYC_PENDING = ''KYC_PENDING''"

definition kyc_review ::
  "string \<Rightarrow> string \<Rightarrow> int \<Rightarrow> string \<Rightarrow> kyc_status \<Rightarrow> string \<Rightarrow> (platform, string \<times> kyc_status) exec"
where
  "kyc_review companyId userId now k decision note_text = tenantTx companyId (\<lambda>c.
     bindE (reads (\<lambda>s. first_row c ky_companyId (\<lambda>r. ky_id r = k) (pl_kyc (pf_tables s)))) (\<lambda>row.
     bindE (on_tables (modifies (\<lambda>t. t\<lparr>pl_kyc := set_rows c ky_companyId (\<lambda>r. ky_id r = k)
       (\<lambda>r. r\<lparr>ky_status := decision, ky_reviewNote := Some note_text, ky_reviewedBy := Some userId,
              ky_reviewedAt := Some now\<rparr>) (pl_kyc t)\<rparr>))) (\<lambda>_.
     bindE (throw_if (row = None) (NotFound ''Not Found'')) (\<lambda>_.
     bindE (plat_audit companyId (Some userId) (kyc_action decision) ''kyc_record'' k) (\<lambda>_.
     return (k, decision))))))"

section \<open>Support\<close>

record ticket_dto =
  ti_bookingId :: "string option"
  ti_category :: string
  ti_subject :: string
  ti_message :: string

definition insert_message :: "string \<Rightarrow> string \<Rightarrow> string \<Rightarrow> int \<Rightarrow> (platform, message) exec" where
  "insert_message ticketId userId body now =
     (let m = \<lparr>ms_ticketId = ticketId, ms_authorId = userId, ms_body = body, ms_createdAt = now\<rparr> in
      bindE (on_tables (modifies (\<lambda>t. t\<lparr>pl_messages := pl_messages t @ [m]\<rparr>))) (\<lambda>_. return m))"

definition createTicket ::
  "string \<Rightarrow> string \<Rightarrow> int \<Rightarrow> string \<Rightarrow> ticket_dto \<Rightarrow> (platform, ticket) exec"
where
  "createTicket companyId userId now k d = tenantTx companyId (\<lambda>c.
     let r = \<lparr>tk_id = k, tk_companyId = companyId, tk_bookingId = ti_bookingId d, tk_category = ti_category d,
              tk_subject = ti_subject d, tk_status = TK_OPEN, tk_createdBy = userId, tk_createdAt = now\<rparr> in
     bindE (need_tenant c companyId) (\<lambda>_.
     bindE (need_fresh tk_id pl_tickets ''support_tickets_pkey'' k) (\<lambda>_.
     bindE (reads (\<lambda>s. bk_id ` set (pl_bookings (pf_tables s)))) (\<lambda>bookings.
     bindE (throw_if (case ti_bookingId d of None \<Rightarrow> False | Some b \<Rightarrow> b \<notin> bookings)
              (constraint ''support_tickets_booking_id_fkey'')) (\<lambda>_.
     bindE (on_tables (modifies (\<lambda>t. t\<lparr>pl_tickets := pl_tickets t @ [r]\<rparr>))) (\<lambda>_.
     bindE (insert_message k userId (ti_message d) now) (\<lambda>_.
     return r)))))))"

definition listTickets :: "string \<Rightarrow> (platform, ticket list) exec" where
  "listTickets companyId = tenantTx companyId (\<lambda>c. reads (\<lambda>s.
     take 100 (newest_first tk_createdAt (all_rows c tk_companyId (\<lambda>_. True) (pl_tickets (pf_tables s))))))"

definition reply_ticket ::
  "string \<Rightarrow> string \<Rightarrow> int \<Rightarrow> string \<Rightarrow> string \<Rightarrow> (platform, message) exec"
where
  "reply_ticket companyId userId now ticketId body = tenantTx companyId (\<lambda>c.
     bindE (reads (\<lambda>s. first_row c tk_companyId (\<lambda>r. tk_id r = ticketId) (pl_tickets (pf_tables s)))) (\<lambda>t.
     bindE (need t (NotFound ''Not Found'')) (\<lambda>t.
     bindE (throw_if (tk_status t = TK_CLOSED) (BadRequest ''TICKET_CLOSED'')) (\<lambda>_.
     insert_message ticketId userId body now))))"

text \<open>The driver's phone is looked up and not used: the answer is the bridge's number.\<close>

definition callDriver :: "string option \<Rightarrow> string \<Rightarrow> string \<Rightarrow> string \<Rightarrow> (platform, string) exec" where
  "callDriver bridge companyId userId bookingId = tenantTx companyId (\<lambda>c.
     bindE (reads (\<lambda>s. driver_of_booking c bookingId (pf_tables s))) (\<lambda>d.
     bindE (need d (NotFound ''NO_DRIVER_ASSIGNED'')) (\<lambda>_.
     bindE (plat_audit companyId (Some userId) ''CALL_DRIVER_REQUESTED'' ''booking'' bookingId) (\<lambda>_.
     return (coalesce bridge ''+918000000000'')))))"


section \<open>Documents are anchored once\<close>

definition hash_of_doc :: "('e) chain_env_scheme \<Rightarrow> paper \<Rightarrow> json \<Rightarrow> string" where
  "hash_of_doc E ty payload = to_lower (keccak E (render ty payload))"

lemma generate_success:
  assumes "generate_document E c u now tx k bk ty payload s = (Inr r, s')"
  shows "\<exists>b t. booking_at (Tenant c) bk (pf_tables s) = Some b \<and> abi_bytes32 (booking_trip E b) = Some t \<and>
    dc_docHash r = keccak E (render ty payload) \<and> abi_bytes32 (keccak E (render ty payload)) = Some (hash_of_doc E ty payload) \<and> dc_bookingId r = bk \<and> dc_companyId r = c \<and>
    ch_registerDocument (platform_msg E (nat (now div 1000))) (hash_of_doc E ty payload) t (DOC_TYPE_MAP ty) (pf_registry s) =
      Inr (pf_registry s') \<and>
    keccak E (render ty payload) \<notin> dc_docHash ` set (pl_documents (pf_tables s)) \<and>
    pf_tables s' = (pf_tables s)\<lparr>pl_documents := pl_documents (pf_tables s) @ [r]\<rparr>"
proof -
  from assms obtain b s1 tx' where b: "booking_at (Tenant c) bk (pf_tables s) = Some b" and
    reg: "registerDocument E (nat (now div 1000)) tx (keccak E (render ty payload)) (booking_trip E b) (DOC_TYPE_MAP ty)
      (pf_registry s) = (Inr tx', s1)" and
    s': "dc_docHash r = keccak E (render ty payload)" "dc_bookingId r = bk" "dc_companyId r = c" "pf_registry s' = s1"
      "pf_tables s' = (pf_tables s)\<lparr>pl_documents := pl_documents (pf_tables s) @ [r]\<rparr>"
      "keccak E (render ty payload) \<notin> dc_docHash ` set (pl_documents (pf_tables s))"
    by (clarsimp simp: generate_document_def exec_iff Let_def)
  from registerDocument_success [OF reg] obtain h t where
    "abi_bytes32 (keccak E (render ty payload)) = Some h" "abi_bytes32 (booking_trip E b) = Some t"
    "ch_registerDocument (platform_msg E (nat (now div 1000))) h t (DOC_TYPE_MAP ty) (pf_registry s) = Inr s1"
    by auto
  moreover from this have "h = hash_of_doc E ty payload" by (auto simp: hash_of_doc_def abi_bytes32_def split: if_splits)
  ultimately show ?thesis using b s' by auto
qed

text \<open>Whatever its result, a request leaves the register by at most one of its transactions.\<close>

lemma generate_registry:
  assumes "generate_document E c u now tx k bk ty payload s = (r, s')"
  shows "pf_registry s' = pf_registry s \<or> doc_step (pf_registry s) (pf_registry s')"
proof -
  have reg: "c1 = c0 \<or> doc_step c0 c1" if "registerDocument E t0 x h t y c0 = (q, c1)" for t0 x h t y c0 q c1
    using that by (auto simp: registerDocument_def split: option.splits sum.splits intro: doc_step.intros)
  obtain q s1 where run: "(\<lambda>c. bindE (select_booking c bk) (\<lambda>b.
     bindE (need b (NotFound ''BOOKING_NOT_FOUND'')) (\<lambda>b.
     bindE (reads (\<lambda>s. company_phone c (bk_companyId b) (pf_tables s))) (\<lambda>phone.
     bindE (need phone (NotFound ''BOOKING_NOT_FOUND'')) (\<lambda>_. return b))))) (Tenant c) s = (q, s1)" by force
  have s1: "s1 = s" using run
    by (auto simp: bindE_def select_booking_def need_def split: prod.splits sum.splits option.splits)
  show ?thesis
  proof (cases q)
    case (Inl e)
    with run s1 assms show ?thesis
      by (auto simp: generate_document_def tenantTx_def plat_tx_def bindE_def select_booking_def need_def put_back_def
          split: prod.splits sum.splits option.splits)
  next
    case (Inr b)
    let ?h = "keccak E (render ty payload)"
    obtain q2 c2 where r2: "registerDocument E (nat (now div 1000)) tx ?h (booking_trip E b) (DOC_TYPE_MAP ty) (pf_registry s) = (q2, c2)"
      by force
    from reg [OF this] have c2: "c2 = pf_registry s \<or> doc_step (pf_registry s) c2" .
    have keep: "pf_registry s' = c2"
      using assms run [unfolded s1 Inr] r2
      by (auto simp: generate_document_def tenantTx_def plat_tx_def bindE_def select_booking_def need_def put_back_def
          on_registry_def need_tenant_def need_fresh_def throw_if_def on_tables_def plat_audit_run Let_def
          split: prod.splits sum.splits option.splits if_splits)
    with c2 show ?thesis by simp
  qed
qed

lemma generate_tables:
  "generate_document E c u now tx k bk ty payload s = (r, s') \<Longrightarrow>
     pf_tables s' = pf_tables s \<or> (\<exists>d. dc_docHash d \<notin> dc_docHash ` set (pl_documents (pf_tables s)) \<and>
       pf_tables s' = (pf_tables s)\<lparr>pl_documents := pl_documents (pf_tables s) @ [d]\<rparr>)"
proof (cases r)
  case (Inl e)
  moreover assume "generate_document E c u now tx k bk ty payload s = (r, s')"
  ultimately show ?thesis by (auto simp: generate_document_def dest: tenantTx_failure)
next
  case (Inr d)
  moreover assume "generate_document E c u now tx k bk ty payload s = (r, s')"
  ultimately show ?thesis using generate_success [of E c u now tx k bk ty payload s d s']
    by (intro disjI2 exI [of _ d]) (simp del: image_iff, elim exE conjE, simp del: image_iff)
qed

definition doc_row :: "tables \<Rightarrow> string \<Rightarrow> document option" where
  "doc_row t h = find (\<lambda>r. dc_docHash r = h) (pl_documents t)"

definition docs_grow :: "tables \<Rightarrow> tables \<Rightarrow> bool" where
  "docs_grow t t' \<longleftrightarrow> (\<exists>new. pl_documents t' = pl_documents t @ new)"

interpretation doc_table: write_once doc_row docs_grow
  by unfold_locales (auto simp: doc_row_def docs_grow_def find_append)

section \<open>A claims packet shows the chain\<close>

lemma for_fold_batches:
  assumes "\<And>i. i \<in> set is \<Longrightarrow> i < length (tl_batches (gw_log (pf_gps s)) k)"
  shows "for_fold (\<lambda>i acc. bindE (reads (\<lambda>s. getBatch k i (gw_log (pf_gps s)))) (\<lambda>r.
       case r of Inl _ \<Rightarrow> raise reverted | Inr b \<Rightarrow> return (acc @ [batch_json i b]))) is acc s =
     (Inr (acc @ map (\<lambda>i. batch_json i (tl_batches (gw_log (pf_gps s)) k ! i)) is), s)"
  using assms by (induction "is" arbitrary: acc) (auto simp: bindE_def getBatch_def)

lemma gps_batches_run:
  "abi_bytes32 trip = Some k \<Longrightarrow> gps_batches trip s = (Inr (map (\<lambda>i. batch_json i (tl_batches (gw_log (pf_gps s)) k ! i))
     [0 ..< length (tl_batches (gw_log (pf_gps s)) k)]), s)"
  by (simp add: gps_batches_def need_def bindE_Inr_apply [where s = s and s' = s] batchCount_def)
    (subst for_fold_batches; simp)

lemma gps_batches_success:
  "gps_batches trip s = (Inr bs, s') \<Longrightarrow> \<exists>k. abi_bytes32 trip = Some k"
  by (auto simp: gps_batches_def exec_iff)

lemma find_set_rows:
  assumes "find q rows = Some r" and "visible c owner r" and "q r" and "\<And>x. q (f x) = q x"
  shows "find q (set_rows c owner q f rows) = Some (f r)"
  using assms by (induction rows) (auto simp: set_rows_def split: if_splits)

lemma find_upsert_packet:
  assumes "\<And>r. find (\<lambda>r. cp_bookingId r = b) (pl_packets t) = Some r \<Longrightarrow> tenant_ok ctx (Some (cp_companyId r))"
    and "tenant_ok ctx (Some c)"
  shows "\<exists>r. find (\<lambda>r. cp_bookingId r = b) (pl_packets (upsert_packet ctx k c b p h now t)) = Some r \<and>
     cp_packet r = p \<and> cp_packetHash r = h \<and> tenant_ok ctx (Some (cp_companyId r))"
proof (cases "b \<in> cp_bookingId ` set (pl_packets t)")
  case True
  then obtain r where r: "find (\<lambda>r. cp_bookingId r = b) (pl_packets t) = Some r"
    using find_exists [of _ "pl_packets t" "\<lambda>r. cp_bookingId r = b"] by blast
  with assms have "visible ctx cp_companyId r" "cp_bookingId r = b" by (auto simp: visible_def dest: find_SomeD)
  from find_set_rows [OF r this, of "\<lambda>r. r\<lparr>cp_packet := p, cp_packetHash := h, cp_updatedAt := now\<rparr>"] True
    \<open>visible ctx cp_companyId r\<close>
  show ?thesis by (simp add: upsert_packet_def visible_def)
next
  case False
  then have "find (\<lambda>r. cp_bookingId r = b) (pl_packets t) = None" by (auto simp: find_None_iff')
  with False assms(2) show ?thesis by (simp add: upsert_packet_def find_append)
qed

lemma buildPacket_success:
  assumes "buildPacket E refs c u now k bk s = (Inr row, s')"
  shows "\<exists>b t status. booking_at (Tenant c) bk (pf_tables s) = Some b \<and> abi_bytes32 (booking_trip E b) = Some t \<and>
    (let bs = tl_batches (gw_log (pf_gps s)) t;
         packet = claims_packet E refs now b (map (\<lambda>i. batch_json i (bs ! i)) [0 ..< length bs])
           (sort_key dc_createdAt (documents_of (Tenant c) bk (pf_tables s))) status
           (first_row (Tenant c) po_companyId (\<lambda>p. po_bookingId p = bk) (pl_policies (pf_tables s)))
     in cp_packet row = packet \<and> cp_companyId row = c \<and> cp_packetHash row = keccak E (stringify packet) \<and>
        find (\<lambda>r. cp_bookingId r = bk) (pl_packets (pf_tables s')) = Some row) \<and>
    (case bk_manifestId b of
       Some mid \<Rightarrow> mid \<noteq> [] \<longrightarrow> status = Some (status_number (cm_status (ch_manifests (w_chain (pf_world s)) (to_lower mid))))
     | None \<Rightarrow> status = None)"
proof -
  from assms obtain b s1 s2 batches status where
    b: "booking_at (Tenant c) bk (pf_tables s) = Some b" and
    g: "gps_batches (booking_trip E b) s = (Inr batches, s1)" and
    st: "custody_status_of (bk_manifestId b) s1 = (Inr status, s2)" and
    s': "pf_tables s' = upsert_packet (Tenant c) k c bk
      (claims_packet E refs now b batches (sort_key dc_createdAt (documents_of (Tenant c) bk (pf_tables s))) status
        (first_row (Tenant c) po_companyId (\<lambda>p. po_bookingId p = bk) (pl_policies (pf_tables s))))
      (keccak E (stringify (claims_packet E refs now b batches
        (sort_key dc_createdAt (documents_of (Tenant c) bk (pf_tables s))) status
        (first_row (Tenant c) po_companyId (\<lambda>p. po_bookingId p = bk) (pl_policies (pf_tables s)))))) now (pf_tables s2)"
      "find (\<lambda>r. cp_bookingId r = bk) (pl_packets (pf_tables s')) = Some row" and
    seen: "\<not> (case find (\<lambda>r. cp_bookingId r = bk) (pl_packets (pf_tables s2)) of None \<Rightarrow> False
      | Some r \<Rightarrow> \<not> tenant_ok (Tenant c) (Some (cp_companyId r)))"
    by (auto simp: buildPacket_def exec_iff Let_def)
  have own: "\<And>r. find (\<lambda>r. cp_bookingId r = bk) (pl_packets (pf_tables s2)) = Some r \<Longrightarrow> tenant_ok (Tenant c) (Some (cp_companyId r))"
    using seen by simp
  from gps_batches_success [OF g] obtain t where t: "abi_bytes32 (booking_trip E b) = Some t" by blast
  from gps_batches_run [OF t, of s] g have batches: "s1 = s"
    "batches = map (\<lambda>i. batch_json i (tl_batches (gw_log (pf_gps s)) t ! i)) [0 ..< length (tl_batches (gw_log (pf_gps s)) t)]"
    by simp_all
  have status: "case bk_manifestId b of
       Some mid \<Rightarrow> mid \<noteq> [] \<longrightarrow> status = Some (status_number (cm_status (ch_manifests (w_chain (pf_world s)) (to_lower mid))))
     | None \<Rightarrow> status = None"
    using st by (auto simp: batches(1) custody_status_of_def exec_iff truthy_def abi_bytes32_def split: if_splits option.splits)
  have "tenant_ok (Tenant c) (Some c)" by simp
  from find_upsert_packet [OF own this]
  have "\<exists>r. find (\<lambda>r. cp_bookingId r = bk) (pl_packets (pf_tables s')) = Some r \<and>
      cp_packet r = claims_packet E refs now b batches
        (sort_key dc_createdAt (documents_of (Tenant c) bk (pf_tables s))) status
        (first_row (Tenant c) po_companyId (\<lambda>p. po_bookingId p = bk) (pl_policies (pf_tables s))) \<and>
      cp_packetHash r = keccak E (stringify (claims_packet E refs now b batches
        (sort_key dc_createdAt (documents_of (Tenant c) bk (pf_tables s))) status
        (first_row (Tenant c) po_companyId (\<lambda>p. po_bookingId p = bk) (pl_policies (pf_tables s))))) \<and>
      tenant_ok (Tenant c) (Some (cp_companyId r))"
    unfolding s'(1) .
  then have row: "cp_packet row = claims_packet E refs now b batches
      (sort_key dc_createdAt (documents_of (Tenant c) bk (pf_tables s))) status
      (first_row (Tenant c) po_companyId (\<lambda>p. po_bookingId p = bk) (pl_policies (pf_tables s)))"
    "cp_packetHash row = keccak E (stringify (cp_packet row))" "cp_companyId row = c"
    using s'(2) by auto
  show ?thesis
    by (rule exI [of _ b], rule exI [of _ t], rule exI [of _ status])
      (use b t status row s'(2) batches(2) in \<open>simp add: Let_def\<close>)
qed

lemma object_text_no_json: "parse (object_text (JObj ms)) = None"
  by (simp add: parse_def num_char_def starts_with_def)

section \<open>Confinement\<close>

lemma foreign_back_office [simp]:
  "foreign_rows c (t\<lparr>pl_policies := ps\<rparr>) = foreign_rows c t \<longleftrightarrow>
     others po_companyId c ps = others po_companyId c (pl_policies t)"
  "foreign_rows c (t\<lparr>pl_documents := ds\<rparr>) = foreign_rows c t \<longleftrightarrow>
     others dc_companyId c ds = others dc_companyId c (pl_documents t)"
  "foreign_rows c (t\<lparr>pl_packets := cs\<rparr>) = foreign_rows c t \<longleftrightarrow>
     others cp_companyId c cs = others cp_companyId c (pl_packets t)"
  "foreign_rows c (t\<lparr>pl_kyc := ks\<rparr>) = foreign_rows c t \<longleftrightarrow>
     others ky_companyId c ks = others ky_companyId c (pl_kyc t)"
  "foreign_rows c (t\<lparr>pl_tickets := ts\<rparr>) = foreign_rows c t \<longleftrightarrow>
     others tk_companyId c ts = others tk_companyId c (pl_tickets t)"
  "foreign_rows c (t\<lparr>pl_messages := ms\<rparr>) = foreign_rows c t"
  by (auto simp: foreign_rows_def)

lemma foreign_upsert [simp]:
  "foreign_rows c (upsert_packet (Tenant c) k c b p h now t) = foreign_rows c t"
  by (simp add: upsert_packet_def)

lemma confined_for_fold [confine]:
  "(\<And>x y. confined c (f x y)) \<Longrightarrow> confined c (for_fold f xs y)"
  by (induction xs arbitrary: y) (auto intro: confined_basic confined_bindE)

lemma confined_sum [confine]:
  "(\<And>x. confined c (f x)) \<Longrightarrow> (\<And>y. confined c (g y)) \<Longrightarrow> confined c (case v of Inl x \<Rightarrow> f x | Inr y \<Rightarrow> g y)"
  by (cases v) simp_all

lemma confined_policies: "confined c (buy_policy c u k b declared)" "confined c (getPolicy c b)"
  unfolding buy_policy_def getPolicy_def Let_def by (rule confine | simp)+

lemma confined_documents: "confined c (generate_document E c u now tx k b ty payload)" "confined c (listForBooking c b)"
  unfolding generate_document_def listForBooking_def Let_def by (rule confine | simp)+

lemma confined_claims: "confined c (buildPacket E refs c u now k b)" "confined c (getPacket c b)"
  unfolding buildPacket_def getPacket_def Let_def gps_batches_def custody_status_of_def
  by (rule confine | simp)+

lemma confined_kyc:
  "confined c (kyc_submit c u now k d)" "confined c (kyc_status_of c st si)" "confined c (kyc_review c u now k dec nt)"
  unfolding kyc_submit_def kyc_status_of_def kyc_review_def by (rule confine | simp)+

lemma confined_support:
  "confined c (createTicket c u now k td)" "confined c (listTickets c)" "confined c (reply_ticket c u now k b)"
  "confined c (callDriver br c u b)"
  unfolding createTicket_def listTickets_def reply_ticket_def callDriver_def insert_message_def Let_def
  by (rule confine | simp)+

end
