(* ===== verification/Platform_Samples.thy ===== *)
theory Platform_Samples imports Back_Office Gps_Samples begin

text \<open>
  One company with two bookings, a truck with the tracker of the tracker samples and a driver with
  a signing key, over the consignment of the custody samples. The properties of the platform are
  exercised here.
\<close>

section \<open>The environment\<close>

definition toy_plat :: plat_env where
  "toy_plat =
     \<lparr>zod_uuid = (\<lambda>_. True), zod_datetime = (\<lambda>_. True), keccak = (\<lambda>_. HASH),
      iso_of_ms = (\<lambda>_. ''2025-01-01T00:00:00.000Z''),
      checksum_ok = (\<lambda>_. True), ecrecover = (\<lambda>_ _ r s. ''0x'' @ take 40 (r @ s)),
      chain_id = ''1'', this_address = ''c'', platform_account = PLATFORM,
      sha256_hex = (\<lambda>t. ''h'' @ t), sha256_bytes = (\<lambda>t. t), master_raw = Some ''k'',
      production = False, gcm_encrypt = (\<lambda>_ _ p. (p, ''t'')), gcm_decrypt = (\<lambda>_ _ c _. Some c),
      account_address = (\<lambda>p. ''0x'' @ norm_key p),
      sign_message = (\<lambda>p _. norm_key p @ replicate 25 (CHR ''a'')),
      js_date = (\<lambda>_. Some 100000), pg_timestamp = (\<lambda>_. Some 100000), hmac_hex = (\<lambda>k m. ''x'' @ k @ m)\<rparr>"

lemma toy_plat_simps [simp]:
  "keccak toy_plat x = HASH" "js_date toy_plat x = Some 100000" "pg_timestamp toy_plat x = Some 100000"
  "hmac_hex toy_plat k m = ''x'' @ k @ m"
  by (simp_all add: toy_plat_def)

section \<open>The tables\<close>

definition toy_truck :: "truck_status \<Rightarrow> truck" where
  "toy_truck st =
     \<lparr>tr_id = UUID, tr_companyId = CO, tr_regNumber = ''WB01'', tr_truckType = ''LCV'', tr_capacityKg = 1000,
      tr_gpsDeviceId = Some ''dev'', tr_status = st, tr_createdAt = 0\<rparr>"

definition toy_driver :: driver where
  "toy_driver =
     \<lparr>dr_id = ''driver-1'', dr_companyId = CO, dr_fullName = ''D'', dr_phone = ''+911'',
      dr_licenseNumber = ''L'', dr_signingAddress = Some DRIVER_ADDR, dr_status = DR_ACTIVE, dr_createdAt = 0\<rparr>"

definition toy_booking :: "string \<Rightarrow> booking" where
  "toy_booking k =
     \<lparr>bk_id = k, bk_companyId = CO, bk_quoteId = ''q'', bk_truckType = ''LCV'', bk_weightKg = 10,
      bk_scheduledAt = 100000, bk_status = CONFIRMED, bk_estimatedPriceInr = 90, bk_truckId = None,
      bk_driverId = None, bk_tripId = Some TRIP, bk_manifestId = None, bk_notes = None,
      bk_cancelReason = None, bk_createdBy = ''user-1'', bk_assignedAt = None, bk_cancelledAt = None,
      bk_createdAt = 0\<rparr>"

definition under_way :: booking where
  "under_way = (toy_booking BOOKING)\<lparr>bk_status := ASSIGNED, bk_truckId := Some UUID,
     bk_driverId := Some ''driver-1'', bk_manifestId := Some HASH\<rparr>"

definition toy_payment :: "pay_status \<Rightarrow> payment" where
  "toy_payment st =
     \<lparr>py_id = ''pay-1'', py_companyId = CO, py_bookingId = BOOKING, py_amountInr = 100, py_method = ''UPI'',
      py_status = st, py_payout = HELD, py_gatewayOrderId = gateway_order_id BOOKING, py_paidAt = None,
      py_payoutAt = None\<rparr>"

definition tables_of :: "booking list \<Rightarrow> truck list \<Rightarrow> payment list \<Rightarrow> tables" where
  "tables_of bs ts ps =
     \<lparr>pl_phones = [(CO, ''+911'')], pl_trucks = ts, pl_drivers = [toy_driver], pl_quotes = [],
      pl_bookings = bs, pl_stops = [], pl_payments = ps, pl_policies = [], pl_documents = [],
      pl_packets = [], pl_kyc = [], pl_tickets = [], pl_messages = []\<rparr>"

definition open_registry :: doc_registry where
  "open_registry = (doc_deployed ''owner'')\<lparr>dg_isRegistrar := (\<lambda>a. a = PLATFORM)\<rparr>"

definition toy_platform :: "tables \<Rightarrow> world \<Rightarrow> platform" where
  "toy_platform t w = \<lparr>pf_tables = t, pf_world = w, pf_gps = gps_world [] [] toy_log, pf_registry = open_registry\<rparr>"

lemma toy_platform_parts [simp]:
  "pf_tables (toy_platform t w) = t" "pf_world (toy_platform t w) = w"
  "pf_gps (toy_platform t w) = gps_world [] [] toy_log" "pf_registry (toy_platform t w) = open_registry"
  by (simp_all add: toy_platform_def)

lemma tables_of_parts [simp]:
  "pl_bookings (tables_of bs ts ps) = bs" "pl_trucks (tables_of bs ts ps) = ts"
  "pl_drivers (tables_of bs ts ps) = [toy_driver]" "pl_payments (tables_of bs ts ps) = ps"
  "pl_phones (tables_of bs ts ps) = [(CO, ''+911'')]" "pl_documents (tables_of bs ts ps) = []"
  "pl_packets (tables_of bs ts ps) = []" "pl_policies (tables_of bs ts ps) = []"
  "pl_quotes (tables_of bs ts ps) = []" "pl_stops (tables_of bs ts ps) = []"
  by (simp_all add: tables_of_def)

lemma booking_parts [simp]:
  "bk_id (toy_booking k) = k" "bk_companyId (toy_booking k) = CO" "bk_status (toy_booking k) = CONFIRMED"
  "bk_truckId (toy_booking k) = None" "bk_tripId (toy_booking k) = Some TRIP" "bk_manifestId (toy_booking k) = None"
  "bk_driverId (toy_booking k) = None"
  "bk_id under_way = BOOKING" "bk_companyId under_way = CO" "bk_status under_way = ASSIGNED"
  "bk_truckId under_way = Some UUID" "bk_driverId under_way = Some ''driver-1''" "bk_manifestId under_way = Some HASH"
  "bk_tripId under_way = Some TRIP"
  by (simp_all add: toy_booking_def under_way_def)

lemma truck_parts [simp]:
  "tr_id (toy_truck st) = UUID" "tr_companyId (toy_truck st) = CO" "tr_status (toy_truck st) = st"
  "dr_id toy_driver = ''driver-1''" "dr_companyId toy_driver = CO" "dr_status toy_driver = DR_ACTIVE"
  "dr_signingAddress toy_driver = Some DRIVER_ADDR"
  by (simp_all add: toy_truck_def toy_driver_def)

lemma UUID_is_CO: "UUID = CO"
  by (simp add: UUID_def CO_def)

lemma texts [simp]: "is_uuid BOOKING" "is_uuid CO" "BOOKING \<noteq> []" "CO \<noteq> []" "HASH \<noteq> []" "LOADER \<noteq> []" "RECEIVER_ADDR \<noteq> []"
    "DRIVER_ADDR \<noteq> []" "TRIP \<noteq> []"
  by (simp_all add: BOOKING_def CO_def is_uuid_def hex_group_def any_hex_def lower_hex_def in_range_def HASH_def
      toy_addresses addr_def TRIP_def)

lemma toy_fleet_ok:
  "fleet_ok (tables_of [toy_booking BOOKING] [toy_truck AVAILABLE] ps)"
  by (simp add: fleet_ok_def holds_truck_def)

lemma toy_lookup [simp]:
  "booking_at (Tenant CO) BOOKING (tables_of [toy_booking BOOKING] ts ps) = Some (toy_booking BOOKING)"
  "booking_at (Tenant CO) BOOKING (tables_of [under_way] ts ps) = Some under_way"
  by (simp_all add: booking_at_def first_row_def visible_def)

section \<open>Runs\<close>

definition toy_start :: start_dto where
  "toy_start = \<lparr>st_truckId = UUID, st_driverId = ''driver-1'', st_loader = Some LOADER,
     st_receiver = Some RECEIVER_ADDR, st_pieceCount = Some 1, st_pieces = None\<rparr>"

definition before_start :: platform where
  "before_start = toy_platform (tables_of [toy_booking BOOKING] [toy_truck AVAILABLE] []) fresh_world"

lemma toy_manifest_input: "trip_manifest CO BOOKING TRIP DRIVER_ADDR toy_start = build_input_of CO toy_request"
  by (simp add: trip_manifest_def toy_start_def build_input_of_def toy_request_def coalesce_def)

end
