(* ===== verification/Dispatch_Properties.thy ===== *)
theory Dispatch_Properties imports Platform_Samples begin

text \<open>
  The platform around a trip: trucks and bookings, the start of a trip, the confirmation of its
  delivery, what a manifest still lacks, and what one company can do to another.
\<close>

section \<open>Trucks and bookings\<close>









text \<open>The truck's row is read without a lock: when two requests for different bookings have both checked
  the same available truck before either has written, both go through and the truck carries both bookings.\<close>

theorem concurrent_assignments_share_a_truck:
  assumes "assign_checks c k truckId d s = (Inr u, s1)" and "assign_checks c k' truckId d' s = (Inr u', s2)"
    and "k' \<noteq> k"
  shows "\<exists>s3 s4 b b'. assign_writes c now k truckId d s = (Inr (), s3) \<and>
    assign_writes c now' k' truckId d' s3 = (Inr (), s4) \<and>
    booking_at c k (pf_tables s4) = Some b \<and> holds_truck b truckId \<and>
    booking_at c k' (pf_tables s4) = Some b' \<and> holds_truck b' truckId \<and> \<not> fleet_ok (pf_tables s4)"
proof -
  define t3 where "t3 = assigned c now k truckId d (pf_tables s)"
  define t4 where "t4 = assigned c now' k' truckId d' t3"
  from assms(1,2) obtain b0 b0' where old: "booking_at c k (pf_tables s) = Some b0" "booking_at c k' (pf_tables s) = Some b0'"
    by (auto simp: assign_checks_success)
  obtain b where b: "booking_at c k t3 = Some b" "holds_truck b truckId"
    using holds_after_assign [OF old(1)] t3_def by blast
  have "booking_at c k' t3 = Some b0'" using old(2) booking_at_assigned_other [OF assms(3)] by (simp add: t3_def)
  from holds_after_assign [OF this] obtain b' where b': "booking_at c k' t4 = Some b'" "holds_truck b' truckId"
    unfolding t4_def by blast
  have b4: "booking_at c k t4 = Some b"
    using b(1) booking_at_assigned_other [OF assms(3) [symmetric]] by (simp add: t4_def)
  have "b \<in> set (pl_bookings t4)" "bk_id b = k" "b' \<in> set (pl_bookings t4)" "bk_id b' = k'"
    using b4 b'(1) by (auto simp: booking_at_def dest: first_rowD)
  then have "\<not> fleet_ok t4" using fleet_ok_exclusive [of t4 b b' truckId] b(2) b'(2) assms(3) by auto
  then show ?thesis using b4 b(2) b' by (auto simp: assign_writes_success t3_def t4_def)
qed

definition two_bookings :: platform where
  "two_bookings = toy_platform (tables_of [toy_booking BOOKING, toy_booking ''b-2''] [toy_truck AVAILABLE] []) fresh_world"

theorem concurrent_assignments_share_a_truck_witness:
  "\<exists>s4. \<not> fleet_ok (pf_tables s4) \<and> snd (assign_writes (Tenant CO) 6 ''b-2'' UUID ''driver-1''
     (snd (assign_writes (Tenant CO) 5 BOOKING UUID ''driver-1'' two_bookings))) = s4"
proof -
  have "assign_checks (Tenant CO) k UUID ''driver-1'' two_bookings = (Inr (), two_bookings)" if "k \<in> {BOOKING, ''b-2''}" for k
    using that by (auto simp: assign_checks_success two_bookings_def booking_at_def first_row_def visible_def)
  moreover have "''b-2'' \<noteq> BOOKING" by (simp add: BOOKING_def)
  ultimately show ?thesis
    using concurrent_assignments_share_a_truck [of "Tenant CO" BOOKING UUID "''driver-1''" two_bookings "()" two_bookings
      "''b-2''" "''driver-1''" "()" two_bookings 5 6] by auto
qed

section \<open>Starting a trip\<close>


abbreviation both_modules :: "platform_module list" where
  "both_modules \<equiv> [CUSTODY_TRACKING, GPS_TRACKING]"







section \<open>Confirming the delivery\<close>

text \<open>C5: A confirmation that succeeds had the booking's manifest in custody and leaves it delivered or short
  by one accepted transaction, with a count signed by the manifest's receiver; the booking is delivered
  and otherwise unchanged. One that fails leaves the tables of the platform as they are. So nothing
  converges on a retry: once the manifest has left custody every further confirmation fails, also when
  the booking was not marked the first time.\<close>

theorem delivered_booking_was_signed_for:
  assumes run: "orch_confirmDelivery E co u now tx k modules phone tok s = (r, s')"
    and ok: "otps_ok (w_db (pf_world s))"
    and b: "booking_at (Tenant co) k (pf_tables s) = Some b" "bk_manifestId b = Some mid"
  shows "case r of
      Inl e \<Rightarrow> pf_tables s' = pf_tables s
    | Inr out \<Rightarrow> da_manifestId out = mid \<and>
        booking_at (Tenant co) k (pf_tables s') = Some (b\<lparr>bk_status := DELIVERED\<rparr>) \<and>
        (let cm = ch_manifests (w_chain (pf_world s)) mid; cm' = ch_manifests (w_chain (pf_world s')) mid
         in cm_status cm = InCustody \<and> cm_status cm' \<in> {Delivered, Short} \<and>
            chain_step E (w_chain (pf_world s)) (w_chain (pf_world s')) \<and>
            (\<exists>n. signed_by E (deliveryDigest E mid (of_nat n)) (cm_receiver cm) \<and> cm_deliveredCount cm' = of_nat n) \<and>
            de_chainStatus (da_decision out) = cm_status cm')"
proof (cases r)
  case (Inr out)
  from orch_confirm_success [OF run [unfolded Inr] ok] b obtain w1 where
    out: "da_manifestId out = mid" and
    cd: "confirmDeliveryService E co u now tx mid phone tok (pf_world s) = (Inr (da_decision out), w1)" and
    s': "w_chain (pf_world s') = w_chain w1" "pf_tables s' = put_booking (Tenant co)
       (\<lambda>b. bk_id b = k \<and> bk_status b \<noteq> DELIVERED) (\<lambda>b. b\<lparr>bk_status := DELIVERED\<rparr>) (pf_tables s)"
    by auto
  from confirmDelivery_service_success [OF cd ok] obtain recon :: reconcile_result where
    "signed_by E (deliveryDigest E mid (of_nat (rr_scanned recon))) (cm_receiver (ch_manifests (w_chain (pf_world s)) mid))"
    "cm_deliveredCount (ch_manifests (w_chain w1) mid) = of_nat (rr_scanned recon)"
    unfolding Let_def by (elim exE conjE) (rule that, assumption+)
  then have n: "\<exists>n. signed_by E (deliveryDigest E mid (of_nat n)) (cm_receiver (ch_manifests (w_chain (pf_world s)) mid)) \<and>
      cm_deliveredCount (ch_manifests (w_chain w1) mid) = of_nat n" by blast
  with out delivery_closes [OF cd ok] b show ?thesis
    by (simp add: Inr s' booking_at_marked Let_def) metis
next
  case (Inl e)
  obtain q w1 where cd: "confirmDeliveryService E co u now tx mid phone tok (pf_world s) = (q, w1)" by force
  have row: "tenantTx co (\<lambda>c. select_booking c k) s = (Inr (Some b), s)"
    using b by (simp add: tenantTx_def plat_tx_def select_booking_def)
  have "pf_tables s' = pf_tables s"
  proof (cases q)
    case (Inl e')
    with run b(2) cd show ?thesis
      by (auto simp: orch_confirmDelivery_def bindE_def throw_if_def row need_def Let_def in_world_def split: if_splits)
  next
    case (Inr dec)
    have "de_chainStatus dec = Delivered \<or> de_chainStatus dec = Short"
      using delivery_closes [OF cd [unfolded Inr] ok] by blast
    with run \<open>r = Inl e\<close> b(2) cd Inr end_gps_frame show ?thesis
      by (fastforce simp: orch_confirmDelivery_def bindE_def throw_if_def row need_def Let_def in_world_def
          markStatus_run plat_audit_run split: if_splits prod.splits sum.splits)
  qed
  then show ?thesis by (simp add: Inl)
qed

definition carried_platform :: platform where
  "carried_platform = toy_platform (tables_of [under_way] [toy_truck ON_TRIP] []) (toy_world full_count chain_custody)"

lemma toy_delivery:
  "\<exists>out s'. orch_confirmDelivery toy_env CO ''user-1'' 14000 ''0xtx'' BOOKING both_modules PHONE ''123456'' carried_platform = (Inr out, s')"
proof -
  obtain w' where cd: "confirmDeliveryService toy_env CO ''user-1'' 14000 ''0xtx'' HASH PHONE ''123456'' (toy_world full_count chain_custody) =
      (Inr released, w')" using toy_confirmed [of 14000 "''user-1''" "''0xtx''"] by auto
  have st: "de_chainStatus released = Delivered" by (simp add: released_def decide_def)
  have row: "tenantTx CO (\<lambda>c. select_booking c BOOKING) carried_platform = (Inr (Some under_way), carried_platform)"
    by (simp add: tenantTx_def plat_tx_def select_booking_def carried_platform_def)
  obtain v s2 where eg: "end_gps CO ''user-1'' UUID (snd (markStatus CO BOOKING DELIVERED None
      (carried_platform\<lparr>pf_world := w'\<rparr>))) = (Inr v, s2)"
    using end_gps_frame by (metis surj_pair)
  have iw: "in_world (confirmDeliveryService toy_env CO ''user-1'' 14000 ''0xtx'' HASH PHONE ''123456'') carried_platform =
      (Inr released, carried_platform\<lparr>pf_world := w'\<rparr>)"
    using cd by (simp add: in_world_def carried_platform_def)
  show ?thesis
    using eg st
    by (simp add: orch_confirmDelivery_def bindE_def throw_if_def row iw need_def Let_def truthy_iff UUID_is_CO
        markStatus_run plat_audit_run)
qed

theorem delivered_booking_was_signed_for_witness:
  "\<exists>out s' b. orch_confirmDelivery toy_env CO ''user-1'' 14000 ''0xtx'' BOOKING both_modules PHONE ''123456'' carried_platform = (Inr out, s') \<and>
     booking_at (Tenant CO) BOOKING (pf_tables s') = Some b \<and> bk_status b = DELIVERED"
proof -
  obtain out s' where run: "orch_confirmDelivery toy_env CO ''user-1'' 14000 ''0xtx'' BOOKING both_modules PHONE ''123456''
      carried_platform = (Inr out, s')" using toy_delivery by blast
  have "otps_ok (w_db (pf_world carried_platform))" by (simp add: carried_platform_def toy_world_def toy_otps_ok)
  from delivered_booking_was_signed_for [OF run this, of under_way HASH] run show ?thesis
    by (simp add: carried_platform_def)
qed

section \<open>What a manifest still lacks\<close>

text \<open>The resolver of participants and the start of a trip agree: for the driver of the booking, it gives
  the three parties exactly when the start would not skip the manifest for want of a party, with the very
  addresses supplied and the driver's own, and its list of gaps otherwise tells which of the two reasons
  the start reports.\<close>

theorem gaps_agree_with_the_start:
  assumes b: "booking_at (Tenant co) k (pf_tables s) = Some b" "bk_driverId b = Some (st_driverId d)"
    and m: "CUSTODY_TRACKING \<in> set modules"
  defines "signing \<equiv> driver_address (Tenant co) (st_driverId d) (pf_tables s)"
  shows "\<exists>res. resolve co k (st_loader d) (st_receiver d) s = (Inr res, s) \<and>
    (case res of
       Inr ps \<Rightarrow> Some (pt_loader ps) = st_loader d \<and> Some (pt_receiver ps) = st_receiver d \<and> Some (pt_driver ps) = signing \<and>
         custody_reason modules d signing existing = (if existing = None then None else Some MANIFEST_ALREADY_EXISTS)
     | Inl gaps \<Rightarrow> gaps \<noteq> [] \<and>
         custody_reason modules d signing existing =
           Some (if \<exists>g \<in> set gaps. gp_reason g = NOT_SUPPLIED then PARTICIPANTS_NOT_SUPPLIED else DRIVER_HAS_NO_SIGNING_KEY))"
proof -
  let ?dr = "first_row (Tenant co) dr_companyId (\<lambda>r. dr_id r = st_driverId d) (pl_drivers (pf_tables s))"
  have dr: "driver_of_booking (Tenant co) k (pf_tables s) = ?dr"
    using b by (simp add: driver_of_booking_def)
  let ?gaps = "driver_gap ?dr @ supplied_gap GLoader (st_loader d) @ supplied_gap GReceiver (st_receiver d)"
  have run: "resolve co k (st_loader d) (st_receiver d) s = (Inr (if ?gaps \<noteq> [] then Inl ?gaps
      else Inr \<lparr>pt_driver = the (dr_signingAddress (the ?dr)), pt_loader = the (st_loader d), pt_receiver = the (st_receiver d)\<rparr>), s)"
    by (simp add: resolve_def bindE_def tenantTx_def plat_tx_def dr Let_def)
  have gap: "driver_gap ?dr = [] \<longleftrightarrow> truthy signing" "\<And>g. g \<in> set (driver_gap ?dr) \<Longrightarrow> gp_reason g \<noteq> NOT_SUPPLIED"
    by (auto simp: driver_gap_def signing_def driver_address_def truthy_iff split: option.splits if_splits)
  have sup: "supplied_gap r v = [] \<longleftrightarrow> truthy v" "\<not> truthy v \<Longrightarrow> \<exists>g \<in> set (supplied_gap r v). gp_reason g = NOT_SUPPLIED" for r v
    by (auto simp: supplied_gap_def)
  show ?thesis
  proof (cases "?gaps = []")
    case True
    then have t: "truthy signing" "truthy (st_loader d)" "truthy (st_receiver d)" using gap(1) sup(1) by auto
    from t(1) obtain dd v where dd: "?dr = Some dd" "dr_signingAddress dd = Some v"
      by (auto simp: signing_def driver_address_def truthy_iff bind_eq_Some_conv)
    then have "signing = Some v" by (simp add: signing_def driver_address_def)
    with run True dd t m show ?thesis by (auto simp: custody_reason_def truthy_iff)
  next
    case False
    have "custody_reason modules d signing existing =
        Some (if \<exists>g \<in> set ?gaps. gp_reason g = NOT_SUPPLIED then PARTICIPANTS_NOT_SUPPLIED else DRIVER_HAS_NO_SIGNING_KEY)"
    proof (cases "truthy (st_loader d) \<and> truthy (st_receiver d)")
      case True
      then have "supplied_gap GLoader (st_loader d) = []" "supplied_gap GReceiver (st_receiver d) = []"
        using sup(1) by simp_all
      then have "\<not> (\<exists>g \<in> set ?gaps. gp_reason g = NOT_SUPPLIED)" using gap(2) by auto
      moreover have "\<not> truthy signing" using False True gap(1) sup(1) by auto
      ultimately show ?thesis using True m by (simp add: custody_reason_def)
    next
      case False
      then have "\<exists>g \<in> set ?gaps. gp_reason g = NOT_SUPPLIED" using sup(2) by auto
      moreover from False have "custody_reason modules d signing existing = Some PARTICIPANTS_NOT_SUPPLIED"
        using m by (auto simp: custody_reason_def)
      ultimately show ?thesis by simp
    qed
    then show ?thesis using run False by simp
  qed
qed

theorem gaps_agree_with_the_start_witness:
  "\<exists>ps. resolve CO BOOKING (Some LOADER) (Some RECEIVER_ADDR) carried_platform = (Inr (Inr ps), carried_platform) \<and>
     pt_driver ps = DRIVER_ADDR"
proof -
  have "booking_at (Tenant CO) BOOKING (pf_tables carried_platform) = Some under_way"
    "bk_driverId under_way = Some (st_driverId toy_start)" by (simp_all add: carried_platform_def toy_start_def)
  note all = gaps_agree_with_the_start [OF this, of both_modules None]
  have signing: "driver_address (Tenant CO) (st_driverId toy_start) (pf_tables carried_platform) = Some DRIVER_ADDR"
    by (simp add: driver_address_def carried_platform_def first_row_def visible_def toy_start_def)
  have "custody_reason both_modules toy_start (Some DRIVER_ADDR) None = None"
    by (simp add: custody_reason_def toy_start_def truthy_iff)
  note none = this
  obtain res where res: "resolve CO BOOKING (st_loader toy_start) (st_receiver toy_start) carried_platform =
      (Inr res, carried_platform)"
    by (auto simp: resolve_def bindE_def tenantTx_def plat_tx_def Let_def)
  show ?thesis
  proof (cases res)
    case (Inl gaps)
    from all show ?thesis by (simp add: res signing none Inl)
  next
    case (Inr ps)
    from all have "pt_driver ps = DRIVER_ADDR" by (simp add: res signing Inr)
    with res Inr show ?thesis by (simp add: toy_start_def)
  qed
qed

end
