(* ===== verification/Tenancy_Properties.thy ===== *)
theory Tenancy_Properties imports Platform_Samples begin

text \<open>
  What every request of the platform keeps, whatever it is: the rows of other companies, and the
  types of the rows. The requests are collected in one relation, with one rule per operation of the
  services; each may succeed or fail.
\<close>

section \<open>The requests of a company\<close>

inductive tenant_step ::
  "('e) plat_env_scheme \<Rightarrow> contract_refs \<Rightarrow> string \<Rightarrow> platform \<Rightarrow> platform \<Rightarrow> bool" for E refs c
where
  "estimate c now k ed s = (r1, s') \<Longrightarrow> tenant_step E refs c s s'"
| "confirmMarketPrice c now k p s = (r2, s') \<Longrightarrow> tenant_step E refs c s s'"
| "getQuote c now k s = (r3, s') \<Longrightarrow> tenant_step E refs c s s'"
| "addTruck c u now k td s = (r4, s') \<Longrightarrow> tenant_step E refs c s s'"
| "listTrucks c st s = (r5, s') \<Longrightarrow> tenant_step E refs c s s'"
| "setTruckStatus c k ts s = (r6, s') \<Longrightarrow> tenant_step E refs c s s'"
| "addDriver c u now k dd s = (r7, s') \<Longrightarrow> tenant_step E refs c s s'"
| "listDrivers c s = (r8, s') \<Longrightarrow> tenant_step E refs c s s'"
| "availability c s = (r9, s') \<Longrightarrow> tenant_step E refs c s s'"
| "create_booking E c u now k bd s = (r10, s') \<Longrightarrow> tenant_step E refs c s s'"
| "get_booking c k s = (r10, s') \<Longrightarrow> tenant_step E refs c s s'"
| "list_bookings c s = (r11, s') \<Longrightarrow> tenant_step E refs c s s'"
| "assignTruck c u now k truckId driverId None s = (r10, s') \<Longrightarrow> tenant_step E refs c s s'"
| "cancel_booking c u now k reason s = (r12, s') \<Longrightarrow> tenant_step E refs c s s'"
| "createCollection c u k cd s = (r13, s') \<Longrightarrow> tenant_step E refs c s s'"
| "getByBooking_payment c k s = (r13, s') \<Longrightarrow> tenant_step E refs c s s'"
| "orch_startTrip E c u now tx blocks k modules sd s = (r14, s') \<Longrightarrow> tenant_step E refs c s s'"
| "orch_confirmDelivery E c u now tx k modules phone tok s = (r15, s') \<Longrightarrow> tenant_step E refs c s s'"
| "resolve c k la ra s = (r16, s') \<Longrightarrow> tenant_step E refs c s s'"
| "resolveOrThrow c k la ra s = (r17, s') \<Longrightarrow> tenant_step E refs c s s'"
| "buy_policy c u k b declared s = (r18, s') \<Longrightarrow> tenant_step E refs c s s'"
| "getPolicy c b s = (r18, s') \<Longrightarrow> tenant_step E refs c s s'"
| "generate_document E c u now tx k b ty payload s = (r19, s') \<Longrightarrow> tenant_step E refs c s s'"
| "listForBooking c b s = (r20, s') \<Longrightarrow> tenant_step E refs c s s'"
| "buildPacket E refs c u now k b s = (r21, s') \<Longrightarrow> tenant_step E refs c s s'"
| "getPacket c b s = (r22, s') \<Longrightarrow> tenant_step E refs c s s'"
| "kyc_submit c u now k kd s = (r23, s') \<Longrightarrow> tenant_step E refs c s s'"
| "kyc_status_of c ty k s = (r24, s') \<Longrightarrow> tenant_step E refs c s s'"
| "kyc_review c u now k decision nt s = (r25, s') \<Longrightarrow> tenant_step E refs c s s'"
| "createTicket c u now k ti s = (r26, s') \<Longrightarrow> tenant_step E refs c s s'"
| "listTickets c s = (r27, s') \<Longrightarrow> tenant_step E refs c s s'"
| "reply_ticket c u now k body s = (r28, s') \<Longrightarrow> tenant_step E refs c s s'"
| "callDriver bridge c u b s = (r29, s') \<Longrightarrow> tenant_step E refs c s s'"

section \<open>Other companies\<close>

lemma confined_frame: "(\<And>s. pf_tables (snd (m s)) = pf_tables s) \<Longrightarrow> confined c m"
  by (simp add: confined_def)

lemma confined_gps: "confined c (bind_device ctx co n truckId k)" "confined c (end_gps co u truckId)"
  by (rule confined_frame, auto simp: bind_device_def end_gps_def in_gps_def split: prod.splits sum.splits)+

lemma confined_nested:
  "confined c (assignTruck c u now k truckId driverId (Some (Tenant c)))" "confined c (linkTrip c k t mid (Some (Tenant c)))"
  "confined c (markStatus c k st None)"
  by (rule confined_bookings)+

lemma confined_custody_step:
  "confined c (custody_step E (Tenant c) c now tx blocks modules k tripId d)"
  unfolding custody_step_def driverSigningAddress_def
  by (rule confined_nested confine | simp add: split_beta)+

lemma confined_pair: "(\<And>x y. confined c (f x y)) \<Longrightarrow> confined c (case p of (x, y) \<Rightarrow> f x y)"
  by (cases p) simp

lemma confined_trips:
  "confined c (orch_startTrip E c u now tx blocks k modules d)"
  "confined c (orch_confirmDelivery E c u now tx k modules phone tok)"
  "confined c (resolve c k la ra)" "confined c (resolveOrThrow c k la ra)"
  unfolding orch_startTrip_def orch_confirmDelivery_def resolveOrThrow_def resolve_def resolveTripId_def gps_step_def Let_def
  by (rule confined_nested confined_custody_step confined_gps confine confined_sum confined_pair)+

lemmas all_confined = confined_estimate confined_quotes confined_fleet confined_bookings confined_payments
  confined_trips confined_policies confined_documents confined_claims confined_kyc confined_support

lemma tenant_step_confined: "tenant_step E refs c s s' \<Longrightarrow> foreign_rows c (pf_tables s') = foreign_rows c (pf_tables s)"
  by (induction rule: tenant_step.induct) (erule confinedD [OF all_confined(1)] confinedD [rotated], rule all_confined)+

text \<open>Whatever a company requests, succeeding or failing, through whichever service, the trucks, drivers,
  quotes, bookings, payments, policies, documents, packets, verification records and tickets of every
  other company are exactly as before.\<close>

theorem tenants_keep_apart:
  assumes "(tenant_step E refs c)\<^sup>*\<^sup>* s s'"
  shows "foreign_rows c (pf_tables s') = foreign_rows c (pf_tables s)"
  using assms by (induction rule: rtranclp_induct) (simp_all add: tenant_step_confined)

definition strange_truck :: truck where
  "strange_truck = (toy_truck AVAILABLE)\<lparr>tr_companyId := ''other''\<rparr>"

theorem tenants_keep_apart_witness:
  "\<exists>r s'. setTruckStatus CO UUID MAINTENANCE (toy_platform (tables_of [] [strange_truck] []) fresh_world) = (r, s') \<and>
     others tr_companyId CO (pl_trucks (pf_tables s')) = [strange_truck]"
proof -
  obtain r s' where run: "setTruckStatus CO UUID MAINTENANCE (toy_platform (tables_of [] [strange_truck] []) fresh_world) = (r, s')"
    by force
  define refs :: contract_refs where
    "refs = \<lparr>cr_tripLogAnchor = ''0xa'', cr_documentRegistry = ''0xb'', cr_custodyManifest = ''0xc''\<rparr>"
  have "tenant_step toy_plat refs CO (toy_platform (tables_of [] [strange_truck] []) fresh_world) s'"
    using run by (rule tenant_step.intros)
  from tenants_keep_apart [OF r_into_rtranclp, OF this] have "foreign_rows CO (pf_tables s') = foreign_rows CO (tables_of [] [strange_truck] [])" by simp
  with run show ?thesis by (auto simp: foreign_rows_def others_def strange_truck_def CO_def)
qed

section \<open>Types of rows\<close>

definition positive_price :: "int option \<Rightarrow> bool" where
  "positive_price p \<longleftrightarrow> (case p of None \<Rightarrow> True | Some n \<Rightarrow> int4 n \<and> 0 < n)"

definition quote_typed :: "quote \<Rightarrow> bool" where
  "quote_typed q \<longleftrightarrow> int4 (qt_weightKg q) \<and> int4 (qt_distanceKm q) \<and> int4 (qt_estimatedPriceInr q) \<and>
     int4 (qt_rangeLowInr q) \<and> int4 (qt_rangeHighInr q) \<and> positive_price (qt_finalPriceInr q)"

definition booking_typed :: "booking \<Rightarrow> bool" where
  "booking_typed b \<longleftrightarrow> int4 (bk_weightKg b) \<and> int4 (bk_estimatedPriceInr b)"

definition policy_typed :: "policy \<Rightarrow> bool" where
  "policy_typed p \<longleftrightarrow> int4 (po_declaredInr p) \<and> 299 \<le> po_premiumInr p \<and> po_premiumInr p \<le> 4500"

definition rows_typed :: "tables \<Rightarrow> bool" where
  "rows_typed t \<longleftrightarrow> list_all (\<lambda>r. int4 (tr_capacityKg r)) (pl_trucks t) \<and> list_all quote_typed (pl_quotes t) \<and>
     list_all booking_typed (pl_bookings t) \<and> list_all (\<lambda>r. int4 (bs_sequence r)) (pl_stops t) \<and>
     list_all (\<lambda>p. int4 (py_amountInr p)) (pl_payments t) \<and> list_all policy_typed (pl_policies t)"




lemma typed_other [simp]:
  "rows_typed (t\<lparr>pl_drivers := x1\<rparr>) = rows_typed t" "rows_typed (t\<lparr>pl_documents := x2\<rparr>) = rows_typed t"
  "rows_typed (t\<lparr>pl_packets := x3\<rparr>) = rows_typed t" "rows_typed (t\<lparr>pl_kyc := x4\<rparr>) = rows_typed t"
  "rows_typed (t\<lparr>pl_tickets := x5\<rparr>) = rows_typed t" "rows_typed (t\<lparr>pl_messages := x6\<rparr>) = rows_typed t"
  by (simp_all add: rows_typed_def)

lemma typed_upsert [simp]: "rows_typed (upsert_packet c k co b p h now t) = rows_typed t"
  by (simp add: upsert_packet_def)































section \<open>Estimates\<close>




end
