(* ===== verification/Escrow.thy ===== *)
theory Escrow imports Custody_Chain begin

text \<open>
  \<open>chain/contracts/Escrow.sol\<close> over the custody contract. Paying a party runs that party's code, which
  may call the escrow and the custody contract again before the payment returns: a receiver is a
  script of such acts, given with the call. The lemmas show that the escrow always holds at least what it
  owes, and that money leaves a deposit only as the custody contract allows.
\<close>

section \<open>The contract\<close>

datatype deposit_status = DNone | DFunded | DReleased | DRefunded

record deposit =
  de_payer :: string
  de_payee :: string
  de_amount :: nat
  de_status :: deposit_status
  de_fundedAt :: "64 word"

datatype escrow_event =
    EvFunded string string string nat
  | EvReleased string string nat
  | EvRefunded string string nat
  | EvArbiterSet string
  | EvOwnershipTransferred string string

datatype escrow_error =
  EsNotOwner | EsNotArbiter | EsZeroAmount | EsZeroAddress | EsAlreadyFunded | EsNotFunded
| EsNotReleasable | EsNotDisputeState | EsTransferFailed | NoFunds

record escrow =
  es_owner :: string
  es_arbiter :: string
  es_custody :: string
  es_deposits :: "string \<Rightarrow> deposit"
  es_events :: "escrow_event list"

text \<open>The escrow, the custody contract it asks, and the balance of every account.\<close>

record escrow_world =
  ew_escrow :: escrow
  ew_custody :: chain
  ew_balance :: "string \<Rightarrow> nat"

definition zero_deposit :: deposit where
  "zero_deposit = \<lparr>de_payer = zero_address, de_payee = zero_address, de_amount = 0, de_status = DNone, de_fundedAt = 0\<rparr>"

definition escrow_deployed :: "string \<Rightarrow> string \<Rightarrow> string \<Rightarrow> escrow_error + escrow" where
  "escrow_deployed creator custodyManifest arbiter =
     (if custodyManifest = zero_address \<or> arbiter = zero_address then Inl EsZeroAddress
      else Inr \<lparr>es_owner = creator, es_arbiter = arbiter, es_custody = custodyManifest,
        es_deposits = (\<lambda>_. zero_deposit),
        es_events = [EvOwnershipTransferred zero_address creator, EvArbiterSet arbiter]\<rparr>)"

definition es_emit :: "escrow_event \<Rightarrow> escrow_world \<Rightarrow> escrow_world" where
  "es_emit e w = w\<lparr>ew_escrow := (ew_escrow w)\<lparr>es_events := es_events (ew_escrow w) @ [e]\<rparr>\<rparr>"

definition dep :: "escrow_world \<Rightarrow> string \<Rightarrow> deposit" where
  "dep w = es_deposits (ew_escrow w)"

definition put_dep :: "string \<Rightarrow> deposit \<Rightarrow> escrow_world \<Rightarrow> escrow_world" where
  "put_dep k d w = w\<lparr>ew_escrow := (ew_escrow w)\<lparr>es_deposits := (dep w)(k := d)\<rparr>\<rparr>"

definition es_transferOwnership :: "msg \<Rightarrow> string \<Rightarrow> escrow_world \<Rightarrow> escrow_error + escrow_world" where
  "es_transferOwnership g newOwner w =
     (if msg_sender g \<noteq> es_owner (ew_escrow w) then Inl EsNotOwner
      else let w1 = es_emit (EvOwnershipTransferred (es_owner (ew_escrow w)) newOwner) w
        in Inr (w1\<lparr>ew_escrow := (ew_escrow w1)\<lparr>es_owner := newOwner\<rparr>\<rparr>))"

definition setArbiter :: "msg \<Rightarrow> string \<Rightarrow> escrow_world \<Rightarrow> escrow_error + escrow_world" where
  "setArbiter g newArbiter w =
     (if msg_sender g \<noteq> es_owner (ew_escrow w) then Inl EsNotOwner
      else if newArbiter = zero_address then Inl EsZeroAddress
      else Inr (es_emit (EvArbiterSet newArbiter) (w\<lparr>ew_escrow := (ew_escrow w)\<lparr>es_arbiter := newArbiter\<rparr>\<rparr>)))"

text \<open>Moving native tokens, and \<open>fund\<close>, a payable call whose value arrives with it.\<close>

definition move :: "string \<Rightarrow> string \<Rightarrow> nat \<Rightarrow> escrow_world \<Rightarrow> escrow_world" where
  "move a b n w = w\<lparr>ew_balance := (let m = (ew_balance w)(a := ew_balance w a - n) in m(b := m b + n))\<rparr>"

definition fund ::
  "string \<Rightarrow> msg \<Rightarrow> nat \<Rightarrow> string \<Rightarrow> string \<Rightarrow> escrow_world \<Rightarrow> escrow_error + escrow_world"
where
  "fund self g amt k payee w =
     (if ew_balance w (msg_sender g) < amt then Inl NoFunds
      else if amt = 0 then Inl EsZeroAmount
      else if payee = zero_address then Inl EsZeroAddress
      else if de_status (dep w k) \<noteq> DNone then Inl EsAlreadyFunded
      else Inr (es_emit (EvFunded k (msg_sender g) payee amt)
        (put_dep k \<lparr>de_payer = msg_sender g, de_payee = payee, de_amount = amt, de_status = DFunded,
           de_fundedAt = of_nat (block_timestamp g)\<rparr> (move (msg_sender g) self amt w))))"

text \<open>
  \<open>release\<close> and \<open>resolveDispute\<close> are given the effect of \<open>to.call{value: n}("")\<close>: the world it leaves,
  or none when the call fails. What is read from storage after a call is read again.
\<close>

definition release ::
  "(string \<Rightarrow> nat \<Rightarrow> escrow_world \<Rightarrow> escrow_world option) \<Rightarrow> string \<Rightarrow> escrow_world \<Rightarrow>
   escrow_error + escrow_world"
where
  "release pay k w =
     (let d = dep w k in
      if de_status d \<noteq> DFunded then Inl EsNotFunded
      else if \<not> ch_isReleasable k (ew_custody w) then Inl EsNotReleasable
      else case pay (de_payee d) (de_amount d) (put_dep k (d\<lparr>de_status := DReleased\<rparr>) w) of
        None \<Rightarrow> Inl EsTransferFailed
      | Some w1 \<Rightarrow> Inr (es_emit (EvReleased k (de_payee (dep w1 k)) (de_amount (dep w1 k))) w1))"

definition STATUS_SHORT :: nat where "STATUS_SHORT = 4"
definition STATUS_DISPUTED :: nat where "STATUS_DISPUTED = 5"

definition resolveDispute ::
  "(string \<Rightarrow> nat \<Rightarrow> escrow_world \<Rightarrow> escrow_world option) \<Rightarrow>
   (string \<Rightarrow> nat \<Rightarrow> escrow_world \<Rightarrow> escrow_world option) \<Rightarrow>
   msg \<Rightarrow> string \<Rightarrow> nat \<Rightarrow> escrow_world \<Rightarrow> escrow_error + escrow_world"
where
  "resolveDispute payPayee payPayer g k splitToPayee w =
     (let d = dep w k; s = status_number (cm_status (ch_manifests (ew_custody w) k)) in
      if msg_sender g \<noteq> es_arbiter (ew_escrow w) then Inl EsNotArbiter
      else if de_status d \<noteq> DFunded then Inl EsNotFunded
      else if s \<noteq> STATUS_SHORT \<and> s \<noteq> STATUS_DISPUTED then Inl EsNotDisputeState
      else if de_amount d < splitToPayee then Inl EsZeroAmount
      else
        let w0 = put_dep k (d\<lparr>de_status := DRefunded\<rparr>) w;
            toPayer = de_amount d - splitToPayee;
            first = (if 0 < splitToPayee
              then map_option (\<lambda>w1. es_emit (EvReleased k (de_payee (dep w1 k)) splitToPayee) w1)
                     (payPayee (de_payee d) splitToPayee w0)
              else Some w0) in
        case first of
          None \<Rightarrow> Inl EsTransferFailed
        | Some w1 \<Rightarrow>
            if 0 < toPayer
            then (case payPayer (de_payer (dep w1 k)) toPayer w1 of
                    None \<Rightarrow> Inl EsTransferFailed
                  | Some w2 \<Rightarrow> Inr (es_emit (EvRefunded k (de_payer (dep w2 k)) toPayer) w2))
            else Inr w1)"

definition getDeposit :: "string \<Rightarrow> escrow_world \<Rightarrow> deposit" where
  "getDeposit k w = dep w k"

section \<open>Calls within calls\<close>

text \<open>A transaction of the custody contract; one that reverts changes nothing.\<close>

datatype custody_tx =
    TxTransferOwnership msg string
  | TxSetPlatform msg string bool
  | TxCreate msg string string "32 word" string string string
  | TxLoader msg string string
  | TxDriver msg string string
  | TxConfirm msg string "32 word" string
  | TxDispute msg string

fun custody_mined :: "('e) chain_env_scheme \<Rightarrow> custody_tx \<Rightarrow> chain \<Rightarrow> chain_error + chain" where
  "custody_mined E (TxTransferOwnership g a) c = transferOwnership g a c"
| "custody_mined E (TxSetPlatform g a b) c = setPlatform g a b c"
| "custody_mined E (TxCreate g k t n l d r) c = ch_createManifest g k t n l d r c"
| "custody_mined E (TxLoader g k sig) c = submitLoaderSignature E g k sig c"
| "custody_mined E (TxDriver g k sig) c = submitDriverSignature E g k sig c"
| "custody_mined E (TxConfirm g k n sig) c = ch_confirmDelivery E g k n sig c"
| "custody_mined E (TxDispute g k) c = markDisputed g k c"

definition kept :: "'s \<Rightarrow> 'e + 's \<Rightarrow> 's" where
  "kept s r = (case r of Inl _ \<Rightarrow> s | Inr s' \<Rightarrow> s')"

text \<open>
  Who is paid either rejects the payment or runs its code. Other accounts may pay each other, or force
  tokens on the escrow, at any time.
\<close>

datatype escrow_call =
    Fund nat string string
  | Release string receiver
  | ResolveDispute string nat receiver receiver
  | SetArbiter string
  | TransferOwnership string
and receiver = Rejects | Accepts "act list"
and act = Calls msg escrow_call | Custody custody_tx | Pays string string nat

text \<open>
  The escrow has no receive function, so a payment to itself fails; it sends no calls of its own.
\<close>

fun run_call :: "('e) chain_env_scheme \<Rightarrow> string \<Rightarrow> msg \<Rightarrow> escrow_call \<Rightarrow> escrow_world \<Rightarrow> escrow_error + escrow_world"
  and take_payment :: "('e) chain_env_scheme \<Rightarrow> string \<Rightarrow> string \<Rightarrow> nat \<Rightarrow> receiver \<Rightarrow> escrow_world \<Rightarrow> escrow_world option"
  and run_acts :: "('e) chain_env_scheme \<Rightarrow> string \<Rightarrow> act list \<Rightarrow> escrow_world \<Rightarrow> escrow_world"
where
  "run_call E self g (Fund amt k payee) w = fund self g amt k payee w"
| "run_call E self g (Release k r) w = release (\<lambda>to n v. take_payment E self to n r v) k w"
| "run_call E self g (ResolveDispute k split r1 r2) w =
     resolveDispute (\<lambda>to n v. take_payment E self to n r1 v) (\<lambda>to n v. take_payment E self to n r2 v) g k split w"
| "run_call E self g (SetArbiter a) w = setArbiter g a w"
| "run_call E self g (TransferOwnership a) w = es_transferOwnership g a w"
| "take_payment E self to n Rejects w = None"
| "take_payment E self to n (Accepts as) w =
     (if to = self \<or> ew_balance w self < n then None else Some (run_acts E self as (move self to n w)))"
| "run_acts E self [] w = w"
| "run_acts E self (Calls g c # as) w =
     run_acts E self as (if msg_sender g = self then w else kept w (run_call E self g c w))"
| "run_acts E self (Custody tx # as) w =
     run_acts E self as (w\<lparr>ew_custody := kept (ew_custody w) (custody_mined E tx (ew_custody w))\<rparr>)"
| "run_acts E self (Pays a b n # as) w =
     run_acts E self as (if a = self \<or> ew_balance w a < n then w else move a b n w)"

text \<open>
  What the world has done up to now: the escrow is created over a custody contract some way into its
  life, and then anybody acts.
\<close>

definition escrow_world_at :: "escrow \<Rightarrow> chain \<Rightarrow> (string \<Rightarrow> nat) \<Rightarrow> escrow_world" where
  "escrow_world_at e c b = \<lparr>ew_escrow = e, ew_custody = c, ew_balance = b\<rparr>"

inductive reachable_escrow :: "('e) chain_env_scheme \<Rightarrow> string \<Rightarrow> escrow_world \<Rightarrow> bool" for E self where
  start: "escrow_deployed a k r = Inr e \<Longrightarrow> reachable_chain E c \<Longrightarrow> reachable_escrow E self (escrow_world_at e c b)"
| step: "reachable_escrow E self w \<Longrightarrow> reachable_escrow E self (run_acts E self [x] w)"

section \<open>What the escrow owes\<close>

definition open_deposits :: "(string \<Rightarrow> deposit) \<Rightarrow> string set" where
  "open_deposits f = {k. de_status (f k) = DFunded}"

definition held :: "(string \<Rightarrow> deposit) \<Rightarrow> nat" where
  "held f = (\<Sum>k\<in>open_deposits f. de_amount (f k))"

lemma held_open:
  assumes "finite (open_deposits f)" and "de_status (f k) \<noteq> DFunded" and "de_status d = DFunded"
  shows "held (f(k := d)) = held f + de_amount d" and "open_deposits (f(k := d)) = insert k (open_deposits f)"
proof -
  show o: "open_deposits (f(k := d)) = insert k (open_deposits f)" using assms(3) by (auto simp: open_deposits_def)
  have "k \<notin> open_deposits f" using assms(2) by (simp add: open_deposits_def)
  then show "held (f(k := d)) = held f + de_amount d"
    using assms(1) by (simp add: held_def o) (rule sum.cong, auto)
qed

lemma held_close:
  assumes "finite (open_deposits f)" and "de_status (f k) = DFunded" and "de_status d \<noteq> DFunded"
  shows "held f = held (f(k := d)) + de_amount (f k)" and "open_deposits (f(k := d)) = open_deposits f - {k}"
proof -
  show o: "open_deposits (f(k := d)) = open_deposits f - {k}" using assms(3) by (auto simp: open_deposits_def)
  have "k \<in> open_deposits f" using assms(2) by (simp add: open_deposits_def)
  then have "held f = de_amount (f k) + (\<Sum>j\<in>open_deposits f - {k}. de_amount (f j))"
    using assms(1) by (simp add: held_def sum.remove)
  also have "(\<Sum>j\<in>open_deposits f - {k}. de_amount (f j)) = held (f(k := d))"
    unfolding held_def o by (rule sum.cong) auto
  finally show "held f = held (f(k := d)) + de_amount (f k)" by simp
qed

text \<open>When the custody contract has let a deposit go, what it says of the manifest lasts.\<close>

definition arrived :: "chain_manifest \<Rightarrow> bool" where
  "arrived m \<longleftrightarrow> cm_receiverSigned m \<and> cm_deliveredCount m = cm_pieceCount m \<and>
     (cm_status m = Delivered \<or> cm_status m = Disputed)"

definition contested :: "chain_manifest \<Rightarrow> bool" where
  "contested m \<longleftrightarrow> cm_status m = Short \<or> cm_status m = Disputed"

lemma arrived_step: "manifest_step E k m m' \<Longrightarrow> arrived m \<Longrightarrow> arrived m'"
  by (induction rule: manifest_step.induct) (auto simp: arrived_def)

lemma contested_step: "manifest_step E k m m' \<Longrightarrow> contested m \<Longrightarrow> contested m'"
  by (induction rule: manifest_step.induct) (auto simp: contested_def)

lemma mined_step: "custody_mined E tx c = Inr c' \<Longrightarrow> chain_step E c c'"
  by (cases tx) (auto intro: chain_step.intros)

definition sound :: "('e) chain_env_scheme \<Rightarrow> chain \<Rightarrow> (string \<Rightarrow> deposit) \<Rightarrow> bool" where
  "sound E c f \<longleftrightarrow> reachable_chain E c \<and> finite (open_deposits f) \<and>
     (\<forall>k. de_status (f k) = DReleased \<longrightarrow> arrived (ch_manifests c k)) \<and>
     (\<forall>k. de_status (f k) = DRefunded \<longrightarrow> contested (ch_manifests c k))"

lemma sound_step: "sound E c f \<Longrightarrow> chain_step E c c' \<Longrightarrow> sound E c' f"
  unfolding sound_def using chain_step_manifest arrived_step contested_step reachable_chain.step by metis

lemma sound_kept: "sound E c f \<Longrightarrow> sound E (kept c (custody_mined E tx c)) f"
  by (cases "custody_mined E tx c") (auto simp: kept_def intro: sound_step mined_step)

lemma releasable_arrived: "reachable_chain E c \<Longrightarrow> ch_isReleasable k c \<Longrightarrow> arrived (ch_manifests c k)"
  using reachable_chain_inv [of E c]
  by (auto simp: chain_inv_def manifest_inv_def status_ok_def ch_isReleasable_def arrived_def Let_def dest!: spec [of _ k])

lemma dispute_state: "status_number s = STATUS_SHORT \<or> status_number s = STATUS_DISPUTED \<longleftrightarrow> s = Short \<or> s = Disputed"
  by (cases s) (simp_all add: STATUS_SHORT_def STATUS_DISPUTED_def)

text \<open>The books with some tokens set aside for payments under way.\<close>

definition books :: "('e) chain_env_scheme \<Rightarrow> string \<Rightarrow> nat \<Rightarrow> escrow_world \<Rightarrow> bool" where
  "books E self slack w \<longleftrightarrow> sound E (ew_custody w) (dep w) \<and> held (dep w) + slack \<le> ew_balance w self"

lemma dep_simps [simp]:
  "dep (es_emit e w) = dep w" "dep (move a b n w) = dep w" "dep (put_dep k d w) = (dep w)(k := d)"
  "ew_custody (es_emit e w) = ew_custody w" "ew_custody (move a b n w) = ew_custody w"
  "ew_custody (put_dep k d w) = ew_custody w" "ew_balance (es_emit e w) = ew_balance w"
  "ew_balance (put_dep k d w) = ew_balance w" "dep (w\<lparr>ew_custody := c\<rparr>) = dep w"
  "dep (w\<lparr>ew_escrow := f\<rparr>) = es_deposits f"
  by (simp_all add: dep_def es_emit_def put_dep_def move_def)

lemma move_in: "a \<noteq> self \<Longrightarrow> ew_balance (move a b n w) self = ew_balance w self + (if b = self then n else 0)"
  by (simp add: move_def Let_def)

lemma move_out: "b \<noteq> self \<Longrightarrow> ew_balance (move self b n w) self = ew_balance w self - n"
  by (simp add: move_def Let_def)

lemma escrow_updates:
  "es_emit e w = w\<lparr>ew_escrow := (ew_escrow w)\<lparr>es_events := es_events (ew_escrow w) @ [e]\<rparr>\<rparr>"
  "setArbiter g a w = Inr w' \<Longrightarrow> \<exists>e. es_deposits e = es_deposits (ew_escrow w) \<and> w' = w\<lparr>ew_escrow := e\<rparr>"
  "es_transferOwnership g a w = Inr w' \<Longrightarrow> \<exists>e. es_deposits e = es_deposits (ew_escrow w) \<and> w' = w\<lparr>ew_escrow := e\<rparr>"
  by (auto simp: es_emit_def setArbiter_def es_transferOwnership_def Let_def split: if_splits
      intro!: exI [of _ "ew_escrow w'"])

lemma books_fund:
  assumes "books E self s w" and "msg_sender g \<noteq> self" and "fund self g amt k payee w = Inr w'"
  shows "books E self s w'"
proof -
  from assms(1) have fin: "finite (open_deposits (dep w))" by (simp add: books_def sound_def)
  from assms(3) have n: "de_status (dep w k) = DNone" by (auto simp: fund_def split: if_splits)
  define d where "d = \<lparr>de_payer = msg_sender g, de_payee = payee, de_amount = amt, de_status = DFunded,
      de_fundedAt = of_nat (block_timestamp g)\<rparr>"
  have w': "w' = es_emit (EvFunded k (msg_sender g) payee amt) (put_dep k d (move (msg_sender g) self amt w))"
    using assms(3) by (auto simp: fund_def d_def split: if_splits)
  have "held ((dep w)(k := d)) = held (dep w) + amt" "open_deposits ((dep w)(k := d)) = insert k (open_deposits (dep w))"
    using held_open [OF fin, of k d] n by (simp_all add: d_def)
  then show ?thesis using assms(1,2) fin by (auto simp: w' books_def sound_def move_in d_def)
qed

lemma books_close:
  assumes "books E self s w" and "de_status (dep w k) = DFunded"
    and "st = DReleased \<and> arrived (ch_manifests (ew_custody w) k) \<or> st = DRefunded \<and> contested (ch_manifests (ew_custody w) k)"
  shows "books E self (s + de_amount (dep w k)) (put_dep k ((dep w k)\<lparr>de_status := st\<rparr>) w)"
proof -
  from assms(1) have fin: "finite (open_deposits (dep w))" by (simp add: books_def sound_def)
  have "de_status ((dep w k)\<lparr>de_status := st\<rparr>) \<noteq> DFunded" using assms(3) by auto
  from held_close [OF fin assms(2) this] show ?thesis using assms(1,3) fin by (auto simp: books_def sound_def)
qed

text \<open>A resolved dispute, by its payments.\<close>

lemma resolve_cases:
  assumes "resolveDispute payPayee payPayer g k split w = Inr w'"
  obtains w0 w1 where "msg_sender g = es_arbiter (ew_escrow w)" "de_status (dep w k) = DFunded"
    "contested (ch_manifests (ew_custody w) k)" "split \<le> de_amount (dep w k)"
    "w0 = put_dep k ((dep w k)\<lparr>de_status := DRefunded\<rparr>) w"
    "split = 0 \<and> w1 = w0 \<or> (\<exists>v e. payPayee (de_payee (dep w k)) split w0 = Some v \<and> w1 = es_emit e v)"
    "split = de_amount (dep w k) \<and> w' = w1 \<or>
       (\<exists>v e. payPayer (de_payer (dep w1 k)) (de_amount (dep w k) - split) w1 = Some v \<and> w' = es_emit e v)"
proof -
  let ?w = "put_dep k ((dep w k)\<lparr>de_status := DRefunded\<rparr>) w"
  let ?first = "if 0 < split then map_option (\<lambda>w1. es_emit (EvReleased k (de_payee (dep w1 k)) split) w1)
      (payPayee (de_payee (dep w k)) split ?w) else Some ?w"
  from assms have g: "msg_sender g = es_arbiter (ew_escrow w)" "de_status (dep w k) = DFunded"
    "contested (ch_manifests (ew_custody w) k)" "split \<le> de_amount (dep w k)"
    using dispute_state by (auto simp: resolveDispute_def Let_def contested_def split: if_splits)
  with assms obtain w1 where f: "?first = Some w1"
    by (auto simp: resolveDispute_def Let_def split: if_splits option.splits)
  with assms g have l: "(if 0 < de_amount (dep w k) - split
      then (case payPayer (de_payer (dep w1 k)) (de_amount (dep w k) - split) w1 of
              None \<Rightarrow> Inl EsTransferFailed
            | Some w2 \<Rightarrow> Inr (es_emit (EvRefunded k (de_payer (dep w2 k)) (de_amount (dep w k) - split)) w2))
      else Inr w1) = Inr w'"
    by (simp add: resolveDispute_def Let_def split: if_splits)
  have a: "split = 0 \<and> w1 = ?w \<or> (\<exists>v e. payPayee (de_payee (dep w k)) split ?w = Some v \<and> w1 = es_emit e v)"
    using f by (auto split: if_splits)
  have "split = de_amount (dep w k) \<and> w' = w1 \<or>
       (\<exists>v e. payPayer (de_payer (dep w1 k)) (de_amount (dep w k) - split) w1 = Some v \<and> w' = es_emit e v)"
    using l g(4) by (auto split: if_splits option.splits)
  with g a show ?thesis by (intro that) auto
qed

text \<open>
  A promise the escrow keeps whatever the receivers do, with some tokens set aside for the payments under
  way: it is enough that each of the elementary changes keeps it.
\<close>

locale escrow_promise =
  fixes E :: "('e) chain_env_scheme"
    and self :: string
    and inv :: "nat \<Rightarrow> escrow_world \<Rightarrow> bool"
  assumes inv_fund: "inv s w \<Longrightarrow> msg_sender g \<noteq> self \<Longrightarrow> fund self g amt k payee w = Inr w' \<Longrightarrow> inv s w'"
    and inv_close: "inv s w \<Longrightarrow> de_status (dep w k) = DFunded \<Longrightarrow>
      st = DReleased \<and> ch_isReleasable k (ew_custody w) \<or>
      st = DRefunded \<and> contested (ch_manifests (ew_custody w) k) \<and> msg_sender g = es_arbiter (ew_escrow w) \<Longrightarrow>
      inv (s + de_amount (dep w k)) (put_dep k ((dep w k)\<lparr>de_status := st\<rparr>) w)"
    and inv_pay: "inv (s + n) w \<Longrightarrow> b \<noteq> self \<Longrightarrow> inv s (move self b n w)"
    and inv_receive: "inv s w \<Longrightarrow> a \<noteq> self \<Longrightarrow> inv s (move a b n w)"
    and inv_custody: "inv s w \<Longrightarrow> chain_step E (ew_custody w) c \<Longrightarrow> inv s (w\<lparr>ew_custody := c\<rparr>)"
    and inv_rest: "inv s w \<Longrightarrow> es_deposits e = es_deposits (ew_escrow w) \<Longrightarrow> inv s (w\<lparr>ew_escrow := e\<rparr>)"
begin

lemma emit_keeps: "inv s w \<Longrightarrow> inv s (es_emit e w)"
  by (simp add: es_emit_def inv_rest)

lemma custody_keeps: "inv s w \<Longrightarrow> inv s (w\<lparr>ew_custody := kept (ew_custody w) (custody_mined E tx (ew_custody w))\<rparr>)"
  by (cases "custody_mined E tx (ew_custody w)") (auto simp: kept_def intro: inv_custody mined_step)

lemma release_keeps:
  assumes "inv s w" and "release pay k w = Inr w'"
    and pay: "\<And>to n s v v'. inv (s + n) v \<Longrightarrow> pay to n v = Some v' \<Longrightarrow> inv s v'"
  shows "inv s w'"
proof -
  let ?w = "put_dep k ((dep w k)\<lparr>de_status := DReleased\<rparr>) w"
  from assms(2) obtain w1 e where r: "de_status (dep w k) = DFunded" "ch_isReleasable k (ew_custody w)"
    "pay (de_payee (dep w k)) (de_amount (dep w k)) ?w = Some w1" "w' = es_emit e w1"
    by (auto simp: release_def Let_def split: if_splits option.splits)
  from inv_close [OF assms(1) r(1)] r(2) have "inv (s + de_amount (dep w k)) ?w" by blast
  from pay [OF this r(3)] r(4) show ?thesis by (simp add: emit_keeps)
qed

lemma resolve_keeps:
  assumes "inv s w" and "resolveDispute p1 p2 g k split w = Inr w'"
    and pay: "\<And>to n s v v'. inv (s + n) v \<Longrightarrow> p1 to n v = Some v' \<Longrightarrow> inv s v'"
      "\<And>to n s v v'. inv (s + n) v \<Longrightarrow> p2 to n v = Some v' \<Longrightarrow> inv s v'"
  shows "inv s w'"
  using assms(2)
proof (cases rule: resolve_cases)
  case (1 w0 w1)
  have "inv (s + de_amount (dep w k)) w0" using inv_close [OF assms(1) 1(2)] 1(1,3,5) by blast
  then have b0: "inv (s + (de_amount (dep w k) - split) + split) w0" using 1(4) by simp
  have "inv (s + (de_amount (dep w k) - split)) w1" using 1(6) b0 pay(1) emit_keeps by auto
  then show ?thesis using 1(7) pay(2) emit_keeps by auto
qed

lemma run_keeps_at:
  "E' = E \<Longrightarrow> self' = self \<Longrightarrow> inv s w \<Longrightarrow> msg_sender g \<noteq> self \<Longrightarrow> run_call E' self' g c w = Inr w' \<Longrightarrow> inv s w'"
  "E' = E \<Longrightarrow> self' = self \<Longrightarrow> inv (s + n) w \<Longrightarrow> take_payment E' self' to n r w = Some w' \<Longrightarrow> inv s w'"
  "E' = E \<Longrightarrow> self' = self \<Longrightarrow> inv s w \<Longrightarrow> inv s (run_acts E' self' as w)"
proof (induction E' self' g c w and E' self' "to" n r w and E' self' "as" w arbitrary: s w' and s w' and s
    rule: run_call_take_payment_run_acts.induct)
  case (1 E' self' g amt k payee w)
  then show ?case by (simp add: inv_fund)
next
  case (2 E' self' g k r w)
  from "2.prems" have run: "release (\<lambda>to n v. take_payment E' self' to n r v) k w = Inr w'" by simp
  show ?case by (rule release_keeps [OF "2.prems"(3) run]) (rule "2.IH" [OF "2.prems"(1,2)])
next
  case (3 E' self' g k split r1 r2 w)
  from "3.prems" have run: "resolveDispute (\<lambda>to n v. take_payment E' self' to n r1 v)
      (\<lambda>to n v. take_payment E' self' to n r2 v) g k split w = Inr w'" by simp
  show ?case
    by (rule resolve_keeps [OF "3.prems"(3) run]) (rule "3.IH"(1) [OF "3.prems"(1,2)], assumption+, rule "3.IH"(2) [OF "3.prems"(1,2)])
next
  case (4 E' self' g a w)
  then show ?case using inv_rest escrow_updates(2) [of g a w w'] by auto
next
  case (5 E' self' g a w)
  then show ?case using inv_rest escrow_updates(3) [of g a w w'] by auto
next
  case (7 E' self' "to" n "as" w)
  then show ?case by (auto intro: inv_pay split: if_splits)
next
  case (9 E' self' g c "as" w)
  have "inv s (if msg_sender g = self then w else kept w (run_call E' self' g c w))"
    using 9 by (auto simp: kept_def split: sum.split)
  with 9 show ?case by (cases "msg_sender g = self") simp_all
next
  case (10 E' self' tx "as" w)
  then show ?case by (simp add: custody_keeps)
next
  case (11 E' self' a b n "as" w)
  then show ?case by (simp add: inv_receive)
qed simp_all

lemmas run_keeps = run_keeps_at [OF refl refl]

end

text \<open>The books are such a promise.\<close>

interpretation books: escrow_promise E self "books E self"
proof
  show "books E self s w'" if "books E self s w" "msg_sender g \<noteq> self" "fund self g amt k payee w = Inr w'" for s w g amt k payee w'
    using that by (rule books_fund)
  show "books E self (s + de_amount (dep w k)) (put_dep k ((dep w k)\<lparr>de_status := st\<rparr>) w)"
    if b: "books E self s w" and d: "de_status (dep w k) = DFunded" and st: "st = DReleased \<and> ch_isReleasable k (ew_custody w) \<or>
      st = DRefunded \<and> contested (ch_manifests (ew_custody w) k) \<and> msg_sender g = es_arbiter (ew_escrow w)" for s w k st g
    using st books_close [OF b d] releasable_arrived b by (metis books_def sound_def)
  show "books E self s (move self b n w)" if "books E self (s + n) w" "b \<noteq> self" for s n w b
    using that by (auto simp: books_def move_out)
  show "books E self s (move a b n w)" if "books E self s w" "a \<noteq> self" for s w a b n
    using that by (auto simp: books_def move_in)
  show "books E self s (w\<lparr>ew_custody := c\<rparr>)" if "books E self s w" "chain_step E (ew_custody w) c" for s w c
    using that by (auto simp: books_def intro: sound_step)
  show "books E self s (w\<lparr>ew_escrow := e\<rparr>)" if "books E self s w" "es_deposits e = es_deposits (ew_escrow w)" for s w e
    using that by (simp add: books_def dep_def)
qed

text \<open>So is what a deposit keeps: once made, its parties and its amount, and once left, its status.\<close>

definition dep_after :: "deposit \<Rightarrow> deposit \<Rightarrow> bool" where
  "dep_after d d' \<longleftrightarrow> (de_status d \<noteq> DNone \<longrightarrow>
     de_payer d' = de_payer d \<and> de_payee d' = de_payee d \<and> de_amount d' = de_amount d \<and>
     de_fundedAt d' = de_fundedAt d \<and> de_status d' \<noteq> DNone \<and> (de_status d \<noteq> DFunded \<longrightarrow> de_status d' = de_status d))"

interpretation deposits: escrow_promise E self "\<lambda>_ w. \<forall>k. dep_after (dep w0 k) (dep w k)"
proof
  show "\<forall>k. dep_after (dep w0 k) (dep w' k)"
    if "\<forall>k. dep_after (dep w0 k) (dep w k)" "fund self g amt j payee w = Inr w'" for w g amt j payee w'
    using that by (auto simp: fund_def dep_after_def split: if_splits)
  show "\<forall>j. dep_after (dep w0 j) (dep (put_dep k ((dep w k)\<lparr>de_status := st\<rparr>) w) j)"
    if "\<forall>k. dep_after (dep w0 k) (dep w k)" "de_status (dep w k) = DFunded" "st = DReleased \<and> ch_isReleasable k (ew_custody w) \<or>
      st = DRefunded \<and> contested (ch_manifests (ew_custody w) k) \<and> msg_sender g = es_arbiter (ew_escrow w)" for w k st g
    using that by (auto simp: dep_after_def dest!: spec [of _ k])
qed (auto simp: dep_def [symmetric])

lemma deposits_last:
  "dep_after (dep w k) (dep (run_acts E self as w) k)"
  "run_call E self g c w = Inr w' \<Longrightarrow> msg_sender g \<noteq> self \<Longrightarrow> dep_after (dep w k) (dep w' k)"
  "take_payment E self to n r w = Some w' \<Longrightarrow> dep_after (dep w k) (dep w' k)"
proof -
  have "\<forall>k. dep_after (dep w k) (dep w k)" by (simp add: dep_after_def)
  note run = deposits.run_keeps [OF this]
  from run(3) show "dep_after (dep w k) (dep (run_acts E self as w) k)" by blast
  from run(1) show "run_call E self g c w = Inr w' \<Longrightarrow> msg_sender g \<noteq> self \<Longrightarrow> dep_after (dep w k) (dep w' k)" by blast
  from run(2) show "take_payment E self to n r w = Some w' \<Longrightarrow> dep_after (dep w k) (dep w' k)" by blast
qed

lemma books_deployed:
  assumes "escrow_deployed a k r = Inr e" and "reachable_chain E c"
  shows "books E self 0 (escrow_world_at e c b)"
proof -
  have "dep (escrow_world_at e c b) = (\<lambda>_. zero_deposit)"
    using assms(1) by (auto simp: escrow_deployed_def escrow_world_at_def dep_def split: if_splits)
  then show ?thesis
    using assms(2) by (simp add: books_def sound_def held_def open_deposits_def zero_deposit_def escrow_world_at_def)
qed

lemma reachable_books: "reachable_escrow E self w \<Longrightarrow> books E self 0 w"
  by (induction rule: reachable_escrow.induct) (auto intro: books_deployed books.run_keeps(3))

section \<open>Payments out\<close>

text \<open>
  The escrow can always pay what it owes: a release that the custody contract allows fails only if the
  payee's own code rejects the tokens. With a plain account the tokens move as expected.
\<close>

lemma held_le: "finite (open_deposits f) \<Longrightarrow> de_status (f k) = DFunded \<Longrightarrow> de_amount (f k) \<le> held f"
  unfolding held_def by (rule member_le_sum) (auto simp: open_deposits_def)

lemma books_cover:
  assumes "books E self s w" and "de_status (dep w k) = DFunded"
  shows "de_amount (dep w k) + s \<le> ew_balance w self"
  using assms held_le [of "dep w" k] by (fastforce simp: books_def sound_def)

lemma release_run:
  assumes "books E self s w" and "de_status (dep w k) = DFunded" and "ch_isReleasable k (ew_custody w)"
    and "de_payee (dep w k) \<noteq> self"
  shows "run_call E self g (Release k (Accepts as)) w =
    Inr (es_emit (EvReleased k (de_payee (dep w k)) (de_amount (dep w k)))
      (run_acts E self as (move self (de_payee (dep w k)) (de_amount (dep w k))
         (put_dep k ((dep w k)\<lparr>de_status := DReleased\<rparr>) w))))"
proof -
  let ?w = "put_dep k ((dep w k)\<lparr>de_status := DReleased\<rparr>) w"
  let ?v = "run_acts E self as (move self (de_payee (dep w k)) (de_amount (dep w k)) ?w)"
  have "dep_after (dep ?w k) (dep ?v k)"
    using deposits_last(1) [of "move self (de_payee (dep w k)) (de_amount (dep w k)) ?w" k] by simp
  then have "de_payee (dep ?v k) = de_payee (dep w k)" "de_amount (dep ?v k) = de_amount (dep w k)"
    by (simp_all add: dep_after_def)
  then show ?thesis using assms books_cover [OF assms(1,2)] by (simp add: release_def Let_def)
qed

lemma move_balances: "a \<noteq> b \<Longrightarrow> ew_balance (move a b n w) = (ew_balance w)(a := ew_balance w a - n, b := ew_balance w b + n)"
  by (simp add: move_def Let_def)

text \<open>A payee that rejects, and the escrow as payee, keep the deposit where it is.\<close>

lemma release_stuck:
  "run_call E self g (Release k Rejects) w \<noteq> Inr w'"
  "de_payee (dep w k) = self \<Longrightarrow> run_call E self g (Release k r) w \<noteq> Inr w'"
proof -
  show "run_call E self g (Release k Rejects) w \<noteq> Inr w'" by (simp add: release_def Let_def)
  show "de_payee (dep w k) = self \<Longrightarrow> run_call E self g (Release k r) w \<noteq> Inr w'"
    by (cases r) (simp_all add: release_def Let_def)
qed

lemma resolve_stuck:
  assumes "de_payee (dep w k) = self" and "0 < split"
  shows "run_call E self g (ResolveDispute k split r1 r2) w \<noteq> Inr w'"
proof
  assume "run_call E self g (ResolveDispute k split r1 r2) w = Inr w'"
  then have "resolveDispute (\<lambda>to n v. take_payment E self to n r1 v) (\<lambda>to n v. take_payment E self to n r2 v) g k split w = Inr w'"
    by simp
  then show False by (cases rule: resolve_cases) (use assms in \<open>cases r1; simp\<close>)
qed

text \<open>Whoever funds a manifest first, with however little, is the only one who ever does.\<close>

lemma first_fund_takes_all:
  assumes "fund self g amt k payee w = Inr w1" and "(\<lambda>v v'. \<exists>x. v' = run_acts E self [x] v)\<^sup>*\<^sup>* w1 w2"
  shows "fund self g' amt' k payee' w2 \<noteq> Inr w3"
proof -
  have "de_status (dep w1 k) \<noteq> DNone" using assms(1) by (auto simp: fund_def split: if_splits)
  with assms(2) have "de_status (dep w2 k) \<noteq> DNone"
  proof (induction rule: rtranclp_induct)
    case (step v v')
    then show ?case using deposits_last(1) by (metis dep_after_def)
  qed
  then show ?thesis by (simp add: fund_def)
qed

text \<open>A dispute between two plain accounts: the parts add up, and only the arbiter divides.\<close>

lemma resolve_run:
  assumes "books E self s w" and "de_status (dep w k) = DFunded" and "contested (ch_manifests (ew_custody w) k)"
    and "msg_sender g = es_arbiter (ew_escrow w)" and "split \<le> de_amount (dep w k)"
    and "de_payee (dep w k) \<noteq> self" and "de_payer (dep w k) \<noteq> self"
  obtains w' where "run_call E self g (ResolveDispute k split (Accepts []) (Accepts [])) w = Inr w'"
    "ew_balance w' self = ew_balance w self - de_amount (dep w k)"
    "de_payee (dep w k) \<noteq> de_payer (dep w k) \<Longrightarrow>
       ew_balance w' (de_payee (dep w k)) = ew_balance w (de_payee (dep w k)) + split \<and>
       ew_balance w' (de_payer (dep w k)) = ew_balance w (de_payer (dep w k)) + (de_amount (dep w k) - split)"
proof -
  have "status_number (cm_status (ch_manifests (ew_custody w) k)) = STATUS_SHORT \<or>
      status_number (cm_status (ch_manifests (ew_custody w) k)) = STATUS_DISPUTED"
    using assms(3) dispute_state by (simp add: contested_def)
  then show ?thesis using assms(2,4-7) books_cover [OF assms(1,2)]
    by (intro that [of "projr (run_call E self g (ResolveDispute k split (Accepts []) (Accepts [])) w)"])
      (auto simp: resolveDispute_def Let_def move_balances)
qed

end
