(* ===== verification/Reputation.thy ===== *)
theory Reputation imports Custody_Chain Document_Registry begin

text \<open>
  \<open>chain/contracts/ReputationLedger.sol\<close>, the calls of \<open>chain/sdk/anchor.ts\<close> on it, and the shape of an
  attestation and the derivations of \<open>shared/attestation.schema.ts\<close>. The invariant of a reachable
  ledger counts: what a driver's record says is what was attested under two signatures.
\<close>

record rep_env = chain_env +
  ledger_address :: string

section \<open>The contract\<close>

text \<open>The field \<open>exists\<close> is the presence of the entry.\<close>

record attestation =
  at_tripId :: string
  at_driver :: string
  at_shipper :: string
  at_onTime :: bool
  at_disputeFree :: bool
  at_attestedAt :: "64 word"

record reputation =
  re_totalTrips :: "32 word"
  re_onTimeTrips :: "32 word"
  re_disputeFreeTrips :: "32 word"

datatype ledger_event =
    RepPlatformSet string bool
  | TripAttested string string string bool bool
  | RepOwnershipTransferred string string

record ledger =
  rl_owner :: string
  rl_isPlatform :: "string \<Rightarrow> bool"
  rl_attestations :: "string \<Rightarrow> attestation option"
  rl_reputation :: "string \<Rightarrow> reputation"
  rl_events :: "ledger_event list"

text \<open>The last is Solidity's panic of a checked addition.\<close>

datatype ledger_error =
  RepNotOwner | RepNotPlatform | AlreadyAttested | RepZeroAddress | RepBadSignature | CounterPanic

definition no_reputation :: reputation where
  "no_reputation = \<lparr>re_totalTrips = 0, re_onTimeTrips = 0, re_disputeFreeTrips = 0\<rparr>"

definition ledger_deployed :: "string \<Rightarrow> ledger" where
  "ledger_deployed creator =
     \<lparr>rl_owner = creator, rl_isPlatform = (\<lambda>_. False), rl_attestations = (\<lambda>_. None),
      rl_reputation = (\<lambda>_. no_reputation), rl_events = [RepOwnershipTransferred zero_address creator]\<rparr>"

definition rep_emit :: "ledger_event \<Rightarrow> ledger \<Rightarrow> ledger" where
  "rep_emit e l = l\<lparr>rl_events := rl_events l @ [e]\<rparr>"

definition repTransferOwnership :: "msg \<Rightarrow> string \<Rightarrow> ledger \<Rightarrow> ledger_error + ledger" where
  "repTransferOwnership g newOwner l =
     (if msg_sender g \<noteq> rl_owner l then Inl RepNotOwner
      else Inr ((rep_emit (RepOwnershipTransferred (rl_owner l) newOwner) l)\<lparr>rl_owner := newOwner\<rparr>))"

definition repSetPlatform :: "msg \<Rightarrow> string \<Rightarrow> bool \<Rightarrow> ledger \<Rightarrow> ledger_error + ledger" where
  "repSetPlatform g platform allowed l =
     (if msg_sender g \<noteq> rl_owner l then Inl RepNotOwner
      else Inr (rep_emit (RepPlatformSet platform allowed)
                  (l\<lparr>rl_isPlatform := (rl_isPlatform l)(platform := allowed)\<rparr>)))"

definition bool_byte :: "bool \<Rightarrow> string" where
  "bool_byte b = [char_of (if b then 1 else 0 :: nat)]"

definition attestation_preimage ::
  "('e) rep_env_scheme \<Rightarrow> string \<Rightarrow> string \<Rightarrow> string \<Rightarrow> bool \<Rightarrow> bool \<Rightarrow> string"
where
  "attestation_preimage E trip drv shipper onTime disputeFree =
     ''DTD_ATTEST'' @ chain_id E @ ledger_address E @ raw trip @ raw drv @ raw shipper @
     bool_byte onTime @ bool_byte disputeFree"

definition attestationDigest ::
  "('e) rep_env_scheme \<Rightarrow> string \<Rightarrow> string \<Rightarrow> string \<Rightarrow> bool \<Rightarrow> bool \<Rightarrow> string"
where
  "attestationDigest E trip drv shipper onTime disputeFree =
     keccak E (attestation_preimage E trip drv shipper onTime disputeFree)"

text \<open>\<open>_recover(digest, sig) != party\<close>, where \<open>_recover\<close> reverts itself on a malformed signature.\<close>

definition rep_signed :: "('e) rep_env_scheme \<Rightarrow> string \<Rightarrow> string \<Rightarrow> string \<Rightarrow> bool" where
  "rep_signed E digest sig party = (recover E digest sig = Inr party)"

text \<open>\<open>if (b) counter += 1\<close>, which panics at the largest value.\<close>

definition bump :: "bool \<Rightarrow> 32 word \<Rightarrow> 32 word option" where
  "bump b n = (if \<not> b then Some n else if n = - 1 then None else Some (n + 1))"

definition add_trip :: "bool \<Rightarrow> bool \<Rightarrow> reputation \<Rightarrow> reputation option" where
  "add_trip onTime disputeFree r =
     (case (bump True (re_totalTrips r), bump onTime (re_onTimeTrips r), bump disputeFree (re_disputeFreeTrips r)) of
        (Some a, Some b, Some c) \<Rightarrow> Some \<lparr>re_totalTrips = a, re_onTimeTrips = b, re_disputeFreeTrips = c\<rparr>
      | _ \<Rightarrow> None)"

definition attest ::
  "('e) rep_env_scheme \<Rightarrow> msg \<Rightarrow> string \<Rightarrow> string \<Rightarrow> string \<Rightarrow> bool \<Rightarrow> bool \<Rightarrow> string \<Rightarrow> string \<Rightarrow> ledger \<Rightarrow>
   ledger_error + ledger"
where
  "attest E g trip drv shipper onTime disputeFree driverSig shipperSig l =
     (if \<not> rl_isPlatform l (msg_sender g) then Inl RepNotPlatform
      else if rl_attestations l trip \<noteq> None then Inl AlreadyAttested
      else if drv = zero_address \<or> shipper = zero_address then Inl RepZeroAddress
      else let digest = attestationDigest E trip drv shipper onTime disputeFree in
        if \<not> rep_signed E digest driverSig drv then Inl RepBadSignature
        else if \<not> rep_signed E digest shipperSig shipper then Inl RepBadSignature
        else case add_trip onTime disputeFree (rl_reputation l drv) of
          None \<Rightarrow> Inl CounterPanic
        | Some r \<Rightarrow> Inr (rep_emit (TripAttested trip drv shipper onTime disputeFree)
            (l\<lparr>rl_attestations := (rl_attestations l)(trip \<mapsto>
                 \<lparr>at_tripId = trip, at_driver = drv, at_shipper = shipper, at_onTime = onTime,
                  at_disputeFree = disputeFree, at_attestedAt = of_nat (block_timestamp g)\<rparr>),
               rl_reputation := (rl_reputation l)(drv := r)\<rparr>)))"

definition getAttestation :: "string \<Rightarrow> ledger \<Rightarrow> attestation option" where
  "getAttestation trip l = rl_attestations l trip"

definition getReputation :: "string \<Rightarrow> ledger \<Rightarrow> reputation" where
  "getReputation drv l = rl_reputation l drv"

section \<open>The SDK\<close>

definition submitAttestation ::
  "('e) rep_env_scheme \<Rightarrow> nat \<Rightarrow> string \<Rightarrow> string \<Rightarrow> string \<Rightarrow> string \<Rightarrow> bool \<Rightarrow> bool \<Rightarrow> string \<Rightarrow> string \<Rightarrow>
   (ledger, string) exec"
where
  "submitAttestation E t0 txHash trip drv shipper onTime disputeFree driverSig shipperSig =
     bindE (need (abi_bytes32 trip) abi_error) (\<lambda>k.
     bindE (need (abi_address E drv) abi_error) (\<lambda>d.
     bindE (need (abi_address E shipper) abi_error) (\<lambda>h.
     (\<lambda>l. case attest E (platform_msg E t0) k d h onTime disputeFree driverSig shipperSig l of
            Inl _ \<Rightarrow> (Inl reverted, l)
          | Inr l' \<Rightarrow> (Inr txHash, l')))))"

definition getAttestationDigest ::
  "('e) rep_env_scheme \<Rightarrow> string \<Rightarrow> string \<Rightarrow> string \<Rightarrow> bool \<Rightarrow> bool \<Rightarrow> (ledger, string) exec"
where
  "getAttestationDigest E trip drv shipper onTime disputeFree =
     bindE (need (abi_bytes32 trip) abi_error) (\<lambda>k.
     bindE (need (abi_address E drv) abi_error) (\<lambda>d.
     bindE (need (abi_address E shipper) abi_error) (\<lambda>h.
     return (attestationDigest E k d h onTime disputeFree))))"

section \<open>Claims and their evidence\<close>

record evidence =
  ev_scheduledArrivalTs :: "int option"
  ev_actualArrivalTs :: "int option"
  ev_manifestCount :: "int option"
  ev_deliveredCount :: "int option"
  ev_gpsBatchCount :: int

record claim =
  ac_version :: int
  ac_tripId :: string
  ac_manifestId :: "string option"
  ac_driver :: string
  ac_shipper :: string
  ac_onTime :: bool
  ac_disputeFree :: bool
  ac_evidence :: evidence
  ac_driverSig :: string
  ac_shipperSig :: string
  ac_attestedAt :: string

definition is_signature :: "string \<Rightarrow> bool" where
  "is_signature = matches ''0x'' any_hex 130"

definition AttestationSchema :: "('e) env_scheme \<Rightarrow> claim \<Rightarrow> bool" where
  "AttestationSchema E a \<longleftrightarrow> ac_version a = 1 \<and> is_bytes32 (ac_tripId a) \<and>
     (case ac_manifestId a of None \<Rightarrow> True | Some k \<Rightarrow> is_bytes32 k) \<and>
     is_address (ac_driver a) \<and> is_address (ac_shipper a) \<and>
     (case ev_manifestCount (ac_evidence a) of None \<Rightarrow> True | Some n \<Rightarrow> 0 \<le> n) \<and>
     (case ev_deliveredCount (ac_evidence a) of None \<Rightarrow> True | Some n \<Rightarrow> 0 \<le> n) \<and>
     0 \<le> ev_gpsBatchCount (ac_evidence a) \<and>
     is_signature (ac_driverSig a) \<and> is_signature (ac_shipperSig a) \<and> zod_datetime E (ac_attestedAt a)"

definition ON_TIME_GRACE_S :: int where
  "ON_TIME_GRACE_S = 3600"

definition deriveOnTime :: "int option \<Rightarrow> int option \<Rightarrow> bool" where
  "deriveOnTime scheduled actual =
     (case (scheduled, actual) of
        (Some s, Some a) \<Rightarrow> a \<le> s + ON_TIME_GRACE_S
      | _ \<Rightarrow> True)"

definition deriveDisputeFree :: "int option \<Rightarrow> int option \<Rightarrow> bool" where
  "deriveDisputeFree manifestCount deliveredCount =
     (case (manifestCount, deliveredCount) of
        (Some m, Some d) \<Rightarrow> m \<le> d
      | _ \<Rightarrow> True)"

record reputation_summary =
  su_driver :: string
  su_totalTrips :: nat
  su_onTimeTrips :: nat
  su_disputeFreeTrips :: nat
  su_onTimeRate :: rat
  su_disputeFreeRate :: rat

definition trip_rate :: "nat \<Rightarrow> nat \<Rightarrow> rat" where
  "trip_rate k n_trips = (if 0 < n_trips then of_nat k / of_nat n_trips else 0)"

definition summarize_reputation :: "string \<Rightarrow> reputation \<Rightarrow> reputation_summary" where
  "summarize_reputation drv r =
     (let n_trips = unat (re_totalTrips r); ot = unat (re_onTimeTrips r); df = unat (re_disputeFreeTrips r) in
      \<lparr>su_driver = drv, su_totalTrips = n_trips, su_onTimeTrips = ot, su_disputeFreeTrips = df,
       su_onTimeRate = trip_rate ot n_trips, su_disputeFreeRate = trip_rate df n_trips\<rparr>)"

definition MIN_TRIPS_FOR_SCORE :: nat where
  "MIN_TRIPS_FOR_SCORE = 20"

definition isScoreMeaningful :: "nat \<Rightarrow> bool" where
  "isScoreMeaningful n_trips \<longleftrightarrow> MIN_TRIPS_FOR_SCORE \<le> n_trips"

section \<open>Reachable ledgers\<close>

inductive ledger_step :: "('e) rep_env_scheme \<Rightarrow> ledger \<Rightarrow> ledger \<Rightarrow> bool" for E where
  "repTransferOwnership g a l = Inr l' \<Longrightarrow> ledger_step E l l'"
| "repSetPlatform g a b l = Inr l' \<Longrightarrow> ledger_step E l l'"
| "attest E g trip d h ot df sd ss l = Inr l' \<Longrightarrow> ledger_step E l l'"

inductive_cases ledger_step_cases: "ledger_step E l l'"

inductive reachable_ledger :: "('e) rep_env_scheme \<Rightarrow> ledger \<Rightarrow> bool" for E where
  start: "reachable_ledger E (ledger_deployed a)"
| step: "reachable_ledger E l \<Longrightarrow> ledger_step E l l' \<Longrightarrow> reachable_ledger E l'"

lemma attest_cases:
  assumes "attest E g trip d h ot df sd ss l = Inr l'"
  obtains r where "rl_isPlatform l (msg_sender g)" "rl_attestations l trip = None" "d \<noteq> zero_address" "h \<noteq> zero_address"
    "signed_by E (attestationDigest E trip d h ot df) d" "signed_by E (attestationDigest E trip d h ot df) h"
    "add_trip ot df (rl_reputation l d) = Some r"
    "rl_attestations l' = (rl_attestations l)(trip \<mapsto> \<lparr>at_tripId = trip, at_driver = d, at_shipper = h, at_onTime = ot,
       at_disputeFree = df, at_attestedAt = of_nat (block_timestamp g)\<rparr>)"
    "rl_reputation l' = (rl_reputation l)(d := r)"
proof -
  from assms obtain r where r: "add_trip ot df (rl_reputation l d) = Some r"
    by (auto simp: attest_def Let_def split: if_splits option.splits)
  with assms show ?thesis
    by (intro that [of r]) (auto simp: attest_def Let_def rep_signed_def signed_by_def rep_emit_def split: if_splits)
qed

lemma admin_keeps_ledger:
  "repTransferOwnership g a l = Inr l' \<Longrightarrow> rl_attestations l' = rl_attestations l \<and> rl_reputation l' = rl_reputation l"
  "repSetPlatform g a b l = Inr l' \<Longrightarrow> rl_attestations l' = rl_attestations l \<and> rl_reputation l' = rl_reputation l"
  by (auto simp: repTransferOwnership_def repSetPlatform_def rep_emit_def split: if_splits)

lemma bump_unat: "bump b n = Some m \<Longrightarrow> unat m = unat n + (if b then 1 else 0)"
  by (auto simp: bump_def add.commute [of n 1] eq_neg_iff_add_eq_0 split: if_splits dest!: unatSuc)

text \<open>The trips attested for a driver, and those with a mark.\<close>

definition trips_of :: "ledger \<Rightarrow> string \<Rightarrow> (attestation \<Rightarrow> bool) \<Rightarrow> string set" where
  "trips_of l drv mark = {k. \<exists>a. rl_attestations l k = Some a \<and> at_driver a = drv \<and> mark a}"

definition attested :: "('e) rep_env_scheme \<Rightarrow> string \<Rightarrow> attestation \<Rightarrow> bool" where
  "attested E k a \<longleftrightarrow> at_tripId a = k \<and> at_driver a \<noteq> zero_address \<and> at_shipper a \<noteq> zero_address \<and>
     (\<forall>p\<in>{at_driver a, at_shipper a}.
        signed_by E (attestationDigest E k (at_driver a) (at_shipper a) (at_onTime a) (at_disputeFree a)) p)"

definition counted :: "ledger \<Rightarrow> string \<Rightarrow> bool" where
  "counted l d \<longleftrightarrow> unat (re_totalTrips (rl_reputation l d)) = card (trips_of l d (\<lambda>_. True)) \<and>
     unat (re_onTimeTrips (rl_reputation l d)) = card (trips_of l d at_onTime) \<and>
     unat (re_disputeFreeTrips (rl_reputation l d)) = card (trips_of l d at_disputeFree)"

definition ledger_inv :: "('e) rep_env_scheme \<Rightarrow> ledger \<Rightarrow> bool" where
  "ledger_inv E l \<longleftrightarrow> finite (dom (rl_attestations l)) \<and>
     (\<forall>k a. rl_attestations l k = Some a \<longrightarrow> attested E k a) \<and> (\<forall>d. counted l d)"

lemma trips_finite: "finite (dom (rl_attestations l)) \<Longrightarrow> finite (trips_of l d mark)"
  by (erule rev_finite_subset) (auto simp: trips_of_def)

lemma trips_mono: "(\<And>a. mark a \<Longrightarrow> mark' a) \<Longrightarrow> trips_of l d mark \<subseteq> trips_of l d mark'"
  by (auto simp: trips_of_def)

lemma trips_same: "rl_attestations l' = rl_attestations l \<Longrightarrow> trips_of l' = trips_of l"
  by (simp add: fun_eq_iff trips_of_def)

lemma trips_add:
  assumes "rl_attestations l k = None" and "rl_attestations l' = (rl_attestations l)(k \<mapsto> a)"
  shows "trips_of l' d mark = (if d = at_driver a \<and> mark a then insert k (trips_of l d mark) else trips_of l d mark)"
  using assms by (auto simp: trips_of_def)

lemma trips_card_add:
  assumes "rl_attestations l k = None" and "rl_attestations l' = (rl_attestations l)(k \<mapsto> a)"
    and "finite (dom (rl_attestations l))"
  shows "card (trips_of l' d mark) = card (trips_of l d mark) + (if d = at_driver a \<and> mark a then 1 else 0)"
proof -
  have "k \<notin> trips_of l d mark" using assms(1) by (simp add: trips_of_def)
  with trips_finite [OF assms(3), of d mark] show ?thesis by (cases "d = at_driver a") (simp_all add: trips_add [OF assms(1,2)])
qed

lemma add_trip_unat:
  assumes "add_trip ot df r = Some r'"
  shows "unat (re_totalTrips r') = unat (re_totalTrips r) + 1 \<and>
    unat (re_onTimeTrips r') = unat (re_onTimeTrips r) + (if ot then 1 else 0) \<and>
    unat (re_disputeFreeTrips r') = unat (re_disputeFreeTrips r) + (if df then 1 else 0)"
  using assms by (auto simp: add_trip_def dest: bump_unat split: option.splits)

lemma attest_inv:
  assumes "attest E g trip d h ot df sd ss l = Inr l'" and inv: "ledger_inv E l"
  shows "ledger_inv E l'"
  using assms(1)
proof (cases rule: attest_cases)
  case (1 r)
  have fin: "finite (dom (rl_attestations l))" using inv by (simp add: ledger_inv_def)
  have "attested E trip \<lparr>at_tripId = trip, at_driver = d, at_shipper = h, at_onTime = ot, at_disputeFree = df,
      at_attestedAt = of_nat (block_timestamp g)\<rparr>"
    using 1 by (simp add: attested_def)
  then have "\<forall>k a. rl_attestations l' k = Some a \<longrightarrow> attested E k a" using inv 1(8) by (auto simp: ledger_inv_def)
  moreover have "counted l' x" for x
    using inv add_trip_unat [OF 1(7)] trips_card_add [OF 1(2,8) fin] 1(9) by (auto simp: counted_def ledger_inv_def)
  ultimately show ?thesis using fin 1(8) by (simp add: ledger_inv_def)
qed

lemma ledger_inv_cong:
  "rl_attestations l' = rl_attestations l \<Longrightarrow> rl_reputation l' = rl_reputation l \<Longrightarrow> ledger_inv E l \<Longrightarrow> ledger_inv E l'"
  using trips_same [of l' l] by (simp add: ledger_inv_def counted_def)

lemma ledger_step_inv:
  assumes "ledger_step E l l'" and inv: "ledger_inv E l" shows "ledger_inv E l'"
  using assms(1)
proof cases
  case 1
  from admin_keeps_ledger(1) [OF this] inv show ?thesis by (blast intro: ledger_inv_cong)
next
  case 2
  from admin_keeps_ledger(2) [OF this] inv show ?thesis by (blast intro: ledger_inv_cong)
next
  case 3
  then show ?thesis using inv by (rule attest_inv)
qed

lemma ledger_inv_deployed: "ledger_inv E (ledger_deployed a)"
  by (simp add: ledger_inv_def counted_def trips_of_def ledger_deployed_def no_reputation_def)

lemma reachable_ledger_inv: "reachable_ledger E l \<Longrightarrow> ledger_inv E l"
  by (induction rule: reachable_ledger.induct) (auto intro: ledger_inv_deployed ledger_step_inv)

text \<open>An attestation stays, and no counter ever goes down.\<close>

lemma ledger_step_keeps: "ledger_step E l l' \<Longrightarrow> rl_attestations l k = Some a \<Longrightarrow> rl_attestations l' k = Some a"
  by (erule ledger_step_cases) (simp add: admin_keeps_ledger(1), simp add: admin_keeps_ledger(2), erule attest_cases, auto)

interpretation attestations: write_once "\<lambda>l. rl_attestations l" "ledger_step E"
  by unfold_locales (rule ledger_step_keeps)

lemma trips_grow:
  assumes "(ledger_step E)\<^sup>*\<^sup>* l l'" shows "trips_of l d mark \<subseteq> trips_of l' d mark"
  using attestations.run_keeps [OF assms] by (auto simp: trips_of_def)

lemma reachable_ledger_run: "(ledger_step E)\<^sup>*\<^sup>* l l' \<Longrightarrow> reachable_ledger E l \<Longrightarrow> reachable_ledger E l'"
  by (induction rule: rtranclp_induct) (auto intro: reachable_ledger.step)

lemma inv_count:
  assumes "ledger_inv E l"
  shows "unat (re_totalTrips (rl_reputation l d)) = card (trips_of l d (\<lambda>_. True))"
    and "unat (re_onTimeTrips (rl_reputation l d)) = card (trips_of l d at_onTime)"
    and "unat (re_disputeFreeTrips (rl_reputation l d)) = card (trips_of l d at_disputeFree)"
    and "card (trips_of l d mark) \<le> card (trips_of l d (\<lambda>_. True))"
  using assms trips_finite [of l d] card_mono [OF trips_finite trips_mono [of mark "\<lambda>_. True"]]
  by (auto simp: ledger_inv_def counted_def)

text \<open>A rate is a fraction of the trips, and 1 exactly when every trip has the mark.\<close>

lemma trip_rate_unit: "k \<le> n \<Longrightarrow> 0 \<le> trip_rate k n \<and> trip_rate k n \<le> 1"
  by (simp add: trip_rate_def)

lemma trip_rate_one: "k \<le> n \<Longrightarrow> trip_rate k n = 1 \<longleftrightarrow> 0 < n \<and> k = n"
  by (auto simp: trip_rate_def)

section \<open>The claims against the custody contract\<close>

text \<open>
  What a delivery's counts derive is what the contract stored; a dispute marked later is in no count.
\<close>

lemma derived_from_delivery:
  assumes "manifest_inv E k m" and "cm_status m = Delivered \<or> cm_status m = Short"
  shows "deriveDisputeFree (Some (uint (cm_pieceCount m))) (Some (uint (cm_deliveredCount m))) \<longleftrightarrow> cm_status m = Delivered"
  using assms by (auto simp: manifest_inv_def status_ok_def deriveDisputeFree_def word_less_def)

lemma dispute_not_derived:
  assumes "markDisputed g k c = Inr c'"
  shows "deriveDisputeFree (Some (uint (cm_pieceCount (ch_manifests c' k)))) (Some (uint (cm_deliveredCount (ch_manifests c' k)))) =
    deriveDisputeFree (Some (uint (cm_pieceCount (ch_manifests c k)))) (Some (uint (cm_deliveredCount (ch_manifests c k))))"
  using assms by (auto simp: markDisputed_def Let_def split: if_splits)

end
