(* ===== verification/Chain_Reader.thy ===== *)
theory Chain_Reader imports Escrow Reputation Merkle_Proofs begin

text \<open>
  \<open>chain/sdk/verify.ts\<close>: what a bank, an insurer or a lender reads off the contracts without a key, and the
  contracts' getters behind it. A question that takes two reads may see the chain at two moments.
\<close>

section \<open>Documents\<close>

text \<open>\<open>getDocument\<close>; an entry that was never written has \<open>exists\<close> false, which is no entry here.\<close>

definition getDocument :: "string \<Rightarrow> doc_registry \<Rightarrow> doc option" where
  "getDocument docHash c = dg_docs c docHash"

definition hashDocument :: "('e) env_scheme \<Rightarrow> string \<Rightarrow> string" where
  "hashDocument E fileBytes = keccak E fileBytes"

text \<open>The answer on the file, from the register as it is at the first read and at the second.\<close>

definition verifyDocument ::
  "('e) env_scheme \<Rightarrow> string \<Rightarrow> doc_registry \<Rightarrow> doc_registry \<Rightarrow> exn + (string \<times> doc option) option"
where
  "verifyDocument E fileBytes c c' =
     (let docHash = hashDocument E fileBytes in
      case abi_bytes32 docHash of
        None \<Rightarrow> Inl abi_error
      | Some h \<Rightarrow> if \<not> isRegistered h c then Inr None else Inr (Some (docHash, getDocument h c')))"

section \<open>Tracks, custody, reputation\<close>

definition verifyPingOnChain ::
  "('e) chain_env_scheme \<Rightarrow> string \<Rightarrow> nat \<Rightarrow> sdk_ping \<Rightarrow> string list \<Rightarrow> (trip_log, bool) exec"
where
  "verifyPingOnChain E tripId batchIndex ping proof =
     bindE (need (abi_bytes32 tripId) abi_error) (\<lambda>k.
     bindE (lift_sum (sdk_pingLeaf E ping)) (\<lambda>leaf.
     bindE (need (those (map abi_bytes32 proof)) abi_error) (\<lambda>pf.
     bindE (reads (verifyPing E k batchIndex leaf pf)) (\<lambda>r.
     case r of Inl _ \<Rightarrow> raise reverted | Inr ok \<Rightarrow> return ok))))"

definition getManifestStatus :: "string \<Rightarrow> (chain, nat) exec" where
  "getManifestStatus manifestId =
     bindE (need (abi_bytes32 manifestId) abi_error) (\<lambda>k.
     reads (\<lambda>c. status_number (cm_status (ch_manifests c k))))"

definition getDriverReputation :: "('e) chain_env_scheme \<Rightarrow> string \<Rightarrow> (ledger, nat \<times> nat \<times> nat \<times> rat \<times> rat) exec" where
  "getDriverReputation E drv =
     bindE (need (abi_address E drv) abi_error) (\<lambda>a.
     bindE (reads (getReputation a)) (\<lambda>rep.
     let totalTrips = unat (re_totalTrips rep); onTimeTrips = unat (re_onTimeTrips rep);
         disputeFreeTrips = unat (re_disputeFreeTrips rep) in
     return (totalTrips, onTimeTrips, disputeFreeTrips,
       if 0 < totalTrips then of_nat onTimeTrips / of_nat totalTrips else 0,
       if 0 < totalTrips then of_nat disputeFreeTrips / of_nat totalTrips else 0)))"

section \<open>What the readers can rely on\<close>

text \<open>A file that is registered when it is asked for is found at every later read, with the same record.\<close>

lemma verify_registered:
  assumes "abi_bytes32 (keccak E f) = Some h" and "dg_docs c h = Some d" and "doc_step\<^sup>*\<^sup>* c c1" and "doc_step\<^sup>*\<^sup>* c1 c2"
  shows "verifyDocument E f c1 c2 = Inr (Some (keccak E f, Some d))"
proof -
  have "dg_docs c1 h = Some d" by (rule doc_contract.run_keeps [OF assms(3,2)])
  moreover from this have "dg_docs c2 h = Some d" by (rule doc_contract.run_keeps [OF assms(4)])
  ultimately show ?thesis using assms(1) by (simp add: verifyDocument_def hashDocument_def isRegistered_def getDocument_def)
qed

lemma verify_unregistered:
  "abi_bytes32 (keccak E f) = Some h \<Longrightarrow> dg_docs c h = None \<Longrightarrow> verifyDocument E f c c' = Inr None"
  by (simp add: verifyDocument_def hashDocument_def isRegistered_def)

text \<open>The two ways to rates agree.\<close>

lemma driver_reputation_summary:
  "getDriverReputation E drv l = (case abi_address E drv of None \<Rightarrow> (Inl abi_error, l)
     | Some a \<Rightarrow> let s = summarize_reputation drv (rl_reputation l a) in
         (Inr (su_totalTrips s, su_onTimeTrips s, su_disputeFreeTrips s, su_onTimeRate s, su_disputeFreeRate s), l))"
  by (simp add: getDriverReputation_def summarize_reputation_def trip_rate_def getReputation_def Let_def bindE_def need_def
      reads_def return_def split: option.split)

text \<open>The number of a status is the one the escrow and the handoff compare with.\<close>

lemma status_number_inj: "status_number s = status_number t \<longleftrightarrow> s = t"
  by (cases s; cases t) simp_all

end
