(* ===== verification/Settlement_Properties.thy ===== *)
theory Settlement_Properties imports Platform_Samples Chain_Reader begin

text \<open>
  Money and papers: from a signed delivery to the payout, the gateway's webhooks, collections,
  anchored documents and claims packets.
\<close>

section \<open>Payouts\<close>

text \<open>
  The platform's HTTP answer to the release gate: 201 when the handler returns, an error status
  when it throws.
\<close>

definition platform_answer ::
  "('e) plat_env_scheme \<Rightarrow> string \<Rightarrow> int \<Rightarrow> platform \<Rightarrow> string \<Rightarrow> string \<Rightarrow> nat"
where
  "platform_answer F secret now s body sig =
     (case parse body of
        None \<Rightarrow> 400
      | Some j \<Rightarrow> (case fst (handleReleaseGate F secret now (Some sig) j s) of Inr _ \<Rightarrow> 201 | Inl _ \<Rightarrow> 400))"

text \<open>C2: From delivery to payout: when the release gate's evaluation is releasable, the request it signs and
  sends is one the platform accepts, as read back from its text and over the same chain; the gate reports
  the release, and exactly the payments of that booking that were paid and held are released, nothing else.\<close>

theorem releasable_delivery_is_paid_out:
  assumes ev: "evaluate E S now k w = (Inr dec, w1)" and rel: "de_releasable dec"
    and m: "get_manifest E (sp_ctx S) k (w_db w1) = (Inr (Some m), w_db w1)" and b: "is_uuid (m_bookingId m)"
    and chain: "w_chain (pf_world s) = w_chain w"
  shows "requestPayout E (hmac_hex F) secret (platform_answer F secret now' s) S now k w =
      (Inr (True, reason_name (de_reason dec)), w1) \<and>
    (\<exists>s'. handleReleaseGate F secret now' (Some (hmac_hex F secret (payout_body m))) (payout_json m) s = (Inr True, s') \<and>
       pl_payments (pf_tables s') = map (\<lambda>p. if py_bookingId p = m_bookingId m \<and> py_status p = PAID \<and> py_payout p = HELD
         then p\<lparr>py_payout := RELEASED, py_payoutAt := Some now'\<rparr> else p) (pl_payments (pf_tables s)) \<and>
       pf_tables s' = (pf_tables s)\<lparr>pl_payments := pl_payments (pf_tables s')\<rparr>)"
proof -
  from evaluate_success [OF ev] obtain rec where
    k: "is_bytes32 k" and dec: "dec = decide k rec (cm_status (ch_manifests (w_chain w) k)) (ch_isReleasable k (w_chain w))"
    by blast
  have mk: "m_manifestId m = k" using get_success [OF m] by simp
  have ok: "ch_isReleasable (m_manifestId m) (w_chain (pf_world s))"
    using rel by (simp add: dec decide_def mk chain)
  from release_gate_accepts [OF _ b ok, of F secret now'] k mk obtain s' where
    s': "handleReleaseGate F secret now' (Some (hmac_hex F secret (payout_body m))) (payout_json m) s = (Inr True, s')"
      "pf_tables s' = paid_out now' (m_bookingId m) (pf_tables s)" by auto
  have "platform_answer F secret now' s (payout_body m) (hmac_hex F secret (payout_body m)) = 201"
    by (simp add: platform_answer_def payout_body_parses s'(1))
  then have "requestPayout E (hmac_hex F) secret (platform_answer F secret now' s) S now k w =
      (Inr (True, reason_name (de_reason dec)), w1)"
    using ev rel m by (simp add: requestPayout_def bindE_def on_db_def Let_def need_def)
  with s' show ?thesis
    by (auto simp: paid_out_def put_payments_def set_rows_def update_where_def visible_def)
qed

definition delivered_platform :: platform where
  "delivered_platform = toy_platform (tables_of [under_way] [toy_truck ON_TRIP] [toy_payment PAID])
     (toy_world full_count chain_delivered)"

lemma toy_evaluated:
  "evaluate toy_env toy_scope 14000 HASH (toy_world full_count chain_delivered) =
     (Inr released, \<lparr>w_db = (toy_db full_count)\<lparr>db_states := [new_state CO 14000
       (record_of HASH (ch_manifests chain_delivered HASH))]\<rparr>, w_chain = chain_delivered, w_audit = []\<rparr>)"
proof -
  obtain w' where run: "evaluate toy_env toy_scope 14000 HASH (toy_world full_count chain_delivered) = (Inr released, w')"
    using toy_released by blast
  from evaluate_success [OF this] obtain cu where
    "sync toy_scope 14000 HASH (toy_world full_count chain_delivered) = (Inr cu, w')" by blast
  moreover have "cm_deliveredCount (ch_manifests chain_delivered HASH) \<le> cm_pieceCount (ch_manifests chain_delivered HASH)"
    by (simp add: delivered_facts carried_def toy_manifest_def)
  ultimately show ?thesis using run toy_sync [of chain_delivered 14000 full_count] by auto
qed

theorem releasable_delivery_is_paid_out_witness:
  "\<exists>s'. handleReleaseGate toy_plat ''k'' 15000 (Some (hmac_hex toy_plat ''k'' (payout_body toy_doc))) (payout_json toy_doc)
       delivered_platform = (Inr True, s') \<and>
     pl_payments (pf_tables s') = [(toy_payment PAID)\<lparr>py_payout := RELEASED, py_payoutAt := Some 15000\<rparr>]"
proof -
  have "get_manifest toy_env ctx j (d\<lparr>db_states := ss\<rparr>) =
      (fst (get_manifest toy_env ctx j d), d\<lparr>db_states := ss\<rparr>)" for ctx j d ss
    by (simp add: get_manifest_def select_manifest_def row_manifest_def piecesFor_def split: option.split)
  then have m: "get_manifest toy_env (sp_ctx toy_scope) HASH ((toy_db full_count)\<lparr>db_states := ss\<rparr>) =
      (Inr (Some toy_doc), (toy_db full_count)\<lparr>db_states := ss\<rparr>)" for ss
    by (simp add: toy_get)
  have "de_releasable released" by (simp add: released_def decide_def toy_result_def)
  moreover have "is_uuid (m_bookingId toy_doc)" by (simp add: toy_doc_def)
  moreover have "w_chain (pf_world delivered_platform) = w_chain (toy_world full_count chain_delivered)"
    by (simp add: delivered_platform_def toy_world_def)
  ultimately obtain s' where
    run: "handleReleaseGate toy_plat ''k'' 15000 (Some (hmac_hex toy_plat ''k'' (payout_body toy_doc))) (payout_json toy_doc)
       delivered_platform = (Inr True, s')" and
    pay: "pl_payments (pf_tables s') = map (\<lambda>p. if py_bookingId p = m_bookingId toy_doc \<and> py_status p = PAID \<and> py_payout p = HELD
         then p\<lparr>py_payout := RELEASED, py_payoutAt := Some 15000\<rparr> else p) (pl_payments (pf_tables delivered_platform))"
    using releasable_delivery_is_paid_out [OF toy_evaluated, of toy_doc delivered_platform toy_plat "''k''" 15000] m by auto
  have "py_bookingId (toy_payment PAID) = m_bookingId toy_doc" "py_status (toy_payment PAID) = PAID"
    "py_payout (toy_payment PAID) = HELD" by (simp_all add: toy_payment_def toy_doc_def)
  with run pay show ?thesis by (simp add: delivered_platform_def)
qed

text \<open>C3: The release webhook trusts no caller about the delivery: whatever body and signature arrive, the
  tables change only if the signature is the keyed hash of that body and the contract itself says now that
  the manifest named in the body is releasable, which on a reachable chain means delivered in full and
  signed by its receiver; and then only payments paid and held change, to released.\<close>

theorem payout_needs_the_chain:
  assumes run: "handleReleaseGate E secret now sig body s = (r, s')" and moved: "pf_tables s' \<noteq> pf_tables s"
    and reach: "reachable_chain D (w_chain (pf_world s))"
  shows "coalesce sig [] = hmac_hex E secret (stringify body) \<and>
    (\<exists>k. json_member ''manifestId'' body = Some (JStr k) \<and>
       cm_status (ch_manifests (w_chain (pf_world s)) (to_lower k)) = Delivered \<and>
       cm_receiverSigned (ch_manifests (w_chain (pf_world s)) (to_lower k))) \<and>
    (\<exists>j. json_member ''bookingId'' body = Some j \<and> pf_tables s' = paid_out now (param_text j) (pf_tables s))"
proof (cases r)
  case (Inr x)
  from handleReleaseGate_success [OF run [unfolded Inr]] moved obtain k k' where
    a: "coalesce sig [] = hmac_hex E secret (stringify body)" "json_member ''manifestId'' body = Some (JStr k)"
      "abi_bytes32 k = Some k'" "ch_isReleasable k' (w_chain (pf_world s))"
      "\<exists>j. json_member ''bookingId'' body = Some j \<and> pf_tables s' = paid_out now (param_text j) (pf_tables s)"
    by auto
  have inv: "chain_inv D (w_chain (pf_world s))" using reach by (rule reachable_chain_inv)
  have "k' = to_lower k" using a(3) by (auto simp: abi_bytes32_def split: if_splits)
  moreover have "cm_status (ch_manifests (w_chain (pf_world s)) k') = Delivered" using a(4) chain_releasable [OF inv] by simp
  moreover from this inv have "cm_receiverSigned (ch_manifests (w_chain (pf_world s)) k')"
    by (auto simp: chain_inv_def manifest_inv_def status_ok_def dest: spec [of _ k'])
  ultimately show ?thesis using a by blast
next
  case (Inl e)
  with run have "pf_tables s' = pf_tables s" by (auto dest: handleReleaseGate_failure)
  with moved show ?thesis by simp
qed

theorem payout_needs_the_chain_witness:
  "\<exists>s'. handleReleaseGate toy_plat ''k'' 15000 (Some (hmac_hex toy_plat ''k'' (payout_body toy_doc))) (payout_json toy_doc)
       delivered_platform = (Inr True, s') \<and> cm_receiverSigned (ch_manifests chain_delivered (to_lower HASH))"
proof -
  have ok: "ch_isReleasable (m_manifestId toy_doc) (w_chain (pf_world delivered_platform))"
    by (simp add: delivered_platform_def toy_world_def ch_isReleasable_def delivered_facts carried_def toy_manifest_def
        toy_doc_def Let_def)
  have ids: "is_bytes32 (m_manifestId toy_doc)" "is_uuid (m_bookingId toy_doc)" by (simp_all add: toy_doc_def)
  from release_gate_accepts [OF ids ok, of toy_plat "''k''" 15000] obtain s' where
    run: "handleReleaseGate toy_plat ''k'' 15000 (Some (hmac_hex toy_plat ''k'' (payout_body toy_doc))) (payout_json toy_doc)
       delivered_platform = (Inr True, s')" and t: "pf_tables s' = paid_out 15000 (m_bookingId toy_doc) (pf_tables delivered_platform)"
    by blast
  have "pl_payments (pf_tables s') \<noteq> pl_payments (pf_tables delivered_platform)"
    by (simp add: t paid_out_def put_payments_def set_rows_def visible_def delivered_platform_def toy_payment_def toy_doc_def)
  then have "pf_tables s' \<noteq> pf_tables delivered_platform" by metis
  moreover have "reachable_chain toy_env (w_chain (pf_world delivered_platform))"
    by (simp add: delivered_platform_def toy_world_def stages_reachable)
  ultimately show ?thesis using payout_needs_the_chain [OF run] run
    by (auto simp: payout_json_def json_member_def toy_doc_def delivered_platform_def toy_world_def)
qed

section \<open>Collections\<close>

text \<open>However often the gateway repeats its events, and in whatever order a captured and a failed report of
  one order arrive, the payments end as if only the first event of each order had been delivered once.\<close>

theorem repeated_webhooks_do_no_harm:
  assumes "\<forall>e \<in> set es. ge_order e \<noteq> []" and "\<And>k m. hmac_hex E k m \<noteq> []"
  shows "\<exists>s'. for_each (deliver_event E secret) es s = (Inr (), s') \<and>
    for_each (deliver_event E secret) (first_per ge_order es) s = (Inr (), s') \<and>
    distinct (map ge_order (first_per ge_order es))"
proof -
  have sub: "set (first_per ge_order es) \<subseteq> set es" for es :: "gateway_event list" by (induction es) auto
  with assms(1) have "\<forall>e \<in> set (first_per ge_order es). ge_order e \<noteq> []" by blast
  from deliver_events_run [OF this assms(2), of secret s] deliver_events_run [OF assms, of secret s]
  show ?thesis by (simp add: gateway.fold_first_per first_per_distinct)
qed

theorem repeated_webhooks_do_no_harm_witness:
  "\<exists>s'. for_each (deliver_event toy_plat ''k'') [\<lparr>ge_at = 1, ge_captured = True, ge_order = gateway_order_id BOOKING\<rparr>,
       \<lparr>ge_at = 2, ge_captured = False, ge_order = gateway_order_id BOOKING\<rparr>]
       (toy_platform (tables_of [] [] [toy_payment PENDING]) fresh_world) = (Inr (), s') \<and>
     pl_payments (pf_tables s') = [(toy_payment PENDING)\<lparr>py_status := PAID, py_paidAt := Some 1\<rparr>]"
proof -
  let ?s = "toy_platform (tables_of [] [] [toy_payment PENDING]) fresh_world"
  let ?e = "\<lparr>ge_at = 1, ge_captured = True, ge_order = gateway_order_id BOOKING\<rparr>"
  let ?es = "[?e, \<lparr>ge_at = 2, ge_captured = False, ge_order = gateway_order_id BOOKING\<rparr>]"
  have ne: "gateway_order_id BOOKING \<noteq> []" "hmac_hex toy_plat k m \<noteq> []" for k m
    by (simp_all add: gateway_order_id_def)
  from repeated_webhooks_do_no_harm [of ?es toy_plat "''k''" ?s] ne obtain s' where
    all: "for_each (deliver_event toy_plat ''k'') ?es ?s = (Inr (), s')" and
    one: "for_each (deliver_event toy_plat ''k'') [?e] ?s = (Inr (), s')" by auto
  have "deliver_event toy_plat ''k'' ?e ?s = (Inr (), ?s\<lparr>pf_tables := event_effect ?e (pf_tables ?s)\<rparr>)"
    by (rule deliver_event_run) (simp_all add: ne)
  with one have "pf_tables s' = event_effect ?e (tables_of [] [] [toy_payment PENDING])" by (auto simp: bindE_def)
  with all show ?thesis by (simp add: event_effect_eq toy_payment_def)
qed

text \<open>The gateway's order id is made of the booking alone and must be unique, so a booking has one collection
  for ever: once a payment row for it exists, also one that failed, every further collection request of its
  company is refused and changes no table.\<close>

theorem failed_collection_cannot_be_retried:
  assumes "payments_ok (pf_tables s)" and "p \<in> set (pl_payments (pf_tables s))" and "py_bookingId p = cl_bookingId d"
  shows "\<exists>e s'. createCollection c u k d s = (Inl e, s') \<and> pf_tables s' = pf_tables s"
proof -
  obtain r s' where run: "createCollection c u k d s = (r, s')" by force
  show ?thesis
  proof (cases r)
    case (Inl e)
    with run show ?thesis unfolding createCollection_def by (auto dest: tenantTx_failure)
  next
    case (Inr q)
    with createCollection_ok [of c u k d s q s'] run assms show ?thesis by blast
  qed
qed

theorem failed_collection_cannot_be_retried_witness:
  "\<exists>e s'. createCollection CO ''user-1'' ''pay-2'' \<lparr>cl_bookingId = BOOKING, cl_amountInr = 100, cl_method = ''UPI''\<rparr>
     (toy_platform (tables_of [toy_booking BOOKING] [] [toy_payment FAILED]) fresh_world) = (Inl e, s')"
  using failed_collection_cannot_be_retried
    [of "toy_platform (tables_of [toy_booking BOOKING] [] [toy_payment FAILED]) fresh_world" "toy_payment FAILED"
      "\<lparr>cl_bookingId = BOOKING, cl_amountInr = 100, cl_method = ''UPI''\<rparr>" CO "''user-1''" "''pay-2''"]
  by (auto simp: payments_ok_def toy_payment_def)

section \<open>Documents\<close>

text \<open>C21: A document that was issued is on the register under the hash of its bytes, for its booking's trip and of
  its type, and stays exactly so whatever transactions follow; anyone who checks the bytes later is told so,
  even when other transactions come between the two reads of the check; and no later request, for whatever
  booking and company, can issue the same content again: it fails and changes no table.\<close>

theorem document_is_anchored_once:
  assumes gen: "generate_document E c u now tx k bk ty payload s = (Inr r, s1)"
    and run: "doc_step\<^sup>*\<^sup>* (pf_registry s1) (pf_registry s2)"
  defines "h \<equiv> hash_of_doc E ty payload"
  shows "(\<exists>b d. booking_at (Tenant c) bk (pf_tables s) = Some b \<and> dg_docs (pf_registry s) h = None \<and>
      dg_docs (pf_registry s2) h = Some d \<and> do_tripId d = to_lower (booking_trip E b) \<and> do_docType d = DOC_TYPE_MAP ty \<and>
      (\<forall>c3. doc_step\<^sup>*\<^sup>* (pf_registry s2) c3 \<longrightarrow>
         verifyDocument E (render ty payload) (pf_registry s2) c3 = Inr (Some (dc_docHash r, Some d)))) \<and>
    (\<forall>c' u' now' tx' k' bk'. \<exists>e s3. generate_document E c' u' now' tx' k' bk' ty payload s2 = (Inl e, s3) \<and>
       pf_tables s3 = pf_tables s2)"
proof -
  from generate_success [OF gen] obtain b t where
    b: "booking_at (Tenant c) bk (pf_tables s) = Some b" and t: "abi_bytes32 (booking_trip E b) = Some t" and
    reg: "ch_registerDocument (platform_msg E (nat (now div 1000))) h t (DOC_TYPE_MAP ty) (pf_registry s) = Inr (pf_registry s1)"
    and hash: "dc_docHash r = keccak E (render ty payload)" "abi_bytes32 (keccak E (render ty payload)) = Some h"
    unfolding h_def by blast
  note facts = register_cases [OF reg]
  from facts(4) obtain d where d: "dg_docs (pf_registry s1) h = Some d" "do_tripId d = t" "do_docType d = DOC_TYPE_MAP ty" by simp
  note kept = doc_contract.run_keeps [OF run d(1)]
  have "t = to_lower (booking_trip E b)" using t by (auto simp: abi_bytes32_def split: if_splits)
  moreover have "\<exists>e s3. generate_document E c' u' now' tx' k' bk' ty payload s2 = (Inl e, s3) \<and> pf_tables s3 = pf_tables s2"
    for c' u' now' tx' k' bk'
  proof -
    obtain q s3 where again: "generate_document E c' u' now' tx' k' bk' ty payload s2 = (q, s3)" by force
    show ?thesis
    proof (cases q)
      case (Inl e)
      with again show ?thesis unfolding generate_document_def by (auto dest: tenantTx_failure)
    next
      case (Inr r')
      from generate_success [OF again [unfolded Inr]] obtain t' where
        "ch_registerDocument (platform_msg E (nat (now' div 1000))) h t' (DOC_TYPE_MAP ty) (pf_registry s2) = Inr (pf_registry s3)"
        unfolding h_def by blast
      from register_cases(3) [OF this] kept show ?thesis by simp
    qed
  qed
  moreover have "verifyDocument E (render ty payload) (pf_registry s2) c3 = Inr (Some (dc_docHash r, Some d))"
    if "doc_step\<^sup>*\<^sup>* (pf_registry s2) c3" for c3
    using verify_registered [OF hash(2) d(1) run that] hash(1) by simp
  ultimately show ?thesis using b facts(3) kept d by blast
qed

definition one_booking :: platform where
  "one_booking = toy_platform (tables_of [toy_booking BOOKING] [toy_truck AVAILABLE] []) fresh_world"

theorem document_is_anchored_once_witness:
  "\<exists>r s1 d. generate_document toy_plat CO ''user-1'' 9000 ''0xtx'' ''doc-1'' BOOKING POD JNull one_booking = (Inr r, s1) \<and>
     dg_docs (pf_registry s1) HASH = Some d \<and> do_tripId d = TRIP"
proof -
  have low: "to_lower HASH = HASH" "to_lower TRIP = TRIP" by (simp_all add: to_lower_bytes32)
  have abi: "abi_bytes32 HASH = Some HASH" "abi_bytes32 TRIP = Some TRIP" by (simp_all add: lower_bytes32)
  have msg: "msg_sender (platform_msg toy_plat n) = PLATFORM" for n by (simp add: platform_msg_def toy_plat_def)
  have trip: "booking_trip toy_plat (toy_booking BOOKING) = TRIP" by (simp add: booking_trip_def)
  have "\<exists>c'. registerDocument toy_plat 9 ''0xtx'' HASH TRIP DPOD open_registry = (Inr ''0xtx'', c')"
    using HASH_ok(2) by (simp add: registerDocument_def abi ch_registerDocument_def msg open_registry_def doc_deployed_def)
  then obtain c' where reg: "registerDocument toy_plat 9 ''0xtx'' HASH TRIP DPOD open_registry = (Inr ''0xtx'', c')" by blast
  have "\<exists>r s1. generate_document toy_plat CO ''user-1'' 9000 ''0xtx'' ''doc-1'' BOOKING POD JNull one_booking = (Inr r, s1)"
    by (simp add: generate_document_def tenantTx_def plat_tx_def bindE_def select_booking_def one_booking_def need_def
        company_phone_def on_registry_def trip reg Let_def need_tenant_def throw_if_def need_fresh_def on_tables_def
        plat_audit_run fresh_world_def empty_db_def toy_platform_def tables_of_def booking_at_def first_row_def visible_def)
  then obtain r s1 where run: "generate_document toy_plat CO ''user-1'' 9000 ''0xtx'' ''doc-1'' BOOKING POD JNull one_booking = (Inr r, s1)"
    by blast
  from document_is_anchored_once [OF run rtranclp.rtrancl_refl] obtain b d where
    "booking_at (Tenant CO) BOOKING (pf_tables one_booking) = Some b"
    "dg_docs (pf_registry s1) (hash_of_doc toy_plat POD JNull) = Some d" "do_tripId d = to_lower (booking_trip toy_plat b)"
    by blast
  with run trip low show ?thesis by (auto simp: one_booking_def hash_of_doc_def)
qed

section \<open>Claims\<close>

text \<open>A claims packet is built from what the contracts say at that moment: every anchored batch of the trip in
  order with its root and window, the booking's documents by age, its policy, and the custody status of its
  manifest; it is stored with the hash of its text. Reading it back through the API always fails, because
  the stored object is parsed a second time.\<close>

theorem claims_packet_shows_the_chain:
  assumes "buildPacket E refs c u now k bk s = (Inr row, s')"
  shows "(\<exists>b t status. booking_at (Tenant c) bk (pf_tables s) = Some b \<and> abi_bytes32 (booking_trip E b) = Some t \<and>
      (let bs = tl_batches (gw_log (pf_gps s)) t in
       cp_packet row = claims_packet E refs now b (map (\<lambda>i. batch_json i (bs ! i)) [0 ..< length bs])
         (sort_key dc_createdAt (documents_of (Tenant c) bk (pf_tables s))) status
         (first_row (Tenant c) po_companyId (\<lambda>p. po_bookingId p = bk) (pl_policies (pf_tables s)))) \<and>
      cp_packetHash row = keccak E (stringify (cp_packet row)) \<and>
      (\<forall>mid. bk_manifestId b = Some mid \<and> mid \<noteq> [] \<longrightarrow>
         status = Some (status_number (cm_status (ch_manifests (w_chain (pf_world s)) (to_lower mid)))))) \<and>
    (\<exists>s3. getPacket c bk s' = (Inl (Error ''SyntaxError''), s3))"
proof -
  from buildPacket_success [OF assms] obtain b t status where
    a: "booking_at (Tenant c) bk (pf_tables s) = Some b" "abi_bytes32 (booking_trip E b) = Some t" and
    p: "cp_packet row = claims_packet E refs now b
        (map (\<lambda>i. batch_json i (tl_batches (gw_log (pf_gps s)) t ! i)) [0 ..< length (tl_batches (gw_log (pf_gps s)) t)])
         (sort_key dc_createdAt (documents_of (Tenant c) bk (pf_tables s))) status
         (first_row (Tenant c) po_companyId (\<lambda>p. po_bookingId p = bk) (pl_policies (pf_tables s)))"
      "cp_companyId row = c" "cp_packetHash row = keccak E (stringify (cp_packet row))"
      "find (\<lambda>r. cp_bookingId r = bk) (pl_packets (pf_tables s')) = Some row" and
    st: "case bk_manifestId b of
       Some mid \<Rightarrow> mid \<noteq> [] \<longrightarrow> status = Some (status_number (cm_status (ch_manifests (w_chain (pf_world s)) (to_lower mid))))
     | None \<Rightarrow> status = None"
    unfolding Let_def by auto
  have "first_row (Tenant c) cp_companyId (\<lambda>r. cp_bookingId r = bk) (pl_packets (pf_tables s')) = Some row"
  proof -
    have "find (\<lambda>r. visible (Tenant c) cp_companyId r \<and> cp_bookingId r = bk) rs = Some row"
      if "find (\<lambda>r. cp_bookingId r = bk) rs = Some row" for rs :: "packet_row list"
      using that p(2) by (induction rs) (auto simp: visible_def split: if_splits)
    with p(4) show ?thesis by (simp add: first_row_def)
  qed
  moreover obtain ms where "cp_packet row = JObj ms" using p(1) by (simp add: claims_packet_def)
  ultimately have "\<exists>s3. getPacket c bk s' = (Inl (Error ''SyntaxError''), s3)"
    by (simp add: getPacket_def tenantTx_def plat_tx_def bindE_def need_def object_text_no_json del: object_text.simps)
  moreover have "\<forall>mid. bk_manifestId b = Some mid \<and> mid \<noteq> [] \<longrightarrow>
      status = Some (status_number (cm_status (ch_manifests (w_chain (pf_world s)) (to_lower mid))))" using st by auto
  ultimately show ?thesis using a p unfolding Let_def by blast
qed

theorem claims_packet_shows_the_chain_witness:
  "\<exists>row s' s3. buildPacket toy_plat \<lparr>cr_tripLogAnchor = ''0xa'', cr_documentRegistry = ''0xb'', cr_custodyManifest = ''0xc''\<rparr>
       CO ''user-1'' 9000 ''packet-1'' BOOKING one_booking = (Inr row, s') \<and>
     getPacket CO BOOKING s' = (Inl (Error ''SyntaxError''), s3)"
proof -
  have abi: "abi_bytes32 TRIP = Some TRIP" by (simp add: lower_bytes32)
  have trip: "booking_trip toy_plat (toy_booking BOOKING) = TRIP" by (simp add: booking_trip_def)
  have gps: "gps_batches TRIP one_booking = (Inr [], one_booking)"
    using gps_batches_run [OF abi, of one_booking] by (simp add: one_booking_def toy_log_def trip_deployed_def)
  have "\<exists>row s'. buildPacket toy_plat \<lparr>cr_tripLogAnchor = ''0xa'', cr_documentRegistry = ''0xb'', cr_custodyManifest = ''0xc''\<rparr>
       CO ''user-1'' 9000 ''packet-1'' BOOKING one_booking = (Inr row, s')"
    by (simp add: buildPacket_def tenantTx_def plat_tx_def bindE_def select_booking_def need_def gps
        one_booking_def [THEN arg_cong, of pf_tables] one_booking_def [THEN arg_cong, of pf_world]
        trip custody_status_of_def truthy_def Let_def need_tenant_def throw_if_def on_tables_def upsert_packet_def
        plat_audit_run fresh_world_def empty_db_def)
  then obtain row s' where run: "buildPacket toy_plat \<lparr>cr_tripLogAnchor = ''0xa'', cr_documentRegistry = ''0xb'', cr_custodyManifest = ''0xc''\<rparr>
       CO ''user-1'' 9000 ''packet-1'' BOOKING one_booking = (Inr row, s')" by blast
  with claims_packet_shows_the_chain [OF run] show ?thesis by blast
qed

end
