(* ===== verification/Controllers.thy ===== *)
theory Controllers imports Back_Office Guards begin

text \<open>
  The controllers of \<open>platform/api\<close>. For each one: the calls its routes take (path and query
  parameters and the body), the metadata its decorators attach to each route, the validation rules
  of its DTOs, and the service operation each route runs. The guard, the order of the checks and the
  HTTP answer are in \<open>Api\<close>. A body of the wrong JSON shape is refused by the same rules; the model's
  calls carry bodies whose fields have their declared types.
\<close>

section \<open>What a request brings\<close>

text \<open>
  The validators of class-validator that are more than a comparison, as parameters: \<open>IsUUID\<close>,
  \<open>IsDateString\<close>, the length \<open>MaxLength\<close> measures; and the pipe \<open>ParseUUIDPipe\<close> and JavaScript's
  \<open>Number\<close> on a text, where only integers matter (a \<open>bigint\<close> parameter takes nothing else), and the
  value of a JSON number; and the MAC of access tokens.
\<close>

record api_env = plat_env +
  v_isUUID :: "string \<Rightarrow> bool"
  v_isDateString :: "string \<Rightarrow> bool"
  v_length :: "string \<Rightarrow> nat"
  pipe_uuid :: "string \<Rightarrow> bool"
  js_integer :: "string \<Rightarrow> int option"
  js_real :: "string \<Rightarrow> real"
  token_mac :: mac_fun

text \<open>The environment variables the handlers read.\<close>

record api_config =
  cf_tokenSecret :: string
  cf_gatewaySecret :: string
  cf_internalSecret :: string
  cf_callBridge :: "string option"
  cf_contracts :: contract_refs

text \<open>The clock, the fresh ids, the transaction hash and the random bytes of one request.\<close>

record draws =
  w_now :: int
  w_id :: string
  w_tx :: string
  w_blocks :: "nat list list"
  w_key :: string
  w_iv :: string
  w_code :: nat
  w_scan :: "nat \<Rightarrow> string \<times> int"

text \<open>What the guard left on the request.\<close>

record caller =
  req_companyId :: string
  req_userId :: string
  req_modules :: "platform_module list"

text \<open>Metadata: module of the class or the route, with one permission, any of several, none, or public.\<close>

definition requires :: "platform_module \<Rightarrow> permission \<Rightarrow> route" where
  "requires m p = \<lparr>rt_public = False, rt_module = Some m, rt_permission = Some p, rt_any = None, rt_roles = None\<rparr>"

definition requires_any :: "platform_module \<Rightarrow> permission list \<Rightarrow> route" where
  "requires_any m ps = \<lparr>rt_public = False, rt_module = Some m, rt_permission = None, rt_any = Some ps, rt_roles = None\<rparr>"

definition module_only :: "platform_module \<Rightarrow> route" where
  "module_only m = \<lparr>rt_public = False, rt_module = Some m, rt_permission = None, rt_any = None, rt_roles = None\<rparr>"

definition public_route :: "platform_module option \<Rightarrow> route" where
  "public_route m = \<lparr>rt_public = True, rt_module = m, rt_permission = None, rt_any = None, rt_roles = None\<rparr>"

lemmas route_defs = requires_def requires_any_def module_only_def public_route_def

text \<open>Verb and path of a route, a parameter as \<open>Par\<close>.\<close>

datatype verb = GET | POST | PATCH
datatype segment = Seg string | Par

type_synonym url = "verb \<times> segment list"

definition if_given :: "('a \<Rightarrow> bool) \<Rightarrow> 'a option \<Rightarrow> bool" where
  "if_given p x \<longleftrightarrow> (case x of None \<Rightarrow> True | Some v \<Rightarrow> p v)"

text \<open>A pattern of capitals and digits of fixed counts.\<close>

definition capital :: "char \<Rightarrow> bool" where "capital = in_range 65 90"
definition digit :: "char \<Rightarrow> bool" where "digit = in_range 48 57"

fun follows :: "(char \<Rightarrow> bool) list \<Rightarrow> string \<Rightarrow> bool" where
  "follows [] s \<longleftrightarrow> s = []"
| "follows (p # ps) [] \<longleftrightarrow> False"
| "follows (p # ps) (c # cs) \<longleftrightarrow> p c \<and> follows ps cs"

section \<open>Bookings\<close>

datatype bookings_call =
    CreateBooking booking_dto
  | GetBooking string
  | ListBookings
  | AssignTruck string string string
  | CancelBooking string "string option"

fun bookings_url :: "bookings_call \<Rightarrow> url" where
  "bookings_url (CreateBooking _) = (POST, [Seg ''bookings''])"
| "bookings_url (GetBooking _) = (GET, [Seg ''bookings'', Par])"
| "bookings_url ListBookings = (GET, [Seg ''bookings''])"
| "bookings_url (AssignTruck _ _ _) = (POST, [Seg ''bookings'', Par, Seg ''assign''])"
| "bookings_url (CancelBooking _ _) = (POST, [Seg ''bookings'', Par, Seg ''cancel''])"

fun bookings_route :: "bookings_call \<Rightarrow> route" where
  "bookings_route (CreateBooking _) = requires TRIPS TRIP_CREATE"
| "bookings_route (GetBooking _) = requires TRIPS TRIP_READ_ALL"
| "bookings_route ListBookings = requires TRIPS TRIP_READ_ALL"
| "bookings_route (AssignTruck _ _ _) = requires TRIPS TRIP_ASSIGN"
| "bookings_route (CancelBooking _ _) = requires TRIPS TRIP_CANCEL"

definition stop_valid :: "stop_dto \<Rightarrow> bool" where
  "stop_valid d \<longleftrightarrow> \<bar>sd_lat d\<bar> \<le> 90 \<and> \<bar>sd_lng d\<bar> \<le> 180 \<and> 0 \<le> sd_sequence d"

definition booking_valid :: "('e) api_env_scheme \<Rightarrow> booking_dto \<Rightarrow> bool" where
  "booking_valid E d \<longleftrightarrow> v_isUUID E (bd_quoteId d) \<and> 1 \<le> bd_weightKg d \<and> v_isDateString E (bd_scheduledAt d) \<and>
     2 \<le> length (bd_stops d) \<and> list_all stop_valid (bd_stops d)"

fun bookings_valid :: "('e) api_env_scheme \<Rightarrow> bookings_call \<Rightarrow> bool" where
  "bookings_valid E (CreateBooking d) \<longleftrightarrow> booking_valid E d"
| "bookings_valid E (GetBooking k) \<longleftrightarrow> pipe_uuid E k"
| "bookings_valid E ListBookings \<longleftrightarrow> True"
| "bookings_valid E (AssignTruck k truckId driverId) \<longleftrightarrow> pipe_uuid E k \<and> v_isUUID E truckId \<and> v_isUUID E driverId"
| "bookings_valid E (CancelBooking k _) \<longleftrightarrow> pipe_uuid E k"

datatype answer =
    AnBooking "booking \<times> booking_stop list"
  | AnBookings "booking list"
  | AnCancelled "string \<times> booking_status"
  | AnQuote quote
  | AnPrice "string \<times> int"
  | AnTruck truck
  | AnTrucks "truck list"
  | AnTruckStatus "(string \<times> truck_status) option"
  | AnDriver driver
  | AnDrivers "driver list"
  | AnAvailability "type_count list \<times> nat"
  | AnKycRecord "string \<times> kyc_status"
  | AnKycSubmitted "string \<times> kyc_status \<times> int"
  | AnKycStatus "(string \<times> kyc_status \<times> int option) list \<times> bool"
  | AnPremium "string \<times> int \<times> int"
  | AnPolicy policy
  | AnPayment payment
  | AnOk
  | AnReleased bool
  | AnDocument document
  | AnDocuments "document list"
  | AnPacket packet_row
  | AnPacketText "packet_row \<times> json"
  | AnTicket ticket
  | AnTickets "ticket list"
  | AnMessage message
  | AnCallVia string
  | AnManifest manifest
  | AnManifestTx "manifest \<times> string"
  | AnCustody custody_record
  | AnLoss loss
  | AnReconciled "reconcile_result \<times> string"
  | AnDecision decision
  | AnOtp otp_response
  | AnScan "scan_event \<times> scan_event list \<times> bool"
  | AnScans "nat \<times> nat \<times> nat"
  | AnHistory "scan_event list"
  | AnDevice device
  | AnDeviceId string
  | AnTripBound "string \<times> string"
  | AnIngest ingest_result
  | AnIngestBatch batch_answer
  | AnTimeline timeline
  | AnProof ping_proof
  | AnNear near_answer
  | AnProofs "ping_proof list \<times> bool"
  | AnTripStart trip_start
  | AnDelivery delivery_answer

definition answers :: "('a \<Rightarrow> answer) \<Rightarrow> ('s, 'a) exec \<Rightarrow> ('s, answer) exec" where
  "answers f m = bindE m (\<lambda>x. return (f x))"

fun bookings_handle ::
  "('e) api_env_scheme \<Rightarrow> draws \<Rightarrow> caller \<Rightarrow> bookings_call \<Rightarrow> (platform, answer) exec"
where
  "bookings_handle E w q (CreateBooking d) =
     answers AnBooking (create_booking E (req_companyId q) (req_userId q) (w_now w) (w_id w) d)"
| "bookings_handle E w q (GetBooking k) = answers AnBooking (get_booking (req_companyId q) k)"
| "bookings_handle E w q ListBookings = answers AnBookings (list_bookings (req_companyId q))"
| "bookings_handle E w q (AssignTruck k truckId driverId) =
     answers AnBooking (assignTruck (req_companyId q) (req_userId q) (w_now w) k truckId driverId None)"
| "bookings_handle E w q (CancelBooking k reason) =
     answers AnCancelled (cancel_booking (req_companyId q) (req_userId q) (w_now w) k reason)"

section \<open>Pricing\<close>

datatype pricing_call =
    Estimate estimate_dto
  | ConfirmPrice string "real option"

fun pricing_url :: "pricing_call \<Rightarrow> url" where
  "pricing_url (Estimate _) = (POST, [Seg ''pricing'', Seg ''estimate''])"
| "pricing_url (ConfirmPrice _ _) = (POST, [Seg ''pricing'', Seg ''quotes'', Par, Seg ''confirm''])"

fun pricing_route :: "pricing_call \<Rightarrow> route" where
  "pricing_route (Estimate _) = requires TRIPS TRIP_CREATE"
| "pricing_route (ConfirmPrice _ _) = requires TRIPS TRIP_CREATE"

fun pricing_valid :: "('e) api_env_scheme \<Rightarrow> pricing_call \<Rightarrow> bool" where
  "pricing_valid E (Estimate d) \<longleftrightarrow> estimate_dto_ok d"
| "pricing_valid E (ConfirmPrice k _) \<longleftrightarrow> pipe_uuid E k"

fun pricing_handle :: "draws \<Rightarrow> caller \<Rightarrow> pricing_call \<Rightarrow> (platform, answer) exec" where
  "pricing_handle w q (Estimate d) = answers AnQuote (estimate (req_companyId q) (w_now w) (w_id w) d)"
| "pricing_handle w q (ConfirmPrice k price) =
     answers AnPrice (confirmMarketPrice (req_companyId q) (w_now w) k price)"

section \<open>Fleet\<close>

datatype fleet_call =
    AddTruck truck_dto
  | ListTrucks "string option"
  | SetTruckStatus string truck_status
  | AddDriver driver_dto
  | ListDrivers
  | Availability

fun fleet_url :: "fleet_call \<Rightarrow> url" where
  "fleet_url (AddTruck _) = (POST, [Seg ''fleet'', Seg ''trucks''])"
| "fleet_url (ListTrucks _) = (GET, [Seg ''fleet'', Seg ''trucks''])"
| "fleet_url (SetTruckStatus _ _) = (PATCH, [Seg ''fleet'', Seg ''trucks'', Par, Seg ''status''])"
| "fleet_url (AddDriver _) = (POST, [Seg ''fleet'', Seg ''drivers''])"
| "fleet_url ListDrivers = (GET, [Seg ''fleet'', Seg ''drivers''])"
| "fleet_url Availability = (GET, [Seg ''fleet'', Seg ''availability''])"

fun fleet_route :: "fleet_call \<Rightarrow> route" where
  "fleet_route (AddTruck _) = requires FLEET FLEET_WRITE"
| "fleet_route (ListTrucks _) = requires FLEET FLEET_READ"
| "fleet_route (SetTruckStatus _ _) = requires FLEET FLEET_WRITE"
| "fleet_route (AddDriver _) = requires FLEET FLEET_WRITE"
| "fleet_route ListDrivers = requires FLEET FLEET_READ"
| "fleet_route Availability = requires FLEET FLEET_READ"

text \<open>\<open>^[A-Z]{2}\d{2}[A-Z]{1,2}\d{4}$\<close> and \<open>^\+91\d{10}$\<close>.\<close>

definition reg_number_ok :: "string \<Rightarrow> bool" where
  "reg_number_ok s \<longleftrightarrow>
     follows ([capital, capital, digit, digit, capital] @ replicate 4 digit) s \<or>
     follows ([capital, capital, digit, digit, capital, capital] @ replicate 4 digit) s"

definition indian_phone_ok :: "string \<Rightarrow> bool" where
  "indian_phone_ok = matches ''+91'' digit 10"

definition truck_valid :: "truck_dto \<Rightarrow> bool" where
  "truck_valid d \<longleftrightarrow> reg_number_ok (td_regNumber d) \<and> 100 \<le> td_capacityKg d"

definition driver_valid :: "driver_dto \<Rightarrow> bool" where
  "driver_valid d \<longleftrightarrow> indian_phone_ok (dd_phone d)"

fun fleet_valid :: "('e) api_env_scheme \<Rightarrow> fleet_call \<Rightarrow> bool" where
  "fleet_valid E (AddTruck d) \<longleftrightarrow> truck_valid d"
| "fleet_valid E (ListTrucks _) \<longleftrightarrow> True"
| "fleet_valid E (SetTruckStatus k _) \<longleftrightarrow> pipe_uuid E k"
| "fleet_valid E (AddDriver d) \<longleftrightarrow> driver_valid d"
| "fleet_valid E ListDrivers \<longleftrightarrow> True"
| "fleet_valid E Availability \<longleftrightarrow> True"

fun fleet_handle :: "draws \<Rightarrow> caller \<Rightarrow> fleet_call \<Rightarrow> (platform, answer) exec" where
  "fleet_handle w q (AddTruck d) =
     answers AnTruck (addTruck (req_companyId q) (req_userId q) (w_now w) (w_id w) d)"
| "fleet_handle w q (ListTrucks st) = answers AnTrucks (listTrucks (req_companyId q) st)"
| "fleet_handle w q (SetTruckStatus k st) = answers AnTruckStatus (setTruckStatus (req_companyId q) k st)"
| "fleet_handle w q (AddDriver d) =
     answers AnDriver (addDriver (req_companyId q) (req_userId q) (w_now w) (w_id w) d)"
| "fleet_handle w q ListDrivers = answers AnDrivers (listDrivers (req_companyId q))"
| "fleet_handle w q Availability = answers AnAvailability (availability (req_companyId q))"

section \<open>Verification of documents\<close>

datatype kyc_call =
    SubmitKyc kyc_dto
  | KycStatus string string
  | ReviewKyc string kyc_status string

fun kyc_url :: "kyc_call \<Rightarrow> url" where
  "kyc_url (SubmitKyc _) = (POST, [Seg ''kyc'', Seg ''submit''])"
| "kyc_url (KycStatus _ _) = (GET, [Seg ''kyc'', Seg ''status'', Par, Par])"
| "kyc_url (ReviewKyc _ _ _) = (POST, [Seg ''kyc'', Par, Seg ''review''])"

fun kyc_route :: "kyc_call \<Rightarrow> route" where
  "kyc_route (SubmitKyc _) = requires CORE FLEET_WRITE"
| "kyc_route (KycStatus _ _) = requires CORE FLEET_READ"
| "kyc_route (ReviewKyc _ _ _) = requires CORE COMPANY_SETTINGS"

definition kyc_dto_valid :: "('e) api_env_scheme \<Rightarrow> kyc_dto \<Rightarrow> bool" where
  "kyc_dto_valid E d \<longleftrightarrow>
     kd_docKind d \<in> {''OPERATOR_PAN'', ''OPERATOR_GST'', ''TRUCK_RC'', ''DRIVER_LICENSE'', ''AADHAAR_OFFLINE_XML''} \<and>
     kd_subjectType d \<in> {''TRANSPORTER'', ''TRUCK'', ''DRIVER''} \<and> v_isUUID E (kd_subjectId d)"

fun kyc_valid :: "('e) api_env_scheme \<Rightarrow> kyc_call \<Rightarrow> bool" where
  "kyc_valid E (SubmitKyc d) \<longleftrightarrow> kyc_dto_valid E d"
| "kyc_valid E (KycStatus _ k) \<longleftrightarrow> pipe_uuid E k"
| "kyc_valid E (ReviewKyc k decision _) \<longleftrightarrow> pipe_uuid E k \<and> decision \<in> {VERIFIED, REJECTED}"

fun kyc_handle :: "draws \<Rightarrow> caller \<Rightarrow> kyc_call \<Rightarrow> (platform, answer) exec" where
  "kyc_handle w q (SubmitKyc d) =
     answers AnKycSubmitted (kyc_submit (req_companyId q) (req_userId q) (w_now w) (w_id w) d)"
| "kyc_handle w q (KycStatus ty k) = answers AnKycStatus (kyc_status_of (req_companyId q) ty k)"
| "kyc_handle w q (ReviewKyc k decision n) =
     answers AnKycRecord (kyc_review (req_companyId q) (req_userId q) (w_now w) k decision n)"

section \<open>Insurance\<close>

datatype insurance_call =
    QuotePolicy string int
  | BuyPolicy string int
  | GetPolicy string

fun insurance_url :: "insurance_call \<Rightarrow> url" where
  "insurance_url (QuotePolicy _ _) = (POST, [Seg ''insurance'', Seg ''quote''])"
| "insurance_url (BuyPolicy _ _) = (POST, [Seg ''insurance'', Seg ''buy''])"
| "insurance_url (GetPolicy _) = (GET, [Seg ''insurance'', Seg ''policies'', Par])"

fun insurance_route :: "insurance_call \<Rightarrow> route" where
  "insurance_route (QuotePolicy _ _) = requires PAYMENTS PAYMENT_READ"
| "insurance_route (BuyPolicy _ _) = requires PAYMENTS PAYMENT_COLLECT"
| "insurance_route (GetPolicy _) = requires PAYMENTS PAYMENT_READ"

definition cover_valid :: "('e) api_env_scheme \<Rightarrow> string \<Rightarrow> int \<Rightarrow> bool" where
  "cover_valid E bookingId declared \<longleftrightarrow> v_isUUID E bookingId \<and> 10000 \<le> declared \<and> declared \<le> 5000000"

fun insurance_valid :: "('e) api_env_scheme \<Rightarrow> insurance_call \<Rightarrow> bool" where
  "insurance_valid E (QuotePolicy k v) \<longleftrightarrow> cover_valid E k v"
| "insurance_valid E (BuyPolicy k v) \<longleftrightarrow> cover_valid E k v"
| "insurance_valid E (GetPolicy k) \<longleftrightarrow> pipe_uuid E k"

fun insurance_handle :: "draws \<Rightarrow> caller \<Rightarrow> insurance_call \<Rightarrow> (platform, answer) exec" where
  "insurance_handle w q (QuotePolicy k v) = return (AnPremium (insurance_quote k v))"
| "insurance_handle w q (BuyPolicy k v) =
     answers AnPolicy (buy_policy (req_companyId q) (req_userId q) (w_id w) k v)"
| "insurance_handle w q (GetPolicy k) = answers AnPolicy (getPolicy (req_companyId q) k)"

section \<open>Payments\<close>

datatype payments_call =
    Collect collection_dto
  | GetPayment string
  | GatewayEvent "string option" json
  | ReleaseEvent "string option" json

fun payments_url :: "payments_call \<Rightarrow> url" where
  "payments_url (Collect _) = (POST, [Seg ''payments'', Seg ''collect''])"
| "payments_url (GetPayment _) = (GET, [Seg ''payments'', Par])"
| "payments_url (GatewayEvent _ _) = (POST, [Seg ''payments'', Seg ''webhook'', Seg ''gateway''])"
| "payments_url (ReleaseEvent _ _) = (POST, [Seg ''payments'', Seg ''webhook'', Seg ''release-gate''])"

fun payments_route :: "payments_call \<Rightarrow> route" where
  "payments_route (Collect _) = requires PAYMENTS PAYMENT_COLLECT"
| "payments_route (GetPayment _) = requires PAYMENTS PAYMENT_READ"
| "payments_route (GatewayEvent _ _) = public_route (Some PAYMENTS)"
| "payments_route (ReleaseEvent _ _) = public_route (Some PAYMENTS)"

definition collection_valid :: "('e) api_env_scheme \<Rightarrow> collection_dto \<Rightarrow> bool" where
  "collection_valid E d \<longleftrightarrow> v_isUUID E (cl_bookingId d) \<and> 1 \<le> cl_amountInr d \<and>
     cl_method d \<in> {''UPI'', ''NEFT'', ''IMPS'', ''NETBANKING''}"

fun payments_valid :: "('e) api_env_scheme \<Rightarrow> payments_call \<Rightarrow> bool" where
  "payments_valid E (Collect d) \<longleftrightarrow> collection_valid E d"
| "payments_valid E (GetPayment k) \<longleftrightarrow> pipe_uuid E k"
| "payments_valid E (GatewayEvent _ _) \<longleftrightarrow> True"
| "payments_valid E (ReleaseEvent _ _) \<longleftrightarrow> True"

fun payments_handle ::
  "('e) api_env_scheme \<Rightarrow> api_config \<Rightarrow> draws \<Rightarrow> caller \<Rightarrow> payments_call \<Rightarrow> (platform, answer) exec"
where
  "payments_handle E cf w q (Collect d) =
     answers AnPayment (createCollection (req_companyId q) (req_userId q) (w_id w) d)"
| "payments_handle E cf w q (GetPayment k) = answers AnPayment (getByBooking_payment (req_companyId q) k)"
| "payments_handle E cf w q (GatewayEvent sig body) =
     answers (\<lambda>_. AnOk) (gatewayWebhook E (cf_gatewaySecret cf) (w_now w) sig body)"
| "payments_handle E cf w q (ReleaseEvent sig body) =
     answers AnReleased (handleReleaseGate E (cf_internalSecret cf) (w_now w) sig body)"

section \<open>Documents and claims\<close>

datatype documents_call =
    GenerateDocument string paper json
  | ListDocuments string

fun documents_url :: "documents_call \<Rightarrow> url" where
  "documents_url (GenerateDocument _ _ _) = (POST, [Seg ''documents'', Seg ''generate''])"
| "documents_url (ListDocuments _) = (GET, [Seg ''documents'', Seg ''booking'', Par])"

fun documents_route :: "documents_call \<Rightarrow> route" where
  "documents_route (GenerateDocument _ _ _) = requires DOCUMENTS DOCUMENT_GENERATE"
| "documents_route (ListDocuments _) = requires DOCUMENTS DOCUMENT_READ"

fun is_object :: "json \<Rightarrow> bool" where
  "is_object (JObj _) = True"
| "is_object _ = False"

fun documents_valid :: "('e) api_env_scheme \<Rightarrow> documents_call \<Rightarrow> bool" where
  "documents_valid E (GenerateDocument k _ payload) \<longleftrightarrow> v_isUUID E k \<and> is_object payload"
| "documents_valid E (ListDocuments k) \<longleftrightarrow> pipe_uuid E k"

fun documents_handle ::
  "('e) api_env_scheme \<Rightarrow> draws \<Rightarrow> caller \<Rightarrow> documents_call \<Rightarrow> (platform, answer) exec"
where
  "documents_handle E w q (GenerateDocument k ty payload) =
     answers AnDocument (generate_document E (req_companyId q) (req_userId q) (w_now w) (w_tx w) (w_id w) k ty payload)"
| "documents_handle E w q (ListDocuments k) = answers AnDocuments (listForBooking (req_companyId q) k)"

datatype claims_call =
    BuildPacket string
  | GetPacket string

fun claims_url :: "claims_call \<Rightarrow> url" where
  "claims_url (BuildPacket _) = (POST, [Seg ''claims'', Seg ''packet'', Par])"
| "claims_url (GetPacket _) = (GET, [Seg ''claims'', Seg ''packet'', Par])"

fun claims_route :: "claims_call \<Rightarrow> route" where
  "claims_route (BuildPacket _) = requires CLAIMS_EVIDENCE CLAIMS_PACKET_BUILD"
| "claims_route (GetPacket _) = requires CLAIMS_EVIDENCE CLAIMS_PACKET_BUILD"

fun claims_valid :: "('e) api_env_scheme \<Rightarrow> claims_call \<Rightarrow> bool" where
  "claims_valid E (BuildPacket k) \<longleftrightarrow> pipe_uuid E k"
| "claims_valid E (GetPacket k) \<longleftrightarrow> pipe_uuid E k"

fun claims_handle ::
  "('e) api_env_scheme \<Rightarrow> api_config \<Rightarrow> draws \<Rightarrow> caller \<Rightarrow> claims_call \<Rightarrow> (platform, answer) exec"
where
  "claims_handle E cf w q (BuildPacket k) =
     answers AnPacket (buildPacket E (cf_contracts cf) (req_companyId q) (req_userId q) (w_now w) (w_id w) k)"
| "claims_handle E cf w q (GetPacket k) = answers AnPacketText (getPacket (req_companyId q) k)"

section \<open>Support\<close>

datatype support_call =
    CreateTicket ticket_dto
  | ListTickets
  | ReplyTicket string string
  | CallDriver string

fun support_url :: "support_call \<Rightarrow> url" where
  "support_url (CreateTicket _) = (POST, [Seg ''support'', Seg ''tickets''])"
| "support_url ListTickets = (GET, [Seg ''support'', Seg ''tickets''])"
| "support_url (ReplyTicket _ _) = (POST, [Seg ''support'', Seg ''tickets'', Par, Seg ''reply''])"
| "support_url (CallDriver _) = (POST, [Seg ''support'', Seg ''call-driver'', Par])"

fun support_route :: "support_call \<Rightarrow> route" where
  "support_route (CreateTicket _) = module_only SUPPORT"
| "support_route ListTickets = module_only SUPPORT"
| "support_route (ReplyTicket _ _) = module_only SUPPORT"
| "support_route (CallDriver _) = requires SUPPORT TRACKING_VIEW"

definition ticket_valid :: "('e) api_env_scheme \<Rightarrow> ticket_dto \<Rightarrow> bool" where
  "ticket_valid E d \<longleftrightarrow> if_given (v_isUUID E) (ti_bookingId d) \<and>
     ti_category d \<in> {''BOOKING'', ''PAYMENT'', ''DOCUMENT'', ''TRACKING'', ''OTHER''} \<and>
     v_length E (ti_subject d) \<le> 200 \<and> v_length E (ti_message d) \<le> 5000"

fun support_valid :: "('e) api_env_scheme \<Rightarrow> support_call \<Rightarrow> bool" where
  "support_valid E (CreateTicket d) \<longleftrightarrow> ticket_valid E d"
| "support_valid E ListTickets \<longleftrightarrow> True"
| "support_valid E (ReplyTicket k body) \<longleftrightarrow> pipe_uuid E k \<and> v_length E body \<le> 5000"
| "support_valid E (CallDriver k) \<longleftrightarrow> pipe_uuid E k"

fun support_handle :: "api_config \<Rightarrow> draws \<Rightarrow> caller \<Rightarrow> support_call \<Rightarrow> (platform, answer) exec" where
  "support_handle cf w q (CreateTicket d) =
     answers AnTicket (createTicket (req_companyId q) (req_userId q) (w_now w) (w_id w) d)"
| "support_handle cf w q ListTickets = answers AnTickets (listTickets (req_companyId q))"
| "support_handle cf w q (ReplyTicket k body) =
     answers AnMessage (reply_ticket (req_companyId q) (req_userId q) (w_now w) k body)"
| "support_handle cf w q (CallDriver k) =
     answers AnCallVia (callDriver (cf_callBridge cf) (req_companyId q) (req_userId q) k)"

section \<open>Custody\<close>

datatype custody_call =
    CreateManifest create_dto
  | GetManifest string
  | CustodyStatus string
  | Attribution string
  | ReconcileManifest string
  | ReleaseStatus string
  | DeliveryOtp string string
  | ConfirmDelivery string string string
  | ScanLoading scan_dto
  | ScanLoadingBatch "scan_dto list"
  | ScanUnloading scan_dto
  | ScanUnloadingBatch "scan_dto list"
  | PieceHistory string

fun custody_url :: "custody_call \<Rightarrow> url" where
  "custody_url (CreateManifest _) = (POST, [Seg ''custody'', Seg ''manifests''])"
| "custody_url (GetManifest _) = (GET, [Seg ''custody'', Seg ''manifests'', Par])"
| "custody_url (CustodyStatus _) = (GET, [Seg ''custody'', Seg ''manifests'', Par, Seg ''status''])"
| "custody_url (Attribution _) = (GET, [Seg ''custody'', Seg ''manifests'', Par, Seg ''attribution''])"
| "custody_url (ReconcileManifest _) = (GET, [Seg ''custody'', Seg ''manifests'', Par, Seg ''reconcile''])"
| "custody_url (ReleaseStatus _) = (GET, [Seg ''custody'', Seg ''manifests'', Par, Seg ''release-status''])"
| "custody_url (DeliveryOtp _ _) = (POST, [Seg ''custody'', Seg ''manifests'', Par, Seg ''delivery-otp''])"
| "custody_url (ConfirmDelivery _ _ _) = (POST, [Seg ''custody'', Seg ''manifests'', Par, Seg ''confirm-delivery''])"
| "custody_url (ScanLoading _) = (POST, [Seg ''custody'', Seg ''scans'', Seg ''loading''])"
| "custody_url (ScanLoadingBatch _) = (POST, [Seg ''custody'', Seg ''scans'', Seg ''loading'', Seg ''batch''])"
| "custody_url (ScanUnloading _) = (POST, [Seg ''custody'', Seg ''scans'', Seg ''unloading''])"
| "custody_url (ScanUnloadingBatch _) = (POST, [Seg ''custody'', Seg ''scans'', Seg ''unloading'', Seg ''batch''])"
| "custody_url (PieceHistory _) = (GET, [Seg ''custody'', Seg ''pieces'', Par, Seg ''history''])"

fun custody_route :: "custody_call \<Rightarrow> route" where
  "custody_route (CreateManifest _) = requires CUSTODY_TRACKING MANIFEST_CREATE"
| "custody_route (GetManifest _) = requires CUSTODY_TRACKING TRACKING_VIEW"
| "custody_route (CustodyStatus _) = requires CUSTODY_TRACKING TRACKING_VIEW"
| "custody_route (Attribution _) = requires CUSTODY_TRACKING CLAIMS_PACKET_BUILD"
| "custody_route (ReconcileManifest _) = requires_any CUSTODY_TRACKING [SHORTAGE_REPORT, TRACKING_VIEW]"
| "custody_route (ReleaseStatus _) = requires_any CUSTODY_TRACKING [SHORTAGE_REPORT, PAYMENT_READ]"
| "custody_route (DeliveryOtp _ _) = requires CUSTODY_TRACKING DELIVERY_CONFIRM"
| "custody_route (ConfirmDelivery _ _ _) = requires CUSTODY_TRACKING DELIVERY_CONFIRM"
| "custody_route (ScanLoading _) = requires CUSTODY_TRACKING CUSTODY_SIGN"
| "custody_route (ScanLoadingBatch _) = requires CUSTODY_TRACKING CUSTODY_SIGN"
| "custody_route (ScanUnloading _) = requires CUSTODY_TRACKING SCAN_SUBMIT"
| "custody_route (ScanUnloadingBatch _) = requires CUSTODY_TRACKING SCAN_SUBMIT"
| "custody_route (PieceHistory _) = requires CUSTODY_TRACKING TRACKING_VIEW"

definition piece_valid :: "piece_input \<Rightarrow> bool" where
  "piece_valid p \<longleftrightarrow> if_given isWellFormedPieceId (pi_pieceId p)"

definition manifest_valid :: "('e) api_env_scheme \<Rightarrow> create_dto \<Rightarrow> bool" where
  "manifest_valid E d \<longleftrightarrow> v_isUUID E (cd_bookingId d) \<and> is_bytes32 (cd_tripId d) \<and>
     if_given (list_all piece_valid) (cd_pieces d) \<and> if_given (\<lambda>n. 1 \<le> n) (cd_pieceCount d) \<and>
     is_address (cd_loader d) \<and> is_address (cd_driver d) \<and> is_address (cd_receiver d)"

fun custody_valid :: "('e) api_env_scheme \<Rightarrow> custody_call \<Rightarrow> bool" where
  "custody_valid E (CreateManifest d) \<longleftrightarrow> manifest_valid E d"
| "custody_valid E (DeliveryOtp _ phone) \<longleftrightarrow> is_e164 phone"
| "custody_valid E (ConfirmDelivery _ phone _) \<longleftrightarrow> is_e164 phone"
| "custody_valid E (ScanLoading d) \<longleftrightarrow> scan_dto_ok d"
| "custody_valid E (ScanLoadingBatch ds) \<longleftrightarrow> list_all scan_dto_ok ds"
| "custody_valid E (ScanUnloading d) \<longleftrightarrow> scan_dto_ok d"
| "custody_valid E (ScanUnloadingBatch ds) \<longleftrightarrow> list_all scan_dto_ok ds"
| "custody_valid E _ \<longleftrightarrow> True"

definition scans_of :: "draws \<Rightarrow> scan_dto list \<Rightarrow> (scan_dto \<times> string \<times> int) list" where
  "scans_of w ds = map (\<lambda>(i, d). (d, w_scan w i)) (enumerate 0 ds)"

fun custody_handle ::
  "('e) api_env_scheme \<Rightarrow> draws \<Rightarrow> caller \<Rightarrow> custody_call \<Rightarrow> (world, answer) exec"
where
  "custody_handle E w q (CreateManifest d) =
     answers AnManifestTx (createManifest E (req_companyId q) (req_userId q) (w_now w) (w_tx w) (w_blocks w) d)"
| "custody_handle E w q (GetManifest k) = answers AnManifest (getManifest E (req_companyId q) k)"
| "custody_handle E w q (CustodyStatus k) = answers AnCustody (getCustodyStatus (req_companyId q) (w_now w) k)"
| "custody_handle E w q (Attribution k) = answers AnLoss (getAttribution E (req_companyId q) (w_now w) k)"
| "custody_handle E w q (ReconcileManifest k) = answers AnReconciled (reconcileManifest E (req_companyId q) k)"
| "custody_handle E w q (ReleaseStatus k) = answers AnDecision (evaluateRelease E (req_companyId q) (w_now w) k)"
| "custody_handle E w q (DeliveryOtp k phone) =
     answers AnOtp (requestDeliveryOtp E (req_companyId q) (w_now w) (w_key w) (w_iv w) (w_code w) k phone)"
| "custody_handle E w q (ConfirmDelivery k phone tok) =
     answers AnDecision (confirmDeliveryService E (req_companyId q) (req_userId q) (w_now w) (w_tx w) k phone tok)"
| "custody_handle E w q (ScanLoading d) =
     answers AnScan (recordScan E (req_companyId q) (req_userId q) LOADING d (w_id w) (w_now w))"
| "custody_handle E w q (ScanLoadingBatch ds) =
     answers AnScans (recordScanBatch E (req_companyId q) (req_userId q) LOADING (scans_of w ds))"
| "custody_handle E w q (ScanUnloading d) =
     answers AnScan (recordScan E (req_companyId q) (req_userId q) UNLOADING d (w_id w) (w_now w))"
| "custody_handle E w q (ScanUnloadingBatch ds) =
     answers AnScans (recordScanBatch E (req_companyId q) (req_userId q) UNLOADING (scans_of w ds))"
| "custody_handle E w q (PieceHistory k) = answers AnHistory (getPieceHistory (req_companyId q) k)"

section \<open>Trackers\<close>

datatype gps_call =
    RegisterDevice registration
  | RotateSecret string string
  | StartTracking string string
  | EndTracking string
  | Ingest raw_ping
  | IngestBatch "raw_ping list"
  | Timeline string
  | ProveMoment string string
  | WasNear string "string \<times> string \<times> string \<times> string"
  | ProveWindow string string string

fun gps_url :: "gps_call \<Rightarrow> url" where
  "gps_url (RegisterDevice _) = (POST, [Seg ''gps'', Seg ''devices''])"
| "gps_url (RotateSecret _ _) = (POST, [Seg ''gps'', Seg ''devices'', Par, Seg ''rotate-secret''])"
| "gps_url (StartTracking _ _) = (POST, [Seg ''gps'', Seg ''trucks'', Par, Seg ''start-trip''])"
| "gps_url (EndTracking _) = (POST, [Seg ''gps'', Seg ''trucks'', Par, Seg ''end-trip''])"
| "gps_url (Ingest _) = (POST, [Seg ''gps'', Seg ''ingest''])"
| "gps_url (IngestBatch _) = (POST, [Seg ''gps'', Seg ''ingest'', Seg ''batch''])"
| "gps_url (Timeline _) = (GET, [Seg ''gps'', Seg ''trips'', Par, Seg ''timeline''])"
| "gps_url (ProveMoment _ _) = (GET, [Seg ''gps'', Seg ''trips'', Par, Seg ''proof''])"
| "gps_url (WasNear _ _) = (GET, [Seg ''gps'', Seg ''trips'', Par, Seg ''near''])"
| "gps_url (ProveWindow _ _ _) = (GET, [Seg ''gps'', Seg ''trips'', Par, Seg ''proof-window''])"

fun gps_route :: "gps_call \<Rightarrow> route" where
  "gps_route (RegisterDevice _) = requires GPS_TRACKING FLEET_WRITE"
| "gps_route (RotateSecret _ _) = requires GPS_TRACKING FLEET_WRITE"
| "gps_route (StartTracking _ _) = requires GPS_TRACKING FLEET_WRITE"
| "gps_route (EndTracking _) = requires GPS_TRACKING FLEET_WRITE"
| "gps_route (Ingest _) = public_route None"
| "gps_route (IngestBatch _) = public_route None"
| "gps_route (Timeline _) = requires GPS_TRACKING TRACKING_VIEW"
| "gps_route (ProveMoment _ _) = requires GPS_ANCHORING TRACKING_VIEW"
| "gps_route (WasNear _ _) = requires GPS_ANCHORING TRACKING_VIEW"
| "gps_route (ProveWindow _ _ _) = requires GPS_ANCHORING TRACKING_VIEW"

definition ping_valid :: "raw_ping \<Rightarrow> bool" where
  "ping_valid p \<longleftrightarrow> (\<exists>x. rp_lat p = Fin x) \<and> (\<exists>x. rp_lng p = Fin x)"

text \<open>
  The query of \<open>near\<close> is checked by \<open>IsNumber\<close> and \<open>IsInt\<close>, which want a JavaScript number. A query
  string brings texts, and the validation pipe of \<open>main.ts\<close> does not convert them.
\<close>

fun number_of :: "('e) api_env_scheme \<Rightarrow> json \<Rightarrow> real option" where
  "number_of E (JNum t) = Some (js_real E t)"
| "number_of E _ = None"

definition near_query_of :: "('e) api_env_scheme \<Rightarrow> json \<Rightarrow> json \<Rightarrow> json \<Rightarrow> json \<Rightarrow> near_query option" where
  "near_query_of E lat lng ts radius =
     (case (number_of E lat, number_of E lng, number_of E ts, number_of E radius) of
        (Some a, Some b, Some t, Some r) \<Rightarrow>
          if t \<in> \<int> \<and> 1 \<le> r \<and> r \<le> 50000
          then Some \<lparr>nq_lat = a, nq_lng = b, nq_ts = \<lfloor>t\<rfloor>, nq_radiusM = r\<rparr> else None
      | _ \<Rightarrow> None)"

fun near_of_query :: "('e) api_env_scheme \<Rightarrow> string \<times> string \<times> string \<times> string \<Rightarrow> near_query option" where
  "near_of_query E (lat, lng, ts, radius) = near_query_of E (JStr lat) (JStr lng) (JStr ts) (JStr radius)"

fun gps_valid :: "('e) api_env_scheme \<Rightarrow> gps_call \<Rightarrow> bool" where
  "gps_valid E (RegisterDevice d) \<longleftrightarrow> v_isUUID E (rg_truckId d)"
| "gps_valid E (Ingest p) \<longleftrightarrow> ping_valid p"
| "gps_valid E (IngestBatch ps) \<longleftrightarrow> list_all ping_valid ps"
| "gps_valid E (WasNear _ query) \<longleftrightarrow> near_of_query E query \<noteq> None"
| "gps_valid E _ \<longleftrightarrow> True"

text \<open>What is no integer reaches Postgres as the parameter of a \<open>bigint\<close> comparison and is refused.\<close>

definition need_bigint :: "('e) api_env_scheme \<Rightarrow> string \<Rightarrow> (gps, int) exec" where
  "need_bigint E t = need (js_integer E t) (PgError ''invalid input syntax for type bigint'')"

fun gps_handle ::
  "('e) api_env_scheme \<Rightarrow> ('g) proof_env_scheme \<Rightarrow> draws \<Rightarrow> caller \<Rightarrow> gps_call \<Rightarrow> (gps, answer) exec"
where
  "gps_handle E G w q (RegisterDevice d) =
     answers AnDevice (registerDevice (req_companyId q) (req_userId q) (w_now w) d)"
| "gps_handle E G w q (RotateSecret k secret) =
     answers AnDeviceId (svc_rotateSecret (req_companyId q) (req_userId q) k secret)"
| "gps_handle E G w q (StartTracking truckId tripId) =
     answers AnTripBound (svc_startTrip (req_companyId q) (req_userId q) (w_now w div 1000) truckId tripId)"
| "gps_handle E G w q (EndTracking truckId) =
     answers AnDeviceId (svc_endTrip (req_companyId q) (req_userId q) truckId None)"
| "gps_handle E G w q (Ingest p) = answers AnIngest (svc_ingest G (w_now w div 1000) p)"
| "gps_handle E G w q (IngestBatch ps) = answers AnIngestBatch (svc_ingestBatch G (w_now w div 1000) ps)"
| "gps_handle E G w q (Timeline k) = answers AnTimeline (getTimeline (req_companyId q) (w_now w div 1000) k)"
| "gps_handle E G w q (ProveMoment k ts) =
     bindE (need_bigint E ts) (\<lambda>t. answers AnProof (svc_proveMoment G (req_companyId q) k t))"
| "gps_handle E G w q (WasNear k query) =
     bindE (need (near_of_query E query) (BadRequest ''Bad Request'')) (\<lambda>n.
     answers AnNear (svc_wasVehicleNear G (req_companyId q) k n))"
| "gps_handle E G w q (ProveWindow k from until) =
     bindE (need_bigint E from) (\<lambda>a. bindE (need_bigint E until) (\<lambda>b.
     answers AnProofs (svc_proveWindow G (req_companyId q) k a b)))"

section \<open>Trips\<close>

datatype trips_call =
    StartTrip string start_dto
  | EndTrip string string string

fun trips_url :: "trips_call \<Rightarrow> url" where
  "trips_url (StartTrip _ _) = (POST, [Seg ''trips'', Par, Seg ''start''])"
| "trips_url (EndTrip _ _ _) = (POST, [Seg ''trips'', Par, Seg ''confirm-delivery''])"

fun trips_route :: "trips_call \<Rightarrow> route" where
  "trips_route (StartTrip _ _) = requires TRIPS TRIP_ASSIGN"
| "trips_route (EndTrip _ _ _) = requires TRIPS DELIVERY_CONFIRM"

definition start_valid :: "('e) api_env_scheme \<Rightarrow> start_dto \<Rightarrow> bool" where
  "start_valid E d \<longleftrightarrow> v_isUUID E (st_truckId d) \<and> v_isUUID E (st_driverId d) \<and>
     if_given is_address (st_loader d) \<and> if_given is_address (st_receiver d) \<and>
     if_given (\<lambda>n. 1 \<le> n) (st_pieceCount d) \<and> if_given (list_all piece_valid) (st_pieces d)"

fun trips_valid :: "('e) api_env_scheme \<Rightarrow> trips_call \<Rightarrow> bool" where
  "trips_valid E (StartTrip k d) \<longleftrightarrow> pipe_uuid E k \<and> start_valid E d"
| "trips_valid E (EndTrip k phone _) \<longleftrightarrow> pipe_uuid E k \<and> is_e164 phone"

fun trips_handle ::
  "('e) api_env_scheme \<Rightarrow> draws \<Rightarrow> caller \<Rightarrow> trips_call \<Rightarrow> (platform, answer) exec"
where
  "trips_handle E w q (StartTrip k d) =
     answers AnTripStart (orch_startTrip E (req_companyId q) (req_userId q) (w_now w) (w_tx w) (w_blocks w) k (req_modules q) d)"
| "trips_handle E w q (EndTrip k phone tok) =
     answers AnDelivery (orch_confirmDelivery E (req_companyId q) (req_userId q) (w_now w) (w_tx w) k (req_modules q) phone tok)"

end
