(* ===== verification/Api.thy ===== *)
theory Api imports Controllers begin

text \<open>
  One request through the application: the global guard of \<open>app.module.ts\<close>, then the pipes of
  \<open>main.ts\<close> and of the parameters, then the controller's method, and the HTTP answer. The lemmas
  say which request a route serves, what a refusal leaves behind, and which routes are public.
\<close>

section \<open>Routes\<close>

datatype call =
    ToBookings bookings_call
  | ToPricing pricing_call
  | ToFleet fleet_call
  | ToKyc kyc_call
  | ToInsurance insurance_call
  | ToPayments payments_call
  | ToDocuments documents_call
  | ToClaims claims_call
  | ToSupport support_call
  | ToCustody custody_call
  | ToGps gps_call
  | ToTrips trips_call

fun route_of :: "call \<Rightarrow> route" where
  "route_of (ToBookings c) = bookings_route c"
| "route_of (ToPricing c) = pricing_route c"
| "route_of (ToFleet c) = fleet_route c"
| "route_of (ToKyc c) = kyc_route c"
| "route_of (ToInsurance c) = insurance_route c"
| "route_of (ToPayments c) = payments_route c"
| "route_of (ToDocuments c) = documents_route c"
| "route_of (ToClaims c) = claims_route c"
| "route_of (ToSupport c) = support_route c"
| "route_of (ToCustody c) = custody_route c"
| "route_of (ToGps c) = gps_route c"
| "route_of (ToTrips c) = trips_route c"

fun url_of :: "call \<Rightarrow> url" where
  "url_of (ToBookings c) = bookings_url c"
| "url_of (ToPricing c) = pricing_url c"
| "url_of (ToFleet c) = fleet_url c"
| "url_of (ToKyc c) = kyc_url c"
| "url_of (ToInsurance c) = insurance_url c"
| "url_of (ToPayments c) = payments_url c"
| "url_of (ToDocuments c) = documents_url c"
| "url_of (ToClaims c) = claims_url c"
| "url_of (ToSupport c) = support_url c"
| "url_of (ToCustody c) = custody_url c"
| "url_of (ToGps c) = gps_url c"
| "url_of (ToTrips c) = trips_url c"

fun valid :: "('e) api_env_scheme \<Rightarrow> call \<Rightarrow> bool" where
  "valid E (ToBookings c) \<longleftrightarrow> bookings_valid E c"
| "valid E (ToPricing c) \<longleftrightarrow> pricing_valid E c"
| "valid E (ToFleet c) \<longleftrightarrow> fleet_valid E c"
| "valid E (ToKyc c) \<longleftrightarrow> kyc_valid E c"
| "valid E (ToInsurance c) \<longleftrightarrow> insurance_valid E c"
| "valid E (ToPayments c) \<longleftrightarrow> payments_valid E c"
| "valid E (ToDocuments c) \<longleftrightarrow> documents_valid E c"
| "valid E (ToClaims c) \<longleftrightarrow> claims_valid E c"
| "valid E (ToSupport c) \<longleftrightarrow> support_valid E c"
| "valid E (ToCustody c) \<longleftrightarrow> custody_valid E c"
| "valid E (ToGps c) \<longleftrightarrow> gps_valid E c"
| "valid E (ToTrips c) \<longleftrightarrow> trips_valid E c"

fun handle ::
  "('e) api_env_scheme \<Rightarrow> ('g) proof_env_scheme \<Rightarrow> api_config \<Rightarrow> draws \<Rightarrow> caller \<Rightarrow> call \<Rightarrow>
   (platform, answer) exec"
where
  "handle E G cf w q (ToBookings c) = bookings_handle E w q c"
| "handle E G cf w q (ToPricing c) = pricing_handle w q c"
| "handle E G cf w q (ToFleet c) = fleet_handle w q c"
| "handle E G cf w q (ToKyc c) = kyc_handle w q c"
| "handle E G cf w q (ToInsurance c) = insurance_handle w q c"
| "handle E G cf w q (ToPayments c) = payments_handle E cf w q c"
| "handle E G cf w q (ToDocuments c) = documents_handle E w q c"
| "handle E G cf w q (ToClaims c) = claims_handle E cf w q c"
| "handle E G cf w q (ToSupport c) = support_handle cf w q c"
| "handle E G cf w q (ToCustody c) = in_world (custody_handle E w q c)"
| "handle E G cf w q (ToGps c) = in_gps (gps_handle E G w q c)"
| "handle E G cf w q (ToTrips c) = trips_handle E w q c"

section \<open>One request\<close>

datatype response =
    Refused http_error
  | Invalid
  | Failed exn
  | Answered answer

text \<open>
  The fields the guard sets on the request; a company that is null opens its transactions as no
  company. A public route has none, and its method reads none.
\<close>

definition caller_of :: "actor option \<Rightarrow> caller" where
  "caller_of a =
     (case a of
        None \<Rightarrow> \<lparr>req_companyId = [], req_userId = [], req_modules = []\<rparr>
      | Some a \<Rightarrow> \<lparr>req_companyId = coalesce (actor_companyId a) [], req_userId = actor_userId a,
          req_modules = actor_modules a\<rparr>)"

definition respond ::
  "('e) api_env_scheme \<Rightarrow> ('g) proof_env_scheme \<Rightarrow> api_config \<Rightarrow> draws \<Rightarrow> string option \<Rightarrow> call \<Rightarrow>
   platform \<Rightarrow> response \<times> platform"
where
  "respond E G cf w authorization c s =
     (case canActivate (token_mac E) (cf_tokenSecret cf) (w_now w) (route_of c) authorization of
        Inl e \<Rightarrow> (Refused e, s)
      | Inr a \<Rightarrow>
          if \<not> valid E c then (Invalid, s)
          else (case handle E G cf w (caller_of a) c s of
                  (Inl e, s') \<Rightarrow> (Failed e, s')
                | (Inr x, s') \<Rightarrow> (Answered x, s')))"

text \<open>Nest's status of an exception, and of an answer by its verb.\<close>

fun exn_status :: "exn \<Rightarrow> nat" where
  "exn_status (BadRequest _) = 400"
| "exn_status (Unauthorized _) = 401"
| "exn_status (NotFound _) = 404"
| "exn_status (Conflict _) = 409"
| "exn_status (Error _) = 500"
| "exn_status (PgError _) = 500"

fun refusal_status :: "http_error \<Rightarrow> nat" where
  "refusal_status (Http401 _) = 401"
| "refusal_status (Http402 _ _) = 402"
| "refusal_status (Http403 _) = 403"

fun status_of :: "verb \<Rightarrow> response \<Rightarrow> nat" where
  "status_of v (Refused e) = refusal_status e"
| "status_of v Invalid = 400"
| "status_of v (Failed e) = exn_status e"
| "status_of v (Answered _) = (if v = POST then 201 else 200)"

section \<open>Facts on routes\<close>

text \<open>Two routes that could both match a request.\<close>

fun overlap :: "segment list \<Rightarrow> segment list \<Rightarrow> bool" where
  "overlap [] [] \<longleftrightarrow> True"
| "overlap (Seg a # p) (Seg b # q) \<longleftrightarrow> a = b \<and> overlap p q"
| "overlap (_ # p) (_ # q) \<longleftrightarrow> overlap p q"
| "overlap _ _ \<longleftrightarrow> False"

text \<open>A fact of every call from one of every controller's calls.\<close>

lemma all_calls:
  assumes "\<And>x. P (ToBookings x)" "\<And>x. P (ToPricing x)" "\<And>x. P (ToFleet x)" "\<And>x. P (ToKyc x)"
    "\<And>x. P (ToInsurance x)" "\<And>x. P (ToPayments x)" "\<And>x. P (ToDocuments x)" "\<And>x. P (ToClaims x)"
    "\<And>x. P (ToSupport x)" "\<And>x. P (ToCustody x)" "\<And>x. P (ToGps x)" "\<And>x. P (ToTrips x)"
  shows "P c"
  using assms by (cases c) auto

lemma public_calls:
  "rt_public (route_of c) \<longleftrightarrow>
     (\<exists>sig body. c = ToPayments (GatewayEvent sig body) \<or> c = ToPayments (ReleaseEvent sig body)) \<or>
     (\<exists>p. c = ToGps (Ingest p)) \<or> (\<exists>ps. c = ToGps (IngestBatch ps))"
  by (rule all_calls [of _ c]; rename_tac x; case_tac x) (auto simp: route_defs)

lemma canActivate_some: "canActivate mac k now rt auth = Inr a \<Longrightarrow> \<not> rt_public rt \<Longrightarrow> \<exists>b. a = Some b"
  by (auto simp: canActivate_def split: option.splits if_splits sum.splits)

end
