(* ===== verification/Api_Properties.thy ===== *)
theory Api_Properties imports Api Tenancy_Properties Identity_Properties begin

text \<open>
  What holds of every request of the application: which route serves it, who may send it, what it
  can change.
\<close>

section \<open>Routing\<close>

definition all_urls :: "url list" where
  "all_urls = map url_of
     [ToBookings (CreateBooking undefined), ToBookings (GetBooking undefined), ToBookings ListBookings,
      ToBookings (AssignTruck undefined undefined undefined), ToBookings (CancelBooking undefined undefined),
      ToPricing (Estimate undefined), ToPricing (ConfirmPrice undefined undefined),
      ToFleet (AddTruck undefined), ToFleet (ListTrucks undefined), ToFleet (SetTruckStatus undefined undefined),
      ToFleet (AddDriver undefined), ToFleet ListDrivers, ToFleet Availability,
      ToKyc (SubmitKyc undefined), ToKyc (KycStatus undefined undefined), ToKyc (ReviewKyc undefined undefined undefined),
      ToInsurance (QuotePolicy undefined undefined), ToInsurance (BuyPolicy undefined undefined), ToInsurance (GetPolicy undefined),
      ToPayments (Collect undefined), ToPayments (GetPayment undefined), ToPayments (GatewayEvent undefined undefined),
      ToPayments (ReleaseEvent undefined undefined),
      ToDocuments (GenerateDocument undefined undefined undefined), ToDocuments (ListDocuments undefined),
      ToClaims (BuildPacket undefined), ToClaims (GetPacket undefined),
      ToSupport (CreateTicket undefined), ToSupport ListTickets, ToSupport (ReplyTicket undefined undefined),
      ToSupport (CallDriver undefined),
      ToCustody (CreateManifest undefined), ToCustody (GetManifest undefined), ToCustody (CustodyStatus undefined),
      ToCustody (Attribution undefined), ToCustody (ReconcileManifest undefined), ToCustody (ReleaseStatus undefined),
      ToCustody (DeliveryOtp undefined undefined), ToCustody (ConfirmDelivery undefined undefined undefined),
      ToCustody (ScanLoading undefined), ToCustody (ScanLoadingBatch undefined), ToCustody (ScanUnloading undefined),
      ToCustody (ScanUnloadingBatch undefined), ToCustody (PieceHistory undefined),
      ToGps (RegisterDevice undefined), ToGps (RotateSecret undefined undefined), ToGps (StartTracking undefined undefined),
      ToGps (EndTracking undefined), ToGps (Ingest undefined), ToGps (IngestBatch undefined), ToGps (Timeline undefined),
      ToGps (ProveMoment undefined undefined), ToGps (WasNear undefined undefined), ToGps (ProveWindow undefined undefined undefined),
      ToTrips (StartTrip undefined undefined), ToTrips (EndTrip undefined undefined undefined)]"

lemma url_listed: "url_of c \<in> set all_urls"
  by (rule all_calls [of _ c]; rename_tac x; case_tac x) (auto simp: all_urls_def)

lemma urls_apart: "list_all (\<lambda>u. list_all (\<lambda>v. fst u = fst v \<and> overlap (snd u) (snd v) \<longrightarrow> u = v) all_urls) all_urls"
  by (simp add: all_urls_def)

lemma one_route: "fst (url_of c) = fst (url_of d) \<Longrightarrow> overlap (snd (url_of c)) (snd (url_of d)) \<Longrightarrow> url_of c = url_of d"
  using urls_apart url_listed [of c] url_listed [of d] by (auto simp: list_all_iff)

section \<open>The guard in front\<close>

lemma respond_cases:
  assumes "respond E G cf w auth c s = (resp, s')" and "\<not> rt_public (route_of c)"
  shows "(\<exists>e. resp = Refused e \<and> s' = s) \<or>
    (\<exists>tok cl. auth = Some (BEARER @ tok) \<and> verifyAccessToken (token_mac E) (cf_tokenSecret cf) (w_now w) tok = Inr cl \<and>
       satisfies (route_of c) (actor_of cl) \<and>
       (resp = Invalid \<and> s' = s \<or> (\<exists>r. handle E G cf w (caller_of (Some (actor_of cl))) c s = (r, s') \<and>
          resp = (case r of Inl e \<Rightarrow> Failed e | Inr x \<Rightarrow> Answered x))))"
proof (cases "canActivate (token_mac E) (cf_tokenSecret cf) (w_now w) (route_of c) auth")
  case (Inl e)
  with assms show ?thesis by (auto simp: respond_def)
next
  case (Inr a)
  then obtain b where a: "a = Some b" using assms(2) canActivate_some by blast
  from Inr [unfolded a] obtain tok cl where *: "auth = Some (BEARER @ tok)"
    "verifyAccessToken (token_mac E) (cf_tokenSecret cf) (w_now w) tok = Inr cl"
    "b = actor_of cl" "satisfies (route_of c) b" by (auto simp: canActivate_ok)
  with assms(1) Inr a show ?thesis by (auto simp: respond_def split: prod.splits sum.splits if_splits)
qed

















section \<open>What a request may change\<close>

section \<open>A company's desk\<close>

text \<open>Sample requests: a token of the administrator of the sample company, and validators that take nothing.\<close>

definition toy_api :: api_env where
  "toy_api = plat_env.extend toy_plat
     (api_env.fields (\<lambda>_. False) (\<lambda>_. True) length (\<lambda>_. True) (\<lambda>_. None) (\<lambda>_. 0) toy_mac)"

definition toy_config :: api_config where
  "toy_config = \<lparr>cf_tokenSecret = ''s'', cf_gatewaySecret = ''g'', cf_internalSecret = ''i'', cf_callBridge = None,
     cf_contracts = \<lparr>cr_tripLogAnchor = ''0xa'', cr_documentRegistry = ''0xb'', cr_custodyManifest = ''0xc''\<rparr>\<rparr>"

definition toy_draws :: draws where
  "toy_draws = \<lparr>w_now = 0, w_id = ''row-1'', w_tx = ''0xtx'', w_blocks = [], w_key = ''k'', w_iv = ''iv'', w_code = 0,
     w_scan = (\<lambda>_. (''scan'', 0))\<rparr>"

definition desk_claims :: claims where
  "desk_claims = \<lparr>cl_sub = ''user-1'', cl_companyId = Some CO, cl_role = COMPANY_ADMIN,
     cl_modules = modulesForPlan PROFESSIONAL, cl_tokenVersion = 0, cl_iat = 0, cl_exp = 0\<rparr>"

definition desk_token :: string where
  "desk_token = signAccessToken toy_mac ''s'' 0 desk_claims"

lemma toy_api_parts [simp]:
  "token_mac toy_api = toy_mac" "v_isUUID toy_api x = False" "pipe_uuid toy_api x = True"
  "cf_tokenSecret toy_config = ''s''" "w_now toy_draws = 0"
  by (simp_all add: toy_api_def toy_config_def toy_draws_def plat_env.defs api_env.defs)

lemma desk_verified: "verifyAccessToken toy_mac ''s'' 0 desk_token = Inr (stamped 0 desk_claims)"
  using verify_signed [OF toy_mac_shape, of "''s''" 0 0 desk_claims]
  by (simp add: desk_token_def stamped_def desk_claims_def scope_ok_def ACCESS_TTL_S_def)

lemma desk_passes:
  assumes "satisfies (route_of c) (actor_of (stamped 0 desk_claims))" and "\<not> rt_public (route_of c)" and "\<not> valid toy_api c"
  shows "respond toy_api toy_gps toy_config toy_draws (Some (BEARER @ desk_token)) c s = (Invalid, s)"
  using assms by (simp add: respond_def canActivate_bearer desk_verified authorize_ok [of _ _ "()", symmetric])

definition desk_manifest :: create_dto where
  "desk_manifest = \<lparr>cd_bookingId = [], cd_tripId = [], cd_pieces = None, cd_pieceCount = None, cd_loader = [],
     cd_driver = [], cd_receiver = []\<rparr>"

definition desk_start :: start_dto where
  "desk_start = \<lparr>st_truckId = [], st_driverId = [], st_loader = None, st_receiver = None, st_pieceCount = None,
     st_pieces = None\<rparr>"

lemma desk_satisfies:
  "satisfies (route_of (ToCustody (CreateManifest d))) (actor_of (stamped 0 desk_claims))"
  "satisfies (route_of (ToTrips (StartTrip k e))) (actor_of (stamped 0 desk_claims))"
  by (simp_all add: satisfies_def route_defs can_def roleHas_def actor_of_def stamped_def desk_claims_def
      hasModule_def plan_module_defs)

section \<open>Requests\<close>




section \<open>Duties\<close>

text \<open>The acts of a consignment that must not lie in one hand.\<close>

datatype duty = Declares | Loads | Receives

fun duty_of :: "call \<Rightarrow> duty option" where
  "duty_of (ToCustody (CreateManifest _)) = Some Declares"
| "duty_of (ToTrips (StartTrip _ _)) = Some Declares"
| "duty_of (ToCustody (ScanLoading _)) = Some Loads"
| "duty_of (ToCustody (ScanLoadingBatch _)) = Some Loads"
| "duty_of (ToCustody (ScanUnloading _)) = Some Receives"
| "duty_of (ToCustody (ScanUnloadingBatch _)) = Some Receives"
| "duty_of (ToCustody (DeliveryOtp _ _)) = Some Receives"
| "duty_of (ToCustody (ConfirmDelivery _ _ _)) = Some Receives"
| "duty_of (ToTrips (EndTrip _ _ _)) = Some Receives"
| "duty_of _ = None"

fun duty_roles :: "duty \<Rightarrow> role set" where
  "duty_roles Declares = {COMPANY_ADMIN, DISPATCHER}"
| "duty_roles Loads = {DRIVER}"
| "duty_roles Receives = {RECEIVER}"

lemma duty_role: "duty_of c = Some d \<Longrightarrow> satisfies (route_of c) a \<Longrightarrow> actor_role a \<in> duty_roles d"
  by (induction c rule: duty_of.induct; cases "actor_role a") (auto simp: satisfies_def route_defs can_def roleHas_def)

lemma duty_protected: "duty_of c = Some d \<Longrightarrow> \<not> rt_public (route_of c)"
  by (induction c rule: duty_of.induct) (auto simp: route_defs)

lemma same_token_same_claims:
  assumes "verifyAccessToken mac k now tok = Inr c" and "verifyAccessToken mac k now' tok = Inr c'"
  shows "c' = c"
proof -
  from verify_sound [OF assms(1)] obtain h b where 1: "split_dot tok = [h, b, mac k (h @ CHR ''.'' # b)]"
    "Option.bind (parse (b64url_decode b)) claims_of_json = Some c" by blast
  from verify_sound [OF assms(2)] obtain h' b' where 2: "split_dot tok = [h', b', mac k (h' @ CHR ''.'' # b')]"
    "Option.bind (parse (b64url_decode b')) claims_of_json = Some c'" by blast
  from 1(1) 2(1) have "b' = b" by simp
  with 1(2) 2(2) show ?thesis by simp
qed

text \<open>C14: Nobody declares goods and receives them: two requests with one access token, whenever they are made,
  never both pass the guard if one declares a consignment, scans its loading or receives it and the
  other performs another of these duties.\<close>

theorem duties_are_separate:
  assumes "respond E G cf w (Some tok) c s = (resp, s1)" and "respond E G cf w' (Some tok) c' t = (resp', t1)"
    and "\<And>e. resp \<noteq> Refused e" and "\<And>e. resp' \<noteq> Refused e"
    and "duty_of c = Some d" and "duty_of c' = Some d'"
  shows "d = d'"
proof -
  from respond_cases [OF assms(1) duty_protected [OF assms(5)]] assms(3) obtain k cl where
    a: "tok = BEARER @ k" "verifyAccessToken (token_mac E) (cf_tokenSecret cf) (w_now w) k = Inr cl"
      "satisfies (route_of c) (actor_of cl)" by blast
  from respond_cases [OF assms(2) duty_protected [OF assms(6)]] assms(4) obtain k' cl' where
    b: "tok = BEARER @ k'" "verifyAccessToken (token_mac E) (cf_tokenSecret cf) (w_now w') k' = Inr cl'"
      "satisfies (route_of c') (actor_of cl')" by blast
  from a(1) b(1) have "k' = k" by simp
  with a(2) b(2) have "cl' = cl" by (simp add: same_token_same_claims)
  with duty_role [OF assms(5) a(3)] duty_role [OF assms(6) b(3)] show ?thesis
    by (cases d; cases d') auto
qed

theorem duties_are_separate_witness:
  "respond toy_api toy_gps toy_config toy_draws (Some (BEARER @ desk_token)) (ToCustody (CreateManifest desk_manifest))
       (toy_platform (tables_of [] [] []) fresh_world) = (Invalid, toy_platform (tables_of [] [] []) fresh_world) \<and>
   respond toy_api toy_gps toy_config toy_draws (Some (BEARER @ desk_token)) (ToTrips (StartTrip [] desk_start))
       (toy_platform (tables_of [] [] []) fresh_world) = (Invalid, toy_platform (tables_of [] [] []) fresh_world) \<and>
   duty_of (ToCustody (CreateManifest desk_manifest)) = duty_of (ToTrips (StartTrip [] desk_start))"
proof -
  let ?s = "toy_platform (tables_of [] [] []) fresh_world"
  have a: "respond toy_api toy_gps toy_config toy_draws (Some (BEARER @ desk_token)) (ToCustody (CreateManifest desk_manifest)) ?s =
      (Invalid, ?s)"
    by (rule desk_passes [OF desk_satisfies(1)]) (simp_all add: route_defs manifest_valid_def)
  have b: "respond toy_api toy_gps toy_config toy_draws (Some (BEARER @ desk_token)) (ToTrips (StartTrip [] desk_start)) ?s =
      (Invalid, ?s)"
    by (rule desk_passes [OF desk_satisfies(2)]) (simp_all add: route_defs start_valid_def)
  from duties_are_separate [OF a b, of Declares Declares] a b show ?thesis by simp
qed

section \<open>Plans\<close>

text \<open>The cheapest plan a route is part of.\<close>

fun plan_needed :: "call \<Rightarrow> plan" where
  "plan_needed (ToCustody _) = PROFESSIONAL"
| "plan_needed (ToInsurance _) = STANDARD"
| "plan_needed (ToPayments _) = STANDARD"
| "plan_needed (ToDocuments _) = STANDARD"
| "plan_needed (ToClaims _) = ENTERPRISE"
| "plan_needed (ToGps (ProveMoment _ _)) = ENTERPRISE"
| "plan_needed (ToGps (WasNear _ _)) = ENTERPRISE"
| "plan_needed (ToGps (ProveWindow _ _ _)) = ENTERPRISE"
| "plan_needed _ = STARTER"

fun cheapest :: "platform_module \<Rightarrow> plan" where
  "cheapest CORE = STARTER" | "cheapest FLEET = STARTER" | "cheapest TRIPS = STARTER"
| "cheapest GPS_TRACKING = STARTER" | "cheapest SUPPORT = STARTER"
| "cheapest TRIP_HISTORY = STANDARD" | "cheapest REPORTS = STANDARD" | "cheapest ANALYTICS = STANDARD"
| "cheapest DOCUMENTS = STANDARD" | "cheapest PAYMENTS = STANDARD"
| "cheapest QR_GOODS = PROFESSIONAL" | "cheapest GOODS_VERIFICATION = PROFESSIONAL"
| "cheapest CUSTODY_TRACKING = PROFESSIONAL"
| "cheapest THEFT_DETECTION = ENTERPRISE" | "cheapest GPS_ANCHORING = ENTERPRISE" | "cheapest REPUTATION = ENTERPRISE"
| "cheapest CLAIMS_EVIDENCE = ENTERPRISE" | "cheapest FINANCING_RAILS = ENTERPRISE"

lemma plan_has: "m \<in> set (modulesForPlan p) \<longleftrightarrow> rank (cheapest m) \<le> rank p"
  by (cases m; cases p) (simp_all add: plan_module_defs)

lemma route_module: "\<not> rt_public (route_of c) \<longrightarrow> (\<exists>m. rt_module (route_of c) = Some m \<and> cheapest m = plan_needed c)"
  by (rule all_calls [of _ c]; rename_tac x; case_tac x) (simp_all add: route_defs)

lemma plan_reaches:
  "\<not> rt_public (route_of c) \<Longrightarrow> \<exists>m. rt_module (route_of c) = Some m \<and>
     (m \<in> set (modulesForPlan p) \<longleftrightarrow> rank (plan_needed c) \<le> rank p)"
  using route_module [of c] by (auto simp: plan_has)

lemma http_of_402: "http_of e = Http402 (''MODULE_NOT_ENABLED:'' @ module_text m) m \<longleftrightarrow> e = PaymentRequiredError m"
  by (cases e) auto

text \<open>C22: For a company whose token carries exactly the modules of its plan, a protected route answers 402
  exactly when the company's plan is below the cheapest one with that route; the answer names the
  route's module, and nothing changes.\<close>

theorem routes_follow_the_plan:
  assumes "verifyAccessToken (token_mac E) (cf_tokenSecret cf) (w_now w) tok = Inr cl"
    and "set (cl_modules cl) = set (modulesForPlan p)" and "\<not> rt_public (route_of c)"
  shows "(\<exists>m. rt_module (route_of c) = Some m \<and>
    (rank p < rank (plan_needed c) \<longleftrightarrow> respond E G cf w (Some (BEARER @ tok)) c s =
       (Refused (Http402 (''MODULE_NOT_ENABLED:'' @ module_text m) m), s)))"
proof -
  from plan_reaches [OF assms(3), of p] obtain m where m: "rt_module (route_of c) = Some m"
    "m \<in> set (modulesForPlan p) \<longleftrightarrow> rank (plan_needed c) \<le> rank p" by blast
  let ?a = "authorize (route_of c) (actor_of cl)"
  have g: "canActivate (token_mac E) (cf_tokenSecret cf) (w_now w) (route_of c) (Some (BEARER @ tok)) =
      (case ?a of Inl e \<Rightarrow> Inl (http_of e) | Inr _ \<Rightarrow> Inr (Some (actor_of cl)))"
    using assms(1,3) by (simp add: canActivate_bearer)
  have pay: "?a = Inl (PaymentRequiredError m) \<longleftrightarrow> rank p < rank (plan_needed c)"
    using m assms(2) by (auto simp: authorize_payment hasModule_def actor_of_def)
  have "respond E G cf w (Some (BEARER @ tok)) c s =
       (Refused (Http402 (''MODULE_NOT_ENABLED:'' @ module_text m) m), s) \<longleftrightarrow> ?a = Inl (PaymentRequiredError m)"
  proof (cases ?a)
    case (Inl e)
    with http_of_402 [of e m] show ?thesis by (simp add: respond_def g)
  next
    case (Inr x)
    then show ?thesis by (simp add: respond_def g split: prod.split sum.split)
  qed
  with pay m(1) show ?thesis by blast
qed

theorem routes_follow_the_plan_witness:
  "respond toy_api toy_gps toy_config toy_draws (Some (BEARER @ desk_token)) (ToClaims (GetPacket UUID))
       (toy_platform (tables_of [] [] []) fresh_world) =
     (Refused (Http402 (''MODULE_NOT_ENABLED:'' @ module_text CLAIMS_EVIDENCE) CLAIMS_EVIDENCE),
      toy_platform (tables_of [] [] []) fresh_world)"
proof -
  have v: "verifyAccessToken (token_mac toy_api) (cf_tokenSecret toy_config) (w_now toy_draws) desk_token =
      Inr (stamped 0 desk_claims)"
    by (simp add: desk_verified)
  have m: "set (cl_modules (stamped 0 desk_claims)) = set (modulesForPlan PROFESSIONAL)"
    by (simp add: stamped_def desk_claims_def)
  have r: "\<not> rt_public (route_of (ToClaims (GetPacket UUID)))" "rt_module (route_of (ToClaims (GetPacket UUID))) = Some CLAIMS_EVIDENCE"
    by (simp_all add: route_defs)
  from routes_follow_the_plan [OF v m r(1), of toy_gps "toy_platform (tables_of [] [] []) fresh_world"] r(2)
  show ?thesis by (simp del: module_text.simps)
qed

text \<open>
  A query string carries texts, and the rules of the near route ask for numbers: no request to it
  passes its validation.
\<close>

lemma near_is_never_valid: "\<not> valid E (ToGps (WasNear k query))"
  by (cases query) (simp add: near_query_of_def)

end
