(* ===== verification/Deployment.thy ===== *)
theory Deployment imports Reputation Escrow Trip_Log begin

text \<open>
  \<open>chain/scripts/deploy.ts\<close>: the five contracts put on a network, their roles set, and their addresses
  written down. A step that fails ends the script before anything is written; contracts already on the
  chain are then known to nobody and are not in the result. Printing and the balance are left out.
\<close>

text \<open>
  The environment: the network's name, the signer, the three optional variables, the time of the run, and
  how the library turns an address argument into an address (none when it refuses it).
\<close>

record deploy_env =
  dp_network :: string
  dp_chainId :: int
  dp_deployer :: string
  dp_ARBITER :: "string option"
  dp_PLATFORM :: "string option"
  dp_ANCHORER :: "string option"
  dp_now :: string
  dp_time :: nat
  dp_resolve :: "string \<Rightarrow> string option"

text \<open>The addresses the network gives to the contracts.\<close>

record addresses =
  ad_tripLog :: string
  ad_docReg :: string
  ad_custody :: string
  ad_reputation :: string
  ad_escrow :: string

record stack =
  sk_tripLog :: trip_log
  sk_docReg :: doc_registry
  sk_custody :: chain
  sk_reputation :: ledger
  sk_escrow :: escrow

record pinned =
  pn_network :: string
  pn_chainId :: int
  pn_deployedAt :: string
  pn_deployer :: string
  pn_arbiter :: string
  pn_contracts :: addresses

definition MAINNET_GUARD :: exn where
  "MAINNET_GUARD = Error ''MAINNET GUARD''"

text \<open>\<open>process.env.X ?? deployer.address\<close>.\<close>

definition or_deployer :: "deploy_env \<Rightarrow> string option \<Rightarrow> string" where
  "or_deployer D x = coalesce x (dp_deployer D)"

definition tx_result :: "'e + 'a \<Rightarrow> exn + 'a" where
  "tx_result r = (case r of Inl _ \<Rightarrow> Inl reverted | Inr x \<Rightarrow> Inr x)"

definition address_arg :: "deploy_env \<Rightarrow> string \<Rightarrow> exn + string" where
  "address_arg D a = (case dp_resolve D a of None \<Rightarrow> Inl abi_error | Some x \<Rightarrow> Inr x)"

definition then_do :: "exn + 'a \<Rightarrow> ('a \<Rightarrow> exn + 'b) \<Rightarrow> exn + 'b" where
  "then_do r f = (case r of Inl e \<Rightarrow> Inl e | Inr x \<Rightarrow> f x)"

definition deploy :: "deploy_env \<Rightarrow> addresses \<Rightarrow> exn + (stack \<times> pinned)" where
  "deploy D a =
     (let me = dp_deployer D; g = \<lparr>msg_sender = me, block_timestamp = dp_time D\<rparr>;
          arbiter = or_deployer D (dp_ARBITER D); platform = or_deployer D (dp_PLATFORM D);
          anchorer = or_deployer D (dp_ANCHORER D) in
      if dp_network D = ''polygon'' \<and> \<not> truthy (dp_ARBITER D) then Inl MAINNET_GUARD
      else
        let tripLog = trip_deployed me; docReg = doc_deployed me; custody = deployed me; reputation = ledger_deployed me in
        then_do (address_arg D arbiter) (\<lambda>arb.
        then_do (tx_result (escrow_deployed me (ad_custody a) arb)) (\<lambda>escrow.
        then_do (address_arg D anchorer) (\<lambda>an.
        then_do (tx_result (setAnchorer g an True tripLog)) (\<lambda>tripLog.
        then_do (address_arg D platform) (\<lambda>pl.
        then_do (tx_result (setRegistrar g pl True docReg)) (\<lambda>docReg.
        then_do (tx_result (setPlatform g pl True custody)) (\<lambda>custody.
        then_do (tx_result (repSetPlatform g pl True reputation)) (\<lambda>reputation.
        Inr (\<lparr>sk_tripLog = tripLog, sk_docReg = docReg, sk_custody = custody, sk_reputation = reputation, sk_escrow = escrow\<rparr>,
          \<lparr>pn_network = dp_network D, pn_chainId = dp_chainId D, pn_deployedAt = dp_now D, pn_deployer = me,
           pn_arbiter = arbiter, pn_contracts = a\<rparr>))))))))))"

lemma then_do_iff: "then_do r f = Inr y \<longleftrightarrow> (\<exists>x. r = Inr x \<and> f x = Inr y)"
  by (simp add: then_do_def split: sum.split)

lemma tx_result_iff: "tx_result r = Inr x \<longleftrightarrow> r = Inr x"
  by (simp add: tx_result_def split: sum.split)

lemma address_arg_iff: "address_arg D a = Inr x \<longleftrightarrow> dp_resolve D a = Some x"
  by (simp add: address_arg_def split: option.split)

lemmas deploy_iff = then_do_iff tx_result_iff address_arg_iff

text \<open>A finished deployment, by its transactions.\<close>

lemma deploy_cases:
  assumes "deploy D a = Inr (s, p)"
  defines "g \<equiv> \<lparr>msg_sender = dp_deployer D, block_timestamp = dp_time D\<rparr>"
  obtains arb an pl where "dp_network D = ''polygon'' \<longrightarrow> truthy (dp_ARBITER D)"
    "dp_resolve D (or_deployer D (dp_ARBITER D)) = Some arb" "dp_resolve D (or_deployer D (dp_ANCHORER D)) = Some an"
    "dp_resolve D (or_deployer D (dp_PLATFORM D)) = Some pl"
    "escrow_deployed (dp_deployer D) (ad_custody a) arb = Inr (sk_escrow s)"
    "setAnchorer g an True (trip_deployed (dp_deployer D)) = Inr (sk_tripLog s)"
    "setRegistrar g pl True (doc_deployed (dp_deployer D)) = Inr (sk_docReg s)"
    "setPlatform g pl True (deployed (dp_deployer D)) = Inr (sk_custody s)"
    "repSetPlatform g pl True (ledger_deployed (dp_deployer D)) = Inr (sk_reputation s)"
    "pn_contracts p = a" "pn_arbiter p = or_deployer D (dp_ARBITER D)"
proof -
  have guard: "dp_network D = ''polygon'' \<longrightarrow> truthy (dp_ARBITER D)"
    using assms(1) by (auto simp: deploy_def Let_def split: if_splits)
  from assms(1) obtain arb an pl where
    "dp_resolve D (or_deployer D (dp_ARBITER D)) = Some arb" "dp_resolve D (or_deployer D (dp_ANCHORER D)) = Some an"
    "dp_resolve D (or_deployer D (dp_PLATFORM D)) = Some pl"
    "escrow_deployed (dp_deployer D) (ad_custody a) arb = Inr (sk_escrow s)"
    "setAnchorer g an True (trip_deployed (dp_deployer D)) = Inr (sk_tripLog s)"
    "setRegistrar g pl True (doc_deployed (dp_deployer D)) = Inr (sk_docReg s)"
    "setPlatform g pl True (deployed (dp_deployer D)) = Inr (sk_custody s)"
    "repSetPlatform g pl True (ledger_deployed (dp_deployer D)) = Inr (sk_reputation s)"
    "pn_contracts p = a" "pn_arbiter p = or_deployer D (dp_ARBITER D)"
    unfolding deploy_def Let_def g_def deploy_iff by (auto simp: deploy_iff split: if_splits)
  with guard that show ?thesis by blast
qed

end
