(* ===== verification/Contract_Properties.thy ===== *)
theory Contract_Properties imports Deployment Samples begin

text \<open>
  What a reputation counts, what the escrow owes and pays, and what a deployment leaves behind.
\<close>

section \<open>Reputation\<close>


definition toy_rep :: rep_env where
  "toy_rep = chain_env.extend (chain_env.truncate toy_env) (rep_env.fields ''ledger'')"



lemma toy_rep_recover [simp]: "c \<noteq> CHR ''0'' \<Longrightarrow> recover toy_rep h (toy_sig c) = Inr (addr c)"
proof -
  have "ecrecover toy_env = (\<lambda>_ _ r s. ''0x'' @ take 40 (r @ s))" by (simp add: toy_env_def)
  moreover have "ecrecover toy_rep = (\<lambda>_ _ r s. ''0x'' @ take 40 (r @ s))"
    by (simp add: toy_rep_def chain_env.defs rep_env.defs toy_env_def)
  ultimately have "recover toy_rep h (toy_sig c) = recover toy_env h (toy_sig c)" by (simp add: recover_def Let_def)
  then show "c \<noteq> CHR ''0'' \<Longrightarrow> recover toy_rep h (toy_sig c) = Inr (addr c)" by simp
qed





section \<open>Escrow\<close>

text \<open>C13: Whatever anybody calls, in whatever order, and whatever code the paid parties run before a payment
  returns (calls into the escrow and the custody contract included), the escrow's balance covers every
  deposit that has not left it, and a deposit once made keeps its payer, its payee and its amount and is
  settled at most once.\<close>

theorem escrow_is_solvent:
  assumes "reachable_escrow E self w"
  shows "(\<Sum>k | de_status (dep w k) = DFunded. de_amount (dep w k)) \<le> ew_balance w self \<and>
    finite {k. de_status (dep w k) = DFunded} \<and> dep_after (dep w k) (dep (run_acts E self as w) k)"
  using reachable_books [OF assms] deposits_last(1)
  by (auto simp: books_def sound_def held_def open_deposits_def)

text \<open>C12: Money leaves a deposit only as the custody contract says: a released deposit's manifest was received in
  full, with the signatures of the loader, the driver and the receiver over the declared count, and a
  divided deposit's manifest is short or disputed.\<close>

theorem escrow_follows_the_custody:
  assumes "reachable_escrow E self w" and "m = ch_manifests (ew_custody w) k"
  shows "(de_status (dep w k) = DReleased \<longrightarrow>
      cm_pieceCount m \<noteq> 0 \<and> cm_deliveredCount m = cm_pieceCount m \<and>
      signed_by E (loadingDigest E k) (cm_loader m) \<and> signed_by E (loadingDigest E k) (cm_driver m) \<and>
      signed_by E (deliveryDigest E k (cm_pieceCount m)) (cm_receiver m)) \<and>
    (de_status (dep w k) = DRefunded \<longrightarrow> cm_status m = Short \<or> cm_status m = Disputed)"
proof -
  have s: "sound E (ew_custody w) (dep w)" using reachable_books [OF assms(1)] by (simp add: books_def)
  then have "manifest_inv E k m"
    using reachable_chain_inv by (auto simp: sound_def chain_inv_def assms(2))
  with s show ?thesis
    by (auto simp: sound_def arrived_def contested_def manifest_inv_def status_ok_def signatures_ok_def created_ok_def assms(2)
        dest!: spec [of _ k])
qed

text \<open>C23: A deposit the custody contract releases is paid whenever anyone asks: the call succeeds and settles
  the deposit unless the payee's own code rejects the payment, and a payee with no code of its own
  receives exactly the amount.\<close>

theorem release_pays:
  assumes "reachable_escrow E self w" and "de_status (dep w k) = DFunded" and "ch_isReleasable k (ew_custody w)"
    and "de_payee (dep w k) \<noteq> self"
  shows "(\<exists>w'. run_call E self g (Release k (Accepts as)) w = Inr w' \<and> de_status (dep w' k) = DReleased) \<and>
    (\<exists>w'. run_call E self g (Release k (Accepts [])) w = Inr w' \<and>
       ew_balance w' = (ew_balance w)(self := ew_balance w self - de_amount (dep w k),
         de_payee (dep w k) := ew_balance w (de_payee (dep w k)) + de_amount (dep w k)))"
proof -
  note run = release_run [OF reachable_books [OF assms(1)] assms(2-4)]
  obtain w' where r: "run_call E self g (Release k (Accepts as)) w = Inr w'" using run by blast
  have "de_status (dep w' k) = DReleased"
    using r run [of g "as"] deposits_last(1) [of "move self (de_payee (dep w k)) (de_amount (dep w k))
      (put_dep k ((dep w k)\<lparr>de_status := DReleased\<rparr>) w)" k E self "as"] by (auto simp: dep_after_def)
  with r run [of g "[]"] assms(4) show ?thesis by (simp add: move_balances)
qed

definition toy_escrow :: escrow where
  "toy_escrow = projr (escrow_deployed ''owner'' ''custody'' ''arbiter'')"

definition escrow_funded :: escrow_world where
  "escrow_funded = run_acts toy_env ''escrow'' [Calls \<lparr>msg_sender = ''payer'', block_timestamp = 14\<rparr> (Fund 40 HASH DRIVER_ADDR)]
     (escrow_world_at toy_escrow chain_delivered (\<lambda>_. 100))"

lemma escrow_funded_reachable: "reachable_escrow toy_env ''escrow'' escrow_funded"
proof -
  have "escrow_deployed ''owner'' ''custody'' ''arbiter'' = Inr toy_escrow"
    by (simp add: toy_escrow_def escrow_deployed_def zero_address_def)
  then show ?thesis
    unfolding escrow_funded_def using stages_reachable(5) by (blast intro: reachable_escrow.intros)
qed

lemma escrow_funded_facts:
  "de_status (dep escrow_funded HASH) = DFunded" "de_amount (dep escrow_funded HASH) = 40"
  "de_payee (dep escrow_funded HASH) = DRIVER_ADDR" "ew_custody escrow_funded = chain_delivered"
  "ew_balance escrow_funded ''escrow'' = 140" "ew_balance escrow_funded DRIVER_ADDR = 100"
proof -
  have d: "de_status (dep (escrow_world_at toy_escrow chain_delivered (\<lambda>_. 100)) HASH) = DNone"
    by (simp add: dep_def escrow_world_at_def toy_escrow_def escrow_deployed_def zero_address_def zero_deposit_def)
  have a: "DRIVER_ADDR \<noteq> ''escrow''" "DRIVER_ADDR \<noteq> ''payer''" "DRIVER_ADDR \<noteq> zero_address"
    by (simp_all add: DRIVER_ADDR_def) (simp_all add: addr_def)
  show "de_status (dep escrow_funded HASH) = DFunded" "de_amount (dep escrow_funded HASH) = 40"
    "de_payee (dep escrow_funded HASH) = DRIVER_ADDR" "ew_custody escrow_funded = chain_delivered"
    "ew_balance escrow_funded ''escrow'' = 140" "ew_balance escrow_funded DRIVER_ADDR = 100"
    using d a by (simp_all add: escrow_funded_def kept_def fund_def move_balances, simp_all add: escrow_world_at_def)
qed

text \<open>A payee that asks for its money a second time while it is being paid.\<close>

definition anyone :: msg where
  "anyone = \<lparr>msg_sender = ''anyone'', block_timestamp = 15\<rparr>"

definition greedy :: "act list" where
  "greedy = [Calls anyone (Release HASH (Accepts []))]"

definition escrow_paid :: escrow_world where
  "escrow_paid = run_acts toy_env ''escrow'' [Calls anyone (Release HASH (Accepts greedy))] escrow_funded"

lemma delivered_releasable: "ch_isReleasable HASH chain_delivered"
  by (simp add: ch_isReleasable_def delivered_facts carried_def toy_manifest_def)

lemma driver_not_escrow: "DRIVER_ADDR \<noteq> ''escrow''"
  by (simp add: DRIVER_ADDR_def) (simp add: addr_def)

lemma escrow_paid_reachable: "reachable_escrow toy_env ''escrow'' escrow_paid"
  unfolding escrow_paid_def by (rule reachable_escrow.step [OF escrow_funded_reachable])

lemma escrow_paid_status: "de_status (dep escrow_paid HASH) = DReleased"
proof -
  let ?w = "put_dep HASH ((dep escrow_funded HASH)\<lparr>de_status := DReleased\<rparr>) escrow_funded"
  let ?v = "run_acts toy_env ''escrow'' greedy (move ''escrow'' DRIVER_ADDR 40 ?w)"
  have "run_call toy_env ''escrow'' anyone (Release HASH (Accepts greedy)) escrow_funded =
      Inr (es_emit (EvReleased HASH DRIVER_ADDR 40) ?v)"
    using release_run [OF reachable_books [OF escrow_funded_reachable], of HASH anyone greedy]
    by (simp add: delivered_releasable driver_not_escrow escrow_funded_facts del: run_call.simps)
  then have "dep escrow_paid = dep ?v"
    by (simp add: escrow_paid_def kept_def anyone_def del: run_call.simps)
  then show ?thesis
    using deposits_last(1) [of "move ''escrow'' DRIVER_ADDR 40 ?w" HASH toy_env "''escrow''" greedy] by (simp add: dep_after_def)
qed

theorem escrow_is_solvent_witness:
  "de_amount (dep escrow_funded HASH) \<le> ew_balance escrow_funded ''escrow'' \<and> de_amount (dep escrow_paid HASH) = 40"
proof -
  note solvent = escrow_is_solvent [OF escrow_funded_reachable, of HASH]
  have "de_amount (dep escrow_funded HASH) \<le> (\<Sum>k | de_status (dep escrow_funded k) = DFunded. de_amount (dep escrow_funded k))"
    by (rule member_le_sum) (use solvent in \<open>auto simp: escrow_funded_facts\<close>)
  with solvent show ?thesis by (auto simp: escrow_paid_def dep_after_def escrow_funded_facts simp del: run_acts.simps)
qed

theorem escrow_follows_the_custody_witness:
  "de_status (dep escrow_paid HASH) = DReleased \<and>
   cm_deliveredCount (ch_manifests (ew_custody escrow_paid) HASH) = cm_pieceCount (ch_manifests (ew_custody escrow_paid) HASH)"
  using escrow_follows_the_custody [OF escrow_paid_reachable refl, of HASH] escrow_paid_status by simp

theorem release_pays_witness:
  "\<exists>w'. run_call toy_env ''escrow'' anyone (Release HASH (Accepts [])) escrow_funded = Inr w' \<and> ew_balance w' DRIVER_ADDR = 140"
  using release_pays [OF escrow_funded_reachable, of HASH anyone "[]"]
  by (auto simp: escrow_funded_facts delivered_releasable driver_not_escrow simp del: run_call.simps)

section \<open>Deployment\<close>

text \<open>A deployment that finishes leaves every contract in a state its own transactions reach, owned by the
  deployer, with exactly one anchorer, one registrar and one platform account, the configured ones, and an
  escrow bound to the new custody contract and to the configured arbiter; on the main network the arbiter
  was set, never defaulted. So what is proved of the contracts holds of the deployed ones from the start.\<close>

theorem deployment_is_wired:
  assumes "deploy D a = Inr (s, p)"
  shows "(\<exists>arb an pl. dp_resolve D (or_deployer D (dp_ARBITER D)) = Some arb \<and>
      dp_resolve D (or_deployer D (dp_ANCHORER D)) = Some an \<and> dp_resolve D (or_deployer D (dp_PLATFORM D)) = Some pl \<and>
      es_arbiter (sk_escrow s) = arb \<and> es_custody (sk_escrow s) = ad_custody (pn_contracts p) \<and>
      {x. tl_isAnchorer (sk_tripLog s) x} = {an} \<and> {x. dg_isRegistrar (sk_docReg s) x} = {pl} \<and>
      {x. ch_isPlatform (sk_custody s) x} = {pl} \<and> {x. rl_isPlatform (sk_reputation s) x} = {pl}) \<and>
    {tl_owner (sk_tripLog s), dg_owner (sk_docReg s), ch_owner (sk_custody s), rl_owner (sk_reputation s), es_owner (sk_escrow s)} =
      {dp_deployer D} \<and>
    (dp_network D = ''polygon'' \<longrightarrow> truthy (dp_ARBITER D)) \<and>
    trip_step (trip_deployed (dp_deployer D)) (sk_tripLog s) \<and> doc_step (doc_deployed (dp_deployer D)) (sk_docReg s) \<and>
    reachable_chain E (sk_custody s) \<and> reachable_ledger E' (sk_reputation s) \<and>
    reachable_escrow E (ad_escrow (pn_contracts p)) (escrow_world_at (sk_escrow s) (sk_custody s) b)"
  using assms
proof (cases rule: deploy_cases)
  case (1 arb an pl)
  have roles: "{x. tl_isAnchorer (sk_tripLog s) x} = {an}" "{x. dg_isRegistrar (sk_docReg s) x} = {pl}"
    "{x. ch_isPlatform (sk_custody s) x} = {pl}" "{x. rl_isPlatform (sk_reputation s) x} = {pl}"
    "tl_owner (sk_tripLog s) = dp_deployer D" "dg_owner (sk_docReg s) = dp_deployer D"
    "ch_owner (sk_custody s) = dp_deployer D" "rl_owner (sk_reputation s) = dp_deployer D"
    using 1(6-9) [THEN arg_cong [of _ _ projr], symmetric]
    by (simp_all add: setAnchorer_def trip_deployed_def trip_emit_def setRegistrar_def doc_deployed_def doc_emit_def
        setPlatform_def deployed_def emit_def repSetPlatform_def ledger_deployed_def rep_emit_def)
  have es: "es_arbiter (sk_escrow s) = arb" "es_custody (sk_escrow s) = ad_custody (pn_contracts p)" "es_owner (sk_escrow s) = dp_deployer D"
    using 1(5,10) by (auto simp: escrow_deployed_def split: if_splits dest!: sym [of _ "sk_escrow s"])
  have "trip_step (trip_deployed (dp_deployer D)) (sk_tripLog s)" "doc_step (doc_deployed (dp_deployer D)) (sk_docReg s)"
    by (rule trip_step.intros(2) [OF 1(6)], rule doc_step.intros(2) [OF 1(7)])
  moreover have c: "reachable_chain E (sk_custody s)"
    by (rule reachable_chain.step [OF reachable_chain.start chain_step.intros(2) [OF 1(8)]])
  moreover have "reachable_ledger E' (sk_reputation s)"
    by (rule reachable_ledger.step [OF reachable_ledger.start ledger_step.intros(2) [OF 1(9)]])
  moreover have "reachable_escrow E (ad_escrow (pn_contracts p)) (escrow_world_at (sk_escrow s) (sk_custody s) b)"
    by (rule reachable_escrow.start [OF 1(5) c])
  ultimately show ?thesis using roles es 1(1-4) by simp
qed

definition toy_deploy :: deploy_env where
  "toy_deploy = \<lparr>dp_network = ''polygon'', dp_chainId = 137, dp_deployer = ''deployer'', dp_ARBITER = Some ''arbiter'',
     dp_PLATFORM = Some PLATFORM, dp_ANCHORER = None, dp_now = ''now'', dp_time = 5, dp_resolve = Some\<rparr>"

definition toy_addresses5 :: addresses where
  "toy_addresses5 = \<lparr>ad_tripLog = ''a1'', ad_docReg = ''a2'', ad_custody = ''a3'', ad_reputation = ''a4'', ad_escrow = ''a5''\<rparr>"

theorem deployment_is_wired_witness:
  "\<exists>s p. deploy toy_deploy toy_addresses5 = Inr (s, p) \<and> es_arbiter (sk_escrow s) = ''arbiter'' \<and>
     {x. tl_isAnchorer (sk_tripLog s) x} = {''deployer''}"
proof -
  have "\<exists>s p. deploy toy_deploy toy_addresses5 = Inr (s, p)"
    by (simp add: deploy_def toy_deploy_def toy_addresses5_def Let_def truthy_def or_deployer_def coalesce_def then_do_def
        tx_result_def address_arg_def escrow_deployed_def zero_address_def setAnchorer_def trip_deployed_def setRegistrar_def
        doc_deployed_def setPlatform_def deployed_def repSetPlatform_def ledger_deployed_def)
  then obtain s p where d: "deploy toy_deploy toy_addresses5 = Inr (s, p)" by blast
  from deployment_is_wired [OF d, of toy_env toy_rep] d show ?thesis
    by (auto simp: toy_deploy_def or_deployer_def coalesce_def)
qed

end
