(* ===== verification/Scan_Page.thy ===== *)
theory Scan_Page imports Manifest begin

text \<open>
  \<open>custody/scanner/pwa/scanner.js\<close>, the page that scans a delivery in: reading an id off a label, the
  verdict on each scan, the queue kept in IndexedDB and its flush to the server, and what is shown and
  signed. One event is one callback of the browser up to its next wait, so that frames, timers, replies
  and reloads interleave as they do on the phone. Camera, sounds and the log's rows are not modelled.
\<close>

section \<open>Reading a label\<close>

text \<open>\<open>String(payload).match(/DTD-[0-9A-HJ-NP-TV-Z]{10}/)\<close>: the first match, wherever it is.\<close>

fun extractPieceId :: "string \<Rightarrow> string option" where
  "extractPieceId [] = None"
| "extractPieceId (c # s) =
     (if isWellFormedPieceId (take 14 (c # s)) then Some (take 14 (c # s)) else extractPieceId s)"

section \<open>State\<close>

record page_manifest =
  pm_manifestId :: string
  pm_pieceCount :: nat
  pm_pieceIds :: "string list"

record scan_item =
  it_nonce :: string
  it_session :: string
  it_pieceId :: string
  it_manifestId :: string
  it_scannedAt :: string

text \<open>What \<open>flush\<close> is waiting for: the reply to a batch, or the database after a good reply.\<close>

datatype flight = Idle | Sent "scan_item list" | Acked "scan_item list"

text \<open>
  The page's variables. \<open>seen\<close> is a set in insertion order; \<open>sp_puts\<close> are the items whose \<open>enqueue\<close> still
  waits for the database.
\<close>

record scan_page =
  sp_session :: string
  sp_manifest :: page_manifest
  sp_seen :: "string list"
  sp_queue :: "scan_item list"
  sp_puts :: "scan_item list"
  sp_flight :: flight
  sp_lastAt :: int
  sp_online :: bool

text \<open>With it the object store of the browser, by nonce, and what has reached the server.\<close>

record phone =
  ph_page :: scan_page
  ph_store :: "scan_item list"
  ph_server :: "scan_item list"

definition set_add :: "'a \<Rightarrow> 'a list \<Rightarrow> 'a list" where
  "set_add x xs = (if x \<in> set xs then xs else xs @ [x])"

section \<open>Scans\<close>

datatype verdict = TagDuplicate | TagOffManifest | TagOk

definition enqueue :: "string \<Rightarrow> string \<Rightarrow> string \<Rightarrow> scan_page \<Rightarrow> scan_page" where
  "enqueue nonce stamp pieceId p =
     (let i = \<lparr>it_nonce = nonce, it_session = sp_session p, it_pieceId = pieceId,
         it_manifestId = pm_manifestId (sp_manifest p), it_scannedAt = stamp\<rparr>
      in p\<lparr>sp_queue := sp_queue p @ [i], sp_puts := sp_puts p @ [i]\<rparr>)"

definition handlePayload :: "int \<Rightarrow> string \<Rightarrow> string \<Rightarrow> string \<Rightarrow> scan_page \<Rightarrow> (string \<times> verdict) option \<times> scan_page" where
  "handlePayload now nonce stamp payload p =
     (if now - sp_lastAt p < 350 then (None, p)
      else case extractPieceId payload of
        None \<Rightarrow> (None, p)
      | Some k \<Rightarrow>
          let p1 = p\<lparr>sp_lastAt := now\<rparr> in
          if k \<in> set (sp_seen p1) then (Some (k, TagDuplicate), p1)
          else if k \<notin> set (pm_pieceIds (sp_manifest p1)) then (Some (k, TagOffManifest), p1)
          else (Some (k, TagOk), enqueue nonce stamp k (p1\<lparr>sp_seen := set_add k (sp_seen p1)\<rparr>)))"

text \<open>The button for an id that cannot be scanned; a cancelled prompt gives nothing.\<close>

definition manual_entry :: "int \<Rightarrow> string \<Rightarrow> string \<Rightarrow> string option \<Rightarrow> scan_page \<Rightarrow> (string \<times> verdict) option \<times> scan_page" where
  "manual_entry now nonce stamp v p =
     (if truthy v then handlePayload now nonce stamp (to_upper (trim (the v))) p else (None, p))"

text \<open>\<open>render\<close>: how many are in, and whether any is missing.\<close>

datatype page_status = COMPLETE | MISSING int

definition missing_count :: "scan_page \<Rightarrow> int" where
  "missing_count p = int (pm_pieceCount (sp_manifest p)) - int (length (sp_seen p))"

definition render :: "scan_page \<Rightarrow> nat \<times> page_status" where
  "render p = (length (sp_seen p), if missing_count p = 0 then COMPLETE else MISSING (missing_count p))"

section \<open>The queue\<close>

definition BATCH :: nat where "BATCH = 50"

definition store_put :: "scan_item \<Rightarrow> scan_item list \<Rightarrow> scan_item list" where
  "store_put i s = filter (\<lambda>j. it_nonce j \<noteq> it_nonce i) s @ [i]"

definition store_delete :: "scan_item list \<Rightarrow> scan_item list \<Rightarrow> scan_item list" where
  "store_delete b s = filter (\<lambda>j. it_nonce j \<notin> it_nonce ` set b) s"

text \<open>\<open>getAll\<close> hands the items out in the order of their keys.\<close>

definition loadQueue :: "scan_item list \<Rightarrow> scan_page \<Rightarrow> scan_page" where
  "loadQueue s p =
     (let q = filter (\<lambda>i. it_session i = sp_session p) (sort_key (\<lambda>i. codes (it_nonce i)) s)
      in p\<lparr>sp_queue := q, sp_seen := foldl (\<lambda>xs i. set_add (it_pieceId i) xs) (sp_seen p) q\<rparr>)"

definition page_opened :: "string \<Rightarrow> page_manifest \<Rightarrow> bool \<Rightarrow> scan_page" where
  "page_opened session m online =
     \<lparr>sp_session = session, sp_manifest = m, sp_seen = [], sp_queue = [], sp_puts = [], sp_flight = Idle,
      sp_lastAt = 0, sp_online = online\<rparr>"

definition boot :: "string \<Rightarrow> page_manifest \<Rightarrow> bool \<Rightarrow> scan_item list \<Rightarrow> scan_page" where
  "boot session m online s = loadQueue s (page_opened session m online)"

text \<open>\<open>flush\<close> up to its request.\<close>

definition flush :: "scan_page \<Rightarrow> scan_page" where
  "flush p =
     (if sp_flight p \<noteq> Idle \<or> \<not> sp_online p \<or> sp_queue p = [] then p
      else p\<lparr>sp_flight := Sent (take BATCH (sp_queue p))\<rparr>)"

text \<open>
  How a request ends: accepted; refused; lost after the server took it; or lost before.
\<close>

datatype reply = Accepted | Refused_by_server | Reply_lost | Request_lost

datatype scan_event =
    Frame int string string string
  | Typed int string string "string option"
  | Stored
  | Timer
  | Online bool
  | Replied reply
  | Settled
  | Reloaded bool

definition in_page :: "(scan_page \<Rightarrow> scan_page) \<Rightarrow> phone \<Rightarrow> phone" where
  "in_page f h = h\<lparr>ph_page := f (ph_page h)\<rparr>"

text \<open>
  After its put an \<open>enqueue\<close> flushes; coming online flushes; a reload forgets the page's variables, and the
  server may still take the batch it was sending.
\<close>

fun scan_step :: "scan_event \<Rightarrow> phone \<Rightarrow> phone" where
  "scan_step (Frame now nonce stamp payload) h = in_page (\<lambda>p. snd (handlePayload now nonce stamp payload p)) h"
| "scan_step (Typed now nonce stamp v) h = in_page (\<lambda>p. snd (manual_entry now nonce stamp v p)) h"
| "scan_step Stored h =
     (case sp_puts (ph_page h) of
        [] \<Rightarrow> h
      | i # is \<Rightarrow> in_page (\<lambda>p. flush (p\<lparr>sp_puts := is\<rparr>)) (h\<lparr>ph_store := store_put i (ph_store h)\<rparr>))"
| "scan_step Timer h = in_page flush h"
| "scan_step (Online b) h =
     in_page (\<lambda>p. let p1 = p\<lparr>sp_online := b\<rparr> in if b then flush p1 else p1) h"
| "scan_step (Replied r) h =
     (case sp_flight (ph_page h) of
        Sent b \<Rightarrow>
          (case r of
             Accepted \<Rightarrow> in_page (\<lambda>p. p\<lparr>sp_flight := Acked b\<rparr>) (h\<lparr>ph_server := ph_server h @ b\<rparr>)
           | Reply_lost \<Rightarrow> in_page (\<lambda>p. p\<lparr>sp_flight := Idle\<rparr>) (h\<lparr>ph_server := ph_server h @ b\<rparr>)
           | _ \<Rightarrow> in_page (\<lambda>p. p\<lparr>sp_flight := Idle\<rparr>) h)
      | _ \<Rightarrow> h)"
| "scan_step Settled h =
     (case sp_flight (ph_page h) of
        Acked b \<Rightarrow> in_page (\<lambda>p. p\<lparr>sp_queue := drop (length b) (sp_queue p), sp_flight := Idle\<rparr>)
          (h\<lparr>ph_store := store_delete b (ph_store h)\<rparr>)
      | _ \<Rightarrow> h)"
| "scan_step (Reloaded taken) h =
     (let p = ph_page h;
          h1 = (case sp_flight p of Sent b \<Rightarrow> if taken then h\<lparr>ph_server := ph_server h @ b\<rparr> else h | _ \<Rightarrow> h)
      in h1\<lparr>ph_page := boot (sp_session p) (sp_manifest p) (sp_online p) (ph_store h)\<rparr>)"

text \<open>
  The receiver's button: it waits for one flush, asks, and leaves for the signing page with the count.
\<close>

definition finish_asks :: "scan_page \<Rightarrow> page_status" where
  "finish_asks p = snd (render p)"

definition finish :: "bool \<Rightarrow> scan_page \<Rightarrow> (string \<times> nat) option" where
  "finish confirmed p = (if confirmed then Some (sp_session p, length (sp_seen p)) else None)"

section \<open>Labels are read back\<close>

lemma well_formed_length: "isWellFormedPieceId s \<Longrightarrow> length s = 14"
  by (simp add: isWellFormedPieceId_def matches_def)

lemma extract_sound: "extractPieceId s = Some k \<Longrightarrow> isWellFormedPieceId k \<and> (\<exists>a b. s = a @ k @ b)"
proof (induction s)
  case (Cons c s)
  show ?case
  proof (cases "isWellFormedPieceId (take 14 (c # s))")
    case True
    with Cons.prems have "k = take 14 (c # s)" by simp
    moreover have "c # s = [] @ take 14 (c # s) @ drop 14 (c # s)" by simp
    ultimately show ?thesis using True by metis
  next
    case False
    with Cons obtain a b where "isWellFormedPieceId k" "s = a @ k @ b" by auto
    then show ?thesis by (metis append_Cons)
  qed
qed simp

text \<open>The first character of an id is a D, which no place of a text without a D can begin.\<close>

lemma extract_skips: "CHR ''D'' \<notin> set a \<Longrightarrow> extractPieceId (a @ s) = extractPieceId s"
  by (induction a) (auto simp: isWellFormedPieceId_def matches_def starts_with_def)

lemma extract_id: "isWellFormedPieceId k \<Longrightarrow> extractPieceId (k @ s) = Some k"
  using well_formed_length [of k] by (cases k) auto

lemma extract_payload: "isWellFormedPieceId k \<Longrightarrow> CHR ''D'' \<notin> set base \<Longrightarrow> extractPieceId (qrPayload base k) = Some k"
  using extract_skips [of "base @ ''/v/''" k] extract_id [of k "[]"] by (simp add: qrPayload_def)

section \<open>Nothing scanned is lost\<close>

text \<open>The items an event accepts: what its scan put in the queue.\<close>

definition new_items :: "scan_event \<Rightarrow> phone \<Rightarrow> scan_item list" where
  "new_items e h =
     (case e of
        Frame now nonce stamp payload \<Rightarrow> drop (length (sp_queue (ph_page h))) (sp_queue (ph_page (scan_step e h)))
      | Typed now nonce stamp v \<Rightarrow> drop (length (sp_queue (ph_page h))) (sp_queue (ph_page (scan_step e h)))
      | _ \<Rightarrow> [])"

text \<open>The nonce \<open>crypto.randomUUID\<close> gives to a scan was never seen before.\<close>

fun nonce_of :: "scan_event \<Rightarrow> string option" where
  "nonce_of (Frame _ nonce _ _) = Some nonce"
| "nonce_of (Typed _ nonce _ _) = Some nonce"
| "nonce_of _ = None"

definition nonces :: "phone \<Rightarrow> string set" where
  "nonces h = it_nonce ` (set (ph_store h) \<union> set (sp_queue (ph_page h)) \<union> set (sp_puts (ph_page h)) \<union> set (ph_server h))"

text \<open>
  A scanning session of one page, with everything it accepted: it may be reloaded once what was scanned
  has reached the browser's database.
\<close>

inductive scanning :: "string \<Rightarrow> page_manifest \<Rightarrow> phone \<Rightarrow> scan_item list \<Rightarrow> bool" for session m where
  open_page: "scanning session m \<lparr>ph_page = boot session m b [], ph_store = [], ph_server = []\<rparr> []"
| event: "scanning session m h is \<Longrightarrow> (\<forall>n. nonce_of e = Some n \<longrightarrow> n \<notin> nonces h) \<Longrightarrow>
    (\<forall>t. e = Reloaded t \<longrightarrow> sp_puts (ph_page h) = []) \<Longrightarrow> scanning session m (scan_step e h) (is @ new_items e h)"

fun batch_of :: "flight \<Rightarrow> scan_item list" where
  "batch_of Idle = []" | "batch_of (Sent b) = b" | "batch_of (Acked b) = b"

definition page_ok :: "string \<Rightarrow> page_manifest \<Rightarrow> scan_page \<Rightarrow> bool" where
  "page_ok session m p \<longleftrightarrow> sp_session p = session \<and> sp_manifest p = m \<and>
     distinct (sp_seen p) \<and> set (sp_seen p) \<subseteq> set (pm_pieceIds m) \<and>
     distinct (map it_nonce (sp_queue p)) \<and> (\<exists>r. sp_queue p = batch_of (sp_flight p) @ r)"

text \<open>What is at the server or on its way there.\<close>

definition items :: "phone \<Rightarrow> scan_item set" where
  "items h = set (ph_server h) \<union> set (sp_queue (ph_page h))"

definition items_ok :: "string \<Rightarrow> page_manifest \<Rightarrow> scan_item set \<Rightarrow> bool" where
  "items_ok session m I \<longleftrightarrow> inj_on it_nonce I \<and>
     (\<forall>i\<in>I. it_session i = session \<and> it_manifestId i = pm_manifestId m \<and> it_pieceId i \<in> set (pm_pieceIds m))"

definition phone_ok :: "string \<Rightarrow> page_manifest \<Rightarrow> phone \<Rightarrow> bool" where
  "phone_ok session m h \<longleftrightarrow> page_ok session m (ph_page h) \<and> items_ok session m (items h) \<and>
     (\<forall>b. sp_flight (ph_page h) = Acked b \<longrightarrow> set b \<subseteq> set (ph_server h)) \<and>
     set (sp_queue (ph_page h)) \<subseteq> set (ph_store h) \<union> set (sp_puts (ph_page h)) \<and>
     set (ph_store h) \<union> set (sp_puts (ph_page h)) \<subseteq> items h \<and>
     set (sp_seen (ph_page h)) \<subseteq> it_pieceId ` items h \<and> distinct (map it_nonce (ph_store h))"

lemma handle_cases:
  obtains "\<exists>t. snd (handlePayload now nonce stamp payload p) = p\<lparr>sp_lastAt := t\<rparr>"
  | k where "extractPieceId payload = Some k" "k \<notin> set (sp_seen p)" "k \<in> set (pm_pieceIds (sp_manifest p))"
    "snd (handlePayload now nonce stamp payload p) =
       enqueue nonce stamp k (p\<lparr>sp_lastAt := now, sp_seen := sp_seen p @ [k]\<rparr>)"
proof (cases "now - sp_lastAt p < 350 \<or> extractPieceId payload = None")
  case True
  then have "snd (handlePayload now nonce stamp payload p) = p\<lparr>sp_lastAt := sp_lastAt p\<rparr>"
    by (auto simp: handlePayload_def)
  then show ?thesis using that(1) by blast
next
  case False
  then obtain k where k: "extractPieceId payload = Some k" and now: "\<not> now - sp_lastAt p < 350" by auto
  show ?thesis
  proof (cases "k \<in> set (sp_seen p) \<or> k \<notin> set (pm_pieceIds (sp_manifest p))")
    case True
    with k now have "snd (handlePayload now nonce stamp payload p) = p\<lparr>sp_lastAt := now\<rparr>"
      by (auto simp: handlePayload_def Let_def)
    then show ?thesis using that(1) by blast
  next
    case False
    with k now show ?thesis by (intro that(2) [of k]) (auto simp: handlePayload_def Let_def set_add_def)
  qed
qed

lemma items_page [simp]: "sp_queue p = sp_queue (ph_page h) \<Longrightarrow> items (h\<lparr>ph_page := p\<rparr>) = items h"
  by (simp add: items_def)

lemma phone_ok_quiet:
  assumes "phone_ok session m h" and "sp_session p = sp_session (ph_page h)" "sp_manifest p = sp_manifest (ph_page h)"
    "sp_seen p = sp_seen (ph_page h)" "sp_queue p = sp_queue (ph_page h)" "sp_puts p = sp_puts (ph_page h)"
    "sp_flight p = sp_flight (ph_page h)"
  shows "phone_ok session m (h\<lparr>ph_page := p\<rparr>)"
  using assms by (simp add: phone_ok_def page_ok_def)

lemma items_ok_insert:
  "items_ok session m I \<Longrightarrow> it_nonce i \<notin> it_nonce ` I \<Longrightarrow> it_session i = session \<Longrightarrow> it_manifestId i = pm_manifestId m \<Longrightarrow>
   it_pieceId i \<in> set (pm_pieceIds m) \<Longrightarrow> items_ok session m (insert i I)"
  unfolding items_ok_def inj_on_insert by blast

lemma phone_ok_scan:
  assumes ok: "phone_ok session m h" and fresh: "nonce \<notin> nonces h"
    and h': "h' = in_page (\<lambda>p. snd (handlePayload now nonce stamp payload p)) h"
  shows "phone_ok session m h' \<and>
    items h' = items h \<union> set (drop (length (sp_queue (ph_page h))) (sp_queue (ph_page h')))"
proof (cases rule: handle_cases [of now nonce stamp payload "ph_page h"])
  case 1
  then obtain t where "h' = h\<lparr>ph_page := (ph_page h)\<lparr>sp_lastAt := t\<rparr>\<rparr>" using h' by (auto simp: in_page_def)
  then show ?thesis using phone_ok_quiet [OF ok] by simp
next
  case (2 k)
  define i where "i = \<lparr>it_nonce = nonce, it_session = session, it_pieceId = k,
      it_manifestId = pm_manifestId m, it_scannedAt = stamp\<rparr>"
  define p' where "p' = (ph_page h)\<lparr>sp_lastAt := now, sp_seen := sp_seen (ph_page h) @ [k],
      sp_queue := sp_queue (ph_page h) @ [i], sp_puts := sp_puts (ph_page h) @ [i]\<rparr>"
  have page: "page_ok session m (ph_page h)" using ok by (simp add: phone_ok_def)
  then have h2: "h' = h\<lparr>ph_page := p'\<rparr>"
    using 2(4) by (simp add: h' in_page_def p'_def enqueue_def i_def page_ok_def Let_def)
  have it: "items (h\<lparr>ph_page := p'\<rparr>) = insert i (items h)" by (auto simp: items_def p'_def)
  have new: "nonce \<notin> it_nonce ` items h" using fresh by (auto simp: nonces_def items_def)
  then have q: "nonce \<notin> it_nonce ` set (sp_queue (ph_page h))" by (auto simp: items_def)
  have k: "k \<in> set (pm_pieceIds m)" using 2(3) page by (simp add: page_ok_def)
  have "items_ok session m (insert i (items h))"
    using ok new k by (intro items_ok_insert) (simp_all add: phone_ok_def i_def)
  moreover have "page_ok session m p'"
    using page 2(2) k q by (auto simp: page_ok_def p'_def i_def)
  moreover have "it_pieceId i = k" by (simp add: i_def)
  ultimately have "phone_ok session m (h\<lparr>ph_page := p'\<rparr>)"
    using ok by (simp add: phone_ok_def it) (auto simp: p'_def)
  then show ?thesis using it by (simp add: h2 p'_def)
qed

lemma flush_parts [simp]:
  "sp_session (flush p) = sp_session p" "sp_manifest (flush p) = sp_manifest p" "sp_seen (flush p) = sp_seen p"
  "sp_queue (flush p) = sp_queue p" "sp_puts (flush p) = sp_puts p" "sp_online (flush p) = sp_online p"
  by (simp_all add: flush_def)

lemma flush_flight: "sp_flight (flush p) = sp_flight p \<or> sp_flight (flush p) = Sent (take BATCH (sp_queue p))"
  by (simp add: flush_def)

lemma phone_ok_flush:
  assumes "phone_ok session m (h\<lparr>ph_page := p\<rparr>)"
  shows "phone_ok session m (h\<lparr>ph_page := flush p\<rparr>)"
proof -
  have "\<exists>r. sp_queue p = take BATCH (sp_queue p) @ r" by (metis append_take_drop_id)
  then have "\<exists>r. sp_queue p = batch_of (sp_flight (flush p)) @ r"
    using assms flush_flight [of p] by (elim disjE) (simp_all add: phone_ok_def page_ok_def)
  then have "page_ok session m (flush p)" using assms by (simp add: phone_ok_def page_ok_def)
  moreover have "items (h\<lparr>ph_page := flush p\<rparr>) = items (h\<lparr>ph_page := p\<rparr>)" by (simp add: items_def)
  moreover have "sp_flight (flush p) = Acked b \<Longrightarrow> sp_flight p = Acked b" for b using flush_flight [of p] by auto
  ultimately show ?thesis using assms by (simp add: phone_ok_def)
qed

lemma items_flush [simp]: "items (h\<lparr>ph_page := flush p\<rparr>) = items (h\<lparr>ph_page := p\<rparr>)"
  by (simp add: items_def)

lemma set_store_put:
  assumes "inj_on it_nonce I" and "set s \<subseteq> I" and "i \<in> I"
  shows "set (store_put i s) = insert i (set s)"
  using assms by (auto simp: store_put_def dest: inj_onD)

lemma distinct_store_put: "distinct (map it_nonce s) \<Longrightarrow> distinct (map it_nonce (store_put i s))"
  by (auto simp: store_put_def distinct_map_filter)

lemma phone_ok_stored:
  assumes ok: "phone_ok session m h" and puts: "sp_puts (ph_page h) = i # is"
  shows "phone_ok session m (h\<lparr>ph_store := store_put i (ph_store h), ph_page := (ph_page h)\<lparr>sp_puts := is\<rparr>\<rparr>)"
proof -
  let ?h = "h\<lparr>ph_store := store_put i (ph_store h), ph_page := (ph_page h)\<lparr>sp_puts := is\<rparr>\<rparr>"
  have "items ?h = items h" by (simp add: items_def)
  moreover have "inj_on it_nonce (items h)" "set (ph_store h) \<subseteq> items h" "i \<in> items h"
    using ok puts by (auto simp: phone_ok_def items_ok_def)
  then have "set (store_put i (ph_store h)) = insert i (set (ph_store h))" by (rule set_store_put)
  ultimately show ?thesis
    using ok puts by (auto simp: phone_ok_def page_ok_def distinct_store_put)
qed

lemma phone_ok_taken:
  assumes "phone_ok session m h" and "sp_flight (ph_page h) = Sent b"
  shows "phone_ok session m (h\<lparr>ph_server := ph_server h @ b\<rparr>)" and "items (h\<lparr>ph_server := ph_server h @ b\<rparr>) = items h"
proof -
  have "set b \<subseteq> set (sp_queue (ph_page h))" using assms by (auto simp: phone_ok_def page_ok_def)
  then show i: "items (h\<lparr>ph_server := ph_server h @ b\<rparr>) = items h" by (auto simp: items_def)
  show "phone_ok session m (h\<lparr>ph_server := ph_server h @ b\<rparr>)"
    using assms by (simp add: phone_ok_def i)
qed

lemma phone_ok_flight:
  assumes "phone_ok session m h" and "\<exists>r. sp_queue (ph_page h) = batch_of f @ r" and "\<And>b. f = Acked b \<Longrightarrow> set b \<subseteq> set (ph_server h)"
  shows "phone_ok session m (h\<lparr>ph_page := (ph_page h)\<lparr>sp_flight := f\<rparr>\<rparr>)"
  using assms by (simp add: phone_ok_def page_ok_def)

lemma phone_ok_settled:
  assumes ok: "phone_ok session m h" and a: "sp_flight (ph_page h) = Acked b"
  defines "h' \<equiv> h\<lparr>ph_store := store_delete b (ph_store h),
      ph_page := (ph_page h)\<lparr>sp_queue := drop (length b) (sp_queue (ph_page h)), sp_flight := Idle\<rparr>\<rparr>"
  shows "phone_ok session m h'" and "items h' = items h"
proof -
  obtain r where q: "sp_queue (ph_page h) = b @ r" using ok a by (auto simp: phone_ok_def page_ok_def)
  have b: "set b \<subseteq> set (ph_server h)" using ok a by (simp add: phone_ok_def)
  then show i: "items h' = items h" by (auto simp: items_def q h'_def)
  have "page_ok session m (ph_page h')" using ok by (simp add: phone_ok_def page_ok_def q h'_def)
  moreover have "set r \<subseteq> set (store_delete b (ph_store h)) \<union> set (sp_puts (ph_page h))"
    using ok by (auto simp: phone_ok_def page_ok_def q store_delete_def)
  moreover have "set (store_delete b (ph_store h)) \<subseteq> set (ph_store h)" by (auto simp: store_delete_def)
  moreover have "distinct (map it_nonce (store_delete b (ph_store h)))"
    using ok by (simp add: phone_ok_def store_delete_def distinct_map_filter)
  ultimately show "phone_ok session m h'"
    using ok by (simp add: phone_ok_def i) (auto simp: h'_def q)
qed

lemma seen_fold: "distinct xs \<Longrightarrow> distinct (foldl (\<lambda>xs i. set_add (it_pieceId i) xs) xs q) \<and>
   set (foldl (\<lambda>xs i. set_add (it_pieceId i) xs) xs q) = set xs \<union> it_pieceId ` set q"
  by (induction q arbitrary: xs) (auto simp: set_add_def)

lemma boot_parts:
  "sp_session (boot session m b s) = session" "sp_manifest (boot session m b s) = m"
  "sp_puts (boot session m b s) = []" "sp_flight (boot session m b s) = Idle" "sp_online (boot session m b s) = b"
  "set (sp_queue (boot session m b s)) = {i \<in> set s. it_session i = session}"
  "distinct (sp_seen (boot session m b s))"
  "set (sp_seen (boot session m b s)) = it_pieceId ` {i \<in> set s. it_session i = session}"
  by (auto simp: boot_def loadQueue_def page_opened_def Let_def seen_fold)

lemma boot_nonces: "distinct (map it_nonce s) \<Longrightarrow> distinct (map it_nonce (sp_queue (boot session m b s)))"
proof -
  assume "distinct (map it_nonce s)"
  then have "distinct (map it_nonce (sort_key (\<lambda>i. codes (it_nonce i)) s))"
    by (simp add: distinct_map)
  then show ?thesis by (simp add: boot_def loadQueue_def page_opened_def Let_def distinct_map_filter)
qed

lemma phone_ok_reloaded:
  assumes ok: "phone_ok session m h" and puts: "sp_puts (ph_page h) = []"
  shows "phone_ok session m (h\<lparr>ph_page := boot session m b (ph_store h)\<rparr>)"
    and "items (h\<lparr>ph_page := boot session m b (ph_store h)\<rparr>) = items h"
proof -
  let ?h = "h\<lparr>ph_page := boot session m b (ph_store h)\<rparr>"
  have s: "set (ph_store h) \<subseteq> items h" "set (sp_queue (ph_page h)) \<subseteq> set (ph_store h)"
    and o: "items_ok session m (items h)" using ok puts by (simp_all add: phone_ok_def)
  then have st: "{i \<in> set (ph_store h). it_session i = session} = set (ph_store h)" by (auto simp: items_ok_def)
  show i: "items ?h = items h"
    using s by (auto simp: items_def boot_parts st)
  have "it_pieceId ` set (ph_store h) \<subseteq> set (pm_pieceIds m)" using s o by (auto simp: items_ok_def)
  then have "page_ok session m (boot session m b (ph_store h))"
    using ok by (simp add: page_ok_def boot_parts st boot_nonces phone_ok_def)
  then show "phone_ok session m ?h"
    using ok s o by (simp add: phone_ok_def i boot_parts st image_mono)
qed

text \<open>Each event keeps the phone in order and loses nothing.\<close>

lemma scan_step_ok:
  assumes ok: "phone_ok session m h" and fresh: "\<forall>n. nonce_of e = Some n \<longrightarrow> n \<notin> nonces h"
    and put: "\<forall>t. e = Reloaded t \<longrightarrow> sp_puts (ph_page h) = []"
  shows "phone_ok session m (scan_step e h) \<and> items (scan_step e h) = items h \<union> set (new_items e h)"
proof (cases e)
  case (Frame now nonce stamp payload)
  with phone_ok_scan [OF ok, of nonce] fresh show ?thesis by (simp add: new_items_def)
next
  case (Typed now nonce stamp v)
  show ?thesis
  proof (cases "truthy v")
    case True
    with Typed phone_ok_scan [OF ok, of nonce] fresh show ?thesis by (simp add: new_items_def manual_entry_def)
  next
    case False
    with Typed ok show ?thesis by (simp add: new_items_def manual_entry_def in_page_def)
  qed
next
  case Stored
  with ok phone_ok_flush [OF phone_ok_stored [OF ok]] show ?thesis
    by (cases "sp_puts (ph_page h)") (simp_all add: new_items_def in_page_def items_def)
next
  case Timer
  with ok phone_ok_flush [of session m "ph_page h" h] show ?thesis by (simp add: new_items_def in_page_def)
next
  case (Online b)
  have "phone_ok session m (h\<lparr>ph_page := (ph_page h)\<lparr>sp_online := b\<rparr>\<rparr>)" by (rule phone_ok_quiet [OF ok]) simp_all
  with phone_ok_flush [OF this] Online show ?thesis by (cases b) (simp_all add: new_items_def in_page_def Let_def)
next
  case (Replied r)
  have idle: "phone_ok session m (h\<lparr>ph_page := (ph_page h)\<lparr>sp_flight := Idle\<rparr>\<rparr>)"
    by (rule phone_ok_flight [OF ok]) simp_all
  show ?thesis
  proof (cases "sp_flight (ph_page h)")
    case (Sent b)
    let ?h = "h\<lparr>ph_server := ph_server h @ b\<rparr>"
    have q: "\<exists>r. sp_queue (ph_page ?h) = b @ r" using ok Sent by (auto simp: phone_ok_def page_ok_def)
    note t = phone_ok_taken [OF ok Sent]
    have "phone_ok session m (?h\<lparr>ph_page := (ph_page ?h)\<lparr>sp_flight := Acked b\<rparr>\<rparr>)"
      by (rule phone_ok_flight [OF t(1)]) (use q in auto)
    moreover have "phone_ok session m (?h\<lparr>ph_page := (ph_page ?h)\<lparr>sp_flight := Idle\<rparr>\<rparr>)"
      by (rule phone_ok_flight [OF t(1)]) simp_all
    ultimately show ?thesis using Replied Sent idle t(2)
      by (cases r) (simp_all add: new_items_def in_page_def items_def)
  qed (use Replied ok in \<open>simp_all add: new_items_def\<close>)
next
  case Settled
  then show ?thesis
    using ok phone_ok_settled [OF ok]
    by (cases "sp_flight (ph_page h)") (simp_all add: new_items_def in_page_def)
next
  case (Reloaded taken)
  define h1 where "h1 = (case sp_flight (ph_page h) of Sent b \<Rightarrow> if taken then h\<lparr>ph_server := ph_server h @ b\<rparr> else h | _ \<Rightarrow> h)"
  have h1: "phone_ok session m h1" "items h1 = items h" "ph_page h1 = ph_page h" "ph_store h1 = ph_store h"
    using ok phone_ok_taken [OF ok] by (auto simp: h1_def split: flight.splits)
  have "scan_step e h = h1\<lparr>ph_page := boot session m (sp_online (ph_page h)) (ph_store h1)\<rparr>"
    using ok by (simp add: Reloaded h1_def Let_def phone_ok_def page_ok_def split: flight.split)
  with phone_ok_reloaded [OF h1(1)] put h1 Reloaded show ?thesis by (simp add: new_items_def)
qed

lemma phone_ok_open: "phone_ok session m \<lparr>ph_page = boot session m b [], ph_store = [], ph_server = []\<rparr>"
  unfolding phone_ok_def page_ok_def items_ok_def items_def by (simp add: boot_def loadQueue_def page_opened_def Let_def)

lemma scanning_ok: "scanning session m h is \<Longrightarrow> phone_ok session m h \<and> items h = set is"
proof (induction rule: scanning.induct)
  case (open_page b)
  show ?case
    by (rule conjI, rule phone_ok_open) (simp add: items_def boot_def loadQueue_def page_opened_def Let_def)
next
  case (event h "is" e)
  with scan_step_ok [of session m h e] show ?case by simp
qed

section \<open>The queue empties\<close>

text \<open>One round of the timer with a server that accepts.\<close>

definition synced :: "phone \<Rightarrow> phone" where
  "synced h = scan_step Settled (scan_step (Replied Accepted) (scan_step Timer h))"

lemma synced_round:
  assumes "sp_flight (ph_page h) = Idle" and "sp_online (ph_page h)"
  shows "sp_queue (ph_page (synced h)) = drop BATCH (sp_queue (ph_page h))" "sp_flight (ph_page (synced h)) = Idle"
    "sp_online (ph_page (synced h))" "ph_server (synced h) = ph_server h @ take BATCH (sp_queue (ph_page h))"
    "sp_seen (ph_page (synced h)) = sp_seen (ph_page h)"
  using assms by (cases "sp_queue (ph_page h) = []"; simp add: synced_def in_page_def flush_def BATCH_def min_def)+

lemma synced_rounds:
  assumes "sp_flight (ph_page h) = Idle" and "sp_online (ph_page h)"
  shows "sp_queue (ph_page ((synced ^^ n) h)) = drop (n * BATCH) (sp_queue (ph_page h)) \<and>
    sp_flight (ph_page ((synced ^^ n) h)) = Idle \<and> sp_online (ph_page ((synced ^^ n) h)) \<and>
    ph_server ((synced ^^ n) h) = ph_server h @ take (n * BATCH) (sp_queue (ph_page h)) \<and>
    sp_seen (ph_page ((synced ^^ n) h)) = sp_seen (ph_page h)"
proof (induction n)
  case (Suc n)
  let ?h = "(synced ^^ n) h"
  from Suc have i: "sp_flight (ph_page ?h) = Idle" "sp_online (ph_page ?h)" by simp_all
  have "take (n * BATCH) q @ take BATCH (drop (n * BATCH) q) = take (BATCH + n * BATCH) q" for q :: "scan_item list"
    by (metis add.commute take_add)
  with Suc synced_round [OF i] show ?case by simp
qed (use assms in simp)

section \<open>What the page gets wrong\<close>

text \<open>After everything has been sent, a reload starts the count again from nothing.\<close>

lemma reload_forgets:
  assumes "ph_store h = []"
  shows "render (ph_page (scan_step (Reloaded t) h)) =
    (0, if pm_pieceCount (sp_manifest (ph_page h)) = 0 then COMPLETE else MISSING (int (pm_pieceCount (sp_manifest (ph_page h)))))"
  using assms
  by (cases "sp_flight (ph_page h)") (auto simp: Let_def boot_def loadQueue_def page_opened_def render_def missing_count_def)

text \<open>
  The receiver's button waits for one flush: what is queued beyond one batch, or behind a batch already
  under way, stays on the phone while the page leaves with the full count.
\<close>

lemma finish_leaves_queue:
  assumes "sp_flight (ph_page h) = Idle" and "sp_online (ph_page h)" and "BATCH < length (sp_queue (ph_page h))"
  shows "sp_queue (ph_page (synced h)) \<noteq> [] \<and>
    finish True (ph_page (synced h)) = Some (sp_session (ph_page (synced h)), length (sp_seen (ph_page h)))"
  using synced_round [OF assms(1,2)] assms(3) by (simp add: finish_def)

lemma finish_waits_for_nothing: "sp_flight p = Sent b \<Longrightarrow> flush p = p"
  by (simp add: flush_def)

text \<open>An id typed with its check digit is read without it, so the digit is never checked.\<close>

lemma check_digit_ignored: "isWellFormedPieceId k \<Longrightarrow> extractPieceId (k @ CHR ''-'' # [c]) = Some k"
  by (rule extract_id)

end
