(* ===== verification/Label_Sheets.thy ===== *)
theory Label_Sheets imports Manifest begin

text \<open>
  \<open>custody/qr/labels.ts\<close>: the sheets of stickers for a manifest, as the list of what is drawn, in drawing
  order, in PDF points from the top left. The lemmas place every label on its page, apart from the others,
  and every mark of a label inside its cut line.
\<close>

section \<open>The sheet\<close>

definition COLS :: nat where "COLS = 3"
definition ROWS :: nat where "ROWS = 8"
definition PER_PAGE :: nat where "PER_PAGE = COLS * ROWS"
definition PAGE_W :: real where "PAGE_W = 595.28"
definition PAGE_H :: real where "PAGE_H = 841.89"
definition MARGIN :: real where "MARGIN = 28"

definition cellW :: real where "cellW = (PAGE_W - MARGIN * 2) / real COLS"
definition cellH :: real where "cellH = (PAGE_H - MARGIN * 2 - 30) / real ROWS"
definition qrSize :: real where "qrSize = min cellW cellH - 34"

text \<open>
  The drawing calls: a new page, the text above the sheet, the cut guide, the code, the id with its check
  digit, the place in the manifest with the stock number. Fixed words of the texts are left out.
\<close>

datatype ink =
    NewPage
  | Heading string string nat nat nat real real
  | CutGuide real real real real
  | QrCode string real real real
  | IdText string real real real
  | IndexText nat nat "string option" real real real

text \<open>One label, at its place \<open>i\<close> of the page and its number \<open>idx\<close> of the run.\<close>

definition label_x :: "nat \<Rightarrow> real" where
  "label_x i = MARGIN + real (i mod COLS) * cellW"

definition label_y :: "nat \<Rightarrow> real" where
  "label_y i = MARGIN + 22 + real (i div COLS) * cellH"

definition draw_label :: "string \<Rightarrow> manifest \<Rightarrow> nat \<Rightarrow> nat \<Rightarrow> piece \<Rightarrow> ink list" where
  "draw_label base m i idx p =
     (let x = label_x i; y = label_y i in
      [CutGuide x y (cellW - 6) (cellH - 6),
       QrCode (qrPayload base (p_pieceId p)) (x + 6) (y + 5) qrSize,
       IdText (p_pieceId p @ ''-'' @ [checkDigit (p_pieceId p)]) (x + 6) (y + qrSize + 8) (cellW - 14),
       IndexText (idx + 1) (m_pieceCount m) (if truthy (p_sku p) then p_sku p else None) (x + 6) (y + qrSize + 18) (cellW - 14)])"

text \<open>The inner loop, and the outer one: a page for every \<open>PER_PAGE\<close> pieces.\<close>

definition draw_page :: "string \<Rightarrow> manifest \<Rightarrow> piece list \<Rightarrow> nat \<Rightarrow> ink list" where
  "draw_page base m ps start =
     NewPage # Heading (take 10 (m_manifestId m)) (to_upper (take 8 (m_bookingId m))) (m_pieceCount m)
       (start div PER_PAGE + 1) ((length ps + PER_PAGE - 1) div PER_PAGE) MARGIN (MARGIN - 12) #
     concat (map (\<lambda>i. draw_label base m i (start + i) (ps ! (start + i))) [0 ..< min PER_PAGE (length ps - start)])"

function draw_from :: "string \<Rightarrow> manifest \<Rightarrow> piece list \<Rightarrow> nat \<Rightarrow> ink list" where
  "draw_from base m ps start =
     (if start < length ps then draw_page base m ps start @ draw_from base m ps (start + PER_PAGE) else [])"
  by pat_completeness auto
termination
  by (relation "measure (\<lambda>(base, m, ps, start). length ps - start)") (auto simp: PER_PAGE_def COLS_def ROWS_def)

declare draw_from.simps [simp del]

text \<open>Which pieces are printed: those asked for, or all when none is named.\<close>

definition pieces_to_print :: "manifest \<Rightarrow> string list option \<Rightarrow> piece list" where
  "pieces_to_print m only =
     (if coalesce only [] = [] then m_pieces m else filter (\<lambda>p. p_pieceId p \<in> set (the only)) (m_pieces m))"

definition renderLabelSheet :: "string \<Rightarrow> manifest \<Rightarrow> string list option \<Rightarrow> exn + ink list" where
  "renderLabelSheet base m only =
     (let ps = pieces_to_print m only in
      if ps = [] then Inl (Error ''NO_PIECES_TO_PRINT'') else Inr (draw_from base m ps 0))"

definition renderFullSheet :: "string \<Rightarrow> manifest \<Rightarrow> exn + ink list" where
  "renderFullSheet base m = renderLabelSheet base m None"

section \<open>Pages\<close>

lemma sheet_sizes: "PER_PAGE = 24" "cellW = 179.76" "cellH = 94.48625" "qrSize = 60.48625"
  by (simp_all add: PER_PAGE_def COLS_def ROWS_def cellW_def cellH_def qrSize_def PAGE_W_def PAGE_H_def MARGIN_def)

text \<open>What of a page is taken by a mark of known size, its corners and its extent.\<close>

fun box :: "ink \<Rightarrow> (real \<times> real \<times> real \<times> real) option" where
  "box (CutGuide x y w h) = Some (x, y, w, h)"
| "box (QrCode _ x y n) = Some (x, y, n, n)"
| "box (IdText _ x y w) = Some (x, y, w, 8)"
| "box (IndexText _ _ _ x y w) = Some (x, y, w, 7)"
| "box _ = None"

fun inside :: "real \<times> real \<times> real \<times> real \<Rightarrow> real \<times> real \<times> real \<times> real \<Rightarrow> bool" where
  "inside (x, y, w, h) (x', y', w', h') \<longleftrightarrow> x' \<le> x \<and> x + w \<le> x' + w' \<and> y' \<le> y \<and> y + h \<le> y' + h'"

fun apart :: "real \<times> real \<times> real \<times> real \<Rightarrow> real \<times> real \<times> real \<times> real \<Rightarrow> bool" where
  "apart (x, y, w, h) (x', y', w', h') \<longleftrightarrow> x + w < x' \<or> x' + w' < x \<or> y + h < y' \<or> y' + h' < y"

definition printable :: "real \<times> real \<times> real \<times> real" where
  "printable = (MARGIN, MARGIN, PAGE_W - 2 * MARGIN, PAGE_H - 2 * MARGIN)"

definition cell :: "nat \<Rightarrow> real \<times> real \<times> real \<times> real" where
  "cell i = (label_x i, label_y i, cellW - 6, cellH - 6)"

lemma grid_place:
  assumes "i < PER_PAGE" shows "i mod COLS \<le> 2" and "i div COLS \<le> 7"
  using assms by (auto simp: PER_PAGE_def COLS_def ROWS_def)

lemma cell_printable:
  assumes "i < PER_PAGE" shows "inside (cell i) printable"
proof -
  have "real (i mod COLS) \<le> 2" "real (i div COLS) \<le> 7" using grid_place [OF assms] by linarith+
  then show ?thesis
    by (simp add: cell_def printable_def label_x_def label_y_def sheet_sizes MARGIN_def PAGE_W_def PAGE_H_def)
qed

lemma cells_apart:
  assumes "i \<noteq> j" shows "apart (cell i) (cell j)"
proof (cases "i mod COLS = j mod COLS")
  case True
  with assms have "i div COLS \<noteq> j div COLS" by (metis div_mult_mod_eq)
  then have "real (i div COLS) + 1 \<le> real (j div COLS) \<or> real (j div COLS) + 1 \<le> real (i div COLS)" by linarith
  then show ?thesis by (auto simp: cell_def label_y_def sheet_sizes)
next
  case False
  then have "real (i mod COLS) + 1 \<le> real (j mod COLS) \<or> real (j mod COLS) + 1 \<le> real (i mod COLS)" by linarith
  then show ?thesis by (auto simp: cell_def label_x_def sheet_sizes)
qed

lemma marks_in_cell: "a \<in> set (draw_label base m i idx p) \<Longrightarrow> box a = Some b \<Longrightarrow> inside b (cell i)"
  by (auto simp: draw_label_def Let_def cell_def sheet_sizes)

lemma inside_trans: "inside a b \<Longrightarrow> inside b c \<Longrightarrow> inside a c"
  by (cases a; cases b; cases c) auto

section \<open>What is printed\<close>

fun code_of :: "ink \<Rightarrow> string option" where
  "code_of (QrCode c _ _ _) = Some c"
| "code_of _ = None"

definition codes_on :: "ink list \<Rightarrow> string list" where
  "codes_on inks = List.map_filter code_of inks"

lemma codes_append [simp]: "codes_on (xs @ ys) = codes_on xs @ codes_on ys"
  by (simp add: codes_on_def map_filter_def)

lemma codes_label: "codes_on (draw_label base m i idx p) = [qrPayload base (p_pieceId p)]"
  by (simp add: codes_on_def draw_label_def Let_def map_filter_simps)

lemma codes_concat: "codes_on (concat xss) = concat (map codes_on xss)"
  by (induction xss) (simp_all, simp add: codes_on_def map_filter_simps)

lemma codes_page:
  "codes_on (draw_page base m ps start) = map (\<lambda>p. qrPayload base (p_pieceId p)) (take PER_PAGE (drop start ps))"
proof -
  have "codes_on (draw_page base m ps start) =
      map (\<lambda>i. qrPayload base (p_pieceId (ps ! (start + i)))) [0 ..< min PER_PAGE (length ps - start)]"
    by (simp add: draw_page_def codes_on_def map_filter_simps)
      (simp flip: codes_on_def add: codes_concat o_def codes_label)
  also have "\<dots> = map (\<lambda>p. qrPayload base (p_pieceId p)) (take PER_PAGE (drop start ps))"
    by (rule nth_equalityI) auto
  finally show ?thesis .
qed

lemma codes_from: "codes_on (draw_from base m ps start) = map (\<lambda>p. qrPayload base (p_pieceId p)) (drop start ps)"
proof (induction base m ps start rule: draw_from.induct)
  case (1 base m ps start)
  show ?case
  proof (cases "start < length ps")
    case True
    have "take PER_PAGE (drop start ps) @ drop (start + PER_PAGE) ps = drop start ps"
      by (metis add.commute append_take_drop_id drop_drop)
    then show ?thesis
      using 1 [OF True] True by (simp add: draw_from.simps [of base m ps start] codes_page flip: map_append)
  next
    case False
    then show ?thesis by (simp add: draw_from.simps [of base m ps start] codes_on_def map_filter_simps)
  qed
qed

text \<open>Every mark of a run lies in a cell of its page.\<close>

lemma marks_on_pages: "a \<in> set (draw_from base m ps start) \<Longrightarrow> box a = Some b \<Longrightarrow> \<exists>i < PER_PAGE. inside b (cell i)"
proof (induction base m ps start rule: draw_from.induct)
  case (1 base m ps start)
  show ?case
  proof (cases "a \<in> set (draw_from base m ps (start + PER_PAGE)) \<and> start < length ps")
    case True
    with 1 show ?thesis by blast
  next
    case False
    with "1.prems" obtain i where i: "i < PER_PAGE" "a \<in> set (draw_label base m i (start + i) (ps ! (start + i)))"
      by (auto simp: draw_from.simps [of base m ps start] draw_page_def split: if_splits)
    from marks_in_cell [OF i(2) "1.prems"(2)] i(1) show ?thesis by blast
  qed
qed

definition pages :: "ink list \<Rightarrow> nat" where
  "pages inks = length (filter (\<lambda>a. a = NewPage) inks)"

lemma pages_page: "pages (draw_page base m ps start) = 1"
  by (auto simp: pages_def draw_page_def draw_label_def Let_def filter_empty_conv)

lemma pages_from: "pages (draw_from base m ps start) = (length ps - start + PER_PAGE - 1) div PER_PAGE"
proof (induction base m ps start rule: draw_from.induct)
  case (1 base m ps start)
  show ?case
  proof (cases "start < length ps")
    case True
    have "pages (draw_from base m ps start) = 1 + pages (draw_from base m ps (start + PER_PAGE))"
      using True pages_page [of base m ps start] by (simp add: draw_from.simps [of base m ps start] pages_def)
    moreover obtain k where "length ps - start = k + 1" using True by (metis add.commute less_imp_add_positive add_diff_cancel_left' Suc_diff_1 Suc_eq_plus1)
    then have "1 + (length ps - (start + 24) + 23) div 24 = (length ps - start + 23) div 24"
      by (cases "k < 24") (simp_all add: div_if diff_add_assoc2 flip: diff_diff_left)
    moreover have "23 + length ps - start = length ps - start + 23" using True by simp
    ultimately show ?thesis using 1 [OF True] by (simp add: sheet_sizes add.commute)
  next
    case False
    then show ?thesis by (simp add: draw_from.simps [of base m ps start] pages_def sheet_sizes)
  qed
qed

text \<open>A reprint of some labels numbers them from one, over the count of the whole manifest.\<close>

lemma reprint_renumbers:
  assumes "pieces_to_print m only = [p]"
  shows "\<exists>inks x y w. renderLabelSheet base m only = Inr inks \<and>
    IndexText 1 (m_pieceCount m) (if truthy (p_sku p) then p_sku p else None) x y w \<in> set inks"
  using assms
  by (intro exI [of _ "draw_from base m [p] 0"] exI [of _ "label_x 0 + 6"] exI [of _ "label_y 0 + qrSize + 18"] exI [of _ "cellW - 14"])
    (simp add: renderLabelSheet_def Let_def draw_from.simps [of base m "[p]" 0] draw_page_def draw_label_def sheet_sizes)

end
