(* ===== verification/Dock_Properties.thy ===== *)
theory Dock_Properties imports Scan_Page Label_Sheets Samples begin

text \<open>
  From the printed label to the counted delivery: what the sheets hold, and what the scanning page keeps.
\<close>



lemma dock_piece_well_formed: "isWellFormedPieceId PIECE"
  by (simp add: PIECE_def isWellFormedPieceId_def matches_def starts_with_def strict_id_char_def in_range_def)



text \<open>C30: A page that is online with no request under way has nothing left to send after as many good rounds of its
  timer as its queue has batches of fifty, and then every scan it ever accepted is at the server.\<close>

theorem queue_drains:
  assumes "scanning session m h is" and "sp_flight (ph_page h) = Idle" and "sp_online (ph_page h)"
  defines "h' \<equiv> (synced ^^ ((length (sp_queue (ph_page h)) + BATCH - 1) div BATCH)) h"
  shows "sp_queue (ph_page h') = [] \<and> set is \<subseteq> set (ph_server h') \<and> sp_seen (ph_page h') = sp_seen (ph_page h)"
proof -
  let ?q = "sp_queue (ph_page h)" let ?n = "(length ?q + BATCH - 1) div BATCH"
  have n: "length ?q \<le> ?n * BATCH" by (simp add: BATCH_def)
  have "set is = set (ph_server h) \<union> set ?q" using scanning_ok [OF assms(1)] by (simp add: items_def)
  with synced_rounds [OF assms(2,3), of ?n] n show ?thesis by (simp add: h'_def)
qed

section \<open>One box scanned\<close>

definition dock_manifest :: page_manifest where
  "dock_manifest = \<lparr>pm_manifestId = HASH, pm_pieceCount = 1, pm_pieceIds = [PIECE]\<rparr>"

definition dock_open :: phone where
  "dock_open = \<lparr>ph_page = boot ''s'' dock_manifest True [], ph_store = [], ph_server = []\<rparr>"

definition dock_scanned :: phone where
  "dock_scanned = scan_step (Frame 1000 ''n1'' ''t'' (qrPayload ''https://app.test'' PIECE)) dock_open"

definition dock_item :: scan_item where
  "dock_item = \<lparr>it_nonce = ''n1'', it_session = ''s'', it_pieceId = PIECE, it_manifestId = HASH, it_scannedAt = ''t''\<rparr>"

lemma dock_page: "ph_page dock_scanned = \<lparr>sp_session = ''s'', sp_manifest = dock_manifest, sp_seen = [PIECE],
    sp_queue = [dock_item], sp_puts = [dock_item], sp_flight = Idle, sp_lastAt = 1000, sp_online = True\<rparr>"
  "ph_server dock_scanned = []"
  using extract_payload [OF dock_piece_well_formed, of "''https://app.test''"]
  by (simp_all add: dock_scanned_def dock_open_def in_page_def boot_def loadQueue_def page_opened_def Let_def
      handlePayload_def enqueue_def dock_manifest_def set_add_def dock_item_def)

lemma dock_scanning: "scanning ''s'' dock_manifest dock_scanned [dock_item]"
proof -
  have o: "scanning ''s'' dock_manifest dock_open []" unfolding dock_open_def by (rule scanning.open_page)
  have n: "nonces dock_open = {}" "sp_queue (ph_page dock_open) = []"
    by (simp_all add: nonces_def dock_open_def boot_def loadQueue_def page_opened_def Let_def)
  have "scanning ''s'' dock_manifest dock_scanned ([] @ new_items (Frame 1000 ''n1'' ''t'' (qrPayload ''https://app.test'' PIECE)) dock_open)"
    unfolding dock_scanned_def by (rule scanning.event [OF o]) (simp_all add: n)
  moreover have "new_items (Frame 1000 ''n1'' ''t'' (qrPayload ''https://app.test'' PIECE)) dock_open = [dock_item]"
    using dock_page(1) n(2) by (simp add: new_items_def dock_scanned_def del: scan_step.simps)
  ultimately show ?thesis by simp
qed


theorem queue_drains_witness:
  "dock_item \<in> set (ph_server (synced dock_scanned)) \<and> sp_queue (ph_page (synced dock_scanned)) = []"
  using queue_drains [OF dock_scanning] by (simp add: dock_page BATCH_def)

end
