(* ===== verification/Spec2Isabelle.thy ===== *)
theory Spec2Isabelle imports Custody_Properties Manifest_Properties Signing_Properties Company_Properties
  Gps_Properties Anchor_Properties
  Dispatch_Properties Tenancy_Properties Settlement_Properties
  Api_Properties Contract_Properties Dock_Properties begin

text \<open>
  A model of the DTD logistics platform and its correctness theorems.

  The platform moves goods under signed custody. A company signs up (\<open>identity/\<close>), its plan gives
  it modules, its users log in and pass one guard on every route. A transporter declares a
  manifest of pieces (\<open>custody/manifest\<close>), the manifest's hash is anchored in the contract
  \<open>chain/contracts/CustodyManifest.sol\<close>, loader and driver sign over cosign links, pieces are
  scanned at loading and unloading (\<open>custody/doublescan\<close>, \<open>custody/reconcile\<close>), the receiver signs
  the scanned count with a key held for the phone (\<open>chain/keys\<close>), and the release gate decides
  whether money may move. A public page and a fork detector look for copied labels. Trackers send signed
  pings (\<open>gps/\<close>) that are batched into Merkle trees and anchored per trip. Around this the platform
  (\<open>platform/api\<close>) keeps fleets, quotes, bookings, payments and papers in one database, and an
  orchestration service starts and ends a trip across all of them.

  Shared.
  \<^item> \<open>Prelude\<close>: the state-and-exception type \<open>('s, 'a) exec\<close> (a state goes to an error or a value,
    and a state), its combinators with their success and failure equations (collection
    \<open>exec_iff\<close>), table updates (\<open>update_where\<close>, collection \<open>table_simps\<close>), and JavaScript's text and
    rounding functions.
  \<^item> \<open>Json\<close>, \<open>Tokens\<close>: \<open>JSON.stringify\<close> and \<open>JSON.parse\<close>, base64url and the sealed tokens, with
    their round trips. Strings are UTF-8 byte lists.

  Identity (\<open>identity/\<close>, \<open>shared/\<close>).
  \<^item> \<open>Plan_Modules\<close> (\<open>shared/modules.schema.ts\<close>), \<open>Role_Matrix\<close> (\<open>shared/roles.schema.ts\<close>,
    \<open>rbac/permissions.ts\<close>), \<open>Access_Tokens\<close> (\<open>auth/jwt.ts\<close>), \<open>Guards\<close> (\<open>rbac/guards.ts\<close>).
  \<^item> \<open>Entitlements\<close>, \<open>Billing\<close>, \<open>Overrides\<close> (\<open>subscriptions/\<close>): the entitlement store with its cache,
    plan changes, proration, webhooks, dunning, and the SuperAdmin's overrides.
  \<^item> \<open>Sessions\<close> (\<open>auth/login.ts\<close>, \<open>auth/session.ts\<close>, \<open>rbac/roles.ts\<close>) and \<open>Onboarding\<close>
    (\<open>companies/\<close>), the latter with the abstract step relation \<open>onboard\<close> it refines.

  Custody and chain (\<open>custody/\<close>, \<open>chain/\<close>, \<open>platform/api/custody\<close>, \<open>platform/api/common\<close>).
  \<^item> \<open>Custody_Chain\<close>: the contract as a state with one partial function per transaction, the step
    relation \<open>chain_step\<close>, reachability and the invariant \<open>chain_inv\<close>; then the SDK calls over it.
    Counts are 32 bit words and times 64 bit words.
  \<^item> \<open>Database\<close>: the tables, transactions that roll back, the row-level-security context, the audit
    log outside the transaction. A \<open>world\<close> is tables, chain and audit log.
  \<^item> \<open>Pieces\<close>, \<open>Manifest\<close>, \<open>Manifest_Store\<close>: ids, the schema and its canonical text, the store and
    the builder. \<open>Scan_Log\<close>, \<open>Handoff\<close>, \<open>Reconcile\<close>, \<open>Fork_Detector\<close>, \<open>Verify_Page\<close>, \<open>Cosign\<close>,
    \<open>Otp\<close>, \<open>Signer\<close>, \<open>Release_Gate\<close>: one theory per module of the code, named after it.
  \<^item> \<open>Custody_Service\<close>: the service of \<open>platform/api/custody\<close>, composed as the code composes it.

  GPS (\<open>gps/\<close>, \<open>chain/contracts/TripLogAnchor.sol\<close>, \<open>chain/sdk/merkle.ts\<close>, \<open>platform/api/gps\<close>).
  \<^item> \<open>Trip_Log\<close>: the contract, its step relation, and the locale \<open>window_log\<close> of logs whose windows
    follow one another; \<open>Merkle_Proofs\<close>: the SDK's trees. The merkletreejs package is a parameter with
    the law \<open>merkle_ok\<close> (a proof it makes folds to the root it made); a reference tree keeps the law.
  \<^item> \<open>Gps_Devices\<close>: devices, bindings and the rate window, over a transaction that a failed statement
    aborts: every later statement then fails too, as in Postgres. \<open>Gps_Ingest\<close>: the gateway's checks and
    its signature tiers. \<open>Gps_Batching\<close>: batcher, batch table, queue, worker and reorg auditor.
    \<open>Gps_Journey\<close>: stops and time line, with exact reals for the code's doubles. \<open>Gps_Proof\<close>: proofs
    of a moment and the service. \<open>Gps_Samples\<close> holds the sample data.
  \<^item> \<open>window_log\<close> is interpreted on the contract (\<open>trip_contract\<close>) and on the batch table
    (\<open>batch_table\<close>).

  The platform (\<open>platform/\<close>, \<open>chain/contracts/DocumentRegistry.sol\<close>).
  \<^item> \<open>Document_Registry\<close>: the contract, and the locale \<open>write_once\<close> of tables whose entries never
    change, interpreted on the contract (\<open>doc_contract\<close>) and on the documents table (\<open>doc_table\<close>).
  \<^item> \<open>Platform_Db\<close>: the tables of \<open>db/schema.sql\<close>, tenant and system transactions, the joined client,
    row-level security (\<open>visible\<close>) and audit. A \<open>platform\<close> is tables, the custody world, the GPS world
    and the document register; a failing transaction puts the tables back, never a contract. A
    computation is \<open>confined\<close> to a company when it leaves the rows of every other one alone.
  \<^item> \<open>Fleet\<close> (fleet and pricing), \<open>Bookings\<close>, \<open>Payments\<close> (both webhooks, with the locale
    \<open>first_event_wins\<close> interpreted as \<open>gateway\<close>), \<open>Trips\<close> (orchestration and the resolver of
    participants) and \<open>Back_Office\<close> (insurance, documents, claims, KYC, support).
  \<^item> \<open>Controllers\<close>: the DTO classes of \<open>platform/api\<close> as validators of JSON bodies, and the routes of
    every controller with the roles and modules their decorators name; \<open>Api\<close>: the answer of the server
    to a request, which is the validation pipe, then the guard (with the access token, the role
    matrix and the entitlements), then the one service call of the handler.
  \<^item> \<open>Platform_Samples\<close>: a small platform state for the witnesses.

  The other contracts and the client of all of them (\<open>chain/contracts\<close>, \<open>chain/sdk/verify.ts\<close>,
  \<open>chain/scripts/deploy.ts\<close>).
  \<^item> \<open>Reputation\<close>: \<open>ReputationLedger.sol\<close>, its call in \<open>sdk/anchor.ts\<close> and
    \<open>shared/attestation.schema.ts\<close>; \<open>write_once\<close> is interpreted on its attestations.
  \<^item> \<open>Escrow\<close>: \<open>Escrow.sol\<close> beside the custody contract it asks and the balances of all accounts; a paid
    party's code is a script of further calls, run before the payment returns. The locale
    \<open>escrow_promise\<close> is interpreted on the escrow's books and on its deposits.
  \<^item> \<open>Chain_Reader\<close>: the reading half of the SDK over the five contracts. \<open>Deployment\<close>: the deployment
    script with its checks, whose result is the initial state of the contracts.

  At the dock (\<open>custody/scanner/pwa/scanner.js\<close>, \<open>custody/qr/labels.ts\<close>).
  \<^item> \<open>Scan_Page\<close>: the page's state (the pieces seen, the queue in the browser's database, the batch
    under way) with one step per event of the page, reloads, lost replies and refusals included.
  \<^item> \<open>Label_Sheets\<close>: the layout of the sheets as a list of drawing commands with positions.

  Interfaces are locales interpreted on the model's own stores: \<open>manifest_reader\<close> on the Postgres
  manifest store and \<open>signer_stores\<close> on the Postgres key tables and on the in-memory stand-ins of
  one request, among others.

  Properties. \<open>Custody_Properties\<close>, \<open>Manifest_Properties\<close>, \<open>Signing_Properties\<close>,
  \<open>Identity_Properties\<close> and \<open>Company_Properties\<close> state what makes custody and identity correct and
  exercise each statement on the sample runs of \<open>Samples\<close> (one consignment, taken through every stage).
  \<open>Gps_Properties\<close> and \<open>Anchor_Properties\<close> do so for the way of a ping to the chain and back to a
  proof. \<open>Dispatch_Properties\<close> shows that bookings, trips and the contract agree, whatever operations
  follow one another; \<open>Tenancy_Properties\<close> that no request of a company touches another's rows and that
  rows keep their types; \<open>Settlement_Properties\<close> carries a signed delivery to the payout and states what
  the webhooks and the document register guarantee. \<open>Api_Properties\<close> is about whole requests: which
  routes a role reaches under which plan, and that no answer changes another company's rows.
  \<open>Contract_Properties\<close> is about reputation, escrow and deployment in every reachable state;
  \<open>Dock_Properties\<close> shows that what is printed scans back and that no accepted scan is lost between
  the page and the server.

  Conventions. The clock is read once per operation and passed as \<open>now\<close> in milliseconds. Random
  ids and bytes, the answers of the payment gateway, of the rate limiter and of \<open>fetch\<close> are
  arguments. Hashes, ciphers, MACs, scrypt and signature recovery are functions of an environment
  record; what is assumed of them is named where it is used (\<open>mac_shape\<close>, \<open>cipher_ok\<close>,
  \<open>signatures_recover\<close>). Queries of stores the repository only declares (\<open>listPastDue\<close>,
  \<open>listExpired\<close>, \<open>markExpired\<close>) are arguments too. A violated constraint or policy of the schema is
  the error \<open>PgError\<close>. The minting loop runs over the random blocks it drew and is \<open>None\<close> when they
  run out before enough different ids came up; with enough different blocks it returns.

  Doubles are exact reals, so rounding errors of coordinates and prices are not seen. Foreign keys to
  the users table (\<open>created_by\<close>, \<open>reviewed_by\<close>) are not checked. The tables of the identity, custody,
  GPS and platform schemas are separate parts of the state; a transaction over several of them puts back
  all of its parts when it fails.

  The browser's database is taken to open and the session request of the scan page to succeed; the
  rates of the ledger's client are exact fractions.

  Not modelled: the dependency wiring of the Nest modules (\<open>*.module.ts\<close>), the camera, the sounds and
  the DOM of the scan page and the fixed words of the labels, \<open>shared/constants.ts\<close> (no file imports
  it), the demonstration script \<open>chain/scripts/roundtrip.ts\<close> and the build configurations, and vendored
  code.
\<close>

end
